(* ===== verification/Apm_Prelude.thy ===== *)
theory Apm_Prelude
  imports
    Complex_Main
    "HOL-Library.Sublist"
    "HOL-Library.Char_ord"
    "HOL-Library.List_Lexorder"
    "HOL-Library.Multiset"
    "HOL-Library.Code_Target_Nat"
begin

section \<open>Shared types, Python primitives and generic lemmas\<close>

text \<open>
  This theory holds what every component of the development shares.

  \<^item> Python text is a \<open>string\<close> of its UTF-8 bytes. Equality, \<open>in\<close>, \<open>startswith\<close>, splitting on
    an ASCII separator and the order of dictionary keys agree with the code-point view, and
    \<open>len(s.encode("utf-8"))\<close> is \<open>length\<close>; \<open>cp_len\<close> counts code points where the source writes
    \<open>len(s)\<close>.
  \<^item> A value that may be JSON is a \<open>json\<close>; a dictionary is an association list in insertion
    order, updated by \<open>dict_put\<close>.
  \<^item> A float is the rational it denotes or one of the special values; the conversions between
    text and binary64, and the hash functions, are fields of the record \<open>runtime\<close>, so every
    definition that uses them takes them as an argument.
  \<^item> A function that raises returns \<open>exn + 'a\<close>: \<open>Api\<close> is an \<open>ApiError\<close> of \<open>errors.py\<close>,
    \<open>Uncaught\<close> is an exception no handler of the caller converts.
  \<^item> A table is a list of rows; \<open>sql_update\<close>, \<open>rowcount\<close> and \<open>order_limit\<close> are the SQL forms
    the code issues.
\<close>

named_theorems consts_simps \<open>the values of the constants of constants.py and of the modules\<close>
named_theorems row_simps \<open>how an operation changes the columns of a row\<close>

type_synonym time = int

subsection \<open>Exceptions and results\<close>

record api_error =
  status_code :: int
  err_code :: string
  err_message :: string
  err_retryable :: bool
  event_index :: "nat option"
  err_headers :: "(string \<times> string) list"

datatype exn = Api api_error | Uncaught string

type_synonym 'a result = "exn + 'a"

definition mk_error :: "int \<Rightarrow> string \<Rightarrow> string \<Rightarrow> bool \<Rightarrow> nat option \<Rightarrow> exn" where
  "mk_error status code msg retry idx =
     Api \<lparr>status_code = status, err_code = code, err_message = msg, err_retryable = retry,
          event_index = idx, err_headers = []\<rparr>"

definition mk_error_h :: "int \<Rightarrow> string \<Rightarrow> string \<Rightarrow> bool \<Rightarrow> (string \<times> string) list \<Rightarrow> exn" where
  "mk_error_h status code msg retry hs =
     Api \<lparr>status_code = status, err_code = code, err_message = msg, err_retryable = retry,
          event_index = None, err_headers = hs\<rparr>"

fun rbind :: "'e + 'a \<Rightarrow> ('a \<Rightarrow> 'e + 'b) \<Rightarrow> 'e + 'b" where
  "rbind (Inl e) f = Inl e"
| "rbind (Inr x) f = f x"

definition guard :: "bool \<Rightarrow> 'e \<Rightarrow> 'e + unit" where
  "guard b e = (if b then Inr () else Inl e)"

fun rmap :: "('a \<Rightarrow> 'e + 'b) \<Rightarrow> 'a list \<Rightarrow> 'e + 'b list" where
  "rmap f [] = Inr []"
| "rmap f (x # xs) = rbind (f x) (\<lambda>y. rbind (rmap f xs) (\<lambda>ys. Inr (y # ys)))"

subsection \<open>Values\<close>

datatype pyfloat = Fin rat | NegZero | PosInf | NegInf | NaN

datatype scalar = SNone | SBool bool | SInt int | SFloat pyfloat | SStr string

datatype json = JScalar scalar | JList "json list" | JObj "(string \<times> json) list"

abbreviation jstr :: "string \<Rightarrow> json" where "jstr s \<equiv> JScalar (SStr s)"
abbreviation jint :: "int \<Rightarrow> json" where "jint i \<equiv> JScalar (SInt i)"
abbreviation jbool :: "bool \<Rightarrow> json" where "jbool b \<equiv> JScalar (SBool b)"
abbreviation jnull :: json where "jnull \<equiv> JScalar SNone"

type_synonym dict = "(string \<times> json) list"

fun jopt :: "string option \<Rightarrow> json" where
  "jopt None = jnull"
| "jopt (Some s) = jstr s"

fun finite_value :: "pyfloat \<Rightarrow> rat option" where
  "finite_value (Fin q) = Some q"
| "finite_value NegZero = Some 0"
| "finite_value PosInf = None"
| "finite_value NegInf = None"
| "finite_value NaN = None"

record runtime =
  rt_float_of_str :: "string \<Rightarrow> pyfloat option"
  rt_float_of_int :: "int \<Rightarrow> pyfloat option"
  rt_float_repr :: "pyfloat \<Rightarrow> string"
  rt_sha256_hex :: "string \<Rightarrow> string"
  rt_hmac_sha256_hex :: "string \<Rightarrow> string \<Rightarrow> string"
  rt_b64decode :: "string \<Rightarrow> string option"
  rt_json_loads :: "string \<Rightarrow> json option"
  rt_ascii_digits :: "string \<Rightarrow> string"
  rt_conversion_error :: "string \<Rightarrow> string \<Rightarrow> string"
  rt_hmac_sha256 :: "string \<Rightarrow> string \<Rightarrow> string"

text \<open>
  A concrete runtime for the witnesses: the hash functions are tagged identities, so that they are
  injective, the raw digest has 32 bytes, Base64 and JSON are refused, and integers convert to the float of the same value.
\<close>

definition sample_runtime :: runtime where
  "sample_runtime =
     \<lparr>rt_float_of_str = (\<lambda>_. None), rt_float_of_int = (\<lambda>i. Some (Fin (of_int i))),
      rt_float_repr = (\<lambda>_. ''0.0''), rt_sha256_hex = (\<lambda>s. ''sha:'' @ s),
      rt_hmac_sha256_hex = (\<lambda>k m. ''mac:'' @ k @ '':'' @ m),
      rt_b64decode = (\<lambda>_. None), rt_json_loads = (\<lambda>_. None),
      rt_ascii_digits = (\<lambda>s. s), rt_conversion_error = (\<lambda>f _. f),
      rt_hmac_sha256 = (\<lambda>k m. take 32 (rev m @ k @ replicate 32 CHR ''0''))\<rparr>"

subsection \<open>Dictionaries\<close>

fun dict_put :: "'k \<Rightarrow> 'v \<Rightarrow> ('k \<times> 'v) list \<Rightarrow> ('k \<times> 'v) list" where
  "dict_put k v [] = [(k, v)]"
| "dict_put k v ((k', v') # kvs) =
     (if k' = k then (k, v) # kvs else (k', v') # dict_put k v kvs)"

definition dict_of :: "('k \<times> 'v) list \<Rightarrow> ('k \<times> 'v) list" where
  "dict_of kvs = fold (\<lambda>(k, v) d. dict_put k v d) kvs []"

fun dict_incr :: "'k \<Rightarrow> int \<Rightarrow> ('k \<times> int) list \<Rightarrow> ('k \<times> int) list" where
  "dict_incr k n [] = [(k, n)]"
| "dict_incr k n ((k', m) # kvs) =
     (if k' = k then (k, m + n) # kvs else (k', m) # dict_incr k n kvs)"

fun obj_get :: "string \<Rightarrow> json \<Rightarrow> json option" where
  "obj_get k (JObj kvs) = map_of kvs k"
| "obj_get k _ = None"

fun is_str :: "json \<Rightarrow> bool" where
  "is_str (JScalar (SStr _)) = True"
| "is_str _ = False"

fun str_of :: "json \<Rightarrow> string option" where
  "str_of (JScalar (SStr s)) = Some s"
| "str_of _ = None"

fun obj_of :: "json \<Rightarrow> dict option" where
  "obj_of (JObj kvs) = Some kvs"
| "obj_of _ = None"

subsection \<open>Tables\<close>

definition sql_update :: "('r \<Rightarrow> bool) \<Rightarrow> ('r \<Rightarrow> 'r) \<Rightarrow> 'r list \<Rightarrow> 'r list" where
  "sql_update p f tbl = map (\<lambda>r. if p r then f r else r) tbl"

definition rowcount :: "('r \<Rightarrow> bool) \<Rightarrow> 'r list \<Rightarrow> nat" where
  "rowcount p tbl = length (filter p tbl)"

definition order_limit :: "('r \<Rightarrow> 'k::linorder) \<Rightarrow> nat \<Rightarrow> 'r list \<Rightarrow> 'r list" where
  "order_limit key n rows = take n (sort_key key rows)"

subsection \<open>Text\<close>

definition starts_with :: "string \<Rightarrow> string \<Rightarrow> bool" where
  "starts_with p s \<longleftrightarrow> take (length p) s = p"

definition byte :: "char \<Rightarrow> nat" where
  "byte c = of_char c"

definition is_digit :: "char \<Rightarrow> bool" where
  "is_digit c \<longleftrightarrow> 48 \<le> byte c \<and> byte c \<le> 57"

definition is_lower_hex :: "char \<Rightarrow> bool" where
  "is_lower_hex c \<longleftrightarrow> is_digit c \<or> (97 \<le> byte c \<and> byte c \<le> 102)"

definition is_hex :: "char \<Rightarrow> bool" where
  "is_hex c \<longleftrightarrow> is_lower_hex c \<or> (65 \<le> byte c \<and> byte c \<le> 70)"

definition is_control :: "char \<Rightarrow> bool" where
  "is_control c \<longleftrightarrow> byte c < 32 \<or> byte c = 127"

definition is_continuation :: "char \<Rightarrow> bool" where
  "is_continuation c \<longleftrightarrow> 128 \<le> byte c \<and> byte c < 192"

definition plain_char :: "char \<Rightarrow> bool" where
  "plain_char c \<longleftrightarrow> 32 < byte c \<and> byte c < 128"

definition is_ascii :: "char \<Rightarrow> bool" where
  "is_ascii c \<longleftrightarrow> byte c < 128"

definition cp_len :: "string \<Rightarrow> nat" where
  "cp_len s = length (filter (\<lambda>c. \<not> is_continuation c) s)"

fun cp_take :: "nat \<Rightarrow> string \<Rightarrow> string" where
  "cp_take n [] = []"
| "cp_take n (c # cs) =
     (if is_continuation c then c # cp_take n cs
      else case n of 0 \<Rightarrow> [] | Suc m \<Rightarrow> c # cp_take m cs)"

definition lower_char :: "char \<Rightarrow> char" where
  "lower_char c = (if 65 \<le> byte c \<and> byte c \<le> 90 then char_of (byte c + 32) else c)"

definition py_lower :: "string \<Rightarrow> string" where
  "py_lower s = map lower_char s"

fun split_on :: "char \<Rightarrow> string \<Rightarrow> string list" where
  "split_on d [] = [[]]"
| "split_on d (c # cs) =
     (if c = d then [] # split_on d cs
      else case split_on d cs of [] \<Rightarrow> [[c]] | w # ws \<Rightarrow> (c # w) # ws)"

fun partition_on :: "char \<Rightarrow> string \<Rightarrow> string \<times> bool \<times> string" where
  "partition_on d [] = ([], False, [])"
| "partition_on d (c # cs) =
     (if c = d then ([], True, cs)
      else case partition_on d cs of (k, sep, v) \<Rightarrow> (c # k, sep, v))"

fun join_with :: "string \<Rightarrow> string list \<Rightarrow> string" where
  "join_with sep [] = []"
| "join_with sep [w] = w"
| "join_with sep (w # v # ws) = w @ sep @ join_with sep (v # ws)"

definition line_break_len :: "string \<Rightarrow> nat" where
  "line_break_len s =
     (case s of [] \<Rightarrow> 0
      | c # cs \<Rightarrow>
          if byte c = 13 then (if map byte (take 1 cs) = [10] then 2 else 1)
          else if byte c \<in> {10, 11, 12, 28, 29, 30} then 1
          else if map byte (take 2 s) = [194, 133] then 2
          else if map byte (take 3 s) \<in> {[226, 128, 168], [226, 128, 169]} then 3
          else 0)"

fun splitlines_from :: "string \<Rightarrow> string \<Rightarrow> string list" where
  "splitlines_from acc s =
     (case s of
        [] \<Rightarrow> (if acc = [] then [] else [acc])
      | c # cs \<Rightarrow>
          if line_break_len s = 0 then splitlines_from (acc @ [c]) cs
          else acc # splitlines_from [] (drop (line_break_len s - 1) cs))"

definition splitlines :: "string \<Rightarrow> string list" where
  "splitlines s = splitlines_from [] s"

definition whitespace_codes :: "string list" where
  "whitespace_codes =
     map (map char_of)
       ([[9], [10], [11], [12], [13], [28], [29], [30], [31], [32::nat],
         [194, 133], [194, 160], [225, 154, 128],
         [226, 128, 128], [226, 128, 129], [226, 128, 130], [226, 128, 131], [226, 128, 132],
         [226, 128, 133], [226, 128, 134], [226, 128, 135], [226, 128, 136], [226, 128, 137],
         [226, 128, 138], [226, 128, 168], [226, 128, 169], [226, 128, 175],
         [226, 129, 159], [227, 128, 128]])"

fun strip_front :: "string list \<Rightarrow> string \<Rightarrow> string" where
  "strip_front ws s =
     (case find (\<lambda>w. w \<noteq> [] \<and> starts_with w s) ws of
        None \<Rightarrow> s
      | Some w \<Rightarrow> (case s of [] \<Rightarrow> [] | _ # cs \<Rightarrow> strip_front ws (drop (length w - 1) cs)))"

declare splitlines_from.simps [simp del] strip_front.simps [simp del]

definition py_lstrip :: "string \<Rightarrow> string" where
  "py_lstrip s = strip_front whitespace_codes s"

definition py_strip :: "string \<Rightarrow> string" where
  "py_strip s = rev (strip_front (map rev whitespace_codes) (rev (py_lstrip s)))"

subsection \<open>Integers as text\<close>

definition digit_char :: "nat \<Rightarrow> char" where
  "digit_char d = char_of (48 + d)"

fun nat_str :: "nat \<Rightarrow> string" where
  "nat_str n = (if n < 10 then [digit_char n] else nat_str (n div 10) @ [digit_char (n mod 10)])"

declare nat_str.simps [simp del]

definition int_str :: "int \<Rightarrow> string" where
  "int_str i = (if i < 0 then CHR ''-'' # nat_str (nat (- i)) else nat_str (nat i))"

fun digits_val :: "nat \<Rightarrow> string \<Rightarrow> nat option" where
  "digits_val acc [] = Some acc"
| "digits_val acc (c # cs) =
     (if is_digit c then digits_val (10 * acc + (byte c - 48)) cs else None)"

fun no_double_underscore :: "string \<Rightarrow> bool" where
  "no_double_underscore (a # b # cs) =
     (\<not> (a = CHR ''_'' \<and> b = CHR ''_'') \<and> no_double_underscore (b # cs))"
| "no_double_underscore _ = True"

definition digits_group :: "string \<Rightarrow> nat option" where
  "digits_group s =
     (if s = [] \<or> hd s = CHR ''_'' \<or> last s = CHR ''_'' \<or> \<not> no_double_underscore s then None
      else digits_val 0 (filter (\<lambda>c. c \<noteq> CHR ''_'') s))"

definition parse_int :: "string \<Rightarrow> int option" where
  "parse_int s =
     (case py_strip s of
        [] \<Rightarrow> None
      | c # cs \<Rightarrow>
          if c = CHR ''-'' then map_option (\<lambda>n. - int n) (digits_group cs)
          else if c = CHR ''+'' then map_option int (digits_group cs)
          else map_option int (digits_group (c # cs)))"

text \<open>
  Python's \<open>int(text)\<close>: a decimal digit of any script counts as the ASCII digit of the same value
  (\<open>rt_ascii_digits\<close>), and text of more than 4300 digits is refused.
\<close>

definition py_int :: "runtime \<Rightarrow> string \<Rightarrow> int option" where
  "py_int rt s =
     (let t = rt_ascii_digits rt s
      in if length (filter is_digit t) > 4300 then None else parse_int t)"

subsection \<open>Python's \<open>str\<close> and the JSON text\<close>

fun py_str :: "runtime \<Rightarrow> scalar \<Rightarrow> string" where
  "py_str rt SNone = ''None''"
| "py_str rt (SBool b) = (if b then ''True'' else ''False'')"
| "py_str rt (SInt i) = int_str i"
| "py_str rt (SFloat f) = rt_float_repr rt f"
| "py_str rt (SStr s) = s"

definition hex_digit :: "nat \<Rightarrow> char" where
  "hex_digit d = (if d < 10 then char_of (48 + d) else char_of (87 + d))"

definition json_escape_char :: "char \<Rightarrow> string" where
  "json_escape_char c =
     (if byte c = 34 then [char_of (92::nat), c]
      else if byte c = 92 then [c, c]
      else if byte c = 10 then [char_of (92::nat), CHR ''n'']
      else if byte c = 13 then [char_of (92::nat), CHR ''r'']
      else if byte c = 9 then [char_of (92::nat), CHR ''t'']
      else if byte c = 8 then [char_of (92::nat), CHR ''b'']
      else if byte c = 12 then [char_of (92::nat), CHR ''f'']
      else if byte c < 32 then
        [char_of (92::nat), CHR ''u'', CHR ''0'', CHR ''0'',
         hex_digit (byte c div 16), hex_digit (byte c mod 16)]
      else [c])"

definition json_string :: "string \<Rightarrow> string" where
  "json_string s = [char_of (34::nat)] @ concat (map json_escape_char s) @ [char_of (34::nat)]"

fun json_scalar :: "runtime \<Rightarrow> scalar \<Rightarrow> string" where
  "json_scalar rt SNone = ''null''"
| "json_scalar rt (SBool b) = (if b then ''true'' else ''false'')"
| "json_scalar rt (SInt i) = int_str i"
| "json_scalar rt (SFloat f) = rt_float_repr rt f"
| "json_scalar rt (SStr s) = json_string s"

fun sort_keys :: "json \<Rightarrow> json" where
  "sort_keys (JScalar s) = JScalar s"
| "sort_keys (JList js) = JList (map sort_keys js)"
| "sort_keys (JObj kvs) = JObj (sort_key fst (map (\<lambda>(k, v). (k, sort_keys v)) kvs))"

fun json_dumps :: "runtime \<Rightarrow> json \<Rightarrow> string" where
  "json_dumps rt (JScalar s) = json_scalar rt s"
| "json_dumps rt (JList js) = ''['' @ join_with '','' (map (json_dumps rt) js) @ '']''"
| "json_dumps rt (JObj kvs) =
     ''{'' @ join_with '','' (map (\<lambda>(k, v). json_string k @ '':'' @ json_dumps rt v) kvs) @ ''}''"

definition canonical_json :: "runtime \<Rightarrow> json \<Rightarrow> string" where
  "canonical_json rt j = json_dumps rt (sort_keys j)"

subsection \<open>Results\<close>

lemma rbind_eq_Inr [simp]: "rbind m f = Inr y \<longleftrightarrow> (\<exists>x. m = Inr x \<and> f x = Inr y)"
  by (cases m) auto

lemma rbind_eq_Inl: "rbind m f = Inl e \<longleftrightarrow> m = Inl e \<or> (\<exists>x. m = Inr x \<and> f x = Inl e)"
  by (cases m) auto

lemma guard_eq_Inr [simp]: "guard b e = Inr u \<longleftrightarrow> b"
  by (simp add: guard_def)

lemma guard_eq_Inl [simp]: "guard b e = Inl e' \<longleftrightarrow> \<not> b \<and> e' = e"
  by (auto simp: guard_def)

lemma guard_True [simp]: "guard True e = Inr ()"
  by (simp add: guard_def)

lemma guard_False [simp]: "guard False e = Inl e"
  by (simp add: guard_def)

lemma rmap_Inr_iff: "rmap f xs = Inr ys \<longleftrightarrow> list_all2 (\<lambda>x y. f x = Inr y) xs ys"
proof (induction xs arbitrary: ys)
  case Nil
  then show ?case by auto
next
  case (Cons x xs)
  then show ?case by (cases ys) auto
qed

lemma rmap_length: "rmap f xs = Inr ys \<Longrightarrow> length ys = length xs"
  by (auto simp: rmap_Inr_iff dest: list_all2_lengthD)

lemma rmap_nth: "rmap f xs = Inr ys \<Longrightarrow> i < length xs \<Longrightarrow> f (xs ! i) = Inr (ys ! i)"
  by (auto simp: rmap_Inr_iff list_all2_conv_all_nth)

lemma rmap_set: "rmap f xs = Inr ys \<Longrightarrow> y \<in> set ys \<Longrightarrow> \<exists>x \<in> set xs. f x = Inr y"
  by (induction xs arbitrary: ys) auto

lemma rmap_Inr_elem: "rmap f xs = Inr ys \<Longrightarrow> x \<in> set xs \<Longrightarrow> \<exists>y. f x = Inr y"
  by (induction xs arbitrary: ys) auto

lemma rmap_InlD: "rmap f xs = Inl e \<Longrightarrow> \<exists>x \<in> set xs. f x = Inl e"
  by (induction xs) (auto simp: rbind_eq_Inl)

lemma rmap_all_Inr: "(\<And>x. x \<in> set xs \<Longrightarrow> f x = Inr (g x)) \<Longrightarrow> rmap f xs = Inr (map g xs)"
  by (induction xs) auto

subsection \<open>Dictionaries\<close>

lemma map_of_dict_put [simp]: "map_of (dict_put k v d) = (map_of d)(k \<mapsto> v)"
  by (induction d) (auto simp: fun_eq_iff)

lemma keys_dict_put [simp]: "fst ` set (dict_put k v d) = insert k (fst ` set d)"
  by (induction k v d rule: dict_put.induct) auto

lemma distinct_dict_put: "distinct (map fst d) \<Longrightarrow> distinct (map fst (dict_put k v d))"
  by (induction k v d rule: dict_put.induct) auto

lemma set_dict_put: "set (dict_put k v d) \<subseteq> insert (k, v) (set d)"
  by (induction k v d rule: dict_put.induct) auto

lemma dict_put_new: "k \<notin> fst ` set d \<Longrightarrow> dict_put k v d = d @ [(k, v)]"
  by (induction k v d rule: dict_put.induct) auto

subsection \<open>Tables\<close>

lemma length_sql_update [simp]: "length (sql_update p f tbl) = length tbl"
  by (simp add: sql_update_def)

lemma sql_update_none: "(\<And>r. r \<in> set tbl \<Longrightarrow> \<not> p r) \<Longrightarrow> sql_update p f tbl = tbl"
  unfolding sql_update_def by (rule map_idI) auto

lemma rowcount_zero [simp]: "rowcount p tbl = 0 \<longleftrightarrow> (\<forall>r \<in> set tbl. \<not> p r)"
  by (simp add: rowcount_def filter_empty_conv)

lemma sql_update_rowcount_zero: "rowcount p tbl = 0 \<Longrightarrow> sql_update p f tbl = tbl"
  by (auto intro: sql_update_none)

lemma in_sql_update:
  "r \<in> set (sql_update p f tbl) \<longleftrightarrow> (\<exists>q \<in> set tbl. r = (if p q then f q else q))"
  by (auto simp: sql_update_def)

lemma sql_update_hit: "r \<in> set tbl \<Longrightarrow> p r \<Longrightarrow> f r \<in> set (sql_update p f tbl)"
  by (auto simp: sql_update_def)

lemma sql_update_miss: "r \<in> set tbl \<Longrightarrow> \<not> p r \<Longrightarrow> r \<in> set (sql_update p f tbl)"
  by (auto simp: sql_update_def)

lemma sql_updateE:
  assumes "s \<in> set (sql_update p f tbl)"
  obtains (hit) r where "r \<in> set tbl" "p r" "s = f r" | (miss) "s \<in> set tbl" "\<not> p s"
  using assms by (auto simp: sql_update_def split: if_splits)

lemma map_sql_update:
  "(\<And>r. r \<in> set tbl \<Longrightarrow> p r \<Longrightarrow> g (f r) = g r) \<Longrightarrow> map g (sql_update p f tbl) = map g tbl"
  by (auto simp: sql_update_def)

lemma sql_update_nth:
  "i < length tbl \<Longrightarrow> sql_update p f tbl ! i = (if p (tbl ! i) then f (tbl ! i) else tbl ! i)"
  by (simp add: sql_update_def)

lemma set_order_limit: "set (order_limit key n rows) \<subseteq> set rows"
  by (auto simp: order_limit_def dest: in_set_takeD)

lemma length_order_limit [simp]: "length (order_limit key n rows) = min n (length rows)"
  by (simp add: order_limit_def min.commute)

lemma order_limit_all: "length rows \<le> n \<Longrightarrow> set (order_limit key n rows) = set rows"
  by (simp add: order_limit_def)

lemma distinct_order_limit: "distinct rows \<Longrightarrow> distinct (order_limit key n rows)"
  by (simp add: order_limit_def)

lemma sorted_order_limit: "sorted (map key (order_limit key n rows))"
  by (simp add: order_limit_def take_map [symmetric] sorted_wrt_take)

lemma order_limit_least:
  assumes "r \<in> set rows" and "r \<notin> set (order_limit key n rows)"
    and "s \<in> set (order_limit key n rows)"
  shows "key s \<le> key r"
proof -
  have split: "sort_key key rows = order_limit key n rows @ drop n (sort_key key rows)"
    by (simp add: order_limit_def)
  have "sorted (map key (order_limit key n rows @ drop n (sort_key key rows)))"
    by (simp only: split [symmetric] sorted_sort_key)
  moreover have "r \<in> set (drop n (sort_key key rows))"
    using assms(1,2) split by (metis Un_iff set_append set_sort)
  ultimately show ?thesis
    using assms(3) by (auto simp: sorted_append)
qed

lemma filter_unique_key:
  assumes "distinct (map f xs)" and "r \<in> set xs"
  shows "filter (\<lambda>x. f x = f r) xs = [r]"
  using assms
proof (induction xs)
  case (Cons x xs)
  then show ?case by (auto simp: filter_empty_conv image_iff)
qed simp

subsection \<open>Text\<close>

lemma split_on_not_Nil [simp]: "split_on d s \<noteq> []"
  by (induction s) (auto split: list.splits)

lemma join_split_on: "join_with [d] (split_on d s) = s"
proof (induction s)
  case (Cons c cs)
  obtain w ws where w: "split_on d cs = w # ws"
    by (cases "split_on d cs") auto
  with Cons show ?case
    by (cases ws) auto
qed simp

lemma split_on_no_sep: "w \<in> set (split_on d s) \<Longrightarrow> d \<notin> set w"
proof (induction s arbitrary: w)
  case (Cons c cs)
  obtain v vs where "split_on d cs = v # vs"
    by (cases "split_on d cs") auto
  with Cons show ?case by (auto split: if_splits)
qed simp

lemma split_on_single: "d \<notin> set w \<Longrightarrow> split_on d w = [w]"
  by (induction w) auto

lemma split_on_append: "d \<notin> set w \<Longrightarrow> split_on d (w @ d # s) = w # split_on d s"
  by (induction w) auto

lemma split_join_on:
  "ws \<noteq> [] \<Longrightarrow> (\<And>w. w \<in> set ws \<Longrightarrow> d \<notin> set w) \<Longrightarrow> split_on d (join_with [d] ws) = ws"
proof (induction ws rule: induct_list012)
  case (3 w v ws)
  then have "split_on d (join_with [d] (v # ws)) = v # ws"
    by auto
  with 3 show ?case
    by (simp add: split_on_append)
qed (auto simp: split_on_single)

lemma partition_on_append:
  "d \<notin> set k \<Longrightarrow> partition_on d (k @ d # v) = (k, True, v)"
  by (induction k) auto

lemma partition_on_sep:
  "partition_on d s = (k, True, v) \<longleftrightarrow> s = k @ d # v \<and> d \<notin> set k"
proof (induction s arbitrary: k)
  case (Cons c cs)
  obtain k' b v' where p: "partition_on d cs = (k', b, v')"
    by (cases "partition_on d cs") auto
  show ?case
  proof (cases "c = d")
    case True
    then show ?thesis by (cases k) auto
  next
    case False
    then have "partition_on d (c # cs) = (k, True, v) \<longleftrightarrow>
        (\<exists>k0. k = c # k0 \<and> partition_on d cs = (k0, True, v))"
      using p by auto
    also have "\<dots> \<longleftrightarrow> c # cs = k @ d # v \<and> d \<notin> set k"
      using False Cons.IH by (cases k) auto
    finally show ?thesis .
  qed
qed simp

lemma cp_len_cp_take: "cp_len (cp_take n s) \<le> n"
  by (induction n s rule: cp_take.induct) (auto simp: cp_len_def split: nat.splits)

lemma cp_len_append [simp]: "cp_len (a @ b) = cp_len a + cp_len b"
  by (simp add: cp_len_def)

lemma cp_len_le: "cp_len s \<le> length s"
  by (simp add: cp_len_def)

subsection \<open>Decimal text\<close>

lemma byte_digit_char [simp]: "d < 10 \<Longrightarrow> byte (digit_char d) = 48 + d"
  by (simp add: byte_def digit_char_def)

lemma is_digit_digit_char [simp]: "d < 10 \<Longrightarrow> is_digit (digit_char d)"
  by (simp add: is_digit_def)

lemma is_digit_char_of: "is_digit c \<Longrightarrow> \<exists>d < 10. c = digit_char d"
  by (rule exI [of _ "byte c - 48"]) (auto simp: is_digit_def digit_char_def byte_def)

lemma digits_val_append:
  "digits_val acc (xs @ ys) = Option.bind (digits_val acc xs) (\<lambda>n. digits_val n ys)"
  by (induction xs arbitrary: acc) auto

lemma nat_str_digits: "c \<in> set (nat_str n) \<Longrightarrow> is_digit c"
proof (induction n arbitrary: c rule: nat_str.induct)
  case (1 n)
  then show ?case
    by (subst (asm) (2) nat_str.simps) (auto split: if_splits)
qed

lemma nat_str_not_Nil [simp]: "nat_str n \<noteq> []"
  by (subst nat_str.simps) simp

lemma digits_val_nat_str: "digits_val 0 (nat_str n) = Some n"
proof (induction n rule: nat_str.induct)
  case (1 n)
  show ?case
  proof (cases "n < 10")
    case True
    then show ?thesis by (subst nat_str.simps) simp
  next
    case False
    with "1.IH" have "digits_val 0 (nat_str (n div 10)) = Some (n div 10)" by simp
    with False show ?thesis
      by (subst nat_str.simps) (simp add: digits_val_append)
  qed
qed

lemma not_digit_underscore [simp]: "\<not> is_digit CHR ''_''"
  by (simp add: is_digit_def byte_def)

lemma not_digit_sign [simp]: "\<not> is_digit CHR ''-''" "\<not> is_digit CHR ''+''"
  by (simp_all add: is_digit_def byte_def)

lemma no_double_underscore_free: "CHR ''_'' \<notin> set s \<Longrightarrow> no_double_underscore s"
  by (induction s rule: no_double_underscore.induct) auto

lemma digits_group_digits:
  assumes "\<And>c. c \<in> set s \<Longrightarrow> is_digit c" and "s \<noteq> []"
  shows "digits_group s = digits_val 0 s"
proof -
  have no: "CHR ''_'' \<notin> set s"
    using assms(1) not_digit_underscore by blast
  then have "filter (\<lambda>c. c \<noteq> CHR ''_'') s = s"
    by (auto simp: filter_id_conv)
  moreover have "hd s \<noteq> CHR ''_''" "last s \<noteq> CHR ''_''"
    using no assms(2) by (metis list.set_sel(1), metis last_in_set no assms(2))
  ultimately show ?thesis
    using no assms(2) by (simp add: digits_group_def no_double_underscore_free)
qed

lemma digits_group_nat_str [simp]: "digits_group (nat_str n) = Some n"
  by (simp add: digits_group_digits nat_str_digits digits_val_nat_str)

lemma starts_with_Cons: "w \<noteq> [] \<Longrightarrow> starts_with w (c # cs) \<Longrightarrow> hd w = c"
  by (cases w) (auto simp: starts_with_def)

lemma find_starts_none:
  assumes "\<And>w. w \<in> set ws \<Longrightarrow> w \<noteq> [] \<Longrightarrow> hd w \<noteq> c"
  shows "find (\<lambda>w. w \<noteq> [] \<and> starts_with w (c # cs)) ws = None"
  using assms starts_with_Cons by (fastforce simp: find_None_iff)

lemma plain_not_whitespace_hd:
  "plain_char c \<Longrightarrow> w \<in> set whitespace_codes \<Longrightarrow> hd w \<noteq> c"
  by (auto simp: whitespace_codes_def plain_char_def byte_def)

lemma plain_not_whitespace_last:
  "plain_char c \<Longrightarrow> w \<in> set (map rev whitespace_codes) \<Longrightarrow> hd w \<noteq> c"
  by (auto simp: whitespace_codes_def plain_char_def byte_def)

lemma strip_front_plain:
  "(\<And>w. w \<in> set ws \<Longrightarrow> hd w \<noteq> c) \<Longrightarrow> strip_front ws (c # cs) = c # cs"
  by (subst strip_front.simps) (simp add: find_starts_none)

lemma py_strip_plain:
  assumes "s \<noteq> []" and "plain_char (hd s)" and "plain_char (last s)"
  shows "py_strip s = s"
proof -
  obtain c cs where s: "s = c # cs" using assms(1) by (cases s) auto
  obtain d ds where r: "rev s = d # ds" using assms(1) by (cases "rev s") auto
  have "d = last s" using r by (metis assms(1) hd_rev list.sel(1))
  then have "strip_front (map rev whitespace_codes) (rev s) = rev s"
    using assms(3) plain_not_whitespace_last unfolding r by (intro strip_front_plain) auto
  moreover have "py_lstrip s = s"
    using assms(2) plain_not_whitespace_hd unfolding py_lstrip_def s
    by (intro strip_front_plain) auto
  ultimately show ?thesis by (simp add: py_strip_def)
qed

lemma is_digit_plain: "is_digit c \<Longrightarrow> plain_char c"
  by (simp add: is_digit_def plain_char_def)

lemma hd_last_nat_str: "is_digit (hd (nat_str n))" "is_digit (last (nat_str n))"
  by (simp_all add: nat_str_digits [of _ n])

lemma py_strip_int_str [simp]: "py_strip (int_str i) = int_str i"
proof (rule py_strip_plain)
  show "int_str i \<noteq> []" by (simp add: int_str_def)
  show "plain_char (hd (int_str i))"
    using hd_last_nat_str(1) [of "nat i"]
    by (auto simp: int_str_def is_digit_plain) (simp add: plain_char_def byte_def)
  show "plain_char (last (int_str i))"
    using hd_last_nat_str(2) [of "nat i"] hd_last_nat_str(2) [of "nat (- i)"]
    by (auto simp: int_str_def is_digit_plain)
qed

lemma parse_int_int_str [simp]: "parse_int (int_str i) = Some i"
proof (cases "i < 0")
  case True
  then have "int_str i = CHR ''-'' # nat_str (nat (- i))" by (simp add: int_str_def)
  with True show ?thesis
    using py_strip_int_str [of i]
    by (simp add: parse_int_def digits_group_digits nat_str_digits digits_val_nat_str)
next
  case False
  obtain c cs where c: "nat_str (nat i) = c # cs" by (cases "nat_str (nat i)") auto
  have "is_digit c" using nat_str_digits [of c "nat i"] c by simp
  then have "c \<noteq> CHR ''-''" "c \<noteq> CHR ''+''" by auto
  moreover have "digits_group (c # cs) = Some (nat i)"
    using digits_group_nat_str [of "nat i"] c by simp
  ultimately show ?thesis
    using False py_strip_int_str [of i] c by (simp add: parse_int_def int_str_def)
qed

lemma int_str_inject [simp]: "int_str i = int_str j \<longleftrightarrow> i = j"
  by (metis option.inject parse_int_int_str)

end
