(* ===== verification/Apm_Domain.thy ===== *)
theory Apm_Domain
  imports Apm_Prelude
begin

section \<open>Validated domain objects\<close>

text \<open>
  \<^verbatim>\<open>constants.py\<close> and \<^verbatim>\<open>domain.py\<close>: the protocol limits, the enumerations, the frozen pydantic
  models and their validators. A model class is a record; building one is a function that runs
  the field validators in field order and then the model validator. Pydantic reports every failing
  field and the callers use the first report, which is the first failing field in declaration
  order.
\<close>

subsection \<open>Limits\<close>

definition MAX_EVENT_ID_BYTES :: nat where [consts_simps]: "MAX_EVENT_ID_BYTES = 128"
definition MAX_IDENTIFIER_BYTES :: nat where [consts_simps]: "MAX_IDENTIFIER_BYTES = 256"
definition MAX_MAP_ENTRIES :: nat where [consts_simps]: "MAX_MAP_ENTRIES = 256"
definition MAX_MAP_KEY_BYTES :: nat where [consts_simps]: "MAX_MAP_KEY_BYTES = 128"
definition MAX_MAP_VALUE_BYTES :: nat where [consts_simps]: "MAX_MAP_VALUE_BYTES = 8192"
definition MAX_EVENT_JSON_BYTES :: nat where [consts_simps]: "MAX_EVENT_JSON_BYTES = 256 * 1024"
definition MAX_FUTURE_SKEW_SECONDS :: int where [consts_simps]: "MAX_FUTURE_SKEW_SECONDS = 10 * 60"
definition NORMALIZATION_VERSION :: int where [consts_simps]: "NORMALIZATION_VERSION = 2"
definition OTLP_INT64_MIN :: int where [consts_simps]: "OTLP_INT64_MIN = - (2 ^ 63)"
definition OTLP_INT64_MAX :: int where [consts_simps]: "OTLP_INT64_MAX = 2 ^ 63 - 1"

subsection \<open>Enumerations\<close>

datatype event_kind = METRIC | ALERT | FILE

datatype event_severity = DEBUG | INFO | WARN | ERROR | FATAL

datatype event_priority = LOW | NORMAL | HIGH | CRITICAL

datatype identity_quality =
  AUTHENTICATED | OCCURRENCE_BOUND | BATCH_DECLARED | REQUEST_DECLARED | HOST_CONTEXT | ABSENT
| INVALID

fun kind_value :: "event_kind \<Rightarrow> string" where
  "kind_value METRIC = ''METRIC''"
| "kind_value ALERT = ''ALERT''"
| "kind_value FILE = ''FILE''"

fun severity_value :: "event_severity \<Rightarrow> string" where
  "severity_value DEBUG = ''DEBUG''"
| "severity_value INFO = ''INFO''"
| "severity_value WARN = ''WARN''"
| "severity_value ERROR = ''ERROR''"
| "severity_value FATAL = ''FATAL''"

fun priority_value :: "event_priority \<Rightarrow> string" where
  "priority_value LOW = ''LOW''"
| "priority_value NORMAL = ''NORMAL''"
| "priority_value HIGH = ''HIGH''"
| "priority_value CRITICAL = ''CRITICAL''"

fun quality_value :: "identity_quality \<Rightarrow> string" where
  "quality_value AUTHENTICATED = ''AUTHENTICATED''"
| "quality_value OCCURRENCE_BOUND = ''OCCURRENCE_BOUND''"
| "quality_value BATCH_DECLARED = ''BATCH_DECLARED''"
| "quality_value REQUEST_DECLARED = ''REQUEST_DECLARED''"
| "quality_value HOST_CONTEXT = ''HOST_CONTEXT''"
| "quality_value ABSENT = ''ABSENT''"
| "quality_value INVALID = ''INVALID''"

definition parse_kind :: "string \<Rightarrow> event_kind option" where
  "parse_kind s = find (\<lambda>k. kind_value k = s) [METRIC, ALERT, FILE]"

definition parse_severity :: "string \<Rightarrow> event_severity option" where
  "parse_severity s = find (\<lambda>k. severity_value k = s) [DEBUG, INFO, WARN, ERROR, FATAL]"

definition parse_priority :: "string \<Rightarrow> event_priority option" where
  "parse_priority s = find (\<lambda>k. priority_value k = s) [LOW, NORMAL, HIGH, CRITICAL]"

subsection \<open>Model classes\<close>

record native_frame_identity =
  nf_abi :: string
  nf_module_build_id :: string
  nf_module_name :: string
  nf_module_relative_pc :: int
  nf_load_bias :: "int option"

record occurrence_context =
  oc_service_version :: string
  oc_version_code :: string
  oc_app_build :: string
  oc_variant :: string
  oc_installation_id :: string
  oc_native_frames :: "native_frame_identity list"

record apm_event =
  ev_timestamp :: int
  ev_event_id :: string
  ev_module :: string
  ev_name :: string
  ev_kind :: event_kind
  ev_severity :: event_severity
  ev_priority :: event_priority
  ev_process_name :: string
  ev_thread_name :: string
  ev_scene :: "string option"
  ev_foreground :: "bool option"
  ev_fields :: "(string \<times> scalar) list"
  ev_field_types :: "(string \<times> string) list"
  ev_global_context :: "(string \<times> string) list"
  ev_extras :: "(string \<times> string) list"
  ev_unknown :: "(string \<times> string) list"
  ev_occurrence :: "occurrence_context option"

record ingest_metadata =
  md_request_id :: string
  md_tenant_id :: string
  md_app_id :: string
  md_environment :: string
  md_schema_version :: string
  md_sdk_version :: string
  md_app_version :: "string option"
  md_app_build :: "string option"
  md_version_code :: "string option"
  md_variant :: "string option"
  md_protocol :: string
  md_release_identity_quality :: identity_quality
  md_installation_identity_quality :: identity_quality
  md_installation_id :: "string option"

record ingest_ack =
  ack_request_id :: string
  ack_status :: string
  ack_received :: int
  ack_inserted :: int
  ack_duplicates :: int

subsection \<open>Validators\<close>

text \<open>
  A failed validation is the location and the message of the first report of the pydantic
  \<open>ValidationError\<close>. The model validator can also let an \<open>OverflowError\<close> or \<open>OSError\<close> of
  \<open>datetime.fromtimestamp\<close> escape: these are not \<open>ValueError\<close>s, so pydantic does not turn them
  into a report.
\<close>

datatype validation_error = Invalid_field string string | Escaped

type_synonym 'a validated = "validation_error + 'a"

definition value_error :: "string \<Rightarrow> string \<Rightarrow> validation_error" where
  "value_error loc msg = Invalid_field loc (''Value error, '' @ msg)"

definition trimmed_bounded :: "string \<Rightarrow> bool" where
  "trimmed_bounded v \<longleftrightarrow> v \<noteq> [] \<and> v = py_strip v \<and> length v \<le> MAX_IDENTIFIER_BYTES"

definition validate_identity :: "string \<Rightarrow> string \<Rightarrow> string validated" where
  "validate_identity loc v =
     (if v = [] \<or> v \<noteq> py_strip v \<or> length v > MAX_IDENTIFIER_BYTES
      then Inl (value_error loc ''native frame identity must contain 1-256 trimmed UTF-8 bytes'')
      else Inr v)"

definition validate_occurrence_identity :: "string \<Rightarrow> string \<Rightarrow> string validated" where
  "validate_occurrence_identity loc v =
     (if v = [] \<or> v \<noteq> py_strip v \<or> length v > MAX_IDENTIFIER_BYTES
      then Inl (value_error loc ''occurrence identity must contain 1-256 trimmed UTF-8 bytes'')
      else Inr v)"

definition validate_version_code :: "string \<Rightarrow> string validated" where
  "validate_version_code v =
     (if v = [] \<or> \<not> list_all is_ascii v \<or> \<not> list_all is_digit v
         \<or> (length v > 1 \<and> starts_with ''0'' v) \<or> length v > 64
      then Inl (value_error ''version_code'' ''versionCode must use canonical unsigned decimal text'')
      else Inr v)"

definition validate_native_frame_count ::
    "native_frame_identity list \<Rightarrow> native_frame_identity list validated" where
  "validate_native_frame_count fs =
     (if length fs > 256
      then Inl (value_error ''native_frames'' ''occurrence identity exceeds 256 native frames'')
      else Inr fs)"

definition validate_event_id :: "string \<Rightarrow> string validated" where
  "validate_event_id v =
     (if v = [] \<or> length v > MAX_EVENT_ID_BYTES
      then Inl (value_error ''event_id'' ''eventId must contain 1-128 UTF-8 bytes'')
      else if list_ex is_control v
      then Inl (value_error ''event_id'' ''eventId must not contain control characters'')
      else Inr v)"

definition validate_required_identifier :: "string \<Rightarrow> string \<Rightarrow> string validated" where
  "validate_required_identifier loc v =
     (if v = [] \<or> length v > MAX_IDENTIFIER_BYTES
      then Inl (value_error loc ''identifier must contain 1-256 UTF-8 bytes'')
      else Inr v)"

definition validate_optional_identifier :: "string option \<Rightarrow> string option validated" where
  "validate_optional_identifier v =
     (case v of
        None \<Rightarrow> Inr None
      | Some s \<Rightarrow>
          if length s > MAX_IDENTIFIER_BYTES
          then Inl (value_error ''scene'' ''scene exceeds 256 UTF-8 bytes'') else Inr v)"

fun validate_map_entries :: "string \<Rightarrow> ('v \<Rightarrow> string) \<Rightarrow> (string \<times> 'v) list \<Rightarrow> unit validated" where
  "validate_map_entries loc render [] = Inr ()"
| "validate_map_entries loc render ((key, item) # rest) =
     (if key = [] \<or> length key > MAX_MAP_KEY_BYTES
      then Inl (value_error loc ''map key must contain 1-128 UTF-8 bytes'')
      else if length (render item) > MAX_MAP_VALUE_BYTES
      then Inl (value_error loc ''map value exceeds 8192 UTF-8 bytes'')
      else validate_map_entries loc render rest)"

definition validate_map ::
    "string \<Rightarrow> ('v \<Rightarrow> string) \<Rightarrow> (string \<times> 'v) list \<Rightarrow> (string \<times> 'v) list validated" where
  "validate_map loc render m =
     (if length m > MAX_MAP_ENTRIES then Inl (value_error loc ''map exceeds 256 entries'')
      else rbind (validate_map_entries loc render m) (\<lambda>_. Inr m))"

text \<open>
  \<open>datetime.fromtimestamp(ts / 1000, tz=UTC)\<close>: a year past 9999 is a \<open>ValueError\<close>; a second
  count the platform's \<open>gmtime\<close> cannot represent raises \<open>OSError\<close> or \<open>OverflowError\<close>. Times are
  microseconds, so that the comparison with the clock is exact.
\<close>

definition DATETIME_MAX_SECONDS :: int where [consts_simps]: "DATETIME_MAX_SECONDS = 253402300799"
definition GMTIME_MAX_SECONDS :: int where [consts_simps]: "GMTIME_MAX_SECONDS = 67768036191676799"

definition validate_timestamp_skew :: "time \<Rightarrow> int \<Rightarrow> unit validated" where
  "validate_timestamp_skew now ts =
     (if ts div 1000 > GMTIME_MAX_SECONDS then Inl Escaped
      else if ts div 1000 > DATETIME_MAX_SECONDS
      then Inl (value_error '''' ''year is out of range'')
      else if ts * 1000 > now + MAX_FUTURE_SKEW_SECONDS * 1000000
      then Inl (value_error '''' ''timestamp is too far in the future'')
      else Inr ())"

definition mk_native_frame ::
    "string \<Rightarrow> string \<Rightarrow> string \<Rightarrow> int \<Rightarrow> int option \<Rightarrow> native_frame_identity validated" where
  "mk_native_frame abi build_id module_name pc bias =
     rbind (validate_identity ''abi'' abi) (\<lambda>abi.
     rbind (validate_identity ''module_build_id'' build_id) (\<lambda>build_id.
     rbind (validate_identity ''module_name'' module_name) (\<lambda>module_name.
     rbind (guard (pc \<ge> 0) (Invalid_field ''module_relative_pc''
              ''Input should be greater than or equal to 0'')) (\<lambda>_.
     rbind (guard (case bias of None \<Rightarrow> True | Some b \<Rightarrow> b \<ge> 0)
              (Invalid_field ''load_bias'' ''Input should be greater than or equal to 0'')) (\<lambda>_.
     Inr \<lparr>nf_abi = abi, nf_module_build_id = build_id, nf_module_name = module_name,
          nf_module_relative_pc = pc, nf_load_bias = bias\<rparr>)))))"

definition mk_occurrence ::
    "string \<Rightarrow> string \<Rightarrow> string \<Rightarrow> string \<Rightarrow> string \<Rightarrow> native_frame_identity list
       \<Rightarrow> occurrence_context validated" where
  "mk_occurrence service_version version_code app_build variant installation_id frames =
     rbind (validate_occurrence_identity ''service_version'' service_version) (\<lambda>service_version.
     rbind (validate_version_code version_code) (\<lambda>version_code.
     rbind (validate_occurrence_identity ''app_build'' app_build) (\<lambda>app_build.
     rbind (validate_occurrence_identity ''variant'' variant) (\<lambda>variant.
     rbind (validate_occurrence_identity ''installation_id'' installation_id) (\<lambda>installation_id.
     rbind (validate_native_frame_count frames) (\<lambda>frames.
     Inr \<lparr>oc_service_version = service_version, oc_version_code = version_code,
          oc_app_build = app_build, oc_variant = variant,
          oc_installation_id = installation_id, oc_native_frames = frames\<rparr>))))))"

text \<open>The untyped keyword arguments of an \<open>ApmEvent(...)\<close> call.\<close>

record event_args =
  arg_timestamp :: int
  arg_event_id :: string
  arg_module :: string
  arg_name :: string
  arg_kind :: string
  arg_severity :: string
  arg_priority :: string
  arg_process_name :: string
  arg_thread_name :: string
  arg_scene :: "string option"
  arg_foreground :: "bool option"
  arg_fields :: "(string \<times> scalar) list"
  arg_field_types :: "(string \<times> string) list"
  arg_global_context :: "(string \<times> string) list"
  arg_extras :: "(string \<times> string) list"
  arg_unknown :: "(string \<times> string) list"
  arg_occurrence :: "occurrence_context option"

definition quoted :: "string \<Rightarrow> string" where
  "quoted s = [char_of (39::nat)] @ s @ [char_of (39::nat)]"

definition enum_message :: "string list \<Rightarrow> string" where
  "enum_message vs =
     ''Input should be '' @ join_with '', '' (map quoted (butlast vs)) @ '' or '' @ quoted (last vs)"

definition enum_field :: "string \<Rightarrow> string \<Rightarrow> 'a option \<Rightarrow> 'a validated" where
  "enum_field loc msg v =
     (case v of None \<Rightarrow> Inl (Invalid_field loc msg) | Some x \<Rightarrow> Inr x)"

definition mk_event :: "runtime \<Rightarrow> time \<Rightarrow> event_args \<Rightarrow> apm_event validated" where
  "mk_event rt now a =
     rbind (guard (arg_timestamp a > 0)
              (Invalid_field ''timestamp'' ''Input should be greater than 0'')) (\<lambda>_.
     rbind (validate_event_id (arg_event_id a)) (\<lambda>event_id.
     rbind (validate_required_identifier ''module'' (arg_module a)) (\<lambda>module_name.
     rbind (validate_required_identifier ''name'' (arg_name a)) (\<lambda>name.
     rbind (enum_field ''kind'' (enum_message [''METRIC'', ''ALERT'', ''FILE''])
              (parse_kind (arg_kind a))) (\<lambda>kind.
     rbind (enum_field ''severity'' (enum_message [''DEBUG'', ''INFO'', ''WARN'', ''ERROR'', ''FATAL''])
              (parse_severity (arg_severity a))) (\<lambda>severity.
     rbind (enum_field ''priority'' (enum_message [''LOW'', ''NORMAL'', ''HIGH'', ''CRITICAL''])
              (parse_priority (arg_priority a))) (\<lambda>priority.
     rbind (validate_required_identifier ''process_name'' (arg_process_name a)) (\<lambda>process_name.
     rbind (validate_required_identifier ''thread_name'' (arg_thread_name a)) (\<lambda>thread_name.
     rbind (validate_optional_identifier (arg_scene a)) (\<lambda>scene.
     rbind (validate_map ''fields'' (py_str rt) (arg_fields a)) (\<lambda>fields.
     rbind (validate_map ''field_types'' id (arg_field_types a)) (\<lambda>field_types.
     rbind (validate_map ''global_context'' id (arg_global_context a)) (\<lambda>global_context.
     rbind (validate_map ''extras'' id (arg_extras a)) (\<lambda>extras.
     rbind (validate_map ''unknown'' id (arg_unknown a)) (\<lambda>unknown.
     rbind (validate_timestamp_skew now (arg_timestamp a)) (\<lambda>_.
     Inr \<lparr>ev_timestamp = arg_timestamp a, ev_event_id = event_id, ev_module = module_name,
          ev_name = name, ev_kind = kind, ev_severity = severity, ev_priority = priority,
          ev_process_name = process_name, ev_thread_name = thread_name, ev_scene = scene,
          ev_foreground = arg_foreground a, ev_fields = fields, ev_field_types = field_types,
          ev_global_context = global_context, ev_extras = extras, ev_unknown = unknown,
          ev_occurrence = arg_occurrence a\<rparr>))))))))))))))))"

subsection \<open>Well-formed domain values\<close>

definition bounded_map :: "('v \<Rightarrow> string) \<Rightarrow> (string \<times> 'v) list \<Rightarrow> bool" where
  "bounded_map render m \<longleftrightarrow>
     length m \<le> MAX_MAP_ENTRIES \<and>
     list_all (\<lambda>(k, v). k \<noteq> [] \<and> length k \<le> MAX_MAP_KEY_BYTES
                      \<and> length (render v) \<le> MAX_MAP_VALUE_BYTES) m"

definition valid_frame :: "native_frame_identity \<Rightarrow> bool" where
  "valid_frame f \<longleftrightarrow>
     trimmed_bounded (nf_abi f) \<and> trimmed_bounded (nf_module_build_id f) \<and>
     trimmed_bounded (nf_module_name f) \<and> nf_module_relative_pc f \<ge> 0 \<and>
     (case nf_load_bias f of None \<Rightarrow> True | Some b \<Rightarrow> b \<ge> 0)"

definition canonical_version_code :: "string \<Rightarrow> bool" where
  "canonical_version_code v \<longleftrightarrow>
     v \<noteq> [] \<and> list_all is_digit v \<and> (length v > 1 \<longrightarrow> hd v \<noteq> CHR ''0'') \<and> length v \<le> 64"

definition valid_occurrence :: "occurrence_context \<Rightarrow> bool" where
  "valid_occurrence c \<longleftrightarrow>
     trimmed_bounded (oc_service_version c) \<and> canonical_version_code (oc_version_code c) \<and>
     trimmed_bounded (oc_app_build c) \<and> trimmed_bounded (oc_variant c) \<and>
     trimmed_bounded (oc_installation_id c) \<and> length (oc_native_frames c) \<le> 256"

definition bounded_identifier :: "string \<Rightarrow> bool" where
  "bounded_identifier v \<longleftrightarrow> v \<noteq> [] \<and> length v \<le> MAX_IDENTIFIER_BYTES"

definition valid_event :: "runtime \<Rightarrow> time \<Rightarrow> apm_event \<Rightarrow> bool" where
  "valid_event rt now e \<longleftrightarrow>
     ev_timestamp e > 0 \<and>
     ev_timestamp e * 1000 \<le> now + MAX_FUTURE_SKEW_SECONDS * 1000000 \<and>
     ev_timestamp e div 1000 \<le> DATETIME_MAX_SECONDS \<and>
     ev_event_id e \<noteq> [] \<and> length (ev_event_id e) \<le> MAX_EVENT_ID_BYTES \<and>
     \<not> list_ex is_control (ev_event_id e) \<and>
     bounded_identifier (ev_module e) \<and> bounded_identifier (ev_name e) \<and>
     bounded_identifier (ev_process_name e) \<and> bounded_identifier (ev_thread_name e) \<and>
     (case ev_scene e of None \<Rightarrow> True | Some s \<Rightarrow> length s \<le> MAX_IDENTIFIER_BYTES) \<and>
     bounded_map (py_str rt) (ev_fields e) \<and> bounded_map id (ev_field_types e) \<and>
     bounded_map id (ev_global_context e) \<and> bounded_map id (ev_extras e) \<and>
     bounded_map id (ev_unknown e)"

lemma validate_map_entries_Inr:
  "validate_map_entries loc render m = Inr u \<longleftrightarrow>
     list_all (\<lambda>(k, v). k \<noteq> [] \<and> length k \<le> MAX_MAP_KEY_BYTES
                      \<and> length (render v) \<le> MAX_MAP_VALUE_BYTES) m"
  by (induction loc render m rule: validate_map_entries.induct) auto

lemma validate_map_Inr [simp]:
  "validate_map loc render m = Inr m' \<longleftrightarrow> m' = m \<and> bounded_map render m"
  by (auto simp: validate_map_def validate_map_entries_Inr bounded_map_def)

lemma validate_identity_Inr [simp]:
  "validate_identity loc v = Inr v' \<longleftrightarrow> v' = v \<and> trimmed_bounded v"
  by (auto simp: validate_identity_def trimmed_bounded_def)

lemma validate_occurrence_identity_Inr [simp]:
  "validate_occurrence_identity loc v = Inr v' \<longleftrightarrow> v' = v \<and> trimmed_bounded v"
  by (auto simp: validate_occurrence_identity_def trimmed_bounded_def)

lemma starts_with_hd: "starts_with [c] v \<longleftrightarrow> v \<noteq> [] \<and> hd v = c"
  by (cases v) (auto simp: starts_with_def)

lemma digits_are_ascii: "list_all is_digit v \<Longrightarrow> list_all is_ascii v"
  by (auto simp: list_all_iff is_digit_def is_ascii_def)

lemma validate_version_code_Inr [simp]:
  "validate_version_code v = Inr v' \<longleftrightarrow> v' = v \<and> canonical_version_code v"
  by (auto simp: validate_version_code_def canonical_version_code_def starts_with_hd digits_are_ascii)

lemma validate_native_frame_count_Inr [simp]:
  "validate_native_frame_count fs = Inr fs' \<longleftrightarrow> fs' = fs \<and> length fs \<le> 256"
  by (auto simp: validate_native_frame_count_def)

lemma validate_event_id_Inr [simp]:
  "validate_event_id v = Inr v' \<longleftrightarrow>
     v' = v \<and> v \<noteq> [] \<and> length v \<le> MAX_EVENT_ID_BYTES \<and> \<not> list_ex is_control v"
  by (auto simp: validate_event_id_def)

lemma validate_required_identifier_Inr [simp]:
  "validate_required_identifier loc v = Inr v' \<longleftrightarrow> v' = v \<and> bounded_identifier v"
  by (auto simp: validate_required_identifier_def bounded_identifier_def)

lemma validate_optional_identifier_Inr [simp]:
  "validate_optional_identifier v = Inr v' \<longleftrightarrow>
     v' = v \<and> (case v of None \<Rightarrow> True | Some s \<Rightarrow> length s \<le> MAX_IDENTIFIER_BYTES)"
  by (auto simp: validate_optional_identifier_def split: option.splits)

lemma validate_timestamp_skew_Inr [simp]:
  "validate_timestamp_skew now ts = Inr u \<longleftrightarrow>
     ts div 1000 \<le> DATETIME_MAX_SECONDS \<and> ts * 1000 \<le> now + MAX_FUTURE_SKEW_SECONDS * 1000000"
  by (auto simp: validate_timestamp_skew_def consts_simps)

lemma enum_field_Inr [simp]: "enum_field loc msg v = Inr x \<longleftrightarrow> v = Some x"
  by (auto simp: enum_field_def split: option.splits)

lemma mk_native_frame_valid: "mk_native_frame abi bid m pc bias = Inr f \<Longrightarrow> valid_frame f"
  by (auto simp: mk_native_frame_def valid_frame_def)

lemma mk_native_frame_id:
  "mk_native_frame (nf_abi f) (nf_module_build_id f) (nf_module_name f)
     (nf_module_relative_pc f) (nf_load_bias f) = Inr g \<longleftrightarrow> g = f \<and> valid_frame f"
  by (auto simp: mk_native_frame_def valid_frame_def)

lemma mk_occurrence_valid: "mk_occurrence sv vc ab va ins fs = Inr c \<Longrightarrow> valid_occurrence c"
  by (auto simp: mk_occurrence_def valid_occurrence_def)

lemma mk_event_Inr:
  "mk_event rt now a = Inr e \<longleftrightarrow>
     (\<exists>k s p. parse_kind (arg_kind a) = Some k \<and> parse_severity (arg_severity a) = Some s \<and>
        parse_priority (arg_priority a) = Some p \<and>
        e = \<lparr>ev_timestamp = arg_timestamp a, ev_event_id = arg_event_id a, ev_module = arg_module a,
          ev_name = arg_name a, ev_kind = k, ev_severity = s, ev_priority = p,
          ev_process_name = arg_process_name a, ev_thread_name = arg_thread_name a,
          ev_scene = arg_scene a, ev_foreground = arg_foreground a, ev_fields = arg_fields a,
          ev_field_types = arg_field_types a, ev_global_context = arg_global_context a,
          ev_extras = arg_extras a, ev_unknown = arg_unknown a,
          ev_occurrence = arg_occurrence a\<rparr> \<and>
        valid_event rt now e)"
  unfolding mk_event_def valid_event_def
  by (simp add: conj_ac cong: conj_cong) (auto simp: conj_ac)

lemma mk_event_InrE:
  assumes "mk_event rt now a = Inr e"
  obtains k s p where
    "e = \<lparr>ev_timestamp = arg_timestamp a, ev_event_id = arg_event_id a, ev_module = arg_module a,
          ev_name = arg_name a, ev_kind = k, ev_severity = s, ev_priority = p,
          ev_process_name = arg_process_name a, ev_thread_name = arg_thread_name a,
          ev_scene = arg_scene a, ev_foreground = arg_foreground a, ev_fields = arg_fields a,
          ev_field_types = arg_field_types a, ev_global_context = arg_global_context a,
          ev_extras = arg_extras a, ev_unknown = arg_unknown a,
          ev_occurrence = arg_occurrence a\<rparr>"
    and "valid_event rt now e"
  using assms unfolding mk_event_Inr by blast

lemma mk_event_valid: "mk_event rt now a = Inr e \<Longrightarrow> valid_event rt now e"
  by (erule mk_event_InrE)

lemma mk_event_fields:
  assumes "mk_event rt now a = Inr e"
  shows "ev_timestamp e = arg_timestamp a" "ev_event_id e = arg_event_id a"
    "ev_module e = arg_module a" "ev_name e = arg_name a" "ev_fields e = arg_fields a"
    "ev_field_types e = arg_field_types a" "ev_unknown e = arg_unknown a"
    "ev_global_context e = arg_global_context a" "ev_extras e = arg_extras a"
    "ev_occurrence e = arg_occurrence a" "ev_scene e = arg_scene a"
    "ev_foreground e = arg_foreground a"
    "ev_process_name e = arg_process_name a" "ev_thread_name e = arg_thread_name a"
  using assms by (rule mk_event_InrE; simp)+

lemma parse_kind_value [simp]: "parse_kind (kind_value k) = Some k"
  by (cases k) (simp_all add: parse_kind_def)

lemma parse_severity_value [simp]: "parse_severity (severity_value k) = Some k"
  by (cases k) (simp_all add: parse_severity_def)

lemma parse_priority_value [simp]: "parse_priority (priority_value k) = Some k"
  by (cases k) (simp_all add: parse_priority_def)

lemma value_error_not_escaped [simp]: "value_error loc msg \<noteq> Escaped"
  by (simp add: value_error_def)

lemma validate_map_entries_not_escaped [simp]:
  "validate_map_entries loc render m \<noteq> Inl Escaped"
  by (induction loc render m rule: validate_map_entries.induct) auto

lemma validators_not_escaped [simp]:
  "validate_event_id v \<noteq> Inl Escaped"
  "validate_required_identifier loc v \<noteq> Inl Escaped"
  "validate_optional_identifier w \<noteq> Inl Escaped"
  "enum_field loc msg x \<noteq> Inl Escaped"
  "validate_map loc render m \<noteq> Inl Escaped"
  "validate_identity loc v \<noteq> Inl Escaped"
  "validate_occurrence_identity loc v \<noteq> Inl Escaped"
  "validate_version_code v \<noteq> Inl Escaped"
  "validate_native_frame_count fs \<noteq> Inl Escaped"
  by (simp_all add: validate_event_id_def validate_required_identifier_def
      validate_optional_identifier_def enum_field_def validate_map_def rbind_eq_Inl
      validate_identity_def validate_occurrence_identity_def validate_version_code_def
      validate_native_frame_count_def split: option.splits)

lemma constructors_not_escaped [simp]:
  "mk_native_frame abi bid m pc bias \<noteq> Inl Escaped"
  "mk_occurrence sv vc ab va ins fs \<noteq> Inl Escaped"
  by (simp_all add: mk_native_frame_def mk_occurrence_def rbind_eq_Inl)

lemma mk_event_escapes:
  "mk_event rt now a = Inl Escaped \<Longrightarrow> arg_timestamp a div 1000 > GMTIME_MAX_SECONDS"
  unfolding mk_event_def
  by (simp add: rbind_eq_Inl) (simp add: validate_timestamp_skew_def split: if_splits)

end
