(* ===== verification/Apm_Protocol.thy ===== *)
theory Apm_Protocol
  imports Apm_Domain
begin

section \<open>The V1 wire protocols\<close>

text \<open>
  \<^verbatim>\<open>protocol/compression.py\<close>, \<^verbatim>\<open>protocol/line.py\<close>, \<^verbatim>\<open>protocol/protobuf.py\<close> and
  \<^verbatim>\<open>protocol/decoder.py\<close>. A request body is the \<open>string\<close> of its bytes. The zlib decompressor and
  the generated Protobuf parser are parameters: the first is a record of the operations the loop
  calls, the second a function from a frame to the message or nothing (\<open>DecodeError\<close>). A decoder
  returns the whole batch or one error: there is no partial result. The lemmas characterise the
  accepted Protobuf streams exactly, show that every accepted event is valid, and that the bounded
  decompressor never returns more than its limit.
\<close>

subsection \<open>Bounded decompression\<close>

record 's zlib_ops =
  z_init :: 's
  z_decompress :: "'s \<Rightarrow> string \<Rightarrow> int \<Rightarrow> ('s \<times> string) option"
  z_unconsumed_tail :: "'s \<Rightarrow> string"
  z_flush :: "'s \<Rightarrow> int \<Rightarrow> ('s \<times> string) option"
  z_eof :: "'s \<Rightarrow> bool"
  z_unused_data :: "'s \<Rightarrow> string"

definition DECOMPRESSION_CHUNK_BYTES :: nat where
  [consts_simps]: "DECOMPRESSION_CHUNK_BYTES = 64 * 1024"

definition payload_too_large :: exn where
  "payload_too_large =
     mk_error 413 ''payload_too_large'' ''The decompressed request body is too large'' False None"

definition invalid_gzip :: "string \<Rightarrow> exn" where
  "invalid_gzip msg = mk_error 400 ''invalid_gzip'' msg False None"

function inflate_chunks ::
    "'s zlib_ops \<Rightarrow> int \<Rightarrow> 's \<Rightarrow> string \<Rightarrow> string \<Rightarrow> ('s \<times> string) result" where
  "inflate_chunks z max_output s rest output =
     (if rest = [] then Inr (s, output)
      else
        let chunk = take DECOMPRESSION_CHUNK_BYTES rest;
            remaining = max_output - int (length output)
        in if remaining < 0 then Inl payload_too_large
           else case z_decompress z s chunk (remaining + 1) of
             None \<Rightarrow> Inl (invalid_gzip ''The gzip body is invalid'')
           | Some (s', out) \<Rightarrow>
               let output' = output @ out
               in if int (length output') > max_output \<or> z_unconsumed_tail z s' \<noteq> []
                  then Inl payload_too_large
                  else inflate_chunks z max_output s'
                         (drop DECOMPRESSION_CHUNK_BYTES rest) output')"
  by pat_completeness auto
termination
  by (relation "measure (\<lambda>(_, _, _, rest, _). length rest)") (auto simp: consts_simps)

declare inflate_chunks.simps [simp del]

definition decompress_gzip_bounded :: "'s zlib_ops \<Rightarrow> string \<Rightarrow> int \<Rightarrow> string result" where
  "decompress_gzip_bounded z payload max_output_bytes =
     rbind (inflate_chunks z max_output_bytes (z_init z) payload []) (\<lambda>(s, output).
       case z_flush z s (max_output_bytes - int (length output) + 1) of
         None \<Rightarrow> Inl (invalid_gzip ''The gzip body is invalid'')
       | Some (s', tail) \<Rightarrow>
           let output' = output @ tail
           in if int (length output') > max_output_bytes then Inl payload_too_large
              else if \<not> z_eof z s' then Inl (invalid_gzip ''The gzip body is truncated'')
              else if z_unused_data z s' \<noteq> []
              then Inl (invalid_gzip ''Trailing gzip data is not allowed'')
              else Inr output')"

subsection \<open>Errors of one event\<close>

definition invalid_event :: "string \<Rightarrow> nat \<Rightarrow> exn" where
  "invalid_event msg idx = mk_error 422 ''invalid_event'' msg False (Some idx)"

definition safe_validation_message :: "string \<Rightarrow> string \<Rightarrow> string" where
  "safe_validation_message loc msg = ''Invalid '' @ loc @ '': '' @ msg"

definition safe_value_error :: "string \<Rightarrow> string" where
  "safe_value_error msg = cp_take 256 msg"

definition event_result :: "nat \<Rightarrow> 'a validated \<Rightarrow> 'a result" where
  "event_result idx r =
     (case r of
        Inr e \<Rightarrow> Inr e
      | Inl Escaped \<Rightarrow> Inl (Uncaught ''OverflowError'')
      | Inl (Invalid_field loc msg) \<Rightarrow> Inl (invalid_event (safe_validation_message loc msg) idx))"

subsection \<open>The line protocol\<close>

fun utf8_bytes :: "nat list \<Rightarrow> bool" where
  "utf8_bytes [] = True"
| "utf8_bytes (b # bs) =
     (let cont = (\<lambda>c. 128 \<le> c \<and> c < 192)
      in if b < 128 then utf8_bytes bs
         else (case bs of
           [] \<Rightarrow> False
         | c # cs \<Rightarrow>
             if 194 \<le> b \<and> b < 224 then cont c \<and> utf8_bytes cs
             else (case cs of
               [] \<Rightarrow> False
             | d # ds \<Rightarrow>
                 if 224 \<le> b \<and> b < 240
                 then cont c \<and> (b = 224 \<longrightarrow> 160 \<le> c) \<and> (b = 237 \<longrightarrow> c < 160) \<and> cont d \<and> utf8_bytes ds
                 else (case ds of
                   [] \<Rightarrow> False
                 | e # es \<Rightarrow>
                     240 \<le> b \<and> b < 245 \<and> cont c \<and> (b = 240 \<longrightarrow> 144 \<le> c) \<and> (b = 244 \<longrightarrow> c < 144)
                     \<and> cont d \<and> cont e \<and> utf8_bytes es))))"

definition utf8_valid :: "string \<Rightarrow> bool" where
  "utf8_valid payload = utf8_bytes (map byte payload)"

definition REQUIRED_KEYS :: "string list" where
  "REQUIRED_KEYS =
     [''ts'', ''eventId'', ''module'', ''name'', ''kind'', ''severity'', ''priority'', ''process'',
      ''thread'']"

definition KNOWN_KEYS :: "string list" where
  "KNOWN_KEYS = REQUIRED_KEYS @ [''scene'', ''foreground'', ''fields'', ''context'', ''extras'']"

fun parse_segments ::
    "string \<Rightarrow> string \<Rightarrow> string list \<Rightarrow> (string \<times> string) list \<Rightarrow> nat
       \<Rightarrow> (string \<times> string) list result" where
  "parse_segments syntax_msg dup_msg [] parsed idx = Inr parsed"
| "parse_segments syntax_msg dup_msg (item # items) parsed idx =
     (case partition_on (CHR ''='') item of
        (key, separator, v) \<Rightarrow>
          if \<not> separator \<or> key = [] then Inl (invalid_event syntax_msg idx)
          else if map_of parsed key \<noteq> None then Inl (invalid_event (dup_msg @ key) idx)
          else parse_segments syntax_msg dup_msg items (parsed @ [(key, v)]) idx)"

definition parse_map :: "string \<Rightarrow> nat \<Rightarrow> (string \<times> string) list result" where
  "parse_map v idx =
     (if v = [] then Inr []
      else parse_segments ''Map entries must use key=value'' ''Duplicate map key: ''
             (split_on (CHR '','') v) [] idx)"

definition parse_foreground :: "string option \<Rightarrow> nat \<Rightarrow> bool option result" where
  "parse_foreground v idx =
     (case v of
        None \<Rightarrow> Inr None
      | Some s \<Rightarrow>
          if s = ''true'' then Inr (Some True)
          else if s = ''false'' then Inr (Some False)
          else Inl (invalid_event ''foreground must be true or false'' idx))"

definition seg :: "(string \<times> string) list \<Rightarrow> string \<Rightarrow> string" where
  "seg segments k = (case map_of segments k of None \<Rightarrow> [] | Some v \<Rightarrow> v)"

definition decode_line :: "runtime \<Rightarrow> time \<Rightarrow> string \<Rightarrow> nat \<Rightarrow> apm_event result" where
  "decode_line rt now line idx =
     rbind (parse_segments ''Every segment must use key=value'' ''Duplicate top-level field: ''
              (split_on (CHR ''|'') line) [] idx) (\<lambda>segments.
     let missing = sort (filter (\<lambda>k. map_of segments k = None) REQUIRED_KEYS);
         unknown = filter (\<lambda>(k, v). k \<notin> set KNOWN_KEYS) segments
     in if missing \<noteq> []
        then Inl (invalid_event (''Missing required fields: '' @ join_with '','' missing) idx)
        else
     rbind (parse_foreground (map_of segments ''foreground'') idx) (\<lambda>foreground.
     case py_int rt (seg segments ''ts'') of
       None \<Rightarrow> Inl (invalid_event
                 (safe_value_error (rt_conversion_error rt ''int'' (seg segments ''ts''))) idx)
     | Some ts \<Rightarrow>
     rbind (parse_map (seg segments ''fields'') idx) (\<lambda>fields.
     rbind (parse_map (seg segments ''context'') idx) (\<lambda>global_context.
     rbind (parse_map (seg segments ''extras'') idx) (\<lambda>extras.
     event_result idx (mk_event rt now
       \<lparr>arg_timestamp = ts, arg_event_id = seg segments ''eventId'',
        arg_module = seg segments ''module'', arg_name = seg segments ''name'',
        arg_kind = seg segments ''kind'', arg_severity = seg segments ''severity'',
        arg_priority = seg segments ''priority'', arg_process_name = seg segments ''process'',
        arg_thread_name = seg segments ''thread'', arg_scene = map_of segments ''scene'',
        arg_foreground = foreground, arg_fields = map (\<lambda>(k, v). (k, SStr v)) fields,
        arg_field_types = [], arg_global_context = global_context, arg_extras = extras,
        arg_unknown = unknown, arg_occurrence = None\<rparr>))))))"

fun decode_lines :: "runtime \<Rightarrow> time \<Rightarrow> string list \<Rightarrow> nat \<Rightarrow> apm_event list result" where
  "decode_lines rt now [] idx = Inr []"
| "decode_lines rt now (line # lines) idx =
     (if line = [] then Inl (invalid_event ''Blank event lines are not allowed'' idx)
      else rbind (decode_line rt now line idx) (\<lambda>e.
           rbind (decode_lines rt now lines (Suc idx)) (\<lambda>es. Inr (e # es))))"

definition decode_line_batch :: "runtime \<Rightarrow> time \<Rightarrow> string \<Rightarrow> nat \<Rightarrow> apm_event list result" where
  "decode_line_batch rt now payload max_events =
     (if \<not> utf8_valid payload
      then Inl (mk_error 400 ''invalid_encoding'' ''The request body must be valid UTF-8'' False None)
      else
        let raw_lines = splitlines payload
        in if list_all (\<lambda>l. l = []) raw_lines
           then Inl (invalid_event ''The batch must contain at least one event'' 0)
           else if length raw_lines > max_events
           then Inl (mk_error 413 ''payload_too_large'' ''The batch contains too many events'' False None)
           else decode_lines rt now raw_lines 0)"

subsection \<open>The length-prefixed Protobuf stream\<close>

text \<open>
  The message types of \<^verbatim>\<open>proto/apm_event.proto\<close>. A scalar field that the wire omits holds its
  proto3 default; \<open>HasField\<close> of a message field is an option.
\<close>

record typed_value_message =
  tv_type :: string
  tv_value :: string

record native_frame_message =
  nm_abi :: string
  nm_module_build_id :: string
  nm_module_name :: string
  nm_module_relative_pc :: int
  nm_load_bias :: "int option"

record occurrence_message =
  om_service_version :: string
  om_version_code :: string
  om_app_build :: string
  om_variant :: string
  om_installation_id :: string
  om_native_frames :: "native_frame_message list"

record event_message =
  em_timestamp :: int
  em_event_id :: string
  em_module :: string
  em_name :: string
  em_kind :: string
  em_severity :: string
  em_priority :: string
  em_process_name :: string
  em_thread_name :: string
  em_scene :: string
  em_foreground :: bool
  em_fields :: "(string \<times> string) list"
  em_global_context :: "(string \<times> string) list"
  em_extras :: "(string \<times> string) list"
  em_typed_fields :: "(string \<times> typed_value_message) list"
  em_occurrence :: "occurrence_message option"

definition PROTOBUF_LENGTH_BYTES :: nat where [consts_simps]: "PROTOBUF_LENGTH_BYTES = 4"

definition message_args ::
    "event_message \<Rightarrow> (string \<times> scalar) list \<Rightarrow> (string \<times> string) list
       \<Rightarrow> (string \<times> string) list \<Rightarrow> occurrence_context option \<Rightarrow> event_args" where
  "message_args msg flds field_types unknown occurrence =
     \<lparr>arg_timestamp = em_timestamp msg, arg_event_id = em_event_id msg,
      arg_module = em_module msg, arg_name = em_name msg, arg_kind = em_kind msg,
      arg_severity = em_severity msg, arg_priority = em_priority msg,
      arg_process_name = em_process_name msg, arg_thread_name = em_thread_name msg,
      arg_scene = (if em_scene msg = [] then None else Some (em_scene msg)),
      arg_foreground = Some (em_foreground msg), arg_fields = flds,
      arg_field_types = field_types, arg_global_context = em_global_context msg,
      arg_extras = em_extras msg, arg_unknown = unknown, arg_occurrence = occurrence\<rparr>"

definition protobuf_to_event :: "runtime \<Rightarrow> time \<Rightarrow> event_message \<Rightarrow> apm_event validated" where
  "protobuf_to_event rt now msg =
     mk_event rt now (message_args msg (map (\<lambda>(k, v). (k, SStr v)) (em_fields msg)) [] [] None)"

definition from_bytes_big :: "string \<Rightarrow> nat" where
  "from_bytes_big bs = foldl (\<lambda>acc c. 256 * acc + byte c) 0 bs"

function decode_frames ::
    "runtime \<Rightarrow> time \<Rightarrow> (string \<Rightarrow> event_message option) \<Rightarrow> nat \<Rightarrow> nat \<Rightarrow> string \<Rightarrow> apm_event list
       \<Rightarrow> apm_event list result" where
  "decode_frames rt now parse max_events max_event_bytes rest events =
     (if rest = [] then Inr events
      else
        let idx = length events
        in if idx \<ge> max_events
           then Inl (mk_error 413 ''payload_too_large'' ''The batch contains too many events'' False None)
           else if length rest < PROTOBUF_LENGTH_BYTES
           then Inl (invalid_event ''The Protobuf length prefix is truncated'' idx)
           else
             let len = from_bytes_big (take PROTOBUF_LENGTH_BYTES rest);
                 body = drop PROTOBUF_LENGTH_BYTES rest
             in if len = 0
                then Inl (invalid_event ''Zero-length Protobuf frames are not allowed'' idx)
                else if len > max_event_bytes
                then Inl (mk_error 413 ''payload_too_large'' ''A Protobuf event frame is too large''
                            False None)
                else if len > length body
                then Inl (invalid_event ''The Protobuf event frame is truncated'' idx)
                else case parse (take len body) of
                  None \<Rightarrow> Inl (invalid_event ''The Protobuf event is invalid'' idx)
                | Some msg \<Rightarrow>
                    (case event_result idx (protobuf_to_event rt now msg) of
                       Inl err \<Rightarrow> Inl err
                     | Inr e \<Rightarrow> decode_frames rt now parse max_events max_event_bytes
                                 (drop len body) (events @ [e])))"
  by pat_completeness auto
termination
  by (relation "measure (\<lambda>(_, _, _, _, _, rest, _). length rest)") (auto simp: consts_simps)

declare decode_frames.simps [simp del]

definition decode_protobuf_batch ::
    "runtime \<Rightarrow> time \<Rightarrow> (string \<Rightarrow> event_message option) \<Rightarrow> string \<Rightarrow> nat \<Rightarrow> nat
       \<Rightarrow> apm_event list result" where
  "decode_protobuf_batch rt now parse payload max_events max_event_bytes =
     (if payload = []
      then Inl (invalid_event ''The batch must contain at least one event'' 0)
      else decode_frames rt now parse max_events max_event_bytes payload [])"

definition LINE_CONTENT_TYPE :: string where [consts_simps]: "LINE_CONTENT_TYPE = ''text/plain''"
definition PROTOBUF_CONTENT_TYPE :: string where
  [consts_simps]: "PROTOBUF_CONTENT_TYPE = ''application/x-protobuf''"

definition decode_batch ::
    "runtime \<Rightarrow> time \<Rightarrow> (string \<Rightarrow> event_message option) \<Rightarrow> string \<Rightarrow> string \<Rightarrow> nat \<Rightarrow> nat
       \<Rightarrow> apm_event list result" where
  "decode_batch rt now parse payload content_type max_events max_event_bytes =
     (if content_type = LINE_CONTENT_TYPE then decode_line_batch rt now payload max_events
      else if content_type = PROTOBUF_CONTENT_TYPE
      then decode_protobuf_batch rt now parse payload max_events max_event_bytes
      else Inl (mk_error 415 ''unsupported_media_type'' ''The Content-Type is not supported'' False None))"

subsection \<open>Decompression stays within its limit\<close>

lemma inflate_chunks_bounded:
  "inflate_chunks z m s rest out = Inr (s', out') \<Longrightarrow> int (length out) \<le> m \<Longrightarrow>
     int (length out') \<le> m"
proof (induction z m s rest out rule: inflate_chunks.induct)
  case (1 z m s rest out)
  then show ?case
    by (subst (asm) (2) inflate_chunks.simps)
       (auto simp: Let_def split: if_splits option.splits)
qed

subsection \<open>Framing\<close>

definition to_bytes_big4 :: "nat \<Rightarrow> string" where
  "to_bytes_big4 n =
     map char_of [n div 256 div 256 div 256, n div 256 div 256 mod 256, n div 256 mod 256, n mod 256]"

definition protobuf_frame :: "string \<Rightarrow> string" where
  "protobuf_frame body = to_bytes_big4 (length body) @ body"

lemma length_to_bytes_big4 [simp]: "length (to_bytes_big4 n) = 4"
  by (simp add: to_bytes_big4_def)

lemma horner4:
  "256 * (256 * (256 * (n div 256 div 256 div 256) + n div 256 div 256 mod 256) + n div 256 mod 256)
     + n mod 256 = (n::nat)"
  by (simp only: mult_div_mod_eq)

lemma from_to_bytes_big4: "n < 2 ^ 32 \<Longrightarrow> from_bytes_big (to_bytes_big4 n) = n"
proof -
  assume n: "n < 2 ^ 32"
  have "n div 256 div 256 div 256 = n div 2 ^ 24" by (simp add: div_mult2_eq [symmetric])
  also have "\<dots> < 256" using n by (simp add: less_mult_imp_div_less)
  finally have "from_bytes_big (to_bytes_big4 n) =
      256 * (256 * (256 * (n div 256 div 256 div 256) + n div 256 div 256 mod 256) + n div 256 mod 256)
        + n mod 256"
    by (simp only: to_bytes_big4_def from_bytes_big_def byte_def list.map foldl.simps of_char_of
        mod_less mod_mod_trivial) simp
  then show ?thesis by (simp only: horner4)
qed

lemma from_bytes_big4_bound: "length bs = 4 \<Longrightarrow> from_bytes_big bs < 2 ^ 32"
proof -
  have b: "byte c < 256" for c by (simp add: byte_def)
  assume "length bs = 4"
  then obtain a b c d where "bs = [a, b, c, d]"
    by (auto simp: length_Suc_conv eval_nat_numeral)
  then show ?thesis
    using b [of a] b [of b] b [of c] b [of d] by (simp add: from_bytes_big_def)
qed

lemma to_from_bytes_big4: "length bs = 4 \<Longrightarrow> to_bytes_big4 (from_bytes_big bs) = bs"
proof -
  have b: "byte c < 256" for c by (simp add: byte_def)
  assume "length bs = 4"
  then obtain p q r s where bs: "bs = [p, q, r, s]"
    by (auto simp: length_Suc_conv eval_nat_numeral)
  have n: "from_bytes_big bs = 256 * (256 * (256 * byte p + byte q) + byte r) + byte s"
    by (simp add: bs from_bytes_big_def)
  have "from_bytes_big bs div 256 = 256 * (256 * byte p + byte q) + byte r"
    unfolding n using b [of s] by simp
  moreover have "(256 * (256 * byte p + byte q) + byte r) div 256 = 256 * byte p + byte q"
    using b [of r] by simp
  moreover have "(256 * byte p + byte q) div 256 = byte p"
    using b [of q] by simp
  moreover have m: "(256 * x + byte c) mod 256 = byte c" for x c
    using b [of c] by simp
  moreover have "from_bytes_big bs mod 256 = byte s"
    unfolding n by (rule m)
  ultimately have "to_bytes_big4 (from_bytes_big bs) = map char_of (map byte [p, q, r, s])"
    unfolding to_bytes_big4_def list.map by (simp only:)
  then show ?thesis by (simp add: bs byte_def)
qed

definition frame_event ::
    "runtime \<Rightarrow> time \<Rightarrow> (string \<Rightarrow> event_message option) \<Rightarrow> nat \<Rightarrow> string \<Rightarrow> apm_event \<Rightarrow> bool" where
  "frame_event rt now parse max_event_bytes body e \<longleftrightarrow>
     0 < length body \<and> length body \<le> max_event_bytes \<and>
     (case parse body of
        None \<Rightarrow> False
      | Some msg \<Rightarrow> protobuf_to_event rt now msg = Inr e)"

lemma event_result_Inr [simp]: "event_result idx r = Inr e \<longleftrightarrow> r = Inr e"
  by (auto simp: event_result_def split: sum.splits validation_error.splits)

lemma decode_frames_sound:
  assumes "decode_frames rt now parse M B rest acc = Inr es"
  shows "\<exists>bodies new. rest = concat (map protobuf_frame bodies) \<and> es = acc @ new \<and>
           (bodies = [] \<or> length acc + length bodies \<le> M) \<and>
           list_all2 (frame_event rt now parse B) bodies new"
  using assms
proof (induction rt now parse M B rest acc rule: decode_frames.induct)
  case (1 rt now parse M B rest acc)
  show ?case
  proof (cases "rest = []")
    case True
    with "1.prems" show ?thesis
      by (intro exI [of _ "[]"]) (simp add: decode_frames.simps)
  next
    case False
    let ?len = "from_bytes_big (take 4 rest)" and ?body = "drop 4 rest"
    from "1.prems" False obtain msg e where
      ok: "length acc < M" "4 \<le> length rest" "0 < ?len" "?len \<le> B" "?len \<le> length ?body"
        "parse (take ?len ?body) = Some msg" "protobuf_to_event rt now msg = Inr e"
      and rec: "decode_frames rt now parse M B (drop ?len ?body) (acc @ [e]) = Inr es"
      by (subst (asm) decode_frames.simps)
         (auto simp: Let_def consts_simps split: if_splits option.splits sum.splits)
    from ok have er: "event_result (length acc) (protobuf_to_event rt now msg) = Inr e" by simp
    from "1.IH" [of "length acc" ?len ?body msg e] False ok er rec
    obtain bodies new where IH: "drop ?len ?body = concat (map protobuf_frame bodies)"
      "es = (acc @ [e]) @ new" "bodies = [] \<or> length (acc @ [e]) + length bodies \<le> M"
      "list_all2 (frame_event rt now parse B) bodies new"
      by (auto simp: consts_simps)
    have "rest = take 4 rest @ take ?len ?body @ drop ?len ?body"
      by (simp only: append_take_drop_id)
    then have "rest = to_bytes_big4 ?len @ take ?len ?body @ drop ?len ?body"
      using ok(2) by (simp only: to_from_bytes_big4 length_take min.absorb2)
    then have "rest = concat (map protobuf_frame (take ?len ?body # bodies))"
      using ok(5) IH(1) by (simp add: protobuf_frame_def)
    moreover have "list_all2 (frame_event rt now parse B) (take ?len ?body # bodies) (e # new)"
      using ok IH(4) by (simp add: frame_event_def)
    ultimately show ?thesis
      using IH(2,3) ok(1) by (intro exI [of _ "take ?len ?body # bodies"] exI [of _ "e # new"]) auto
  qed
qed

lemma decode_frames_complete:
  assumes "list_all2 (frame_event rt now parse B) bodies new"
    and "bodies = [] \<or> length acc + length bodies \<le> M" and "B < 2 ^ 32"
  shows "decode_frames rt now parse M B (concat (map protobuf_frame bodies)) acc = Inr (acc @ new)"
  using assms(1,2)
proof (induction bodies new arbitrary: acc rule: list_all2_induct)
  case Nil
  then show ?case by (simp add: decode_frames.simps)
next
  case (Cons body bodies e new)
  let ?rest = "concat (map protobuf_frame bodies)"
  have body: "0 < length body" "length body \<le> B"
    and msg: "\<exists>msg. parse body = Some msg \<and> protobuf_to_event rt now msg = Inr e"
    using Cons.hyps by (auto simp: frame_event_def split: option.splits)
  have len: "from_bytes_big (to_bytes_big4 (length body)) = length body"
    using body assms(3) by (simp add: from_to_bytes_big4)
  have "decode_frames rt now parse M B ?rest (acc @ [e]) = Inr ((acc @ [e]) @ new)"
    using Cons.prems by (intro Cons.IH) auto
  then show ?case
    using Cons.prems msg body len
    by (subst decode_frames.simps)
       (auto simp: protobuf_frame_def consts_simps Let_def event_result_def)
qed

lemma frame_event_valid: "frame_event rt now parse B body e \<Longrightarrow> valid_event rt now e"
  by (auto simp: frame_event_def protobuf_to_event_def dest: mk_event_valid split: option.splits)

subsection \<open>Accepted lines\<close>

lemma decode_line_event:
  assumes "decode_line rt now line idx = Inr e"
  shows "valid_event rt now e"
  using assms by (auto simp: decode_line_def Let_def dest: mk_event_valid split: if_splits option.splits)

lemma decode_lines_valid:
  "decode_lines rt now ls idx = Inr es \<Longrightarrow>
     length es = length ls \<and> list_all (valid_event rt now) es"
  by (induction rt now ls idx arbitrary: es rule: decode_lines.induct)
     (auto simp: decode_line_event split: if_splits)

subsection \<open>Refused batches\<close>

fun client_error :: "exn \<Rightarrow> bool" where
  "client_error (Api a) \<longleftrightarrow> status_code a \<in> {400, 413, 415, 422} \<and> \<not> err_retryable a"
| "client_error (Uncaught x) = False"

lemma client_error_mk [simp]:
  "client_error (mk_error status code msg retry idx) \<longleftrightarrow> status \<in> {400, 413, 415, 422} \<and> \<not> retry"
  by (simp add: mk_error_def)

lemma client_error_invalid_event [simp]: "client_error (invalid_event msg idx)"
  by (simp add: invalid_event_def)

lemma event_result_Inl:
  "event_result idx r = Inl err \<Longrightarrow> client_error err \<or> r = Inl Escaped"
  by (auto simp: event_result_def split: sum.splits validation_error.splits)

lemma parse_segments_error:
  "parse_segments sm dm items parsed idx = Inl err \<Longrightarrow> client_error err"
  by (induction sm dm items parsed idx rule: parse_segments.induct)
     (auto split: if_splits prod.splits)

lemma parse_map_error: "parse_map v idx = Inl err \<Longrightarrow> client_error err"
  by (auto simp: parse_map_def dest: parse_segments_error split: if_splits)

lemma parse_foreground_error: "parse_foreground v idx = Inl err \<Longrightarrow> client_error err"
  by (auto simp: parse_foreground_def split: option.splits if_splits)

definition line_timestamp :: "runtime \<Rightarrow> string \<Rightarrow> int option" where
  "line_timestamp rt line =
     (case parse_segments [] [] (split_on (CHR ''|'') line) [] 0 of
        Inl _ \<Rightarrow> None
      | Inr segments \<Rightarrow> Option.bind (map_of segments ''ts'') (py_int rt))"

definition unrepresentable_time :: "int \<Rightarrow> bool" where
  "unrepresentable_time ts \<longleftrightarrow> ts div 1000 > GMTIME_MAX_SECONDS"

lemma parse_segments_messages:
  "parse_segments sm dm items parsed idx = Inr segs \<Longrightarrow>
     parse_segments sm' dm' items parsed idx' = Inr segs"
  by (induction sm dm items parsed idx rule: parse_segments.induct)
     (auto split: if_splits prod.splits)

lemma decode_line_error:
  assumes "decode_line rt now line idx = Inl err"
  shows "client_error err \<or> (\<exists>ts. line_timestamp rt line = Some ts \<and> unrepresentable_time ts)"
proof (cases "parse_segments ''Every segment must use key=value'' ''Duplicate top-level field: ''
                (split_on (CHR ''|'') line) [] idx")
  case (Inl e)
  then show ?thesis
    using assms by (auto simp: decode_line_def dest: parse_segments_error)
next
  case (Inr segs)
  show ?thesis
  proof (cases "filter (\<lambda>k. map_of segs k = None) REQUIRED_KEYS = []")
    case False
    then have "sort (filter (\<lambda>k. map_of segs k = None) REQUIRED_KEYS) \<noteq> []"
      by (metis set_empty set_sort)
    then show ?thesis
      using assms Inr by (simp add: decode_line_def Let_def) auto
  next
    case True
    then have "map_of segs ''ts'' \<noteq> None"
      by (simp add: filter_empty_conv) (simp add: REQUIRED_KEYS_def)
    then have ts: "line_timestamp rt line = py_int rt (seg segs ''ts'')"
      using parse_segments_messages [OF Inr] by (auto simp: line_timestamp_def seg_def)
    from True assms Inr show ?thesis
      by (auto simp: decode_line_def Let_def rbind_eq_Inl ts unrepresentable_time_def
          dest!: event_result_Inl parse_map_error parse_foreground_error mk_event_escapes
          split: option.splits)
  qed
qed

lemma decode_lines_error:
  "decode_lines rt now ls idx = Inl err \<Longrightarrow> client_error err \<or>
     (\<exists>l \<in> set ls. \<exists>ts. line_timestamp rt l = Some ts \<and> unrepresentable_time ts)"
  by (induction rt now ls idx rule: decode_lines.induct)
     (auto simp: rbind_eq_Inl dest: decode_line_error split: if_splits)

lemma protobuf_to_event_escapes:
  "protobuf_to_event rt now msg = Inl Escaped \<Longrightarrow> em_timestamp msg div 1000 > GMTIME_MAX_SECONDS"
  by (auto simp: protobuf_to_event_def message_args_def dest: mk_event_escapes)

lemma decode_frames_error:
  assumes "decode_frames rt now parse M B rest acc = Inl err"
    and "\<And>body msg. parse body = Some msg \<Longrightarrow> em_timestamp msg \<le> OTLP_INT64_MAX"
  shows "client_error err"
  using assms
proof (induction rt now parse M B rest acc rule: decode_frames.induct)
  case (1 rt now parse M B rest acc)
  have no: "protobuf_to_event rt now msg \<noteq> Inl Escaped" if "parse body = Some msg" for body msg
    using "1.prems"(2) [OF that] by (auto simp: consts_simps dest!: protobuf_to_event_escapes)
  have er: "client_error e" if "parse body = Some msg"
    "event_result idx (protobuf_to_event rt now msg) = Inl e" for body msg idx e
    using event_result_Inl that no by blast
  from "1.prems"(1) consider "client_error err" | msg e where
    "rest \<noteq> []" "\<not> M \<le> length acc" "\<not> length rest < PROTOBUF_LENGTH_BYTES"
    "from_bytes_big (take PROTOBUF_LENGTH_BYTES rest) \<noteq> 0"
    "\<not> B < from_bytes_big (take PROTOBUF_LENGTH_BYTES rest)"
    "\<not> length (drop PROTOBUF_LENGTH_BYTES rest) < from_bytes_big (take PROTOBUF_LENGTH_BYTES rest)"
    "parse (take (from_bytes_big (take PROTOBUF_LENGTH_BYTES rest)) (drop PROTOBUF_LENGTH_BYTES rest)) =
       Some msg"
    "event_result (length acc) (protobuf_to_event rt now msg) = Inr e"
    "decode_frames rt now parse M B (drop (from_bytes_big (take PROTOBUF_LENGTH_BYTES rest))
       (drop PROTOBUF_LENGTH_BYTES rest)) (acc @ [e]) = Inl err"
    by (subst (asm) decode_frames.simps)
       (auto simp: Let_def er simp del: event_result_Inr drop_drop
        split: if_splits option.splits sum.splits)
  then show ?case
    using "1.IH" [OF _ refl _ _ refl refl] "1.prems"(2) by cases blast+
qed

subsection \<open>Properties\<close>

definition sample_message :: event_message where
  "sample_message =
     \<lparr>em_timestamp = 1000, em_event_id = ''e1'', em_module = ''core'', em_name = ''sdk_health'',
      em_kind = ''METRIC'', em_severity = ''INFO'', em_priority = ''LOW'', em_process_name = ''p'',
      em_thread_name = ''t'', em_scene = [], em_foreground = True, em_fields = [],
      em_global_context = [], em_extras = [], em_typed_fields = [], em_occurrence = None\<rparr>"

definition sample_parse :: "string \<Rightarrow> event_message option" where
  "sample_parse body = (if body = ''ok'' then Some sample_message else None)"

definition sample_line :: "string \<Rightarrow> string" where
  "sample_line ts =
     ''ts='' @ ts @ ''|eventId=e1|module=core|name=sdk_health|kind=METRIC|severity=INFO'' @
     ''|priority=LOW|process=p|thread=t|scene=main|foreground=true|fields=a=1,b=x=y|extra=7''"

text \<open>
  The Protobuf decoder accepts exactly the streams that are a concatenation of one or more
  length-prefixed frames, at most \<open>max_events\<close> of them, each non-empty, within the frame limit,
  parseable and a valid event; the decoded events are those of the frames in order. In particular
  no byte of the stream is skipped or read twice.
\<close>

theorem protobuf_stream_accepted:
  assumes "max_event_bytes < 2 ^ 32"
  shows "decode_protobuf_batch rt now parse payload max_events max_event_bytes = Inr events \<longleftrightarrow>
    (\<exists>bodies. bodies \<noteq> [] \<and> length bodies \<le> max_events \<and>
       payload = concat (map protobuf_frame bodies) \<and>
       list_all2 (frame_event rt now parse max_event_bytes) bodies events)"
proof
  assume "decode_protobuf_batch rt now parse payload max_events max_event_bytes = Inr events"
  then have ne: "payload \<noteq> []"
    and run: "decode_frames rt now parse max_events max_event_bytes payload [] = Inr events"
    by (auto simp: decode_protobuf_batch_def split: if_splits)
  from decode_frames_sound [OF run] obtain bodies where
    "payload = concat (map protobuf_frame bodies)" "bodies = [] \<or> length bodies \<le> max_events"
    "list_all2 (frame_event rt now parse max_event_bytes) bodies events"
    by auto
  moreover from this ne have "bodies \<noteq> []" by auto
  ultimately show "\<exists>bodies. bodies \<noteq> [] \<and> length bodies \<le> max_events \<and>
       payload = concat (map protobuf_frame bodies) \<and>
       list_all2 (frame_event rt now parse max_event_bytes) bodies events"
    by blast
next
  assume "\<exists>bodies. bodies \<noteq> [] \<and> length bodies \<le> max_events \<and>
       payload = concat (map protobuf_frame bodies) \<and>
       list_all2 (frame_event rt now parse max_event_bytes) bodies events"
  then obtain bodies where b: "bodies \<noteq> []" "length bodies \<le> max_events"
    "payload = concat (map protobuf_frame bodies)"
    "list_all2 (frame_event rt now parse max_event_bytes) bodies events"
    by auto
  then have "payload \<noteq> []"
    by (cases bodies) (auto simp: protobuf_frame_def to_bytes_big4_def)
  with b show "decode_protobuf_batch rt now parse payload max_events max_event_bytes = Inr events"
    using decode_frames_complete [OF b(4), of "[]" max_events] assms
    by (simp add: decode_protobuf_batch_def)
qed

theorem protobuf_stream_accepted_witness:
  "\<exists>e. decode_protobuf_batch sample_runtime 2000000 sample_parse
         (protobuf_frame ''ok'' @ protobuf_frame ''ok'') 5 100 = Inr [e, e]"
proof -
  obtain e where e: "protobuf_to_event sample_runtime 2000000 sample_message = Inr e"
    by (cases "protobuf_to_event sample_runtime 2000000 sample_message") (code_simp, simp)
  then have "frame_event sample_runtime 2000000 sample_parse 100 ''ok'' e"
    by (simp add: frame_event_def sample_parse_def)
  then have "decode_protobuf_batch sample_runtime 2000000 sample_parse
         (protobuf_frame ''ok'' @ protobuf_frame ''ok'') 5 100 = Inr [e, e]"
    by (subst protobuf_stream_accepted) (auto intro!: exI [of _ "[''ok'', ''ok'']"])
  then show ?thesis ..
qed

lemma decode_batch_ok:
  assumes "decode_batch rt now parse payload content_type max_events max_event_bytes = Inr events"
  shows "events \<noteq> [] \<and> length events \<le> max_events \<and> list_all (valid_event rt now) events"
proof -
  consider (line) "decode_lines rt now (splitlines payload) 0 = Inr events"
      "\<not> list_all (\<lambda>l. l = []) (splitlines payload)" "length (splitlines payload) \<le> max_events"
    | (frames) "payload \<noteq> []"
      "decode_frames rt now parse max_events max_event_bytes payload [] = Inr events"
    using assms by (auto simp: decode_batch_def decode_line_batch_def decode_protobuf_batch_def
        Let_def split: if_splits)
  then show ?thesis
  proof cases
    case line
    then show ?thesis using decode_lines_valid [OF line(1)] by auto
  next
    case frames
    from decode_frames_sound [OF frames(2)] obtain bodies where
      b: "payload = concat (map protobuf_frame bodies)" "bodies = [] \<or> length bodies \<le> max_events"
      "list_all2 (frame_event rt now parse max_event_bytes) bodies events"
      by auto
    then have "list_all (valid_event rt now) events"
      using frame_event_valid by (auto simp: list_all_length list_all2_conv_all_nth)
    then show ?thesis
      using b frames(1) by (auto dest: list_all2_lengthD)
  qed
qed

text \<open>
  C38. A batch that either V1 protocol accepts is non-empty, holds at most \<open>max_events\<close> events, and
  every one of them satisfies all the domain limits at the time of decoding.
\<close>

theorem decoded_batch_valid:
  assumes "decode_batch rt now parse payload content_type max_events max_event_bytes = Inr events"
  shows "events \<noteq> [] \<and> length events \<le> max_events \<and> list_all (valid_event rt now) events"
  by (rule decode_batch_ok [OF assms])

theorem decoded_batch_valid_witness:
  "\<exists>events. events \<noteq> [] \<and> length events \<le> 5 \<and>
     list_all (valid_event sample_runtime 2000000) events"
proof -
  obtain es where "decode_batch sample_runtime 2000000 sample_parse (sample_line ''1000'')
      LINE_CONTENT_TYPE 5 100 = Inr es"
    by (cases "decode_batch sample_runtime 2000000 sample_parse (sample_line ''1000'')
      LINE_CONTENT_TYPE 5 100") (code_simp, simp)
  from decoded_batch_valid [OF this] show ?thesis by blast
qed

text \<open>
  A batch that is refused is refused with a located, non-retryable client error (400, 413, 415
  or 422), with one exception: a line whose decimal timestamp is too large for the platform's
  calendar conversion. Protobuf timestamps are 64-bit, so they never reach that exception.
\<close>

theorem refused_batch_is_client_error:
  assumes "decode_batch rt now parse payload content_type max_events max_event_bytes = Inl err"
    and "\<And>body msg. parse body = Some msg \<Longrightarrow> em_timestamp msg \<le> OTLP_INT64_MAX"
  shows "client_error err \<or>
    content_type = LINE_CONTENT_TYPE \<and>
      (\<exists>line \<in> set (splitlines payload). \<exists>ts. line_timestamp rt line = Some ts \<and>
         unrepresentable_time ts)"
  using assms(1) decode_lines_error [of rt now "splitlines payload" 0 err]
    decode_frames_error [of rt now parse max_events max_event_bytes payload "[]" err, OF _ assms(2)]
  by (auto simp: decode_batch_def decode_line_batch_def decode_protobuf_batch_def Let_def
      split: if_splits)

theorem refused_batch_is_client_error_witness:
  "\<exists>err. decode_batch sample_runtime 2000000 sample_parse ''abcd'' PROTOBUF_CONTENT_TYPE 5 100 = Inl err \<and>
     client_error err"
proof -
  obtain err where r: "decode_batch sample_runtime 2000000 sample_parse ''abcd''
      PROTOBUF_CONTENT_TYPE 5 100 = Inl err"
    by (cases "decode_batch sample_runtime 2000000 sample_parse ''abcd'' PROTOBUF_CONTENT_TYPE 5 100")
       (simp, code_simp)
  have int64: "em_timestamp msg \<le> OTLP_INT64_MAX" if "sample_parse body = Some msg" for body msg
    using that by (auto simp: sample_parse_def sample_message_def consts_simps split: if_splits)
  have "client_error err"
    using refused_batch_is_client_error [OF r int64] by (auto simp: consts_simps)
  with r show ?thesis by blast
qed

text \<open>
  The exception is real: a well-formed line with a 21-digit timestamp makes the decoder raise
  an error that is not a validation error, so the request ends as an internal server error.
\<close>

theorem line_timestamp_overflow_uncaught:
  "decode_line_batch sample_runtime 2000000 (sample_line ''100000000000000000000'') 5 =
     Inl (Uncaught ''OverflowError'')"
  by code_simp

end
