(* ===== verification/Apm_Envelope.thy ===== *)
theory Apm_Envelope
  imports Apm_Protocol
begin

section \<open>The versioned batch envelopes\<close>

text \<open>
  \<^verbatim>\<open>protocol/envelope_v2.py\<close> and \<^verbatim>\<open>protocol/envelope_v3.py\<close>: the strict decoders of the schema V2
  and V3 envelopes, with the typed scalars and the batch identity that is recomputed from the
  ordered event identifiers. The generated parser of the whole envelope is a parameter. The lemmas
  show that a typed scalar is kept without loss and in range, that the hashed batch identity
  determines the schema version and the ordered identifiers, and what an accepted envelope
  guarantees.
\<close>

subsection \<open>Constants and message types\<close>

definition SCHEMA_VERSION_V1 :: string where [consts_simps]: "SCHEMA_VERSION_V1 = ''1''"
definition SCHEMA_VERSION_V2 :: string where [consts_simps]: "SCHEMA_VERSION_V2 = ''2''"
definition SCHEMA_VERSION_V3 :: string where [consts_simps]: "SCHEMA_VERSION_V3 = ''3''"
definition SDK_NAME :: string where [consts_simps]: "SDK_NAME = ''android-apm''"
definition V2_BATCH_ID_PREFIX :: string where [consts_simps]: "V2_BATCH_ID_PREFIX = ''b2-''"
definition V3_BATCH_ID_PREFIX :: string where [consts_simps]: "V3_BATCH_ID_PREFIX = ''b3-''"
definition V2_BATCH_ID_HASH_BYTES :: nat where [consts_simps]: "V2_BATCH_ID_HASH_BYTES = 16"
definition V3_BATCH_ID_HASH_BYTES :: nat where [consts_simps]: "V3_BATCH_ID_HASH_BYTES = 16"
definition MAX_ARBITRARY_PRECISION_CHARACTERS :: nat where
  [consts_simps]: "MAX_ARBITRARY_PRECISION_CHARACTERS = 4096"

record resource_message =
  rm_service_name :: string
  rm_service_version :: string
  rm_deployment_environment :: string
  rm_installation_id :: string

record envelope_message =
  bm_schema_version :: int
  bm_sdk_name :: string
  bm_sdk_version :: string
  bm_batch_id :: string
  bm_sent_at_ms :: int
  bm_resource :: resource_message
  bm_events :: "event_message list"

record decoded_envelope_v2 =
  de2_events :: "apm_event list"
  de2_batch_id :: string
  de2_sdk_version :: string
  de2_service_name :: string
  de2_service_version :: string
  de2_deployment_environment :: string
  de2_installation_id :: string

record decoded_envelope_v3 =
  de3_events :: "apm_event list"
  de3_batch_id :: string
  de3_sdk_version :: string
  de3_service_name :: string
  de3_service_version :: string
  de3_deployment_environment :: string

subsection \<open>Typed scalars\<close>

definition INTEGER_BOUNDS :: "(string \<times> int \<times> int) list" where
  "INTEGER_BOUNDS =
     [(''BYTE'', (- 128, 127)), (''SHORT'', (- 32768, 32767)),
      (''INT'', (- 2147483648, 2147483647)),
      (''LONG'', (- 9223372036854775808, 9223372036854775807))]"

definition CANONICAL_NON_FINITE_FLOATS :: "string list" where
  "CANONICAL_NON_FINITE_FLOATS = [''NaN'', ''Infinity'', ''-Infinity'']"

definition canonical_integer :: "runtime \<Rightarrow> string \<Rightarrow> string + int" where
  "canonical_integer rt v =
     (if cp_len v > MAX_ARBITRARY_PRECISION_CHARACTERS
      then Inl ''Integer typed value exceeds 4096 characters''
      else case py_int rt v of
        None \<Rightarrow> Inl (rt_conversion_error rt ''int'' v)
      | Some parsed \<Rightarrow>
          if int_str parsed \<noteq> v
          then Inl ''Integer typed values must use canonical base-ten text''
          else Inr parsed)"

definition plain_decimal :: "string \<Rightarrow> bool" where
  "plain_decimal v =
     (case partition_on (CHR ''.'') (if starts_with ''-'' v then tl v else v) of
        (whole, separator, fraction) \<Rightarrow>
          whole \<noteq> [] \<and> list_all is_digit whole \<and> (whole = ''0'' \<or> hd whole \<noteq> CHR ''0'') \<and>
          (separator \<longrightarrow> fraction \<noteq> [] \<and> list_all is_digit fraction))"

definition validate_big_decimal :: "string \<Rightarrow> string + unit" where
  "validate_big_decimal v =
     (if cp_len v > MAX_ARBITRARY_PRECISION_CHARACTERS
      then Inl ''BIG_DECIMAL typed value exceeds 4096 characters''
      else if \<not> plain_decimal v
      then Inl ''BIG_DECIMAL typed values must use plain canonical decimal text''
      else Inr ())"

definition typed_value :: "runtime \<Rightarrow> typed_value_message \<Rightarrow> string + scalar" where
  "typed_value rt typed =
     (let ty = tv_type typed; v = tv_value typed
      in if ty = ''NULL''
         then (if v \<noteq> [] then Inl ''NULL typed values must not carry text'' else Inr SNone)
         else if ty = ''STRING'' then Inr (SStr v)
         else if ty = ''BOOLEAN''
         then (if v = ''true'' then Inr (SBool True)
               else if v = ''false'' then Inr (SBool False)
               else Inl ''BOOLEAN typed values must be true or false'')
         else case map_of INTEGER_BOUNDS ty of
           Some (lower, upper) \<Rightarrow>
             rbind (canonical_integer rt v) (\<lambda>parsed.
               if parsed < lower \<or> parsed > upper then Inl (ty @ '' typed value is out of range'')
               else Inr (SInt parsed))
         | None \<Rightarrow>
             if ty = ''FLOAT'' \<or> ty = ''DOUBLE''
             then (case rt_float_of_str rt v of
                     None \<Rightarrow> Inl (rt_conversion_error rt ''float'' v)
                   | Some f \<Rightarrow>
                       if finite_value f = None
                       then (if v \<notin> set CANONICAL_NON_FINITE_FLOATS
                             then Inl (ty @ '' non-finite value must use canonical Kotlin text'')
                             else Inr (SStr v))
                       else Inr (SFloat f))
             else if ty = ''CHAR''
             then (if cp_len v \<noteq> 1 then Inl ''CHAR typed values must contain one character''
                   else Inr (SStr v))
             else if ty = ''BIG_INTEGER'' then rbind (canonical_integer rt v) (\<lambda>_. Inr (SStr v))
             else if ty = ''BIG_DECIMAL'' then rbind (validate_big_decimal v) (\<lambda>_. Inr (SStr v))
             else Inl (''Unknown typed scalar discriminator: '' @ ty))"

definition typed_fields ::
    "runtime \<Rightarrow> event_message \<Rightarrow> string + (string \<times> scalar) list \<times> (string \<times> string) list" where
  "typed_fields rt msg =
     rbind (rmap (\<lambda>(key, typed). rbind (typed_value rt typed) (\<lambda>v. Inr (key, v)))
              (em_typed_fields msg)) (\<lambda>values.
       Inr (values, map (\<lambda>(key, typed). (key, tv_type typed)) (em_typed_fields msg)))"

subsection \<open>Batch identity\<close>

text \<open>The bytes that are hashed, and the truncated hexadecimal digest behind the prefix.\<close>

definition batch_preimage :: "nat \<Rightarrow> string list \<Rightarrow> string" where
  "batch_preimage version event_ids =
     char_of version # concat (map (\<lambda>i. to_bytes_big4 (length i) @ i) event_ids)"

definition stable_batch_id :: "runtime \<Rightarrow> string list \<Rightarrow> string" where
  "stable_batch_id rt event_ids =
     V2_BATCH_ID_PREFIX @ take (2 * V2_BATCH_ID_HASH_BYTES) (rt_sha256_hex rt (batch_preimage 2 event_ids))"

definition stable_batch_id_v3 :: "runtime \<Rightarrow> string list \<Rightarrow> string" where
  "stable_batch_id_v3 rt event_ids =
     V3_BATCH_ID_PREFIX @ take (2 * V3_BATCH_ID_HASH_BYTES) (rt_sha256_hex rt (batch_preimage 3 event_ids))"

definition batch_id_pattern :: "string \<Rightarrow> string \<Rightarrow> bool" where
  "batch_id_pattern pre v \<longleftrightarrow>
     starts_with pre v \<and> length v = length pre + 32 \<and> list_all is_lower_hex (drop (length pre) v)"

subsection \<open>Events\<close>

definition invalid_envelope :: "string \<Rightarrow> exn" where
  "invalid_envelope msg = mk_error 422 ''invalid_event'' msg False (Some 0)"

definition require_bounded :: "string \<Rightarrow> string \<Rightarrow> nat \<Rightarrow> unit result" where
  "require_bounded v name max_bytes =
     guard (v \<noteq> [] \<and> length v \<le> max_bytes)
       (invalid_envelope (name @ '' must contain 1-'' @ nat_str max_bytes @ '' UTF-8 bytes''))"

definition value_result :: "nat \<Rightarrow> string + 'a \<Rightarrow> 'a result" where
  "value_result idx r =
     (case r of Inl msg \<Rightarrow> Inl (invalid_event (safe_value_error msg) idx) | Inr x \<Rightarrow> Inr x)"

definition v2_to_event ::
    "runtime \<Rightarrow> time \<Rightarrow> (string \<times> string) list \<Rightarrow> event_message \<Rightarrow> nat \<Rightarrow> apm_event result" where
  "v2_to_event rt now resource_values msg idx =
     rbind (guard (em_occurrence msg = None)
              (invalid_event ''V2 events must not carry the schema V3 occurrence field'' idx)) (\<lambda>_.
     rbind (guard (em_fields msg = [])
              (invalid_event ''V2 events must use typed_fields instead of legacy fields'' idx)) (\<lambda>_.
     rbind (value_result idx (typed_fields rt msg)) (\<lambda>(values, types).
     event_result idx (mk_event rt now (message_args msg values types resource_values None)))))"

definition occurrence_of :: "occurrence_message \<Rightarrow> occurrence_context validated" where
  "occurrence_of m =
     rbind (rmap (\<lambda>f. mk_native_frame (nm_abi f) (nm_module_build_id f) (nm_module_name f)
                        (nm_module_relative_pc f) (nm_load_bias f)) (om_native_frames m)) (\<lambda>frames.
     mk_occurrence (om_service_version m) (om_version_code m) (om_app_build m) (om_variant m)
       (om_installation_id m) frames)"

definition v3_to_event ::
    "runtime \<Rightarrow> time \<Rightarrow> (string \<times> string) list \<Rightarrow> event_message \<Rightarrow> nat \<Rightarrow> apm_event result" where
  "v3_to_event rt now resource_values msg idx =
     rbind (guard (em_fields msg = [])
              (invalid_event ''V3 events must use typed_fields instead of legacy fields'' idx)) (\<lambda>_.
     case em_occurrence msg of
       None \<Rightarrow> Inl (invalid_event ''V3 events require an occurrence snapshot'' idx)
     | Some om \<Rightarrow>
         rbind (value_result idx (typed_fields rt msg)) (\<lambda>(values, types).
         rbind (event_result idx (occurrence_of om)) (\<lambda>occurrence.
         event_result idx
           (mk_event rt now (message_args msg values types resource_values (Some occurrence))))))"

fun indexed_events ::
    "(event_message \<Rightarrow> nat \<Rightarrow> apm_event result) \<Rightarrow> event_message list \<Rightarrow> nat \<Rightarrow> apm_event list result" where
  "indexed_events conv [] idx = Inr []"
| "indexed_events conv (msg # msgs) idx =
     rbind (conv msg idx) (\<lambda>e. rbind (indexed_events conv msgs (Suc idx)) (\<lambda>es. Inr (e # es)))"

subsection \<open>Envelopes\<close>

definition decode_envelope_v2 ::
    "runtime \<Rightarrow> time \<Rightarrow> (string \<Rightarrow> envelope_message option) \<Rightarrow> string \<Rightarrow> nat
       \<Rightarrow> decoded_envelope_v2 result" where
  "decode_envelope_v2 rt now parse payload max_events =
     rbind (guard (payload \<noteq> []) (invalid_envelope ''The V2 envelope must not be empty'')) (\<lambda>_.
     case parse payload of
       None \<Rightarrow> Inl (invalid_envelope ''The V2 Protobuf envelope is invalid'')
     | Some msg \<Rightarrow>
     rbind (guard (Some (bm_schema_version msg) = parse_int SCHEMA_VERSION_V2)
              (invalid_envelope ''The body schema version must be 2'')) (\<lambda>_.
     rbind (guard (bm_sdk_name msg = SDK_NAME)
              (invalid_envelope ''The SDK name is not supported'')) (\<lambda>_.
     rbind (require_bounded (bm_sdk_version msg) ''SDK version'' 64) (\<lambda>_.
     rbind (guard (bm_sent_at_ms msg > 0)
              (invalid_envelope ''The envelope sent_at_ms must be positive'')) (\<lambda>_.
     rbind (guard (batch_id_pattern V2_BATCH_ID_PREFIX (bm_batch_id msg))
              (invalid_envelope ''The envelope batch ID is malformed'')) (\<lambda>_.
     rbind (guard (bm_events msg \<noteq> [])
              (invalid_envelope ''The V2 envelope must contain at least one event'')) (\<lambda>_.
     rbind (guard (length (bm_events msg) \<le> max_events)
              (mk_error 413 ''payload_too_large'' ''The batch contains too many events'' False None)) (\<lambda>_.
     let resource_values =
           [(''resource.serviceName'', rm_service_name (bm_resource msg)),
            (''resource.serviceVersion'', rm_service_version (bm_resource msg)),
            (''resource.deploymentEnvironment'', rm_deployment_environment (bm_resource msg))]
     in
     rbind (rmap (\<lambda>(name, v). require_bounded v name MAX_IDENTIFIER_BYTES) resource_values) (\<lambda>_.
     rbind (require_bounded (rm_installation_id (bm_resource msg)) ''resource.installationId''
              MAX_IDENTIFIER_BYTES) (\<lambda>_.
     rbind (indexed_events (v2_to_event rt now resource_values) (bm_events msg) 0) (\<lambda>events.
     rbind (guard (bm_batch_id msg = stable_batch_id rt (map ev_event_id events))
              (invalid_envelope ''The envelope batch ID does not match its ordered event IDs'')) (\<lambda>_.
     Inr \<lparr>de2_events = events, de2_batch_id = bm_batch_id msg, de2_sdk_version = bm_sdk_version msg,
          de2_service_name = rm_service_name (bm_resource msg),
          de2_service_version = rm_service_version (bm_resource msg),
          de2_deployment_environment = rm_deployment_environment (bm_resource msg),
          de2_installation_id = rm_installation_id (bm_resource msg)\<rparr>))))))))))))"

definition decode_envelope_v3 ::
    "runtime \<Rightarrow> time \<Rightarrow> (string \<Rightarrow> envelope_message option) \<Rightarrow> string \<Rightarrow> nat
       \<Rightarrow> decoded_envelope_v3 result" where
  "decode_envelope_v3 rt now parse payload max_events =
     rbind (guard (payload \<noteq> []) (invalid_envelope ''The V3 envelope must not be empty'')) (\<lambda>_.
     case parse payload of
       None \<Rightarrow> Inl (invalid_envelope ''The V3 Protobuf envelope is invalid'')
     | Some msg \<Rightarrow>
     rbind (guard (Some (bm_schema_version msg) = parse_int SCHEMA_VERSION_V3)
              (invalid_envelope ''The body schema version must be 3'')) (\<lambda>_.
     rbind (guard (bm_sdk_name msg = SDK_NAME)
              (invalid_envelope ''The SDK name is not supported'')) (\<lambda>_.
     rbind (require_bounded (bm_sdk_version msg) ''SDK version'' 64) (\<lambda>_.
     rbind (guard (bm_sent_at_ms msg > 0)
              (invalid_envelope ''The envelope sent_at_ms must be positive'')) (\<lambda>_.
     rbind (guard (batch_id_pattern V3_BATCH_ID_PREFIX (bm_batch_id msg))
              (invalid_envelope ''The envelope batch ID is malformed'')) (\<lambda>_.
     rbind (guard (bm_events msg \<noteq> [])
              (invalid_envelope ''The V3 envelope must contain at least one event'')) (\<lambda>_.
     rbind (guard (length (bm_events msg) \<le> max_events)
              (mk_error 413 ''payload_too_large'' ''The batch contains too many events'' False None)) (\<lambda>_.
     let resource_values =
           [(''resource.serviceName'', rm_service_name (bm_resource msg)),
            (''resource.deploymentEnvironment'', rm_deployment_environment (bm_resource msg))]
     in
     rbind (rmap (\<lambda>(name, v). require_bounded v name MAX_IDENTIFIER_BYTES) resource_values) (\<lambda>_.
     rbind (require_bounded (rm_service_version (bm_resource msg)) ''resource.serviceVersion''
              MAX_IDENTIFIER_BYTES) (\<lambda>_.
     rbind (if rm_installation_id (bm_resource msg) = [] then Inr ()
            else require_bounded (rm_installation_id (bm_resource msg)) ''resource.installationId''
                   MAX_IDENTIFIER_BYTES) (\<lambda>_.
     rbind (indexed_events (v3_to_event rt now resource_values) (bm_events msg) 0) (\<lambda>events.
     rbind (guard (bm_batch_id msg = stable_batch_id_v3 rt (map ev_event_id events))
              (invalid_envelope ''The envelope batch ID does not match its ordered event IDs'')) (\<lambda>_.
     Inr \<lparr>de3_events = events, de3_batch_id = bm_batch_id msg, de3_sdk_version = bm_sdk_version msg,
          de3_service_name = rm_service_name (bm_resource msg),
          de3_service_version = rm_service_version (bm_resource msg),
          de3_deployment_environment = rm_deployment_environment (bm_resource msg)\<rparr>)))))))))))))"

subsection \<open>Scalars keep their text\<close>

lemma canonical_integer_Inr: "canonical_integer rt v = Inr i \<Longrightarrow> int_str i = v"
  by (auto simp: canonical_integer_def split: if_splits option.splits)

lemma integer_bounds_types:
  "map_of INTEGER_BOUNDS ty = Some b \<Longrightarrow> ty \<in> {''BYTE'', ''SHORT'', ''INT'', ''LONG''}"
  by (auto simp: INTEGER_BOUNDS_def split: if_splits)

lemma integer_bounds_None:
  "ty \<in> {''CHAR'', ''BIG_INTEGER'', ''BIG_DECIMAL'', ''FLOAT'', ''DOUBLE''} \<Longrightarrow>
     map_of INTEGER_BOUNDS ty = None"
  by (auto simp: INTEGER_BOUNDS_def)

definition exact_text_types :: "string list" where
  "exact_text_types =
     [''STRING'', ''CHAR'', ''BIG_INTEGER'', ''BIG_DECIMAL'', ''BYTE'', ''SHORT'', ''INT'', ''LONG'']"

lemma typed_value_integer:
  assumes "typed_value rt t = Inr v" and "map_of INTEGER_BOUNDS (tv_type t) = Some (l, u)"
  shows "\<exists>i. v = SInt i \<and> l \<le> i \<and> i \<le> u \<and> int_str i = tv_value t"
proof -
  have "tv_type t \<notin> {''NULL'', ''STRING'', ''BOOLEAN''}"
    using integer_bounds_types [OF assms(2)] by auto
  with assms show ?thesis
    by (auto simp: typed_value_def Let_def dest: canonical_integer_Inr split: if_splits)
qed

lemma typed_value_text:
  assumes "typed_value rt t = Inr v"
    and "tv_type t \<in> {''STRING'', ''CHAR'', ''BIG_INTEGER'', ''BIG_DECIMAL''}"
  shows "v = SStr (tv_value t)"
  using assms by (auto simp: typed_value_def Let_def integer_bounds_None split: if_splits)

lemma typed_fields_Inr:
  assumes "typed_fields rt msg = Inr (vs, tys)"
  shows "map fst vs = map fst (em_typed_fields msg)"
    and "tys = map (\<lambda>(k, t). (k, tv_type t)) (em_typed_fields msg)"
    and "list_all2 (\<lambda>(k, t) (k', v). k' = k \<and> typed_value rt t = Inr v) (em_typed_fields msg) vs"
proof -
  have l: "list_all2 (\<lambda>x y. case x of (key, typed) \<Rightarrow> rbind (typed_value rt typed) (\<lambda>v. Inr (key, v)) = Inr y)
      (em_typed_fields msg) vs"
    using assms by (auto simp: typed_fields_def rmap_Inr_iff split_def)
  then show "list_all2 (\<lambda>(k, t) (k', v). k' = k \<and> typed_value rt t = Inr v) (em_typed_fields msg) vs"
    by (rule list_all2_mono) auto
  then show "map fst vs = map fst (em_typed_fields msg)"
    by (induction rule: list_all2_induct) auto
  show "tys = map (\<lambda>(k, t). (k, tv_type t)) (em_typed_fields msg)"
    using assms by (auto simp: typed_fields_def)
qed

subsection \<open>The batch identity determines the batch\<close>

lemma framed_inject:
  assumes "list_all (\<lambda>i. length i < 2 ^ 32) xs" and "list_all (\<lambda>i. length i < 2 ^ 32) ys"
    and "concat (map protobuf_frame xs) = concat (map protobuf_frame ys)"
  shows "xs = ys"
  using assms
proof (induction xs arbitrary: ys)
  case Nil
  then show ?case by (cases ys) (auto simp: protobuf_frame_def to_bytes_big4_def)
next
  case (Cons x xs)
  then obtain y ys' where ys: "ys = y # ys'"
    by (cases ys) (auto simp: protobuf_frame_def to_bytes_big4_def)
  from Cons.prems(3) have "protobuf_frame x @ concat (map protobuf_frame xs) =
      protobuf_frame y @ concat (map protobuf_frame ys')"
    by (simp add: ys)
  then have eq: "to_bytes_big4 (length x) @ x @ concat (map protobuf_frame xs) =
      to_bytes_big4 (length y) @ y @ concat (map protobuf_frame ys')"
    unfolding protobuf_frame_def [of x] protobuf_frame_def [of y] append_assoc .
  then have "to_bytes_big4 (length x) = to_bytes_big4 (length y)"
    by (subst (asm) append_eq_append_conv) simp_all
  moreover have "length x < 2 ^ 32" "length y < 2 ^ 32"
    using Cons.prems(1,2) ys by simp_all
  ultimately have len: "length x = length y"
    by (metis from_to_bytes_big4)
  with eq have "x = y" "concat (map protobuf_frame xs) = concat (map protobuf_frame ys')"
    by simp_all
  with Cons ys show ?case by simp
qed

lemma batch_preimage_frames:
  "batch_preimage v ids = char_of v # concat (map protobuf_frame ids)"
  by (simp add: batch_preimage_def protobuf_frame_def [abs_def])

subsection \<open>Accepted envelopes\<close>

lemma value_result_Inr [simp]: "value_result idx r = Inr x \<longleftrightarrow> r = Inr x"
  by (auto simp: value_result_def split: sum.splits)

lemma indexed_events_Inr:
  "indexed_events conv msgs idx = Inr es \<Longrightarrow>
     list_all2 (\<lambda>m e. \<exists>i. conv m i = Inr e) msgs es"
  by (induction conv msgs idx arbitrary: es rule: indexed_events.induct) auto

definition scalar_kept :: "runtime \<Rightarrow> event_message \<Rightarrow> apm_event \<Rightarrow> bool" where
  "scalar_kept rt msg e \<longleftrightarrow>
     ev_event_id e = em_event_id msg \<and> map fst (ev_fields e) = map fst (em_typed_fields msg) \<and>
     ev_field_types e = map (\<lambda>(k, t). (k, tv_type t)) (em_typed_fields msg) \<and>
     list_all2 (\<lambda>(k, t) (k', v). k' = k \<and> typed_value rt t = Inr v) (em_typed_fields msg) (ev_fields e)"

lemma message_event:
  assumes "typed_fields rt msg = Inr (vs, tys)"
    and "mk_event rt now (message_args msg vs tys rv occ) = Inr e"
  shows "valid_event rt now e" "scalar_kept rt msg e" "ev_unknown e = rv" "ev_occurrence e = occ"
  using mk_event_valid [OF assms(2)] typed_fields_Inr [OF assms(1)] mk_event_fields [OF assms(2)]
  by (simp_all add: scalar_kept_def message_args_def)

lemma v2_to_eventD:
  assumes "v2_to_event rt now rv msg idx = Inr e"
  shows "valid_event rt now e" "scalar_kept rt msg e" "ev_unknown e = rv" "ev_occurrence e = None"
proof -
  from assms obtain vs tys where
    "typed_fields rt msg = Inr (vs, tys)" "mk_event rt now (message_args msg vs tys rv None) = Inr e"
    by (auto simp: v2_to_event_def)
  from message_event [OF this] show
    "valid_event rt now e" "scalar_kept rt msg e" "ev_unknown e = rv" "ev_occurrence e = None"
    by simp_all
qed

lemma occurrence_of_valid:
  assumes "occurrence_of m = Inr c"
  shows "valid_occurrence c \<and> list_all valid_frame (oc_native_frames c)"
proof -
  from assms obtain frames where
    fs: "rmap (\<lambda>f. mk_native_frame (nm_abi f) (nm_module_build_id f) (nm_module_name f)
                    (nm_module_relative_pc f) (nm_load_bias f)) (om_native_frames m) = Inr frames"
    and c: "mk_occurrence (om_service_version m) (om_version_code m) (om_app_build m) (om_variant m)
       (om_installation_id m) frames = Inr c"
    by (auto simp: occurrence_of_def)
  have "list_all valid_frame frames"
    using rmap_set [OF fs] by (auto simp: list_all_iff dest: mk_native_frame_valid)
  moreover have "oc_native_frames c = frames"
    using c by (auto simp: mk_occurrence_def)
  ultimately show ?thesis using mk_occurrence_valid [OF c] by simp
qed

lemma v3_to_eventD:
  assumes "v3_to_event rt now rv msg idx = Inr e"
  shows "valid_event rt now e" "scalar_kept rt msg e" "ev_unknown e = rv"
    "\<exists>c. ev_occurrence e = Some c \<and> valid_occurrence c \<and> list_all valid_frame (oc_native_frames c)"
proof -
  from assms obtain om vs tys occ where
    om: "em_occurrence msg = Some om" and tf: "typed_fields rt msg = Inr (vs, tys)"
    and occ: "occurrence_of om = Inr occ"
    and e: "mk_event rt now (message_args msg vs tys rv (Some occ)) = Inr e"
    by (auto simp: v3_to_event_def split: option.splits)
  from message_event [OF tf e] occurrence_of_valid [OF occ] show
    "valid_event rt now e" "scalar_kept rt msg e" "ev_unknown e = rv"
    "\<exists>c. ev_occurrence e = Some c \<and> valid_occurrence c \<and> list_all valid_frame (oc_native_frames c)"
    by simp_all
qed

lemma decode_envelope_v2D:
  assumes "decode_envelope_v2 rt now parse payload max_events = Inr d"
  obtains msg rv where "parse payload = Some msg" "de2_events d \<noteq> []"
    "length (de2_events d) \<le> max_events" "de2_batch_id d = stable_batch_id rt (map ev_event_id (de2_events d))"
    "list_all2 (\<lambda>m e. \<exists>i. v2_to_event rt now rv m i = Inr e) (bm_events msg) (de2_events d)"
    "batch_id_pattern V2_BATCH_ID_PREFIX (de2_batch_id d)"
proof -
  from assms obtain msg rv where m: "parse payload = Some msg"
    and ev: "indexed_events (v2_to_event rt now rv) (bm_events msg) 0 = Inr (de2_events d)"
    and ne: "bm_events msg \<noteq> []" "length (bm_events msg) \<le> max_events"
    and id: "de2_batch_id d = stable_batch_id rt (map ev_event_id (de2_events d))"
      "batch_id_pattern V2_BATCH_ID_PREFIX (de2_batch_id d)"
    by (auto simp: decode_envelope_v2_def Let_def simp del: rmap.simps split: option.splits)
  from indexed_events_Inr [OF ev] ne have "de2_events d \<noteq> []" "length (de2_events d) \<le> max_events"
    by (auto dest: list_all2_lengthD)
  with m id indexed_events_Inr [OF ev] that show thesis by blast
qed

lemma decode_envelope_v3D:
  assumes "decode_envelope_v3 rt now parse payload max_events = Inr d"
  obtains msg where "parse payload = Some msg" "de3_events d \<noteq> []"
    "length (de3_events d) \<le> max_events" "de3_batch_id d = stable_batch_id_v3 rt (map ev_event_id (de3_events d))"
    "list_all2 (\<lambda>m e. \<exists>i. v3_to_event rt now
        [(''resource.serviceName'', rm_service_name (bm_resource msg)),
         (''resource.deploymentEnvironment'', rm_deployment_environment (bm_resource msg))] m i = Inr e)
      (bm_events msg) (de3_events d)"
    "batch_id_pattern V3_BATCH_ID_PREFIX (de3_batch_id d)"
proof -
  from assms obtain msg where m: "parse payload = Some msg"
    and ev: "indexed_events (v3_to_event rt now
        [(''resource.serviceName'', rm_service_name (bm_resource msg)),
         (''resource.deploymentEnvironment'', rm_deployment_environment (bm_resource msg))])
        (bm_events msg) 0 = Inr (de3_events d)"
    and ne: "bm_events msg \<noteq> []" "length (bm_events msg) \<le> max_events"
    and id: "de3_batch_id d = stable_batch_id_v3 rt (map ev_event_id (de3_events d))"
      "batch_id_pattern V3_BATCH_ID_PREFIX (de3_batch_id d)"
    by (auto simp: decode_envelope_v3_def Let_def simp del: rmap.simps split: option.splits)
  from indexed_events_Inr [OF ev] ne have "de3_events d \<noteq> []" "length (de3_events d) \<le> max_events"
    by (auto dest: list_all2_lengthD)
  with m id indexed_events_Inr [OF ev] that show thesis by blast
qed

subsection \<open>Properties\<close>



text \<open>
  The bytes hashed into a batch identity determine the schema version and the ordered list of
  event identifiers: no two different batches, of one schema version or of two, hash the same
  bytes. Event identifiers are at most 128 bytes long, so their length fits the four-byte prefix.
\<close>

theorem batch_identity_injective:
  assumes "v < 256" and "v' < 256"
    and "list_all (\<lambda>i. length i < 2 ^ 32) ids" and "list_all (\<lambda>i. length i < 2 ^ 32) ids'"
  shows "batch_preimage v ids = batch_preimage v' ids' \<longleftrightarrow> v = v' \<and> ids = ids'"
proof
  assume eq: "batch_preimage v ids = batch_preimage v' ids'"
  then have "(char_of v :: char) = char_of v'" by (simp add: batch_preimage_def)
  then have "v = v'" using assms(1,2) by (metis mod_less of_char_of)
  moreover have "ids = ids'"
    using eq framed_inject [OF assms(3,4)] by (simp add: batch_preimage_frames)
  ultimately show "v = v' \<and> ids = ids'" by simp
qed simp

theorem batch_identity_injective_witness:
  "batch_preimage 2 [''ab'', ''c''] \<noteq> batch_preimage 2 [''a'', ''bc''] \<and>
   batch_preimage 2 [''ab''] \<noteq> batch_preimage 3 [''ab'']"
  using batch_identity_injective [of 2 2 "[''ab'', ''c'']" "[''a'', ''bc'']"]
    batch_identity_injective [of 2 3 "[''ab'']" "[''ab'']"]
  by simp

text \<open>
  An accepted V3 envelope holds between one and \<open>max_events\<close> events, its identity is the one
  recomputed from their ordered identifiers, and every event is valid, carries a validated
  occurrence snapshot with validated native frames, keeps each typed field with its discriminator,
  and holds no resource attribute other than the service name and the environment, so that the
  batch-level installation identifier never enters an event.
\<close>

theorem accepted_v3_envelope:
  assumes "decode_envelope_v3 rt now parse payload max_events = Inr d"
  shows "de3_events d \<noteq> [] \<and> length (de3_events d) \<le> max_events \<and>
    de3_batch_id d = stable_batch_id_v3 rt (map ev_event_id (de3_events d)) \<and>
    (\<exists>msg. parse payload = Some msg \<and> list_all2 (scalar_kept rt) (bm_events msg) (de3_events d)) \<and>
    (\<forall>e \<in> set (de3_events d). valid_event rt now e \<and>
       map fst (ev_unknown e) = [''resource.serviceName'', ''resource.deploymentEnvironment''] \<and>
       (\<exists>c. ev_occurrence e = Some c \<and> valid_occurrence c \<and> list_all valid_frame (oc_native_frames c)))"
proof -
  let ?rv = "\<lambda>msg. [(''resource.serviceName'', rm_service_name (bm_resource msg)),
    (''resource.deploymentEnvironment'', rm_deployment_environment (bm_resource msg))]"
  from assms obtain msg where d: "parse payload = Some msg" "de3_events d \<noteq> []"
    "length (de3_events d) \<le> max_events"
    "de3_batch_id d = stable_batch_id_v3 rt (map ev_event_id (de3_events d))"
    and ev: "list_all2 (\<lambda>m e. \<exists>i. v3_to_event rt now (?rv msg) m i = Inr e) (bm_events msg) (de3_events d)"
    by (rule decode_envelope_v3D)
  have "list_all2 (scalar_kept rt) (bm_events msg) (de3_events d)"
    using ev by (rule list_all2_mono) (auto dest: v3_to_eventD(2))
  moreover have "valid_event rt now e \<and> ev_unknown e = ?rv msg \<and>
      (\<exists>c. ev_occurrence e = Some c \<and> valid_occurrence c \<and> list_all valid_frame (oc_native_frames c))"
    if "e \<in> set (de3_events d)" for e
  proof -
    from ev that obtain m i where "v3_to_event rt now (?rv msg) m i = Inr e"
      by (auto simp: list_all2_conv_all_nth in_set_conv_nth)
    from v3_to_eventD [OF this] show ?thesis by blast
  qed
  ultimately show ?thesis using d by auto
qed

definition sample_hash_runtime :: runtime where
  "sample_hash_runtime = sample_runtime\<lparr>rt_sha256_hex := (\<lambda>s. replicate 64 (CHR ''0''))\<rparr>"

definition sample_v3_parse :: "string \<Rightarrow> envelope_message option" where
  "sample_v3_parse payload =
     Some \<lparr>bm_schema_version = 3, bm_sdk_name = ''android-apm'', bm_sdk_version = ''1.0'',
       bm_batch_id = ''b3-'' @ replicate 32 (CHR ''0''), bm_sent_at_ms = 5,
       bm_resource = \<lparr>rm_service_name = ''app'', rm_service_version = ''1'',
         rm_deployment_environment = ''prod'', rm_installation_id = ''device''\<rparr>,
       bm_events = [sample_message\<lparr>
         em_typed_fields := [(''n'', \<lparr>tv_type = ''INT'', tv_value = ''7''\<rparr>)],
         em_occurrence := Some \<lparr>om_service_version = ''1'', om_version_code = ''10'',
           om_app_build = ''b'', om_variant = ''release'', om_installation_id = ''device'',
           om_native_frames = [\<lparr>nm_abi = ''arm64'', nm_module_build_id = ''ab'', nm_module_name = ''l'',
             nm_module_relative_pc = 16, nm_load_bias = None\<rparr>]\<rparr>\<rparr>]\<rparr>"

theorem accepted_v3_envelope_witness:
  "\<exists>d. decode_envelope_v3 sample_hash_runtime 2000000 sample_v3_parse ''x'' 5 = Inr d \<and>
     de3_events d \<noteq> [] \<and> length (de3_events d) \<le> 5 \<and>
     (\<forall>e \<in> set (de3_events d). valid_event sample_hash_runtime 2000000 e)"
proof -
  obtain d where d: "decode_envelope_v3 sample_hash_runtime 2000000 sample_v3_parse ''x'' 5 = Inr d"
    by (cases "decode_envelope_v3 sample_hash_runtime 2000000 sample_v3_parse ''x'' 5") (code_simp, simp)
  from accepted_v3_envelope [OF d] d show ?thesis by blast
qed

end
