(* ===== verification/Apm_Models.thy ===== *)
theory Apm_Models
  imports Apm_Domain
begin

section \<open>Tables\<close>

text \<open>
  \<^verbatim>\<open>db/models.py\<close>: one record per mapped class, with the columns in the order of the class. A
  table is a list of rows; a status column is a datatype with the stored text as a function.
  Indexes and ORM relationships have no counterpart; the unique constraints are predicates on
  tables that the operations are shown to keep.
\<close>

text \<open>The dialect name of the bound engine.\<close>

datatype dialect = Postgresql | Sqlite | Other_dialect string

datatype inbox_status = IS_pending | IS_processing | IS_delivered | IS_dead_letter | IS_awaiting_symbols

datatype symbol_status =
  SS_pending | SS_processing | SS_symbolized | SS_partially_symbolized | SS_symbols_missing
| SS_metadata_missing | SS_disabled | SS_failed

datatype job_kind = Job_java | Job_native

datatype artifact_kind = Java_mapping | Native_elf

fun inbox_status_text :: "inbox_status \<Rightarrow> string" where
  "inbox_status_text IS_pending = ''pending''"
| "inbox_status_text IS_processing = ''processing''"
| "inbox_status_text IS_delivered = ''delivered''"
| "inbox_status_text IS_dead_letter = ''dead_letter''"
| "inbox_status_text IS_awaiting_symbols = ''awaiting_symbols''"

fun symbol_status_text :: "symbol_status \<Rightarrow> string" where
  "symbol_status_text SS_pending = ''pending''"
| "symbol_status_text SS_processing = ''processing''"
| "symbol_status_text SS_symbolized = ''symbolized''"
| "symbol_status_text SS_partially_symbolized = ''partially_symbolized''"
| "symbol_status_text SS_symbols_missing = ''symbols_missing''"
| "symbol_status_text SS_metadata_missing = ''metadata_missing''"
| "symbol_status_text SS_disabled = ''disabled''"
| "symbol_status_text SS_failed = ''failed''"

fun job_kind_text :: "job_kind \<Rightarrow> string" where
  "job_kind_text Job_java = ''java''"
| "job_kind_text Job_native = ''native''"

fun artifact_kind_text :: "artifact_kind \<Rightarrow> string" where
  "artifact_kind_text Java_mapping = ''java_mapping''"
| "artifact_kind_text Native_elf = ''native_elf''"

record tenant =
  tn_id :: string
  tn_name :: string
  tn_active :: bool
  tn_created_at :: time
  tn_config_rollout_salt :: string

record ingest_key =
  ik_key_id :: string
  ik_tenant_id :: string
  ik_key_hash :: string
  ik_app_id :: string
  ik_environment :: string
  ik_active :: bool
  ik_expires_at :: "time option"
  ik_created_at :: time
  ik_revoked_at :: "time option"
  ik_description :: "string option"
  ik_requests_per_minute :: int
  ik_events_per_minute :: int

record ci_key =
  ck_key_id :: string
  ck_tenant_id :: string
  ck_key_hash :: string
  ck_app_id :: "string option"
  ck_scopes_json :: "string list"
  ck_active :: bool
  ck_expires_at :: "time option"
  ck_created_at :: time
  ck_revoked_at :: "time option"
  ck_description :: "string option"

record query_key =
  qk_key_id :: string
  qk_tenant_id :: string
  qk_key_hash :: string
  qk_app_id :: string
  qk_environment :: string
  qk_role :: string
  qk_active :: bool
  qk_expires_at :: "time option"
  qk_created_at :: time
  qk_revoked_at :: "time option"
  qk_description :: "string option"

record inbox_event =
  ie_id :: int
  ie_tenant_id :: string
  ie_event_id :: string
  ie_app_id :: string
  ie_environment :: string
  ie_schema_version :: string
  ie_sdk_version :: string
  ie_app_version :: "string option"
  ie_app_build :: "string option"
  ie_version_code :: "string option"
  ie_variant :: "string option"
  ie_protocol :: string
  ie_scope_identity_quality :: identity_quality
  ie_release_identity_quality :: identity_quality
  ie_installation_identity_quality :: identity_quality
  ie_installation_hmac :: "string option"
  ie_installation_hmac_key_version :: "string option"
  ie_event_timestamp_ms :: int
  ie_occurrence_timestamp_ms :: int
  ie_collection_timestamp_ms :: "int option"
  ie_timestamp_quality :: string
  ie_payload_json :: dict
  ie_payload_sha256 :: string
  ie_payload_size_bytes :: int
  ie_raw_pruned_at :: "time option"
  ie_finalized_at :: "time option"
  ie_normalization_version :: int
  ie_normalized_json :: json
  ie_incident_fingerprint :: "string option"
  ie_raw_incident_fingerprint :: "string option"
  ie_native_identity_json :: "json list"
  ie_request_id :: string
  ie_received_at :: time
  ie_status :: inbox_status
  ie_attempt_count :: int
  ie_next_attempt_at :: time
  ie_lease_owner :: "string option"
  ie_lease_expires_at :: "time option"
  ie_delivered_at :: "time option"
  ie_last_error_code :: "string option"
  ie_last_error_message :: "string option"

record symbol_artifact =
  sa_id :: int
  sa_tenant_id :: string
  sa_artifact_type :: artifact_kind
  sa_app_id :: string
  sa_version_code :: string
  sa_app_build :: string
  sa_variant :: string
  sa_abi :: string
  sa_build_id :: string
  sa_checksum_sha256 :: string
  sa_size_bytes :: int
  sa_storage_key :: string
  sa_status :: string
  sa_uploaded_by :: string
  sa_created_at :: time

record symbolization_job =
  sj_id :: int
  sj_inbox_event_id :: int
  sj_tenant_id :: string
  sj_event_id :: string
  sj_job_type :: job_kind
  sj_status :: symbol_status
  sj_artifact_id :: "int option"
  sj_input_sha256 :: string
  sj_result_json :: "json option"
  sj_fingerprint_sha256 :: "string option"
  sj_tool_name :: "string option"
  sj_tool_version :: "string option"
  sj_attempt_count :: int
  sj_next_attempt_at :: time
  sj_lease_owner :: "string option"
  sj_lease_expires_at :: "time option"
  sj_last_error_code :: "string option"
  sj_last_error_message :: "string option"
  sj_created_at :: time
  sj_updated_at :: time

record ingest_rate_window =
  rw_key_id :: string
  rw_window_started_at :: time
  rw_request_count :: int
  rw_event_count :: int

record remote_config_version =
  rc_id :: int
  rc_tenant_id :: string
  rc_app_id :: string
  rc_environment :: string
  rc_revision :: int
  rc_payload_json :: json
  rc_issued_at :: time
  rc_expires_at :: time
  rc_rollout_basis_points :: int
  rc_key_id :: string
  rc_signature_b64 :: string
  rc_active :: bool
  rc_created_by :: string
  rc_created_at :: time

record audit_log =
  al_tenant_id :: "string option"
  al_actor :: string
  al_action :: string
  al_object_type :: string
  al_object_id :: "string option"
  al_result :: string
  al_request_id :: "string option"
  al_details_json :: json
  al_created_at :: time

record release_decision =
  rd_id :: int
  rd_tenant_id :: string
  rd_app_id :: string
  rd_environment :: string
  rd_release_version :: string
  rd_decision :: string
  rd_actor :: string
  rd_evidence_from_ms :: int
  rd_evidence_to_ms :: int
  rd_reason :: string
  rd_evidence_json :: json
  rd_created_at :: time

subsection \<open>Constraints\<close>

definition inbox_key :: "inbox_event \<Rightarrow> string \<times> string" where
  "inbox_key r = (ie_tenant_id r, ie_event_id r)"

definition uq_inbox_tenant_event :: "inbox_event list \<Rightarrow> bool" where
  "uq_inbox_tenant_event tbl \<longleftrightarrow> distinct (map inbox_key tbl)"

definition inbox_primary_key :: "inbox_event list \<Rightarrow> bool" where
  "inbox_primary_key tbl \<longleftrightarrow> distinct (map ie_id tbl)"

definition artifact_identity :: "symbol_artifact \<Rightarrow> artifact_kind \<times> string list" where
  "artifact_identity a =
     (sa_artifact_type a,
      [sa_tenant_id a, sa_app_id a, sa_version_code a, sa_app_build a, sa_variant a, sa_abi a,
       sa_build_id a])"

definition uq_symbol_artifact_identity :: "symbol_artifact list \<Rightarrow> bool" where
  "uq_symbol_artifact_identity tbl \<longleftrightarrow> distinct (map artifact_identity tbl)"

definition uq_job_inbox_event :: "symbolization_job list \<Rightarrow> bool" where
  "uq_job_inbox_event tbl \<longleftrightarrow> distinct (map sj_inbox_event_id tbl)"

definition next_id :: "('r \<Rightarrow> int) \<Rightarrow> 'r list \<Rightarrow> int" where
  "next_id key tbl = foldl max 0 (map key tbl) + 1"

lemma foldl_max_ge: "m \<le> foldl max m xs" "x \<in> set xs \<Longrightarrow> x \<le> foldl max (m::int) xs"
  by (induction xs arbitrary: m) (auto intro: order_trans [OF max.cobounded1] order_trans [OF max.cobounded2])

lemma next_id_fresh: "r \<in> set tbl \<Longrightarrow> key r < next_id key tbl"
  using foldl_max_ge(2) [of "key r" "map key tbl" 0] by (auto simp: next_id_def)

lemma uq_inbox_unique:
  assumes "uq_inbox_tenant_event tbl" "r \<in> set tbl" "s \<in> set tbl" "inbox_key r = inbox_key s"
  shows "r = s"
  using assms by (auto simp: uq_inbox_tenant_event_def distinct_map inj_on_def)

lemma inbox_id_unique:
  assumes "inbox_primary_key tbl" "r \<in> set tbl" "s \<in> set tbl" "ie_id r = ie_id s"
  shows "r = s"
  using assms by (auto simp: inbox_primary_key_def distinct_map inj_on_def)

text \<open>The columns that identify and describe an acknowledged event; no worker changes them.\<close>

definition row_identity ::
    "inbox_event \<Rightarrow> string list \<times> string option list \<times> identity_quality list" where
  "row_identity r =
     ([ie_tenant_id r, ie_event_id r, ie_payload_sha256 r, ie_app_id r, ie_environment r],
      [ie_app_version r, ie_app_build r, ie_version_code r, ie_variant r, ie_installation_hmac r,
       ie_installation_hmac_key_version r],
      [ie_release_identity_quality r, ie_installation_identity_quality r])"

definition covers :: "inbox_event list \<Rightarrow> inbox_event list \<Rightarrow> bool" where
  "covers later earlier \<longleftrightarrow> row_identity ` set earlier \<subseteq> row_identity ` set later"

lemma row_identity_key: "row_identity r = row_identity s \<Longrightarrow> inbox_key r = inbox_key s"
  by (simp add: row_identity_def inbox_key_def)

end
