(* ===== verification/Apm_Identity.thy ===== *)
theory Apm_Identity
  imports Apm_Domain
begin

section \<open>Installation pseudonymization\<close>

text \<open>
  \<^verbatim>\<open>identity.py\<close>: the versioned HMAC key ring. Parsing the configured JSON, decoding Base64 and
  HMAC-SHA256 are fields of \<open>runtime\<close>. A raised \<open>ValueError\<close> is \<open>Inl\<close> of its message. The
  lemmas show that a parsed ring always holds its active key, with every key at least 32 bytes
  long, and that the authenticated message separates tenants.
\<close>

definition MIN_KEY_BYTES :: nat where [consts_simps]: "MIN_KEY_BYTES = 32"
definition MAX_KEY_VERSIONS :: nat where [consts_simps]: "MAX_KEY_VERSIONS = 16"
definition INSTALLATION_HMAC_DOMAIN :: string where
  "INSTALLATION_HMAC_DOMAIN = ''androidapm:installation:v1''"

record installation_hmac_key_ring =
  kr_keys :: "(string \<times> string) list"
  kr_active_version :: string

fun parse_ring_entries ::
    "runtime \<Rightarrow> dict \<Rightarrow> (string \<times> string) list \<Rightarrow> string + (string \<times> string) list" where
  "parse_ring_entries rt [] keys = Inr keys"
| "parse_ring_entries rt ((version, encoded) # rest) keys =
     (case str_of encoded of
        None \<Rightarrow> Inl ''installation HMAC key ring entry is invalid''
      | Some text \<Rightarrow>
          if version = [] \<or> cp_len version > 32
          then Inl ''installation HMAC key ring entry is invalid''
          else case rt_b64decode rt text of
            None \<Rightarrow> Inl ''installation HMAC key must use standard Base64''
          | Some secret \<Rightarrow>
              if length secret < MIN_KEY_BYTES
              then Inl ''installation HMAC keys must contain at least 32 bytes''
              else parse_ring_entries rt rest (dict_put version secret keys))"

definition parse_key_ring ::
    "runtime \<Rightarrow> string \<Rightarrow> string \<Rightarrow> string + installation_hmac_key_ring" where
  "parse_key_ring rt keys_json active_version =
     (case rt_json_loads rt keys_json of
        None \<Rightarrow> Inl ''installation HMAC key ring must be valid JSON''
      | Some document \<Rightarrow>
          (case obj_of document of
             None \<Rightarrow> Inl ''installation HMAC key ring must contain 1-16 versions''
           | Some entries \<Rightarrow>
               if entries = [] \<or> length entries > MAX_KEY_VERSIONS
               then Inl ''installation HMAC key ring must contain 1-16 versions''
               else rbind (parse_ring_entries rt entries []) (\<lambda>keys.
                 if map_of keys active_version = None
                 then Inl ''active installation HMAC key version is not configured''
                 else Inr \<lparr>kr_keys = keys, kr_active_version = active_version\<rparr>)))"

definition installation_message :: "string \<Rightarrow> string \<Rightarrow> string" where
  "installation_message tenant_id installation_id =
     join_with [char_of (0::nat)] [INSTALLATION_HMAC_DOMAIN, tenant_id, installation_id]"

definition digest ::
    "runtime \<Rightarrow> installation_hmac_key_ring \<Rightarrow> string \<Rightarrow> string \<Rightarrow> string option
       \<Rightarrow> string + string" where
  "digest rt ring tenant_id installation_id version =
     (let selected_version =
            (case version of None \<Rightarrow> kr_active_version ring
             | Some v \<Rightarrow> if v = [] then kr_active_version ring else v)
      in case map_of (kr_keys ring) selected_version of
           None \<Rightarrow> Inl ''installation HMAC key version is unavailable''
         | Some key \<Rightarrow> Inr (rt_hmac_sha256_hex rt key (installation_message tenant_id installation_id)))"

definition valid_ring :: "installation_hmac_key_ring \<Rightarrow> bool" where
  "valid_ring ring \<longleftrightarrow>
     map_of (kr_keys ring) (kr_active_version ring) \<noteq> None \<and>
     list_all (\<lambda>(v, k). v \<noteq> [] \<and> cp_len v \<le> 32 \<and> length k \<ge> MIN_KEY_BYTES) (kr_keys ring)"

lemma parse_ring_entries_strong:
  assumes "parse_ring_entries rt entries keys = Inr keys'"
    and "list_all (\<lambda>(v, k). v \<noteq> [] \<and> cp_len v \<le> 32 \<and> length k \<ge> MIN_KEY_BYTES) keys"
  shows "list_all (\<lambda>(v, k). v \<noteq> [] \<and> cp_len v \<le> 32 \<and> length k \<ge> MIN_KEY_BYTES) keys'"
  using assms
proof (induction rt entries keys rule: parse_ring_entries.induct)
  case (2 rt version encoded rest keys)
  then show ?case
    using set_dict_put by (fastforce simp: list_all_iff split: option.splits if_splits)
qed simp

lemma parse_key_ring_valid: "parse_key_ring rt j v = Inr ring \<Longrightarrow> valid_ring ring"
  by (auto simp: parse_key_ring_def valid_ring_def parse_ring_entries_strong
      split: option.splits if_splits)

lemma digest_active: "valid_ring ring \<Longrightarrow> \<exists>d. digest rt ring t i None = Inr d"
  by (auto simp: digest_def valid_ring_def)

lemma digest_version:
  "map_of (kr_keys ring) v = Some key \<Longrightarrow> v \<noteq> [] \<Longrightarrow>
     digest rt ring t i (Some v) = Inr (rt_hmac_sha256_hex rt key (installation_message t i))"
  by (simp add: digest_def)

lemma digest_None_eq_active:
  "kr_active_version ring \<noteq> [] \<Longrightarrow>
     digest rt ring t i None = digest rt ring t i (Some (kr_active_version ring))"
  by (simp add: digest_def)

lemma installation_message_inject:
  assumes "char_of (0::nat) \<notin> set t" and "char_of (0::nat) \<notin> set t'"
  shows "installation_message t i = installation_message t' i' \<longleftrightarrow> t = t' \<and> i = i'"
proof -
  have "t @ char_of (0::nat) # i = t' @ char_of (0::nat) # i' \<longleftrightarrow> t = t' \<and> i = i'"
    using assms by (auto simp: append_eq_append_conv2 append_eq_Cons_conv Cons_eq_append_conv)
  then show ?thesis by (simp add: installation_message_def)
qed

end
