(* ===== verification/Apm_Normalization.thy ===== *)
theory Apm_Normalization
  imports Apm_Domain
begin

section \<open>Normalization\<close>

text \<open>
  \<^verbatim>\<open>normalization.py\<close>: the field registry, the coercion of registered values, the incident
  fingerprint and the normalized projection stored beside the raw evidence. The two regular
  expressions of the scrubber are written out as scanners. The lemmas state what may reach the
  indexed projection: only registered names, only values of the registered type, finite and
  inside the unit's range; and that a fingerprint ignores addresses and line numbers.
\<close>

datatype field_type = Ty_integer | Ty_number | Ty_boolean | Ty_string
datatype cardinality = Card_low | Card_medium | Card_high | Card_sensitive

record field_definition =
  fd_schema_min :: int
  fd_module :: string
  fd_name :: string
  fd_field :: string
  fd_field_type :: field_type
  fd_unit :: "string option"
  fd_cardinality :: cardinality
  fd_pii :: bool
  fd_indexed :: bool

definition FieldDefinition ::
    "int \<Rightarrow> string \<Rightarrow> string \<Rightarrow> string \<Rightarrow> field_type \<Rightarrow> string option \<Rightarrow> cardinality \<Rightarrow> bool \<Rightarrow> bool
       \<Rightarrow> field_definition" where
  "FieldDefinition sm m n f ty u c pii idx =
     \<lparr>fd_schema_min = sm, fd_module = m, fd_name = n, fd_field = f, fd_field_type = ty,
      fd_unit = u, fd_cardinality = c, fd_pii = pii, fd_indexed = idx\<rparr>"

record normalization_result =
  nr_occurrence_timestamp_ms :: int
  nr_collection_timestamp_ms :: int
  nr_normalized_json :: json
  nr_incident_fingerprint :: "string option"
  nr_native_identity_json :: "json list"

definition FIELD_REGISTRY :: "field_definition list" where
  "FIELD_REGISTRY =
    [FieldDefinition 1 ''crash'' ''java_crash'' ''exceptionClass'' Ty_string None Card_medium False True,
     FieldDefinition 1 ''crash'' ''java_crash'' ''exceptionMessage'' Ty_string None Card_sensitive True False,
     FieldDefinition 1 ''crash'' ''java_crash'' ''stackTrace'' Ty_string None Card_sensitive True False,
     FieldDefinition 1 ''crash'' ''java_crash'' ''threadName'' Ty_string None Card_medium False True,
     FieldDefinition 1 ''crash'' ''java_crash'' ''processName'' Ty_string None Card_medium False True,
     FieldDefinition 1 ''anr'' ''anr_detected'' ''anrSource'' Ty_string None Card_low False True,
     FieldDefinition 1 ''anr'' ''anr_detected'' ''anrCause'' Ty_string None Card_low False True,
     FieldDefinition 1 ''anr'' ''anr_detected'' ''durationMs'' Ty_number (Some ''ms'') Card_low False True,
     FieldDefinition 1 ''anr'' ''anr_detected'' ''processName'' Ty_string None Card_medium False True,
     FieldDefinition 1 ''anr'' ''anr_detected'' ''mainThreadStack'' Ty_string None Card_sensitive True False,
     FieldDefinition 1 ''anr'' ''anr_detected'' ''tracesContent'' Ty_string None Card_sensitive True False,
     FieldDefinition 1 ''anr'' ''anr_detected'' ''stackSamples'' Ty_string None Card_sensitive True False,
     FieldDefinition 1 ''crash'' ''app_exit'' ''exitTimestamp'' Ty_integer (Some ''ms_epoch'') Card_low False False,
     FieldDefinition 1 ''crash'' ''app_exit'' ''reasonCode'' Ty_integer None Card_low False True,
     FieldDefinition 1 ''crash'' ''app_exit'' ''reasonName'' Ty_string None Card_low False True,
     FieldDefinition 1 ''crash'' ''app_exit'' ''importance'' Ty_integer None Card_low False True,
     FieldDefinition 1 ''crash'' ''app_exit'' ''description'' Ty_string None Card_sensitive True False,
     FieldDefinition 1 ''crash'' ''app_exit'' ''trace'' Ty_string None Card_sensitive True False,
     FieldDefinition 1 ''core'' ''sdk_health'' ''emitCount'' Ty_integer (Some ''events'') Card_low False True,
     FieldDefinition 1 ''core'' ''sdk_health'' ''dropCount'' Ty_integer (Some ''events'') Card_low False True,
     FieldDefinition 1 ''core'' ''sdk_health'' ''dropRate'' Ty_number (Some ''ratio'') Card_low False True,
     FieldDefinition 1 ''core'' ''sdk_health'' ''queueSize'' Ty_integer (Some ''events'') Card_low False True,
     FieldDefinition 1 ''core'' ''sdk_health'' ''queueBytes'' Ty_integer (Some ''bytes'') Card_low False True,
     FieldDefinition 1 ''core'' ''sdk_health'' ''avgUploadLatencyMs'' Ty_number (Some ''ms'') Card_low False True,
     FieldDefinition 1 ''core'' ''sdk_health'' ''maxUploadLatencyMs'' Ty_number (Some ''ms'') Card_low False True,
     FieldDefinition 1 ''core'' ''sdk_health'' ''internalErrorCount'' Ty_integer (Some ''events'') Card_low False True,
     FieldDefinition 1 ''core'' ''sdk_health'' ''diagnosticDroppedCount'' Ty_integer (Some ''events'') Card_low False True,
     FieldDefinition 1 ''core'' ''sdk_health'' ''diagnosticWriteFailureCount'' Ty_integer (Some ''events'') Card_low False True]"

definition registry_by_event :: "string \<Rightarrow> string \<Rightarrow> field_definition list" where
  "registry_by_event m n = filter (\<lambda>d. fd_module d = m \<and> fd_name d = n) FIELD_REGISTRY"

definition incident_event :: "string \<Rightarrow> string \<Rightarrow> bool" where
  "incident_event m n \<longleftrightarrow> (m, n) \<in> {(''crash'', ''java_crash''), (''anr'', ''anr_detected'')}"

definition stack_fields :: "string \<Rightarrow> string \<Rightarrow> string list" where
  "stack_fields m n =
     (if (m, n) = (''crash'', ''java_crash'') then [''stackTrace'']
      else if (m, n) = (''anr'', ''anr_detected'') then [''mainThreadStack'', ''stackSamples'']
      else [])"

subsection \<open>Evidence availability\<close>

definition field_availability :: "json \<Rightarrow> bool \<Rightarrow> (string \<times> json) list" where
  "field_availability normalized raw_pruned =
     (case Option.bind (obj_get ''field_states'' normalized) obj_of of
        None \<Rightarrow> []
      | Some states \<Rightarrow>
          let retained = (case Option.bind (obj_get ''registered_fields'' normalized) obj_of of
                            None \<Rightarrow> [] | Some d \<Rightarrow> d)
          in map (\<lambda>(key, state).
                    (key, if raw_pruned \<and> state = jstr ''AVAILABLE'' \<and> map_of retained key = None
                          then jstr ''EXPIRED'' else state))
                 (filter (\<lambda>(key, state). is_str state) states))"

subsection \<open>Coercion of registered values\<close>

definition int_of_float :: "pyfloat \<Rightarrow> int option" where
  "int_of_float f =
     (case finite_value f of
        None \<Rightarrow> None
      | Some q \<Rightarrow> if of_int \<lfloor>q\<rfloor> = q then Some \<lfloor>q\<rfloor> else None)"

definition coerce_integer :: "scalar \<Rightarrow> int option" where
  "coerce_integer v =
     Option.bind
       (case v of
          SNone \<Rightarrow> None
        | SBool _ \<Rightarrow> None
        | SInt i \<Rightarrow> Some i
        | SFloat f \<Rightarrow> int_of_float f
        | SStr s \<Rightarrow> (case parse_int s of
                      None \<Rightarrow> None
                    | Some i \<Rightarrow> if int_str i = s then Some i else None))
       (\<lambda>i. if OTLP_INT64_MIN \<le> i \<and> i \<le> OTLP_INT64_MAX then Some i else None)"

definition coerce_number :: "runtime \<Rightarrow> scalar \<Rightarrow> pyfloat option" where
  "coerce_number rt v =
     Option.bind
       (case v of
          SNone \<Rightarrow> None
        | SBool _ \<Rightarrow> None
        | SInt i \<Rightarrow> rt_float_of_int rt i
        | SFloat f \<Rightarrow> Some f
        | SStr s \<Rightarrow> rt_float_of_str rt s)
       (\<lambda>f. if finite_value f \<noteq> None then Some f else None)"

definition coerce_registered :: "runtime \<Rightarrow> scalar \<Rightarrow> field_type \<Rightarrow> scalar option" where
  "coerce_registered rt v expected =
     (case expected of
        Ty_integer \<Rightarrow> map_option SInt (coerce_integer v)
      | Ty_number \<Rightarrow> map_option SFloat (coerce_number rt v)
      | Ty_boolean \<Rightarrow>
          (case v of
             SBool b \<Rightarrow> Some (SBool b)
           | SStr s \<Rightarrow> if s = ''true'' then Some (SBool True)
                      else if s = ''false'' then Some (SBool False) else None
           | _ \<Rightarrow> None)
      | Ty_string \<Rightarrow> (case v of SStr s \<Rightarrow> Some (SStr s) | _ \<Rightarrow> None))"

fun num_value :: "scalar \<Rightarrow> rat option" where
  "num_value (SInt i) = Some (of_int i)"
| "num_value (SFloat f) = finite_value f"
| "num_value _ = None"

definition semantic_bounds :: "int \<Rightarrow> string option \<Rightarrow> scalar \<Rightarrow> scalar option" where
  "semantic_bounds timestamp unit converted =
     (case num_value converted of
        None \<Rightarrow> Some converted
      | Some q \<Rightarrow>
          if unit \<in> {Some ''events'', Some ''bytes'', Some ''ms'', Some ''ms_epoch'', Some ''ratio''}
             \<and> q < 0 then None
          else if unit = Some ''ratio'' \<and> q > 1 then None
          else if unit = Some ''ms_epoch''
                  \<and> (q \<le> 0 \<or> q > of_int (timestamp + MAX_FUTURE_SKEW_SECONDS * 1000)) then None
          else Some converted)"

definition normalized_value :: "runtime \<Rightarrow> apm_event \<Rightarrow> field_definition \<Rightarrow> scalar \<Rightarrow> scalar option" where
  "normalized_value rt e d v =
     Option.bind (coerce_registered rt v (fd_field_type d))
       (semantic_bounds (ev_timestamp e) (fd_unit d))"

definition field_state :: "runtime \<Rightarrow> apm_event \<Rightarrow> field_definition \<Rightarrow> string" where
  "field_state rt e d =
     (case map_of (ev_fields e) (fd_field d) of
        None \<Rightarrow> ''MISSING''
      | Some v \<Rightarrow> if normalized_value rt e d v = None then ''INVALID'' else ''AVAILABLE'')"

definition registered_of ::
    "runtime \<Rightarrow> apm_event \<Rightarrow> field_definition list \<Rightarrow> (string \<times> scalar) list" where
  "registered_of rt e defs =
     List.map_filter
       (\<lambda>d. case map_of (ev_fields e) (fd_field d) of
              None \<Rightarrow> None
            | Some v \<Rightarrow> map_option (Pair (fd_field d)) (normalized_value rt e d v)) defs"

subsection \<open>The incident fingerprint\<close>

fun truthy :: "scalar \<Rightarrow> bool" where
  "truthy SNone = False"
| "truthy (SBool b) = b"
| "truthy (SInt i) = (i \<noteq> 0)"
| "truthy (SFloat f) = (finite_value f \<noteq> Some 0)"
| "truthy (SStr s) = (s \<noteq> [])"

definition hex_run :: "string \<Rightarrow> nat" where
  "hex_run s = length (takeWhile is_hex s)"

definition address_len :: "string \<Rightarrow> nat" where
  "address_len s =
     (if starts_with ''0x'' s \<and> hex_run (drop 2 s) \<ge> 6 then 2 + hex_run (drop 2 s)
      else if hex_run s \<ge> 6 then hex_run s else 0)"

fun scrub_addresses :: "string \<Rightarrow> string" where
  "scrub_addresses s =
     (case s of
        [] \<Rightarrow> []
      | c # cs \<Rightarrow>
          if address_len s = 0 then c # scrub_addresses cs
          else ''<addr>'' @ scrub_addresses (drop (address_len s - 1) cs))"

definition line_number_len :: "string \<Rightarrow> nat" where
  "line_number_len s =
     (case s of
        [] \<Rightarrow> 0
      | c # cs \<Rightarrow>
          let ds = takeWhile is_digit cs
          in if c = CHR '':'' \<and> ds \<noteq> [] \<and> starts_with '')'' (drop (length ds) cs)
             then length ds + 2 else 0)"

fun scrub_line_numbers :: "string \<Rightarrow> string" where
  "scrub_line_numbers s =
     (case s of
        [] \<Rightarrow> []
      | c # cs \<Rightarrow>
          if line_number_len s = 0 then c # scrub_line_numbers cs
          else '':<line>)'' @ scrub_line_numbers (drop (line_number_len s - 1) cs))"

declare scrub_addresses.simps [simp del] scrub_line_numbers.simps [simp del]

definition normalized_lines :: "string \<Rightarrow> string list" where
  "normalized_lines evidence =
     filter (\<lambda>l. l \<noteq> [])
       (map (\<lambda>line. scrub_line_numbers (scrub_addresses (py_strip line)))
            (take 256 (splitlines evidence)))"

definition incident_fingerprint :: "runtime \<Rightarrow> apm_event \<Rightarrow> string option" where
  "incident_fingerprint rt e =
     (if \<not> incident_event (ev_module e) (ev_name e) then None
      else
        let evidence =
              (case find (\<lambda>f. case map_of (ev_fields e) f of None \<Rightarrow> False | Some v \<Rightarrow> truthy v)
                      (stack_fields (ev_module e) (ev_name e)) of
                 None \<Rightarrow> []
               | Some f \<Rightarrow> py_str rt (the (map_of (ev_fields e) f)))
        in if evidence = [] then None
           else let lines = normalized_lines evidence
                in if lines = [] then None
                   else Some (rt_sha256_hex rt (json_dumps rt (JList (map jstr lines)))))"

subsection \<open>The projection\<close>

definition event_family :: "string \<Rightarrow> string \<Rightarrow> string" where
  "event_family m n =
     (if (m, n) = (''crash'', ''java_crash'') then ''JAVA_CRASH''
      else if (m, n) = (''anr'', ''anr_detected'') then ''ANR''
      else if (m, n) = (''crash'', ''app_exit'') then ''APP_EXIT''
      else if (m, n) = (''core'', ''sdk_health'') then ''SDK_HEALTH''
      else ''UNREGISTERED'')"

fun int_opt :: "int option \<Rightarrow> json" where
  "int_opt None = jnull"
| "int_opt (Some i) = jint i"

definition frame_json :: "native_frame_identity \<Rightarrow> json" where
  "frame_json f =
     JObj [(''abi'', jstr (nf_abi f)), (''module_build_id'', jstr (nf_module_build_id f)),
           (''module_name'', jstr (nf_module_name f)),
           (''module_relative_pc'', jint (nf_module_relative_pc f)),
           (''load_bias'', int_opt (nf_load_bias f))]"

definition scalars_json :: "(string \<times> scalar) list \<Rightarrow> json" where
  "scalars_json m = JObj (map (\<lambda>(k, v). (k, JScalar v)) m)"

definition occurrence_time :: "apm_event \<Rightarrow> (string \<times> scalar) list \<Rightarrow> int \<times> string" where
  "occurrence_time e registered =
     (if (ev_module e, ev_name e) = (''crash'', ''app_exit'')
      then case map_of registered ''exitTimestamp'' of
             Some (SInt t) \<Rightarrow> if t > 0 then (t, ''fields.exitTimestamp'')
                             else (ev_timestamp e, ''event.timestamp'')
           | _ \<Rightarrow> (ev_timestamp e, ''event.timestamp'')
      else (ev_timestamp e, ''event.timestamp''))"

definition normalize_event :: "runtime \<Rightarrow> apm_event \<Rightarrow> normalization_result" where
  "normalize_event rt e =
     (let defs = registry_by_event (ev_module e) (ev_name e);
          registered = registered_of rt e defs;
          indexed = registered_of rt e (filter fd_indexed defs);
          states = map (\<lambda>d. (fd_field d, jstr (field_state rt e d))) defs;
          known = map fd_field defs;
          occurrence = occurrence_time e registered
      in \<lparr>nr_occurrence_timestamp_ms = fst occurrence,
          nr_collection_timestamp_ms = ev_timestamp e,
          nr_normalized_json =
            JObj [(''normalization_version'', jint NORMALIZATION_VERSION),
                  (''event_family'', jstr (event_family (ev_module e) (ev_name e))),
                  (''occurrence_timestamp_ms'', jint (fst occurrence)),
                  (''collection_timestamp_ms'', jint (ev_timestamp e)),
                  (''timestamp_source'', jstr (snd occurrence)),
                  (''registered_fields'', scalars_json registered),
                  (''indexed_attributes'', scalars_json indexed),
                  (''field_states'', JObj states),
                  (''unknown_field_count'',
                   jint (int (length (filter (\<lambda>k. k \<notin> set known)
                                        (remdups (map fst (ev_fields e))))))),
                  (''raw_available'', jbool True)],
          nr_incident_fingerprint = incident_fingerprint rt e,
          nr_native_identity_json =
            (case ev_occurrence e of None \<Rightarrow> [] | Some c \<Rightarrow> map frame_json (oc_native_frames c))\<rparr>)"

subsection \<open>What reaches the projection\<close>

fun typed_as :: "field_type \<Rightarrow> scalar \<Rightarrow> bool" where
  "typed_as Ty_integer (SInt i) = (OTLP_INT64_MIN \<le> i \<and> i \<le> OTLP_INT64_MAX)"
| "typed_as Ty_number (SFloat f) = (finite_value f \<noteq> None)"
| "typed_as Ty_boolean (SBool b) = True"
| "typed_as Ty_string (SStr s) = True"
| "typed_as _ _ = False"

definition in_unit_range :: "int \<Rightarrow> string option \<Rightarrow> scalar \<Rightarrow> bool" where
  "in_unit_range ts unit v \<longleftrightarrow>
     (case num_value v of
        None \<Rightarrow> True
      | Some q \<Rightarrow>
          (unit \<in> {Some ''events'', Some ''bytes'', Some ''ms'', Some ''ms_epoch'', Some ''ratio''}
             \<longrightarrow> 0 \<le> q) \<and>
          (unit = Some ''ratio'' \<longrightarrow> q \<le> 1) \<and>
          (unit = Some ''ms_epoch''
             \<longrightarrow> 0 < q \<and> q \<le> of_int (ts + MAX_FUTURE_SKEW_SECONDS * 1000)))"

lemma coerce_integer_range:
  "coerce_integer v = Some i \<Longrightarrow> OTLP_INT64_MIN \<le> i \<and> i \<le> OTLP_INT64_MAX"
  by (auto simp: coerce_integer_def bind_eq_Some_conv split: if_splits)

lemma coerce_number_finite: "coerce_number rt v = Some f \<Longrightarrow> finite_value f \<noteq> None"
  by (auto simp: coerce_number_def bind_eq_Some_conv split: if_splits)

lemma coerce_registered_typed: "coerce_registered rt v ty = Some w \<Longrightarrow> typed_as ty w"
  using coerce_integer_range coerce_number_finite
  by (cases ty) (auto simp: coerce_registered_def split: scalar.splits if_splits)

lemma semantic_bounds_Some:
  "semantic_bounds ts u v = Some w \<longleftrightarrow> w = v \<and> in_unit_range ts u v"
  by (auto simp: semantic_bounds_def in_unit_range_def split: option.splits)

lemma normalized_value_sound:
  "normalized_value rt e d v = Some w \<Longrightarrow>
     typed_as (fd_field_type d) w \<and> in_unit_range (ev_timestamp e) (fd_unit d) w"
  by (auto simp: normalized_value_def bind_eq_Some_conv semantic_bounds_Some
      dest: coerce_registered_typed)

lemma registered_ofD:
  assumes "(k, v) \<in> set (registered_of rt e defs)"
  shows "\<exists>d \<in> set defs. fd_field d = k \<and> typed_as (fd_field_type d) v \<and>
           in_unit_range (ev_timestamp e) (fd_unit d) v"
  using assms normalized_value_sound
  by (fastforce simp: registered_of_def List.map_filter_def split: option.splits)

lemma registry_pii_not_indexed: "d \<in> set FIELD_REGISTRY \<Longrightarrow> fd_pii d \<Longrightarrow> \<not> fd_indexed d"
  by (auto simp: FIELD_REGISTRY_def FieldDefinition_def)

lemma registry_by_event_sub: "d \<in> set (registry_by_event m n) \<Longrightarrow> d \<in> set FIELD_REGISTRY"
  by (simp add: registry_by_event_def)

definition registry_key :: "field_definition \<Rightarrow> string \<times> string \<times> string" where
  "registry_key d = (fd_module d, fd_name d, fd_field d)"

lemma registry_keys_distinct: "distinct (map registry_key FIELD_REGISTRY)"
  by (simp add: FIELD_REGISTRY_def FieldDefinition_def registry_key_def)

lemma registry_field_unique:
  assumes "d \<in> set (registry_by_event m n)" and "d' \<in> set (registry_by_event m n)"
    and "fd_field d = fd_field d'"
  shows "d = d'"
proof -
  have "inj_on registry_key (set FIELD_REGISTRY)"
    using registry_keys_distinct by (simp add: distinct_map)
  moreover have "registry_key d = registry_key d'"
    using assms by (simp add: registry_by_event_def registry_key_def)
  ultimately show ?thesis
    using assms(1,2) by (auto dest: registry_by_event_sub inj_onD)
qed

lemma map_of_scalars_json: "map_of (map (\<lambda>(k, v). (k, JScalar v)) m) k = map_option JScalar (map_of m k)"
  by (induction m) auto

lemma occurrence_time_bounds:
  assumes "registered = registered_of rt e (registry_by_event (ev_module e) (ev_name e))"
    and "ev_timestamp e > 0"
  shows "0 < fst (occurrence_time e registered)"
    and "fst (occurrence_time e registered) \<le> ev_timestamp e + MAX_FUTURE_SKEW_SECONDS * 1000"
proof -
  let ?ok = "\<lambda>t. t \<le> ev_timestamp e + MAX_FUTURE_SKEW_SECONDS * 1000"
  have exit: "?ok t" if "(''exitTimestamp'', SInt t) \<in> set registered"
    and "ev_module e = ''crash''" "ev_name e = ''app_exit''" for t
  proof -
    from that assms(1) obtain d where
      d: "d \<in> set (registry_by_event ''crash'' ''app_exit'')" "fd_field d = ''exitTimestamp''"
      and r: "in_unit_range (ev_timestamp e) (fd_unit d) (SInt t)"
      using registered_ofD [of "''exitTimestamp''" "SInt t" rt e] by auto
    from d have "fd_unit d = Some ''ms_epoch''"
      by (auto simp: registry_by_event_def FIELD_REGISTRY_def FieldDefinition_def)
    with r have "(of_int t :: rat) \<le> of_int (ev_timestamp e + MAX_FUTURE_SKEW_SECONDS * 1000)"
      by (auto simp: in_unit_range_def simp del: of_int_add of_int_mult)
    then show ?thesis by (simp only: of_int_le_iff)
  qed
  have base: "?ok (ev_timestamp e)" by (simp add: consts_simps)
  show "0 < fst (occurrence_time e registered)"
    using assms(2) by (auto simp: occurrence_time_def split: option.splits scalar.splits)
  show "?ok (fst (occurrence_time e registered))"
    using base exit by (auto simp: occurrence_time_def split: option.splits scalar.splits
        dest: map_of_SomeD)
qed

subsection \<open>Scrubbing\<close>

lemma hex_run_stop: "\<not> is_hex c \<Longrightarrow> hex_run (x @ c # y) = hex_run x"
  by (induction x) (auto simp: hex_run_def)

lemma hex_run_le: "hex_run x \<le> length x"
  by (simp add: hex_run_def length_takeWhile_le)

lemma address_len_le: "address_len x \<le> length x"
  using hex_run_le [of x] hex_run_le [of "drop 2 x"]
  by (auto simp: address_len_def starts_with_def dest: arg_cong [of _ _ length])

lemma address_len_stop:
  assumes "\<not> is_hex c" and "c \<noteq> CHR ''x''" and "x \<noteq> []"
  shows "address_len (x @ c # y) = address_len x"
proof (cases "length x < 2")
  case True
  then obtain d where x: "x = [d]" using assms(3) by (cases x) auto
  have "\<not> starts_with ''0x'' (x @ c # y)" "\<not> starts_with ''0x'' x"
    using assms(2) x by (auto simp: starts_with_def)
  then show ?thesis
    using hex_run_stop [OF assms(1), of x y] by (simp add: address_len_def)
next
  case False
  then have "drop 2 (x @ c # y) = drop 2 x @ c # y"
    and "starts_with ''0x'' (x @ c # y) \<longleftrightarrow> starts_with ''0x'' x"
    by (auto simp: starts_with_def)
  then show ?thesis
    using hex_run_stop [OF assms(1)] by (simp add: address_len_def)
qed

lemma scrub_addresses_stop:
  assumes "\<not> is_hex c" and "c \<noteq> CHR ''x''"
  shows "scrub_addresses (x @ c # y) = scrub_addresses x @ c # scrub_addresses y"
proof (induction "length x" arbitrary: x rule: less_induct)
  case less
  show ?case
  proof (cases x)
    case Nil
    have "address_len (c # y) = 0"
      using assms by (auto simp: address_len_def starts_with_def hex_run_def is_hex_def
          is_lower_hex_def is_digit_def byte_def)
    with Nil show ?thesis by (simp add: scrub_addresses.simps)
  next
    case (Cons d ds)
    let ?k = "address_len x"
    have k: "address_len (x @ c # y) = ?k"
      using assms Cons by (intro address_len_stop) auto
    have IH: "scrub_addresses (z @ c # y) = scrub_addresses z @ c # scrub_addresses y"
      if "length z < length x" for z
      using less that by blast
    have le: "?k - 1 \<le> length ds"
      using address_len_le [of x] Cons by simp
    show ?thesis
      using k Cons le IH [of ds] IH [of "drop (?k - 1) ds"]
      by (subst (1 2) scrub_addresses.simps) auto
  qed
qed

lemma scrub_line_numbers_stop:
  "scrub_line_numbers (x @ CHR '':'' # y) = scrub_line_numbers x @ scrub_line_numbers (CHR '':'' # y)"
proof (induction "length x" arbitrary: x rule: less_induct)
  case less
  show ?case
  proof (cases x)
    case Nil
    then show ?thesis by (subst (2) scrub_line_numbers.simps) simp
  next
    case (Cons d ds)
    let ?k = "line_number_len x"
    have tw: "takeWhile is_digit (ds @ CHR '':'' # y) = takeWhile is_digit ds"
      by (induction ds) (auto simp: is_digit_def byte_def)
    have cases: "length (takeWhile is_digit ds) = length ds \<or> length (takeWhile is_digit ds) < length ds"
      using length_takeWhile_le [of is_digit ds] by linarith
    have k: "line_number_len (x @ CHR '':'' # y) = ?k"
      using cases by (auto simp: line_number_len_def Cons tw starts_with_def Let_def)
    have le: "?k - 1 \<le> length ds"
      using cases by (auto simp: line_number_len_def Cons starts_with_def Let_def)
    have IH: "scrub_line_numbers (z @ CHR '':'' # y) =
        scrub_line_numbers z @ scrub_line_numbers (CHR '':'' # y)"
      if "length z < length x" for z
      using less that by blast
    show ?thesis
      using k Cons le IH [of ds] IH [of "drop (?k - 1) ds"]
      by (subst (1 2) scrub_line_numbers.simps) auto
  qed
qed

lemma scrub_line_number_match:
  assumes "ds \<noteq> []" and "list_all is_digit ds"
  shows "scrub_line_numbers (CHR '':'' # ds @ CHR '')'' # y) = '':<line>)'' @ scrub_line_numbers y"
proof -
  have "takeWhile is_digit (ds @ CHR '')'' # y) = ds"
    using assms(2) by (induction ds) (auto simp: is_digit_def byte_def)
  then have "line_number_len (CHR '':'' # ds @ CHR '')'' # y) = length ds + 2"
    using assms(1) by (simp add: line_number_len_def starts_with_def Let_def)
  then show ?thesis by (subst scrub_line_numbers.simps) simp
qed

lemma scrub_addresses_short:
  assumes "list_all is_digit ds" and "length ds < 6"
  shows "scrub_addresses ds = ds"
  using assms
proof (induction ds)
  case (Cons c cs)
  have "address_len (c # cs) = 0"
    using Cons.prems hex_run_le [of "c # cs"] hex_run_le [of "drop 2 (c # cs)"]
    by (auto simp: address_len_def)
  with Cons show ?case by (simp add: scrub_addresses.simps)
qed (simp add: scrub_addresses.simps)

definition sample_health_event :: apm_event where
  "sample_health_event =
     \<lparr>ev_timestamp = 1000, ev_event_id = ''e1'', ev_module = ''core'', ev_name = ''sdk_health'',
      ev_kind = METRIC, ev_severity = INFO, ev_priority = LOW, ev_process_name = ''p'',
      ev_thread_name = ''t'', ev_scene = None, ev_foreground = None,
      ev_fields = [(''emitCount'', SInt 5)], ev_field_types = [], ev_global_context = [],
      ev_extras = [], ev_unknown = [], ev_occurrence = None\<rparr>"

subsection \<open>Properties\<close>

text \<open>
  Whatever an event carries, the attributes that are indexed and exported hold only
  source-reviewed fields of exactly that event: the field is registered for the event's module and
  name, it is marked indexed and not as personal data, its value has the registered type (a 64-bit
  integer, a finite number, a boolean or text) and lies in the range of its unit.
\<close>

theorem indexed_attributes_reviewed:
  assumes "obj_get ''indexed_attributes'' (nr_normalized_json (normalize_event rt e)) = Some (JObj attrs)"
    and "(k, j) \<in> set attrs"
  shows "\<exists>d v. d \<in> set (registry_by_event (ev_module e) (ev_name e)) \<and> fd_field d = k \<and>
           fd_indexed d \<and> \<not> fd_pii d \<and> j = JScalar v \<and> typed_as (fd_field_type d) v \<and>
           in_unit_range (ev_timestamp e) (fd_unit d) v"
proof -
  let ?defs = "registry_by_event (ev_module e) (ev_name e)"
  from assms obtain v where j: "j = JScalar v"
    and kv: "(k, v) \<in> set (registered_of rt e (filter fd_indexed ?defs))"
    by (auto simp: normalize_event_def Let_def scalars_json_def)
  from registered_ofD [OF kv] obtain d where "d \<in> set ?defs" "fd_indexed d" "fd_field d = k"
    "typed_as (fd_field_type d) v" "in_unit_range (ev_timestamp e) (fd_unit d) v"
    by auto
  moreover from this have "\<not> fd_pii d"
    using registry_pii_not_indexed registry_by_event_sub by blast
  ultimately show ?thesis using j by blast
qed

theorem indexed_attributes_reviewed_witness:
  "\<exists>d v. d \<in> set (registry_by_event ''core'' ''sdk_health'') \<and> fd_field d = ''emitCount'' \<and>
           fd_indexed d \<and> \<not> fd_pii d \<and> jint 5 = JScalar v \<and> typed_as (fd_field_type d) v \<and>
           in_unit_range 1000 (fd_unit d) v"
proof -
  have attrs: "obj_get ''indexed_attributes''
      (nr_normalized_json (normalize_event sample_runtime sample_health_event)) =
      Some (JObj [(''emitCount'', jint 5)])"
    by code_simp
  show ?thesis
    using indexed_attributes_reviewed [OF attrs, of "''emitCount''" "jint 5"]
    by (simp add: sample_health_event_def)
qed

text \<open>
  The occurrence time derived from a valid event is positive and never lies more than the
  accepted clock skew after the event's own timestamp, also when it is taken from the reported
  exit time of an earlier process.
\<close>

theorem occurrence_timestamp_bounded:
  assumes "valid_event rt now e"
  shows "0 < nr_occurrence_timestamp_ms (normalize_event rt e) \<and>
         nr_occurrence_timestamp_ms (normalize_event rt e)
           \<le> ev_timestamp e + MAX_FUTURE_SKEW_SECONDS * 1000"
  using occurrence_time_bounds [OF refl, of e rt] assms
  by (simp add: normalize_event_def Let_def valid_event_def)

theorem occurrence_timestamp_bounded_witness:
  "0 < nr_occurrence_timestamp_ms (normalize_event sample_runtime sample_health_event) \<and>
   nr_occurrence_timestamp_ms (normalize_event sample_runtime sample_health_event)
     \<le> ev_timestamp sample_health_event + MAX_FUTURE_SKEW_SECONDS * 1000"
proof (rule occurrence_timestamp_bounded)
  show "valid_event sample_runtime 2000000 sample_health_event"
    by code_simp
qed

text \<open>
  The normalized form of a stack line does not depend on the source line number of the frame:
  two frames that differ only in a line number of at most five digits contribute the same text to
  the incident fingerprint.
\<close>

theorem scrubbed_line_ignores_line_number:
  assumes "ds \<noteq> []" "list_all is_digit ds" "length ds < 6"
    and "ds' \<noteq> []" "list_all is_digit ds'" "length ds' < 6"
  shows "scrub_line_numbers (scrub_addresses (x @ '':'' @ ds @ '')'' @ y)) =
         scrub_line_numbers (scrub_addresses (x @ '':'' @ ds' @ '')'' @ y))"
proof -
  have "scrub_line_numbers (scrub_addresses (x @ '':'' @ es @ '')'' @ y)) =
      scrub_line_numbers (scrub_addresses x) @ '':<line>)'' @ scrub_line_numbers (scrub_addresses y)"
    if "es \<noteq> []" "list_all is_digit es" "length es < 6" for es
  proof -
    have "scrub_addresses (x @ CHR '':'' # (es @ CHR '')'' # y)) =
        scrub_addresses x @ CHR '':'' # es @ CHR '')'' # scrub_addresses y"
      using that by (simp add: scrub_addresses_stop scrub_addresses_short is_hex_def is_lower_hex_def
          is_digit_def byte_def)
    then show ?thesis
      using that by (simp add: scrub_line_numbers_stop scrub_line_number_match)
  qed
  from this [OF assms(1-3)] this [OF assms(4-6)] show ?thesis by simp
qed

theorem scrubbed_line_ignores_line_number_witness:
  "scrub_line_numbers (scrub_addresses (''at a.B(B.java'' @ '':'' @ ''7'' @ '')'' @ '' x'')) =
   scrub_line_numbers (scrub_addresses (''at a.B(B.java'' @ '':'' @ ''4212'' @ '')'' @ '' x''))"
  by (rule scrubbed_line_ignores_line_number) (simp_all add: is_digit_def byte_def)

end
