(* ===== verification/Apm_Inbox.thy ===== *)
theory Apm_Inbox
  imports Apm_Models Apm_Identity Apm_Normalization
begin

section \<open>The durable inbox\<close>

text \<open>
  \<^verbatim>\<open>db/inbox.py\<close>: preparing a batch (identity selection, removal of the installation plaintext,
  canonical hash) and inserting it. \<open>insert_batch\<close> takes the table that the first read of the
  transaction sees and the table at the time of the UPSERT, so that a concurrent commit between the
  two statements is part of the model; a raised error rolls the transaction back, so it leaves the
  table as it was. The lemmas show what an acknowledged batch means, that replays are harmless, and
  that no stored string value contains the plaintext.
\<close>

record insert_result =
  ir_received :: int
  ir_inserted :: int
  ir_duplicates :: int

record prepared_event =
  pe_event :: apm_event
  pe_payload :: dict
  pe_payload_hash :: string
  pe_app_version :: "string option"
  pe_app_build :: "string option"
  pe_version_code :: "string option"
  pe_variant :: "string option"
  pe_release_quality :: identity_quality
  pe_installation_quality :: identity_quality
  pe_installation_hmac :: "string option"
  pe_installation_hmac_key_version :: "string option"
  pe_installation_plaintext :: "string option"
  pe_normalization :: normalization_result

subsection \<open>Removing the plaintext\<close>

fun str_contains :: "string \<Rightarrow> json \<Rightarrow> bool" where
  "str_contains p (JScalar (SStr s)) = sublist p s"
| "str_contains p _ = False"

fun remove_plaintext :: "string \<Rightarrow> json \<Rightarrow> json" where
  "remove_plaintext p (JScalar s) = JScalar s"
| "remove_plaintext p (JList js) =
     JList (map (remove_plaintext p) (filter (\<lambda>item. \<not> str_contains p item) js))"
| "remove_plaintext p (JObj kvs) =
     JObj (map (\<lambda>(k, v). (k, remove_plaintext p v))
             (filter (\<lambda>(k, v). \<not> (sublist p k \<or> str_contains p v)) kvs))"

definition remove_known_installation_plaintext :: "dict \<Rightarrow> string option \<Rightarrow> dict" where
  "remove_known_installation_plaintext payload plaintext =
     (case plaintext of
        None \<Rightarrow> payload
      | Some p \<Rightarrow>
          if p = [] then payload
          else (case remove_plaintext p (JObj payload) of JObj d \<Rightarrow> d | _ \<Rightarrow> []))"

subsection \<open>The canonical payload\<close>

definition texts_json :: "(string \<times> string) list \<Rightarrow> json" where
  "texts_json m = JObj (map (\<lambda>(k, v). (k, jstr v)) m)"

definition occurrence_json :: "occurrence_context \<Rightarrow> json" where
  "occurrence_json c =
     JObj [(''service_version'', jstr (oc_service_version c)),
           (''version_code'', jstr (oc_version_code c)), (''app_build'', jstr (oc_app_build c)),
           (''variant'', jstr (oc_variant c)), (''installation_id'', jstr (oc_installation_id c)),
           (''native_frames'', JList (map frame_json (oc_native_frames c)))]"

definition model_dump :: "apm_event \<Rightarrow> dict" where
  "model_dump e =
     [(''timestamp'', jint (ev_timestamp e)), (''event_id'', jstr (ev_event_id e)),
      (''module'', jstr (ev_module e)), (''name'', jstr (ev_name e)),
      (''kind'', jstr (kind_value (ev_kind e))), (''severity'', jstr (severity_value (ev_severity e))),
      (''priority'', jstr (priority_value (ev_priority e))),
      (''process_name'', jstr (ev_process_name e)), (''thread_name'', jstr (ev_thread_name e)),
      (''scene'', jopt (ev_scene e)),
      (''foreground'', (case ev_foreground e of None \<Rightarrow> jnull | Some b \<Rightarrow> jbool b)),
      (''fields'', scalars_json (ev_fields e)), (''field_types'', texts_json (ev_field_types e)),
      (''global_context'', texts_json (ev_global_context e)), (''extras'', texts_json (ev_extras e)),
      (''unknown'', texts_json (ev_unknown e)),
      (''occurrence'', (case ev_occurrence e of None \<Rightarrow> jnull | Some c \<Rightarrow> occurrence_json c))]"

fun scalar_of :: "json \<Rightarrow> scalar" where
  "scalar_of (JScalar s) = s"
| "scalar_of _ = SNone"

definition scalar_map :: "dict \<Rightarrow> string \<Rightarrow> (string \<times> scalar) list" where
  "scalar_map payload key =
     (case map_of payload key of
        Some (JObj d) \<Rightarrow> map (\<lambda>(k, v). (k, scalar_of v)) d
      | _ \<Rightarrow> [])"

definition text_map :: "dict \<Rightarrow> string \<Rightarrow> (string \<times> string) list" where
  "text_map payload key =
     (case map_of payload key of
        Some (JObj d) \<Rightarrow> map (\<lambda>(k, v). (k, case str_of v of None \<Rightarrow> [] | Some s \<Rightarrow> s)) d
      | _ \<Rightarrow> [])"

text \<open>\<open>NativeFrameIdentity.model_validate\<close> on a dumped frame that may have lost entries.\<close>

definition frame_of_json :: "json \<Rightarrow> native_frame_identity option" where
  "frame_of_json j =
     (case (Option.bind (obj_get ''abi'' j) str_of, Option.bind (obj_get ''module_build_id'' j) str_of,
            Option.bind (obj_get ''module_name'' j) str_of, obj_get ''module_relative_pc'' j) of
        (Some abi, Some build_id, Some name, Some (JScalar (SInt pc))) \<Rightarrow>
          (case mk_native_frame abi build_id name pc
                  (case obj_get ''load_bias'' j of Some (JScalar (SInt b)) \<Rightarrow> Some b | _ \<Rightarrow> None) of
             Inl _ \<Rightarrow> None
           | Inr f \<Rightarrow> Some f)
      | _ \<Rightarrow> None)"

definition payload_frames :: "dict \<Rightarrow> native_frame_identity list" where
  "payload_frames occurrence_payload =
     (case map_of occurrence_payload ''native_frames'' of
        Some (JList js) \<Rightarrow> List.map_filter frame_of_json js
      | _ \<Rightarrow> [])"

definition occurrence_payload :: "dict \<Rightarrow> dict" where
  "occurrence_payload payload =
     (case Option.bind (map_of payload ''occurrence'') obj_of of None \<Rightarrow> [] | Some d \<Rightarrow> d)"

definition put_frames :: "native_frame_identity list \<Rightarrow> dict \<Rightarrow> dict" where
  "put_frames frames payload =
     (case map_of payload ''occurrence'' of
        Some (JObj d) \<Rightarrow>
          dict_put ''occurrence'' (JObj (dict_put ''native_frames'' (JList (map frame_json frames)) d)) payload
      | _ \<Rightarrow> payload)"

subsection \<open>Preparing one event\<close>

definition privacy_fields ::
    "ingest_metadata \<Rightarrow> apm_event \<Rightarrow> string option list \<Rightarrow> string list" where
  "privacy_fields md e release =
     [ev_event_id e, ev_module e, ev_name e, ev_process_name e, ev_thread_name e, md_tenant_id md,
      md_app_id md, md_environment md, md_sdk_version md, md_request_id md]
     @ List.map_filter id release"

definition event_installation :: "ingest_metadata \<Rightarrow> apm_event \<Rightarrow> string option" where
  "event_installation md e =
     (case ev_occurrence e of None \<Rightarrow> md_installation_id md | Some c \<Rightarrow> Some (oc_installation_id c))"

definition event_release :: "ingest_metadata \<Rightarrow> apm_event \<Rightarrow> string option list" where
  "event_release md e =
     (case ev_occurrence e of
        None \<Rightarrow> [md_app_version md, md_app_build md, md_version_code md, md_variant md]
      | Some c \<Rightarrow> [Some (oc_service_version c), Some (oc_app_build c), Some (oc_version_code c),
                    Some (oc_variant c)])"

definition installation_digest ::
    "runtime \<Rightarrow> installation_hmac_key_ring option \<Rightarrow> string \<Rightarrow> string option
       \<Rightarrow> (string option \<times> string option) result" where
  "installation_digest rt keys tenant_id plaintext =
     (case plaintext of
        None \<Rightarrow> Inr (None, None)
      | Some p \<Rightarrow>
          (case keys of
             None \<Rightarrow> Inl (mk_error 503 ''identity_service_unavailable''
                       ''Installation pseudonymization is not configured'' True None)
           | Some ring \<Rightarrow>
               (case digest rt ring tenant_id p None of
                  Inl _ \<Rightarrow> Inl (Uncaught ''ValueError'')
                | Inr d \<Rightarrow> Inr (Some d, Some (kr_active_version ring)))))"

definition safe_event_of :: "apm_event \<Rightarrow> dict \<Rightarrow> native_frame_identity list \<Rightarrow> apm_event" where
  "safe_event_of e payload frames =
     e\<lparr>ev_fields := scalar_map payload ''fields'', ev_field_types := text_map payload ''field_types'',
       ev_global_context := text_map payload ''global_context'',
       ev_extras := text_map payload ''extras'', ev_unknown := text_map payload ''unknown'',
       ev_scene := Option.bind (map_of payload ''scene'') str_of,
       ev_occurrence := map_option (\<lambda>c. c\<lparr>oc_native_frames := frames\<rparr>) (ev_occurrence e)\<rparr>"

definition prepare_event ::
    "runtime \<Rightarrow> ingest_metadata \<Rightarrow> installation_hmac_key_ring option \<Rightarrow> apm_event \<Rightarrow> prepared_event result" where
  "prepare_event rt md keys e =
     (let plaintext = event_installation md e;
          release = event_release md e;
          release_quality = (if ev_occurrence e = None then md_release_identity_quality md else OCCURRENCE_BOUND);
          installation_quality =
            (if ev_occurrence e = None then md_installation_identity_quality md else OCCURRENCE_BOUND)
      in
     rbind (installation_digest rt keys (md_tenant_id md) plaintext) (\<lambda>(hmac, key_version).
     let payload = remove_known_installation_plaintext (model_dump e) plaintext
     in
     if (case plaintext of None \<Rightarrow> False
         | Some p \<Rightarrow> p \<noteq> [] \<and> list_ex (sublist p) (privacy_fields md e release))
     then Inl (mk_error 422 ''privacy_identity_conflict''
                 ''Required identity contains installation data'' False None)
     else
       let frames = payload_frames (occurrence_payload payload);
           payload' = (if ev_occurrence e = None then payload else put_frames frames payload);
           safe_event = safe_event_of e payload frames
       in Inr \<lparr>pe_event = safe_event, pe_payload = payload', pe_payload_hash = [],
               pe_app_version = release ! 0, pe_app_build = release ! 1,
               pe_version_code = release ! 2, pe_variant = release ! 3,
               pe_release_quality = release_quality, pe_installation_quality = installation_quality,
               pe_installation_hmac = hmac, pe_installation_hmac_key_version = key_version,
               pe_installation_plaintext = plaintext,
               pe_normalization = normalize_event rt safe_event\<rparr>))"

subsection \<open>Preparing a batch\<close>

definition conflict_signature ::
    "prepared_event \<Rightarrow> string \<times> string option list \<times> string \<times> string" where
  "conflict_signature p =
     (pe_payload_hash p,
      [pe_app_version p, pe_app_build p, pe_version_code p, pe_variant p, pe_installation_hmac p],
      quality_value (pe_release_quality p), quality_value (pe_installation_quality p))"

definition hashed_event ::
    "runtime \<Rightarrow> ingest_metadata \<Rightarrow> installation_hmac_key_ring option \<Rightarrow> apm_event \<Rightarrow> nat \<Rightarrow> prepared_event result" where
  "hashed_event rt md keys e idx =
     rbind (prepare_event rt md keys e) (\<lambda>item.
     let serialized = canonical_json rt (JObj (pe_payload item))
     in if length serialized > MAX_EVENT_JSON_BYTES
        then Inl (mk_error 413 ''payload_too_large''
                    ''An event exceeds the canonical event size limit'' False (Some idx))
        else Inr (item\<lparr>pe_payload_hash := rt_sha256_hex rt serialized\<rparr>))"

fun prepare_unique_from ::
    "runtime \<Rightarrow> ingest_metadata \<Rightarrow> installation_hmac_key_ring option \<Rightarrow> apm_event list \<Rightarrow> nat
       \<Rightarrow> (string \<times> prepared_event) list \<Rightarrow> (string \<times> prepared_event) list result" where
  "prepare_unique_from rt md keys [] idx prepared = Inr prepared"
| "prepare_unique_from rt md keys (e # es) idx prepared =
     rbind (hashed_event rt md keys e idx) (\<lambda>item.
       if (case map_of prepared (ev_event_id e) of
             None \<Rightarrow> False
           | Some previous \<Rightarrow> conflict_signature previous \<noteq> conflict_signature item)
       then Inl (mk_error 409 ''event_id_conflict''
                   ''The batch reuses an eventId for different content or occurrence identity''
                   False (Some idx))
       else prepare_unique_from rt md keys es (Suc idx) (dict_put (ev_event_id e) item prepared))"

definition prepare_unique_events ::
    "runtime \<Rightarrow> ingest_metadata \<Rightarrow> installation_hmac_key_ring option \<Rightarrow> apm_event list
       \<Rightarrow> (string \<times> prepared_event) list result" where
  "prepare_unique_events rt md keys events = prepare_unique_from rt md keys events 0 []"

subsection \<open>Comparing with a stored row\<close>

definition matches_existing_installation ::
    "runtime \<Rightarrow> string \<Rightarrow> string option \<Rightarrow> string option \<Rightarrow> string option
       \<Rightarrow> installation_hmac_key_ring option \<Rightarrow> bool" where
  "matches_existing_installation rt tenant_id plaintext stored_hmac stored_version keys =
     (case plaintext of
        None \<Rightarrow> stored_hmac = None \<and> stored_version = None
      | Some p \<Rightarrow>
          (case (keys, stored_hmac, stored_version) of
             (Some ring, Some h, Some v) \<Rightarrow>
               (case digest rt ring tenant_id p (Some v) of
                  Inl _ \<Rightarrow> False
                | Inr candidate \<Rightarrow> candidate = h)
           | _ \<Rightarrow> False))"

definition existing_matches ::
    "runtime \<Rightarrow> ingest_metadata \<Rightarrow> installation_hmac_key_ring option \<Rightarrow> prepared_event \<Rightarrow> inbox_event \<Rightarrow> bool" where
  "existing_matches rt md keys p r \<longleftrightarrow>
     ie_payload_sha256 r = pe_payload_hash p \<and> ie_app_id r = md_app_id md \<and>
     ie_environment r = md_environment md \<and> ie_app_version r = pe_app_version p \<and>
     ie_app_build r = pe_app_build p \<and> ie_version_code r = pe_version_code p \<and>
     ie_variant r = pe_variant p \<and> ie_release_identity_quality r = pe_release_quality p \<and>
     ie_installation_identity_quality r = pe_installation_quality p \<and>
     matches_existing_installation rt (md_tenant_id md) (pe_installation_plaintext p)
       (ie_installation_hmac r) (ie_installation_hmac_key_version r) keys"

definition assert_existing_matches ::
    "runtime \<Rightarrow> ingest_metadata \<Rightarrow> installation_hmac_key_ring option \<Rightarrow> bool \<Rightarrow> prepared_event
       \<Rightarrow> inbox_event \<Rightarrow> unit result" where
  "assert_existing_matches rt md keys concurrent p r =
     guard (existing_matches rt md keys p r)
       (mk_error 409 ''event_id_conflict''
          (''An eventId was '' @ (if concurrent then ''concurrently '' else []) @
           ''used for different content or occurrence identity'') False None)"

subsection \<open>Inserting\<close>

definition to_row ::
    "runtime \<Rightarrow> ingest_metadata \<Rightarrow> time \<Rightarrow> prepared_event \<Rightarrow> inbox_event" where
  "to_row rt md now p =
     \<lparr>ie_id = 0, ie_tenant_id = md_tenant_id md, ie_event_id = ev_event_id (pe_event p),
      ie_app_id = md_app_id md, ie_environment = md_environment md,
      ie_schema_version = md_schema_version md, ie_sdk_version = md_sdk_version md,
      ie_app_version = pe_app_version p, ie_app_build = pe_app_build p,
      ie_version_code = pe_version_code p, ie_variant = pe_variant p,
      ie_protocol = md_protocol md, ie_scope_identity_quality = AUTHENTICATED,
      ie_release_identity_quality = pe_release_quality p,
      ie_installation_identity_quality = pe_installation_quality p,
      ie_installation_hmac = pe_installation_hmac p,
      ie_installation_hmac_key_version = pe_installation_hmac_key_version p,
      ie_event_timestamp_ms = ev_timestamp (pe_event p),
      ie_occurrence_timestamp_ms = nr_occurrence_timestamp_ms (pe_normalization p),
      ie_collection_timestamp_ms = Some (nr_collection_timestamp_ms (pe_normalization p)),
      ie_timestamp_quality = ''EVENT_DECLARED'', ie_payload_json = pe_payload p,
      ie_payload_sha256 = pe_payload_hash p,
      ie_payload_size_bytes = int (length (json_dumps rt (JObj (pe_payload p)))),
      ie_raw_pruned_at = None, ie_finalized_at = None,
      ie_normalization_version = NORMALIZATION_VERSION,
      ie_normalized_json = nr_normalized_json (pe_normalization p),
      ie_incident_fingerprint = nr_incident_fingerprint (pe_normalization p),
      ie_raw_incident_fingerprint = nr_incident_fingerprint (pe_normalization p),
      ie_native_identity_json = nr_native_identity_json (pe_normalization p),
      ie_request_id = md_request_id md, ie_received_at = now, ie_status = IS_pending,
      ie_attempt_count = 0, ie_next_attempt_at = now, ie_lease_owner = None,
      ie_lease_expires_at = None, ie_delivered_at = None, ie_last_error_code = None,
      ie_last_error_message = None\<rparr>"

text \<open>\<open>INSERT ... ON CONFLICT (tenant_id, event_id) DO NOTHING RETURNING event_id\<close>.\<close>

fun upsert_rows ::
    "inbox_event list \<Rightarrow> inbox_event list \<Rightarrow> inbox_event list \<times> string list" where
  "upsert_rows tbl [] = (tbl, [])"
| "upsert_rows tbl (r # rs) =
     (if inbox_key r \<in> set (map inbox_key tbl) then upsert_rows tbl rs
      else case upsert_rows (tbl @ [r\<lparr>ie_id := next_id ie_id tbl\<rparr>]) rs of
        (tbl', ids) \<Rightarrow> (tbl', ie_event_id r # ids))"

definition select_existing ::
    "string \<Rightarrow> string list \<Rightarrow> inbox_event list \<Rightarrow> inbox_event list" where
  "select_existing tenant_id ids tbl =
     filter (\<lambda>r. ie_tenant_id r = tenant_id \<and> ie_event_id r \<in> set ids) tbl"

definition assert_rows ::
    "runtime \<Rightarrow> ingest_metadata \<Rightarrow> installation_hmac_key_ring option \<Rightarrow> bool
       \<Rightarrow> (string \<times> prepared_event) list \<Rightarrow> inbox_event list \<Rightarrow> unit list result" where
  "assert_rows rt md keys concurrent prepared rows =
     rmap (\<lambda>r. case map_of prepared (ie_event_id r) of
                 None \<Rightarrow> Inr ()
               | Some p \<Rightarrow> assert_existing_matches rt md keys concurrent p r) rows"

definition insert_batch ::
    "runtime \<Rightarrow> dialect \<Rightarrow> time \<Rightarrow> ingest_metadata \<Rightarrow> apm_event list \<Rightarrow> installation_hmac_key_ring option
       \<Rightarrow> inbox_event list \<Rightarrow> inbox_event list \<Rightarrow> (inbox_event list \<times> insert_result) result" where
  "insert_batch rt dialect now md events keys seen tbl =
     rbind (prepare_unique_events rt md keys events) (\<lambda>prepared.
     let ids = map fst prepared;
         existing = select_existing (md_tenant_id md) ids seen
     in
     rbind (assert_rows rt md keys False prepared existing) (\<lambda>_.
     let rows = map (\<lambda>(i, p). to_row rt md now p) prepared
     in case dialect of
          Other_dialect d \<Rightarrow> Inl (Uncaught ''RuntimeError'')
        | _ \<Rightarrow>
          (case upsert_rows tbl rows of
             (tbl', inserted_ids) \<Rightarrow>
               let inserted = int (length inserted_ids);
                   raced_ids = filter (\<lambda>i. i \<notin> set inserted_ids \<and> i \<notin> set (map ie_event_id existing)) ids;
                   raced = select_existing (md_tenant_id md) raced_ids tbl'
               in
               rbind (if raced_ids = [] then Inr []
                      else if set (map ie_event_id raced) \<noteq> set raced_ids
                      then Inl (Uncaught ''RuntimeError'')
                      else assert_rows rt md keys True prepared raced) (\<lambda>_.
               Inr (tbl', \<lparr>ir_received = int (length events), ir_inserted = inserted,
                          ir_duplicates = int (length events) - inserted\<rparr>)))))"

subsection \<open>No stored value contains the plaintext\<close>

text \<open>
  \<open>clean p allowed j\<close>: no string value of \<open>j\<close> contains \<open>p\<close>, and no key does except the listed
  schema names, which the code writes itself.
\<close>

fun clean :: "string \<Rightarrow> string list \<Rightarrow> json \<Rightarrow> bool" where
  "clean p allowed (JScalar s) = (\<not> str_contains p (JScalar s))"
| "clean p allowed (JList js) = list_all (clean p allowed) js"
| "clean p allowed (JObj kvs) =
     list_all (\<lambda>(k, v). (\<not> sublist p k \<or> k \<in> set allowed) \<and> clean p allowed v) kvs"

lemma clean_remove_plaintext:
  "\<not> str_contains p j \<Longrightarrow> clean p allowed (remove_plaintext p j)"
proof (induction p j rule: remove_plaintext.induct)
  case (2 p js)
  then show ?case by (auto simp: list_all_iff)
next
  case (3 p kvs)
  then show ?case by (fastforce simp: list_all_iff)
qed simp

lemma clean_known:
  "p \<noteq> [] \<Longrightarrow> clean p allowed (JObj (remove_known_installation_plaintext d (Some p)))"
  using clean_remove_plaintext [of p "JObj d" allowed]
  by (simp add: remove_known_installation_plaintext_def)

lemma clean_mono: "clean p [] j \<Longrightarrow> clean p allowed j"
proof (induction p "[]::string list" j rule: clean.induct)
  case (3 p kvs)
  then show ?case by (fastforce simp: list_all_iff)
qed (auto simp: list_all_iff)

lemma clean_map_of: "clean p a (JObj d) \<Longrightarrow> map_of d k = Some v \<Longrightarrow> clean p a v"
  by (auto simp: list_all_iff dest!: map_of_SomeD)

lemma clean_key: "clean p [] (JObj d) \<Longrightarrow> map_of d k = Some v \<Longrightarrow> \<not> sublist p k"
  by (auto simp: list_all_iff dest!: map_of_SomeD)

lemma clean_dict_put:
  "clean p a (JObj d) \<Longrightarrow> clean p a v \<Longrightarrow> \<not> sublist p k \<or> k \<in> set a \<Longrightarrow>
     clean p a (JObj (dict_put k v d))"
  using set_dict_put by (fastforce simp: list_all_iff)

lemma clean_str: "clean p a j \<Longrightarrow> str_of j = Some s \<Longrightarrow> \<not> sublist p s"
  by (cases j rule: str_of.cases) auto

definition schema_keys :: "string list" where
  "schema_keys = [''native_frames'', ''load_bias'']"

lemma frame_of_json_clean:
  assumes "clean p [] j" and "frame_of_json j = Some f"
  shows "clean p schema_keys (frame_json f)"
proof -
  from assms(2) obtain abi bid nm pc b where
    j: "Option.bind (obj_get ''abi'' j) str_of = Some abi"
       "Option.bind (obj_get ''module_build_id'' j) str_of = Some bid"
       "Option.bind (obj_get ''module_name'' j) str_of = Some nm"
       "obj_get ''module_relative_pc'' j = Some (jint pc)"
    and f: "mk_native_frame abi bid nm pc b = Inr f"
    by (auto simp: frame_of_json_def split: option.splits json.splits scalar.splits sum.splits)
  from j(4) obtain d where d: "j = JObj d" by (cases j) auto
  have txts: "\<not> sublist p s" "\<not> sublist p k" if "Option.bind (obj_get k j) str_of = Some s" for k s
    using that assms(1) clean_map_of [of p "[]" d k] clean_key [of p d k] clean_str
    by (auto simp: d bind_eq_Some_conv simp del: clean.simps)
  have "\<not> sublist p ''module_relative_pc''"
    using j(4) assms(1) clean_key [of p d] by (auto simp: d)
  moreover have "nf_abi f = abi" "nf_module_build_id f = bid" "nf_module_name f = nm"
    using f by (auto simp: mk_native_frame_def)
  ultimately show ?thesis
    using txts [OF j(1)] txts [OF j(2)] txts [OF j(3)]
    by (cases "nf_load_bias f") (simp_all add: frame_json_def schema_keys_def)
qed

lemma payload_frames_clean:
  assumes "clean p [] (JObj d)" and "f \<in> set (payload_frames d)"
  shows "clean p schema_keys (frame_json f)"
proof -
  from assms(2) obtain js j where js: "map_of d ''native_frames'' = Some (JList js)"
    and j: "j \<in> set js" "frame_of_json j = Some f"
    by (auto simp: payload_frames_def List.map_filter_def split: option.splits json.splits
        dest!: sym [of "Some _"])
  from clean_map_of [OF assms(1) js] j(1) have "clean p [] j" by (simp add: list_all_iff)
  from frame_of_json_clean [OF this j(2)] show ?thesis .
qed

lemma occurrence_payload_clean:
  "clean p a (JObj d) \<Longrightarrow> clean p a (JObj (occurrence_payload d))"
  using clean_map_of [of p a d "''occurrence''"]
  by (auto simp: occurrence_payload_def bind_eq_Some_conv simp del: clean.simps(3)
      elim!: obj_of.elims split: option.splits) simp

lemma put_frames_clean:
  assumes "clean p [] (JObj d)" and "\<forall>f \<in> set fs. clean p schema_keys (frame_json f)"
  shows "clean p schema_keys (JObj (put_frames fs d))"
proof (cases "map_of d ''occurrence''")
  case None
  then show ?thesis using clean_mono [OF assms(1)] by (simp add: put_frames_def)
next
  case (Some v)
  show ?thesis
  proof (cases v)
    case (JObj o')
    have "clean p schema_keys (JObj o')"
      using clean_map_of [OF assms(1) Some] JObj clean_mono by blast
    then have "clean p schema_keys (JObj (dict_put ''native_frames'' (JList (map frame_json fs)) o'))"
      using assms(2) by (intro clean_dict_put) (auto simp: schema_keys_def list_all_iff simp del: clean.simps(3))
    from clean_dict_put [OF clean_mono [OF assms(1)] this disjI1 [OF clean_key [OF assms(1) Some]]]
    show ?thesis using Some JObj by (simp add: put_frames_def)
  qed (use Some clean_mono [OF assms(1)] in \<open>auto simp: put_frames_def\<close>)
qed

lemma scalar_map_clean:
  assumes "clean p a (JObj d)" and "(k, s) \<in> set (scalar_map d key)"
  shows "\<not> str_contains p (JScalar s)"
proof -
  from assms(2) obtain kvs v where d: "map_of d key = Some (JObj kvs)" and v: "(k, v) \<in> set kvs" "s = scalar_of v"
    by (auto simp: scalar_map_def split: option.splits json.splits dest!: sym [of "Some _"])
  from clean_map_of [OF assms(1) d] v(1) have "clean p a v" by (auto simp: list_all_iff)
  then show ?thesis unfolding v(2) by (cases v) auto
qed

lemma normalized_value_clean:
  assumes "normalized_value rt e d v = Some w" and "\<not> str_contains p (JScalar v)"
  shows "\<not> str_contains p (JScalar w)"
  using assms
  by (auto simp: normalized_value_def bind_eq_Some_conv semantic_bounds_Some coerce_registered_def
      split: field_type.splits scalar.splits if_splits)

lemma registered_of_clean:
  assumes "(k, w) \<in> set (registered_of rt e defs)"
    and "\<And>f v. map_of (ev_fields e) f = Some v \<Longrightarrow> \<not> str_contains p (JScalar v)"
  shows "\<not> str_contains p (JScalar w)"
  using assms normalized_value_clean
  by (fastforce simp: registered_of_def List.map_filter_def split: option.splits)

definition sanitized_payload :: "ingest_metadata \<Rightarrow> apm_event \<Rightarrow> dict" where
  "sanitized_payload md e = remove_known_installation_plaintext (model_dump e) (event_installation md e)"

lemma prepare_eventD:
  assumes "prepare_event rt md keys e = Inr pe"
  defines "payload \<equiv> sanitized_payload md e"
  defines "frames \<equiv> payload_frames (occurrence_payload payload)"
  shows "pe_payload pe = (if ev_occurrence e = None then payload else put_frames frames payload)"
    and "pe_event pe = safe_event_of e payload frames"
    and "pe_normalization pe = normalize_event rt (safe_event_of e payload frames)"
    and "pe_payload_hash pe = []"
    and "pe_installation_plaintext pe = event_installation md e"
    and "[pe_app_version pe, pe_app_build pe, pe_version_code pe, pe_variant pe] = event_release md e"
    and "pe_release_quality pe =
          (if ev_occurrence e = None then md_release_identity_quality md else OCCURRENCE_BOUND)"
    and "pe_installation_quality pe =
          (if ev_occurrence e = None then md_installation_identity_quality md else OCCURRENCE_BOUND)"
    and "installation_digest rt keys (md_tenant_id md) (event_installation md e) =
          Inr (pe_installation_hmac pe, pe_installation_hmac_key_version pe)"
    and "event_installation md e = Some p \<Longrightarrow> p \<noteq> [] \<Longrightarrow>
          s \<in> set (privacy_fields md e (event_release md e)) \<Longrightarrow> \<not> sublist p s"
proof -
  have rel: "[r ! 0, r ! 1, r ! 2, r ! 3] = r" if "r = event_release md e" for r
    unfolding that by (simp add: event_release_def split: option.splits)
  show "pe_payload pe = (if ev_occurrence e = None then payload else put_frames frames payload)"
    "pe_event pe = safe_event_of e payload frames"
    "pe_normalization pe = normalize_event rt (safe_event_of e payload frames)"
    "pe_payload_hash pe = []" "pe_installation_plaintext pe = event_installation md e"
    "[pe_app_version pe, pe_app_build pe, pe_version_code pe, pe_variant pe] = event_release md e"
    "pe_release_quality pe =
          (if ev_occurrence e = None then md_release_identity_quality md else OCCURRENCE_BOUND)"
    "pe_installation_quality pe =
          (if ev_occurrence e = None then md_installation_identity_quality md else OCCURRENCE_BOUND)"
    "installation_digest rt keys (md_tenant_id md) (event_installation md e) =
          Inr (pe_installation_hmac pe, pe_installation_hmac_key_version pe)"
    using assms(1) rel [OF refl] unfolding payload_def frames_def sanitized_payload_def
    by (auto simp: prepare_event_def Let_def simp del: list.inject split: if_splits)
  show "\<not> sublist p s" if "event_installation md e = Some p" "p \<noteq> []"
    "s \<in> set (privacy_fields md e (event_release md e))"
    using assms(1) that by (auto simp: prepare_event_def Let_def list_ex_iff split: if_splits)
qed

lemma prepared_event_clean:
  assumes "prepare_event rt md keys e = Inr pe" and "event_installation md e = Some p" and "p \<noteq> []"
  shows "clean p schema_keys (JObj (pe_payload pe))"
    and "j \<in> set (nr_native_identity_json (pe_normalization pe)) \<Longrightarrow> clean p schema_keys j"
    and "obj_get ''registered_fields'' (nr_normalized_json (pe_normalization pe)) = Some (JObj reg) \<Longrightarrow>
           (k, v) \<in> set reg \<Longrightarrow> \<not> str_contains p v"
proof -
  let ?d = "sanitized_payload md e"
  let ?fs = "payload_frames (occurrence_payload ?d)"
  note D = prepare_eventD [OF assms(1)]
  have d: "clean p [] (JObj ?d)"
    using clean_known [OF assms(3)] by (simp only: sanitized_payload_def assms(2))
  have fs: "\<forall>f \<in> set ?fs. clean p schema_keys (frame_json f)"
    using payload_frames_clean [OF occurrence_payload_clean [OF d]] by blast
  show "clean p schema_keys (JObj (pe_payload pe))"
    unfolding D(1) using put_frames_clean [OF d fs] clean_mono [OF d] by (simp del: clean.simps(3))
  show "clean p schema_keys j" if "j \<in> set (nr_native_identity_json (pe_normalization pe))"
    using that fs unfolding D(3)
    by (auto simp: normalize_event_def Let_def safe_event_of_def split: option.splits)
  show "\<not> str_contains p v"
    if "obj_get ''registered_fields'' (nr_normalized_json (pe_normalization pe)) = Some (JObj reg)"
      and "(k, v) \<in> set reg"
  proof -
    from that obtain w where v: "v = JScalar w"
      and w: "(k, w) \<in> set (registered_of rt (safe_event_of e ?d ?fs) (registry_by_event (ev_module e) (ev_name e)))"
      unfolding D(3) by (auto simp: normalize_event_def Let_def scalars_json_def safe_event_of_def)
    have "\<not> str_contains p (JScalar s)" if "map_of (ev_fields (safe_event_of e ?d ?fs)) f = Some s" for f s
      using that scalar_map_clean [OF d] by (auto simp: safe_event_of_def dest!: map_of_SomeD)
    from registered_of_clean [OF w this] v show ?thesis by simp
  qed
qed

subsection \<open>The UPSERT\<close>

lemma inbox_key_id [simp]: "inbox_key (r\<lparr>ie_id := i\<rparr>) = inbox_key r"
  by (simp add: inbox_key_def)

lemma upsert_rows_spec:
  assumes "upsert_rows tbl rows = (tbl', ids)"
  shows "\<exists>new. tbl' = tbl @ new \<and> ids = map ie_event_id new \<and>
      (\<forall>n \<in> set new. \<exists>r \<in> set rows. \<exists>i. n = r\<lparr>ie_id := i\<rparr>) \<and>
      (\<forall>n \<in> set new. inbox_key n \<notin> inbox_key ` set tbl) \<and>
      (uq_inbox_tenant_event tbl \<longrightarrow> uq_inbox_tenant_event tbl') \<and>
      (inbox_primary_key tbl \<longrightarrow> inbox_primary_key tbl') \<and>
      inbox_key ` set rows \<subseteq> inbox_key ` set tbl'"
  using assms
proof (induction tbl rows arbitrary: ids rule: upsert_rows.induct)
  case (1 tbl)
  then show ?case by simp
next
  case (2 tbl r rs)
  show ?case
  proof (cases "inbox_key r \<in> set (map inbox_key tbl)")
    case True
    with 2 show ?thesis by (fastforce simp: image_iff)
  next
    case False
    let ?n = "r\<lparr>ie_id := next_id ie_id tbl\<rparr>"
    from "2.prems" False obtain ids' where up: "upsert_rows (tbl @ [?n]) rs = (tbl', ids')"
      and ids: "ids = ie_event_id r # ids'"
      by (auto split: prod.splits)
    from "2.IH"(2) [OF False up] obtain new where
      new: "tbl' = (tbl @ [?n]) @ new" "ids' = map ie_event_id new"
        "\<forall>n \<in> set new. \<exists>r \<in> set rs. \<exists>i. n = r\<lparr>ie_id := i\<rparr>"
        "\<forall>n \<in> set new. inbox_key n \<notin> inbox_key ` set (tbl @ [?n])"
        "uq_inbox_tenant_event (tbl @ [?n]) \<longrightarrow> uq_inbox_tenant_event tbl'"
        "inbox_primary_key (tbl @ [?n]) \<longrightarrow> inbox_primary_key tbl'"
        "inbox_key ` set rs \<subseteq> inbox_key ` set tbl'"
      by blast
    have "uq_inbox_tenant_event tbl \<longrightarrow> uq_inbox_tenant_event (tbl @ [?n])"
      using False by (simp add: uq_inbox_tenant_event_def)
    moreover have "inbox_primary_key tbl \<longrightarrow> inbox_primary_key (tbl @ [?n])"
      using next_id_fresh [of _ tbl ie_id] by (fastforce simp: inbox_primary_key_def)
    ultimately show ?thesis
      using new ids False by (intro exI [of _ "?n # new"]) auto
  qed
qed

subsection \<open>Prepared batches\<close>

lemma hashed_event_idx: "hashed_event rt md keys e i = Inr p \<Longrightarrow> hashed_event rt md keys e j = Inr p"
  by (auto simp: hashed_event_def Let_def split: if_splits)

lemma hashed_eventD:
  assumes "hashed_event rt md keys e i = Inr p"
  obtains q where "prepare_event rt md keys e = Inr q"
    and "p = q\<lparr>pe_payload_hash := rt_sha256_hex rt (canonical_json rt (JObj (pe_payload q)))\<rparr>"
    and "length (canonical_json rt (JObj (pe_payload q))) \<le> MAX_EVENT_JSON_BYTES"
  using assms by (auto simp: hashed_event_def Let_def split: if_splits)

lemma hashed_event_id: "hashed_event rt md keys e i = Inr p \<Longrightarrow> ev_event_id (pe_event p) = ev_event_id e"
  by (erule hashed_eventD) (simp add: prepare_eventD(2) safe_event_of_def)

definition prepared_ok ::
    "runtime \<Rightarrow> ingest_metadata \<Rightarrow> installation_hmac_key_ring option \<Rightarrow> apm_event list
       \<Rightarrow> (string \<times> prepared_event) list \<Rightarrow> bool" where
  "prepared_ok rt md keys es prepared \<longleftrightarrow>
     distinct (map fst prepared) \<and> fst ` set prepared = ev_event_id ` set es \<and>
     (\<forall>(i, p) \<in> set prepared. \<exists>e \<in> set es. ev_event_id e = i \<and> hashed_event rt md keys e 0 = Inr p) \<and>
     (\<forall>e \<in> set es. \<exists>p p'. hashed_event rt md keys e 0 = Inr p \<and>
        map_of prepared (ev_event_id e) = Some p' \<and> conflict_signature p' = conflict_signature p)"

lemma prepared_ok_step:
  assumes ok: "prepared_ok rt md keys es prepared" and h: "hashed_event rt md keys e 0 = Inr item"
    and nc: "\<And>previous. map_of prepared (ev_event_id e) = Some previous \<Longrightarrow>
               conflict_signature previous = conflict_signature item"
  shows "prepared_ok rt md keys (es @ [e]) (dict_put (ev_event_id e) item prepared)"
proof -
  let ?d = "dict_put (ev_event_id e) item prepared"
  from ok have 1: "distinct (map fst prepared)" and 2: "fst ` set prepared = ev_event_id ` set es"
    and 3: "\<And>i p. (i, p) \<in> set prepared \<Longrightarrow>
          \<exists>q \<in> set es. ev_event_id q = i \<and> hashed_event rt md keys q 0 = Inr p"
    and 4: "\<And>q. q \<in> set es \<Longrightarrow> \<exists>p p'. hashed_event rt md keys q 0 = Inr p \<and>
          map_of prepared (ev_event_id q) = Some p' \<and> conflict_signature p' = conflict_signature p"
    unfolding prepared_ok_def by blast+
  have "\<exists>q \<in> set (es @ [e]). ev_event_id q = i \<and> hashed_event rt md keys q 0 = Inr p"
    if "(i, p) \<in> set ?d" for i p
  proof -
    from that set_dict_put [of "ev_event_id e" item prepared]
    have "(i, p) = (ev_event_id e, item) \<or> (i, p) \<in> set prepared" by blast
    with 3 h show ?thesis by auto
  qed
  moreover have "\<exists>p p'. hashed_event rt md keys q 0 = Inr p \<and>
      map_of ?d (ev_event_id q) = Some p' \<and> conflict_signature p' = conflict_signature p"
    if "q \<in> set (es @ [e])" for q
  proof (cases "q \<in> set es")
    case True
    from 4 [OF True] nc show ?thesis by (cases "ev_event_id q = ev_event_id e") auto
  next
    case False
    with that h show ?thesis by auto
  qed
  ultimately show ?thesis
    unfolding prepared_ok_def using distinct_dict_put [OF 1] 2 by auto
qed

lemma prepare_unique_from_ok:
  assumes "prepare_unique_from rt md keys es idx prepared = Inr prepared'"
    and "prepared_ok rt md keys done prepared"
  shows "prepared_ok rt md keys (done @ es) prepared'"
  using assms
proof (induction rt md keys es idx prepared arbitrary: "done" rule: prepare_unique_from.induct)
  case (2 rt md keys e es idx prepared)
  from "2.prems"(1) obtain item where h: "hashed_event rt md keys e idx = Inr item"
    and nc: "\<And>previous. map_of prepared (ev_event_id e) = Some previous \<Longrightarrow>
               conflict_signature previous = conflict_signature item"
    and rec: "prepare_unique_from rt md keys es (Suc idx) (dict_put (ev_event_id e) item prepared) = Inr prepared'"
    by (auto split: if_splits option.splits)
  have ok: "prepared_ok rt md keys (done @ [e]) (dict_put (ev_event_id e) item prepared)"
    using prepared_ok_step [OF "2.prems"(2) hashed_event_idx [OF h] nc] .
  have "\<not> (case map_of prepared (ev_event_id e) of None \<Rightarrow> False
      | Some previous \<Rightarrow> conflict_signature previous \<noteq> conflict_signature item)"
    using nc by (auto split: option.splits)
  from "2.IH" [OF this rec ok] show ?case by simp
qed simp

lemma prepare_unique_events_ok:
  assumes "prepare_unique_events rt md keys es = Inr prepared"
  shows "prepared_ok rt md keys es prepared"
proof -
  have "prepared_ok rt md keys [] []" by (simp add: prepared_ok_def)
  from prepare_unique_from_ok [OF assms [unfolded prepare_unique_events_def] this]
  show ?thesis by (simp only: append.simps)
qed

lemma prepare_unique_from_distinct:
  assumes "\<And>e. e \<in> set es \<Longrightarrow> hashed_event rt md keys e 0 = Inr (g e)"
    and "distinct (map ev_event_id es)" and "ev_event_id ` set es \<inter> fst ` set prepared = {}"
  shows "prepare_unique_from rt md keys es idx prepared =
           Inr (prepared @ map (\<lambda>e. (ev_event_id e, g e)) es)"
  using assms
proof (induction es arbitrary: idx prepared)
  case (Cons e es)
  have "hashed_event rt md keys e idx = Inr (g e)"
    using hashed_event_idx [OF Cons.prems(1) [of e]] by simp
  moreover have "map_of prepared (ev_event_id e) = None"
    using Cons.prems(3) by (auto simp: map_of_eq_None_iff)
  moreover have "dict_put (ev_event_id e) (g e) prepared = prepared @ [(ev_event_id e, g e)]"
    using Cons.prems(3) by (intro dict_put_new) auto
  moreover have "prepare_unique_from rt md keys es (Suc idx) (prepared @ [(ev_event_id e, g e)]) =
      Inr ((prepared @ [(ev_event_id e, g e)]) @ map (\<lambda>e. (ev_event_id e, g e)) es)"
    using Cons.prems by (intro Cons.IH) auto
  ultimately show ?case by simp
qed simp

subsection \<open>Accepted batches\<close>

definition wf_keys :: "installation_hmac_key_ring option \<Rightarrow> bool" where
  "wf_keys keys \<longleftrightarrow> (case keys of None \<Rightarrow> True | Some ring \<Rightarrow> valid_ring ring)"

definition wf_inbox :: "inbox_event list \<Rightarrow> bool" where
  "wf_inbox tbl \<longleftrightarrow>
     uq_inbox_tenant_event tbl \<and> inbox_primary_key tbl \<and>
     list_all (\<lambda>r. ie_installation_hmac_key_version r \<noteq> Some []) tbl"

lemma existing_matches_identity:
  "row_identity r = row_identity s \<Longrightarrow> existing_matches rt md keys p r = existing_matches rt md keys p s"
  by (simp add: row_identity_def existing_matches_def)

lemma assert_rowsD:
  assumes "assert_rows rt md keys c prepared rows = Inr us" and "r \<in> set rows"
    and "map_of prepared (ie_event_id r) = Some p"
  shows "existing_matches rt md keys p r"
proof -
  from assms(1,2) obtain u where "(case map_of prepared (ie_event_id r) of None \<Rightarrow> Inr ()
      | Some p \<Rightarrow> assert_existing_matches rt md keys c p r) = Inr u"
    unfolding assert_rows_def by (blast dest: rmap_Inr_elem)
  with assms(3) show ?thesis by (simp add: assert_existing_matches_def)
qed

lemma assert_rowsI:
  assumes "\<And>r p. r \<in> set rows \<Longrightarrow> map_of prepared (ie_event_id r) = Some p \<Longrightarrow> existing_matches rt md keys p r"
  shows "assert_rows rt md keys c prepared rows = Inr (map (\<lambda>_. ()) rows)"
  unfolding assert_rows_def using assms
  by (intro rmap_all_Inr) (auto simp: assert_existing_matches_def split: option.splits)

lemma installation_digest_matches:
  assumes "installation_digest rt keys t plaintext = Inr (h, v)" and "wf_keys keys"
  shows "matches_existing_installation rt t plaintext h v keys"
proof (cases plaintext)
  case None
  with assms show ?thesis by (simp add: installation_digest_def matches_existing_installation_def)
next
  case (Some p)
  with assms obtain ring d where ring: "keys = Some ring" "digest rt ring t p None = Inr d"
    "h = Some d" "v = Some (kr_active_version ring)"
    by (auto simp: installation_digest_def split: option.splits sum.splits)
  have "map_of (kr_keys ring) (kr_active_version ring) \<noteq> None"
    using assms(2) ring(1) by (simp add: wf_keys_def valid_ring_def)
  then have "kr_active_version ring \<noteq> []"
    using assms(2) ring(1) by (auto simp: wf_keys_def valid_ring_def list_all_iff dest!: map_of_SomeD)
  from digest_None_eq_active [OF this, of rt t p] ring(2)
  have "digest rt ring t p (Some (kr_active_version ring)) = Inr d" by simp
  with ring Some show ?thesis
    by (simp add: matches_existing_installation_def)
qed

lemma new_row_matches:
  assumes "hashed_event rt md keys e i = Inr p" and "wf_keys keys"
  shows "existing_matches rt md keys p ((to_row rt md now p)\<lparr>ie_id := k\<rparr>)"
proof -
  from assms(1) obtain q where q: "prepare_event rt md keys e = Inr q"
    and p: "p = q\<lparr>pe_payload_hash := rt_sha256_hex rt (canonical_json rt (JObj (pe_payload q)))\<rparr>"
    by (rule hashed_eventD)
  have "matches_existing_installation rt (md_tenant_id md) (pe_installation_plaintext p)
      (pe_installation_hmac p) (pe_installation_hmac_key_version p) keys"
    using installation_digest_matches [OF prepare_eventD(9) [OF q] assms(2)]
    by (simp add: p prepare_eventD(5) [OF q])
  then show ?thesis by (simp add: existing_matches_def to_row_def)
qed

lemma insert_batch_steps:
  assumes "insert_batch rt d now md events keys seen tbl = Inr (tbl', res)"
    and prep: "prepare_unique_events rt md keys events = Inr prepared"
    and up: "upsert_rows tbl (map (\<lambda>(i, p). to_row rt md now p) prepared) = (tbl1, ins)"
    and ex: "existing = select_existing (md_tenant_id md) (map fst prepared) seen"
    and ri: "raced_ids = filter (\<lambda>i. i \<notin> set ins \<and> i \<notin> set (map ie_event_id existing)) (map fst prepared)"
    and ra: "raced = select_existing (md_tenant_id md) raced_ids tbl1"
  shows "(\<exists>us. assert_rows rt md keys False prepared existing = Inr us) \<and> tbl' = tbl1 \<and>
    res = \<lparr>ir_received = int (length events), ir_inserted = int (length ins),
       ir_duplicates = int (length events) - int (length ins)\<rparr> \<and>
    (raced_ids = [] \<or> set (map ie_event_id raced) = set raced_ids \<and>
       (\<exists>us'. assert_rows rt md keys True prepared raced = Inr us'))"
  using assms(1)
  unfolding insert_batch_def prep rbind.simps Let_def up ex [symmetric] prod.case
    ri [symmetric] ra [symmetric]
  by (cases d) (auto simp del: set_map split: if_splits)

text \<open>Every prepared event was inserted, or matches a row that was seen before or that won a race.\<close>

lemma batch_entry_placed:
  assumes ins: "insert_batch rt d now md events keys seen tbl = Inr (tbl', res)"
    and prep: "prepare_unique_events rt md keys events = Inr prepared"
    and up: "upsert_rows tbl (map (\<lambda>(i, p). to_row rt md now p) prepared) = (tbl1, ids)"
    and ip: "(i, p) \<in> set prepared"
  shows "i \<in> set ids \<or>
    (\<exists>r \<in> set seen. inbox_key r = (md_tenant_id md, i) \<and> existing_matches rt md keys p r) \<or>
    (\<exists>r \<in> set tbl'. inbox_key r = (md_tenant_id md, i) \<and> existing_matches rt md keys p r)"
proof -
  let ?existing = "select_existing (md_tenant_id md) (map fst prepared) seen"
  let ?raced_ids = "filter (\<lambda>i. i \<notin> set ids \<and> i \<notin> set (map ie_event_id ?existing)) (map fst prepared)"
  let ?raced = "select_existing (md_tenant_id md) ?raced_ids tbl1"
  note steps = insert_batch_steps [OF ins prep up refl refl refl]
  have mo: "map_of prepared i = Some p"
    using ip prepare_unique_events_ok [OF prep] by (simp add: prepared_ok_def)
  consider "i \<in> set ids" | "i \<in> ie_event_id ` set ?existing" | "i \<in> set ?raced_ids"
    using ip by (force simp: image_iff)
  then show ?thesis
  proof cases
    case 2
    then obtain r where r: "r \<in> set ?existing" "ie_event_id r = i" by blast
    from steps obtain us where "assert_rows rt md keys False prepared ?existing = Inr us" by blast
    from assert_rowsD [OF this r(1)] mo r show ?thesis
      by (auto simp: select_existing_def inbox_key_def)
  next
    case 3
    then have "?raced_ids \<noteq> []" by (metis empty_iff list.set(1))
    with steps obtain us where same: "set (map ie_event_id ?raced) = set ?raced_ids"
      and us: "assert_rows rt md keys True prepared ?raced = Inr us"
      by blast
    from 3 same have "i \<in> ie_event_id ` set ?raced" by (simp only: set_map)
    then obtain r where r: "r \<in> set ?raced" "ie_event_id r = i" by blast
    from assert_rowsD [OF us r(1)] mo r steps show ?thesis
      by (auto simp: select_existing_def inbox_key_def)
  qed simp
qed

lemma insert_batchD:
  assumes "insert_batch rt d now md events keys seen tbl = Inr (tbl', res)"
  obtains prepared new where
    "prepare_unique_events rt md keys events = Inr prepared"
    "prepared_ok rt md keys events prepared"
    "tbl' = tbl @ new" "ir_received res = int (length events)" "ir_inserted res = int (length new)"
    "ir_duplicates res = int (length events) - int (length new)"
    "uq_inbox_tenant_event tbl \<Longrightarrow> uq_inbox_tenant_event tbl'"
    "inbox_primary_key tbl \<Longrightarrow> inbox_primary_key tbl'"
    "\<And>n. n \<in> set new \<Longrightarrow> inbox_key n \<notin> inbox_key ` set tbl \<and>
        (\<exists>i p k. (i, p) \<in> set prepared \<and> n = (to_row rt md now p)\<lparr>ie_id := k\<rparr>)"
    "\<And>i p. (i, p) \<in> set prepared \<Longrightarrow>
        i \<in> ie_event_id ` set new \<or>
        (\<exists>r \<in> set seen. inbox_key r = (md_tenant_id md, i) \<and> existing_matches rt md keys p r) \<or>
        (\<exists>r \<in> set tbl'. inbox_key r = (md_tenant_id md, i) \<and> existing_matches rt md keys p r)"
proof -
  from assms obtain prepared where prep: "prepare_unique_events rt md keys events = Inr prepared"
    by (auto simp: insert_batch_def)
  let ?rows = "map (\<lambda>(i, p). to_row rt md now p) prepared"
  obtain tbl1 ids where up: "upsert_rows tbl ?rows = (tbl1, ids)"
    by fastforce
  have ok: "prepared_ok rt md keys events prepared" by (rule prepare_unique_events_ok [OF prep])
  from insert_batch_steps [OF assms prep up refl refl refl] have t: "tbl' = tbl1"
    and res: "res = \<lparr>ir_received = int (length events), ir_inserted = int (length ids),
       ir_duplicates = int (length events) - int (length ids)\<rparr>"
    by blast+
  from upsert_rows_spec [OF up] obtain new where
    new: "tbl1 = tbl @ new" "ids = map ie_event_id new"
      "\<forall>n \<in> set new. \<exists>r \<in> set ?rows. \<exists>i. n = r\<lparr>ie_id := i\<rparr>"
      "\<forall>n \<in> set new. inbox_key n \<notin> inbox_key ` set tbl"
      "uq_inbox_tenant_event tbl \<longrightarrow> uq_inbox_tenant_event tbl1"
      "inbox_primary_key tbl \<longrightarrow> inbox_primary_key tbl1"
    by blast
  have nr: "\<exists>i p k. (i, p) \<in> set prepared \<and> n = (to_row rt md now p)\<lparr>ie_id := k\<rparr>"
    if "n \<in> set new" for n
    using new(3) that by fastforce
  show thesis
  proof (rule that [OF prep ok, of new])
    fix i p assume "(i, p) \<in> set prepared"
    from batch_entry_placed [OF assms prep up this] show "i \<in> ie_event_id ` set new \<or>
        (\<exists>r \<in> set seen. inbox_key r = (md_tenant_id md, i) \<and> existing_matches rt md keys p r) \<or>
        (\<exists>r \<in> set tbl'. inbox_key r = (md_tenant_id md, i) \<and> existing_matches rt md keys p r)"
      by (simp only: new(2) set_map)
  qed (use new nr t res in auto)
qed

lemma prepared_entry:
  assumes "prepared_ok rt md keys es prepared" and "(i, p) \<in> set prepared"
  obtains e where "e \<in> set es" "ev_event_id e = i" "hashed_event rt md keys e 0 = Inr p"
    "ev_event_id (pe_event p) = i"
  using assms hashed_event_id unfolding prepared_ok_def by fastforce

lemma accepted_entry_stored:
  assumes ins: "insert_batch rt d now md events keys seen tbl = Inr (tbl', res)"
    and "wf_keys keys" and cov: "covers tbl seen"
    and prep: "prepare_unique_events rt md keys events = Inr prepared" and ip: "(i, p) \<in> set prepared"
  shows "\<exists>r \<in> set tbl'. inbox_key r = (md_tenant_id md, i) \<and> existing_matches rt md keys p r"
proof -
  from ins obtain prepared' new where
    p': "prepare_unique_events rt md keys events = Inr prepared'"
      "prepared_ok rt md keys events prepared'" "tbl' = tbl @ new"
    and nr: "\<And>n. n \<in> set new \<Longrightarrow> inbox_key n \<notin> inbox_key ` set tbl \<and>
        (\<exists>i p k. (i, p) \<in> set prepared' \<and> n = (to_row rt md now p)\<lparr>ie_id := k\<rparr>)"
    and src: "\<And>i p. (i, p) \<in> set prepared' \<Longrightarrow>
        i \<in> ie_event_id ` set new \<or>
        (\<exists>r \<in> set seen. inbox_key r = (md_tenant_id md, i) \<and> existing_matches rt md keys p r) \<or>
        (\<exists>r \<in> set tbl'. inbox_key r = (md_tenant_id md, i) \<and> existing_matches rt md keys p r)"
    by (rule insert_batchD) blast
  have same: "prepared' = prepared" using p'(1) prep by simp
  from src [OF ip [folded same]] consider
      n where "n \<in> set new" "ie_event_id n = i"
    | r where "r \<in> set seen" "inbox_key r = (md_tenant_id md, i)" "existing_matches rt md keys p r"
    | "\<exists>r \<in> set tbl'. inbox_key r = (md_tenant_id md, i) \<and> existing_matches rt md keys p r"
    by blast
  then show ?thesis
  proof cases
    case 1
    from nr [OF 1(1)] obtain j q k where q: "(j, q) \<in> set prepared" "n = (to_row rt md now q)\<lparr>ie_id := k\<rparr>"
      unfolding same by blast
    from prepared_entry [OF p'(2) [unfolded same] q(1)] obtain e where
      e: "hashed_event rt md keys e 0 = Inr q" "ev_event_id (pe_event q) = j" by blast
    have "j = i" using 1(2) q(2) e(2) by (simp add: to_row_def)
    then have "q = p"
      using q(1) ip p'(2) unfolding same prepared_ok_def by (metis eq_key_imp_eq_value)
    then have "existing_matches rt md keys p n"
      using new_row_matches [OF e(1) assms(2)] q(2) by blast
    moreover have "inbox_key n = (md_tenant_id md, i)"
      using q(2) e(2) \<open>j = i\<close> by (simp add: inbox_key_def to_row_def)
    ultimately show ?thesis using 1(1) p'(3) by auto
  next
    case 2
    from cov 2(1) obtain s where s: "s \<in> set tbl" "row_identity r = row_identity s"
      by (force simp: covers_def)
    with 2 existing_matches_identity [OF s(2)] row_identity_key [OF s(2)] p'(3) show ?thesis by auto
  qed
qed

lemma row_content_signature:
  assumes "conflict_signature p = conflict_signature q"
  shows "pe_payload_hash p = pe_payload_hash q" "pe_app_version p = pe_app_version q"
    "pe_app_build p = pe_app_build q" "pe_version_code p = pe_version_code q"
    "pe_variant p = pe_variant q"
  using assms by (simp_all add: conflict_signature_def)

lemma new_row_version:
  assumes "hashed_event rt md keys e i = Inr p" and "wf_keys keys"
  shows "pe_installation_hmac_key_version p \<noteq> Some []"
proof -
  from assms(1) obtain q where q: "prepare_event rt md keys e = Inr q"
    and p: "pe_installation_hmac_key_version p = pe_installation_hmac_key_version q"
    by (rule hashed_eventD) simp
  have "pe_installation_hmac_key_version q = Some v \<Longrightarrow> v \<noteq> []" for v
    using prepare_eventD(9) [OF q] assms(2)
    by (auto simp: installation_digest_def wf_keys_def valid_ring_def list_all_iff
        split: option.splits sum.splits dest!: map_of_SomeD)
  then show ?thesis using p by auto
qed

lemma insert_batch_wf:
  assumes "insert_batch rt d now md events keys seen tbl = Inr (tbl', res)"
    and "wf_keys keys" and "wf_inbox tbl"
  shows "wf_inbox tbl'" and "ir_received res = int (length events)"
    and "ir_inserted res + ir_duplicates res = ir_received res"
    and "0 \<le> ir_inserted res" and "0 \<le> ir_duplicates res"
    and "\<exists>new. tbl' = tbl @ new \<and> ir_inserted res = int (length new)"
proof -
  from assms(1) obtain prepared new where
    ok: "prepared_ok rt md keys events prepared" and t: "tbl' = tbl @ new"
    and res: "ir_received res = int (length events)" "ir_inserted res = int (length new)"
      "ir_duplicates res = int (length events) - int (length new)"
    and uq: "uq_inbox_tenant_event tbl \<Longrightarrow> uq_inbox_tenant_event tbl'"
      "inbox_primary_key tbl \<Longrightarrow> inbox_primary_key tbl'"
    and nr: "\<And>n. n \<in> set new \<Longrightarrow> inbox_key n \<notin> inbox_key ` set tbl \<and>
        (\<exists>i p k. (i, p) \<in> set prepared \<and> n = (to_row rt md now p)\<lparr>ie_id := k\<rparr>)"
    by (rule insert_batchD) blast
  have row: "inbox_key n \<in> Pair (md_tenant_id md) ` ev_event_id ` set events \<and>
      ie_installation_hmac_key_version n \<noteq> Some []" if n: "n \<in> set new" for n
  proof -
    from nr [OF n] obtain i p k where ip: "(i, p) \<in> set prepared" "n = (to_row rt md now p)\<lparr>ie_id := k\<rparr>"
      by blast
    from prepared_entry [OF ok ip(1)] obtain e where e: "e \<in> set events" "ev_event_id e = i"
      "hashed_event rt md keys e 0 = Inr p" "ev_event_id (pe_event p) = i" .
    from new_row_version [OF e(3) assms(2)] show ?thesis
      using e ip(2) by (auto simp: to_row_def inbox_key_def)
  qed
  show wf: "wf_inbox tbl'"
    using assms(3) uq row t by (auto simp: wf_inbox_def list_all_iff)
  have "distinct (map inbox_key new)"
    using wf t by (simp add: wf_inbox_def uq_inbox_tenant_event_def)
  then have "length new = card (inbox_key ` set new)"
    by (metis distinct_card length_map set_map)
  also have "\<dots> \<le> card (Pair (md_tenant_id md) ` ev_event_id ` set events)"
    using row by (intro card_mono) auto
  also have "\<dots> \<le> length events"
    by (metis card_image_le card_length finite_imageI finite_set le_trans)
  finally show "0 \<le> ir_duplicates res" using res(3) by simp
  show "ir_received res = int (length events)" "ir_inserted res + ir_duplicates res = ir_received res"
    "0 \<le> ir_inserted res" "\<exists>new. tbl' = tbl @ new \<and> ir_inserted res = int (length new)"
    using res t by auto
qed

definition stored_as ::
    "runtime \<Rightarrow> ingest_metadata \<Rightarrow> installation_hmac_key_ring option \<Rightarrow> apm_event \<Rightarrow> inbox_event \<Rightarrow> bool" where
  "stored_as rt md keys e r \<longleftrightarrow>
     (case hashed_event rt md keys e 0 of
        Inl _ \<Rightarrow> False
      | Inr p \<Rightarrow>
          ie_tenant_id r = md_tenant_id md \<and> ie_event_id r = ev_event_id e \<and>
          ie_payload_sha256 r = pe_payload_hash p \<and> ie_app_id r = md_app_id md \<and>
          ie_environment r = md_environment md \<and> ie_app_version r = pe_app_version p \<and>
          ie_app_build r = pe_app_build p \<and> ie_version_code r = pe_version_code p \<and>
          ie_variant r = pe_variant p)"

lemma accepted_event_stored:
  assumes ins: "insert_batch rt d now md events keys seen tbl = Inr (tbl', res)"
    and "wf_keys keys" and "wf_inbox tbl" and "covers tbl seen" and e: "e \<in> set events"
  shows "\<exists>r. filter (\<lambda>r. inbox_key r = (md_tenant_id md, ev_event_id e)) tbl' = [r] \<and>
           stored_as rt md keys e r"
proof -
  from ins obtain prepared where prep: "prepare_unique_events rt md keys events = Inr prepared"
    and ok: "prepared_ok rt md keys events prepared"
    by (rule insert_batchD) blast
  from ok e obtain p p' where p: "hashed_event rt md keys e 0 = Inr p"
    "map_of prepared (ev_event_id e) = Some p'" "conflict_signature p' = conflict_signature p"
    unfolding prepared_ok_def by blast
  from accepted_entry_stored [OF ins assms(2,4) prep map_of_SomeD [OF p(2)]] obtain r where
    r: "r \<in> set tbl'" "inbox_key r = (md_tenant_id md, ev_event_id e)" "existing_matches rt md keys p' r"
    by blast
  have "uq_inbox_tenant_event tbl'"
    using insert_batch_wf(1) [OF ins assms(2,3)] by (simp add: wf_inbox_def)
  then have "filter (\<lambda>s. inbox_key s = inbox_key r) tbl' = [r]"
    using r(1) by (intro filter_unique_key) (auto simp: uq_inbox_tenant_event_def)
  moreover have "stored_as rt md keys e r"
    using r(2,3) p row_content_signature [OF p(3)]
    by (simp add: stored_as_def existing_matches_def inbox_key_def)
  ultimately show ?thesis using r(2) by auto
qed

subsection \<open>Replays\<close>

text \<open>A rotated ring keeps every earlier key and may choose a new active version.\<close>

definition rotation_of :: "installation_hmac_key_ring option \<Rightarrow> installation_hmac_key_ring option \<Rightarrow> bool" where
  "rotation_of keys' keys \<longleftrightarrow>
     (case (keys', keys) of
        (Some ring', Some ring) \<Rightarrow>
          list_all (\<lambda>(v, k). map_of (kr_keys ring) v = Some k \<longrightarrow> map_of (kr_keys ring') v = Some k)
            (kr_keys ring)
      | (None, Some ring) \<Rightarrow> False
      | (_, None) \<Rightarrow> True)"

lemma rotation_keeps:
  "rotation_of (Some ring') (Some ring) \<Longrightarrow> map_of (kr_keys ring) v = Some k \<Longrightarrow>
     map_of (kr_keys ring') v = Some k"
  by (auto simp: rotation_of_def list_all_iff dest: map_of_SomeD)

lemma rotation_matches:
  assumes "matches_existing_installation rt t plaintext h v keys" and "rotation_of keys' keys"
    and "v \<noteq> Some []"
  shows "matches_existing_installation rt t plaintext h v keys'"
proof (cases plaintext)
  case None
  with assms(1) show ?thesis by (simp add: matches_existing_installation_def)
next
  case (Some p)
  with assms(1) obtain ring h' v' where k: "keys = Some ring" "h = Some h'" "v = Some v'"
    "digest rt ring t p (Some v') = Inr h'"
    by (auto simp: matches_existing_installation_def split: option.splits sum.splits)
  from k(1) assms(2) obtain ring' where ring': "keys' = Some ring'"
    by (cases keys') (auto simp: rotation_of_def)
  have "v' \<noteq> []" using assms(3) k(3) by simp
  with k(4) obtain key where key: "map_of (kr_keys ring) v' = Some key"
    by (auto simp: digest_def split: option.splits)
  have "digest rt ring' t p (Some v') = Inr h'"
    using k(4) digest_version [OF key \<open>v' \<noteq> []\<close>, of rt t p]
      digest_version [OF rotation_keeps [OF assms(2) [unfolded k(1) ring'] key] \<open>v' \<noteq> []\<close>, of rt t p]
    by simp
  with Some k ring' show ?thesis by (simp add: matches_existing_installation_def)
qed

lemma installation_digest_rotated:
  assumes "installation_digest rt keys t plaintext = Inr hv" and "rotation_of keys' keys" and "wf_keys keys'"
  shows "\<exists>h v. installation_digest rt keys' t plaintext = Inr (h, v)"
proof (cases plaintext)
  case (Some p)
  with assms obtain ring' where ring': "keys' = Some ring'" "valid_ring ring'"
    by (cases keys; cases keys') (auto simp: installation_digest_def rotation_of_def wf_keys_def)
  from digest_active [OF ring'(2)] obtain d where "digest rt ring' t p None = Inr d" by blast
  with Some ring'(1) show ?thesis by (simp add: installation_digest_def)
qed (simp add: installation_digest_def)

lemma hashed_event_rotated:
  assumes "hashed_event rt md keys e i = Inr p" and "rotation_of keys' keys" and "wf_keys keys'"
    and "\<And>s. event_installation md e = Some s \<Longrightarrow> s \<noteq> [] \<Longrightarrow> \<not> sublist s rid"
  shows "\<exists>h v. hashed_event rt (md\<lparr>md_request_id := rid\<rparr>) keys' e 0 =
           Inr (p\<lparr>pe_installation_hmac := h, pe_installation_hmac_key_version := v\<rparr>)"
proof -
  from assms(1) obtain q where q: "prepare_event rt md keys e = Inr q"
    and p: "p = q\<lparr>pe_payload_hash := rt_sha256_hex rt (canonical_json rt (JObj (pe_payload q)))\<rparr>"
    and len: "length (canonical_json rt (JObj (pe_payload q))) \<le> MAX_EVENT_JSON_BYTES"
    by (rule hashed_eventD)
  let ?md = "md\<lparr>md_request_id := rid\<rparr>"
  have same: "event_installation ?md e = event_installation md e" "event_release ?md e = event_release md e"
    by (simp_all add: event_installation_def event_release_def split: option.splits)
  from installation_digest_rotated [OF prepare_eventD(9) [OF q] assms(2,3)] obtain h v where
    hv: "installation_digest rt keys' (md_tenant_id md) (event_installation md e) = Inr (h, v)" by blast
  have priv: "\<not> list_ex (sublist s) (privacy_fields ?md e (event_release md e))"
    if "event_installation md e = Some s" "s \<noteq> []" for s
    using prepare_eventD(10) [OF q that] assms(4) [OF that]
    by (auto simp: list_ex_iff privacy_fields_def)
  have "prepare_event rt ?md keys' e = Inr (q\<lparr>pe_installation_hmac := h, pe_installation_hmac_key_version := v\<rparr>)"
    using q priv hv
    by (auto simp: prepare_event_def Let_def same split: option.splits if_splits)
  then show ?thesis
    using p len by (intro exI [of _ h] exI [of _ v]) (simp add: hashed_event_def Let_def)
qed

lemma replay_matches:
  assumes "existing_matches rt md keys p r" and "rotation_of keys' keys"
    and "ie_installation_hmac_key_version r \<noteq> Some []"
  shows "existing_matches rt (md\<lparr>md_request_id := rid\<rparr>) keys'
           (p\<lparr>pe_installation_hmac := h, pe_installation_hmac_key_version := v\<rparr>) r"
  using assms rotation_matches by (auto simp: existing_matches_def)

lemma upsert_rows_present:
  "\<forall>r \<in> set rows. inbox_key r \<in> inbox_key ` set tbl \<Longrightarrow> upsert_rows tbl rows = (tbl, [])"
  by (induction rows) auto

lemma insert_batch_all_present:
  assumes prep: "prepare_unique_events rt md keys events = Inr prepared"
    and d: "d = Postgresql \<or> d = Sqlite"
    and row: "\<And>i p. (i, p) \<in> set prepared \<Longrightarrow> \<exists>r \<in> set tbl. inbox_key r = (md_tenant_id md, i)"
    and ok: "\<And>r p. r \<in> set tbl \<Longrightarrow> ie_tenant_id r = md_tenant_id md \<Longrightarrow>
               map_of prepared (ie_event_id r) = Some p \<Longrightarrow> existing_matches rt md keys p r"
  shows "insert_batch rt d now md events keys tbl tbl =
           Inr (tbl, \<lparr>ir_received = int (length events), ir_inserted = 0, ir_duplicates = int (length events)\<rparr>)"
proof -
  have pok: "prepared_ok rt md keys events prepared" by (rule prepare_unique_events_ok [OF prep])
  let ?rows = "map (\<lambda>(i, p). to_row rt md now p) prepared"
  let ?existing = "select_existing (md_tenant_id md) (map fst prepared) tbl"
  have "\<forall>r \<in> set ?rows. inbox_key r \<in> inbox_key ` set tbl"
  proof
    fix r assume "r \<in> set ?rows"
    then obtain i p where ip: "(i, p) \<in> set prepared" "r = to_row rt md now p" by auto
    from prepared_entry [OF pok ip(1)] have "ev_event_id (pe_event p) = i" by blast
    with row [OF ip(1)] ip(2) show "inbox_key r \<in> inbox_key ` set tbl"
      by (force simp: inbox_key_def to_row_def)
  qed
  then have up: "upsert_rows tbl ?rows = (tbl, [])" by (rule upsert_rows_present)
  have as: "assert_rows rt md keys False prepared ?existing = Inr (map (\<lambda>_. ()) ?existing)"
    by (rule assert_rowsI) (auto simp: select_existing_def intro: ok)
  have "i \<in> ie_event_id ` set ?existing" if "i \<in> fst ` set prepared" for i
    using that row by (force simp: select_existing_def inbox_key_def)
  then have none: "filter (\<lambda>i. i \<notin> set [] \<and> i \<notin> set (map ie_event_id ?existing)) (map fst prepared) = []"
    by (auto simp: filter_empty_conv)
  show ?thesis
    using d unfolding insert_batch_def prep rbind.simps Let_def as up prod.case none by auto
qed

subsection \<open>Refused batches\<close>

definition event_id_conflict :: "exn \<Rightarrow> bool" where
  "event_id_conflict err \<longleftrightarrow>
     (case err of Api a \<Rightarrow> status_code a = 409 \<and> err_code a = ''event_id_conflict'' \<and> \<not> err_retryable a
      | Uncaught _ \<Rightarrow> False)"

lemma assert_rows_error:
  "assert_rows rt md keys c prepared rows = Inl err \<Longrightarrow> event_id_conflict err"
  unfolding assert_rows_def
  by (drule rmap_InlD)
     (auto simp: assert_existing_matches_def event_id_conflict_def mk_error_def split: option.splits)

lemma insert_batch_error:
  assumes ins: "insert_batch rt d now md events keys seen tbl = Inl err"
    and prep: "prepare_unique_events rt md keys events = Inr prepared"
    and d: "d = Postgresql \<or> d = Sqlite"
  shows "event_id_conflict err"
proof -
  let ?existing = "select_existing (md_tenant_id md) (map fst prepared) seen"
  let ?rows = "map (\<lambda>(i, p). to_row rt md now p) prepared"
  obtain tbl1 ids where up: "upsert_rows tbl ?rows = (tbl1, ids)" by fastforce
  let ?raced_ids = "filter (\<lambda>i. i \<notin> set ids \<and> i \<notin> set (map ie_event_id ?existing)) (map fst prepared)"
  let ?raced = "select_existing (md_tenant_id md) ?raced_ids tbl1"
  have pok: "prepared_ok rt md keys events prepared" by (rule prepare_unique_events_ok [OF prep])
  have "i \<in> ie_event_id ` set ?raced" if i: "i \<in> set ?raced_ids" for i
  proof -
    from i obtain p where ip: "(i, p) \<in> set prepared" by auto
    from prepared_entry [OF pok ip] have "ev_event_id (pe_event p) = i" by blast
    moreover have "inbox_key (to_row rt md now p) \<in> inbox_key ` set tbl1"
      using upsert_rows_spec [OF up] ip by force
    ultimately obtain r where r: "r \<in> set tbl1" "inbox_key r = (md_tenant_id md, i)"
      by (auto simp: inbox_key_def to_row_def)
    then have "r \<in> set ?raced"
      using i by (simp add: select_existing_def inbox_key_def)
    moreover have "i = ie_event_id r"
      using r(2) by (simp add: inbox_key_def)
    ultimately show ?thesis by (rule rev_image_eqI)
  qed
  then have vis: "set (map ie_event_id ?raced) = set ?raced_ids"
    by (auto simp: select_existing_def)
  from ins d show ?thesis
    unfolding insert_batch_def prep rbind.simps Let_def up prod.case
    using vis assert_rows_error by (auto simp: rbind_eq_Inl split: if_splits)
qed

subsection \<open>Sample data\<close>

definition sample_metadata :: ingest_metadata where
  "sample_metadata =
     \<lparr>md_request_id = ''rq1'', md_tenant_id = ''t1'', md_app_id = ''app'', md_environment = ''prod'',
      md_schema_version = ''2'', md_sdk_version = ''1.0'', md_app_version = Some ''1'',
      md_app_build = None, md_version_code = None, md_variant = None, md_protocol = ''envelope-v2'',
      md_release_identity_quality = BATCH_DECLARED, md_installation_identity_quality = BATCH_DECLARED,
      md_installation_id = Some ''device-9''\<rparr>"

definition sample_ring :: "string \<Rightarrow> installation_hmac_key_ring" where
  "sample_ring active =
     \<lparr>kr_keys = [(''k1'', replicate 32 (CHR ''a'')), (''k2'', replicate 32 (CHR ''b''))],
      kr_active_version = active\<rparr>"

definition sample_event :: apm_event where
  "sample_event = sample_health_event\<lparr>
     ev_extras := [(''owner'', ''device-9''), (''color'', ''red'')]\<rparr>"

definition sample_row :: inbox_event where
  "sample_row =
     (case prepare_unique_events sample_runtime sample_metadata (Some (sample_ring ''k1'')) [sample_event] of
        Inr ps \<Rightarrow> (to_row sample_runtime sample_metadata 7 (snd (hd ps)))\<lparr>ie_id := 1\<rparr>
      | Inl _ \<Rightarrow> undefined)"

lemma sample_ring_valid: "wf_keys (Some (sample_ring ''k1''))" "wf_keys (Some (sample_ring ''k2''))"
  by (simp_all add: wf_keys_def valid_ring_def sample_ring_def consts_simps cp_len_def
      is_continuation_def byte_def)

lemma sample_insert:
  "insert_batch sample_runtime Sqlite 7 sample_metadata [sample_event] (Some (sample_ring ''k1'')) [] [] =
     Inr ([sample_row], \<lparr>ir_received = 1, ir_inserted = 1, ir_duplicates = 0\<rparr>)"
  by code_simp

lemma sample_row_key_version: "ie_installation_hmac_key_version sample_row = Some ''k1''"
  by code_simp

lemma sample_row_wf: "wf_inbox [sample_row]" "covers [] []"
  by (simp_all add: wf_inbox_def uq_inbox_tenant_event_def inbox_primary_key_def sample_row_key_version covers_def)

lemma sample_empty_wf: "wf_inbox []"
  by (simp add: wf_inbox_def uq_inbox_tenant_event_def inbox_primary_key_def)

lemma new_row_private:
  assumes q: "prepare_event rt md keys e = Inr q"
    and p: "p = q\<lparr>pe_payload_hash := x\<rparr>" and r: "r = (to_row rt md now p)\<lparr>ie_id := k\<rparr>"
    and s: "event_installation md e = Some s" "s \<noteq> []"
  shows "clean s schema_keys (JObj (ie_payload_json r))"
    and "list_all (clean s schema_keys) (ie_native_identity_json r)"
    and "obj_get ''registered_fields'' (ie_normalized_json r) = Some (JObj reg) \<Longrightarrow>
           list_all (\<lambda>(k, v). \<not> str_contains s v) reg"
    and "list_all (\<lambda>t. \<not> sublist s t)
           [ie_event_id r, ie_tenant_id r, ie_app_id r, ie_environment r, ie_sdk_version r, ie_request_id r]"
    and "list_all (\<lambda>c. case c of None \<Rightarrow> True | Some t \<Rightarrow> \<not> sublist s t)
           [ie_app_version r, ie_app_build r, ie_version_code r, ie_variant r]"
    and "\<exists>ring h. keys = Some ring \<and> digest rt ring (md_tenant_id md) s None = Inr h \<and>
           ie_installation_hmac r = Some h"
proof -
  note D = prepare_eventD [OF q]
  note C = prepared_event_clean [OF q s]
  have pay: "ie_payload_json r = pe_payload q" "ie_native_identity_json r = nr_native_identity_json (pe_normalization q)"
    "ie_normalized_json r = nr_normalized_json (pe_normalization q)"
    "ie_installation_hmac r = pe_installation_hmac q"
    by (simp_all add: r p to_row_def)
  have cols: "ie_event_id r = ev_event_id e" "ie_tenant_id r = md_tenant_id md" "ie_app_id r = md_app_id md"
    "ie_environment r = md_environment md" "ie_sdk_version r = md_sdk_version md"
    "ie_request_id r = md_request_id md"
    by (simp_all add: r p to_row_def D(2) safe_event_of_def)
  have rel: "[ie_app_version r, ie_app_build r, ie_version_code r, ie_variant r] = event_release md e"
    using D(6) by (simp add: r p to_row_def)
  show "clean s schema_keys (JObj (ie_payload_json r))" unfolding pay by (rule C(1))
  show "list_all (clean s schema_keys) (ie_native_identity_json r)"
    unfolding pay list_all_iff using C(2) by blast
  show "list_all (\<lambda>(k, v). \<not> str_contains s v) reg"
    if "obj_get ''registered_fields'' (ie_normalized_json r) = Some (JObj reg)"
    using C(3) [OF that [unfolded pay]] unfolding list_all_iff by blast
  have "t \<in> set (privacy_fields md e (event_release md e)) \<Longrightarrow> \<not> sublist s t" for t
    by (rule D(10) [OF s])
  note no = this [unfolded privacy_fields_def]
  show "list_all (\<lambda>t. \<not> sublist s t)
      [ie_event_id r, ie_tenant_id r, ie_app_id r, ie_environment r, ie_sdk_version r, ie_request_id r]"
    unfolding cols using no by simp
  have "\<not> sublist s t" if "Some t \<in> set (event_release md e)" for t
    using that by (intro no) (auto simp: List.map_filter_def image_iff intro!: bexI [of _ "Some t"])
  then show "list_all (\<lambda>c. case c of None \<Rightarrow> True | Some t \<Rightarrow> \<not> sublist s t)
      [ie_app_version r, ie_app_build r, ie_version_code r, ie_variant r]"
    unfolding rel by (auto simp: list_all_iff split: option.splits)
  show "\<exists>ring h. keys = Some ring \<and> digest rt ring (md_tenant_id md) s None = Inr h \<and>
      ie_installation_hmac r = Some h"
    using D(9) unfolding pay s(1) by (auto simp: installation_digest_def split: option.splits sum.splits)
qed

subsection \<open>Properties\<close>

text \<open>
  A batch is acknowledged only when it is durable. If the insertion succeeds, also against a
  concurrent writer that committed between its two statements, then no earlier row was changed or
  removed, the unique and primary key constraints still hold, the reported counts add up, and every
  event of the batch is stored in exactly one row of the tenant, with the hash of exactly its
  content, its application scope and its release identity.
\<close>

theorem acknowledged_batch_is_durable:
  assumes "insert_batch rt d now md events keys seen tbl = Inr (tbl', res)"
    and "wf_keys keys" and "wf_inbox tbl" and "covers tbl seen"
  shows "wf_inbox tbl' \<and> (\<exists>new. tbl' = tbl @ new \<and> ir_inserted res = int (length new)) \<and>
    ir_received res = int (length events) \<and>
    ir_inserted res + ir_duplicates res = ir_received res \<and> 0 \<le> ir_duplicates res \<and>
    (\<forall>e \<in> set events. \<exists>r.
       filter (\<lambda>r. inbox_key r = (md_tenant_id md, ev_event_id e)) tbl' = [r] \<and>
       stored_as rt md keys e r)"
  using insert_batch_wf [OF assms(1-3)] accepted_event_stored [OF assms] by blast

theorem acknowledged_batch_is_durable_witness:
  "\<exists>r. filter (\<lambda>r. inbox_key r = (''t1'', ''e1'')) [sample_row] = [r] \<and>
     stored_as sample_runtime sample_metadata (Some (sample_ring ''k1'')) sample_event r"
  using acknowledged_batch_is_durable [OF sample_insert sample_ring_valid(1) sample_empty_wf sample_row_wf(2)]
  by (simp add: sample_event_def sample_health_event_def sample_metadata_def)

text \<open>One event of a replayed batch: it is prepared as before and meets the row it was acknowledged with.\<close>

lemma replayed_entry:
  assumes "insert_batch rt d now md events keys seen tbl = Inr (tbl1, res)"
    and "wf_keys keys" and "covers tbl seen" and "distinct (map ev_event_id events)"
    and "covers tbl2 tbl1" and "wf_inbox tbl2"
    and "rotation_of keys' keys" and "wf_keys keys'"
    and prep: "prepare_unique_events rt md keys events = Inr prepared"
    and ok: "prepared_ok rt md keys events prepared" and e: "e \<in> set events"
    and rid: "\<And>s. event_installation md e = Some s \<Longrightarrow> s \<noteq> [] \<Longrightarrow> \<not> sublist s rid"
  shows "\<exists>p. hashed_event rt (md\<lparr>md_request_id := rid\<rparr>) keys' e 0 = Inr p \<and>
    (\<exists>r \<in> set tbl2. inbox_key r = (md_tenant_id md, ev_event_id e) \<and>
       existing_matches rt (md\<lparr>md_request_id := rid\<rparr>) keys' p r)"
proof -
  let ?md = "md\<lparr>md_request_id := rid\<rparr>"
  from ok e obtain p' where p': "map_of prepared (ev_event_id e) = Some p'"
    unfolding prepared_ok_def by blast
  from prepared_entry [OF ok map_of_SomeD [OF p']] obtain e' where
    e': "e' \<in> set events" "ev_event_id e' = ev_event_id e" "hashed_event rt md keys e' 0 = Inr p'"
    by blast
  have "e' = e" using e e' assms(4) by (auto simp: distinct_map inj_on_def)
  with e'(3) hashed_event_rotated [OF _ assms(7,8)] rid obtain h v where
    hv: "hashed_event rt ?md keys' e 0 =
      Inr (p'\<lparr>pe_installation_hmac := h, pe_installation_hmac_key_version := v\<rparr>)"
    by blast
  from accepted_entry_stored [OF assms(1,2,3) prep map_of_SomeD [OF p']] obtain r1 where
    r1: "r1 \<in> set tbl1" "inbox_key r1 = (md_tenant_id md, ev_event_id e)" "existing_matches rt md keys p' r1"
    by blast
  from assms(5) r1(1) obtain r where r: "r \<in> set tbl2" "row_identity r1 = row_identity r"
    by (force simp: covers_def)
  have "ie_installation_hmac_key_version r \<noteq> Some []"
    using assms(6) r(1) by (auto simp: wf_inbox_def list_all_iff)
  moreover have "existing_matches rt md keys p' r"
    using r1(3) existing_matches_identity [OF r(2)] by blast
  ultimately have "existing_matches rt ?md keys'
      (p'\<lparr>pe_installation_hmac := h, pe_installation_hmac_key_version := v\<rparr>) r"
    using replay_matches [OF _ assms(7)] by simp
  then show ?thesis using r row_identity_key [OF r(2)] r1(2) hv by auto
qed

lemma replay_unchanged:
  assumes "insert_batch rt d now md events keys seen tbl = Inr (tbl1, res)"
    and "wf_keys keys" and "covers tbl seen" and "distinct (map ev_event_id events)"
    and "covers tbl2 tbl1" and "wf_inbox tbl2"
    and "rotation_of keys' keys" and "wf_keys keys'"
    and "d' = Postgresql \<or> d' = Sqlite"
    and "\<And>e s. e \<in> set events \<Longrightarrow> event_installation md e = Some s \<Longrightarrow> s \<noteq> [] \<Longrightarrow> \<not> sublist s rid"
  shows "insert_batch rt d' later (md\<lparr>md_request_id := rid\<rparr>) events keys' tbl2 tbl2 =
    Inr (tbl2, \<lparr>ir_received = int (length events), ir_inserted = 0,
                ir_duplicates = int (length events)\<rparr>)"
proof -
  let ?md = "md\<lparr>md_request_id := rid\<rparr>"
  from assms(1) obtain prepared where prep: "prepare_unique_events rt md keys events = Inr prepared"
    and ok: "prepared_ok rt md keys events prepared"
    by (rule insert_batchD) blast
  define g where "g e = (case hashed_event rt ?md keys' e 0 of Inr p \<Rightarrow> p)" for e
  have g: "hashed_event rt ?md keys' e 0 = Inr (g e) \<and>
      (\<exists>r \<in> set tbl2. inbox_key r = (md_tenant_id md, ev_event_id e) \<and> existing_matches rt ?md keys' (g e) r)"
    if e: "e \<in> set events" for e
  proof -
    obtain p where "hashed_event rt ?md keys' e 0 = Inr p"
      "\<exists>r \<in> set tbl2. inbox_key r = (md_tenant_id md, ev_event_id e) \<and> existing_matches rt ?md keys' p r"
      using replayed_entry [OF assms(1-8) prep ok e assms(10) [OF e]] by blast
    then show ?thesis by (simp add: g_def)
  qed
  have prep': "prepare_unique_events rt ?md keys' events = Inr (map (\<lambda>e. (ev_event_id e, g e)) events)"
    unfolding prepare_unique_events_def
    using prepare_unique_from_distinct [of events rt ?md keys' g "[]" 0] g assms(4) by simp
  show ?thesis
  proof (rule insert_batch_all_present [OF prep' assms(9)])
    fix i p assume "(i, p) \<in> set (map (\<lambda>e. (ev_event_id e, g e)) events)"
    with g show "\<exists>r \<in> set tbl2. inbox_key r = (md_tenant_id ?md, i)" by fastforce
  next
    fix r p assume r: "r \<in> set tbl2" "ie_tenant_id r = md_tenant_id ?md"
      and "map_of (map (\<lambda>e. (ev_event_id e, g e)) events) (ie_event_id r) = Some p"
    then obtain e where e: "e \<in> set events" "ie_event_id r = ev_event_id e" "p = g e"
      by (auto dest!: map_of_SomeD)
    from g [OF e(1)] obtain s where s: "s \<in> set tbl2" "inbox_key s = inbox_key r"
      "existing_matches rt ?md keys' p s"
      using r(2) e(2,3) by (auto simp: inbox_key_def)
    have "s = r" using uq_inbox_unique [OF _ s(1) r(1) s(2)] assms(6) by (simp add: wf_inbox_def)
    with s(3) show "existing_matches rt ?md keys' p r" by simp
  qed
qed

text \<open>
  Replaying an acknowledged batch is harmless. Whatever workers did to the table since then
  (any state in which every acknowledged row keeps its identity columns), and also after the active
  pseudonymization key was rotated, the same events are reported as duplicates and the table is left
  exactly as it was.
\<close>

theorem replay_is_duplicate:
  assumes "insert_batch rt d now md events keys seen tbl = Inr (tbl1, res)"
    and "wf_keys keys" and "covers tbl seen" and "distinct (map ev_event_id events)"
    and "covers tbl2 tbl1" and "wf_inbox tbl2"
    and "rotation_of keys' keys" and "wf_keys keys'"
    and "d' = Postgresql \<or> d' = Sqlite"
    and "\<And>e s. e \<in> set events \<Longrightarrow> event_installation md e = Some s \<Longrightarrow> s \<noteq> [] \<Longrightarrow> \<not> sublist s rid"
  shows "insert_batch rt d' later (md\<lparr>md_request_id := rid\<rparr>) events keys' tbl2 tbl2 =
    Inr (tbl2, \<lparr>ir_received = int (length events), ir_inserted = 0,
                ir_duplicates = int (length events)\<rparr>)"
  by (rule replay_unchanged [OF assms])

theorem replay_is_duplicate_witness:
  "insert_batch sample_runtime Postgresql 90 (sample_metadata\<lparr>md_request_id := ''rq2''\<rparr>) [sample_event]
     (Some (sample_ring ''k2'')) [sample_row\<lparr>ie_status := IS_delivered\<rparr>] [sample_row\<lparr>ie_status := IS_delivered\<rparr>] =
   Inr ([sample_row\<lparr>ie_status := IS_delivered\<rparr>], \<lparr>ir_received = 1, ir_inserted = 0, ir_duplicates = 1\<rparr>)"
proof -
  let ?row = "sample_row\<lparr>ie_status := IS_delivered\<rparr>"
  have "covers [?row] [sample_row]" by (simp add: covers_def row_identity_def)
  moreover have "wf_inbox [?row]"
    using sample_row_wf(1) by (simp add: wf_inbox_def uq_inbox_tenant_event_def inbox_primary_key_def)
  moreover have "rotation_of (Some (sample_ring ''k2'')) (Some (sample_ring ''k1''))"
    by (simp add: rotation_of_def sample_ring_def)
  moreover have "\<not> sublist ''device-9'' ''rq2''" by code_simp
  ultimately show ?thesis
    using replay_is_duplicate [OF sample_insert sample_ring_valid(1) sample_row_wf(2), of "[?row]"
        "Some (sample_ring ''k2'')" Postgresql "''rq2''" 90] sample_ring_valid(2)
    by (simp add: event_installation_def sample_metadata_def sample_event_def sample_health_event_def)
qed

text \<open>
  An event identifier cannot be reused for other content. If the tenant already stores a row
  with the event's identifier whose hash, scope or release differs, and the events themselves could
  be prepared, the whole batch is refused with the non-retryable error \<open>409 event_id_conflict\<close>,
  also when that row was committed by a concurrent request after the first read.
\<close>

theorem conflicting_reuse_rejected:
  assumes "prepare_unique_events rt md keys events = Inr prepared"
    and "wf_keys keys" and "wf_inbox tbl" and "covers tbl seen" and "d = Postgresql \<or> d = Sqlite"
    and "e \<in> set events" and "r \<in> set tbl" and "inbox_key r = (md_tenant_id md, ev_event_id e)"
    and "\<not> stored_as rt md keys e r"
  shows "\<exists>err. insert_batch rt d now md events keys seen tbl = Inl err \<and> event_id_conflict err"
proof (cases "insert_batch rt d now md events keys seen tbl")
  case (Inl err)
  with insert_batch_error [OF Inl assms(1,5)] show ?thesis by blast
next
  case (Inr out)
  then have ins: "insert_batch rt d now md events keys seen tbl = Inr (fst out, snd out)" by simp
  from insert_batch_wf(6) [OF ins assms(2,3)] have "r \<in> set (fst out)" using assms(7) by auto
  moreover from accepted_event_stored [OF ins assms(2-4,6)] obtain s where
    s: "filter (\<lambda>r. inbox_key r = (md_tenant_id md, ev_event_id e)) (fst out) = [s]" "stored_as rt md keys e s"
    by blast
  ultimately have "r \<in> set [s]" unfolding s(1) [symmetric] using assms(8) by simp
  then have "r = s" by simp
  with s(2) assms(9) show ?thesis by simp
qed

text \<open>
  No stored row contains the plaintext of its installation identifier. In every row that an
  insertion adds, no string value of the payload, of the native frame identities or of the
  registered fields contains it, no payload key contains it except the two fixed schema names
  \<open>native_frames\<close> and \<open>load_bias\<close> that the code writes back, no identity column contains it, and the
  row holds a keyed digest instead.
\<close>

theorem stored_rows_hide_installation:
  assumes "insert_batch rt d now md events keys seen tbl = Inr (tbl', res)"
    and "r \<in> set tbl'" and "r \<notin> set tbl"
  shows "\<exists>e \<in> set events. ev_event_id e = ie_event_id r \<and>
    (\<forall>p. event_installation md e = Some p \<and> p \<noteq> [] \<longrightarrow>
       clean p schema_keys (JObj (ie_payload_json r)) \<and>
       list_all (clean p schema_keys) (ie_native_identity_json r) \<and>
       (\<forall>reg. obj_get ''registered_fields'' (ie_normalized_json r) = Some (JObj reg) \<longrightarrow>
          list_all (\<lambda>(k, v). \<not> str_contains p v) reg) \<and>
       list_all (\<lambda>s. \<not> sublist p s)
         [ie_event_id r, ie_tenant_id r, ie_app_id r, ie_environment r, ie_sdk_version r, ie_request_id r] \<and>
       list_all (\<lambda>c. case c of None \<Rightarrow> True | Some s \<Rightarrow> \<not> sublist p s)
         [ie_app_version r, ie_app_build r, ie_version_code r, ie_variant r] \<and>
       (\<exists>ring h. keys = Some ring \<and> digest rt ring (md_tenant_id md) p None = Inr h \<and>
          ie_installation_hmac r = Some h))"
proof -
  from assms(1) obtain prepared new where
    ok: "prepared_ok rt md keys events prepared" and t: "tbl' = tbl @ new"
    and nr: "\<And>n. n \<in> set new \<Longrightarrow> inbox_key n \<notin> inbox_key ` set tbl \<and>
        (\<exists>i p k. (i, p) \<in> set prepared \<and> n = (to_row rt md now p)\<lparr>ie_id := k\<rparr>)"
    by (rule insert_batchD) blast
  from nr [of r] assms(2,3) t obtain i p k where
    ip: "(i, p) \<in> set prepared" and r: "r = (to_row rt md now p)\<lparr>ie_id := k\<rparr>"
    by auto
  from prepared_entry [OF ok ip] obtain e where
    e: "e \<in> set events" "ev_event_id e = i" "hashed_event rt md keys e 0 = Inr p"
    "ev_event_id (pe_event p) = i" .
  from e(3) obtain q where q: "prepare_event rt md keys e = Inr q"
    and p: "p = q\<lparr>pe_payload_hash := rt_sha256_hex rt (canonical_json rt (JObj (pe_payload q)))\<rparr>"
    by (rule hashed_eventD)
  have "ev_event_id e = ie_event_id r" using e by (simp add: r to_row_def)
  then show ?thesis
    using new_row_private [OF q p r] e(1) by blast
qed

theorem stored_rows_hide_installation_witness:
  "clean ''device-9'' schema_keys (JObj (ie_payload_json sample_row))"
proof -
  have "event_installation sample_metadata sample_event = Some ''device-9''" by code_simp
  with stored_rows_hide_installation [OF sample_insert, of sample_row] show ?thesis by simp
qed

end
