(* ===== verification/Apm_Leases.thy ===== *)
theory Apm_Leases
  imports Apm_Models
begin

section \<open>Leases\<close>

text \<open>
  \<^verbatim>\<open>db/leases.py\<close> and the contract that the export worker and the symbolization worker share. A
  claim gives a row a fresh owner token and an expiry; a write is fenced, it changes a row only
  while the writer still holds the row's unexpired lease. The locale \<open>leased_table\<close> states the
  contract over the columns of a row and over the two updates, and proves once that claims exclude
  each other and that a stale owner cannot write. The export worker interprets it on inbox rows,
  the symbolization worker on its jobs. Times are microseconds of the database clock.
\<close>

definition MAX_LEASE_OWNER_LENGTH :: nat where [consts_simps]: "MAX_LEASE_OWNER_LENGTH = 128"

definition new_lease_owner :: "string \<Rightarrow> string \<Rightarrow> string" where
  "new_lease_owner worker token =
     cp_take (MAX_LEASE_OWNER_LENGTH - length token - 1) worker @ '':'' @ token"

definition seconds :: "int \<Rightarrow> time" where
  "seconds n = n * 1000000"

text \<open>The columns of a lease: whether the row is being processed, its owner and its expiry.\<close>

record lease_view =
  lv_processing :: bool
  lv_owner :: "string option"
  lv_expires_at :: "time option"

definition lease_held :: "string \<Rightarrow> time \<Rightarrow> lease_view \<Rightarrow> bool" where
  "lease_held owner observed v \<longleftrightarrow>
     lv_processing v \<and> lv_owner v = Some owner \<and>
     (case lv_expires_at v of None \<Rightarrow> False | Some e \<Rightarrow> e > observed)"

definition lease_active :: "time \<Rightarrow> lease_view \<Rightarrow> bool" where
  "lease_active observed v \<longleftrightarrow>
     lv_processing v \<and> (case lv_expires_at v of None \<Rightarrow> False | Some e \<Rightarrow> e > observed)"

text \<open>A lease is consistent when the owner and the expiry are set exactly while processing.\<close>

definition lease_ok :: "lease_view \<Rightarrow> bool" where
  "lease_ok v \<longleftrightarrow>
     (lv_processing v \<longleftrightarrow> lv_owner v \<noteq> None) \<and> (lv_processing v \<longleftrightarrow> lv_expires_at v \<noteq> None)"

lemma lease_ok_claimed [simp]:
  "lease_ok \<lparr>lv_processing = True, lv_owner = Some owner, lv_expires_at = Some expiry\<rparr>"
  by (simp add: lease_ok_def)

lemma lease_held_active: "lease_held owner t v \<Longrightarrow> lease_active t v"
  by (auto simp: lease_held_def lease_active_def split: option.splits)

lemma lease_held_unique: "lease_held a t v \<Longrightarrow> lease_held b u v \<Longrightarrow> a = b"
  by (simp add: lease_held_def)

lemma lease_held_earlier: "lease_held owner t v \<Longrightarrow> t' \<le> t \<Longrightarrow> lease_held owner t' v"
  by (auto simp: lease_held_def split: option.splits)

lemma new_lease_owner_length:
  assumes "length token < MAX_LEASE_OWNER_LENGTH"
  shows "cp_len (new_lease_owner worker token) \<le> MAX_LEASE_OWNER_LENGTH"
  using cp_len_cp_take [of "MAX_LEASE_OWNER_LENGTH - length token - 1" worker]
    cp_len_le [of "'':'' @ token"] assms
  by (simp add: new_lease_owner_def)

lemma new_lease_owner_inject:
  assumes "length token = length token'" and "token \<noteq> token'"
  shows "new_lease_owner w token \<noteq> new_lease_owner w' token'"
  using assms by (auto simp: new_lease_owner_def)

subsection \<open>The contract\<close>

locale leased_table =
  fixes row_id :: "'r \<Rightarrow> int"
    and view :: "'r \<Rightarrow> lease_view"
    and claimable :: "time \<Rightarrow> 'r \<Rightarrow> bool"
    and claim_row :: "string \<Rightarrow> time \<Rightarrow> 'r \<Rightarrow> 'r"
  assumes claim_id: "row_id (claim_row owner expiry r) = row_id r"
    and claim_view: "view (claim_row owner expiry r) =
          \<lparr>lv_processing = True, lv_owner = Some owner, lv_expires_at = Some expiry\<rparr>"
    and claimable_free: "claimable now r \<Longrightarrow> \<not> lease_active now (view r)"
begin

definition selected :: "(int \<Rightarrow> bool) \<Rightarrow> nat \<Rightarrow> time \<Rightarrow> 'r list \<Rightarrow> 'r list" where
  "selected locked limit now tbl =
     order_limit row_id limit (filter (\<lambda>r. claimable now r \<and> \<not> locked (row_id r)) tbl)"

definition claimed_table :: "(int \<Rightarrow> bool) \<Rightarrow> string \<Rightarrow> nat \<Rightarrow> time \<Rightarrow> time \<Rightarrow> 'r list \<Rightarrow> 'r list" where
  "claimed_table locked owner limit now expiry tbl =
     sql_update (\<lambda>r. row_id r \<in> row_id ` set (selected locked limit now tbl)) (claim_row owner expiry) tbl"

definition unique_ids :: "'r list \<Rightarrow> bool" where
  "unique_ids tbl \<longleftrightarrow> distinct (map row_id tbl)"

lemma selected_sub: "r \<in> set (selected locked limit now tbl) \<Longrightarrow> r \<in> set tbl \<and> claimable now r \<and> \<not> locked (row_id r)"
  using set_order_limit by (fastforce simp: selected_def)

lemma selected_length: "length (selected locked limit now tbl) \<le> limit"
  by (simp add: selected_def)

lemma unique_id: "unique_ids tbl \<Longrightarrow> r \<in> set tbl \<Longrightarrow> s \<in> set tbl \<Longrightarrow> row_id r = row_id s \<Longrightarrow> r = s"
  by (auto simp: unique_ids_def distinct_map inj_on_def)

lemma selected_distinct: "unique_ids tbl \<Longrightarrow> distinct (map row_id (selected locked limit now tbl))"
  by (auto simp: unique_ids_def selected_def distinct_map inj_on_def intro: distinct_order_limit
      dest!: subsetD [OF set_order_limit])

lemma claimed_unique_ids: "unique_ids tbl \<Longrightarrow> unique_ids (claimed_table locked owner limit now expiry tbl)"
  by (simp add: unique_ids_def claimed_table_def map_sql_update claim_id)

lemma selected_iff:
  assumes "unique_ids tbl" and "r \<in> set tbl"
  shows "row_id r \<in> row_id ` set (selected locked limit now tbl) \<longleftrightarrow> r \<in> set (selected locked limit now tbl)"
  using assms selected_sub unique_id by (auto simp: image_iff) metis

text \<open>A row with an unexpired lease is not touched by any claim.\<close>

lemma claim_excludes:
  assumes "unique_ids tbl" and "r \<in> set tbl" and "lease_active now (view r)"
  shows "r \<in> set (claimed_table locked owner limit now expiry tbl)"
proof -
  have "r \<notin> set (selected locked limit now tbl)"
    using assms(3) claimable_free selected_sub by blast
  then show ?thesis
    using assms(1,2) by (auto simp: claimed_table_def in_sql_update selected_iff intro!: bexI [of _ r])
qed

text \<open>Every selected row is held by the claimant until the expiry.\<close>

lemma claim_holds:
  assumes "unique_ids tbl" and "r \<in> set (selected locked limit now tbl)" and "t < expiry"
  shows "\<exists>s \<in> set (claimed_table locked owner limit now expiry tbl).
           row_id s = row_id r \<and> s = claim_row owner expiry r \<and> lease_held owner t (view s)"
proof -
  have "r \<in> set tbl" using selected_sub [OF assms(2)] by blast
  then have "claim_row owner expiry r \<in> set (claimed_table locked owner limit now expiry tbl)"
    using assms(2) by (auto simp: claimed_table_def in_sql_update intro!: bexI [of _ r])
  then show ?thesis
    using assms(3) by (auto simp: claim_id claim_view lease_held_def)
qed

text \<open>Two claims whose leases overlap in time never hand out the same row.\<close>

lemma claims_disjoint:
  assumes "unique_ids tbl" and "now' < expiry"
    and "r \<in> set (selected locked limit now tbl)"
    and "s \<in> set (selected locked' limit' now' (claimed_table locked owner limit now expiry tbl))"
  shows "row_id s \<noteq> row_id r"
proof
  assume eq: "row_id s = row_id r"
  from claim_holds [OF assms(1,3,2)] obtain r' where
    r': "r' \<in> set (claimed_table locked owner limit now expiry tbl)" "row_id r' = row_id r"
      "lease_held owner now' (view r')"
    by blast
  have "s = r'"
    using unique_id [OF claimed_unique_ids [OF assms(1)]] selected_sub [OF assms(4)] r' eq by metis
  with r'(3) selected_sub [OF assms(4)] show False
    using claimable_free lease_held_active by blast
qed

text \<open>A write fenced by the lease leaves every row alone that the writer does not hold.\<close>

lemma fenced_write_other:
  assumes "r \<in> set tbl" and "\<not> lease_held owner t (view r)"
  shows "r \<in> set (sql_update (\<lambda>r. q r \<and> lease_held owner t (view r)) f tbl)"
  using assms by (auto simp: in_sql_update intro!: bexI [of _ r])

lemma stale_owner_excluded:
  assumes "\<And>r. r \<in> set tbl \<Longrightarrow> q r \<Longrightarrow> \<not> lease_held owner t (view r)"
  shows "sql_update (\<lambda>r. q r \<and> lease_held owner t (view r)) f tbl = tbl"
    and "rowcount (\<lambda>r. q r \<and> lease_held owner t (view r)) tbl = 0"
  using assms by (auto intro: sql_update_none)

lemma claim_keeps_lease_ok:
  assumes "\<forall>r \<in> set tbl. lease_ok (view r)"
  shows "\<forall>r \<in> set (claimed_table locked owner limit now expiry tbl). lease_ok (view r)"
  using assms by (auto simp: claimed_table_def in_sql_update claim_view)

end

end
