(* ===== verification/Apm_Export.thy ===== *)
theory Apm_Export
  imports Apm_Leases
begin

section \<open>The export worker\<close>

text \<open>
  \<^verbatim>\<open>db/worker.py\<close> and the cycle of \<^verbatim>\<open>worker.py\<close>. An operation maps the inbox table to the new table
  and its result. \<open>locked\<close> says which rows other transactions hold, so that \<open>SKIP LOCKED\<close> passes
  over them. A cycle runs up to three transactions; a function between two of them stands for
  whatever other processes commit in the meantime. The encoder and the OTLP client are parameters.
\<close>

definition MAX_BACKOFF_SECONDS :: int where [consts_simps]: "MAX_BACKOFF_SECONDS = 300"
definition MAX_EXPORT_ERROR_LENGTH :: nat where [consts_simps]: "MAX_EXPORT_ERROR_LENGTH = 2048"

definition inbox_lease :: "inbox_event \<Rightarrow> lease_view" where
  "inbox_lease r =
     \<lparr>lv_processing = (ie_status r = IS_processing), lv_owner = ie_lease_owner r,
      lv_expires_at = ie_lease_expires_at r\<rparr>"

subsection \<open>Claiming\<close>

definition inbox_claimable :: "time \<Rightarrow> inbox_event \<Rightarrow> bool" where
  "inbox_claimable observed r \<longleftrightarrow>
     ((ie_status r = IS_pending \<and> ie_next_attempt_at r \<le> observed) \<or>
      (ie_status r = IS_processing \<and>
       (case ie_lease_expires_at r of None \<Rightarrow> False | Some e \<Rightarrow> e \<le> observed))) \<and>
     ie_raw_pruned_at r = None"

definition claim_inbox_row :: "string \<Rightarrow> time \<Rightarrow> inbox_event \<Rightarrow> inbox_event" where
  "claim_inbox_row owner expiry r =
     r\<lparr>ie_status := IS_processing, ie_lease_owner := Some owner, ie_lease_expires_at := Some expiry,
       ie_attempt_count := ie_attempt_count r + 1\<rparr>"

interpretation inbox_leases: leased_table ie_id inbox_lease inbox_claimable claim_inbox_row
  by unfold_locales
     (auto simp: claim_inbox_row_def inbox_lease_def inbox_claimable_def lease_active_def
      split: option.splits)

definition claim_batch ::
    "(int \<Rightarrow> bool) \<Rightarrow> string \<Rightarrow> nat \<Rightarrow> int \<Rightarrow> time \<Rightarrow> inbox_event list
       \<Rightarrow> inbox_event list \<times> inbox_event list" where
  "claim_batch locked owner limit lease_seconds observed tbl =
     (let rows = order_limit ie_id limit
                   (filter (\<lambda>r. inbox_claimable observed r \<and> \<not> locked (ie_id r)) tbl);
          lease_expiry = observed + seconds lease_seconds
      in (sql_update (\<lambda>r. ie_id r \<in> ie_id ` set rows) (claim_inbox_row owner lease_expiry) tbl,
          map (claim_inbox_row owner lease_expiry) rows))"

subsection \<open>Fenced completion\<close>

definition deliver_row :: "time \<Rightarrow> inbox_event \<Rightarrow> inbox_event" where
  "deliver_row observed r =
     r\<lparr>ie_status := IS_delivered, ie_delivered_at := Some observed, ie_finalized_at := Some observed,
       ie_lease_owner := None, ie_lease_expires_at := None, ie_last_error_code := None,
       ie_last_error_message := None\<rparr>"

definition mark_delivered ::
    "string \<Rightarrow> int list \<Rightarrow> time \<Rightarrow> inbox_event list \<Rightarrow> inbox_event list \<times> nat" where
  "mark_delivered owner event_ids observed tbl =
     (if event_ids = [] then (tbl, 0)
      else (sql_update (\<lambda>r. ie_id r \<in> set event_ids \<and> lease_held owner observed (inbox_lease r))
              (deliver_row observed) tbl,
            rowcount (\<lambda>r. ie_id r \<in> set event_ids \<and> lease_held owner observed (inbox_lease r)) tbl))"

definition should_retry :: "bool \<Rightarrow> int \<Rightarrow> inbox_event \<Rightarrow> bool" where
  "should_retry retryable max_attempts r \<longleftrightarrow> retryable \<and> ie_attempt_count r < max_attempts"

definition backoff_delay :: "int option \<Rightarrow> int \<Rightarrow> int" where
  "backoff_delay retry_after attempt_count =
     (case retry_after of
        Some s \<Rightarrow> if s \<noteq> 0 then s else min (2 ^ nat (min attempt_count 8)) MAX_BACKOFF_SECONDS
      | None \<Rightarrow> min (2 ^ nat (min attempt_count 8)) MAX_BACKOFF_SECONDS)"

definition fail_row ::
    "bool \<Rightarrow> int \<Rightarrow> string \<Rightarrow> string \<Rightarrow> time \<Rightarrow> inbox_event \<Rightarrow> inbox_event" where
  "fail_row retry delay error_code error_message observed r =
     r\<lparr>ie_status := (if retry then IS_pending else IS_dead_letter),
       ie_finalized_at := (if retry then None else Some observed),
       ie_next_attempt_at := observed + seconds delay, ie_lease_owner := None,
       ie_lease_expires_at := None, ie_last_error_code := Some (cp_take 128 error_code),
       ie_last_error_message := Some (cp_take MAX_EXPORT_ERROR_LENGTH error_message)\<rparr>"

text \<open>One \<open>UPDATE\<close> per event; the \<open>k\<close>-th one runs at time \<open>clock k\<close>.\<close>

fun mark_failed ::
    "string \<Rightarrow> inbox_event list \<Rightarrow> bool \<Rightarrow> int \<Rightarrow> string \<Rightarrow> string \<Rightarrow> int option \<Rightarrow> (nat \<Rightarrow> time)
       \<Rightarrow> inbox_event list \<Rightarrow> inbox_event list \<times> nat" where
  "mark_failed owner [] retryable max_attempts code msg retry_after clock tbl = (tbl, 0)"
| "mark_failed owner (e # es) retryable max_attempts code msg retry_after clock tbl =
     (let observed = clock 0;
          owned = (\<lambda>r. ie_id r = ie_id e \<and> lease_held owner observed (inbox_lease r));
          tbl1 = sql_update owned
                   (fail_row (should_retry retryable max_attempts e)
                      (backoff_delay retry_after (ie_attempt_count e)) code msg observed) tbl
      in case mark_failed owner es retryable max_attempts code msg retry_after (\<lambda>k. clock (Suc k)) tbl1 of
           (tbl2, changed) \<Rightarrow> (tbl2, rowcount owned tbl + changed))"

subsection \<open>One cycle\<close>

record export_result =
  er_success :: bool
  er_retryable :: bool
  er_error_code :: "string option"
  er_error_message :: "string option"
  er_retry_after_seconds :: "int option"

definition encode_isolated_batch ::
    "(inbox_event list \<Rightarrow> string option) \<Rightarrow> inbox_event list
       \<Rightarrow> (string \<times> inbox_event list \<times> inbox_event list) option" where
  "encode_isolated_batch encode events =
     (case encode events of
        Some payload \<Rightarrow> Some (payload, events, [])
      | None \<Rightarrow>
          let valid = filter (\<lambda>e. encode [e] \<noteq> None) events;
              invalid = filter (\<lambda>e. encode [e] = None) events
          in if valid = [] then Some ([], valid, invalid)
             else map_option (\<lambda>payload. (payload, valid, invalid)) (encode valid))"

definition or_default :: "string option \<Rightarrow> string \<Rightarrow> string" where
  "or_default v d = (case v of None \<Rightarrow> d | Some s \<Rightarrow> if s = [] then d else s)"

record export_settings =
  es_export_enabled :: bool
  es_worker_batch_size :: nat
  es_worker_lease_seconds :: int
  es_worker_max_attempts :: int

text \<open>
  The clock readings of the cycle: the claim, the statements of the first failure transaction, and
  the statements of the last one. \<open>env1\<close> and \<open>env2\<close> are what other transactions commit before the
  second and before the last transaction of the cycle.
\<close>

record cycle_times =
  ct_claim :: time
  ct_invalid :: "nat \<Rightarrow> time"
  ct_finish :: "nat \<Rightarrow> time"

definition export_failure :: export_result where
  "export_failure =
     \<lparr>er_success = False, er_retryable = True, er_error_code = Some ''export_internal_error'',
      er_error_message = Some ''OTLP transport failed'', er_retry_after_seconds = None\<rparr>"

definition finish_export ::
    "export_settings \<Rightarrow> string \<Rightarrow> inbox_event list \<Rightarrow> export_result \<Rightarrow> (nat \<Rightarrow> time) \<Rightarrow> inbox_event list
       \<Rightarrow> inbox_event list \<times> nat" where
  "finish_export st owner exportable result clock tbl =
     (if er_success result then mark_delivered owner (map ie_id exportable) (clock 0) tbl
      else mark_failed owner exportable (er_retryable result) (es_worker_max_attempts st)
             (or_default (er_error_code result) ''unknown_export_error'')
             (or_default (er_error_message result) ''OTLP export failed'')
             (er_retry_after_seconds result) clock tbl)"

definition export_once ::
    "export_settings \<Rightarrow> (inbox_event list \<Rightarrow> string option) \<Rightarrow> (string \<Rightarrow> export_result option)
       \<Rightarrow> string \<Rightarrow> string \<Rightarrow> (int \<Rightarrow> bool) \<Rightarrow> cycle_times
       \<Rightarrow> (inbox_event list \<Rightarrow> inbox_event list) \<Rightarrow> (inbox_event list \<Rightarrow> inbox_event list)
       \<Rightarrow> inbox_event list \<Rightarrow> (inbox_event list \<times> nat) result" where
  "export_once st encode client worker token locked ct env1 env2 tbl =
     (if \<not> es_export_enabled st then Inr (tbl, 0)
      else
        let owner = new_lease_owner worker token
        in (case claim_batch locked owner (es_worker_batch_size st) (es_worker_lease_seconds st)
                  (ct_claim ct) tbl of
          (tbl1, events) \<Rightarrow>
            if events = [] then Inr (tbl1, 0)
            else (case encode_isolated_batch encode events of
              None \<Rightarrow> Inl (Uncaught ''ValueError'')
            | Some (payload, exportable, invalid) \<Rightarrow>
                (case (if invalid = [] then (env1 tbl1, 0)
                       else mark_failed owner invalid False (es_worker_max_attempts st)
                              ''otlp_mapping_failed'' ''The persisted event cannot be mapped to OTLP''
                              None (ct_invalid ct) (env1 tbl1)) of
                   (tbl2, changed) \<Rightarrow>
                     if exportable = [] then Inr (tbl2, changed)
                     else
                       let result = (case client payload of None \<Rightarrow> export_failure | Some r \<Rightarrow> r)
                       in (case finish_export st owner exportable result (ct_finish ct) (env2 tbl2) of
                            (tbl3, completed) \<Rightarrow> Inr (tbl3, changed + completed))))))"

subsection \<open>Row invariant\<close>

definition finalized :: "inbox_event \<Rightarrow> bool" where
  "finalized r \<longleftrightarrow> ie_status r = IS_delivered \<or> ie_status r = IS_dead_letter"

text \<open>
  What holds of every stored row at all times: the lease columns are set exactly while the row is
  processed, the finalization time exactly in a final state, and only final rows are pruned.
\<close>

definition inbox_row_ok :: "inbox_event \<Rightarrow> bool" where
  "inbox_row_ok r \<longleftrightarrow>
     lease_ok (inbox_lease r) \<and> (ie_finalized_at r \<noteq> None \<longleftrightarrow> finalized r) \<and>
     (ie_status r = IS_delivered \<longrightarrow> ie_delivered_at r \<noteq> None) \<and>
     (ie_raw_pruned_at r \<noteq> None \<longrightarrow> finalized r) \<and> 0 \<le> ie_attempt_count r"

lemma claim_row_simps [row_simps]:
  "ie_id (claim_inbox_row owner expiry r) = ie_id r"
  "row_identity (claim_inbox_row owner expiry r) = row_identity r"
  "inbox_lease (claim_inbox_row owner expiry r) =
     \<lparr>lv_processing = True, lv_owner = Some owner, lv_expires_at = Some expiry\<rparr>"
  by (simp_all add: claim_inbox_row_def row_identity_def inbox_lease_def)

lemma deliver_row_simps [row_simps]:
  "ie_id (deliver_row t r) = ie_id r" "row_identity (deliver_row t r) = row_identity r"
  "ie_status (deliver_row t r) = IS_delivered"
  by (simp_all add: deliver_row_def row_identity_def)

lemma fail_row_simps [row_simps]:
  "ie_id (fail_row retry delay code msg t r) = ie_id r"
  "row_identity (fail_row retry delay code msg t r) = row_identity r"
  by (simp_all add: fail_row_def row_identity_def)

lemma claim_row_ok: "inbox_row_ok r \<Longrightarrow> inbox_claimable t r \<Longrightarrow> inbox_row_ok (claim_inbox_row owner expiry r)"
  by (auto simp: inbox_row_ok_def claim_inbox_row_def inbox_lease_def lease_ok_def finalized_def
      inbox_claimable_def)

lemma held_not_finalized: "lease_held owner t (inbox_lease r) \<Longrightarrow> \<not> finalized r"
  by (auto simp: lease_held_def inbox_lease_def finalized_def)

lemma deliver_row_ok: "inbox_row_ok r \<Longrightarrow> inbox_row_ok (deliver_row t r)"
  by (simp add: inbox_row_ok_def deliver_row_def inbox_lease_def lease_ok_def finalized_def)

lemma fail_row_ok:
  "inbox_row_ok r \<Longrightarrow> lease_held owner t' (inbox_lease r) \<Longrightarrow> inbox_row_ok (fail_row retry delay code msg t r)"
  using held_not_finalized [of owner t' r]
  by (auto simp: inbox_row_ok_def fail_row_def inbox_lease_def lease_ok_def finalized_def)

lemma claim_batch_eq:
  "fst (claim_batch locked owner limit ls now tbl) =
     inbox_leases.claimed_table locked owner limit now (now + seconds ls) tbl"
  "snd (claim_batch locked owner limit ls now tbl) =
     map (claim_inbox_row owner (now + seconds ls)) (inbox_leases.selected locked limit now tbl)"
  by (simp_all add: claim_batch_def Let_def inbox_leases.claimed_table_def inbox_leases.selected_def)

lemma unique_ids_pk: "inbox_leases.unique_ids tbl \<longleftrightarrow> inbox_primary_key tbl"
  by (simp add: inbox_leases.unique_ids_def inbox_primary_key_def)

subsection \<open>What every operation keeps\<close>

text \<open>
  \<open>row_change p tbl tbl'\<close>: the tables have the same rows in the same places, every row keeps its
  identifier and identity columns, and a row that differs satisfied \<open>p\<close> before.
\<close>

definition row_change :: "(inbox_event \<Rightarrow> inbox_event \<Rightarrow> bool) \<Rightarrow> inbox_event list \<Rightarrow> inbox_event list \<Rightarrow> bool" where
  "row_change p = list_all2 (\<lambda>r s. ie_id s = ie_id r \<and> row_identity s = row_identity r \<and> (s = r \<or> p r s))"

lemma row_change_refl [simp]: "row_change p tbl tbl"
  by (simp add: row_change_def list_all2_refl)

lemma row_change_mono: "row_change p a b \<Longrightarrow> (\<And>r s. p r s \<Longrightarrow> q r s) \<Longrightarrow> row_change q a b"
  unfolding row_change_def by (erule list_all2_mono) auto

lemma row_change_sql_update:
  assumes "\<And>r. r \<in> set tbl \<Longrightarrow> q r \<Longrightarrow> ie_id (f r) = ie_id r \<and> row_identity (f r) = row_identity r \<and> p r (f r)"
  shows "row_change p tbl (sql_update q f tbl)"
  using assms by (auto simp: row_change_def sql_update_def list_all2_map2 intro!: list.rel_refl_strong)

lemma row_change_trans:
  assumes "row_change p a b" and "row_change q b c"
    and "\<And>r s t. p r s \<Longrightarrow> q s t \<Longrightarrow> u r t" and "\<And>r s. p r s \<Longrightarrow> u r s" and "\<And>r s. q r s \<Longrightarrow> u r s"
  shows "row_change u a c"
  using assms(1,2) unfolding row_change_def
  by (rule list_all2_trans [rotated]) (use assms(3-5) in metis)

lemma row_change_maps:
  assumes "row_change p a b"
  shows "length b = length a" "map ie_id b = map ie_id a" "map row_identity b = map row_identity a"
  using assms unfolding row_change_def
  by (auto simp: list_all2_conv_all_nth intro!: nth_equalityI)

lemma inbox_key_identity: "inbox_key r = (hd (fst (row_identity r)), fst (row_identity r) ! 1)"
  by (simp add: row_identity_def inbox_key_def)

lemma row_change_constraints:
  assumes "row_change p a b"
  shows "inbox_primary_key a \<Longrightarrow> inbox_primary_key b" and "uq_inbox_tenant_event a \<Longrightarrow> uq_inbox_tenant_event b"
    and "covers b a"
proof -
  note maps = row_change_maps [OF assms]
  show "inbox_primary_key a \<Longrightarrow> inbox_primary_key b" by (simp add: inbox_primary_key_def maps)
  have "map inbox_key b = map inbox_key a"
    using maps(3) by (simp add: inbox_key_identity list_eq_iff_nth_eq)
  then show "uq_inbox_tenant_event a \<Longrightarrow> uq_inbox_tenant_event b"
    by (simp add: uq_inbox_tenant_event_def)
  show "covers b a" using maps(3) by (metis covers_def image_set order_refl)
qed

lemma row_change_all:
  assumes "row_change p a b" and "\<forall>r \<in> set a. Q r" and "\<And>r s. p r s \<Longrightarrow> Q r \<Longrightarrow> Q s"
  shows "\<forall>r \<in> set b. Q r"
proof
  fix s assume "s \<in> set b"
  then obtain i where i: "i < length b" "s = b ! i" by (auto simp: in_set_conv_nth)
  with assms(1) have "i < length a" "b ! i = a ! i \<or> p (a ! i) (b ! i)"
    by (auto simp: row_change_def list_all2_conv_all_nth)
  with assms(2,3) i show "Q s" by (metis nth_mem)
qed

lemma row_change_nth:
  assumes "row_change p a b" and "i < length a" and "b ! i \<noteq> a ! i"
  shows "p (a ! i) (b ! i)"
  using assms by (auto simp: row_change_def list_all2_conv_all_nth)

definition claim_change :: "string \<Rightarrow> time \<Rightarrow> time \<Rightarrow> inbox_event \<Rightarrow> inbox_event \<Rightarrow> bool" where
  "claim_change owner observed expiry r s \<longleftrightarrow>
     inbox_claimable observed r \<and> s = claim_inbox_row owner expiry r"

lemma claim_batch_change:
  assumes "inbox_primary_key tbl"
  shows "row_change (claim_change owner now (now + seconds ls)) tbl
           (fst (claim_batch locked owner limit ls now tbl))"
  unfolding claim_batch_eq inbox_leases.claimed_table_def
proof (rule row_change_sql_update)
  fix r assume r: "r \<in> set tbl" "ie_id r \<in> ie_id ` set (inbox_leases.selected locked limit now tbl)"
  then have "r \<in> set (inbox_leases.selected locked limit now tbl)"
    using assms by (simp add: inbox_leases.selected_iff unique_ids_pk)
  then have "inbox_claimable now r" using inbox_leases.selected_sub by blast
  then show "ie_id (claim_inbox_row owner (now + seconds ls) r) = ie_id r \<and>
      row_identity (claim_inbox_row owner (now + seconds ls) r) = row_identity r \<and>
      claim_change owner now (now + seconds ls) r (claim_inbox_row owner (now + seconds ls) r)"
    by (simp add: row_simps claim_change_def)
qed

definition deliver_change :: "string \<Rightarrow> int list \<Rightarrow> time \<Rightarrow> inbox_event \<Rightarrow> inbox_event \<Rightarrow> bool" where
  "deliver_change owner ids t r s \<longleftrightarrow>
     ie_id r \<in> set ids \<and> lease_held owner t (inbox_lease r) \<and> s = deliver_row t r"

lemma mark_delivered_change:
  "row_change (deliver_change owner ids t) tbl (fst (mark_delivered owner ids t tbl))"
  by (auto simp: mark_delivered_def deliver_change_def row_simps intro!: row_change_sql_update)

definition fail_change ::
    "string \<Rightarrow> inbox_event list \<Rightarrow> (nat \<Rightarrow> time) \<Rightarrow> inbox_event \<Rightarrow> inbox_event \<Rightarrow> bool" where
  "fail_change owner es clock r s \<longleftrightarrow>
     (\<exists>k < length es. ie_id r = ie_id (es ! k) \<and> lease_held owner (clock k) (inbox_lease r) \<and>
        (\<exists>retry delay code msg. s = fail_row retry delay code msg (clock k) r))"

lemma fail_row_not_held: "\<not> lease_held owner t (inbox_lease (fail_row retry delay code msg t' r))"
  by (simp add: lease_held_def inbox_lease_def fail_row_def)

lemma mark_failed_change:
  "row_change (fail_change owner es clock) tbl
     (fst (mark_failed owner es retryable max_attempts code msg retry_after clock tbl))"
proof (induction owner es retryable max_attempts code msg retry_after clock tbl rule: mark_failed.induct)
  case (2 owner e es retryable max_attempts code msg retry_after clock tbl)
  let ?owned = "\<lambda>r. ie_id r = ie_id e \<and> lease_held owner (clock 0) (inbox_lease r)"
  let ?f = "fail_row (should_retry retryable max_attempts e)
              (backoff_delay retry_after (ie_attempt_count e)) code msg (clock 0)"
  let ?p = "\<lambda>r s. ?owned r \<and> s = ?f r"
  have one: "row_change ?p tbl (sql_update ?owned ?f tbl)"
    by (rule row_change_sql_update) (simp add: row_simps)
  have rest: "row_change (fail_change owner es (\<lambda>k. clock (Suc k))) (sql_update ?owned ?f tbl)
      (fst (mark_failed owner es retryable max_attempts code msg retry_after (\<lambda>k. clock (Suc k))
         (sql_update ?owned ?f tbl)))"
    using 2 [OF refl refl refl] .
  have "row_change (fail_change owner (e # es) clock) tbl
      (fst (mark_failed owner es retryable max_attempts code msg retry_after (\<lambda>k. clock (Suc k))
         (sql_update ?owned ?f tbl)))"
  proof (rule row_change_trans [OF one rest])
    fix r s t assume "?p r s" "fail_change owner es (\<lambda>k. clock (Suc k)) s t"
    then show "fail_change owner (e # es) clock r t"
      using fail_row_not_held by (auto simp: fail_change_def)
  next
    fix r s assume "?p r s"
    then show "fail_change owner (e # es) clock r s" by (fastforce simp: fail_change_def)
  next
    fix r s assume "fail_change owner es (\<lambda>k. clock (Suc k)) r s"
    then show "fail_change owner (e # es) clock r s" by (fastforce simp: fail_change_def)
  qed
  then show ?case by (simp add: Let_def split_def)
qed simp

lemma backoff_delay_bounds:
  assumes "0 \<le> attempt"
  shows "1 \<le> backoff_delay None attempt" "backoff_delay None attempt \<le> 256"
proof -
  have "nat (min attempt 8) \<le> 8" by simp
  then have "(2::int) ^ nat (min attempt 8) \<le> 2 ^ 8" by (intro power_increasing) auto
  then show "backoff_delay None attempt \<le> 256" by (simp add: backoff_delay_def consts_simps)
  show "1 \<le> backoff_delay None attempt" by (simp add: backoff_delay_def consts_simps)
qed

lemma rowcount_ids:
  assumes "inbox_primary_key tbl" and "ids \<subseteq> ie_id ` set tbl"
  shows "rowcount (\<lambda>r. ie_id r \<in> ids) tbl = card ids"
proof -
  have "distinct (map ie_id (filter (\<lambda>r. ie_id r \<in> ids) tbl))"
    using assms(1) by (simp add: inbox_primary_key_def distinct_map_filter)
  then have "rowcount (\<lambda>r. ie_id r \<in> ids) tbl = card (set (map ie_id (filter (\<lambda>r. ie_id r \<in> ids) tbl)))"
    unfolding rowcount_def by (metis distinct_card length_map)
  also have "set (map ie_id (filter (\<lambda>r. ie_id r \<in> ids) tbl)) = ids"
    using assms(2) by (auto simp: image_iff)
  finally show ?thesis .
qed

lemma mark_delivered_claimed:
  assumes pk: "inbox_primary_key tbl" and t: "t < expiry"
    and tbl1: "tbl1 = inbox_leases.claimed_table locked owner limit now expiry tbl"
    and ids: "set ids = ie_id ` set (inbox_leases.selected locked limit now tbl)" "ids \<noteq> []"
  shows "mark_delivered owner ids t tbl1 =
    (map (\<lambda>r. if ie_id r \<in> set ids then deliver_row t (claim_inbox_row owner expiry r) else r) tbl,
     card (set ids))"
proof -
  have held: "lease_held owner t \<lparr>lv_processing = True, lv_owner = Some owner, lv_expires_at = Some expiry\<rparr>"
    using t by (simp add: lease_held_def)
  have tbl1': "tbl1 = map (\<lambda>r. if ie_id r \<in> set ids then claim_inbox_row owner expiry r else r) tbl"
    by (simp add: tbl1 inbox_leases.claimed_table_def sql_update_def ids)
  have "rowcount (\<lambda>r. ie_id r \<in> set ids \<and> lease_held owner t (inbox_lease r)) tbl1 =
      rowcount (\<lambda>r. ie_id r \<in> set ids) tbl"
    unfolding rowcount_def tbl1' filter_map length_map
    by (intro arg_cong [of _ _ length] filter_cong refl) (auto simp: held row_simps)
  also have "\<dots> = card (set ids)"
    using ids inbox_leases.selected_sub [of _ locked limit now tbl] by (intro rowcount_ids [OF pk]) auto
  finally show ?thesis
    using ids(2) by (auto simp: mark_delivered_def tbl1' sql_update_def held row_simps)
qed

subsection \<open>Sample data\<close>

definition sample_inbox_row :: "int \<Rightarrow> inbox_event" where
  "sample_inbox_row i =
     \<lparr>ie_id = i, ie_tenant_id = ''t1'', ie_event_id = int_str i, ie_app_id = ''app'',
      ie_environment = ''prod'', ie_schema_version = ''3'', ie_sdk_version = ''1'', ie_app_version = None,
      ie_app_build = None, ie_version_code = None, ie_variant = None, ie_protocol = ''line'',
      ie_scope_identity_quality = AUTHENTICATED, ie_release_identity_quality = ABSENT,
      ie_installation_identity_quality = ABSENT, ie_installation_hmac = None,
      ie_installation_hmac_key_version = None, ie_event_timestamp_ms = 1, ie_occurrence_timestamp_ms = 1,
      ie_collection_timestamp_ms = Some 1, ie_timestamp_quality = ''EVENT_DECLARED'',
      ie_payload_json = [(''scene'', jstr ''main'')], ie_payload_sha256 = ''h'', ie_payload_size_bytes = 10,
      ie_raw_pruned_at = None, ie_finalized_at = None, ie_normalization_version = 2,
      ie_normalized_json = JObj [], ie_incident_fingerprint = None, ie_raw_incident_fingerprint = None,
      ie_native_identity_json = [], ie_request_id = ''r'', ie_received_at = 0, ie_status = IS_pending,
      ie_attempt_count = 0, ie_next_attempt_at = 0, ie_lease_owner = None, ie_lease_expires_at = None,
      ie_delivered_at = None, ie_last_error_code = None, ie_last_error_message = None\<rparr>"

definition sample_leased_row :: "int \<Rightarrow> inbox_event" where
  "sample_leased_row i = claim_inbox_row ''w:1'' 100 (sample_inbox_row i)"

lemma sample_rows_pk: "inbox_primary_key [sample_inbox_row 1, sample_inbox_row 2]"
  by (simp add: inbox_primary_key_def sample_inbox_row_def)

subsection \<open>Properties\<close>

text \<open>
  C22. Completion is fenced. When a worker reports success or failure of its batch, at most rows that
  it names and whose lease it still holds, unexpired at the time of the statement, change; every
  other row of the table, in particular one that another worker claimed after a lease expired, is
  left exactly as it was, and no row is added or removed.
\<close>

theorem completion_is_fenced:
  assumes "(tbl', n) = mark_delivered owner ids t tbl \<or>
           (tbl', n) = mark_failed owner es retryable max_attempts code msg retry_after clock tbl"
    and "i < length tbl" and "tbl' ! i \<noteq> tbl ! i"
  shows "length tbl' = length tbl \<and>
    (ie_id (tbl ! i) \<in> set ids \<and> lease_held owner t (inbox_lease (tbl ! i)) \<or>
     (\<exists>k < length es. ie_id (tbl ! i) = ie_id (es ! k) \<and>
        lease_held owner (clock k) (inbox_lease (tbl ! i))))"
proof -
  from assms(1) have "row_change (\<lambda>r s. deliver_change owner ids t r s \<or> fail_change owner es clock r s) tbl tbl'"
    using mark_delivered_change [of owner ids t tbl]
      mark_failed_change [of owner es clock tbl retryable max_attempts code msg retry_after]
    by (metis (no_types, lifting) fst_conv row_change_mono)
  from row_change_nth [OF this assms(2,3)] row_change_maps(1) [OF this] show ?thesis
    by (auto simp: deliver_change_def fail_change_def)
qed

theorem completion_is_fenced_witness:
  "lease_held ''w:1'' 50 (inbox_lease (sample_leased_row 1))"
proof -
  let ?tbl = "[sample_leased_row 1, sample_inbox_row 2]"
  let ?out = "mark_delivered ''w:1'' [1, 2] 50 ?tbl"
  have "fst ?out ! 0 \<noteq> ?tbl ! 0" by code_simp
  from completion_is_fenced [of "fst ?out" "snd ?out" "''w:1''" "[1, 2]" 50 ?tbl "[]" True 0 "''''" "''''"
      None "\<lambda>_. 0" 0, OF _ _ this] show ?thesis by simp
qed

text \<open>
  C23. Claims are exclusive. If one worker claims a batch and another claims afterwards, while the
  first leases have not expired, no row is handed to both; the second claim leaves every row of the
  first one untouched and still held by its owner.
\<close>

theorem claims_are_exclusive:
  assumes "inbox_primary_key tbl" and "now' < now + seconds ls"
    and "(tbl1, first) = claim_batch locked owner limit ls now tbl"
    and "(tbl2, second) = claim_batch locked' owner' limit' ls' now' tbl1"
    and "r \<in> set first"
  shows "ie_id r \<notin> ie_id ` set second \<and> r \<in> set tbl2 \<and> lease_held owner now' (inbox_lease r)"
proof -
  let ?exp = "now + seconds ls"
  have t1: "tbl1 = inbox_leases.claimed_table locked owner limit now ?exp tbl"
    and f: "first = map (claim_inbox_row owner ?exp) (inbox_leases.selected locked limit now tbl)"
    and t2: "tbl2 = inbox_leases.claimed_table locked' owner' limit' now' (now' + seconds ls') tbl1"
    and s: "second = map (claim_inbox_row owner' (now' + seconds ls')) (inbox_leases.selected locked' limit' now' tbl1)"
    using assms(3,4) claim_batch_eq by (metis fst_conv, metis snd_conv, metis fst_conv, metis snd_conv)
  have u: "inbox_leases.unique_ids tbl" using assms(1) by (simp add: unique_ids_pk)
  from assms(5) f obtain q where q: "q \<in> set (inbox_leases.selected locked limit now tbl)"
    "r = claim_inbox_row owner ?exp q" by auto
  from inbox_leases.claim_holds [OF u q(1) assms(2), where owner = owner] q(2) t1
  have r: "r \<in> set tbl1" "lease_held owner now' (inbox_lease r)" by auto
  have "r \<in> set tbl2"
    using inbox_leases.claim_excludes [OF _ r(1) lease_held_active [OF r(2)]]
      inbox_leases.claimed_unique_ids [OF u] t1 t2 by simp
  moreover have "ie_id r \<notin> ie_id ` set second"
    using inbox_leases.claims_disjoint [OF u assms(2) q(1)] t1 s q(2) by (fastforce simp: row_simps)
  ultimately show ?thesis using r(2) by simp
qed

theorem claims_are_exclusive_witness:
  "\<exists>first second tbl1 tbl2.
     (tbl1, first) = claim_batch (\<lambda>_. False) ''a'' 1 30 5 [sample_inbox_row 1, sample_inbox_row 2] \<and>
     (tbl2, second) = claim_batch (\<lambda>_. False) ''b'' 2 30 6 tbl1 \<and>
     map ie_id first = [1] \<and> 1 \<notin> ie_id ` set second \<and> map ie_id second = [2]"
proof -
  define c1 where "c1 = claim_batch (\<lambda>_. False) ''a'' 1 30 5 [sample_inbox_row 1, sample_inbox_row 2]"
  define c2 where "c2 = claim_batch (\<lambda>_. False) ''b'' 2 30 6 (fst c1)"
  define r where "r = claim_inbox_row ''a'' 30000005 (sample_inbox_row 1)"
  have f: "snd c1 = [r]" and s: "map ie_id (snd c2) = [2]"
    unfolding c2_def c1_def r_def by code_simp+
  have i: "ie_id r = 1"
    by (simp add: r_def row_simps sample_inbox_row_def)
  have p1: "(fst c1, snd c1) = claim_batch (\<lambda>_. False) ''a'' 1 30 5 [sample_inbox_row 1, sample_inbox_row 2]"
    and p2: "(fst c2, snd c2) = claim_batch (\<lambda>_. False) ''b'' 2 30 6 (fst c1)"
    by (simp_all only: prod.collapse c1_def c2_def)
  have "ie_id r \<notin> ie_id ` set (snd c2)"
    using claims_are_exclusive [OF sample_rows_pk _ p1 p2, of r] by (simp add: f seconds_def)
  then show ?thesis
    using f s i p1 p2 by (intro exI [of _ "snd c1"] exI [of _ "snd c2"] exI [of _ "fst c1"] exI [of _ "fst c2"]) simp
qed

text \<open>
  C24. A healthy export cycle delivers. If the encoder accepts the claimed batch, the collector
  acknowledges it before the leases expire and no other process interferes, then the cycle reports
  exactly the claimed rows, each of them is delivered with its attempt counted and its lease
  cleared, and all other rows are unchanged.
\<close>

theorem healthy_cycle_delivers:
  assumes "inbox_primary_key tbl" and "es_export_enabled st"
    and "owner = new_lease_owner worker token"
    and "expiry = ct_claim ct + seconds (es_worker_lease_seconds st)"
    and "events = snd (claim_batch locked owner (es_worker_batch_size st) (es_worker_lease_seconds st)
                    (ct_claim ct) tbl)"
    and "events \<noteq> []" and "encode events = Some payload" and "client payload = Some res" and "er_success res"
    and "ct_finish ct 0 < expiry"
  shows "export_once st encode client worker token locked ct (\<lambda>t. t) (\<lambda>t. t) tbl =
    Inr (map (\<lambda>r. if ie_id r \<in> ie_id ` set events
                  then deliver_row (ct_finish ct 0) (claim_inbox_row owner expiry r) else r) tbl,
         length events)"
proof -
  let ?sel = "inbox_leases.selected locked (es_worker_batch_size st) (ct_claim ct) tbl"
  let ?claim = "claim_batch locked owner (es_worker_batch_size st) (es_worker_lease_seconds st) (ct_claim ct) tbl"
  obtain tbl1 ev where cl: "?claim = (tbl1, ev)" by fastforce
  then have "ev = events" by (simp add: assms(5))
  with cl have c: "?claim = (tbl1, events)" by simp
  have ev: "events = map (claim_inbox_row owner expiry) ?sel"
    unfolding assms(4,5) claim_batch_eq ..
  have "tbl1 = fst ?claim" by (simp add: c)
  then have t1: "tbl1 = inbox_leases.claimed_table locked owner (es_worker_batch_size st) (ct_claim ct) expiry tbl"
    unfolding claim_batch_eq assms(4) .
  have ids: "map ie_id events = map ie_id ?sel" by (simp add: ev row_simps)
  have "distinct (map ie_id ?sel)"
    using assms(1) by (intro inbox_leases.selected_distinct) (simp add: unique_ids_pk)
  then have n: "card (set (map ie_id events)) = length events"
    unfolding ids by (simp only: distinct_card length_map ev)
  have "set (map ie_id events) = ie_id ` set ?sel" unfolding ids by simp
  from mark_delivered_claimed [OF assms(1,10) t1 this] assms(6)
  have del: "mark_delivered owner (map ie_id events) (ct_finish ct 0) tbl1 =
    (map (\<lambda>r. if ie_id r \<in> ie_id ` set events
              then deliver_row (ct_finish ct 0) (claim_inbox_row owner expiry r) else r) tbl, length events)"
    unfolding n by simp
  have enc: "encode_isolated_batch encode events = Some (payload, events, [])"
    by (simp add: encode_isolated_batch_def assms(7))
  have fin: "finish_export st owner events res (ct_finish ct) tbl1 =
      mark_delivered owner (map ie_id events) (ct_finish ct 0) tbl1"
    by (simp add: finish_export_def assms(9))
  show ?thesis
    by (simp add: export_once_def assms(2,6,8) assms(3) [symmetric] c enc fin del)
qed

definition sample_settings :: export_settings where
  "sample_settings = \<lparr>es_export_enabled = True, es_worker_batch_size = 1, es_worker_lease_seconds = 30,
     es_worker_max_attempts = 3\<rparr>"

theorem healthy_cycle_delivers_witness:
  "\<exists>tbl'. export_once sample_settings (\<lambda>_. Some ''p'') (\<lambda>_. Some (export_failure\<lparr>er_success := True\<rparr>))
     ''w'' ''tok'' (\<lambda>_. False) \<lparr>ct_claim = 5, ct_invalid = (\<lambda>_. 6), ct_finish = (\<lambda>_. 7)\<rparr> (\<lambda>t. t) (\<lambda>t. t)
     [sample_inbox_row 1, sample_inbox_row 2] = Inr (tbl', 1) \<and>
   map ie_status tbl' = [IS_delivered, IS_pending]"
proof -
  define tbl where "tbl = [sample_inbox_row 1, sample_inbox_row 2]"
  define ct where "ct = \<lparr>ct_claim = 5, ct_invalid = (\<lambda>_. 6), ct_finish = (\<lambda>_. 7::time)\<rparr>"
  define ev where "ev = snd (claim_batch (\<lambda>_. False) (new_lease_owner ''w'' ''tok'') 1 30 5 tbl)"
  have ev: "ev \<noteq> []" "length ev = 1" "map ie_id ev = [1]"
    unfolding ev_def tbl_def by code_simp+
  have ct: "ct_claim ct = 5" "ct_finish ct 0 = 7" by (simp_all add: ct_def)
  have st: "es_export_enabled sample_settings" "es_worker_batch_size sample_settings = 1"
    "es_worker_lease_seconds sample_settings = 30" by (simp_all add: sample_settings_def)
  have "export_once sample_settings (\<lambda>_. Some ''p'') (\<lambda>_. Some (export_failure\<lparr>er_success := True\<rparr>))
     ''w'' ''tok'' (\<lambda>_. False) ct (\<lambda>t. t) (\<lambda>t. t) tbl =
    Inr (map (\<lambda>r. if ie_id r \<in> ie_id ` set ev
        then deliver_row (ct_finish ct 0) (claim_inbox_row (new_lease_owner ''w'' ''tok'') 30000005 r) else r) tbl,
       length ev)"
    by (rule healthy_cycle_delivers [OF sample_rows_pk [folded tbl_def] st(1) refl _ _ ev(1) refl refl])
       (simp_all add: st ct ev_def seconds_def)
  moreover have "ie_id ` set ev = {1}" using ev(3) by (metis list.set_map list.simps(15) set_empty)
  ultimately show ?thesis
    unfolding ct_def [symmetric] tbl_def [symmetric]
    using ev(2) by (simp add: tbl_def deliver_row_def sample_inbox_row_def)
qed

text \<open>
  A failed delivery is retried with a bounded delay or parked for good. When a worker that holds
  the row's lease reports a failure, the row becomes pending again, due between 1 and 256 seconds
  later unless the collector asked for another delay, exactly if the failure is retryable and the
  attempt budget is not used up; otherwise it becomes a dead letter. In both cases the lease is
  released and the attempt count is kept.
\<close>

theorem failed_delivery_outcome:
  assumes "inbox_primary_key tbl" and "r \<in> set tbl" and "lease_held owner (clock 0) (inbox_lease r)"
    and "0 \<le> ie_attempt_count r" and "retry_after = None"
    and "retry = (retryable \<and> ie_attempt_count r < max_attempts)"
  shows "\<exists>s delay. mark_failed owner [r] retryable max_attempts code msg retry_after clock tbl =
      (map (\<lambda>q. if ie_id q = ie_id r then s else q) tbl, 1) \<and>
    ie_status s = (if retry then IS_pending else IS_dead_letter) \<and>
    ie_finalized_at s = (if retry then None else Some (clock 0)) \<and>
    ie_next_attempt_at s = clock 0 + seconds delay \<and> 1 \<le> delay \<and> delay \<le> 256 \<and>
    ie_lease_owner s = None \<and> ie_lease_expires_at s = None \<and>
    ie_attempt_count s = ie_attempt_count r \<and> row_identity s = row_identity r"
proof -
  let ?delay = "backoff_delay None (ie_attempt_count r)"
  let ?s = "fail_row retry ?delay code msg (clock 0) r"
  let ?owned = "\<lambda>q. ie_id q = ie_id r \<and> lease_held owner (clock 0) (inbox_lease q)"
  have only: "q = r" if "q \<in> set tbl" "ie_id q = ie_id r" for q
    using inbox_id_unique [OF assms(1) that(1) assms(2) that(2)] .
  have "filter ?owned tbl = filter (\<lambda>q. ie_id q = ie_id r) tbl"
    using only assms(3) by (intro filter_cong) auto
  also have "\<dots> = [r]"
    using assms(1,2) by (intro filter_unique_key) (auto simp: inbox_primary_key_def)
  finally have "rowcount ?owned tbl = 1" by (simp add: rowcount_def)
  moreover have "sql_update ?owned (fail_row retry ?delay code msg (clock 0)) tbl =
      map (\<lambda>q. if ie_id q = ie_id r then ?s else q) tbl"
    using only assms(3) by (auto simp: sql_update_def)
  ultimately have "mark_failed owner [r] retryable max_attempts code msg retry_after clock tbl =
      (map (\<lambda>q. if ie_id q = ie_id r then ?s else q) tbl, 1)"
    by (simp add: Let_def assms(5,6) should_retry_def)
  then show ?thesis
    using backoff_delay_bounds [OF assms(4)]
    by (intro exI [of _ ?s] exI [of _ ?delay]) (simp add: fail_row_def row_identity_def)
qed

theorem failed_delivery_outcome_witness:
  "\<exists>s delay. mark_failed ''w:1'' [sample_leased_row 1] True 3 ''e'' ''m'' None (\<lambda>_. 50)
       [sample_leased_row 1, sample_inbox_row 2] =
      (map (\<lambda>q. if ie_id q = 1 then s else q) [sample_leased_row 1, sample_inbox_row 2], 1) \<and>
    ie_status s = IS_pending \<and> ie_next_attempt_at s = 50 + seconds delay \<and> 1 \<le> delay \<and> delay \<le> 256"
proof -
  have id: "ie_id (sample_leased_row 1) = 1" "inbox_primary_key [sample_leased_row 1, sample_inbox_row 2]"
    by (simp_all add: inbox_primary_key_def sample_leased_row_def row_simps sample_inbox_row_def)
  have held: "lease_held ''w:1'' 50 (inbox_lease (sample_leased_row 1))" "ie_attempt_count (sample_leased_row 1) = 1"
    by code_simp+
  from failed_delivery_outcome [OF id(2), of "sample_leased_row 1" "''w:1''" "\<lambda>_. 50" None True True 3
        "''e''" "''m''"] held
  show ?thesis unfolding id(1) by (simp del: mark_failed.simps list.map) blast
qed

end
