(* ===== verification/Apm_Symbol_Jobs.thy ===== *)
theory Apm_Symbol_Jobs
  imports Apm_Inbox Apm_Export
begin

section \<open>Symbolization jobs\<close>

text \<open>
  \<^verbatim>\<open>db/symbolization.py\<close>: enqueueing jobs inside the ingest transaction, claiming them, resolving
  exact artifacts, and the fenced transitions that finish a job and release its inbox row for
  export. An operation maps the inbox table and the job table to the new pair and its result. The
  row that the ORM loads with a claimed job is passed beside the job.
\<close>

subsection \<open>Constants and identities\<close>

definition SUPPORTED_ABIS :: "string list" where
  "SUPPORTED_ABIS = [''arm64-v8a'', ''armeabi-v7a'', ''x86_64'', ''x86'']"

definition build_id_pattern :: "string \<Rightarrow> bool" where
  "build_id_pattern v \<longleftrightarrow> 8 \<le> length v \<and> length v \<le> 128 \<and> list_all is_lower_hex v"

definition MAX_SYMBOL_BACKOFF_SECONDS :: int where [consts_simps]: "MAX_SYMBOL_BACKOFF_SECONDS = 300"
definition SYMBOL_ARTIFACT_RECHECK_SECONDS :: int where [consts_simps]: "SYMBOL_ARTIFACT_RECHECK_SECONDS = 60"

record artifact_key =
  ak_artifact_type :: artifact_kind
  ak_tenant_id :: string
  ak_app_id :: string
  ak_version_code :: string
  ak_app_build :: string
  ak_variant :: string
  ak_abi :: string
  ak_build_id :: string

definition job_type :: "apm_event \<Rightarrow> job_kind option" where
  "job_type e =
     (if ev_module e \<noteq> ''crash'' then None
      else if ev_name e = ''java_crash'' then Some Job_java
      else if ev_name e = ''native_crash'' \<or> ev_name e = ''tombstone_crash'' then Some Job_native
      else None)"

definition payload_fields :: "dict \<Rightarrow> dict" where
  "payload_fields payload =
     (case Option.bind (map_of payload ''fields'') obj_of of None \<Rightarrow> [] | Some d \<Rightarrow> d)"

fun first_string :: "dict \<Rightarrow> string list \<Rightarrow> string" where
  "first_string d [] = []"
| "first_string d (k # ks) =
     (case Option.bind (map_of d k) str_of of Some s \<Rightarrow> s | None \<Rightarrow> first_string d ks)"

definition stack_value :: "dict \<Rightarrow> job_kind \<Rightarrow> string" where
  "stack_value payload jt =
     first_string (payload_fields payload)
       (if jt = Job_java then [''stackTrace'', ''stack_trace''] else [''backtrace''])"

definition string_field :: "json \<Rightarrow> string \<Rightarrow> string" where
  "string_field j key =
     (case Option.bind (obj_get key j) str_of of None \<Rightarrow> [] | Some s \<Rightarrow> py_strip s)"

text \<open>\<open>str(frame.get(key, ""))\<close>.\<close>

definition frame_text :: "runtime \<Rightarrow> json \<Rightarrow> string \<Rightarrow> string" where
  "frame_text rt j key =
     (case obj_get key j of None \<Rightarrow> [] | Some (JScalar s) \<Rightarrow> py_str rt s | Some v \<Rightarrow> json_dumps rt v)"

definition present :: "string option \<Rightarrow> bool" where
  "present v \<longleftrightarrow> v \<noteq> None \<and> v \<noteq> Some []"

definition release_complete :: "inbox_event \<Rightarrow> bool" where
  "release_complete r \<longleftrightarrow>
     ie_release_identity_quality r = OCCURRENCE_BOUND \<and> present (ie_version_code r) \<and>
     present (ie_app_build r) \<and> present (ie_variant r)"

definition has_symbol_identity :: "runtime \<Rightarrow> inbox_event \<Rightarrow> job_kind \<Rightarrow> string \<Rightarrow> bool" where
  "has_symbol_identity rt r jt stack =
     (if stack = [] \<or> \<not> release_complete r then False
      else if jt = Job_java then True
      else (case ie_native_identity_json r of
              [] \<Rightarrow> False
            | first_frame # _ \<Rightarrow>
                frame_text rt first_frame ''abi'' \<in> set SUPPORTED_ABIS \<and>
                build_id_pattern (py_lower (frame_text rt first_frame ''module_build_id''))))"

definition text_or_empty :: "string option \<Rightarrow> string" where
  "text_or_empty v = (case v of None \<Rightarrow> [] | Some s \<Rightarrow> s)"

definition artifact_identity_for_job :: "symbolization_job \<Rightarrow> inbox_event \<Rightarrow> artifact_key option" where
  "artifact_identity_for_job job r =
     (if \<not> release_complete r then None
      else
        let key = (\<lambda>ty abi build_id.
              \<lparr>ak_artifact_type = ty, ak_tenant_id = ie_tenant_id r, ak_app_id = ie_app_id r,
               ak_version_code = text_or_empty (ie_version_code r),
               ak_app_build = text_or_empty (ie_app_build r),
               ak_variant = text_or_empty (ie_variant r), ak_abi = abi, ak_build_id = build_id\<rparr>)
        in if sj_job_type job = Job_java then Some (key Java_mapping [] [])
           else
             let first_frame = (case ie_native_identity_json r of [] \<Rightarrow> JObj [] | f # _ \<Rightarrow> f);
                 abi = string_field first_frame ''abi'';
                 build_id = py_lower (string_field first_frame ''module_build_id'')
             in if abi \<notin> set SUPPORTED_ABIS \<or> \<not> build_id_pattern build_id then None
                else Some (key Native_elf abi build_id))"

subsection \<open>Enqueueing\<close>

definition new_job ::
    "runtime \<Rightarrow> bool \<Rightarrow> time \<Rightarrow> ingest_metadata \<Rightarrow> (string \<times> apm_event) list \<Rightarrow> inbox_event
       \<Rightarrow> symbolization_job option" where
  "new_job rt enabled now md relevant r =
     (case map_of relevant (ie_event_id r) of
        None \<Rightarrow> None
      | Some e \<Rightarrow>
          (case job_type e of
             None \<Rightarrow> None
           | Some jt \<Rightarrow>
               let stack = stack_value (ie_payload_json r) jt;
                   status = (if \<not> enabled then SS_disabled
                             else if has_symbol_identity rt r jt stack then SS_pending
                             else SS_metadata_missing)
               in Some \<lparr>sj_id = 0, sj_inbox_event_id = ie_id r, sj_tenant_id = md_tenant_id md,
                        sj_event_id = ev_event_id e, sj_job_type = jt, sj_status = status,
                        sj_artifact_id = None, sj_input_sha256 = rt_sha256_hex rt stack,
                        sj_result_json = None, sj_fingerprint_sha256 = None, sj_tool_name = None,
                        sj_tool_version = None, sj_attempt_count = 0, sj_next_attempt_at = now,
                        sj_lease_owner = None, sj_lease_expires_at = None, sj_last_error_code = None,
                        sj_last_error_message = None, sj_created_at = now, sj_updated_at = now\<rparr>))"

fun insert_jobs ::
    "symbolization_job list \<Rightarrow> symbolization_job list \<Rightarrow> symbolization_job list \<times> int list" where
  "insert_jobs jobs [] = (jobs, [])"
| "insert_jobs jobs (j # js) =
     (if sj_inbox_event_id j \<in> set (map sj_inbox_event_id jobs) then insert_jobs jobs js
      else case insert_jobs (jobs @ [j\<lparr>sj_id := next_id sj_id jobs\<rparr>]) js of
        (jobs', ids) \<Rightarrow> (jobs', sj_inbox_event_id j # ids))"

definition relevant_events :: "apm_event list \<Rightarrow> (string \<times> apm_event) list" where
  "relevant_events events =
     dict_of (map (\<lambda>e. (ev_event_id e, e)) (filter (\<lambda>e. job_type e \<noteq> None) events))"

definition await_symbols :: "int list \<Rightarrow> inbox_event list \<Rightarrow> inbox_event list" where
  "await_symbols ids =
     sql_update (\<lambda>r. ie_id r \<in> set ids \<and> ie_status r = IS_pending)
       (\<lambda>r. r\<lparr>ie_status := IS_awaiting_symbols\<rparr>)"

definition enqueue_symbolization_jobs ::
    "runtime \<Rightarrow> dialect \<Rightarrow> bool \<Rightarrow> time \<Rightarrow> ingest_metadata \<Rightarrow> apm_event list
       \<Rightarrow> inbox_event list \<Rightarrow> symbolization_job list
       \<Rightarrow> (inbox_event list \<times> symbolization_job list \<times> nat) result" where
  "enqueue_symbolization_jobs rt dialect enabled now md events inbox jobs =
     (let relevant = relevant_events events
      in if relevant = [] then Inr (inbox, jobs, 0)
         else
           let inbox_rows = filter (\<lambda>r. ie_tenant_id r = md_tenant_id md \<and>
                                        ie_event_id r \<in> set (map fst relevant)) inbox;
               vals = List.map_filter (new_job rt enabled now md relevant) inbox_rows;
               waiting = map sj_inbox_event_id (filter (\<lambda>j. sj_status j = SS_pending) vals)
           in if vals = [] then Inr (inbox, jobs, 0)
              else case dialect of
                Other_dialect d \<Rightarrow> Inl (Uncaught ''RuntimeError'')
              | _ \<Rightarrow>
                (case insert_jobs jobs vals of
                   (jobs', inserted) \<Rightarrow>
                     let inserted_waiting = filter (\<lambda>i. i \<in> set waiting) inserted
                     in Inr (await_symbols inserted_waiting inbox, jobs', length inserted_waiting)))"

subsection \<open>Claiming\<close>

definition job_lease :: "symbolization_job \<Rightarrow> lease_view" where
  "job_lease j =
     \<lparr>lv_processing = (sj_status j = SS_processing), lv_owner = sj_lease_owner j,
      lv_expires_at = sj_lease_expires_at j\<rparr>"

definition job_claimable :: "time \<Rightarrow> symbolization_job \<Rightarrow> bool" where
  "job_claimable observed j \<longleftrightarrow>
     (sj_status j = SS_pending \<and> sj_next_attempt_at j \<le> observed) \<or>
     (sj_status j = SS_processing \<and>
      (case sj_lease_expires_at j of None \<Rightarrow> False | Some e \<Rightarrow> e \<le> observed)) \<or>
     (sj_status j = SS_symbols_missing \<and> sj_next_attempt_at j \<le> observed)"

text \<open>
  The claim sets three columns; \<open>updated_at\<close> follows by the column's \<open>onupdate\<close> hook at flush.
\<close>

definition claim_job :: "time \<Rightarrow> string \<Rightarrow> time \<Rightarrow> symbolization_job \<Rightarrow> symbolization_job" where
  "claim_job flushed owner expiry j =
     j\<lparr>sj_status := SS_processing, sj_lease_owner := Some owner, sj_lease_expires_at := Some expiry,
       sj_updated_at := flushed\<rparr>"

interpretation job_leases: leased_table sj_id job_lease job_claimable "claim_job flushed" for flushed
  by unfold_locales
     (auto simp: claim_job_def job_lease_def job_claimable_def lease_active_def split: option.splits)

definition claim_symbolization_batch ::
    "(int \<Rightarrow> bool) \<Rightarrow> string \<Rightarrow> nat \<Rightarrow> int \<Rightarrow> time \<Rightarrow> symbolization_job list
       \<Rightarrow> symbolization_job list \<times> symbolization_job list" where
  "claim_symbolization_batch locked owner limit lease_seconds observed jobs =
     (let rows = order_limit sj_id limit
                   (filter (\<lambda>j. job_claimable observed j \<and> \<not> locked (sj_id j)) jobs);
          lease_expiry = observed + seconds lease_seconds
      in (sql_update (\<lambda>j. sj_id j \<in> sj_id ` set rows)
            (claim_job observed owner lease_expiry) jobs,
          map (claim_job observed owner lease_expiry) rows))"

subsection \<open>Fenced transitions\<close>

definition job_held :: "int \<Rightarrow> string \<Rightarrow> time \<Rightarrow> symbolization_job \<Rightarrow> bool" where
  "job_held i owner observed j \<longleftrightarrow> sj_id j = i \<and> lease_held owner observed (job_lease j)"

definition start_symbolization_attempt ::
    "string \<Rightarrow> symbolization_job \<Rightarrow> int \<Rightarrow> time \<Rightarrow> symbolization_job list
       \<Rightarrow> symbolization_job list \<times> symbolization_job option" where
  "start_symbolization_attempt owner job max_attempts observed jobs =
     (let p = (\<lambda>j. job_held (sj_id job) owner observed j \<and> sj_attempt_count j = sj_attempt_count job \<and>
                   sj_attempt_count j < max_attempts)
      in if rowcount p jobs = 0 then (jobs, None)
         else (sql_update p (\<lambda>j. j\<lparr>sj_attempt_count := sj_attempt_count j + 1, sj_updated_at := observed\<rparr>) jobs,
               Some (job\<lparr>sj_attempt_count := sj_attempt_count job + 1\<rparr>)))"

definition release_inbox :: "int \<Rightarrow> inbox_event list \<Rightarrow> inbox_event list" where
  "release_inbox inbox_event_id =
     sql_update (\<lambda>r. ie_id r = inbox_event_id \<and> ie_status r = IS_awaiting_symbols)
       (\<lambda>r. r\<lparr>ie_status := IS_pending\<rparr>)"

definition mark_symbols_missing ::
    "string \<Rightarrow> int \<Rightarrow> string \<Rightarrow> time \<Rightarrow> symbolization_job list \<Rightarrow> symbolization_job list \<times> bool" where
  "mark_symbols_missing owner job_id error_message observed jobs =
     (sql_update (job_held job_id owner observed)
        (\<lambda>j. j\<lparr>sj_status := SS_symbols_missing,
               sj_next_attempt_at := observed + seconds SYMBOL_ARTIFACT_RECHECK_SECONDS,
               sj_lease_owner := None, sj_lease_expires_at := None,
               sj_last_error_code := Some ''symbols_missing'',
               sj_last_error_message := Some (cp_take MAX_EXPORT_ERROR_LENGTH error_message),
               sj_updated_at := observed\<rparr>) jobs,
      rowcount (job_held job_id owner observed) jobs \<noteq> 0)"

definition complete_job ::
    "symbol_status \<Rightarrow> int \<Rightarrow> json \<Rightarrow> string \<Rightarrow> string \<Rightarrow> string \<Rightarrow> time \<Rightarrow> symbolization_job \<Rightarrow> symbolization_job" where
  "complete_job status artifact_id result_json fingerprint tool_name tool_version observed j =
     j\<lparr>sj_status := status, sj_artifact_id := Some artifact_id, sj_result_json := Some result_json,
       sj_fingerprint_sha256 := Some fingerprint, sj_tool_name := Some tool_name,
       sj_tool_version := Some tool_version, sj_lease_owner := None, sj_lease_expires_at := None,
       sj_last_error_code := None, sj_last_error_message := None, sj_updated_at := observed\<rparr>"

definition publish_fingerprint :: "int \<Rightarrow> string \<Rightarrow> inbox_event list \<Rightarrow> inbox_event list" where
  "publish_fingerprint inbox_event_id fingerprint =
     sql_update (\<lambda>r. ie_id r = inbox_event_id \<and> ie_incident_fingerprint r \<noteq> None)
       (\<lambda>r. r\<lparr>ie_incident_fingerprint := Some fingerprint\<rparr>)"

definition mark_symbolized ::
    "string \<Rightarrow> symbolization_job \<Rightarrow> int \<Rightarrow> json \<Rightarrow> string \<Rightarrow> string \<Rightarrow> string \<Rightarrow> symbol_status \<Rightarrow> time
       \<Rightarrow> inbox_event list \<Rightarrow> symbolization_job list
       \<Rightarrow> (inbox_event list \<times> symbolization_job list \<times> bool) result" where
  "mark_symbolized owner job artifact_id result_json fingerprint tool_name tool_version status observed inbox jobs =
     (if status \<notin> {SS_symbolized, SS_partially_symbolized} \<or>
         (status = SS_partially_symbolized \<and> sj_job_type job \<noteq> Job_native)
      then Inl (Uncaught ''ValueError'')
      else if rowcount (job_held (sj_id job) owner observed) jobs = 0 then Inr (inbox, jobs, False)
      else
        let jobs' = sql_update (job_held (sj_id job) owner observed)
                      (complete_job status artifact_id result_json fingerprint tool_name tool_version observed) jobs;
            inbox' = (if sj_job_type job = Job_java
                      then publish_fingerprint (sj_inbox_event_id job) fingerprint inbox else inbox)
        in Inr (release_inbox (sj_inbox_event_id job) inbox', jobs', True))"

definition fail_job :: "bool \<Rightarrow> int \<Rightarrow> string \<Rightarrow> string \<Rightarrow> time \<Rightarrow> symbolization_job \<Rightarrow> symbolization_job" where
  "fail_job retry delay error_code error_message observed j =
     j\<lparr>sj_status := (if retry then SS_pending else SS_failed),
       sj_next_attempt_at := observed + seconds delay, sj_lease_owner := None,
       sj_lease_expires_at := None, sj_last_error_code := Some (cp_take 128 error_code),
       sj_last_error_message := Some (cp_take MAX_EXPORT_ERROR_LENGTH error_message),
       sj_updated_at := observed\<rparr>"

definition mark_symbolization_failed ::
    "string \<Rightarrow> symbolization_job \<Rightarrow> bool \<Rightarrow> int \<Rightarrow> string \<Rightarrow> string \<Rightarrow> time
       \<Rightarrow> inbox_event list \<Rightarrow> symbolization_job list
       \<Rightarrow> inbox_event list \<times> symbolization_job list \<times> bool" where
  "mark_symbolization_failed owner job retryable max_attempts error_code error_message observed inbox jobs =
     (let retry = (retryable \<and> sj_attempt_count job < max_attempts);
          delay = min (2 ^ nat (min (sj_attempt_count job) 8)) MAX_SYMBOL_BACKOFF_SECONDS
      in if rowcount (job_held (sj_id job) owner observed) jobs = 0 then (inbox, jobs, False)
         else (if retry then inbox else release_inbox (sj_inbox_event_id job) inbox,
               sql_update (job_held (sj_id job) owner observed)
                 (fail_job retry delay error_code error_message observed) jobs, True))"

subsection \<open>Artifacts\<close>

definition artifact_matches :: "artifact_key \<Rightarrow> symbol_artifact \<Rightarrow> bool" where
  "artifact_matches k a \<longleftrightarrow>
     sa_tenant_id a = ak_tenant_id k \<and> sa_artifact_type a = ak_artifact_type k \<and>
     sa_app_id a = ak_app_id k \<and> sa_version_code a = ak_version_code k \<and>
     sa_app_build a = ak_app_build k \<and> sa_variant a = ak_variant k \<and> sa_abi a = ak_abi k \<and>
     sa_build_id a = ak_build_id k"

text \<open>\<open>one_or_none\<close> raises when several rows match.\<close>

definition resolve_artifact ::
    "symbol_artifact list \<Rightarrow> symbolization_job \<Rightarrow> inbox_event \<Rightarrow> symbol_artifact option result" where
  "resolve_artifact artifacts job r =
     (case artifact_identity_for_job job r of
        None \<Rightarrow> Inr None
      | Some k \<Rightarrow>
          (case filter (artifact_matches k) artifacts of
             [] \<Rightarrow> Inr None
           | [a] \<Rightarrow> Inr (Some a)
           | _ \<Rightarrow> Inl (Uncaught ''MultipleResultsFound'')))"

definition resolve_native_artifacts ::
    "symbol_artifact list \<Rightarrow> native_frame_identity list \<Rightarrow> symbolization_job \<Rightarrow> inbox_event
       \<Rightarrow> symbol_artifact list" where
  "resolve_native_artifacts artifacts frames job r =
     (case artifact_identity_for_job job r of
        None \<Rightarrow> []
      | Some k \<Rightarrow>
          let required = map (\<lambda>f. (nf_abi f, py_lower (nf_module_build_id f))) frames;
              found = filter (\<lambda>a. sa_tenant_id a = ak_tenant_id k \<and> sa_artifact_type a = Native_elf \<and>
                         sa_status a = ''active'' \<and> sa_app_id a = ak_app_id k \<and>
                         sa_version_code a = ak_version_code k \<and> sa_app_build a = ak_app_build k \<and>
                         sa_variant a = ak_variant k \<and> (sa_abi a, sa_build_id a) \<in> set required) artifacts
          in if set (map (\<lambda>a. (sa_abi a, sa_build_id a)) found) = set required then found else [])"

definition job_matches_artifact :: "runtime \<Rightarrow> artifact_key \<Rightarrow> symbolization_job \<Rightarrow> inbox_event \<Rightarrow> bool" where
  "job_matches_artifact rt k job r =
     (if ak_artifact_type k = Java_mapping then artifact_identity_for_job job r = Some k
      else list_ex (\<lambda>f. obj_get ''abi'' f = Some (jstr (ak_abi k)) \<and>
                        py_lower (frame_text rt f ''module_build_id'') = ak_build_id k)
             (ie_native_identity_json r))"

definition requeue_candidate :: "artifact_key \<Rightarrow> symbolization_job \<Rightarrow> inbox_event \<Rightarrow> bool" where
  "requeue_candidate k job r \<longleftrightarrow>
     ie_id r = sj_inbox_event_id job \<and> sj_status job = SS_symbols_missing \<and>
     sj_job_type job = (if ak_artifact_type k = Java_mapping then Job_java else Job_native) \<and>
     sj_tenant_id job = ak_tenant_id k \<and> ie_app_id r = ak_app_id k \<and>
     ie_version_code r = Some (ak_version_code k) \<and> ie_app_build r = Some (ak_app_build k) \<and>
     ie_variant r = Some (ak_variant k)"

definition requeue_matching_missing_jobs ::
    "runtime \<Rightarrow> artifact_key \<Rightarrow> time \<Rightarrow> inbox_event list \<Rightarrow> symbolization_job list
       \<Rightarrow> symbolization_job list \<times> nat" where
  "requeue_matching_missing_jobs rt k now inbox jobs =
     (let wake = (\<lambda>j. sj_status j = SS_symbols_missing \<and>
                    list_ex (\<lambda>r. requeue_candidate k j r \<and> job_matches_artifact rt k j r) inbox)
      in (sql_update wake (\<lambda>j. j\<lparr>sj_status := SS_pending, sj_next_attempt_at := now,
                               sj_last_error_code := None, sj_last_error_message := None,
                               sj_updated_at := now\<rparr>) jobs,
          rowcount wake jobs))"

subsection \<open>Job invariant\<close>

definition unfinished :: "symbol_status \<Rightarrow> bool" where
  "unfinished s \<longleftrightarrow> s \<in> {SS_pending, SS_processing, SS_symbols_missing}"

definition job_row_ok :: "int \<Rightarrow> symbolization_job \<Rightarrow> bool" where
  "job_row_ok max_attempts j \<longleftrightarrow>
     lease_ok (job_lease j) \<and> 0 \<le> sj_attempt_count j \<and> sj_attempt_count j \<le> max_attempts"

text \<open>An inbox row waits for symbols only while a job for it is unfinished.\<close>

definition awaits_unfinished :: "inbox_event list \<Rightarrow> symbolization_job list \<Rightarrow> bool" where
  "awaits_unfinished inbox jobs \<longleftrightarrow>
     (\<forall>r \<in> set inbox. ie_status r = IS_awaiting_symbols \<longrightarrow>
        (\<exists>j \<in> set jobs. sj_inbox_event_id j = ie_id r \<and> unfinished (sj_status j)))"

definition job_key :: "symbolization_job \<Rightarrow> int \<times> int \<times> string \<times> string \<times> job_kind" where
  "job_key j = (sj_id j, sj_inbox_event_id j, sj_tenant_id j, sj_event_id j, sj_job_type j)"

definition wf_jobs :: "int \<Rightarrow> symbolization_job list \<Rightarrow> bool" where
  "wf_jobs max_attempts jobs \<longleftrightarrow>
     distinct (map sj_id jobs) \<and> uq_job_inbox_event jobs \<and> list_all (job_row_ok max_attempts) jobs"

lemma job_unique:
  "wf_jobs M jobs \<Longrightarrow> i \<in> set jobs \<Longrightarrow> j \<in> set jobs \<Longrightarrow> sj_id i = sj_id j \<Longrightarrow> i = j"
  by (auto simp: wf_jobs_def distinct_map inj_on_def)

lemma job_event_unique:
  "wf_jobs M jobs \<Longrightarrow> i \<in> set jobs \<Longrightarrow> j \<in> set jobs \<Longrightarrow> sj_inbox_event_id i = sj_inbox_event_id j \<Longrightarrow> i = j"
  by (auto simp: wf_jobs_def uq_job_inbox_event_def distinct_map inj_on_def)

lemma wf_jobs_update:
  assumes "wf_jobs M jobs"
    and "\<And>j. j \<in> set jobs \<Longrightarrow> p j \<Longrightarrow> job_row_ok M j \<Longrightarrow> job_key (f j) = job_key j \<and> job_row_ok M (f j)"
  shows "wf_jobs M (sql_update p f jobs)" and "map job_key (sql_update p f jobs) = map job_key jobs"
proof -
  have ok: "\<And>j. j \<in> set jobs \<Longrightarrow> job_row_ok M j" using assms(1) by (auto simp: wf_jobs_def list_all_iff)
  show keys: "map job_key (sql_update p f jobs) = map job_key jobs"
    using assms(2) ok by (intro map_sql_update) auto
  have "map sj_id js = map fst (map job_key js)"
    "map sj_inbox_event_id js = map (fst \<circ> snd) (map job_key js)" for js
    by (simp_all add: job_key_def)
  then have "map sj_id (sql_update p f jobs) = map sj_id jobs"
    "map sj_inbox_event_id (sql_update p f jobs) = map sj_inbox_event_id jobs"
    using keys by (simp_all only:)
  moreover have "job_row_ok M j" if "j \<in> set (sql_update p f jobs)" for j
    using that by (rule sql_updateE) (use assms(2) ok in blast)+
  ultimately show "wf_jobs M (sql_update p f jobs)"
    using assms(1) by (simp add: wf_jobs_def uq_job_inbox_event_def list_all_iff)
qed

lemma awaits_update_jobs:
  assumes "awaits_unfinished inbox jobs"
    and "\<And>j. j \<in> set jobs \<Longrightarrow> p j \<Longrightarrow> sj_inbox_event_id (f j) = sj_inbox_event_id j"
    and "\<And>j. j \<in> set jobs \<Longrightarrow> p j \<Longrightarrow> unfinished (sj_status j) \<Longrightarrow> unfinished (sj_status (f j)) \<or>
           (\<forall>r \<in> set inbox. ie_id r = sj_inbox_event_id j \<longrightarrow> ie_status r \<noteq> IS_awaiting_symbols)"
  shows "awaits_unfinished inbox (sql_update p f jobs)"
  unfolding awaits_unfinished_def
proof (intro ballI impI)
  fix r assume r: "r \<in> set inbox" "ie_status r = IS_awaiting_symbols"
  then obtain j where j: "j \<in> set jobs" "sj_inbox_event_id j = ie_id r" "unfinished (sj_status j)"
    using assms(1) unfolding awaits_unfinished_def by blast
  then show "\<exists>j \<in> set (sql_update p f jobs). sj_inbox_event_id j = ie_id r \<and> unfinished (sj_status j)"
  proof (cases "p j")
    case True
    from assms(2,3) [OF j(1) True] j(2,3) r have "sj_inbox_event_id (f j) = ie_id r" "unfinished (sj_status (f j))"
      by auto
    with sql_update_hit [of j jobs p f, OF j(1) True] show ?thesis by blast
  next
    case False
    with sql_update_miss [of j jobs p f, OF j(1)] j(2,3) show ?thesis by blast
  qed
qed

lemma awaits_update_inbox:
  assumes "awaits_unfinished inbox jobs"
    and "\<And>r. r \<in> set inbox \<Longrightarrow> p r \<Longrightarrow> ie_id (f r) = ie_id r \<and>
           (ie_status (f r) = IS_awaiting_symbols \<longrightarrow> ie_status r = IS_awaiting_symbols)"
  shows "awaits_unfinished (sql_update p f inbox) jobs"
  unfolding awaits_unfinished_def
proof (intro ballI impI)
  fix s assume "s \<in> set (sql_update p f inbox)" and st: "ie_status s = IS_awaiting_symbols"
  then obtain r where "r \<in> set inbox" "ie_id s = ie_id r" "ie_status r = IS_awaiting_symbols"
    by (elim sql_updateE) (use assms(2) in auto)
  with assms(1) show "\<exists>j \<in> set jobs. sj_inbox_event_id j = ie_id s \<and> unfinished (sj_status j)"
    unfolding awaits_unfinished_def by simp
qed

lemma awaits_row_change:
  assumes "awaits_unfinished inbox jobs" and "row_change p inbox inbox'"
    and "\<And>r s. p r s \<Longrightarrow> ie_status s \<noteq> IS_awaiting_symbols"
  shows "awaits_unfinished inbox' jobs"
  unfolding awaits_unfinished_def
proof (intro ballI impI)
  fix s assume s: "s \<in> set inbox'" "ie_status s = IS_awaiting_symbols"
  then obtain i where i: "i < length inbox'" "s = inbox' ! i" by (auto simp: in_set_conv_nth)
  have len: "i < length inbox" using i(1) row_change_maps(1) [OF assms(2)] by simp
  have "inbox' ! i = inbox ! i"
    using row_change_nth [OF assms(2) len] assms(3) s(2) i(2) by blast
  then have "inbox ! i = s" using i(2) by simp
  with len have "s \<in> set inbox" using nth_mem by blast
  with assms(1) s(2) show "\<exists>j \<in> set jobs. sj_inbox_event_id j = ie_id s \<and> unfinished (sj_status j)"
    unfolding awaits_unfinished_def by blast
qed

subsection \<open>Release\<close>

lemma release_inbox_released:
  "r \<in> set (release_inbox i inbox) \<Longrightarrow> ie_id r = i \<Longrightarrow> ie_status r \<noteq> IS_awaiting_symbols"
  unfolding release_inbox_def by (erule sql_updateE) auto

definition symbol_change :: "inbox_event \<Rightarrow> inbox_event \<Rightarrow> bool" where
  "symbol_change r s \<longleftrightarrow>
     (\<exists>fp. s = r\<lparr>ie_incident_fingerprint := fp\<rparr>) \<or>
     ie_status r = IS_awaiting_symbols \<and>
       (\<exists>fp. s = r\<lparr>ie_incident_fingerprint := fp, ie_status := IS_pending\<rparr>) \<or>
     ie_status r = IS_pending \<and> s = r\<lparr>ie_status := IS_awaiting_symbols\<rparr>"

lemma identity_fingerprint [simp]:
  "row_identity (r\<lparr>ie_incident_fingerprint := x\<rparr>) = row_identity r"
  "row_identity (r\<lparr>ie_status := st\<rparr>) = row_identity r"
  "row_identity (r\<lparr>ie_incident_fingerprint := x, ie_status := st\<rparr>) = row_identity r"
  by (simp_all add: row_identity_def)

lemma release_inbox_change: "row_change symbol_change inbox (release_inbox i inbox)"
  unfolding release_inbox_def
proof (rule row_change_sql_update)
  fix r :: inbox_event assume st: "ie_id r = i \<and> ie_status r = IS_awaiting_symbols"
  have "r\<lparr>ie_status := IS_pending\<rparr> =
      r\<lparr>ie_incident_fingerprint := ie_incident_fingerprint r, ie_status := IS_pending\<rparr>" by simp
  then have "symbol_change r (r\<lparr>ie_status := IS_pending\<rparr>)"
    using st unfolding symbol_change_def by blast
  then show "ie_id (r\<lparr>ie_status := IS_pending\<rparr>) = ie_id r \<and>
      row_identity (r\<lparr>ie_status := IS_pending\<rparr>) = row_identity r \<and>
      symbol_change r (r\<lparr>ie_status := IS_pending\<rparr>)"
    by simp
qed

lemma publish_fingerprint_change: "row_change symbol_change inbox (publish_fingerprint i fp inbox)"
  unfolding publish_fingerprint_def
proof (rule row_change_sql_update)
  fix r :: inbox_event
  have "symbol_change r (r\<lparr>ie_incident_fingerprint := Some fp\<rparr>)"
    unfolding symbol_change_def by blast
  then show "ie_id (r\<lparr>ie_incident_fingerprint := Some fp\<rparr>) = ie_id r \<and>
      row_identity (r\<lparr>ie_incident_fingerprint := Some fp\<rparr>) = row_identity r \<and>
      symbol_change r (r\<lparr>ie_incident_fingerprint := Some fp\<rparr>)"
    by simp
qed

lemma await_symbols_change: "row_change symbol_change inbox (await_symbols ids inbox)"
  unfolding await_symbols_def
proof (rule row_change_sql_update)
  fix r :: inbox_event assume "ie_id r \<in> set ids \<and> ie_status r = IS_pending"
  then have "symbol_change r (r\<lparr>ie_status := IS_awaiting_symbols\<rparr>)"
    unfolding symbol_change_def by blast
  then show "ie_id (r\<lparr>ie_status := IS_awaiting_symbols\<rparr>) = ie_id r \<and>
      row_identity (r\<lparr>ie_status := IS_awaiting_symbols\<rparr>) = row_identity r \<and>
      symbol_change r (r\<lparr>ie_status := IS_awaiting_symbols\<rparr>)"
    by simp
qed

lemma symbol_change_ok:
  assumes "symbol_change r s" and "inbox_row_ok r"
  shows "inbox_row_ok s"
  using assms(1) unfolding symbol_change_def
proof (elim disjE conjE exE)
qed (use assms(2) in \<open>auto simp: inbox_row_ok_def inbox_lease_def lease_ok_def finalized_def\<close>)

subsection \<open>What every transition keeps\<close>

lemma job_transition_simps [row_simps]:
  "job_key (claim_job t owner expiry j) = job_key j"
  "job_key (complete_job st a res fp tn tv t j) = job_key j"
  "job_key (fail_job retry delay code msg t j) = job_key j"
  "sj_status (claim_job t owner expiry j) = SS_processing"
  "sj_status (complete_job st a res fp tn tv t j) = st"
  "sj_status (fail_job retry delay code msg t j) = (if retry then SS_pending else SS_failed)"
  "sj_attempt_count (claim_job t owner expiry j) = sj_attempt_count j"
  "sj_attempt_count (complete_job st a res fp tn tv t j) = sj_attempt_count j"
  "sj_attempt_count (fail_job retry delay code msg t j) = sj_attempt_count j"
  by (simp_all add: claim_job_def complete_job_def fail_job_def job_key_def)

lemma job_key_event: "job_key i = job_key j \<Longrightarrow> sj_inbox_event_id i = sj_inbox_event_id j"
  by (simp add: job_key_def)

lemma claim_job_ok: "job_row_ok M j \<Longrightarrow> job_row_ok M (claim_job t owner expiry j)"
  by (simp add: job_row_ok_def claim_job_def job_lease_def)

lemma complete_job_ok:
  "job_row_ok M j \<Longrightarrow> st \<noteq> SS_processing \<Longrightarrow> job_row_ok M (complete_job st a res fp tn tv t j)"
  by (simp add: job_row_ok_def complete_job_def job_lease_def lease_ok_def)

lemma fail_job_ok: "job_row_ok M j \<Longrightarrow> job_row_ok M (fail_job retry delay code msg t j)"
  by (simp add: job_row_ok_def fail_job_def job_lease_def lease_ok_def)

lemma job_held_unfinished: "job_held i owner t j \<Longrightarrow> unfinished (sj_status j)"
  by (simp add: job_held_def lease_held_def job_lease_def unfinished_def)

lemma claim_symbolization_keeps:
  assumes "wf_jobs M jobs"
  shows "wf_jobs M (fst (claim_symbolization_batch locked owner limit ls now jobs))"
    and "map job_key (fst (claim_symbolization_batch locked owner limit ls now jobs)) = map job_key jobs"
    and "awaits_unfinished inbox jobs \<Longrightarrow>
           awaits_unfinished inbox (fst (claim_symbolization_batch locked owner limit ls now jobs))"
proof -
  obtain p where eq: "fst (claim_symbolization_batch locked owner limit ls now jobs) =
      sql_update p (claim_job now owner (now + seconds ls)) jobs"
    by (simp add: claim_symbolization_batch_def Let_def)
  show "wf_jobs M (fst (claim_symbolization_batch locked owner limit ls now jobs))"
    "map job_key (fst (claim_symbolization_batch locked owner limit ls now jobs)) = map job_key jobs"
    unfolding eq using wf_jobs_update [OF assms, of p "claim_job now owner (now + seconds ls)"]
    by (simp_all add: row_simps claim_job_ok)
  show "awaits_unfinished inbox (fst (claim_symbolization_batch locked owner limit ls now jobs))"
    if "awaits_unfinished inbox jobs"
    unfolding eq
    by (rule awaits_update_jobs [OF that])
       (simp_all add: row_simps job_key_event [OF job_transition_simps(1)] unfinished_def)
qed

lemma start_attempt_keeps:
  assumes "wf_jobs M jobs"
  shows "wf_jobs M (fst (start_symbolization_attempt owner job M now jobs))"
    and "map job_key (fst (start_symbolization_attempt owner job M now jobs)) = map job_key jobs"
    and "awaits_unfinished inbox jobs \<Longrightarrow>
           awaits_unfinished inbox (fst (start_symbolization_attempt owner job M now jobs))"
proof -
  let ?p = "\<lambda>j. job_held (sj_id job) owner now j \<and> sj_attempt_count j = sj_attempt_count job \<and> sj_attempt_count j < M"
  let ?f = "\<lambda>j. j\<lparr>sj_attempt_count := sj_attempt_count j + 1, sj_updated_at := now\<rparr>"
  have "job_lease (j\<lparr>sj_attempt_count := n, sj_updated_at := t\<rparr>) = job_lease j" for j n t
    by (simp add: job_lease_def)
  then have ok: "job_key (?f j) = job_key j \<and> job_row_ok M (?f j)" if "?p j" "job_row_ok M j" for j
    using that by (simp add: job_key_def job_row_ok_def)
  show "wf_jobs M (fst (start_symbolization_attempt owner job M now jobs))"
    "map job_key (fst (start_symbolization_attempt owner job M now jobs)) = map job_key jobs"
    using wf_jobs_update [OF assms, of ?p ?f] ok assms
    by (simp_all add: start_symbolization_attempt_def Let_def)
  show "awaits_unfinished inbox (fst (start_symbolization_attempt owner job M now jobs))"
    if "awaits_unfinished inbox jobs"
    using awaits_update_jobs [OF that, of ?p ?f] that
    by (simp add: start_symbolization_attempt_def Let_def)
qed

lemma mark_symbols_missing_keeps:
  assumes "wf_jobs M jobs"
  shows "wf_jobs M (fst (mark_symbols_missing owner i msg now jobs))"
    and "map job_key (fst (mark_symbols_missing owner i msg now jobs)) = map job_key jobs"
    and "awaits_unfinished inbox jobs \<Longrightarrow> awaits_unfinished inbox (fst (mark_symbols_missing owner i msg now jobs))"
  unfolding mark_symbols_missing_def fst_conv
  using wf_jobs_update [OF assms, of "job_held i owner now"]
  by (simp_all add: job_key_def job_row_ok_def job_lease_def lease_ok_def awaits_update_jobs unfinished_def)

lemma requeue_keeps:
  assumes "wf_jobs M jobs"
  shows "wf_jobs M (fst (requeue_matching_missing_jobs rt k now inb jobs))"
    and "map job_key (fst (requeue_matching_missing_jobs rt k now inb jobs)) = map job_key jobs"
    and "awaits_unfinished inbox jobs \<Longrightarrow>
           awaits_unfinished inbox (fst (requeue_matching_missing_jobs rt k now inb jobs))"
proof -
  let ?p = "\<lambda>j. sj_status j = SS_symbols_missing \<and>
              list_ex (\<lambda>r. requeue_candidate k j r \<and> job_matches_artifact rt k j r) inb"
  let ?f = "\<lambda>j. j\<lparr>sj_status := SS_pending, sj_next_attempt_at := now, sj_last_error_code := None,
              sj_last_error_message := None, sj_updated_at := now\<rparr>"
  have "job_key (?f j) = job_key j \<and> job_row_ok M (?f j)" if "?p j" "job_row_ok M j" for j
    using that by (simp add: job_key_def job_row_ok_def job_lease_def lease_ok_def)
  then show "wf_jobs M (fst (requeue_matching_missing_jobs rt k now inb jobs))"
    "map job_key (fst (requeue_matching_missing_jobs rt k now inb jobs)) = map job_key jobs"
    using wf_jobs_update [OF assms, of ?p ?f] by (simp_all add: requeue_matching_missing_jobs_def Let_def)
  show "awaits_unfinished inbox (fst (requeue_matching_missing_jobs rt k now inb jobs))"
    if "awaits_unfinished inbox jobs"
    using awaits_update_jobs [OF that, of ?p ?f]
    by (simp add: requeue_matching_missing_jobs_def Let_def unfinished_def)
qed

text \<open>
  A finishing transition is applied with the worker's copy of the job; the columns that tie the job
  to its event never change, so the copy agrees with the stored row on them.
\<close>

definition job_copy :: "symbolization_job \<Rightarrow> symbolization_job list \<Rightarrow> bool" where
  "job_copy job jobs \<longleftrightarrow> list_ex (\<lambda>j. job_key j = job_key job) jobs"

lemma finish_keeps:
  assumes wf: "wf_jobs M jobs" and aw: "awaits_unfinished inbox jobs" and copy: "job_copy job jobs"
    and f: "\<And>j. job_key (f j) = job_key j" "\<And>j. job_row_ok M j \<Longrightarrow> job_row_ok M (f j)"
    and rel: "\<And>j. \<not> unfinished (sj_status (f j)) \<Longrightarrow>
                (\<forall>r \<in> set inbox'. ie_id r = sj_inbox_event_id job \<longrightarrow> ie_status r \<noteq> IS_awaiting_symbols)"
    and aw': "awaits_unfinished inbox' jobs"
  shows "wf_jobs M (sql_update (job_held (sj_id job) owner now) f jobs)"
    and "map job_key (sql_update (job_held (sj_id job) owner now) f jobs) = map job_key jobs"
    and "awaits_unfinished inbox' (sql_update (job_held (sj_id job) owner now) f jobs)"
proof -
  show "wf_jobs M (sql_update (job_held (sj_id job) owner now) f jobs)"
    "map job_key (sql_update (job_held (sj_id job) owner now) f jobs) = map job_key jobs"
    using wf_jobs_update [OF wf, of "job_held (sj_id job) owner now" f] f by simp_all
  have same: "sj_inbox_event_id j = sj_inbox_event_id job" if j: "j \<in> set jobs" "job_held (sj_id job) owner now j" for j
  proof -
    from copy obtain c where c: "c \<in> set jobs" "job_key c = job_key job"
      by (auto simp: job_copy_def list_ex_iff)
    have "j = c" using job_unique [OF wf j(1) c(1)] j(2) c(2) by (simp add: job_held_def job_key_def)
    then show ?thesis using job_key_event [OF c(2)] by simp
  qed
  show "awaits_unfinished inbox' (sql_update (job_held (sj_id job) owner now) f jobs)"
    using f(1) job_key_event rel same by (intro awaits_update_jobs [OF aw']) (blast, metis)
qed

lemma mark_symbolized_keeps:
  assumes "mark_symbolized owner job a res fp tn tv st now inbox jobs = Inr (inbox', jobs', ok)"
    and "wf_jobs M jobs" and "awaits_unfinished inbox jobs" and "job_copy job jobs"
  shows "wf_jobs M jobs'" "map job_key jobs' = map job_key jobs" "awaits_unfinished inbox' jobs'"
    "row_change (\<lambda>r s. \<exists>q. symbol_change r q \<and> (s = q \<or> symbol_change q s)) inbox inbox'"
proof -
  let ?pub = "if sj_job_type job = Job_java then publish_fingerprint (sj_inbox_event_id job) fp inbox else inbox"
  let ?rel = "release_inbox (sj_inbox_event_id job) ?pub"
  let ?f = "complete_job st a res fp tn tv now"
  consider (no) "inbox' = inbox" "jobs' = jobs"
    | (yes) "inbox' = ?rel" "jobs' = sql_update (job_held (sj_id job) owner now) ?f jobs"
        "st \<in> {SS_symbolized, SS_partially_symbolized}"
    using assms(1) by (auto simp: mark_symbolized_def Let_def split: if_splits)
  note cases = this
  have pub: "row_change symbol_change inbox ?pub" using publish_fingerprint_change by simp
  have aw: "awaits_unfinished ?pub jobs"
    using assms(3) by (auto simp: publish_fingerprint_def intro!: awaits_update_inbox)
  have rel: "awaits_unfinished ?rel jobs"
    unfolding release_inbox_def by (rule awaits_update_inbox [OF aw]) simp
  have ok: "wf_jobs M (sql_update (job_held (sj_id job) owner now) ?f jobs)"
    "map job_key (sql_update (job_held (sj_id job) owner now) ?f jobs) = map job_key jobs"
    "awaits_unfinished ?rel (sql_update (job_held (sj_id job) owner now) ?f jobs)"
    if "st \<in> {SS_symbolized, SS_partially_symbolized}"
    by (rule finish_keeps [OF assms(2,3,4)];
        use that release_inbox_released rel in \<open>(auto simp: row_simps intro: complete_job_ok)\<close>)+
  have ch: "row_change (\<lambda>r s. \<exists>q. symbol_change r q \<and> (s = q \<or> symbol_change q s)) inbox ?rel"
    by (rule row_change_trans [OF pub release_inbox_change]) blast+
  show "wf_jobs M jobs'" "map job_key jobs' = map job_key jobs" "awaits_unfinished inbox' jobs'"
    using cases ok assms(2,3) by (cases; simp)+
  show "row_change (\<lambda>r s. \<exists>q. symbol_change r q \<and> (s = q \<or> symbol_change q s)) inbox inbox'"
    using cases ch by (cases; simp)
qed

lemma mark_failed_keeps:
  assumes "mark_symbolization_failed owner job retryable max_attempts code msg now inbox jobs = (inbox', jobs', ok)"
    and "wf_jobs M jobs" and "awaits_unfinished inbox jobs" and "job_copy job jobs"
  shows "wf_jobs M jobs'" "map job_key jobs' = map job_key jobs" "awaits_unfinished inbox' jobs'"
    "row_change symbol_change inbox inbox'"
proof -
  let ?retry = "retryable \<and> sj_attempt_count job < max_attempts"
  let ?rel = "if ?retry then inbox else release_inbox (sj_inbox_event_id job) inbox"
  let ?f = "fail_job ?retry (min (2 ^ nat (min (sj_attempt_count job) 8)) MAX_SYMBOL_BACKOFF_SECONDS) code msg now"
  consider (no) "inbox' = inbox" "jobs' = jobs"
    | (yes) "inbox' = ?rel" "jobs' = sql_update (job_held (sj_id job) owner now) ?f jobs"
    using assms(1) by (auto simp: mark_symbolization_failed_def Let_def split: if_splits)
  note cases = this
  have rel: "awaits_unfinished ?rel jobs"
    using assms(3) awaits_update_inbox [OF assms(3)] by (simp add: release_inbox_def)
  have ok: "wf_jobs M (sql_update (job_held (sj_id job) owner now) ?f jobs)"
    "map job_key (sql_update (job_held (sj_id job) owner now) ?f jobs) = map job_key jobs"
    "awaits_unfinished ?rel (sql_update (job_held (sj_id job) owner now) ?f jobs)"
    by (rule finish_keeps [OF assms(2,3,4)];
        use release_inbox_released rel in \<open>(auto simp: row_simps unfinished_def intro: fail_job_ok)\<close>)+
  show "wf_jobs M jobs'" "map job_key jobs' = map job_key jobs" "awaits_unfinished inbox' jobs'"
    using cases ok assms(2,3) by (cases; simp)+
  show "row_change symbol_change inbox inbox'"
    using cases release_inbox_change by (cases; simp)
qed

subsection \<open>Enqueueing keeps the invariants\<close>

lemma insert_jobs_spec:
  assumes "insert_jobs jobs vals = (jobs', ids)"
  shows "\<exists>new. jobs' = jobs @ new \<and> ids = map sj_inbox_event_id new \<and>
      (\<forall>n \<in> set new. \<exists>v \<in> set vals. \<exists>i. n = v\<lparr>sj_id := i\<rparr>) \<and>
      (distinct (map sj_id jobs) \<longrightarrow> distinct (map sj_id jobs')) \<and>
      (uq_job_inbox_event jobs \<longrightarrow> uq_job_inbox_event jobs')"
  using assms
proof (induction jobs vals arbitrary: ids rule: insert_jobs.induct)
  case (1 jobs)
  then show ?case by simp
next
  case (2 jobs j js)
  show ?case
  proof (cases "sj_inbox_event_id j \<in> set (map sj_inbox_event_id jobs)")
    case True
    with 2 show ?thesis by fastforce
  next
    case False
    let ?n = "j\<lparr>sj_id := next_id sj_id jobs\<rparr>"
    from "2.prems" False obtain ids' where up: "insert_jobs (jobs @ [?n]) js = (jobs', ids')"
      and ids: "ids = sj_inbox_event_id j # ids'"
      by (auto split: prod.splits)
    from "2.IH"(2) [OF False up] obtain new where
      new: "jobs' = (jobs @ [?n]) @ new" "ids' = map sj_inbox_event_id new"
        "\<forall>n \<in> set new. \<exists>v \<in> set js. \<exists>i. n = v\<lparr>sj_id := i\<rparr>"
        "distinct (map sj_id (jobs @ [?n])) \<longrightarrow> distinct (map sj_id jobs')"
        "uq_job_inbox_event (jobs @ [?n]) \<longrightarrow> uq_job_inbox_event jobs'"
      by blast
    have "distinct (map sj_id jobs) \<longrightarrow> distinct (map sj_id (jobs @ [?n]))"
      using next_id_fresh [of _ jobs sj_id] by fastforce
    moreover have "uq_job_inbox_event jobs \<longrightarrow> uq_job_inbox_event (jobs @ [?n])"
      using False by (simp add: uq_job_inbox_event_def)
    moreover have "\<forall>n \<in> set (?n # new). \<exists>v \<in> set (j # js). \<exists>i. n = v\<lparr>sj_id := i\<rparr>"
      using new(3) by (metis insert_iff list.set(2))
    ultimately show ?thesis
      using new ids by (intro exI [of _ "?n # new"]) simp
  qed
qed

lemma new_jobD:
  assumes "new_job rt enabled now md relevant r = Some j"
  shows "sj_inbox_event_id j = ie_id r" "sj_attempt_count j = 0" "job_lease j =
      \<lparr>lv_processing = False, lv_owner = None, lv_expires_at = None\<rparr>"
    "sj_status j \<in> {SS_pending, SS_disabled, SS_metadata_missing}" "sj_tenant_id j = md_tenant_id md"
  using assms by (auto simp: new_job_def Let_def job_lease_def split: option.splits if_splits)

lemma awaits_await_symbols:
  assumes "awaits_unfinished inbox jobs"
    and "\<And>i. i \<in> set ids \<Longrightarrow> \<exists>j \<in> set jobs. sj_inbox_event_id j = i \<and> unfinished (sj_status j)"
  shows "awaits_unfinished (await_symbols ids inbox) jobs"
  unfolding awaits_unfinished_def
proof (intro ballI impI)
  fix s assume "s \<in> set (await_symbols ids inbox)" and st: "ie_status s = IS_awaiting_symbols"
  then consider (new) "ie_id s \<in> set ids" | (old) "s \<in> set inbox"
    unfolding await_symbols_def by (elim sql_updateE) simp_all
  then show "\<exists>j \<in> set jobs. sj_inbox_event_id j = ie_id s \<and> unfinished (sj_status j)"
  proof cases
    case new
    then show ?thesis using assms(2) by simp
  next
    case old
    then show ?thesis using assms(1) st unfolding awaits_unfinished_def by blast
  qed
qed

lemma created_job_ok:
  assumes "new_job rt enabled now md rel r = Some v" and "0 \<le> M"
  shows "job_row_ok M (v\<lparr>sj_id := i\<rparr>)"
  using new_jobD(2,3) [OF assms(1)] assms(2) by (simp add: job_row_ok_def lease_ok_def job_lease_def)

text \<open>An event is moved to waiting only for a job that was inserted for it and is still to be run.\<close>

lemma inserted_waiting_unfinished:
  assumes pk: "inbox_primary_key inbox"
    and val: "\<And>v. v \<in> set vals \<Longrightarrow> \<exists>r \<in> set inbox. new_job rt enabled now md rel r = Some v"
    and new: "\<forall>n \<in> set new. \<exists>v \<in> set vals. \<exists>i. n = v\<lparr>sj_id := i\<rparr>"
    and i: "i \<in> sj_inbox_event_id ` set new" "i \<in> sj_inbox_event_id ` {j \<in> set vals. sj_status j = SS_pending}"
  shows "\<exists>j \<in> set new. sj_inbox_event_id j = i \<and> unfinished (sj_status j)"
proof -
  from i(1) obtain n where n: "n \<in> set new" "sj_inbox_event_id n = i" by auto
  from i(2) obtain w where w: "w \<in> set vals" "sj_status w = SS_pending" "sj_inbox_event_id w = i" by auto
  from new n(1) obtain v k where v: "v \<in> set vals" "n = v\<lparr>sj_id := k\<rparr>" by blast
  from val [OF v(1)] val [OF w(1)] obtain r s where
    rs: "r \<in> set inbox" "new_job rt enabled now md rel r = Some v"
        "s \<in> set inbox" "new_job rt enabled now md rel s = Some w" by blast
  have "ie_id r = ie_id s"
    using new_jobD(1) [OF rs(2)] new_jobD(1) [OF rs(4)] n(2) v(2) w(3) by simp
  then have "v = w" using inbox_id_unique [OF pk rs(1,3)] rs by simp
  then show ?thesis using n v(2) w(2) by (intro bexI [of _ n]) (simp_all add: unfinished_def)
qed

lemma enqueue_keeps:
  assumes enq: "enqueue_symbolization_jobs rt d enabled now md events inbox jobs = Inr (inbox', jobs', n)"
    and wf: "wf_jobs M jobs" and aw: "awaits_unfinished inbox jobs" and pk: "inbox_primary_key inbox" and M: "0 \<le> M"
  shows "wf_jobs M jobs'" "awaits_unfinished inbox' jobs'" "row_change symbol_change inbox inbox'"
    "\<exists>new. jobs' = jobs @ new"
proof -
  let ?rel = "relevant_events events"
  let ?rows = "filter (\<lambda>r. ie_tenant_id r = md_tenant_id md \<and> ie_event_id r \<in> set (map fst ?rel)) inbox"
  let ?vals = "List.map_filter (new_job rt enabled now md ?rel) ?rows"
  let ?waiting = "map sj_inbox_event_id (filter (\<lambda>j. sj_status j = SS_pending) ?vals)"
  obtain jobs1 ids where ins: "insert_jobs jobs ?vals = (jobs1, ids)" by fastforce
  let ?iw = "filter (\<lambda>i. i \<in> set ?waiting) ids"
  consider (no) "inbox' = inbox" "jobs' = jobs" | (yes) "inbox' = await_symbols ?iw inbox" "jobs' = jobs1"
    using enq ins
    by (auto simp: enqueue_symbolization_jobs_def Let_def split: if_splits dialect.splits)
  note cases = this
  from insert_jobs_spec [OF ins] obtain new where
    new: "jobs1 = jobs @ new" "ids = map sj_inbox_event_id new"
      "\<forall>n \<in> set new. \<exists>v \<in> set ?vals. \<exists>i. n = v\<lparr>sj_id := i\<rparr>"
      "distinct (map sj_id jobs) \<longrightarrow> distinct (map sj_id jobs1)"
      "uq_job_inbox_event jobs \<longrightarrow> uq_job_inbox_event jobs1"
    by blast
  have val: "\<exists>r \<in> set inbox. new_job rt enabled now md ?rel r = Some v" if "v \<in> set ?vals" for v
    using that by (auto simp: List.map_filter_def)
  have "job_row_ok M n" if "n \<in> set new" for n
  proof -
    from new(3) that obtain v i where v: "v \<in> set ?vals" "n = v\<lparr>sj_id := i\<rparr>" by blast
    from val [OF v(1)] created_job_ok [OF _ M] show ?thesis unfolding v(2) by blast
  qed
  then have wf1: "wf_jobs M jobs1"
    using wf new by (auto simp: wf_jobs_def list_all_iff)
  have "\<exists>j \<in> set jobs1. sj_inbox_event_id j = i \<and> unfinished (sj_status j)" if "i \<in> set ?iw" for i
    using inserted_waiting_unfinished [OF pk val new(3), of i] that by (auto simp: new(1,2))
  moreover have "awaits_unfinished inbox jobs1"
    using aw new(1) unfolding awaits_unfinished_def by auto
  ultimately have aw1: "awaits_unfinished (await_symbols ?iw inbox) jobs1"
    by (intro awaits_await_symbols)
  from cases show "wf_jobs M jobs'"
    by cases (simp_all only: wf wf1)
  from cases show "awaits_unfinished inbox' jobs'"
    by cases (simp_all only: aw aw1)
  from cases show "row_change symbol_change inbox inbox'"
    by cases (simp_all only: await_symbols_change row_change_refl)
  from cases show "\<exists>new. jobs' = jobs @ new"
    by cases (simp_all add: new(1))
qed

subsection \<open>Sample data\<close>

definition sample_job :: symbolization_job where
  "sample_job =
     \<lparr>sj_id = 4, sj_inbox_event_id = 1, sj_tenant_id = ''t1'', sj_event_id = ''1'', sj_job_type = Job_java,
      sj_status = SS_processing, sj_artifact_id = None, sj_input_sha256 = ''h'', sj_result_json = None,
      sj_fingerprint_sha256 = None, sj_tool_name = None, sj_tool_version = None, sj_attempt_count = 0,
      sj_next_attempt_at = 0, sj_lease_owner = Some ''w:1'', sj_lease_expires_at = Some 100,
      sj_last_error_code = None, sj_last_error_message = None, sj_created_at = 0, sj_updated_at = 0\<rparr>"

definition sample_artifact :: symbol_artifact where
  "sample_artifact =
     \<lparr>sa_id = 9, sa_tenant_id = ''t1'', sa_artifact_type = Java_mapping, sa_app_id = ''app'',
      sa_version_code = ''10'', sa_app_build = ''b'', sa_variant = ''release'', sa_abi = [], sa_build_id = [],
      sa_checksum_sha256 = ''c'', sa_size_bytes = 1, sa_storage_key = ''k'', sa_status = ''active'',
      sa_uploaded_by = ''ci'', sa_created_at = 0\<rparr>"

definition sample_waiting_row :: inbox_event where
  "sample_waiting_row = (sample_inbox_row 1)\<lparr>ie_status := IS_awaiting_symbols,
     ie_release_identity_quality := OCCURRENCE_BOUND, ie_version_code := Some ''10'',
     ie_app_build := Some ''b'', ie_variant := Some ''release''\<rparr>"

subsection \<open>Properties\<close>



text \<open>
  The tool budget is never exceeded and one attempt is spent at most once. Starting an attempt
  succeeds only under the worker's own lease and below the maximum, and then the stored count is
  one higher and still within the maximum; repeating the call with the same copy of the job spends
  nothing and changes nothing.
\<close>

theorem attempt_spent_once:
  assumes "wf_jobs max_attempts jobs"
    and "start_symbolization_attempt owner job max_attempts observed jobs = (jobs', Some job')"
  shows "sj_attempt_count job' = sj_attempt_count job + 1 \<and> sj_attempt_count job' \<le> max_attempts \<and>
    wf_jobs max_attempts jobs' \<and>
    (\<exists>j \<in> set jobs'. job_held (sj_id job) owner observed j \<and> sj_attempt_count j = sj_attempt_count job') \<and>
    start_symbolization_attempt owner job max_attempts observed jobs' = (jobs', None)"
proof -
  let ?p = "\<lambda>j. job_held (sj_id job) owner observed j \<and> sj_attempt_count j = sj_attempt_count job \<and>
              sj_attempt_count j < max_attempts"
  let ?f = "\<lambda>j. j\<lparr>sj_attempt_count := sj_attempt_count j + 1, sj_updated_at := observed\<rparr>"
  from assms(2) have jobs': "jobs' = sql_update ?p ?f jobs"
    and job': "job' = job\<lparr>sj_attempt_count := sj_attempt_count job + 1\<rparr>" and ne: "rowcount ?p jobs \<noteq> 0"
    by (auto simp: start_symbolization_attempt_def Let_def split: if_splits)
  from ne obtain j where j: "j \<in> set jobs" "?p j" by auto
  have held: "job_held i owner observed (?f k) \<longleftrightarrow> job_held i owner observed k" for i k
    by (simp add: job_held_def job_lease_def)
  have wf: "wf_jobs max_attempts jobs'"
    using start_attempt_keeps(1) [OF assms(1), of owner job observed] assms(2) by simp
  have "\<not> ?p k" if k: "k \<in> set jobs'" for k
    using k unfolding jobs'
  proof (cases rule: sql_updateE)
    case (hit q)
    then show ?thesis by simp
  next
    case miss
    then show ?thesis by simp
  qed
  then have "rowcount ?p jobs' = 0" by simp
  then have "start_symbolization_attempt owner job max_attempts observed jobs' = (jobs', None)"
    by (simp add: start_symbolization_attempt_def Let_def)
  moreover have "?f j \<in> set jobs'" unfolding jobs' using j by (rule sql_update_hit)
  ultimately show ?thesis
    using wf j job' held [of "sj_id job" j] by auto
qed

theorem attempt_spent_once_witness:
  "\<exists>jobs' job'. start_symbolization_attempt ''w:1'' sample_job 3 50 [sample_job] = (jobs', Some job') \<and>
     start_symbolization_attempt ''w:1'' sample_job 3 50 jobs' = (jobs', None) \<and> sj_attempt_count job' = 1"
proof -
  have wf: "wf_jobs 3 [sample_job]" by code_simp
  obtain jobs' job' where s: "start_symbolization_attempt ''w:1'' sample_job 3 50 [sample_job] = (jobs', Some job')"
    by (cases "start_symbolization_attempt ''w:1'' sample_job 3 50 [sample_job]")
       (auto simp: start_symbolization_attempt_def Let_def job_held_def lease_held_def job_lease_def sample_job_def
        split: if_splits)
  from attempt_spent_once [OF wf s] s show ?thesis by (auto simp: sample_job_def)
qed

text \<open>
  Symbols are resolved exactly and inside the tenant. An artifact that is returned for a crash is
  registered for the event's own tenant and application, for exactly the version code, build and
  variant that were bound at the occurrence, and the lookup never fails on a table that satisfies
  the uniqueness constraint of artifacts.
\<close>

theorem resolved_artifact_exact:
  assumes "uq_symbol_artifact_identity artifacts"
  shows "\<exists>found. resolve_artifact artifacts job r = Inr found \<and>
    (\<forall>a. found = Some a \<longrightarrow>
       a \<in> set artifacts \<and> ie_release_identity_quality r = OCCURRENCE_BOUND \<and>
       sa_tenant_id a = ie_tenant_id r \<and> sa_app_id a = ie_app_id r \<and>
       Some (sa_version_code a) = ie_version_code r \<and> Some (sa_app_build a) = ie_app_build r \<and>
       Some (sa_variant a) = ie_variant r)"
proof (cases "artifact_identity_for_job job r")
  case None
  then show ?thesis by (simp add: resolve_artifact_def)
next
  case (Some k)
  have key: "release_complete r" "ak_tenant_id k = ie_tenant_id r" "ak_app_id k = ie_app_id r"
    "Some (ak_version_code k) = ie_version_code r" "Some (ak_app_build k) = ie_app_build r"
    "Some (ak_variant k) = ie_variant r"
    using Some by (auto simp: artifact_identity_for_job_def Let_def release_complete_def present_def
        text_or_empty_def split: if_splits option.splits)
  have uniq: "a = b" if "a \<in> set artifacts" "b \<in> set artifacts" "artifact_matches k a" "artifact_matches k b" for a b
    using that assms by (auto simp: uq_symbol_artifact_identity_def distinct_map artifact_matches_def
        artifact_identity_def intro: inj_onD)
  have one: "length (filter (artifact_matches k) artifacts) \<le> 1"
  proof -
    have "distinct artifacts" using assms by (simp add: uq_symbol_artifact_identity_def distinct_map)
    then have "length (filter (artifact_matches k) artifacts) = card (set (filter (artifact_matches k) artifacts))"
      by (metis distinct_card distinct_filter)
    also have "\<dots> \<le> 1"
      using uniq by (simp only: One_nat_def card_le_Suc0_iff_eq [OF finite_set]) simp
    finally show ?thesis .
  qed
  then consider "filter (artifact_matches k) artifacts = []" | a where "filter (artifact_matches k) artifacts = [a]"
    by (cases "filter (artifact_matches k) artifacts") auto
  then show ?thesis
  proof cases
    case 1
    then show ?thesis by (simp add: resolve_artifact_def Some)
  next
    case (2 a)
    have "a \<in> set (filter (artifact_matches k) artifacts)" unfolding 2 by simp
    then have "a \<in> set artifacts" "artifact_matches k a" by simp_all
    then show ?thesis
      using 2 key by (auto simp: resolve_artifact_def Some artifact_matches_def release_complete_def)
  qed
qed

theorem resolved_artifact_exact_witness:
  "\<exists>found. resolve_artifact [sample_artifact] sample_job sample_waiting_row = Inr found \<and>
    found = Some sample_artifact"
proof -
  have "uq_symbol_artifact_identity [sample_artifact]" by (simp add: uq_symbol_artifact_identity_def)
  from resolved_artifact_exact [OF this, of sample_job sample_waiting_row] obtain found where
    f: "resolve_artifact [sample_artifact] sample_job sample_waiting_row = Inr found" by blast
  moreover have "resolve_artifact [sample_artifact] sample_job sample_waiting_row = Inr (Some sample_artifact)"
    by code_simp
  ultimately show ?thesis by simp
qed

end
