(* ===== verification/Apm_Auth.thy ===== *)
theory Apm_Auth
  imports Apm_Models
begin

section \<open>Credentials\<close>

text \<open>
  \<^verbatim>\<open>auth_budget.py\<close>, \<^verbatim>\<open>auth.py\<close>, \<^verbatim>\<open>ci_auth.py\<close> and \<^verbatim>\<open>query_auth.py\<close>: the process-wide attempt
  budget, the bounded hash verifier and the three audiences of bearer credentials. The Argon2
  hasher is a parameter: \<open>verify encoded secret\<close> says whether verification returns or raises. The
  monotonic clock is read as a rational number of seconds, float rounding is not modelled. The
  random tokens of a generated key are arguments of the generators. An operation returns the new
  state beside its result, because a refused attempt is charged too.
\<close>

subsection \<open>Attempt budget and hash slots\<close>

definition AUTH_HASH_WORKERS :: nat where [consts_simps]: "AUTH_HASH_WORKERS = 2"
definition AUTH_ATTEMPTS_PER_SECOND :: rat where [consts_simps]: "AUTH_ATTEMPTS_PER_SECOND = 20"
definition AUTH_ATTEMPT_BURST :: rat where [consts_simps]: "AUTH_ATTEMPT_BURST = 40"

definition auth_busy :: exn where
  "auth_busy =
     mk_error_h 429 ''authentication_busy'' ''Authentication capacity is busy'' True
       [(''Retry-After'', ''1'')]"

record attempt_budget =
  ab_rate :: rat
  ab_burst :: rat
  ab_tokens :: rat
  ab_updated :: rat

definition AuthAttemptBudget :: "rat \<Rightarrow> rat \<Rightarrow> rat \<Rightarrow> attempt_budget" where
  "AuthAttemptBudget rate burst clock =
     \<lparr>ab_rate = rate, ab_burst = burst, ab_tokens = burst, ab_updated = clock\<rparr>"

definition consume :: "rat \<Rightarrow> attempt_budget \<Rightarrow> attempt_budget \<times> unit result" where
  "consume clock b =
     (let tokens = min (ab_burst b) (ab_tokens b + max 0 (clock - ab_updated b) * ab_rate b);
          refilled = b\<lparr>ab_tokens := tokens, ab_updated := clock\<rparr>
      in if tokens < 1 then (refilled, Inl auth_busy)
         else (refilled\<lparr>ab_tokens := tokens - 1\<rparr>, Inr ()))"

text \<open>
  The verifier: a semaphore of \<open>workers\<close> slots and a thread pool that refuses work once it is shut
  down. A slot is released when its thread exits, also when the request was cancelled.
\<close>

record hash_verifier =
  hv_workers :: nat
  hv_running :: nat
  hv_open :: bool

definition BoundedHashVerifier :: "nat \<Rightarrow> hash_verifier" where
  "BoundedHashVerifier workers = \<lparr>hv_workers = workers, hv_running = 0, hv_open = True\<rparr>"

definition submit_hash :: "hash_verifier \<Rightarrow> hash_verifier \<times> unit result" where
  "submit_hash v =
     (if hv_running v \<ge> hv_workers v then (v, Inl auth_busy)
      else if \<not> hv_open v then (v, Inl (Uncaught ''RuntimeError''))
      else (v\<lparr>hv_running := hv_running v + 1\<rparr>, Inr ()))"

definition hash_done :: "hash_verifier \<Rightarrow> hash_verifier" where
  "hash_done v = v\<lparr>hv_running := hv_running v - 1\<rparr>"

definition close_verifier :: "hash_verifier \<Rightarrow> hash_verifier" where
  "close_verifier v = v\<lparr>hv_open := False\<rparr>"

definition verify_hash ::
    "(string \<Rightarrow> string \<Rightarrow> bool) \<Rightarrow> string \<Rightarrow> string \<Rightarrow> hash_verifier \<Rightarrow> hash_verifier \<times> bool result" where
  "verify_hash function encoded secret v =
     (case submit_hash v of
        (v', Inl e) \<Rightarrow> (v', Inl e)
      | (v', Inr _) \<Rightarrow> (hash_done v', Inr (function encoded secret)))"

record auth_state =
  as_attempts :: attempt_budget
  as_verifier :: hash_verifier

definition initial_auth_state :: "rat \<Rightarrow> auth_state" where
  "initial_auth_state clock =
     \<lparr>as_attempts = AuthAttemptBudget AUTH_ATTEMPTS_PER_SECOND AUTH_ATTEMPT_BURST clock,
      as_verifier = BoundedHashVerifier AUTH_HASH_WORKERS\<rparr>"

text \<open>What an authentication reads from its environment: the two clocks and the hasher.\<close>

record auth_env =
  ae_monotonic :: rat
  ae_now :: time
  ae_verify :: "string \<Rightarrow> string \<Rightarrow> bool"
  ae_dummy_hash :: string

subsection \<open>Bearer tokens\<close>

fun split_max :: "char \<Rightarrow> nat \<Rightarrow> string \<Rightarrow> string list" where
  "split_max d 0 s = [s]"
| "split_max d (Suc n) s =
     (case partition_on d s of
        (a, True, b) \<Rightarrow> a # split_max d n b
      | (a, False, b) \<Rightarrow> [s])"

definition BEARER :: string where
  "BEARER = ''Bearer ''"

definition bearer_parts :: "string \<Rightarrow> string option \<Rightarrow> (string \<times> string) option" where
  "bearer_parts key_prefix authorization =
     (case authorization of
        None \<Rightarrow> None
      | Some a \<Rightarrow>
          if cp_len a > 256 \<or> \<not> starts_with BEARER a then None
          else (case split_max CHR ''_'' 2 (drop (length BEARER) a) of
                  [p, key_id, secret] \<Rightarrow>
                    if p = key_prefix \<and> key_id \<noteq> [] \<and> secret \<noteq> [] then Some (key_id, secret) else None
                | _ \<Rightarrow> None))"

definition hex_bytes :: "nat list \<Rightarrow> string" where
  "hex_bytes bs = concat (map (\<lambda>b. [hex_digit (b div 16), hex_digit (b mod 16)]) bs)"

subsection \<open>Ingest keys\<close>

definition KEY_PREFIX :: string where [consts_simps]: "KEY_PREFIX = ''apm1''"
definition KEY_SEPARATOR :: string where [consts_simps]: "KEY_SEPARATOR = ''_''"
definition KEY_ID_BYTES :: nat where [consts_simps]: "KEY_ID_BYTES = 9"

record principal =
  pr_tenant_id :: string
  pr_key_id :: string
  pr_app_id :: string
  pr_environment :: string
  pr_requests_per_minute :: int
  pr_events_per_minute :: int

definition generate_ingest_key ::
    "(string \<Rightarrow> string) \<Rightarrow> nat list \<Rightarrow> string \<Rightarrow> string \<times> string \<times> string" where
  "generate_ingest_key hash id_bytes secret =
     (let key_id = hex_bytes id_bytes
      in (key_id, join_with KEY_SEPARATOR [KEY_PREFIX, key_id, secret], hash secret))"

definition invalid_credential :: exn where
  "invalid_credential = mk_error 401 ''invalid_credential'' ''The ingest credential is invalid'' False None"

definition parse_bearer_token :: "string option \<Rightarrow> (string \<times> string) result" where
  "parse_bearer_token authorization =
     (case bearer_parts KEY_PREFIX authorization of
        None \<Rightarrow> Inl invalid_credential
      | Some p \<Rightarrow> Inr p)"

definition load_key ::
    "('k \<Rightarrow> string) \<Rightarrow> ('k \<Rightarrow> string) \<Rightarrow> string \<Rightarrow> 'k list \<Rightarrow> tenant list \<Rightarrow> ('k \<times> tenant) option" where
  "load_key key_id_of tenant_of key_id keys tenants =
     (case filter (\<lambda>(k, t). tn_id t = tenant_of k \<and> key_id_of k = key_id) (List.product keys tenants) of
        [] \<Rightarrow> None
      | r # _ \<Rightarrow> Some r)"

definition expired :: "time option \<Rightarrow> time \<Rightarrow> bool" where
  "expired expires_at now \<longleftrightarrow> (case expires_at of None \<Rightarrow> False | Some e \<Rightarrow> e \<le> now)"

text \<open>The dummy verification spends a slot; a mismatch is ignored, a busy verifier is not.\<close>

definition verify_dummy_secret ::
    "auth_env \<Rightarrow> string \<Rightarrow> exn \<Rightarrow> hash_verifier \<Rightarrow> hash_verifier \<times> 'a result" where
  "verify_dummy_secret env secret failure v =
     (case verify_hash (ae_verify env) (ae_dummy_hash env) secret v of
        (v', Inl e) \<Rightarrow> (v', Inl e)
      | (v', Inr _) \<Rightarrow> (v', Inl failure))"

definition ingest_principal :: "time \<Rightarrow> string \<Rightarrow> string \<Rightarrow> ingest_key \<Rightarrow> tenant \<Rightarrow> principal result" where
  "ingest_principal now app_id environment k t =
     (if \<not> ik_active k \<or> ik_revoked_at k \<noteq> None \<or> \<not> tn_active t \<or> expired (ik_expires_at k) now
      then Inl invalid_credential
      else if ik_app_id k \<noteq> app_id \<or> ik_environment k \<noteq> environment
      then Inl (mk_error 403 ''scope_mismatch''
                  ''The credential does not allow this app or environment'' False None)
      else Inr \<lparr>pr_tenant_id = tn_id t, pr_key_id = ik_key_id k, pr_app_id = ik_app_id k,
                pr_environment = ik_environment k,
                pr_requests_per_minute = ik_requests_per_minute k,
                pr_events_per_minute = ik_events_per_minute k\<rparr>)"

definition authenticate_ingest_key ::
    "auth_env \<Rightarrow> ingest_key list \<Rightarrow> tenant list \<Rightarrow> string option \<Rightarrow> string \<Rightarrow> string \<Rightarrow> auth_state
       \<Rightarrow> auth_state \<times> principal result" where
  "authenticate_ingest_key env keys tenants authorization app_id environment s =
     (case consume (ae_monotonic env) (as_attempts s) of
        (b, Inl e) \<Rightarrow> (s\<lparr>as_attempts := b\<rparr>, Inl e)
      | (b, Inr _) \<Rightarrow>
          let s = s\<lparr>as_attempts := b\<rparr>
          in (case parse_bearer_token authorization of
                Inl e \<Rightarrow> (s, Inl e)
              | Inr (key_id, secret) \<Rightarrow>
                  (case load_key ik_key_id ik_tenant_id key_id keys tenants of
                     None \<Rightarrow>
                       (case verify_dummy_secret env secret invalid_credential (as_verifier s) of
                          (v, r) \<Rightarrow> (s\<lparr>as_verifier := v\<rparr>, r))
                   | Some (k, t) \<Rightarrow>
                       (case verify_hash (ae_verify env) (ik_key_hash k) secret (as_verifier s) of
                          (v, Inl e) \<Rightarrow> (s\<lparr>as_verifier := v\<rparr>, Inl e)
                        | (v, Inr False) \<Rightarrow> (s\<lparr>as_verifier := v\<rparr>, Inl invalid_credential)
                        | (v, Inr True) \<Rightarrow>
                            (s\<lparr>as_verifier := v\<rparr>,
                             ingest_principal (ae_now env) app_id environment k t)))))"

subsection \<open>Build-pipeline keys\<close>

definition CI_KEY_PREFIX :: string where [consts_simps]: "CI_KEY_PREFIX = ''apmci1''"
definition CI_SCOPE_ARTIFACT_WRITE :: string where [consts_simps]: "CI_SCOPE_ARTIFACT_WRITE = ''artifact:write''"
definition CI_KEY_SEPARATOR :: string where [consts_simps]: "CI_KEY_SEPARATOR = ''_''"

record ci_principal =
  cp_tenant_id :: string
  cp_key_id :: string
  cp_app_id :: "string option"
  cp_scopes :: "string list"

definition generate_ci_key ::
    "(string \<Rightarrow> string) \<Rightarrow> nat list \<Rightarrow> string \<Rightarrow> string \<times> string \<times> string" where
  "generate_ci_key hash id_bytes secret =
     (let key_id = hex_bytes id_bytes
      in (key_id, join_with CI_KEY_SEPARATOR [CI_KEY_PREFIX, key_id, secret], hash secret))"

definition invalid_ci_credential :: exn where
  "invalid_ci_credential = mk_error 401 ''invalid_credential'' ''The CI credential is invalid'' False None"

definition parse_ci_bearer :: "string option \<Rightarrow> (string \<times> string) result" where
  "parse_ci_bearer authorization =
     (case bearer_parts CI_KEY_PREFIX authorization of
        None \<Rightarrow> Inl invalid_ci_credential
      | Some p \<Rightarrow> Inr p)"

definition ci_principal_of :: "time \<Rightarrow> string \<Rightarrow> string \<Rightarrow> ci_key \<Rightarrow> tenant \<Rightarrow> ci_principal result" where
  "ci_principal_of now required_scope app_id k t =
     (if \<not> ck_active k \<or> ck_revoked_at k \<noteq> None \<or> \<not> tn_active t \<or> expired (ck_expires_at k) now
      then Inl invalid_ci_credential
      else if required_scope \<notin> set (ck_scopes_json k)
      then Inl (mk_error 403 ''scope_mismatch'' ''The CI credential lacks the required scope'' False None)
      else if ck_app_id k \<noteq> None \<and> ck_app_id k \<noteq> Some app_id
      then Inl (mk_error 403 ''scope_mismatch'' ''The CI credential does not allow this app'' False None)
      else Inr \<lparr>cp_tenant_id = tn_id t, cp_key_id = ck_key_id k, cp_app_id = ck_app_id k,
                cp_scopes = ck_scopes_json k\<rparr>)"

definition authenticate_ci_key ::
    "auth_env \<Rightarrow> ci_key list \<Rightarrow> tenant list \<Rightarrow> string option \<Rightarrow> string \<Rightarrow> string \<Rightarrow> auth_state
       \<Rightarrow> auth_state \<times> ci_principal result" where
  "authenticate_ci_key env keys tenants authorization required_scope app_id s =
     (case consume (ae_monotonic env) (as_attempts s) of
        (b, Inl e) \<Rightarrow> (s\<lparr>as_attempts := b\<rparr>, Inl e)
      | (b, Inr _) \<Rightarrow>
          let s = s\<lparr>as_attempts := b\<rparr>
          in (case parse_ci_bearer authorization of
                Inl e \<Rightarrow> (s, Inl e)
              | Inr (key_id, secret) \<Rightarrow>
                  (case load_key ck_key_id ck_tenant_id key_id keys tenants of
                     None \<Rightarrow>
                       (case verify_dummy_secret env secret invalid_ci_credential (as_verifier s) of
                          (v, r) \<Rightarrow> (s\<lparr>as_verifier := v\<rparr>, r))
                   | Some (k, t) \<Rightarrow>
                       (case verify_hash (ae_verify env) (ck_key_hash k) secret (as_verifier s) of
                          (v, Inl e) \<Rightarrow> (s\<lparr>as_verifier := v\<rparr>, Inl e)
                        | (v, Inr False) \<Rightarrow> (s\<lparr>as_verifier := v\<rparr>, Inl invalid_ci_credential)
                        | (v, Inr True) \<Rightarrow>
                            (s\<lparr>as_verifier := v\<rparr>,
                             ci_principal_of (ae_now env) required_scope app_id k t)))))"

subsection \<open>Query keys\<close>

definition QUERY_KEY_PREFIX :: string where [consts_simps]: "QUERY_KEY_PREFIX = ''apmq1''"
definition QUERY_KEY_SEPARATOR :: string where [consts_simps]: "QUERY_KEY_SEPARATOR = ''_''"
definition QUERY_ROLE_VIEWER :: string where [consts_simps]: "QUERY_ROLE_VIEWER = ''viewer''"
definition QUERY_ROLE_INVESTIGATOR :: string where [consts_simps]: "QUERY_ROLE_INVESTIGATOR = ''investigator''"

definition QUERY_ROLES :: "string list" where
  "QUERY_ROLES = [QUERY_ROLE_VIEWER, QUERY_ROLE_INVESTIGATOR]"

record query_principal =
  qp_tenant_id :: string
  qp_key_id :: string
  qp_app_id :: string
  qp_environment :: string
  qp_role :: string
  qp_expires_at :: "time option"

definition generate_query_key ::
    "(string \<Rightarrow> string) \<Rightarrow> nat list \<Rightarrow> string \<Rightarrow> string \<times> string \<times> string" where
  "generate_query_key hash id_bytes secret =
     (let key_id = hex_bytes id_bytes
      in (key_id, join_with QUERY_KEY_SEPARATOR [QUERY_KEY_PREFIX, key_id, secret], hash secret))"

definition invalid_query_credential :: exn where
  "invalid_query_credential =
     mk_error 401 ''invalid_credential'' ''The query credential is invalid'' False None"

definition parse_query_bearer :: "string option \<Rightarrow> (string \<times> string) result" where
  "parse_query_bearer authorization =
     (case bearer_parts QUERY_KEY_PREFIX authorization of
        None \<Rightarrow> Inl invalid_query_credential
      | Some p \<Rightarrow> Inr p)"

definition load_query_key :: "string \<Rightarrow> query_key list \<Rightarrow> tenant list \<Rightarrow> (query_key \<times> tenant) option" where
  "load_query_key key_id keys tenants = load_key qk_key_id qk_tenant_id key_id keys tenants"

definition active_principal :: "time \<Rightarrow> query_key \<Rightarrow> tenant \<Rightarrow> query_principal result" where
  "active_principal now k t =
     (if \<not> qk_active k \<or> qk_revoked_at k \<noteq> None \<or> \<not> tn_active t \<or> expired (qk_expires_at k) now \<or>
         qk_role k \<notin> set QUERY_ROLES
      then Inl invalid_query_credential
      else Inr \<lparr>qp_tenant_id = tn_id t, qp_key_id = qk_key_id k, qp_app_id = qk_app_id k,
                qp_environment = qk_environment k, qp_role = qk_role k,
                qp_expires_at = qk_expires_at k\<rparr>)"

definition authenticate_query_key ::
    "auth_env \<Rightarrow> query_key list \<Rightarrow> tenant list \<Rightarrow> string option \<Rightarrow> auth_state
       \<Rightarrow> auth_state \<times> query_principal result" where
  "authenticate_query_key env keys tenants authorization s =
     (case consume (ae_monotonic env) (as_attempts s) of
        (b, Inl e) \<Rightarrow> (s\<lparr>as_attempts := b\<rparr>, Inl e)
      | (b, Inr _) \<Rightarrow>
          let s = s\<lparr>as_attempts := b\<rparr>
          in (case parse_query_bearer authorization of
                Inl e \<Rightarrow> (s, Inl e)
              | Inr (key_id, secret) \<Rightarrow>
                  (case load_query_key key_id keys tenants of
                     None \<Rightarrow>
                       (case verify_dummy_secret env secret invalid_query_credential (as_verifier s) of
                          (v, r) \<Rightarrow> (s\<lparr>as_verifier := v\<rparr>, r))
                   | Some (k, t) \<Rightarrow>
                       (case verify_hash (ae_verify env) (qk_key_hash k) secret (as_verifier s) of
                          (v, Inl e) \<Rightarrow> (s\<lparr>as_verifier := v\<rparr>, Inl e)
                        | (v, Inr False) \<Rightarrow> (s\<lparr>as_verifier := v\<rparr>, Inl invalid_query_credential)
                        | (v, Inr True) \<Rightarrow>
                            (s\<lparr>as_verifier := v\<rparr>, active_principal (ae_now env) k t)))))"

definition authenticate_query_key_id ::
    "time \<Rightarrow> query_key list \<Rightarrow> tenant list \<Rightarrow> string \<Rightarrow> query_principal result" where
  "authenticate_query_key_id now keys tenants key_id =
     (case load_query_key key_id keys tenants of
        None \<Rightarrow> Inl invalid_query_credential
      | Some (k, t) \<Rightarrow> active_principal now k t)"

definition require_investigator :: "query_principal \<Rightarrow> unit result" where
  "require_investigator p =
     guard (qp_role p = QUERY_ROLE_INVESTIGATOR)
       (mk_error 403 ''insufficient_query_role''
          ''The query credential does not allow event-level access'' False None)"

subsection \<open>Bearer lemmas\<close>

lemma split_max_threeI:
  "d \<notin> set a \<Longrightarrow> d \<notin> set b \<Longrightarrow> split_max d 2 (a @ d # b @ d # c) = [a, b, c]"
  by (simp add: numeral_2_eq_2 partition_on_append)

lemma split_max_threeD:
  assumes "split_max d 2 s = [a, b, c]"
  shows "s = a @ d # b @ d # c \<and> d \<notin> set a \<and> d \<notin> set b"
proof -
  obtain k v where s: "partition_on d s = (k, True, v)"
    using assms by (auto simp: numeral_2_eq_2 split: prod.splits bool.splits)
  obtain k' v' where v: "partition_on d v = (k', True, v')"
    using assms s by (auto simp: numeral_2_eq_2 split: prod.splits bool.splits)
  show ?thesis
    using assms s v by (auto simp: numeral_2_eq_2 partition_on_sep)
qed

lemma bearer_parts_iff:
  "bearer_parts p authorization = Some (key_id, secret) \<longleftrightarrow>
     authorization = Some (BEARER @ p @ CHR ''_'' # key_id @ CHR ''_'' # secret) \<and>
     cp_len (BEARER @ p @ CHR ''_'' # key_id @ CHR ''_'' # secret) \<le> 256 \<and>
     CHR ''_'' \<notin> set p \<and> CHR ''_'' \<notin> set key_id \<and> key_id \<noteq> [] \<and> secret \<noteq> []"
  (is "?l \<longleftrightarrow> ?r")
proof
  assume ?l
  then obtain a where a: "authorization = Some a" "\<not> cp_len a > 256" "starts_with BEARER a"
    by (auto simp: bearer_parts_def split: option.splits if_splits)
  from a(3) obtain t where t: "a = BEARER @ t"
    by (metis append_eq_conv_conj starts_with_def append_take_drop_id)
  from \<open>?l\<close> a t have "split_max CHR ''_'' 2 t = [p, key_id, secret]" "key_id \<noteq> []" "secret \<noteq> []"
    by (auto simp: bearer_parts_def split: list.splits if_splits)
  then show ?r
    using a t split_max_threeD by auto
next
  assume r: ?r
  then have "split_max CHR ''_'' 2 (p @ CHR ''_'' # key_id @ CHR ''_'' # secret) = [p, key_id, secret]"
    by (simp add: split_max_threeI)
  then show ?l
    using r by (simp add: bearer_parts_def starts_with_def)
qed

lemma bearer_parts_distinct:
  assumes "bearer_parts p authorization = Some x" and "p \<noteq> p'"
  shows "bearer_parts p' authorization = None"
  using assms by (auto simp: bearer_parts_def split: option.splits if_splits list.splits)

lemma hex_digit_plain: "d < 16 \<Longrightarrow> hex_digit d \<noteq> CHR ''_''"
proof -
  have "\<forall>d \<in> set [0..<16]. hex_digit d \<noteq> CHR ''_''"
    by code_simp
  then show "d < 16 \<Longrightarrow> hex_digit d \<noteq> CHR ''_''"
    by simp
qed

lemma hex_bytes_plain:
  assumes "list_all (\<lambda>b. b < 256) bs"
  shows "CHR ''_'' \<notin> set (hex_bytes bs)" and "length (hex_bytes bs) = 2 * length bs"
proof -
  have "b div 16 < 16 \<and> b mod 16 < 16" if "b \<in> set bs" for b
    using assms that by (auto simp: list_all_iff)
  then have "hex_digit (b div 16) \<noteq> CHR ''_'' \<and> hex_digit (b mod 16) \<noteq> CHR ''_''" if "b \<in> set bs" for b
    using that hex_digit_plain by blast
  then show "CHR ''_'' \<notin> set (hex_bytes bs)"
    by (fastforce simp: hex_bytes_def)
  show "length (hex_bytes bs) = 2 * length bs"
    by (induction bs) (auto simp: hex_bytes_def)
qed

subsection \<open>The contract of an audience\<close>

text \<open>
  The three authentications are written out separately in the code. The locale states what they
  share: an audience accepts only tokens with its prefix, and a decision is taken in the order
  charge, parse, look up, verify, grant. \<open>refusal\<close> is the answer to a caller who knows no secret; it
  does not depend on the stored keys.
\<close>

definition refusal ::
    "(string option \<Rightarrow> (string \<times> string) result) \<Rightarrow> exn \<Rightarrow> auth_env \<Rightarrow> string option \<Rightarrow> auth_state
       \<Rightarrow> auth_state \<times> 'p result" where
  "refusal parse failure env authorization s =
     (case consume (ae_monotonic env) (as_attempts s) of
        (b, Inl e) \<Rightarrow> (s\<lparr>as_attempts := b\<rparr>, Inl e)
      | (b, Inr _) \<Rightarrow>
          (s\<lparr>as_attempts := b\<rparr>,
           if parse authorization = Inl failure then Inl failure
           else case snd (submit_hash (as_verifier s)) of Inl e \<Rightarrow> Inl e | Inr _ \<Rightarrow> Inl failure))"

lemma verify_hash_eq:
  "verify_hash f encoded secret v =
     (v, case snd (submit_hash v) of Inl e \<Rightarrow> Inl e | Inr _ \<Rightarrow> Inr (f encoded secret))"
  by (auto simp: verify_hash_def submit_hash_def hash_done_def)

locale credential_audience =
  fixes key_prefix :: string
    and parse :: "string option \<Rightarrow> (string \<times> string) result"
    and failure :: exn
    and load :: "string \<Rightarrow> ('k \<times> tenant) option"
    and hash_of :: "'k \<Rightarrow> string"
    and grant :: "time \<Rightarrow> 'k \<Rightarrow> tenant \<Rightarrow> 'p result"
    and authenticate :: "auth_env \<Rightarrow> string option \<Rightarrow> auth_state \<Rightarrow> auth_state \<times> 'p result"
  assumes parse_eq: "parse authorization =
      (case bearer_parts key_prefix authorization of None \<Rightarrow> Inl failure | Some p \<Rightarrow> Inr p)"
    and prefix_plain: "CHR ''_'' \<notin> set key_prefix" "length key_prefix \<le> 8"
    and charged: "consume (ae_monotonic env) (as_attempts s) = (b, Inl e) \<Longrightarrow>
      authenticate env authorization s = (s\<lparr>as_attempts := b\<rparr>, Inl e)"
    and malformed: "consume (ae_monotonic env) (as_attempts s) = (b, Inr ()) \<Longrightarrow>
      parse authorization = Inl e \<Longrightarrow>
      authenticate env authorization s = (s\<lparr>as_attempts := b\<rparr>, Inl e)"
    and unknown: "consume (ae_monotonic env) (as_attempts s) = (b, Inr ()) \<Longrightarrow>
      parse authorization = Inr (key_id, secret) \<Longrightarrow> load key_id = None \<Longrightarrow>
      authenticate env authorization s =
        (s\<lparr>as_attempts := b\<rparr>,
         case snd (submit_hash (as_verifier s)) of Inl e \<Rightarrow> Inl e | Inr _ \<Rightarrow> Inl failure)"
    and known: "consume (ae_monotonic env) (as_attempts s) = (b, Inr ()) \<Longrightarrow>
      parse authorization = Inr (key_id, secret) \<Longrightarrow> load key_id = Some (k, t) \<Longrightarrow>
      authenticate env authorization s =
        (s\<lparr>as_attempts := b\<rparr>,
         case snd (submit_hash (as_verifier s)) of
           Inl e \<Rightarrow> Inl e
         | Inr _ \<Rightarrow> if ae_verify env (hash_of k) secret then grant (ae_now env) k t else Inl failure)"
begin

lemma parse_Inr:
  "parse authorization = Inr (key_id, secret) \<longleftrightarrow>
     bearer_parts key_prefix authorization = Some (key_id, secret)"
  by (auto simp: parse_eq split: option.splits)

lemma parse_Inl: "parse authorization = Inl e \<Longrightarrow> e = failure"
  by (auto simp: parse_eq split: option.splits)

lemma generated_parses:
  assumes "list_all (\<lambda>b. b < 256) id_bytes" and "length id_bytes = 9"
    and "secret \<noteq> []" and "length secret \<le> 200"
  shows "parse (Some (BEARER @ join_with ''_'' [key_prefix, hex_bytes id_bytes, secret])) =
           Inr (hex_bytes id_bytes, secret)"
proof -
  let ?a = "BEARER @ key_prefix @ CHR ''_'' # hex_bytes id_bytes @ CHR ''_'' # secret"
  have "length ?a \<le> 256"
    using assms prefix_plain(2) hex_bytes_plain(2) [OF assms(1)] by (simp add: BEARER_def)
  then have "cp_len ?a \<le> 256"
    using cp_len_le [of ?a] by linarith
  moreover have "hex_bytes id_bytes \<noteq> []"
    using hex_bytes_plain(2) [OF assms(1)] assms(2) by force
  ultimately show ?thesis
    using assms hex_bytes_plain(1) [OF assms(1)] prefix_plain(1)
    unfolding parse_Inr bearer_parts_iff by simp
qed

lemma sound:
  assumes "authenticate env authorization s = (s', Inr p)"
  shows "\<exists>key_id secret k t.
           authorization = Some (BEARER @ key_prefix @ CHR ''_'' # key_id @ CHR ''_'' # secret) \<and>
           load key_id = Some (k, t) \<and> ae_verify env (hash_of k) secret \<and>
           grant (ae_now env) k t = Inr p \<and>
           snd (consume (ae_monotonic env) (as_attempts s)) = Inr ()"
proof -
  obtain b c where c: "consume (ae_monotonic env) (as_attempts s) = (b, c)"
    by fastforce
  have c': "consume (ae_monotonic env) (as_attempts s) = (b, Inr ())"
    using charged [of env s b] assms c by (cases c) auto
  obtain key_id secret where q: "parse authorization = Inr (key_id, secret)"
    using malformed [OF c'] assms by (cases "parse authorization") auto
  obtain k t where k: "load key_id = Some (k, t)"
    using unknown [OF c' q] assms by (cases "load key_id") (auto split: sum.splits)
  have "ae_verify env (hash_of k) secret \<and> grant (ae_now env) k t = Inr p"
    using known [OF c' q k] assms by (auto split: sum.splits if_splits)
  then show ?thesis
    using q k c' unfolding parse_Inr bearer_parts_iff by auto
qed

lemma sound_parse:
  "authenticate env authorization s = (s', Inr p) \<Longrightarrow> bearer_parts key_prefix authorization \<noteq> None"
  using sound [of env authorization s s' p] malformed [of env s _ authorization failure]
  by (cases "bearer_parts key_prefix authorization"; cases "consume (ae_monotonic env) (as_attempts s)")
    (auto simp: parse_eq)

lemma complete:
  assumes "consume (ae_monotonic env) (as_attempts s) = (b, Inr ())"
    and "snd (submit_hash (as_verifier s)) = Inr ()"
    and "parse authorization = Inr (key_id, secret)" and "load key_id = Some (k, t)"
    and "ae_verify env (hash_of k) secret"
  shows "authenticate env authorization s = (s\<lparr>as_attempts := b\<rparr>, grant (ae_now env) k t)"
  using known [OF assms(1,3,4)] assms(2,5) by simp

lemma stranger:
  assumes "\<And>key_id secret k t. parse authorization = Inr (key_id, secret) \<Longrightarrow> load key_id = Some (k, t) \<Longrightarrow>
             \<not> ae_verify env (hash_of k) secret"
  shows "authenticate env authorization s = refusal parse failure env authorization s"
proof -
  obtain b c where c: "consume (ae_monotonic env) (as_attempts s) = (b, c)"
    by fastforce
  show ?thesis
  proof (cases c)
    case (Inl e)
    then show ?thesis using charged [of env s b e] c by (simp add: refusal_def)
  next
    case (Inr u)
    then have c': "consume (ae_monotonic env) (as_attempts s) = (b, Inr ())"
      using c by simp
    show ?thesis
    proof (cases "parse authorization")
      case (Inl e)
      then show ?thesis using malformed [OF c' Inl] parse_Inl [OF Inl] c' by (simp add: refusal_def)
    next
      case (Inr q)
      then obtain key_id secret where q: "parse authorization = Inr (key_id, secret)"
        by (cases q) auto
      show ?thesis
      proof (cases "load key_id")
        case None
        then show ?thesis using unknown [OF c' q None] c' q by (simp add: refusal_def)
      next
        case (Some kt)
        then obtain k t where k: "load key_id = Some (k, t)" by (cases kt) auto
        then show ?thesis
          using known [OF c' q k] c' q assms [OF q k] by (auto simp: refusal_def split: sum.splits)
      qed
    qed
  qed
qed

end

interpretation ingest_auth: credential_audience KEY_PREFIX parse_bearer_token invalid_credential
    "\<lambda>key_id. load_key ik_key_id ik_tenant_id key_id keys tenants" ik_key_hash
    "\<lambda>now. ingest_principal now app_id environment"
    "\<lambda>env authorization. authenticate_ingest_key env keys tenants authorization app_id environment"
  for keys tenants app_id environment
  by unfold_locales
    (auto simp: parse_bearer_token_def KEY_PREFIX_def authenticate_ingest_key_def Let_def
      verify_dummy_secret_def verify_hash_eq split: sum.splits bool.splits)

interpretation ci_auth: credential_audience CI_KEY_PREFIX parse_ci_bearer invalid_ci_credential
    "\<lambda>key_id. load_key ck_key_id ck_tenant_id key_id keys tenants" ck_key_hash
    "\<lambda>now. ci_principal_of now required_scope app_id"
    "\<lambda>env authorization. authenticate_ci_key env keys tenants authorization required_scope app_id"
  for keys tenants required_scope app_id
  by unfold_locales
    (auto simp: parse_ci_bearer_def CI_KEY_PREFIX_def authenticate_ci_key_def Let_def
      verify_dummy_secret_def verify_hash_eq split: sum.splits bool.splits)

interpretation query_auth: credential_audience QUERY_KEY_PREFIX parse_query_bearer invalid_query_credential
    "\<lambda>key_id. load_query_key key_id keys tenants" qk_key_hash active_principal
    "\<lambda>env. authenticate_query_key env keys tenants"
  for keys tenants
  by unfold_locales
    (auto simp: parse_query_bearer_def QUERY_KEY_PREFIX_def authenticate_query_key_def Let_def
      verify_dummy_secret_def verify_hash_eq split: sum.splits bool.splits)

subsection \<open>Stored keys\<close>

lemma load_keyD:
  assumes "load_key key_id_of tenant_of key_id keys tenants = Some (k, t)"
  shows "k \<in> set keys" and "t \<in> set tenants" and "key_id_of k = key_id" and "tn_id t = tenant_of k"
proof -
  let ?p = "\<lambda>(k, t). tn_id t = tenant_of k \<and> key_id_of k = key_id"
  obtain rest where "filter ?p (List.product keys tenants) = (k, t) # rest"
    using assms by (auto simp: load_key_def split: list.splits)
  then have "(k, t) \<in> set (filter ?p (List.product keys tenants))"
    by (metis list.set_intros(1))
  then show "k \<in> set keys" and "t \<in> set tenants" and "key_id_of k = key_id" and "tn_id t = tenant_of k"
    by auto
qed

lemma load_key_unique:
  assumes "distinct (map key_id_of keys)" and "distinct (map tn_id tenants)"
    and "k \<in> set keys" and "t \<in> set tenants" and "tn_id t = tenant_of k"
  shows "load_key key_id_of tenant_of (key_id_of k) keys tenants = Some (k, t)"
proof -
  have "load_key key_id_of tenant_of (key_id_of k) keys tenants \<noteq> None"
    using assms(3-5) by (auto simp: load_key_def filter_empty_conv split: list.splits)
  then obtain k' t' where l: "load_key key_id_of tenant_of (key_id_of k) keys tenants = Some (k', t')"
    by auto
  have "k' = k"
    using load_keyD [OF l] assms(1,3) by (auto simp: distinct_map inj_on_def)
  moreover from this have "t' = t"
    using load_keyD [OF l] assms(2,4,5) by (auto simp: distinct_map inj_on_def)
  ultimately show ?thesis
    using l by simp
qed

definition knows_secret ::
    "(string \<Rightarrow> string \<Rightarrow> bool) \<Rightarrow> ('k \<Rightarrow> string) \<Rightarrow> ('k \<Rightarrow> string) \<Rightarrow> (string \<times> string) result \<Rightarrow> 'k list \<Rightarrow> bool" where
  "knows_secret verify key_id_of hash_of parsed keys \<longleftrightarrow>
     (case parsed of
        Inl _ \<Rightarrow> False
      | Inr (key_id, secret) \<Rightarrow> \<exists>k \<in> set keys. key_id_of k = key_id \<and> verify (hash_of k) secret)"

lemma ingest_stranger:
  assumes "\<not> knows_secret (ae_verify env) ik_key_id ik_key_hash (parse_bearer_token authorization) keys"
  shows "authenticate_ingest_key env keys tenants authorization app_id environment s =
           refusal parse_bearer_token invalid_credential env authorization s"
proof (rule ingest_auth.stranger)
  fix key_id secret k t
  assume "parse_bearer_token authorization = Inr (key_id, secret)"
    and "load_key ik_key_id ik_tenant_id key_id keys tenants = Some (k, t)"
  then show "\<not> ae_verify env (ik_key_hash k) secret"
    using assms load_keyD(1,3) by (fastforce simp: knows_secret_def)
qed

lemma ci_stranger:
  assumes "\<not> knows_secret (ae_verify env) ck_key_id ck_key_hash (parse_ci_bearer authorization) keys"
  shows "authenticate_ci_key env keys tenants authorization required_scope app_id s =
           refusal parse_ci_bearer invalid_ci_credential env authorization s"
proof (rule ci_auth.stranger)
  fix key_id secret k t
  assume "parse_ci_bearer authorization = Inr (key_id, secret)"
    and "load_key ck_key_id ck_tenant_id key_id keys tenants = Some (k, t)"
  then show "\<not> ae_verify env (ck_key_hash k) secret"
    using assms load_keyD(1,3) by (fastforce simp: knows_secret_def)
qed

lemma query_stranger:
  assumes "\<not> knows_secret (ae_verify env) qk_key_id qk_key_hash (parse_query_bearer authorization) keys"
  shows "authenticate_query_key env keys tenants authorization s =
           refusal parse_query_bearer invalid_query_credential env authorization s"
proof (rule query_auth.stranger)
  fix key_id secret k t
  assume "parse_query_bearer authorization = Inr (key_id, secret)"
    and "load_query_key key_id keys tenants = Some (k, t)"
  then show "\<not> ae_verify env (qk_key_hash k) secret"
    using assms load_keyD(1,3) by (fastforce simp: knows_secret_def load_query_key_def)
qed

definition ingest_backing ::
    "auth_env \<Rightarrow> ingest_key list \<Rightarrow> tenant list \<Rightarrow> string option \<Rightarrow> string \<Rightarrow> string \<Rightarrow> principal \<Rightarrow> bool" where
  "ingest_backing env keys tenants authorization app_id environment p \<longleftrightarrow>
     (\<exists>k \<in> set keys. \<exists>t \<in> set tenants. \<exists>secret.
        authorization = Some (BEARER @ KEY_PREFIX @ CHR ''_'' # ik_key_id k @ CHR ''_'' # secret) \<and>
        tn_id t = ik_tenant_id k \<and> ae_verify env (ik_key_hash k) secret \<and>
        ik_active k \<and> ik_revoked_at k = None \<and> tn_active t \<and>
        \<not> expired (ik_expires_at k) (ae_now env) \<and>
        ik_app_id k = app_id \<and> ik_environment k = environment \<and>
        p = \<lparr>pr_tenant_id = tn_id t, pr_key_id = ik_key_id k, pr_app_id = app_id,
             pr_environment = environment, pr_requests_per_minute = ik_requests_per_minute k,
             pr_events_per_minute = ik_events_per_minute k\<rparr>)"

definition ci_backing ::
    "auth_env \<Rightarrow> ci_key list \<Rightarrow> tenant list \<Rightarrow> string option \<Rightarrow> string \<Rightarrow> string \<Rightarrow> ci_principal \<Rightarrow> bool" where
  "ci_backing env keys tenants authorization required_scope app_id c \<longleftrightarrow>
     (\<exists>k \<in> set keys. \<exists>t \<in> set tenants. \<exists>secret.
        authorization = Some (BEARER @ CI_KEY_PREFIX @ CHR ''_'' # ck_key_id k @ CHR ''_'' # secret) \<and>
        tn_id t = ck_tenant_id k \<and> ae_verify env (ck_key_hash k) secret \<and>
        ck_active k \<and> ck_revoked_at k = None \<and> tn_active t \<and>
        \<not> expired (ck_expires_at k) (ae_now env) \<and>
        required_scope \<in> set (ck_scopes_json k) \<and> ck_app_id k \<in> {None, Some app_id} \<and>
        c = \<lparr>cp_tenant_id = tn_id t, cp_key_id = ck_key_id k, cp_app_id = ck_app_id k,
             cp_scopes = ck_scopes_json k\<rparr>)"

definition query_backing ::
    "auth_env \<Rightarrow> query_key list \<Rightarrow> tenant list \<Rightarrow> string option \<Rightarrow> query_principal \<Rightarrow> bool" where
  "query_backing env keys tenants authorization q \<longleftrightarrow>
     (\<exists>k \<in> set keys. \<exists>t \<in> set tenants. \<exists>secret.
        authorization = Some (BEARER @ QUERY_KEY_PREFIX @ CHR ''_'' # qk_key_id k @ CHR ''_'' # secret) \<and>
        tn_id t = qk_tenant_id k \<and> ae_verify env (qk_key_hash k) secret \<and>
        qk_active k \<and> qk_revoked_at k = None \<and> tn_active t \<and>
        \<not> expired (qk_expires_at k) (ae_now env) \<and>
        q = \<lparr>qp_tenant_id = tn_id t, qp_key_id = qk_key_id k, qp_app_id = qk_app_id k,
             qp_environment = qk_environment k, qp_role = qk_role k,
             qp_expires_at = qk_expires_at k\<rparr> \<and>
        qp_role q \<in> {QUERY_ROLE_VIEWER, QUERY_ROLE_INVESTIGATOR})"

lemma ingest_backed:
  assumes "authenticate_ingest_key env keys tenants authorization app_id environment s = (s', Inr p)"
  shows "ingest_backing env keys tenants authorization app_id environment p"
proof -
  from ingest_auth.sound [OF assms] obtain key_id secret k t where
    a: "authorization = Some (BEARER @ KEY_PREFIX @ CHR ''_'' # key_id @ CHR ''_'' # secret)"
    and l: "load_key ik_key_id ik_tenant_id key_id keys tenants = Some (k, t)"
    and g: "ae_verify env (ik_key_hash k) secret" "ingest_principal (ae_now env) app_id environment k t = Inr p"
    by blast
  show ?thesis
    unfolding ingest_backing_def using a g load_keyD [OF l]
    by (intro bexI [of _ k] bexI [of _ t] exI [of _ secret]) (auto simp: ingest_principal_def split: if_splits)
qed

lemma ci_backed:
  assumes "authenticate_ci_key env keys tenants authorization required_scope app_id s = (s', Inr c)"
  shows "ci_backing env keys tenants authorization required_scope app_id c"
proof -
  from ci_auth.sound [OF assms] obtain key_id secret k t where
    a: "authorization = Some (BEARER @ CI_KEY_PREFIX @ CHR ''_'' # key_id @ CHR ''_'' # secret)"
    and l: "load_key ck_key_id ck_tenant_id key_id keys tenants = Some (k, t)"
    and g: "ae_verify env (ck_key_hash k) secret" "ci_principal_of (ae_now env) required_scope app_id k t = Inr c"
    by blast
  show ?thesis
    unfolding ci_backing_def using a g load_keyD [OF l]
    by (intro bexI [of _ k] bexI [of _ t] exI [of _ secret]) (auto simp: ci_principal_of_def split: if_splits)
qed

lemma query_backed:
  assumes "authenticate_query_key env keys tenants authorization s = (s', Inr q)"
  shows "query_backing env keys tenants authorization q"
proof -
  from query_auth.sound [OF assms] obtain key_id secret k t where
    a: "authorization = Some (BEARER @ QUERY_KEY_PREFIX @ CHR ''_'' # key_id @ CHR ''_'' # secret)"
    and l: "load_key qk_key_id qk_tenant_id key_id keys tenants = Some (k, t)"
    and g: "ae_verify env (qk_key_hash k) secret" "active_principal (ae_now env) k t = Inr q"
    unfolding load_query_key_def by blast
  show ?thesis
    unfolding query_backing_def using a g load_keyD [OF l]
    by (intro bexI [of _ k] bexI [of _ t] exI [of _ secret])
      (auto simp: active_principal_def QUERY_ROLES_def split: if_splits)
qed

subsection \<open>The token bucket\<close>

fun consume_all :: "rat list \<Rightarrow> attempt_budget \<Rightarrow> attempt_budget \<times> nat" where
  "consume_all [] b = (b, 0)"
| "consume_all (c # cs) b =
     (case consume c b of
        (b', r) \<Rightarrow> (case consume_all cs b' of (b'', n) \<Rightarrow> (b'', (if r = Inr () then 1 else 0) + n)))"

definition budget_ok :: "attempt_budget \<Rightarrow> bool" where
  "budget_ok b \<longleftrightarrow> 0 \<le> ab_rate b \<and> 0 \<le> ab_tokens b \<and> ab_tokens b \<le> ab_burst b"

lemma consume_step:
  assumes "budget_ok b" and "ab_updated b \<le> c" and "consume c b = (b', r)"
  shows "budget_ok b'" and "ab_rate b' = ab_rate b" and "ab_burst b' = ab_burst b"
    and "ab_updated b' = c"
    and "(if r = Inr () then 1 else 0) + ab_tokens b' \<le> ab_tokens b + ab_rate b * (c - ab_updated b)"
proof -
  have "max 0 (c - ab_updated b) = c - ab_updated b"
    using assms(2) by simp
  moreover have "0 \<le> (c - ab_updated b) * ab_rate b"
    using assms(1,2) by (simp add: budget_ok_def)
  ultimately show "budget_ok b'" and "ab_rate b' = ab_rate b" and "ab_burst b' = ab_burst b"
    and "ab_updated b' = c"
    and "(if r = Inr () then 1 else 0) + ab_tokens b' \<le> ab_tokens b + ab_rate b * (c - ab_updated b)"
    using assms by (auto simp: consume_def budget_ok_def Let_def min_def mult.commute split: if_splits)
qed

lemma consume_all_bound:
  assumes "budget_ok b" and "sorted (ab_updated b # clocks)" and "consume_all clocks b = (b', n)"
  shows "rat_of_nat n + ab_tokens b' \<le> ab_tokens b + ab_rate b * (last (ab_updated b # clocks) - ab_updated b)
           \<and> budget_ok b'"
  using assms
proof (induction clocks arbitrary: b n)
  case (Cons c cs)
  obtain b1 r n1 where s: "consume c b = (b1, r)" "consume_all cs b1 = (b', n1)"
      "n = (if r = Inr () then 1 else 0) + n1"
    using Cons.prems(3) by (auto split: prod.splits)
  have u: "ab_updated b \<le> c"
    using Cons.prems(2) by simp
  note st = consume_step [OF Cons.prems(1) u s(1)]
  have "rat_of_nat n1 + ab_tokens b' \<le> ab_tokens b1 + ab_rate b1 * (last (ab_updated b1 # cs) - ab_updated b1)
          \<and> budget_ok b'"
    using Cons.IH [OF st(1) _ s(2)] Cons.prems(2) st(4) by simp
  moreover have "last (ab_updated b # c # cs) = last (c # cs)"
    by simp
  ultimately show ?case
    using st s(3) by (auto simp: algebra_simps split: if_splits)
qed simp

lemma consume_all_burst: "consume_all clocks b = (b', n) \<Longrightarrow> ab_burst b' = ab_burst b"
proof (induction clocks arbitrary: b n)
  case (Cons c cs)
  then show ?case
    by (fastforce simp: consume_def Let_def split: prod.splits if_splits)
qed simp

subsection \<open>Samples\<close>

definition sample_tenant :: tenant where
  "sample_tenant =
     \<lparr>tn_id = ''t1'', tn_name = ''Tenant'', tn_active = True, tn_created_at = 0,
      tn_config_rollout_salt = ''s''\<rparr>"

definition sample_ingest_key :: ingest_key where
  "sample_ingest_key =
     \<lparr>ik_key_id = hex_bytes (replicate 9 10), ik_tenant_id = ''t1'', ik_key_hash = ''h:pw'', ik_app_id = ''app'',
      ik_environment = ''prod'', ik_active = True, ik_expires_at = Some 100, ik_created_at = 0,
      ik_revoked_at = None, ik_description = None, ik_requests_per_minute = 5,
      ik_events_per_minute = 50\<rparr>"

definition sample_query_key :: query_key where
  "sample_query_key =
     \<lparr>qk_key_id = ''q'', qk_tenant_id = ''t1'', qk_key_hash = ''h:pw'', qk_app_id = ''app'',
      qk_environment = ''prod'', qk_role = ''viewer'', qk_active = True, qk_expires_at = None,
      qk_created_at = 0, qk_revoked_at = None, qk_description = None\<rparr>"

definition sample_ci_key :: ci_key where
  "sample_ci_key =
     \<lparr>ck_key_id = ''c'', ck_tenant_id = ''t1'', ck_key_hash = ''h:pw'', ck_app_id = None,
      ck_scopes_json = [''artifact:write''], ck_active = True, ck_expires_at = None,
      ck_created_at = 0, ck_revoked_at = None, ck_description = None\<rparr>"

definition sample_auth_env :: auth_env where
  "sample_auth_env =
     \<lparr>ae_monotonic = 1, ae_now = 50, ae_verify = (\<lambda>encoded secret. encoded = ''h:'' @ secret),
      ae_dummy_hash = ''h:dummy''\<rparr>"

subsection \<open>Properties\<close>

text \<open>
  C12. A request is authenticated only on the strength of a stored key: the bearer token carries the
  audience's prefix, the key's lookup id and a secret that verifies against the stored hash; key
  and tenant are active, not revoked and not expired; every dimension of the principal is taken
  from storage, and the requested app, environment or scope is one the key allows. The same holds
  for the three audiences, and a token of one audience is refused by the parsers of the others.
\<close>

theorem authenticated_principal_backed:
  "(authenticate_ingest_key env ikeys tenants authorization app_id environment s = (s1, Inr p) \<longrightarrow>
      ingest_backing env ikeys tenants authorization app_id environment p \<and>
      parse_ci_bearer authorization = Inl invalid_ci_credential \<and>
      parse_query_bearer authorization = Inl invalid_query_credential) \<and>
   (authenticate_ci_key env ckeys tenants authorization scope app_id s = (s2, Inr c) \<longrightarrow>
      ci_backing env ckeys tenants authorization scope app_id c \<and>
      parse_bearer_token authorization = Inl invalid_credential \<and>
      parse_query_bearer authorization = Inl invalid_query_credential) \<and>
   (authenticate_query_key env qkeys tenants authorization s = (s3, Inr q) \<longrightarrow>
      query_backing env qkeys tenants authorization q \<and>
      parse_bearer_token authorization = Inl invalid_credential \<and>
      parse_ci_bearer authorization = Inl invalid_ci_credential)"
proof -
  have other: "bearer_parts p' authorization = None"
    if "bearer_parts p authorization = Some x" "p \<noteq> p'" for p p' x
    using that bearer_parts_distinct by blast
  have "KEY_PREFIX \<noteq> CI_KEY_PREFIX" "KEY_PREFIX \<noteq> QUERY_KEY_PREFIX" "CI_KEY_PREFIX \<noteq> QUERY_KEY_PREFIX"
    by (simp_all add: consts_simps)
  note ne = this this [symmetric]
  have "bearer_parts KEY_PREFIX authorization \<noteq> None"
    if "authenticate_ingest_key env ikeys tenants authorization app_id environment s = (s1, Inr p)"
    using ingest_auth.sound_parse [OF that] .
  moreover have "bearer_parts CI_KEY_PREFIX authorization \<noteq> None"
    if "authenticate_ci_key env ckeys tenants authorization scope app_id s = (s2, Inr c)"
    using ci_auth.sound_parse [OF that] .
  moreover have "bearer_parts QUERY_KEY_PREFIX authorization \<noteq> None"
    if "authenticate_query_key env qkeys tenants authorization s = (s3, Inr q)"
    using query_auth.sound_parse [OF that] .
  ultimately show ?thesis
    using ingest_backed ci_backed query_backed other ne
    by (auto simp: parse_bearer_token_def parse_ci_bearer_def parse_query_bearer_def)
qed

theorem authenticated_principal_backed_witness:
  "ingest_backing sample_auth_env [sample_ingest_key] [sample_tenant]
     (Some (''Bearer apm1_'' @ ik_key_id sample_ingest_key @ ''_pw'')) ''app'' ''prod''
     \<lparr>pr_tenant_id = ''t1'', pr_key_id = ik_key_id sample_ingest_key, pr_app_id = ''app'',
      pr_environment = ''prod'', pr_requests_per_minute = 5, pr_events_per_minute = 50\<rparr> \<and>
   ci_backing sample_auth_env [sample_ci_key] [sample_tenant] (Some ''Bearer apmci1_c_pw'')
     ''artifact:write'' ''app''
     \<lparr>cp_tenant_id = ''t1'', cp_key_id = ''c'', cp_app_id = None, cp_scopes = [''artifact:write'']\<rparr> \<and>
   query_backing sample_auth_env [sample_query_key] [sample_tenant] (Some ''Bearer apmq1_q_pw'')
     \<lparr>qp_tenant_id = ''t1'', qp_key_id = ''q'', qp_app_id = ''app'', qp_environment = ''prod'',
      qp_role = ''viewer'', qp_expires_at = None\<rparr>"
proof -
  let ?s = "initial_auth_state 0"
  have i: "authenticate_ingest_key sample_auth_env [sample_ingest_key] [sample_tenant]
      (Some (''Bearer apm1_'' @ ik_key_id sample_ingest_key @ ''_pw'')) ''app'' ''prod'' ?s =
      (?s\<lparr>as_attempts := fst (consume 1 (as_attempts ?s))\<rparr>,
       Inr \<lparr>pr_tenant_id = ''t1'', pr_key_id = ik_key_id sample_ingest_key, pr_app_id = ''app'',
            pr_environment = ''prod'', pr_requests_per_minute = 5, pr_events_per_minute = 50\<rparr>)"
    and c: "authenticate_ci_key sample_auth_env [sample_ci_key] [sample_tenant]
      (Some ''Bearer apmci1_c_pw'') ''artifact:write'' ''app'' ?s =
      (?s\<lparr>as_attempts := fst (consume 1 (as_attempts ?s))\<rparr>,
       Inr \<lparr>cp_tenant_id = ''t1'', cp_key_id = ''c'', cp_app_id = None, cp_scopes = [''artifact:write'']\<rparr>)"
    and q: "authenticate_query_key sample_auth_env [sample_query_key] [sample_tenant]
      (Some ''Bearer apmq1_q_pw'') ?s =
      (?s\<lparr>as_attempts := fst (consume 1 (as_attempts ?s))\<rparr>,
       Inr \<lparr>qp_tenant_id = ''t1'', qp_key_id = ''q'', qp_app_id = ''app'', qp_environment = ''prod'',
            qp_role = ''viewer'', qp_expires_at = None\<rparr>)"
    by code_simp+
  show ?thesis
    using authenticated_principal_backed [THEN conjunct1, rule_format, OF i]
      authenticated_principal_backed [THEN conjunct2, THEN conjunct1, rule_format, OF c]
      authenticated_principal_backed [THEN conjunct2, THEN conjunct2, rule_format, OF q]
    by blast
qed

text \<open>
  C37. Authentication is no oracle for stored keys: to a caller whose token holds no secret that
  verifies, an unknown lookup id, a wrong secret, a disabled key and another tenant's key answer
  alike. The response and the charge to the attempt budget do not depend on what is stored.
\<close>

theorem stranger_learns_nothing:
  "(\<not> knows_secret (ae_verify env) ik_key_id ik_key_hash (parse_bearer_token authorization) ikeys \<and>
    \<not> knows_secret (ae_verify env) ik_key_id ik_key_hash (parse_bearer_token authorization) ikeys' \<longrightarrow>
      authenticate_ingest_key env ikeys tenants authorization app_id environment s =
      authenticate_ingest_key env ikeys' tenants' authorization app_id' environment' s) \<and>
   (\<not> knows_secret (ae_verify env) ck_key_id ck_key_hash (parse_ci_bearer authorization) ckeys \<and>
    \<not> knows_secret (ae_verify env) ck_key_id ck_key_hash (parse_ci_bearer authorization) ckeys' \<longrightarrow>
      authenticate_ci_key env ckeys tenants authorization scope app_id s =
      authenticate_ci_key env ckeys' tenants' authorization scope' app_id' s) \<and>
   (\<not> knows_secret (ae_verify env) qk_key_id qk_key_hash (parse_query_bearer authorization) qkeys \<and>
    \<not> knows_secret (ae_verify env) qk_key_id qk_key_hash (parse_query_bearer authorization) qkeys' \<longrightarrow>
      authenticate_query_key env qkeys tenants authorization s =
      authenticate_query_key env qkeys' tenants' authorization s)"
  by (simp add: ingest_stranger ci_stranger query_stranger)

theorem stranger_learns_nothing_witness:
  "authenticate_ingest_key sample_auth_env [sample_ingest_key] [sample_tenant]
     (Some (''Bearer apm1_'' @ ik_key_id sample_ingest_key @ ''_guess'')) ''app'' ''prod'' (initial_auth_state 0) =
   authenticate_ingest_key sample_auth_env [] []
     (Some (''Bearer apm1_'' @ ik_key_id sample_ingest_key @ ''_guess'')) ''x'' ''y'' (initial_auth_state 0)"
proof -
  have "\<not> knows_secret (ae_verify sample_auth_env) ik_key_id ik_key_hash
      (parse_bearer_token (Some (''Bearer apm1_'' @ ik_key_id sample_ingest_key @ ''_guess''))) [sample_ingest_key]"
    "\<not> knows_secret (ae_verify sample_auth_env) ik_key_id ik_key_hash
      (parse_bearer_token (Some (''Bearer apm1_'' @ ik_key_id sample_ingest_key @ ''_guess''))) []"
    by code_simp+
  then show ?thesis
    by (intro stranger_learns_nothing [THEN conjunct1, rule_format] conjI)
qed

text \<open>
  A generated ingest key works: stored with its hash for an active tenant, it authenticates its
  own app and environment until it expires or is revoked, with exactly the stored limits, whenever
  the attempt budget admits the request and a hash slot is free. The hasher is assumed to verify
  what it hashed.
\<close>

theorem generated_key_authenticates:
  assumes "generate_ingest_key hash id_bytes secret = (key_id, plaintext, key_hash)"
    and "list_all (\<lambda>b. b < 256) id_bytes" and "length id_bytes = KEY_ID_BYTES"
    and "secret \<noteq> []" and "length secret \<le> 200"
    and hasher: "\<And>s. ae_verify env (hash s) s"
    and "distinct (map ik_key_id keys)" and "distinct (map tn_id tenants)"
    and "k \<in> set keys" and "t \<in> set tenants" and "tn_id t = ik_tenant_id k"
    and "ik_key_id k = key_id" and "ik_key_hash k = key_hash"
    and "ik_active k" and "ik_revoked_at k = None" and "tn_active t"
    and "\<not> expired (ik_expires_at k) (ae_now env)"
    and "consume (ae_monotonic env) (as_attempts s) = (b, Inr ())"
    and "hv_running (as_verifier s) < hv_workers (as_verifier s)" and "hv_open (as_verifier s)"
  shows "authenticate_ingest_key env keys tenants (Some (''Bearer '' @ plaintext)) (ik_app_id k)
           (ik_environment k) s =
         (s\<lparr>as_attempts := b\<rparr>,
          Inr \<lparr>pr_tenant_id = tn_id t, pr_key_id = key_id, pr_app_id = ik_app_id k,
               pr_environment = ik_environment k,
               pr_requests_per_minute = ik_requests_per_minute k,
               pr_events_per_minute = ik_events_per_minute k\<rparr>)"
proof -
  have k: "key_id = hex_bytes id_bytes" "key_hash = hash secret"
    and pt: "''Bearer '' @ plaintext = BEARER @ join_with ''_'' [KEY_PREFIX, hex_bytes id_bytes, secret]"
    using assms(1) by (auto simp: generate_ingest_key_def Let_def KEY_SEPARATOR_def BEARER_def)
  have "parse_bearer_token (Some (''Bearer '' @ plaintext)) = Inr (key_id, secret)"
    unfolding pt k(1) by (rule ingest_auth.generated_parses) (use assms(2-5) in \<open>simp_all add: consts_simps\<close>)
  moreover have "load_key ik_key_id ik_tenant_id key_id keys tenants = Some (k, t)"
    using load_key_unique [of ik_key_id keys tenants k t ik_tenant_id] assms(7-12) by simp
  moreover have "snd (submit_hash (as_verifier s)) = Inr ()"
    using assms(19,20) by (simp add: submit_hash_def)
  moreover have "ae_verify env (ik_key_hash k) secret"
    using hasher assms(13) k(2) by simp
  ultimately have "authenticate_ingest_key env keys tenants (Some (''Bearer '' @ plaintext)) (ik_app_id k)
      (ik_environment k) s = (s\<lparr>as_attempts := b\<rparr>, ingest_principal (ae_now env) (ik_app_id k) (ik_environment k) k t)"
    using ingest_auth.complete [OF assms(18)] by blast
  then show ?thesis
    using assms(12,14-17) by (simp add: ingest_principal_def)
qed

theorem generated_key_authenticates_witness:
  "snd (authenticate_ingest_key sample_auth_env [sample_ingest_key] [sample_tenant]
     (Some (''Bearer '' @ ''apm1_0a0a0a0a0a0a0a0a0a_pw'')) (ik_app_id sample_ingest_key)
     (ik_environment sample_ingest_key) (initial_auth_state 0)) =
   Inr \<lparr>pr_tenant_id = tn_id sample_tenant, pr_key_id = ''0a0a0a0a0a0a0a0a0a'', pr_app_id = ik_app_id sample_ingest_key,
        pr_environment = ik_environment sample_ingest_key,
        pr_requests_per_minute = ik_requests_per_minute sample_ingest_key,
        pr_events_per_minute = ik_events_per_minute sample_ingest_key\<rparr>"
proof -
  have g: "generate_ingest_key (\<lambda>s. ''h:'' @ s) (replicate 9 10) ''pw'' =
      (''0a0a0a0a0a0a0a0a0a'', ''apm1_0a0a0a0a0a0a0a0a0a_pw'', ''h:pw'')"
    by code_simp
  have r: "list_all (\<lambda>b. b < 256) (replicate 9 (10::nat))" "ik_key_id sample_ingest_key = ''0a0a0a0a0a0a0a0a0a''"
    "consume (ae_monotonic sample_auth_env) (as_attempts (initial_auth_state 0)) =
       (AuthAttemptBudget 20 40 1\<lparr>ab_tokens := 39\<rparr>, Inr ())"
    by code_simp+
  have k: "ik_key_hash sample_ingest_key = ''h:pw''" "ik_active sample_ingest_key"
    "ik_revoked_at sample_ingest_key = None" "ik_tenant_id sample_ingest_key = ''t1''"
    "\<not> expired (ik_expires_at sample_ingest_key) (ae_now sample_auth_env)"
    "tn_id sample_tenant = ''t1''" "tn_active sample_tenant"
    "hv_running (as_verifier (initial_auth_state 0)) = 0" "hv_workers (as_verifier (initial_auth_state 0)) = 2"
    "hv_open (as_verifier (initial_auth_state 0))"
    by code_simp+
  show ?thesis
    by (subst generated_key_authenticates
          [OF g r(1) _ _ _ _ _ _ _ _ _ r(2) k(1,2,3,7,5) r(3)])
      (simp_all add: k consts_simps sample_auth_env_def)
qed

text \<open>
  The attempt budget bounds unauthenticated work: over any sequence of attempts on a monotonic
  clock, the number admitted is at most the burst plus the rate times the elapsed time, and the
  tokens stay between zero and the burst.
\<close>

theorem admitted_attempts_bounded:
  assumes "sorted (start # clocks)" and "0 \<le> rate" and "0 \<le> burst"
    and "consume_all clocks (AuthAttemptBudget rate burst start) = (b, n)"
  shows "rat_of_nat n \<le> burst + rate * (last (start # clocks) - start) \<and>
         0 \<le> ab_tokens b \<and> ab_tokens b \<le> burst"
proof -
  have "budget_ok (AuthAttemptBudget rate burst start)"
    using assms(2,3) by (simp add: budget_ok_def AuthAttemptBudget_def)
  then have "rat_of_nat n + ab_tokens b \<le> burst + rate * (last (start # clocks) - start) \<and> budget_ok b"
    using consume_all_bound [OF _ _ assms(4)] assms(1) by (simp add: AuthAttemptBudget_def)
  moreover have "ab_burst b = burst"
    using consume_all_burst [OF assms(4)] by (simp add: AuthAttemptBudget_def)
  ultimately show ?thesis
    by (auto simp: budget_ok_def)
qed

theorem admitted_attempts_bounded_witness:
  "rat_of_nat 3 \<le> (2::rat) + 1 * (last (0 # [0, 0, 0, 1]) - 0)"
proof -
  have "consume_all [0, 0, 0, 1] (AuthAttemptBudget 1 2 0) =
      (\<lparr>ab_rate = 1, ab_burst = 2, ab_tokens = 0, ab_updated = 1\<rparr>, 3)"
    by code_simp
  from admitted_attempts_bounded [OF _ _ _ this] show ?thesis
    by simp
qed

end
