(* ===== verification/Apm_Quota.thy ===== *)
theory Apm_Quota
  imports Apm_Auth
begin

section \<open>Ingest quota\<close>

text \<open>
  \<^verbatim>\<open>db/quota.py\<close>: one request and its events are charged to the UTC minute window of the key by a
  single upsert whose update is conditional on both limits. Times are microseconds since the
  epoch, so truncating to the minute is division. The properties follow all requests of a run and
  show that no window ever admits more than the key's limits.
\<close>

definition WINDOW_SECONDS :: int where [consts_simps]: "WINDOW_SECONDS = 60"

definition quota_exceeded :: "int \<Rightarrow> exn" where
  "quota_exceeded retry_after =
     mk_error_h 429 ''quota_exceeded'' ''The ingest quota has been exceeded'' True
       [(''Retry-After'', int_str retry_after)]"

definition minute_window :: "time \<Rightarrow> time" where
  "minute_window observed = observed - observed mod 60000000"

definition second_of :: "time \<Rightarrow> int" where
  "second_of observed = observed div 1000000 mod 60"

definition window_row :: "string \<Rightarrow> time \<Rightarrow> ingest_rate_window \<Rightarrow> bool" where
  "window_row key_id window r \<longleftrightarrow> rw_key_id r = key_id \<and> rw_window_started_at r = window"

definition within_limits :: "principal \<Rightarrow> int \<Rightarrow> ingest_rate_window \<Rightarrow> bool" where
  "within_limits p event_count r \<longleftrightarrow>
     rw_request_count r + 1 \<le> pr_requests_per_minute p \<and>
     rw_event_count r + event_count \<le> pr_events_per_minute p"

text \<open>
  \<open>INSERT ... ON CONFLICT (key_id, window_started_at) DO UPDATE ... WHERE limits RETURNING key_id\<close>:
  the second component is the returned key.
\<close>

definition upsert_window ::
    "principal \<Rightarrow> time \<Rightarrow> int \<Rightarrow> ingest_rate_window list \<Rightarrow> ingest_rate_window list \<times> string option" where
  "upsert_window p window event_count tbl =
     (let hit = window_row (pr_key_id p) window
      in if \<not> list_ex hit tbl
         then (tbl @ [\<lparr>rw_key_id = pr_key_id p, rw_window_started_at = window, rw_request_count = 1,
                       rw_event_count = event_count\<rparr>], Some (pr_key_id p))
         else if list_ex (\<lambda>r. hit r \<and> within_limits p event_count r) tbl
         then (sql_update (\<lambda>r. hit r \<and> within_limits p event_count r)
                 (\<lambda>r. r\<lparr>rw_request_count := rw_request_count r + 1,
                        rw_event_count := rw_event_count r + event_count\<rparr>) tbl,
               Some (pr_key_id p))
         else (tbl, None))"

definition consume_quota ::
    "dialect \<Rightarrow> principal \<Rightarrow> int \<Rightarrow> time \<Rightarrow> ingest_rate_window list \<Rightarrow> ingest_rate_window list result" where
  "consume_quota dialect p event_count observed tbl =
     (if pr_requests_per_minute p < 1 \<or> event_count > pr_events_per_minute p
      then Inl (quota_exceeded WINDOW_SECONDS)
      else case dialect of
        Other_dialect d \<Rightarrow> Inl (Uncaught ''RuntimeError'')
      | _ \<Rightarrow>
          (case upsert_window p (minute_window observed) event_count tbl of
             (tbl', Some _) \<Rightarrow> Inr tbl'
           | (tbl', None) \<Rightarrow> Inl (quota_exceeded (max 1 (WINDOW_SECONDS - second_of observed)))))"

subsection \<open>Counting a run\<close>

type_synonym quota_request = "principal \<times> int \<times> time"

fun quota_run ::
    "dialect \<Rightarrow> quota_request list \<Rightarrow> ingest_rate_window list
       \<Rightarrow> ingest_rate_window list \<times> quota_request list" where
  "quota_run dialect [] tbl = (tbl, [])"
| "quota_run dialect ((p, n, t) # reqs) tbl =
     (case consume_quota dialect p n t tbl of
        Inl _ \<Rightarrow> quota_run dialect reqs tbl
      | Inr tbl' \<Rightarrow> (case quota_run dialect reqs tbl' of (tbl'', adm) \<Rightarrow> (tbl'', (p, n, t) # adm)))"

definition charged_to :: "string \<Rightarrow> time \<Rightarrow> quota_request list \<Rightarrow> quota_request list" where
  "charged_to key_id window reqs =
     filter (\<lambda>(p, n, t). pr_key_id p = key_id \<and> minute_window t = window) reqs"

definition total_events :: "quota_request list \<Rightarrow> int" where
  "total_events reqs = (\<Sum>(p, n, t) \<leftarrow> reqs. n)"

definition unique_windows :: "ingest_rate_window list \<Rightarrow> bool" where
  "unique_windows tbl \<longleftrightarrow> distinct (map (\<lambda>r. (rw_key_id r, rw_window_started_at r)) tbl)"

text \<open>
  What one admitted request does to a window's counters: the counters of its own window grow by one
  request and its events and stay within the limits; all other windows keep theirs.
\<close>

definition counters :: "string \<Rightarrow> time \<Rightarrow> ingest_rate_window list \<Rightarrow> int \<times> int" where
  "counters key_id window tbl =
     (case filter (window_row key_id window) tbl of
        [] \<Rightarrow> (0, 0)
      | r # _ \<Rightarrow> (rw_request_count r, rw_event_count r))"

lemma counters_append_new:
  assumes "\<not> list_ex (window_row key_id window) tbl" and "rw_key_id r = key_id" "rw_window_started_at r = window"
  shows "counters k w (tbl @ [r]) =
           (if k = key_id \<and> w = window then (rw_request_count r, rw_event_count r) else counters k w tbl)"
proof (cases "k = key_id \<and> w = window")
  case True
  then have "filter (window_row k w) tbl = []"
    using assms(1) by (auto simp: list_ex_iff filter_empty_conv)
  then show ?thesis
    using True assms(2,3) by (simp add: counters_def window_row_def)
next
  case False
  then have "\<not> window_row k w r"
    using assms(2,3) by (auto simp: window_row_def)
  then show ?thesis
    using False by (auto simp: counters_def)
qed

lemma unique_window_split:
  assumes "unique_windows tbl" and "r \<in> set tbl" and "window_row key_id window r"
  shows "filter (window_row key_id window) tbl = [r]"
proof -
  have "filter (\<lambda>s. (rw_key_id s, rw_window_started_at s) = (rw_key_id r, rw_window_started_at r)) tbl = [r]"
    using filter_unique_key [of "\<lambda>r. (rw_key_id r, rw_window_started_at r)" tbl r] assms(1,2)
    by (simp only: unique_windows_def)
  then show ?thesis
    using assms(3) by (simp add: window_row_def [abs_def])
qed

lemma counters_update:
  assumes "unique_windows tbl" and "r \<in> set tbl" and "window_row key_id window r" and "c r"
    and "\<And>s. rw_key_id (f s) = rw_key_id s" and "\<And>s. rw_window_started_at (f s) = rw_window_started_at s"
  shows "counters k w (sql_update (\<lambda>s. window_row key_id window s \<and> c s) f tbl) =
           (if k = key_id \<and> w = window then (rw_request_count (f r), rw_event_count (f r))
            else counters k w tbl)"
proof -
  have keep: "filter (window_row k w) (sql_update q f tbl) = sql_update q f (filter (window_row k w) tbl)" for q
    using assms(5,6) by (induction tbl) (auto simp: sql_update_def window_row_def)
  show ?thesis
  proof (cases "k = key_id \<and> w = window")
    case True
    then show ?thesis
      using keep unique_window_split [OF assms(1,2,3)] assms(3,4) by (simp add: counters_def sql_update_def)
  next
    case False
    have "sql_update (\<lambda>s. window_row key_id window s \<and> c s) f (filter (window_row k w) tbl) =
        filter (window_row k w) tbl"
      using False by (intro sql_update_none) (auto simp: window_row_def)
    then show ?thesis
      using False keep by (auto simp: counters_def)
  qed
qed

definition charged_once :: "principal \<Rightarrow> int \<Rightarrow> time \<Rightarrow> ingest_rate_window list \<Rightarrow> ingest_rate_window list \<Rightarrow> bool" where
  "charged_once p n t tbl tbl' \<longleftrightarrow>
     unique_windows tbl' \<and>
     (\<forall>k w. counters k w tbl' =
        (if k = pr_key_id p \<and> w = minute_window t
         then (fst (counters k w tbl) + 1, snd (counters k w tbl) + n) else counters k w tbl)) \<and>
     fst (counters (pr_key_id p) (minute_window t) tbl') \<le> pr_requests_per_minute p \<and>
     snd (counters (pr_key_id p) (minute_window t) tbl') \<le> pr_events_per_minute p"

lemma first_charge:
  assumes "unique_windows tbl" and new: "\<not> list_ex (window_row (pr_key_id p) (minute_window t)) tbl"
    and lim: "pr_requests_per_minute p \<ge> 1" "n \<le> pr_events_per_minute p"
  shows "charged_once p n t tbl (fst (upsert_window p (minute_window t) n tbl))"
proof -
  let ?new = "\<lparr>rw_key_id = pr_key_id p, rw_window_started_at = minute_window t, rw_request_count = 1, rw_event_count = n\<rparr>"
  have up: "fst (upsert_window p (minute_window t) n tbl) = tbl @ [?new]"
    using new by (simp add: upsert_window_def)
  have "filter (window_row (pr_key_id p) (minute_window t)) tbl = []"
    using new by (auto simp: list_ex_iff filter_empty_conv)
  then have "counters (pr_key_id p) (minute_window t) tbl = (0, 0)" by (simp add: counters_def)
  moreover have "unique_windows (tbl @ [?new])"
    using assms(1) new by (auto simp: unique_windows_def list_ex_iff window_row_def)
  moreover have "counters k w (tbl @ [?new]) =
      (if k = pr_key_id p \<and> w = minute_window t then (1, n) else counters k w tbl)" for k w
    using counters_append_new [OF new, of ?new k w] by simp
  ultimately show ?thesis
    using lim by (simp add: up charged_once_def)
qed

lemma further_charge:
  assumes "unique_windows tbl" and old: "list_ex (window_row (pr_key_id p) (minute_window t)) tbl"
    and "snd (upsert_window p (minute_window t) n tbl) \<noteq> None"
  shows "charged_once p n t tbl (fst (upsert_window p (minute_window t) n tbl))"
proof -
  let ?hit = "window_row (pr_key_id p) (minute_window t)"
  let ?f = "\<lambda>r::ingest_rate_window. r\<lparr>rw_request_count := rw_request_count r + 1, rw_event_count := rw_event_count r + n\<rparr>"
  have "list_ex (\<lambda>r. ?hit r \<and> within_limits p n r) tbl"
    using assms(3) old by (auto simp: upsert_window_def Let_def split: if_splits)
  then obtain r where r: "r \<in> set tbl" "?hit r" "within_limits p n r"
    by (auto simp: list_ex_iff)
  have up: "fst (upsert_window p (minute_window t) n tbl) = sql_update (\<lambda>r. ?hit r \<and> within_limits p n r) ?f tbl"
    using old r by (auto simp: upsert_window_def Let_def list_ex_iff split: if_splits)
  have "counters (pr_key_id p) (minute_window t) tbl = (rw_request_count r, rw_event_count r)"
    using unique_window_split [OF assms(1) r(1,2)] by (simp add: counters_def)
  moreover have "unique_windows (sql_update (\<lambda>r. ?hit r \<and> within_limits p n r) ?f tbl)"
    using assms(1) by (simp add: unique_windows_def map_sql_update)
  ultimately show ?thesis
    using counters_update [OF assms(1) r(1,2), of "within_limits p n" ?f] r(3)
    by (simp add: up charged_once_def within_limits_def)
qed

lemma consume_quota_admits:
  assumes "unique_windows tbl" and "consume_quota dialect p n t tbl = Inr tbl'"
  shows "unique_windows tbl'"
    and "\<And>k w. counters k w tbl' =
           (if k = pr_key_id p \<and> w = minute_window t
            then (fst (counters k w tbl) + 1, snd (counters k w tbl) + n) else counters k w tbl)"
    and "fst (counters (pr_key_id p) (minute_window t) tbl') \<le> pr_requests_per_minute p"
    and "snd (counters (pr_key_id p) (minute_window t) tbl') \<le> pr_events_per_minute p"
proof -
  have lim: "pr_requests_per_minute p \<ge> 1" "n \<le> pr_events_per_minute p"
    and up: "fst (upsert_window p (minute_window t) n tbl) = tbl'"
      "snd (upsert_window p (minute_window t) n tbl) \<noteq> None"
    using assms(2) by (auto simp: consume_quota_def split: if_splits dialect.splits prod.splits option.splits)
  have "charged_once p n t tbl tbl'"
    using first_charge [OF assms(1) _ lim] further_charge [OF assms(1) _ up(2)] up(1) by blast
  then show "unique_windows tbl'"
    and "\<And>k w. counters k w tbl' =
           (if k = pr_key_id p \<and> w = minute_window t
            then (fst (counters k w tbl) + 1, snd (counters k w tbl) + n) else counters k w tbl)"
    and "fst (counters (pr_key_id p) (minute_window t) tbl') \<le> pr_requests_per_minute p"
    and "snd (counters (pr_key_id p) (minute_window t) tbl') \<le> pr_events_per_minute p"
    unfolding charged_once_def by blast+
qed

lemma quota_run_counts:
  assumes "unique_windows tbl" and "quota_run dialect reqs tbl = (tbl', adm)"
    and "\<And>p n t. (p, n, t) \<in> set reqs \<Longrightarrow> pr_key_id p = key_id \<Longrightarrow>
           pr_requests_per_minute p = rpm \<and> pr_events_per_minute p = epm"
  shows "counters key_id w tbl' =
           (fst (counters key_id w tbl) + int (length (charged_to key_id w adm)),
            snd (counters key_id w tbl) + total_events (charged_to key_id w adm)) \<and>
         (charged_to key_id w adm \<noteq> [] \<longrightarrow>
           fst (counters key_id w tbl') \<le> rpm \<and> snd (counters key_id w tbl') \<le> epm)"
  using assms
proof (induction dialect reqs tbl arbitrary: tbl' adm rule: quota_run.induct)
  case (2 dialect p n t reqs tbl)
  have lims: "pr_requests_per_minute p' = rpm \<and> pr_events_per_minute p' = epm"
    if "(p', n', t') \<in> set reqs" "pr_key_id p' = key_id" for p' n' t'
    using "2.prems"(3) that by auto
  show ?case
  proof (cases "consume_quota dialect p n t tbl")
    case (Inl e)
    then show ?thesis
      using "2.IH"(1) [OF Inl "2.prems"(1)] "2.prems"(2) lims by auto
  next
    case (Inr tbl1)
    obtain adm1 where r: "quota_run dialect reqs tbl1 = (tbl', adm1)" and adm: "adm = (p, n, t) # adm1"
      using "2.prems"(2) Inr by (auto split: prod.splits)
    note step = consume_quota_admits [OF "2.prems"(1) Inr]
    have ih: "counters key_id w tbl' =
           (fst (counters key_id w tbl1) + int (length (charged_to key_id w adm1)),
            snd (counters key_id w tbl1) + total_events (charged_to key_id w adm1)) \<and>
         (charged_to key_id w adm1 \<noteq> [] \<longrightarrow>
           fst (counters key_id w tbl') \<le> rpm \<and> snd (counters key_id w tbl') \<le> epm)"
      using "2.IH"(2) [OF Inr step(1) r] lims by blast
    show ?thesis
    proof (cases "pr_key_id p = key_id \<and> minute_window t = w")
      case True
      then have "charged_to key_id w adm = (p, n, t) # charged_to key_id w adm1"
        by (simp add: adm charged_to_def)
      moreover have "fst (counters key_id w tbl1) \<le> rpm \<and> snd (counters key_id w tbl1) \<le> epm"
        using step(3,4) "2.prems"(3) True by auto
      ultimately show ?thesis
        using ih step(2) [of key_id w] True by (cases "charged_to key_id w adm1") (auto simp: total_events_def)
    next
      case False
      then have "charged_to key_id w adm = charged_to key_id w adm1"
        by (auto simp: adm charged_to_def)
      moreover have "counters key_id w tbl1 = counters key_id w tbl"
        using step(2) [of key_id w] False by auto
      ultimately show ?thesis
        using ih by auto
    qed
  qed
qed (simp add: charged_to_def total_events_def)

subsection \<open>Properties\<close>

definition sample_principal :: principal where
  "sample_principal =
     \<lparr>pr_tenant_id = ''t1'', pr_key_id = ''k'', pr_app_id = ''app'', pr_environment = ''prod'',
      pr_requests_per_minute = 2, pr_events_per_minute = 10\<rparr>"

text \<open>
  C21. No key ever exceeds its quota: over any interleaving of requests of any keys, starting from an
  empty table, the requests of a key that were admitted in one UTC minute are at most its requests
  per minute and carry at most its events per minute in total.
\<close>

theorem quota_never_exceeded:
  assumes "quota_run dialect reqs [] = (tbl, admitted)"
    and "\<And>p n t. (p, n, t) \<in> set reqs \<Longrightarrow> pr_key_id p = key_id \<Longrightarrow>
           pr_requests_per_minute p = rpm \<and> pr_events_per_minute p = epm"
    and "charged_to key_id window admitted \<noteq> []"
  shows "int (length (charged_to key_id window admitted)) \<le> rpm \<and>
         total_events (charged_to key_id window admitted) \<le> epm"
proof -
  have "unique_windows []" "counters key_id window [] = (0, 0)"
    by (simp_all add: unique_windows_def counters_def)
  then show ?thesis
    using quota_run_counts [of "[]" dialect reqs tbl admitted key_id rpm epm window] assms by auto
qed

theorem quota_never_exceeded_witness:
  "int (length (charged_to ''k'' 0 [(sample_principal, 4, 1000000), (sample_principal, 6, 2000000)])) \<le> 2 \<and>
   total_events (charged_to ''k'' 0 [(sample_principal, 4, 1000000), (sample_principal, 6, 2000000)]) \<le> 10"
proof -
  let ?reqs = "[(sample_principal, 4, 1000000), (sample_principal, 6, 2000000), (sample_principal, 1, 3000000)]"
  have r: "quota_run Sqlite ?reqs [] =
      ([\<lparr>rw_key_id = ''k'', rw_window_started_at = 0, rw_request_count = 2, rw_event_count = 10\<rparr>],
       [(sample_principal, 4, 1000000), (sample_principal, 6, 2000000)])"
    and c: "charged_to ''k'' 0 [(sample_principal, 4, 1000000), (sample_principal, 6, 2000000)] \<noteq> []"
    by code_simp+
  show ?thesis
    by (rule quota_never_exceeded [OF r _ c]) (auto simp: sample_principal_def)
qed

text \<open>
  The quota decision is exact: a request is refused only when it does not fit into what is left
  of its window, a refusal is a retryable 429 that names a wait of one to sixty seconds and charges
  nothing, and an admitted request charges one request and its events to its own window only.
\<close>

theorem quota_decision_exact:
  assumes "unique_windows tbl" and "dialect \<in> {Postgresql, Sqlite}"
    and "0 \<le> fst (counters (pr_key_id p) (minute_window t) tbl)"
    and "0 \<le> snd (counters (pr_key_id p) (minute_window t) tbl)"
  shows "case consume_quota dialect p n t tbl of
           Inr tbl' \<Rightarrow>
             unique_windows tbl' \<and>
             (\<forall>k w. counters k w tbl' =
               (if k = pr_key_id p \<and> w = minute_window t
                then (fst (counters k w tbl) + 1, snd (counters k w tbl) + n) else counters k w tbl))
         | Inl e \<Rightarrow>
             (\<exists>wait. 1 \<le> wait \<and> wait \<le> 60 \<and> e = quota_exceeded wait) \<and>
             (fst (counters (pr_key_id p) (minute_window t) tbl) + 1 > pr_requests_per_minute p \<or>
              snd (counters (pr_key_id p) (minute_window t) tbl) + n > pr_events_per_minute p)"
proof (cases "consume_quota dialect p n t tbl")
  case (Inr tbl')
  show ?thesis
    using consume_quota_admits(1,2) [OF assms(1) Inr] by (simp add: Inr)
next
  case (Inl e)
  let ?hit = "window_row (pr_key_id p) (minute_window t)"
  show ?thesis
  proof (cases "pr_requests_per_minute p < 1 \<or> n > pr_events_per_minute p")
    case True
    then have "e = quota_exceeded 60"
      using Inl by (simp add: consume_quota_def consts_simps)
    moreover have "\<exists>wait. 1 \<le> wait \<and> wait \<le> 60 \<and> quota_exceeded 60 = quota_exceeded wait"
      by (intro exI [of _ 60]) simp
    ultimately show ?thesis
      using True assms(3,4) by (auto simp: Inl)
  next
    case False
    have none: "snd (upsert_window p (minute_window t) n tbl) = None"
      and e: "e = quota_exceeded (max 1 (60 - second_of t))"
      using False Inl assms(2) by (auto simp: consume_quota_def consts_simps split: prod.splits option.splits)
    then obtain r where r: "r \<in> set tbl" "?hit r" "\<not> within_limits p n r"
      by (auto simp: upsert_window_def Let_def list_ex_iff split: if_splits)
    have "counters (pr_key_id p) (minute_window t) tbl = (rw_request_count r, rw_event_count r)"
      using unique_window_split [OF assms(1) r(1,2)] by (simp add: counters_def)
    moreover have "\<exists>wait. 1 \<le> wait \<and> wait \<le> 60 \<and> e = quota_exceeded wait"
      unfolding e by (intro exI [of _ "max 1 (60 - second_of t)"]) (simp add: second_of_def)
    ultimately show ?thesis
      using r(3) by (auto simp: Inl within_limits_def)
  qed
qed

theorem quota_decision_exact_witness:
  "\<exists>wait. 1 \<le> wait \<and> wait \<le> 60 \<and> quota_exceeded 57 = quota_exceeded wait"
proof -
  let ?tbl = "[\<lparr>rw_key_id = ''k'', rw_window_started_at = 0, rw_request_count = 2, rw_event_count = 5\<rparr>]"
  have r: "consume_quota Sqlite sample_principal 1 3000000 ?tbl = Inl (quota_exceeded 57)"
    and c: "counters (pr_key_id sample_principal) (minute_window 3000000) ?tbl = (2, 5)"
    and u: "unique_windows ?tbl"
    by code_simp+
  show ?thesis
    using quota_decision_exact [OF u, of Sqlite sample_principal 3000000 1] by (simp add: c r)
qed

end
