(* ===== verification/Apm_Maintenance.thy ===== *)
theory Apm_Maintenance
  imports Apm_Symbol_Jobs Apm_Quota
begin

section \<open>Capacity and retention\<close>

text \<open>
  \<^verbatim>\<open>db/maintenance.py\<close>: the admission check before an acknowledgement and the retention pass that
  removes raw evidence from final rows. A pass is one transaction; \<open>locked\<close> names the rows other
  transactions hold, which PostgreSQL skips. The metrics counters and the statement timeout are
  left out; a timeout of the capacity check is the argument \<open>timely\<close>.
\<close>

definition live_status :: "inbox_status \<Rightarrow> bool" where
  "live_status s \<longleftrightarrow> s \<in> {IS_pending, IS_processing, IS_awaiting_symbols}"

record maintenance_settings =
  ms_retention_enabled :: bool
  ms_delivered_retention_days :: int
  ms_dead_letter_retention_days :: int
  ms_retention_batch_size :: nat
  ms_inbox_max_live_events :: int
  ms_inbox_max_raw_bytes :: int

definition capacity_error :: exn where
  "capacity_error =
     mk_error_h 503 ''inbox_capacity_exceeded'' ''Inbox capacity is temporarily unavailable'' True
       [(''Retry-After'', ''30'')]"

definition raw_bytes :: "inbox_event list \<Rightarrow> int" where
  "raw_bytes tbl = sum_list (map ie_payload_size_bytes (filter (\<lambda>r. ie_raw_pruned_at r = None) tbl))"

definition check_inbox_capacity ::
    "maintenance_settings \<Rightarrow> bool \<Rightarrow> inbox_event list \<Rightarrow> unit result" where
  "check_inbox_capacity st timely tbl =
     (if \<not> timely then Inl capacity_error
      else
        let count = min (length (filter (\<lambda>r. live_status (ie_status r)) tbl))
                        (nat (ms_inbox_max_live_events st + 1))
        in if int count \<le> ms_inbox_max_live_events st \<and> raw_bytes tbl \<le> ms_inbox_max_raw_bytes st
           then Inr () else Inl capacity_error)"

subsection \<open>Retention\<close>

definition days :: "int \<Rightarrow> time" where
  "days n = n * 86400 * 1000000"

definition terminal_time :: "inbox_event \<Rightarrow> time" where
  "terminal_time r =
     (case ie_finalized_at r of
        Some t \<Rightarrow> t
      | None \<Rightarrow> (case ie_delivered_at r of Some t \<Rightarrow> t | None \<Rightarrow> ie_next_attempt_at r))"

definition unfinished_job :: "symbolization_job list \<Rightarrow> inbox_event \<Rightarrow> bool" where
  "unfinished_job jobs r \<longleftrightarrow> list_ex (\<lambda>j. sj_inbox_event_id j = ie_id r \<and> unfinished (sj_status j)) jobs"

definition prunable ::
    "maintenance_settings \<Rightarrow> time \<Rightarrow> symbolization_job list \<Rightarrow> inbox_event \<Rightarrow> bool" where
  "prunable st observed jobs r \<longleftrightarrow>
     ie_raw_pruned_at r = None \<and> \<not> unfinished_job jobs r \<and>
     (ie_status r = IS_delivered \<and>
        terminal_time r \<le> observed - days (ms_delivered_retention_days st) \<or>
      ie_status r = IS_dead_letter \<and>
        terminal_time r \<le> observed - days (ms_dead_letter_retention_days st))"

fun is_number :: "json \<Rightarrow> bool" where
  "is_number (JScalar (SInt _)) = True"
| "is_number (JScalar (SFloat _)) = True"
| "is_number (JScalar (SBool _)) = True"
| "is_number _ = False"

definition scene_state :: "dict \<Rightarrow> string" where
  "scene_state payload =
     (case Option.bind (map_of payload ''scene'') str_of of
        Some s \<Rightarrow> if s \<noteq> [] then ''EXPIRED'' else ''MISSING''
      | None \<Rightarrow> ''MISSING'')"

definition kept_payload :: "dict \<Rightarrow> dict" where
  "kept_payload payload =
     concat (map (\<lambda>key. case map_of payload key of None \<Rightarrow> [] | Some v \<Rightarrow> [(key, v)]) [''module'', ''name''])"

text \<open>\<open>None\<close> when a column does not hold the dictionary the code takes apart (an \<open>AttributeError\<close>).\<close>

definition retained_attributes :: "json \<Rightarrow> dict option" where
  "retained_attributes normalized =
     (case obj_of normalized of
        None \<Rightarrow> None
      | Some d \<Rightarrow>
          (case map_of d ''indexed_attributes'' of
             None \<Rightarrow> Some []
           | Some v \<Rightarrow> map_option (filter (\<lambda>(key, v). is_number v)) (obj_of v)))"

definition pruned_normalized :: "json \<Rightarrow> dict \<Rightarrow> string \<Rightarrow> json" where
  "pruned_normalized normalized retained scene =
     (let d = (case obj_of normalized of None \<Rightarrow> [] | Some d \<Rightarrow> d);
          d = dict_put ''registered_fields'' (JObj retained) d;
          d = dict_put ''indexed_attributes'' (JObj retained) d;
          d = dict_put ''raw_available'' (jbool False) d;
          d = dict_put ''retention'' (JObj [(''scene_state'', jstr scene)]) d
      in JObj (dict_put ''field_states'' (JObj (field_availability (JObj d) True)) d))"

definition prune_row :: "time \<Rightarrow> inbox_event \<Rightarrow> inbox_event result" where
  "prune_row observed r =
     (case retained_attributes (ie_normalized_json r) of
        None \<Rightarrow> Inl (Uncaught ''AttributeError'')
      | Some retained \<Rightarrow>
          Inr (r\<lparr>ie_payload_json := kept_payload (ie_payload_json r),
                 ie_normalized_json :=
                   pruned_normalized (ie_normalized_json r) retained (scene_state (ie_payload_json r)),
                 ie_native_identity_json := [],
                 ie_raw_pruned_at := Some observed,
                 ie_payload_size_bytes := 0,
                 ie_last_error_message := None\<rparr>))"

definition prune_job :: "symbolization_job \<Rightarrow> symbolization_job" where
  "prune_job j = j\<lparr>sj_result_json := None, sj_last_error_message := None\<rparr>"

text \<open>The tables of a maintenance transaction.\<close>

record maintenance_tables =
  mt_inbox :: "inbox_event list"
  mt_jobs :: "symbolization_job list"
  mt_windows :: "ingest_rate_window list"
  mt_audit :: "audit_log list"

definition prune_selection ::
    "maintenance_settings \<Rightarrow> dialect \<Rightarrow> (int \<Rightarrow> bool) \<Rightarrow> time \<Rightarrow> maintenance_tables \<Rightarrow> inbox_event list" where
  "prune_selection st dialect locked observed db =
     order_limit ie_id (ms_retention_batch_size st)
       (filter (\<lambda>r. prunable st observed (mt_jobs db) r \<and> \<not> (dialect = Postgresql \<and> locked (ie_id r)))
          (mt_inbox db))"

definition expired_windows ::
    "maintenance_settings \<Rightarrow> time \<Rightarrow> ingest_rate_window list \<Rightarrow> ingest_rate_window list" where
  "expired_windows st observed tbl =
     order_limit rw_window_started_at (ms_retention_batch_size st)
       (filter (\<lambda>w. rw_window_started_at w < observed - days 1) tbl)"

definition prune_audit :: "maintenance_settings \<Rightarrow> time \<Rightarrow> string \<times> int \<Rightarrow> audit_log" where
  "prune_audit st written tc =
     \<lparr>al_tenant_id = Some (fst tc), al_actor = ''worker:retention'', al_action = ''inbox.raw.prune'',
      al_object_type = ''retention_batch'', al_object_id = None, al_result = ''success'',
      al_request_id = None,
      al_details_json =
        JObj [(''count'', jint (snd tc)), (''delivered_days'', jint (ms_delivered_retention_days st)),
              (''dead_letter_days'', jint (ms_dead_letter_retention_days st))],
      al_created_at = written\<rparr>"

definition expire_audit :: "time \<Rightarrow> nat \<Rightarrow> audit_log" where
  "expire_audit written n =
     \<lparr>al_tenant_id = None, al_actor = ''worker:retention'', al_action = ''quota.expire'',
      al_object_type = ''rate_windows'', al_object_id = None, al_result = ''success'',
      al_request_id = None, al_details_json = JObj [(''count'', jint (int n))],
      al_created_at = written\<rparr>"

definition per_tenant :: "inbox_event list \<Rightarrow> (string \<times> int) list" where
  "per_tenant rows = foldl (\<lambda>d r. dict_incr (ie_tenant_id r) 1 d) [] rows"

definition window_key :: "ingest_rate_window \<Rightarrow> string \<times> time" where
  "window_key w = (rw_key_id w, rw_window_started_at w)"

definition replace_rows :: "inbox_event list \<Rightarrow> inbox_event list \<Rightarrow> inbox_event list" where
  "replace_rows pruned tbl =
     map (\<lambda>r. case find (\<lambda>s. ie_id s = ie_id r) pruned of None \<Rightarrow> r | Some s \<Rightarrow> s) tbl"

definition maintain_once ::
    "maintenance_settings \<Rightarrow> dialect \<Rightarrow> (int \<Rightarrow> bool) \<Rightarrow> time \<Rightarrow> time \<Rightarrow> maintenance_tables
       \<Rightarrow> (maintenance_tables \<times> nat \<times> nat) result" where
  "maintain_once st dialect locked observed written db =
     (if \<not> ms_retention_enabled st then Inr (db, 0, 0)
      else
        let rows = prune_selection st dialect locked observed db
        in rbind (rmap (prune_row observed) rows) (\<lambda>pruned.
          let gone = expired_windows st observed (mt_windows db);
              deleted = filter (\<lambda>w. window_key w \<in> window_key ` set gone) (mt_windows db)
          in Inr (db\<lparr>mt_inbox := replace_rows pruned (mt_inbox db),
                     mt_jobs := sql_update (\<lambda>j. sj_inbox_event_id j \<in> ie_id ` set rows) prune_job (mt_jobs db),
                     mt_windows := filter (\<lambda>w. window_key w \<notin> window_key ` set gone) (mt_windows db),
                     mt_audit := mt_audit db @ map (prune_audit st written) (per_tenant rows) @
                       (if deleted = [] then [] else [expire_audit written (length deleted)])\<rparr>,
                  length rows, length deleted)))"

subsection \<open>What a pass changes\<close>

lemma prune_rowD:
  assumes "prune_row observed r = Inr s"
  shows "ie_id s = ie_id r" and "row_identity s = row_identity r" and "ie_status s = ie_status r"
    and "inbox_lease s = inbox_lease r" and "ie_finalized_at s = ie_finalized_at r"
    and "ie_delivered_at s = ie_delivered_at r" and "ie_attempt_count s = ie_attempt_count r"
    and "ie_raw_pruned_at s = Some observed" and "ie_payload_size_bytes s = 0"
    and "ie_native_identity_json s = []" and "ie_last_error_message s = None"
    and "ie_payload_json s = kept_payload (ie_payload_json r)"
    and "\<exists>retained. retained_attributes (ie_normalized_json r) = Some retained \<and>
           ie_normalized_json s =
             pruned_normalized (ie_normalized_json r) retained (scene_state (ie_payload_json r))"
  using assms by (auto simp: prune_row_def row_identity_def inbox_lease_def split: option.splits)

lemma prune_row_ok: "prune_row observed r = Inr s \<Longrightarrow> finalized r \<Longrightarrow> inbox_row_ok r \<Longrightarrow> inbox_row_ok s"
  using prune_rowD [of observed r s] by (simp add: inbox_row_ok_def finalized_def)

lemma prunable_final: "prunable st observed jobs r \<Longrightarrow> finalized r"
  by (auto simp: prunable_def finalized_def)

lemma prune_selection_sub:
  "r \<in> set (prune_selection st dialect locked observed db) \<Longrightarrow>
     r \<in> set (mt_inbox db) \<and> prunable st observed (mt_jobs db) r \<and>
     \<not> (dialect = Postgresql \<and> locked (ie_id r))"
  using set_order_limit by (fastforce simp: prune_selection_def)

lemma find_by_id:
  assumes "list_all2 (\<lambda>r s. f r = Inr s \<and> ie_id s = ie_id r) rows pruned"
  shows "find (\<lambda>s. ie_id s = i) pruned = None \<longleftrightarrow> i \<notin> ie_id ` set rows"
    and "find (\<lambda>s. ie_id s = i) pruned = Some s \<Longrightarrow> \<exists>r \<in> set rows. ie_id r = i \<and> f r = Inr s"
proof -
  have "ie_id ` set pruned = ie_id ` set rows"
    using assms by (induction rule: list_all2_induct) auto
  moreover have "find (\<lambda>s. ie_id s = i) pruned = None \<longleftrightarrow> i \<notin> ie_id ` set pruned"
    by (auto simp: find_None_iff)
  ultimately show "find (\<lambda>s. ie_id s = i) pruned = None \<longleftrightarrow> i \<notin> ie_id ` set rows"
    by simp
  show "\<exists>r \<in> set rows. ie_id r = i \<and> f r = Inr s" if "find (\<lambda>s. ie_id s = i) pruned = Some s"
    using assms that by (induction rule: list_all2_induct) (auto split: if_splits)
qed

definition prune_change ::
    "maintenance_settings \<Rightarrow> time \<Rightarrow> symbolization_job list \<Rightarrow> inbox_event \<Rightarrow> inbox_event \<Rightarrow> bool" where
  "prune_change st observed jobs r s \<longleftrightarrow> prunable st observed jobs r \<and> prune_row observed r = Inr s"

lemma replace_rows_nth:
  assumes pk: "inbox_primary_key tbl" and sub: "set rows \<subseteq> set tbl"
    and pr: "rmap (prune_row observed) rows = Inr pruned" and r: "r \<in> set tbl"
  shows "(case find (\<lambda>s. ie_id s = ie_id r) pruned of None \<Rightarrow> Inr r | Some s \<Rightarrow> Inr s) =
           (if r \<in> set rows then prune_row observed r else Inr r)"
proof -
  have rel: "list_all2 (\<lambda>r s. prune_row observed r = Inr s \<and> ie_id s = ie_id r) rows pruned"
    using pr unfolding rmap_Inr_iff by (rule list_all2_mono) (simp add: prune_rowD(1))
  have in_rows: "r' = r" if "r' \<in> set rows" "ie_id r' = ie_id r" for r'
    using inbox_id_unique [OF pk] that sub r by blast
  show ?thesis
  proof (cases "find (\<lambda>s. ie_id s = ie_id r) pruned")
    case None
    then have "r \<notin> set rows"
      using find_by_id(1) [OF rel] by blast
    then show ?thesis by (simp add: None)
  next
    case (Some s)
    then have "r \<in> set rows" "prune_row observed r = Inr s"
      using find_by_id(2) [OF rel Some] in_rows by blast+
    then show ?thesis by (simp add: Some)
  qed
qed

lemma maintain_onceD:
  assumes "maintain_once st dialect locked observed written db = Inr (db', n, q)"
    and "ms_retention_enabled st" and "inbox_primary_key (mt_inbox db)"
  shows "row_change (prune_change st observed (mt_jobs db)) (mt_inbox db) (mt_inbox db')"
    and "\<And>r. r \<in> set (mt_inbox db) \<Longrightarrow> r \<in> set (prune_selection st dialect locked observed db) \<Longrightarrow>
           \<exists>s \<in> set (mt_inbox db'). prune_row observed r = Inr s"
    and "\<And>s. s \<in> set (mt_inbox db') \<Longrightarrow> \<exists>r \<in> set (mt_inbox db).
           if r \<in> set (prune_selection st dialect locked observed db) then prune_row observed r = Inr s else s = r"
    and "mt_jobs db' = sql_update (\<lambda>j. sj_inbox_event_id j \<in> ie_id ` set (prune_selection st dialect locked observed db))
           prune_job (mt_jobs db)"
    and "n = length (prune_selection st dialect locked observed db)"
proof -
  define rows where "rows = prune_selection st dialect locked observed db"
  obtain pruned where p: "rmap (prune_row observed) rows = Inr pruned"
    and db': "mt_inbox db' = replace_rows pruned (mt_inbox db)"
      "mt_jobs db' = sql_update (\<lambda>j. sj_inbox_event_id j \<in> ie_id ` set rows) prune_job (mt_jobs db)"
      "n = length rows"
    using assms(1,2) by (auto simp: maintain_once_def Let_def rows_def)
  have sub: "set rows \<subseteq> set (mt_inbox db)"
    using prune_selection_sub by (auto simp: rows_def)
  let ?g = "\<lambda>r. case find (\<lambda>s. ie_id s = ie_id r) pruned of None \<Rightarrow> r | Some s \<Rightarrow> s"
  have g: "if r \<in> set rows then prune_row observed r = Inr (?g r) else ?g r = r" if "r \<in> set (mt_inbox db)" for r
    using replace_rows_nth [OF assms(3) sub p that] by (auto split: option.splits if_splits)
  have ch: "ie_id (?g r) = ie_id r \<and> row_identity (?g r) = row_identity r \<and>
      (?g r = r \<or> prune_change st observed (mt_jobs db) r (?g r))" if "r \<in> set (mt_inbox db)" for r
  proof (cases "r \<in> set rows")
    case True
    then have "prune_row observed r = Inr (?g r)" using g [OF that] by simp
    moreover have "prunable st observed (mt_jobs db) r"
      using True prune_selection_sub by (auto simp: rows_def)
    ultimately show ?thesis
      using prune_rowD(1,2) by (simp add: prune_change_def)
  qed (use g [OF that] in simp)
  show "row_change (prune_change st observed (mt_jobs db)) (mt_inbox db) (mt_inbox db')"
    unfolding row_change_def db' replace_rows_def
    by (simp add: list_all2_map2 list_all2_same) (use ch in blast)
  show "\<exists>s \<in> set (mt_inbox db'). prune_row observed r = Inr s"
    if "r \<in> set (mt_inbox db)" "r \<in> set (prune_selection st dialect locked observed db)" for r
    using g [OF that(1)] that by (auto simp: db' replace_rows_def rows_def intro!: bexI [of _ "?g r"])
  show "\<exists>r \<in> set (mt_inbox db).
      if r \<in> set (prune_selection st dialect locked observed db) then prune_row observed r = Inr s else s = r"
    if "s \<in> set (mt_inbox db')" for s
  proof -
    have "s \<in> ?g ` set (mt_inbox db)"
      using that by (simp only: db' replace_rows_def set_map)
    then obtain r where "r \<in> set (mt_inbox db)" "s = ?g r"
      by blast
    then show ?thesis using g [of r] by (metis rows_def)
  qed
  show "mt_jobs db' = sql_update (\<lambda>j. sj_inbox_event_id j \<in> ie_id ` set (prune_selection st dialect locked observed db))
           prune_job (mt_jobs db)"
    and "n = length (prune_selection st dialect locked observed db)"
    using db' by (simp_all add: rows_def)
qed

lemma prune_job_simps [row_simps]:
  "job_key (prune_job j) = job_key j" "sj_status (prune_job j) = sj_status j"
  "job_lease (prune_job j) = job_lease j" "sj_attempt_count (prune_job j) = sj_attempt_count j"
  "sj_inbox_event_id (prune_job j) = sj_inbox_event_id j"
  by (simp_all add: prune_job_def job_key_def job_lease_def)

lemma prune_jobs_status:
  "map (\<lambda>j. (sj_inbox_event_id j, sj_status j)) (sql_update p prune_job jobs) =
     map (\<lambda>j. (sj_inbox_event_id j, sj_status j)) jobs"
  by (intro map_sql_update) (simp add: row_simps)

lemma unfinished_job_status:
  "unfinished_job jobs r \<longleftrightarrow>
     (\<exists>(i, s) \<in> set (map (\<lambda>j. (sj_inbox_event_id j, sj_status j)) jobs). i = ie_id r \<and> unfinished s)"
  by (auto simp: unfinished_job_def list_ex_iff)

lemma prune_keeps_unfinished: "unfinished_job (sql_update p prune_job jobs) r \<longleftrightarrow> unfinished_job jobs r"
  unfolding unfinished_job_status prune_jobs_status ..

lemma awaits_unfinished_iff:
  "awaits_unfinished inbox jobs \<longleftrightarrow>
     (\<forall>r \<in> set inbox. ie_status r = IS_awaiting_symbols \<longrightarrow> unfinished_job jobs r)"
  by (auto simp: awaits_unfinished_def unfinished_job_def list_ex_iff)

text \<open>Retention keeps the invariants of the inbox and of the jobs.\<close>

lemma maintain_keeps:
  assumes "maintain_once st dialect locked observed written db = Inr (db', n, q)"
    and "inbox_primary_key (mt_inbox db)"
  shows "row_change (prune_change st observed (mt_jobs db)) (mt_inbox db) (mt_inbox db')"
    and "list_all inbox_row_ok (mt_inbox db) \<Longrightarrow> list_all inbox_row_ok (mt_inbox db')"
    and "wf_jobs M (mt_jobs db) \<Longrightarrow> wf_jobs M (mt_jobs db')"
    and "awaits_unfinished (mt_inbox db) (mt_jobs db) \<Longrightarrow> awaits_unfinished (mt_inbox db') (mt_jobs db')"
    and "map job_key (mt_jobs db') = map job_key (mt_jobs db)"
proof -
  show ch: "row_change (prune_change st observed (mt_jobs db)) (mt_inbox db) (mt_inbox db')"
  proof (cases "ms_retention_enabled st")
    case False
    then show ?thesis using assms(1) by (simp add: maintain_once_def)
  qed (rule maintain_onceD(1) [OF assms(1) _ assms(2)])
  obtain p where jobs: "mt_jobs db' = sql_update p prune_job (mt_jobs db)"
  proof (cases "ms_retention_enabled st")
    case True
    show thesis using maintain_onceD(4) [OF assms(1) True assms(2)] that by simp
  next
    case False
    then have "mt_jobs db' = sql_update (\<lambda>_. False) prune_job (mt_jobs db)"
      using assms(1) by (simp add: maintain_once_def sql_update_none)
    then show thesis by (rule that)
  qed
  show "list_all inbox_row_ok (mt_inbox db')" if "list_all inbox_row_ok (mt_inbox db)"
    unfolding list_all_iff
  proof (rule row_change_all [OF ch])
    show "\<forall>r \<in> set (mt_inbox db). inbox_row_ok r"
      using that by (simp only: list_all_iff)
    show "inbox_row_ok s" if "prune_change st observed (mt_jobs db) r s" "inbox_row_ok r" for r s
      using that prune_row_ok prunable_final unfolding prune_change_def by blast
  qed
  show "wf_jobs M (mt_jobs db')" if "wf_jobs M (mt_jobs db)"
    unfolding jobs by (rule wf_jobs_update(1) [OF that]) (simp add: job_row_ok_def row_simps)
  show "map job_key (mt_jobs db') = map job_key (mt_jobs db)"
    unfolding jobs by (intro map_sql_update) (simp add: row_simps)
  show "awaits_unfinished (mt_inbox db') (mt_jobs db')" if "awaits_unfinished (mt_inbox db) (mt_jobs db)"
  proof -
    have "\<forall>s \<in> set (mt_inbox db'). ie_status s = IS_awaiting_symbols \<longrightarrow> unfinished_job (mt_jobs db) s"
    proof (rule row_change_all [OF ch])
      show "\<forall>r \<in> set (mt_inbox db). ie_status r = IS_awaiting_symbols \<longrightarrow> unfinished_job (mt_jobs db) r"
        using that by (simp add: awaits_unfinished_iff)
      show "ie_status s = IS_awaiting_symbols \<longrightarrow> unfinished_job (mt_jobs db) s"
        if "prune_change st observed (mt_jobs db) r s" for r s
      proof -
        have "ie_status s = ie_status r" "finalized r"
          using that prune_rowD(3) prunable_final unfolding prune_change_def by blast+
        then show ?thesis unfolding finalized_def by (elim disjE) simp_all
      qed
    qed
    then show ?thesis
      by (simp add: awaits_unfinished_iff jobs prune_keeps_unfinished)
  qed
qed

subsection \<open>What a pruned row holds\<close>

lemma retained_numbers: "retained_attributes n = Some d \<Longrightarrow> list_all (is_number \<circ> snd) d"
  by (auto simp: retained_attributes_def list_all_iff split: option.splits)

lemma kept_payload_keys: "fst ` set (kept_payload d) \<subseteq> {''module'', ''name''}"
  by (auto simp: kept_payload_def split: option.splits)

lemma pruned_normalized_get:
  "obj_get ''registered_fields'' (pruned_normalized n d sc) = Some (JObj d)"
  "obj_get ''indexed_attributes'' (pruned_normalized n d sc) = Some (JObj d)"
  "obj_get ''raw_available'' (pruned_normalized n d sc) = Some (jbool False)"
  by (simp_all add: pruned_normalized_def Let_def)

lemma field_availability_pruned:
  assumes "(key, jstr ''AVAILABLE'') \<in> set (field_availability n True)"
    and "obj_get ''registered_fields'' n = Some (JObj d)"
  shows "key \<in> fst ` set d"
proof (rule ccontr)
  assume "key \<notin> fst ` set d"
  then have "map_of d key = None"
    by (simp add: map_of_eq_None_iff)
  then show False
    using assms by (auto simp: field_availability_def Let_def split: option.splits if_splits)
qed

lemma pruned_normalized_states:
  assumes "obj_get ''field_states'' (pruned_normalized n d sc) = Some (JObj states)"
    and "(key, jstr ''AVAILABLE'') \<in> set states"
  shows "key \<in> fst ` set d"
proof -
  let ?d = "dict_put ''retention'' (JObj [(''scene_state'', jstr sc)])
      (dict_put ''raw_available'' (jbool False) (dict_put ''indexed_attributes'' (JObj d)
        (dict_put ''registered_fields'' (JObj d) (case obj_of n of None \<Rightarrow> [] | Some d \<Rightarrow> d))))"
  have "states = field_availability (JObj ?d) True"
    using assms(1) by (simp add: pruned_normalized_def Let_def)
  then show ?thesis
    using field_availability_pruned [of key "JObj ?d" d] assms(2) by simp
qed

subsection \<open>Samples\<close>

definition sample_maintenance :: maintenance_settings where
  "sample_maintenance =
     \<lparr>ms_retention_enabled = True, ms_delivered_retention_days = 1, ms_dead_letter_retention_days = 2,
      ms_retention_batch_size = 10, ms_inbox_max_live_events = 1, ms_inbox_max_raw_bytes = 100\<rparr>"

definition sample_old_row :: inbox_event where
  "sample_old_row =
     (sample_inbox_row 1)\<lparr>ie_status := IS_delivered, ie_delivered_at := Some 0, ie_finalized_at := Some 0,
        ie_payload_json := [(''module'', jstr ''crash''), (''scene'', jstr ''checkout'')],
        ie_normalized_json := JObj [(''indexed_attributes'', JObj [(''n'', jint 3), (''s'', jstr ''x'')]),
          (''field_states'', JObj [(''n'', jstr ''AVAILABLE''), (''s'', jstr ''AVAILABLE'')])]\<rparr>"

definition sample_tables :: maintenance_tables where
  "sample_tables = \<lparr>mt_inbox = [sample_old_row], mt_jobs = [], mt_windows = [], mt_audit = []\<rparr>"

subsection \<open>Properties\<close>

text \<open>
  C33. A retention pass touches only settled rows: it never adds, removes or reorders inbox rows, it
  keeps the identifier, the identity columns and the delivery state of every row, and a row it
  changes was delivered or dead-lettered longer ago than its retention period, was not pruned
  before and had no unfinished symbolization job. At most one batch is pruned, and no job changes
  its state.
\<close>

theorem retention_prunes_only_settled:
  assumes "maintain_once st dialect locked observed written db = Inr (db', n, q)"
    and "inbox_primary_key (mt_inbox db)"
  shows "length (mt_inbox db') = length (mt_inbox db) \<and>
         (\<forall>i < length (mt_inbox db).
            let r = mt_inbox db ! i; s = mt_inbox db' ! i
            in ie_id s = ie_id r \<and> row_identity s = row_identity r \<and> ie_status s = ie_status r \<and>
               (s \<noteq> r \<longrightarrow> prunable st observed (mt_jobs db) r \<and> ms_retention_enabled st)) \<and>
         n \<le> ms_retention_batch_size st \<and>
         map (\<lambda>j. (sj_inbox_event_id j, sj_status j)) (mt_jobs db') =
         map (\<lambda>j. (sj_inbox_event_id j, sj_status j)) (mt_jobs db)"
proof (cases "ms_retention_enabled st")
  case True
  note D = maintain_onceD [OF assms(1) True assms(2)]
  have len: "length (mt_inbox db') = length (mt_inbox db)"
    using row_change_maps(1) [OF D(1)] .
  have row: "let r = mt_inbox db ! i; s = mt_inbox db' ! i
      in ie_id s = ie_id r \<and> row_identity s = row_identity r \<and> ie_status s = ie_status r \<and>
         (s \<noteq> r \<longrightarrow> prunable st observed (mt_jobs db) r \<and> ms_retention_enabled st)"
    if "i < length (mt_inbox db)" for i
  proof -
    define r s where "r = mt_inbox db ! i" and "s = mt_inbox db' ! i"
    have c: "ie_id s = ie_id r" "row_identity s = row_identity r" "s = r \<or> prune_change st observed (mt_jobs db) r s"
      using D(1) that by (simp_all add: row_change_def list_all2_conv_all_nth r_def s_def)
    have "ie_status s = ie_status r" "s \<noteq> r \<longrightarrow> prunable st observed (mt_jobs db) r"
      using c(3) prune_rowD(3) by (auto simp: prune_change_def)
    then show ?thesis
      using c(1,2) True by (simp add: r_def s_def Let_def)
  qed
  have "n \<le> ms_retention_batch_size st"
    unfolding D(5) by (simp add: prune_selection_def)
  then show ?thesis
    using len row by (intro conjI allI impI) (simp_all only: D(4) prune_jobs_status)
next
  case False
  then show ?thesis using assms(1) by (simp add: maintain_once_def)
qed

theorem retention_prunes_only_settled_witness:
  "\<exists>db'. maintain_once sample_maintenance Sqlite (\<lambda>_. False) (days 3) (days 3) sample_tables = Inr (db', 1, 0) \<and>
     length (mt_inbox db') = 1 \<and> mt_inbox db' \<noteq> [sample_old_row] \<and>
     prunable sample_maintenance (days 3) [] sample_old_row"
proof -
  define out where "out = maintain_once sample_maintenance Sqlite (\<lambda>_. False) (days 3) (days 3) sample_tables"
  have "case out of Inr (d, n, q) \<Rightarrow> n = 1 \<and> q = 0 \<and> map ie_raw_pruned_at (mt_inbox d) = [Some (days 3)] | _ \<Rightarrow> False"
    and i: "inbox_primary_key (mt_inbox sample_tables)" "mt_inbox sample_tables = [sample_old_row]"
      "mt_jobs sample_tables = []" "ie_raw_pruned_at sample_old_row = None"
    unfolding out_def by code_simp+
  then obtain d where d: "out = Inr (d, 1, 0)" "map ie_raw_pruned_at (mt_inbox d) = [Some (days 3)]"
    by (auto split: sum.splits)
  note c = retention_prunes_only_settled [OF d(1) [unfolded out_def] i(1)]
  have ne: "mt_inbox d ! 0 \<noteq> sample_old_row" and l: "length (mt_inbox d) = 1"
    using d(2) i(4) by (auto simp: Cons_eq_map_conv)
  then have "mt_inbox d \<noteq> [sample_old_row]" by auto
  moreover have "prunable sample_maintenance (days 3) [] sample_old_row"
    using c ne i by (simp add: Let_def)
  ultimately show ?thesis
    using d(1) l by (auto simp: out_def)
qed

text \<open>
  C34. A pruned row holds no raw evidence: of the payload only module and name are left, the
  registered and the indexed fields are the same dictionary of numbers and booleans, the native
  frames and the error message are gone, the row no longer counts towards the raw bytes, and a
  field is still reported as available only if its value was kept.
\<close>

theorem pruned_rows_hold_no_raw:
  assumes "maintain_once st dialect locked observed written db = Inr (db', n, q)"
    and "inbox_primary_key (mt_inbox db)" and "s \<in> set (mt_inbox db')" and "s \<notin> set (mt_inbox db)"
  shows "fst ` set (ie_payload_json s) \<subseteq> {''module'', ''name''} \<and>
         ie_native_identity_json s = [] \<and> ie_last_error_message s = None \<and>
         ie_payload_size_bytes s = 0 \<and> ie_raw_pruned_at s = Some observed \<and>
         (\<exists>retained. list_all (is_number \<circ> snd) retained \<and>
            obj_get ''registered_fields'' (ie_normalized_json s) = Some (JObj retained) \<and>
            obj_get ''indexed_attributes'' (ie_normalized_json s) = Some (JObj retained) \<and>
            obj_get ''raw_available'' (ie_normalized_json s) = Some (jbool False) \<and>
            (\<forall>states key. obj_get ''field_states'' (ie_normalized_json s) = Some (JObj states) \<longrightarrow>
               (key, jstr ''AVAILABLE'') \<in> set states \<longrightarrow> key \<in> fst ` set retained))"
proof -
  have en: "ms_retention_enabled st"
    using assms(1,3,4) by (cases "ms_retention_enabled st") (auto simp: maintain_once_def)
  obtain r where "prune_row observed r = Inr s"
    using maintain_onceD(3) [OF assms(1) en assms(2,3)] assms(4) by (auto split: if_splits)
  note D = prune_rowD [OF this]
  obtain retained where r: "retained_attributes (ie_normalized_json r) = Some retained"
    and n: "ie_normalized_json s = pruned_normalized (ie_normalized_json r) retained (scene_state (ie_payload_json r))"
    using D(13) by blast
  show ?thesis
    using D(8-12) kept_payload_keys retained_numbers [OF r] pruned_normalized_get pruned_normalized_states n
    by metis
qed

theorem pruned_rows_hold_no_raw_witness:
  "\<exists>db' s. maintain_once sample_maintenance Sqlite (\<lambda>_. False) (days 3) (days 3) sample_tables = Inr (db', 1, 0) \<and>
     s \<in> set (mt_inbox db') \<and> fst ` set (ie_payload_json s) \<subseteq> {''module'', ''name''}"
proof -
  define out where "out = maintain_once sample_maintenance Sqlite (\<lambda>_. False) (days 3) (days 3) sample_tables"
  have "case out of Inr (d, n, q) \<Rightarrow> n = 1 \<and> q = 0 \<and> map ie_raw_pruned_at (mt_inbox d) = [Some (days 3)] | _ \<Rightarrow> False"
    and i: "inbox_primary_key (mt_inbox sample_tables)" "mt_inbox sample_tables = [sample_old_row]"
      "ie_raw_pruned_at sample_old_row = None"
    unfolding out_def by code_simp+
  then obtain d where d: "out = Inr (d, 1, 0)" "map ie_raw_pruned_at (mt_inbox d) = [Some (days 3)]"
    by (auto split: sum.splits)
  then obtain s where s: "mt_inbox d = [s]" "ie_raw_pruned_at s = Some (days 3)"
    by (auto simp: Cons_eq_map_conv)
  have "s \<in> set (mt_inbox d)" "s \<notin> set (mt_inbox sample_tables)"
    using s i by auto
  then show ?thesis
    using pruned_rows_hold_no_raw [OF d(1) [unfolded out_def] i(1)] d(1) unfolding out_def by blast
qed

text \<open>
  Admission counts at most one row more than the limit, and decides exactly as a full count
  would: a batch is admitted if and only if the live rows and the unpruned bytes are within their
  limits; otherwise, and on a timeout, the client gets a retryable 503.
\<close>

theorem capacity_check_exact:
  assumes "0 \<le> ms_inbox_max_live_events st"
  shows "check_inbox_capacity st timely tbl =
           (if timely \<and> int (length (filter (\<lambda>r. live_status (ie_status r)) tbl)) \<le> ms_inbox_max_live_events st \<and>
               raw_bytes tbl \<le> ms_inbox_max_raw_bytes st
            then Inr () else Inl capacity_error)"
  using assms by (auto simp: check_inbox_capacity_def Let_def)

theorem capacity_check_exact_witness:
  "check_inbox_capacity sample_maintenance True [sample_inbox_row 1, sample_inbox_row 2] = Inl capacity_error"
proof -
  have "0 \<le> ms_inbox_max_live_events sample_maintenance"
    "\<not> int (length (filter (\<lambda>r. live_status (ie_status r)) [sample_inbox_row 1, sample_inbox_row 2])) \<le>
       ms_inbox_max_live_events sample_maintenance"
    by code_simp+
  then show ?thesis
    using capacity_check_exact [of sample_maintenance True "[sample_inbox_row 1, sample_inbox_row 2]"]
    by (simp only: simp_thms if_False)
qed

end
