(* ===== verification/Apm_Ingest_Api.thy ===== *)
theory Apm_Ingest_Api
  imports Apm_Envelope Apm_Maintenance
begin

section \<open>The ingestion endpoint\<close>

text \<open>
  \<^verbatim>\<open>api/ingest.py\<close>: header checks, content negotiation, bounded body, decoding and the one database
  transaction behind a 2xx answer. A request holds its headers in order with the text the framework
  decodes from them, the chunks of its body and the request id of the middleware. \<open>gateway_env\<close>
  collects what the handler calls outside its own code (the generated Protobuf parsers, zlib, the
  clocks, the stored keys), \<open>gateway\<close> is the state it changes. \<open>seen\<close> is the inbox as the first
  statement of the insertion reads it, other writers may have committed since.
\<close>

record request =
  rq_headers :: "(string \<times> string) list"
  rq_chunks :: "string list"
  rq_request_id :: string

record ingest_settings =
  gs_ingest_enabled :: bool
  gs_max_compressed_body_bytes :: int
  gs_max_decompressed_body_bytes :: int
  gs_max_batch_events :: nat
  gs_symbolization_enabled :: bool
  gs_installation_hmac_keys_json :: string
  gs_installation_hmac_active_key_version :: string
  gs_capacity :: maintenance_settings

record 's gateway_env =
  ge_runtime :: runtime
  ge_dialect :: dialect
  ge_now :: time
  ge_auth :: auth_env
  ge_keys :: "ingest_key list"
  ge_tenants :: "tenant list"
  ge_zlib :: "'s zlib_ops"
  ge_parse_event :: "string \<Rightarrow> event_message option"
  ge_parse_v2 :: "string \<Rightarrow> envelope_message option"
  ge_parse_v3 :: "string \<Rightarrow> envelope_message option"
  ge_timely :: bool

record gateway =
  gw_auth :: auth_state
  gw_tables :: maintenance_tables

subsection \<open>Headers\<close>

definition DEFAULT_RETRY_AFTER_SECONDS :: int where [consts_simps]: "DEFAULT_RETRY_AFTER_SECONDS = 5"
definition GZIP_CONTENT_ENCODING :: string where [consts_simps]: "GZIP_CONTENT_ENCODING = ''gzip''"
definition HEADER_SCHEMA_VERSION :: string where [consts_simps]: "HEADER_SCHEMA_VERSION = ''X-APM-Schema-Version''"
definition HEADER_APP_ID :: string where [consts_simps]: "HEADER_APP_ID = ''X-APM-App-Id''"
definition HEADER_ENVIRONMENT :: string where [consts_simps]: "HEADER_ENVIRONMENT = ''X-APM-Environment''"
definition HEADER_SDK_VERSION :: string where [consts_simps]: "HEADER_SDK_VERSION = ''X-APM-SDK-Version''"
definition HEADER_APP_VERSION :: string where [consts_simps]: "HEADER_APP_VERSION = ''X-APM-App-Version''"
definition HEADER_APP_BUILD :: string where [consts_simps]: "HEADER_APP_BUILD = ''X-APM-App-Build''"
definition HEADER_BATCH_ID :: string where [consts_simps]: "HEADER_BATCH_ID = ''X-Apm-Batch-Id''"
definition HEADER_EVENT_COUNT :: string where [consts_simps]: "HEADER_EVENT_COUNT = ''X-Apm-Event-Count''"
definition HEADER_VERSION_CODE :: string where [consts_simps]: "HEADER_VERSION_CODE = ''X-APM-Version-Code''"
definition HEADER_VARIANT :: string where [consts_simps]: "HEADER_VARIANT = ''X-APM-Variant''"
definition HEADER_INSTALLATION_ID :: string where [consts_simps]: "HEADER_INSTALLATION_ID = ''X-APM-Installation-Id''"

definition SUPPORTED_SCHEMA_VERSIONS :: "string list" where
  "SUPPORTED_SCHEMA_VERSIONS = [SCHEMA_VERSION_V1, SCHEMA_VERSION_V2, SCHEMA_VERSION_V3]"

definition SUPPORTED_CONTENT_TYPES :: "string list" where
  "SUPPORTED_CONTENT_TYPES = [LINE_CONTENT_TYPE, PROTOBUF_CONTENT_TYPE]"

definition header_get :: "request \<Rightarrow> string \<Rightarrow> string option" where
  "header_get rq name = map_of (map (\<lambda>(k, v). (py_lower k, v)) (rq_headers rq)) (py_lower name)"

definition invalid_request :: "string \<Rightarrow> exn" where
  "invalid_request msg = mk_error 400 ''invalid_request'' msg False None"

definition validate_header_value :: "string \<Rightarrow> string \<Rightarrow> nat \<Rightarrow> string result" where
  "validate_header_value v name max_bytes =
     (if length v > max_bytes then Inl (invalid_request (''Header is too long: '' @ name))
      else if list_ex is_control v
      then Inl (invalid_request (''Header contains control characters: '' @ name))
      else Inr v)"

definition required_header :: "request \<Rightarrow> string \<Rightarrow> nat \<Rightarrow> string result" where
  "required_header rq name max_bytes =
     (case header_get rq name of
        None \<Rightarrow> Inl (invalid_request (''Missing required header: '' @ name))
      | Some v \<Rightarrow>
          if py_strip v = [] then Inl (invalid_request (''Missing required header: '' @ name))
          else validate_header_value (py_strip v) name max_bytes)"

definition optional_header :: "request \<Rightarrow> string \<Rightarrow> nat \<Rightarrow> string option result" where
  "optional_header rq name max_bytes =
     (case header_get rq name of
        None \<Rightarrow> Inr None
      | Some v \<Rightarrow>
          if py_strip v = [] then Inr None
          else rbind (validate_header_value (py_strip v) name max_bytes) (\<lambda>v. Inr (Some v)))"

subsection \<open>Content negotiation\<close>

definition unsupported_media_type :: "string \<Rightarrow> exn" where
  "unsupported_media_type msg = mk_error 415 ''unsupported_media_type'' msg False None"

definition strip_quotes :: "string \<Rightarrow> string" where
  "strip_quotes s =
     rev (dropWhile (\<lambda>c. c = CHR 0x22) (rev (dropWhile (\<lambda>c. c = CHR 0x22) s)))"

fun media_parameters :: "string list \<Rightarrow> (string \<times> string) list \<Rightarrow> (string \<times> string) list result" where
  "media_parameters [] ps = Inr ps"
| "media_parameters (part # rest) ps =
     (if part = [] then media_parameters rest ps
      else case partition_on CHR ''='' part of
        (k, False, v) \<Rightarrow> Inl (unsupported_media_type ''The Content-Type is malformed'')
      | (k, True, v) \<Rightarrow>
          media_parameters rest (dict_put (py_lower (py_strip k)) (strip_quotes (py_strip v)) ps))"

definition negotiate_content_type :: "string \<Rightarrow> (string \<times> string option) result" where
  "negotiate_content_type raw =
     (let parts = map py_strip (split_on CHR '';'' raw);
          base_type = py_lower (hd parts)
      in if base_type \<notin> set SUPPORTED_CONTENT_TYPES
         then Inl (unsupported_media_type ''The Content-Type is not supported'')
         else rbind (media_parameters (tl parts) []) (\<lambda>ps.
           let version = map_of ps ''version'';
               explicit = base_type = PROTOBUF_CONTENT_TYPE \<and>
                 map_of ps ''message'' = Some ''ApmBatchEnvelope'' \<and>
                 version \<in> {Some SCHEMA_VERSION_V2, Some SCHEMA_VERSION_V3}
           in if base_type = PROTOBUF_CONTENT_TYPE \<and>
                 (map_of ps ''message'' \<noteq> None \<or> map_of ps ''version'' \<noteq> None) \<and> \<not> explicit
              then Inl (unsupported_media_type
                ''The supported versioned media types are application/x-protobuf; message=ApmBatchEnvelope; version=2 and application/x-protobuf; message=ApmBatchEnvelope; version=3'')
              else Inr (base_type, if explicit then version else None)))"

subsection \<open>Body\<close>

definition request_too_large :: exn where
  "request_too_large = mk_error 413 ''payload_too_large'' ''The request body is too large'' False None"

fun read_chunks :: "int \<Rightarrow> string list \<Rightarrow> string \<Rightarrow> string result" where
  "read_chunks max_bytes [] body = Inr body"
| "read_chunks max_bytes (chunk # rest) body =
     (if int (length body) + int (length chunk) > max_bytes then Inl request_too_large
      else read_chunks max_bytes rest (body @ chunk))"

definition read_body_bounded :: "runtime \<Rightarrow> request \<Rightarrow> int \<Rightarrow> string result" where
  "read_body_bounded rt rq max_bytes =
     rbind (case header_get rq ''content-length'' of
              None \<Rightarrow> Inr ()
            | Some v \<Rightarrow>
                (case py_int rt v of
                   None \<Rightarrow> Inl (invalid_request ''Content-Length must be an integer'')
                 | Some n \<Rightarrow>
                     if n < 0 then Inl (invalid_request ''Content-Length must not be negative'')
                     else if n > max_bytes then Inl request_too_large
                     else Inr ()))
       (\<lambda>_. read_chunks max_bytes (rq_chunks rq) [])"

definition validate_versioned_request_headers ::
    "runtime \<Rightarrow> request \<Rightarrow> string \<Rightarrow> nat \<Rightarrow> unit result" where
  "validate_versioned_request_headers rt rq body_batch_id body_event_count =
     rbind (required_header rq HEADER_BATCH_ID 128) (\<lambda>batch_id.
     rbind (required_header rq HEADER_EVENT_COUNT 16) (\<lambda>count_text.
     case py_int rt count_text of
       None \<Rightarrow> Inl (invalid_request (HEADER_EVENT_COUNT @ '' must be an integer''))
     | Some event_count \<Rightarrow>
         guard (batch_id = body_batch_id \<and> event_count = int body_event_count)
           (invalid_request ''The batch identity or event count does not match the versioned body'')))"

definition load_installation_key_ring :: "runtime \<Rightarrow> ingest_settings \<Rightarrow> installation_hmac_key_ring result" where
  "load_installation_key_ring rt st =
     (case parse_key_ring rt (gs_installation_hmac_keys_json st) (gs_installation_hmac_active_key_version st) of
        Inl _ \<Rightarrow> Inl (mk_error 503 ''identity_service_unavailable''
                         ''Installation pseudonymization is not configured'' True None)
      | Inr ring \<Rightarrow> Inr ring)"

subsection \<open>Decoding\<close>

text \<open>
  What the three protocol branches produce: the events, the declared app version and installation
  with their qualities, and the acknowledgement identity of an explicit envelope.
\<close>

record decoded_request =
  dr_events :: "apm_event list"
  dr_app_version :: "string option"
  dr_release_quality :: identity_quality
  dr_installation_quality :: identity_quality
  dr_installation_id :: "string option"
  dr_ack :: "(string \<times> nat) option"

definition matches_declaration :: "bool \<Rightarrow> string \<Rightarrow> unit result" where
  "matches_declaration ok msg = guard ok (invalid_request msg)"

definition decode_v2_request ::
    "'s gateway_env \<Rightarrow> ingest_settings \<Rightarrow> request \<Rightarrow> string \<Rightarrow> string \<Rightarrow> string \<Rightarrow> string
       \<Rightarrow> decoded_request result" where
  "decode_v2_request env st rq app_id environment sdk_version payload =
     rbind (decode_envelope_v2 (ge_runtime env) (ge_now env) (ge_parse_v2 env) payload (gs_max_batch_events st)) (\<lambda>e.
     rbind (validate_versioned_request_headers (ge_runtime env) rq (de2_batch_id e) (length (de2_events e))) (\<lambda>_.
     rbind (matches_declaration (de2_sdk_version e = sdk_version)
              ''The SDK version header does not match the V2 envelope'') (\<lambda>_.
     rbind (matches_declaration (de2_service_name e = app_id)
              ''The app identity header does not match the V2 resource'') (\<lambda>_.
     rbind (matches_declaration (de2_deployment_environment e = environment)
              ''The environment header does not match the V2 resource'') (\<lambda>_.
     rbind (optional_header rq HEADER_APP_VERSION MAX_IDENTIFIER_BYTES) (\<lambda>app_version.
     rbind (matches_declaration (app_version \<in> {None, Some (de2_service_version e)})
              ''The app version header does not match the V2 resource'') (\<lambda>_.
     Inr \<lparr>dr_events = de2_events e, dr_app_version = Some (de2_service_version e),
          dr_release_quality = BATCH_DECLARED, dr_installation_quality = BATCH_DECLARED,
          dr_installation_id = Some (de2_installation_id e),
          dr_ack = Some (de2_batch_id e, length (de2_events e))\<rparr>)))))))"

definition decode_v3_request ::
    "'s gateway_env \<Rightarrow> ingest_settings \<Rightarrow> request \<Rightarrow> string \<Rightarrow> string \<Rightarrow> string \<Rightarrow> string
       \<Rightarrow> decoded_request result" where
  "decode_v3_request env st rq app_id environment sdk_version payload =
     rbind (decode_envelope_v3 (ge_runtime env) (ge_now env) (ge_parse_v3 env) payload (gs_max_batch_events st)) (\<lambda>e.
     rbind (validate_versioned_request_headers (ge_runtime env) rq (de3_batch_id e) (length (de3_events e))) (\<lambda>_.
     rbind (matches_declaration (de3_sdk_version e = sdk_version)
              ''The SDK version header does not match the V3 envelope'') (\<lambda>_.
     rbind (matches_declaration (de3_service_name e = app_id)
              ''The app identity header does not match the V3 resource'') (\<lambda>_.
     rbind (matches_declaration (de3_deployment_environment e = environment)
              ''The environment header does not match the V3 resource'') (\<lambda>_.
     rbind (optional_header rq HEADER_APP_VERSION MAX_IDENTIFIER_BYTES) (\<lambda>app_version.
     Inr \<lparr>dr_events = de3_events e, dr_app_version = app_version,
          dr_release_quality = OCCURRENCE_BOUND, dr_installation_quality = OCCURRENCE_BOUND,
          dr_installation_id = None, dr_ack = Some (de3_batch_id e, length (de3_events e))\<rparr>))))))"

definition decode_v1_request ::
    "'s gateway_env \<Rightarrow> ingest_settings \<Rightarrow> request \<Rightarrow> string \<Rightarrow> string \<Rightarrow> decoded_request result" where
  "decode_v1_request env st rq content_type payload =
     rbind (decode_batch (ge_runtime env) (ge_now env) (ge_parse_event env) payload content_type
              (gs_max_batch_events st) MAX_EVENT_JSON_BYTES) (\<lambda>events.
     rbind (optional_header rq HEADER_APP_VERSION MAX_IDENTIFIER_BYTES) (\<lambda>app_version.
     rbind (optional_header rq HEADER_INSTALLATION_ID 256) (\<lambda>installation_id.
     Inr \<lparr>dr_events = events, dr_app_version = app_version,
          dr_release_quality = (if app_version \<noteq> None then REQUEST_DECLARED else ABSENT),
          dr_installation_quality = (if installation_id \<noteq> None then REQUEST_DECLARED else ABSENT),
          dr_installation_id = installation_id, dr_ack = None\<rparr>)))"

definition request_metadata ::
    "request \<Rightarrow> principal \<Rightarrow> string \<Rightarrow> string \<Rightarrow> string \<Rightarrow> string \<Rightarrow> string \<Rightarrow> decoded_request
       \<Rightarrow> ingest_metadata result" where
  "request_metadata rq p app_id environment schema_version sdk_version protocol dr =
     rbind (optional_header rq HEADER_APP_BUILD MAX_IDENTIFIER_BYTES) (\<lambda>app_build.
     rbind (optional_header rq HEADER_VERSION_CODE 64) (\<lambda>version_code.
     rbind (optional_header rq HEADER_VARIANT MAX_IDENTIFIER_BYTES) (\<lambda>variant.
     Inr \<lparr>md_request_id = rq_request_id rq, md_tenant_id = pr_tenant_id p, md_app_id = app_id,
          md_environment = environment, md_schema_version = schema_version,
          md_sdk_version = sdk_version, md_app_version = dr_app_version dr,
          md_app_build = app_build, md_version_code = version_code, md_variant = variant,
          md_protocol = protocol, md_release_identity_quality = dr_release_quality dr,
          md_installation_identity_quality = dr_installation_quality dr,
          md_installation_id = dr_installation_id dr\<rparr>)))"

subsection \<open>The transaction and the handler\<close>

definition ingest_transaction ::
    "'s gateway_env \<Rightarrow> ingest_settings \<Rightarrow> principal \<Rightarrow> ingest_metadata \<Rightarrow> apm_event list
       \<Rightarrow> installation_hmac_key_ring option \<Rightarrow> inbox_event list \<Rightarrow> maintenance_tables
       \<Rightarrow> (maintenance_tables \<times> insert_result) result" where
  "ingest_transaction env st p md events keys seen db =
     rbind (consume_quota (ge_dialect env) p (int (length events)) (ge_now env) (mt_windows db)) (\<lambda>windows.
     rbind (insert_batch (ge_runtime env) (ge_dialect env) (ge_now env) md events keys seen (mt_inbox db))
       (\<lambda>(inbox, res).
     rbind (enqueue_symbolization_jobs (ge_runtime env) (ge_dialect env) (gs_symbolization_enabled st)
              (ge_now env) md events inbox (mt_jobs db)) (\<lambda>(inbox', jobs, _).
     rbind (if ir_inserted res \<noteq> 0 then check_inbox_capacity (gs_capacity st) (ge_timely env) inbox'
            else Inr ()) (\<lambda>_.
     Inr (db\<lparr>mt_inbox := inbox', mt_jobs := jobs, mt_windows := windows\<rparr>, res)))))"

record ingest_response =
  rs_ack :: ingest_ack
  rs_headers :: "(string \<times> string) list"

record negotiated =
  ng_app_id :: string
  ng_environment :: string
  ng_schema_version :: string
  ng_sdk_version :: string
  ng_content_type :: string
  ng_envelope_version :: "string option"
  ng_content_encoding :: string

definition protocol_label :: "negotiated \<Rightarrow> string" where
  "protocol_label n =
     (case ng_envelope_version n of
        Some v \<Rightarrow> ''protobuf_envelope_v'' @ v
      | None \<Rightarrow> if ng_content_type n = LINE_CONTENT_TYPE then ''line'' else ''protobuf'')"

text \<open>The checks before authentication.\<close>

definition negotiate_request :: "ingest_settings \<Rightarrow> request \<Rightarrow> negotiated result" where
  "negotiate_request st rq =
     rbind (guard (gs_ingest_enabled st)
              (mk_error_h 503 ''temporarily_unavailable'' ''Ingestion is temporarily disabled'' True
                 [(''Retry-After'', int_str DEFAULT_RETRY_AFTER_SECONDS)])) (\<lambda>_.
     rbind (required_header rq HEADER_APP_ID 256) (\<lambda>app_id.
     rbind (required_header rq HEADER_ENVIRONMENT 128) (\<lambda>environment.
     rbind (required_header rq HEADER_SCHEMA_VERSION 32) (\<lambda>schema_version.
     rbind (required_header rq HEADER_SDK_VERSION 64) (\<lambda>sdk_version.
     rbind (guard (schema_version \<in> set SUPPORTED_SCHEMA_VERSIONS)
              (mk_error 400 ''unsupported_schema_version'' ''The schema version is not supported'' False None)) (\<lambda>_.
     rbind (negotiate_content_type
              (case header_get rq ''content-type'' of None \<Rightarrow> [] | Some v \<Rightarrow> v)) (\<lambda>(content_type, version).
     rbind (guard (schema_version = (case version of None \<Rightarrow> SCHEMA_VERSION_V1 | Some v \<Rightarrow> v))
              (mk_error 400 ''unsupported_schema_version''
                 ''The schema version does not match the selected media type'' False None)) (\<lambda>_.
     let encoding = py_lower (py_strip (case header_get rq ''content-encoding'' of None \<Rightarrow> [] | Some v \<Rightarrow> v))
     in
     rbind (guard (encoding \<in> {[], GZIP_CONTENT_ENCODING})
              (mk_error 415 ''unsupported_content_encoding'' ''The Content-Encoding is not supported'' False None)) (\<lambda>_.
     Inr \<lparr>ng_app_id = app_id, ng_environment = environment, ng_schema_version = schema_version,
          ng_sdk_version = sdk_version, ng_content_type = content_type, ng_envelope_version = version,
          ng_content_encoding = encoding\<rparr>)))))))))"

definition request_payload :: "'s gateway_env \<Rightarrow> ingest_settings \<Rightarrow> request \<Rightarrow> negotiated \<Rightarrow> string result" where
  "request_payload env st rq n =
     (if ng_content_encoding n = GZIP_CONTENT_ENCODING
      then rbind (read_body_bounded (ge_runtime env) rq (gs_max_compressed_body_bytes st)) (\<lambda>payload.
             decompress_gzip_bounded (ge_zlib env) payload (gs_max_decompressed_body_bytes st))
      else read_body_bounded (ge_runtime env) rq (gs_max_decompressed_body_bytes st))"

definition decode_request ::
    "'s gateway_env \<Rightarrow> ingest_settings \<Rightarrow> request \<Rightarrow> negotiated \<Rightarrow> string \<Rightarrow> decoded_request result" where
  "decode_request env st rq n payload =
     (if ng_envelope_version n = Some SCHEMA_VERSION_V2
      then decode_v2_request env st rq (ng_app_id n) (ng_environment n) (ng_sdk_version n) payload
      else if ng_envelope_version n = Some SCHEMA_VERSION_V3
      then decode_v3_request env st rq (ng_app_id n) (ng_environment n) (ng_sdk_version n) payload
      else decode_v1_request env st rq (ng_content_type n) payload)"

definition ack_headers :: "negotiated \<Rightarrow> decoded_request \<Rightarrow> (string \<times> string) list" where
  "ack_headers n dr =
     (case (ng_envelope_version n, dr_ack dr) of
        (Some v, Some (batch_id, n)) \<Rightarrow>
          [(HEADER_SCHEMA_VERSION, v), (HEADER_BATCH_ID, batch_id), (HEADER_EVENT_COUNT, int_str (int n))]
      | _ \<Rightarrow> [])"

definition process_batch ::
    "'s gateway_env \<Rightarrow> ingest_settings \<Rightarrow> request \<Rightarrow> negotiated \<Rightarrow> principal \<Rightarrow> inbox_event list
       \<Rightarrow> maintenance_tables \<Rightarrow> (maintenance_tables \<times> ingest_response) result" where
  "process_batch env st rq n p seen db =
     rbind (request_payload env st rq n) (\<lambda>payload.
     rbind (decode_request env st rq n payload) (\<lambda>dr.
     rbind (request_metadata rq p (ng_app_id n) (ng_environment n) (ng_schema_version n)
              (ng_sdk_version n) (protocol_label n) dr) (\<lambda>md.
     rbind (if dr_installation_id dr \<noteq> None \<or> list_ex (\<lambda>e. ev_occurrence e \<noteq> None) (dr_events dr)
            then rbind (load_installation_key_ring (ge_runtime env) st) (\<lambda>ring. Inr (Some ring))
            else Inr None) (\<lambda>keys.
     rbind (ingest_transaction env st p md (dr_events dr) keys seen db) (\<lambda>(db', res).
     Inr (db',
       \<lparr>rs_ack = \<lparr>ack_request_id = md_request_id md, ack_status = ''accepted'',
                  ack_received = ir_received res, ack_inserted = ir_inserted res,
                  ack_duplicates = ir_duplicates res\<rparr>,
        rs_headers = ack_headers n dr\<rparr>))))))"

definition ingest_events ::
    "'s gateway_env \<Rightarrow> ingest_settings \<Rightarrow> request \<Rightarrow> inbox_event list \<Rightarrow> gateway
       \<Rightarrow> gateway \<times> ingest_response result" where
  "ingest_events env st rq seen g =
     (case negotiate_request st rq of
        Inl e \<Rightarrow> (g, Inl e)
      | Inr n \<Rightarrow>
          (case authenticate_ingest_key (ge_auth env) (ge_keys env) (ge_tenants env)
                  (header_get rq ''authorization'') (ng_app_id n) (ng_environment n) (gw_auth g) of
             (a, Inl e) \<Rightarrow> (g\<lparr>gw_auth := a\<rparr>, Inl e)
           | (a, Inr p) \<Rightarrow>
               (case process_batch env st rq n p seen (gw_tables g) of
                  Inl e \<Rightarrow> (g\<lparr>gw_auth := a\<rparr>, Inl e)
                | Inr (db, response) \<Rightarrow> (g\<lparr>gw_auth := a, gw_tables := db\<rparr>, Inr response))))"

subsection \<open>Lemmas\<close>

lemma stored_as_identity: "row_identity r = row_identity s \<Longrightarrow> stored_as rt md keys e r \<longleftrightarrow> stored_as rt md keys e s"
  by (simp add: stored_as_def row_identity_def split: sum.splits)

lemma row_change_filter_key:
  assumes "row_change p a b" and "filter (\<lambda>r. inbox_key r = k) a = [r]"
  shows "\<exists>s. filter (\<lambda>r. inbox_key r = k) b = [s] \<and> row_identity s = row_identity r"
proof -
  have "list_all2 (\<lambda>r s. inbox_key s = inbox_key r \<and> row_identity s = row_identity r) a b"
    using assms(1) unfolding row_change_def
    by (rule list_all2_mono) (metis row_identity_key)
  then have "list_all2 (\<lambda>r s. inbox_key s = inbox_key r \<and> row_identity s = row_identity r)
      (filter (\<lambda>r. inbox_key r = k) a) (filter (\<lambda>r. inbox_key r = k) b)"
    by (induction rule: list_all2_induct) auto
  then show ?thesis
    by (auto simp: assms(2) list_all2_Cons1)
qed

lemma load_ring_wf: "load_installation_key_ring rt st = Inr ring \<Longrightarrow> wf_keys (Some ring)"
  using parse_key_ring_valid by (auto simp: load_installation_key_ring_def wf_keys_def split: sum.splits)

lemma read_chunks_eq:
  "read_chunks m chunks body =
     (if int (length body + length (concat chunks)) \<le> m \<or> chunks = [] then Inr (body @ concat chunks)
      else Inl request_too_large)"
  by (induction m chunks body rule: read_chunks.induct) auto

lemma negotiate_content_typeD:
  assumes "negotiate_content_type raw = Inr (ct, v)"
  shows "ct \<in> set SUPPORTED_CONTENT_TYPES" and "v \<noteq> None \<Longrightarrow> ct = PROTOBUF_CONTENT_TYPE"
    and "v \<in> {None, Some SCHEMA_VERSION_V2, Some SCHEMA_VERSION_V3}"
  using assms by (auto simp: negotiate_content_type_def Let_def split: if_splits)

lemma negotiate_requestD:
  assumes "negotiate_request st rq = Inr n"
  shows "ng_content_type n \<in> set SUPPORTED_CONTENT_TYPES"
    and "ng_envelope_version n \<in> {None, Some SCHEMA_VERSION_V2, Some SCHEMA_VERSION_V3}"
    and "ng_schema_version n = (case ng_envelope_version n of None \<Rightarrow> SCHEMA_VERSION_V1 | Some v \<Rightarrow> v)"
    and "gs_ingest_enabled st"
proof -
  obtain raw ct v where c: "negotiate_content_type raw = Inr (ct, v)"
    and n: "ng_content_type n = ct" "ng_envelope_version n = v"
      "ng_schema_version n = (case v of None \<Rightarrow> SCHEMA_VERSION_V1 | Some v \<Rightarrow> v)" "gs_ingest_enabled st"
    using assms by (auto simp: negotiate_request_def Let_def)
  show "ng_content_type n \<in> set SUPPORTED_CONTENT_TYPES"
    and "ng_envelope_version n \<in> {None, Some SCHEMA_VERSION_V2, Some SCHEMA_VERSION_V3}"
    and "ng_schema_version n = (case ng_envelope_version n of None \<Rightarrow> SCHEMA_VERSION_V1 | Some v \<Rightarrow> v)"
    and "gs_ingest_enabled st"
    using negotiate_content_typeD(1,3) [OF c] n by simp_all
qed

lemma decode_request_ack:
  assumes "decode_request env st rq n payload = Inr dr"
    and "ng_envelope_version n \<in> {None, Some SCHEMA_VERSION_V2, Some SCHEMA_VERSION_V3}"
  shows "case ng_envelope_version n of
           None \<Rightarrow> dr_ack dr = None
         | Some v \<Rightarrow> \<exists>b. required_header rq HEADER_BATCH_ID 128 = Inr b \<and> dr_ack dr = Some (b, length (dr_events dr))"
  using assms
  by (auto simp: decode_request_def decode_v1_request_def decode_v2_request_def decode_v3_request_def
      validate_versioned_request_headers_def consts_simps split: option.splits if_splits)

lemma decode_request_nonempty:
  assumes "decode_request env st rq n payload = Inr dr"
  shows "dr_events dr \<noteq> [] \<and> length (dr_events dr) \<le> gs_max_batch_events st"
proof -
  consider (v2) e where "decode_envelope_v2 (ge_runtime env) (ge_now env) (ge_parse_v2 env) payload (gs_max_batch_events st) = Inr e"
      "dr_events dr = de2_events e"
    | (v3) e where "decode_envelope_v3 (ge_runtime env) (ge_now env) (ge_parse_v3 env) payload (gs_max_batch_events st) = Inr e"
      "dr_events dr = de3_events e"
    | (v1) "decode_batch (ge_runtime env) (ge_now env) (ge_parse_event env) payload (ng_content_type n)
        (gs_max_batch_events st) MAX_EVENT_JSON_BYTES = Inr (dr_events dr)"
    using assms
    by (auto simp: decode_request_def decode_v1_request_def decode_v2_request_def decode_v3_request_def
        split: if_splits)
  then show ?thesis
  proof cases
    case (v2 e)
    show ?thesis by (rule decode_envelope_v2D [OF v2(1)]) (simp add: v2(2))
  next
    case (v3 e)
    show ?thesis by (rule decode_envelope_v3D [OF v3(1)]) (simp add: v3(2))
  next
    case v1
    then show ?thesis using decode_batch_ok by blast
  qed
qed

lemma ingest_transactionD:
  assumes "ingest_transaction env st p md events keys seen db = Inr (db', res)"
  obtains inbox where
    "insert_batch (ge_runtime env) (ge_dialect env) (ge_now env) md events keys seen (mt_inbox db) = Inr (inbox, res)"
    "\<exists>k. enqueue_symbolization_jobs (ge_runtime env) (ge_dialect env) (gs_symbolization_enabled st) (ge_now env) md
       events inbox (mt_jobs db) = Inr (mt_inbox db', mt_jobs db', k)"
    "consume_quota (ge_dialect env) p (int (length events)) (ge_now env) (mt_windows db) = Inr (mt_windows db')"
    "ir_inserted res \<noteq> 0 \<Longrightarrow> check_inbox_capacity (gs_capacity st) (ge_timely env) (mt_inbox db') = Inr ()"
    "mt_audit db' = mt_audit db"
  using assms by (auto simp: ingest_transaction_def split: if_splits)

lemma process_batchD:
  assumes "process_batch env st rq n p seen db = Inr (db', response)"
  obtains dr md keys res where "\<exists>payload. request_payload env st rq n = Inr payload \<and> decode_request env st rq n payload = Inr dr"
    "request_metadata rq p (ng_app_id n) (ng_environment n) (ng_schema_version n) (ng_sdk_version n)
       (protocol_label n) dr = Inr md"
    "wf_keys keys" "ingest_transaction env st p md (dr_events dr) keys seen db = Inr (db', res)"
    "response = \<lparr>rs_ack = \<lparr>ack_request_id = md_request_id md, ack_status = ''accepted'',
       ack_received = ir_received res, ack_inserted = ir_inserted res, ack_duplicates = ir_duplicates res\<rparr>,
       rs_headers = ack_headers n dr\<rparr>"
proof -
  from assms obtain payload dr md keys res where
    "request_payload env st rq n = Inr payload" "decode_request env st rq n payload = Inr dr"
    "request_metadata rq p (ng_app_id n) (ng_environment n) (ng_schema_version n) (ng_sdk_version n)
       (protocol_label n) dr = Inr md"
    and k: "(if dr_installation_id dr \<noteq> None \<or> list_ex (\<lambda>e. ev_occurrence e \<noteq> None) (dr_events dr)
            then rbind (load_installation_key_ring (ge_runtime env) st) (\<lambda>ring. Inr (Some ring))
            else Inr None) = Inr keys"
    and "ingest_transaction env st p md (dr_events dr) keys seen db = Inr (db', res)"
    "response = \<lparr>rs_ack = \<lparr>ack_request_id = md_request_id md, ack_status = ''accepted'',
       ack_received = ir_received res, ack_inserted = ir_inserted res, ack_duplicates = ir_duplicates res\<rparr>,
       rs_headers = ack_headers n dr\<rparr>"
    unfolding process_batch_def by (auto simp del: not_None_eq split del: if_split)
  moreover have "wf_keys keys"
    using k load_ring_wf by (auto simp: wf_keys_def split: if_splits)
  ultimately show thesis using that by blast
qed

lemma ingest_eventsD:
  assumes "ingest_events env st rq seen g = (g', Inr response)"
  obtains n p a where "negotiate_request st rq = Inr n"
    "authenticate_ingest_key (ge_auth env) (ge_keys env) (ge_tenants env) (header_get rq ''authorization'')
       (ng_app_id n) (ng_environment n) (gw_auth g) = (a, Inr p)"
    "process_batch env st rq n p seen (gw_tables g) = Inr (gw_tables g', response)"
proof -
  obtain n where n: "negotiate_request st rq = Inr n"
    using assms by (cases "negotiate_request st rq") (auto simp: ingest_events_def)
  obtain a q where a: "authenticate_ingest_key (ge_auth env) (ge_keys env) (ge_tenants env)
      (header_get rq ''authorization'') (ng_app_id n) (ng_environment n) (gw_auth g) = (a, q)"
    by fastforce
  obtain p where p: "q = Inr p"
    using assms n a by (cases q) (auto simp: ingest_events_def)
  have "process_batch env st rq n p seen (gw_tables g) = Inr (gw_tables g', response)"
    using assms n a p
    by (cases "process_batch env st rq n p seen (gw_tables g)") (auto simp: ingest_events_def)
  then show thesis using that n a p by blast
qed

lemma to_row_fresh:
  "inbox_row_ok ((to_row rt md now p)\<lparr>ie_id := k\<rparr>)"
  "ie_status ((to_row rt md now p)\<lparr>ie_id := k\<rparr>) = IS_pending"
  by (simp_all add: to_row_def inbox_row_ok_def inbox_lease_def lease_ok_def finalized_def)

lemma insert_batch_new:
  assumes "insert_batch rt d now md events keys seen tbl = Inr (tbl', res)"
  shows "\<exists>new. tbl' = tbl @ new \<and> (\<forall>n \<in> set new. inbox_row_ok n \<and> ie_status n = IS_pending)"
proof (rule insert_batchD [OF assms])
  fix prepared new
  assume t: "tbl' = tbl @ new"
    and n: "\<And>n. n \<in> set new \<Longrightarrow> inbox_key n \<notin> inbox_key ` set tbl \<and>
        (\<exists>i p k. (i, p) \<in> set prepared \<and> n = (to_row rt md now p)\<lparr>ie_id := k\<rparr>)"
  have "inbox_row_ok n \<and> ie_status n = IS_pending" if "n \<in> set new" for n
    using n [OF that] to_row_fresh by metis
  then show ?thesis using t by blast
qed

lemma insert_batch_awaits:
  assumes "insert_batch rt d now md events keys seen tbl = Inr (tbl', res)" and "awaits_unfinished tbl jobs"
  shows "awaits_unfinished tbl' jobs"
proof -
  obtain new where "tbl' = tbl @ new" "\<forall>n \<in> set new. ie_status n = IS_pending"
    using insert_batch_new [OF assms(1)] by blast
  then show ?thesis
    using assms(2) unfolding awaits_unfinished_def by (simp add: ball_Un)
qed

text \<open>The row of an event after the transaction: jobs may park it, its identity is untouched.\<close>

lemma transaction_stores:
  assumes "ingest_transaction env st p md events keys seen db = Inr (db', res)"
    and "wf_keys keys" and "wf_inbox (mt_inbox db)" and "covers (mt_inbox db) seen"
    and "wf_jobs M (mt_jobs db)" and "awaits_unfinished (mt_inbox db) (mt_jobs db)" and "0 \<le> M"
    and "e \<in> set events"
  shows "\<exists>r. filter (\<lambda>r. inbox_key r = (md_tenant_id md, ev_event_id e)) (mt_inbox db') = [r] \<and>
           stored_as (ge_runtime env) md keys e r"
proof -
  obtain inbox k where ins: "insert_batch (ge_runtime env) (ge_dialect env) (ge_now env) md events keys seen
      (mt_inbox db) = Inr (inbox, res)"
    and enq: "enqueue_symbolization_jobs (ge_runtime env) (ge_dialect env) (gs_symbolization_enabled st)
      (ge_now env) md events inbox (mt_jobs db) = Inr (mt_inbox db', mt_jobs db', k)"
    by (rule ingest_transactionD [OF assms(1)]) blast
  have aw: "awaits_unfinished inbox (mt_jobs db)"
    by (rule insert_batch_awaits [OF ins assms(6)])
  have pk: "inbox_primary_key inbox"
    using insert_batch_wf(1) [OF ins assms(2,3)] by (simp add: wf_inbox_def)
  obtain r where r: "filter (\<lambda>r. inbox_key r = (md_tenant_id md, ev_event_id e)) inbox = [r]"
    "stored_as (ge_runtime env) md keys e r"
    using accepted_event_stored [OF ins assms(2,3,4,8)] by blast
  obtain s where s: "filter (\<lambda>r. inbox_key r = (md_tenant_id md, ev_event_id e)) (mt_inbox db') = [s]"
    "row_identity s = row_identity r"
    using row_change_filter_key [OF enqueue_keeps(3) [OF enq assms(5) aw pk assms(7)] r(1)] by blast
  show ?thesis
    using s r(2) stored_as_identity [OF s(2)] by blast
qed

lemma request_metadata_tenant:
  "request_metadata rq p app env sv sdk prot dr = Inr md \<Longrightarrow>
     md_tenant_id md = pr_tenant_id p \<and> md_request_id md = rq_request_id rq"
  by (auto simp: request_metadata_def)

subsection \<open>Properties\<close>

definition tables_ok :: "int \<Rightarrow> maintenance_tables \<Rightarrow> bool" where
  "tables_ok M db \<longleftrightarrow>
     wf_inbox (mt_inbox db) \<and> list_all inbox_row_ok (mt_inbox db) \<and> wf_jobs M (mt_jobs db) \<and>
     awaits_unfinished (mt_inbox db) (mt_jobs db)"

definition sample_request :: request where
  "sample_request =
     \<lparr>rq_headers = [(''x-apm-app-id'', ''app''), (''x-apm-environment'', ''prod''), (''x-apm-schema-version'', ''1''),
        (''x-apm-sdk-version'', ''1.0''), (''content-type'', ''text/plain; charset=utf-8''),
        (''authorization'', ''Bearer apm1_'' @ ik_key_id sample_ingest_key @ ''_pw'')],
      rq_chunks = [sample_line ''1000''], rq_request_id = ''rq1''\<rparr>"

definition sample_zlib :: "unit zlib_ops" where
  "sample_zlib =
     \<lparr>z_init = (), z_decompress = (\<lambda>_ _ _. None), z_unconsumed_tail = (\<lambda>_. []), z_flush = (\<lambda>_ _. None),
      z_eof = (\<lambda>_. False), z_unused_data = (\<lambda>_. [])\<rparr>"

definition sample_gateway_env :: "unit gateway_env" where
  "sample_gateway_env =
     \<lparr>ge_runtime = sample_runtime, ge_dialect = Postgresql, ge_now = 2000000, ge_auth = sample_auth_env,
      ge_keys = [sample_ingest_key], ge_tenants = [sample_tenant], ge_zlib = sample_zlib,
      ge_parse_event = sample_parse, ge_parse_v2 = (\<lambda>_. None), ge_parse_v3 = (\<lambda>_. None), ge_timely = True\<rparr>"

definition sample_ingest_settings :: ingest_settings where
  "sample_ingest_settings =
     \<lparr>gs_ingest_enabled = True, gs_max_compressed_body_bytes = 1024, gs_max_decompressed_body_bytes = 8192,
      gs_max_batch_events = 10, gs_symbolization_enabled = True, gs_installation_hmac_keys_json = [],
      gs_installation_hmac_active_key_version = ''v1'',
      gs_capacity = sample_maintenance\<lparr>ms_inbox_max_raw_bytes := 10000\<rparr>\<rparr>"

definition sample_gateway :: gateway where
  "sample_gateway =
     \<lparr>gw_auth = initial_auth_state 0,
      gw_tables = \<lparr>mt_inbox = [], mt_jobs = [], mt_windows = [], mt_audit = []\<rparr>\<rparr>"



text \<open>
  The body of an unauthenticated request is never read: when the header checks or the credential
  fail, the answer and the state do not depend on the body. A refused request of any kind leaves
  every table as it was; at most the attempt budget is charged.
\<close>

theorem refused_request_changes_nothing:
  assumes "ingest_events env st rq seen g = (g', Inl e)"
  shows "gw_tables g' = gw_tables g \<and>
    ((\<forall>n p. negotiate_request st rq = Inr n \<longrightarrow>
        \<not> ingest_backing (ge_auth env) (ge_keys env) (ge_tenants env) (header_get rq ''authorization'')
            (ng_app_id n) (ng_environment n) p) \<longrightarrow>
     ingest_events env st (rq\<lparr>rq_chunks := chunks\<rparr>) seen g = (g', Inl e))"
proof -
  have same: "negotiate_request st (rq\<lparr>rq_chunks := chunks\<rparr>) = negotiate_request st rq"
    "header_get (rq\<lparr>rq_chunks := chunks\<rparr>) = header_get rq"
    by (auto simp: negotiate_request_def required_header_def header_get_def fun_eq_iff)
  have "gw_tables g' = gw_tables g"
    using assms by (auto simp: ingest_events_def split: sum.splits prod.splits)
  moreover have "ingest_events env st (rq\<lparr>rq_chunks := chunks\<rparr>) seen g = (g', Inl e)"
    if "\<forall>n p. negotiate_request st rq = Inr n \<longrightarrow>
        \<not> ingest_backing (ge_auth env) (ge_keys env) (ge_tenants env) (header_get rq ''authorization'')
            (ng_app_id n) (ng_environment n) p"
  proof (cases "negotiate_request st rq")
    case (Inl x)
    then show ?thesis using assms same by (simp add: ingest_events_def)
  next
    case (Inr n)
    obtain a q where a: "authenticate_ingest_key (ge_auth env) (ge_keys env) (ge_tenants env)
        (header_get rq ''authorization'') (ng_app_id n) (ng_environment n) (gw_auth g) = (a, q)"
      by fastforce
    show ?thesis
    proof (cases q)
      case (Inl x)
      then show ?thesis using assms same Inr a by (simp add: ingest_events_def)
    next
      case (Inr p)
      then show ?thesis using that \<open>negotiate_request st rq = Inr n\<close> ingest_backed a by blast
    qed
  qed
  ultimately show ?thesis by blast
qed

text \<open>
  The request body is bounded chunk by chunk: the reader returns the concatenated chunks exactly
  when their total and the declared length are within the limit, and otherwise stops with a client
  error; however the transport splits the body, the result is the same.
\<close>

theorem body_read_is_bounded:
  assumes "0 \<le> max_bytes"
  shows "read_body_bounded rt rq max_bytes =
    (case header_get rq ''content-length'' of
       None \<Rightarrow> if int (length (concat (rq_chunks rq))) \<le> max_bytes then Inr (concat (rq_chunks rq)) else Inl request_too_large
     | Some v \<Rightarrow>
         (case py_int rt v of
            None \<Rightarrow> Inl (invalid_request ''Content-Length must be an integer'')
          | Some n \<Rightarrow>
              if n < 0 then Inl (invalid_request ''Content-Length must not be negative'')
              else if n > max_bytes \<or> int (length (concat (rq_chunks rq))) > max_bytes
              then Inl request_too_large else Inr (concat (rq_chunks rq))))"
  using assms by (auto simp: read_body_bounded_def read_chunks_eq split: option.splits)

theorem body_read_is_bounded_witness:
  "read_body_bounded sample_runtime \<lparr>rq_headers = [(''Content-Length'', ''4'')], rq_chunks = [''ab'', ''cd''], rq_request_id = []\<rparr> 4 =
     Inr ''abcd''"
proof -
  let ?rq = "\<lparr>rq_headers = [(''Content-Length'', ''4'')], rq_chunks = [''ab'', ''cd''], rq_request_id = []\<rparr>"
  have "header_get ?rq ''content-length'' = Some ''4''" "py_int sample_runtime ''4'' = Some 4"
    by code_simp+
  then show ?thesis
    using body_read_is_bounded [of 4 sample_runtime ?rq] by simp
qed

end
