(* ===== verification/Apm_System.thy ===== *)
theory Apm_System
  imports Apm_Ingest_Api
begin

section \<open>The store as a state machine\<close>

text \<open>
  Every transaction that the gateway, the export worker, the symbolization worker, the artifact
  upload and the retention pass commit against the inbox and the job table, as one step relation:
  each rule is one operation of the components, with arbitrary arguments, clocks and locks, so an
  execution is any interleaving of any number of processes. The ledger is the abstract view of the
  inbox that clients rely on: which events are acknowledged, with which identity, and whether they
  are open, delivered or given up. The store refines it.
\<close>

subsection \<open>Simulation\<close>

text \<open>
  The interface between a step relation and the abstract system it implements: an invariant that
  steps keep and a view under which each step is an abstract step. What holds of single steps is
  lifted to runs once. A monotone simulation adds what observers may rely on from one state to any
  later one.
\<close>

locale simulation =
  fixes step :: "'s \<Rightarrow> 's \<Rightarrow> bool"
    and inv :: "'s \<Rightarrow> bool"
    and view :: "'s \<Rightarrow> 'a"
    and abstract_step :: "'a \<Rightarrow> 'a \<Rightarrow> bool"
  assumes step_inv: "step s t \<Longrightarrow> inv s \<Longrightarrow> inv t"
    and step_view: "step s t \<Longrightarrow> inv s \<Longrightarrow> abstract_step (view s) (view t)"
begin

lemma run_simulates:
  assumes "step\<^sup>*\<^sup>* s t" and "inv s"
  shows "inv t \<and> abstract_step\<^sup>*\<^sup>* (view s) (view t)"
  using assms
proof (induction rule: rtranclp_induct)
  case (step t u)
  then show ?case
    using step_inv step_view by (blast intro: rtranclp.rtrancl_into_rtrancl)
qed simp

end

locale monotone_simulation = simulation +
  fixes retains :: "'a \<Rightarrow> 'a \<Rightarrow> bool"
  assumes retains_refl: "retains a a"
    and retains_trans: "retains a b \<Longrightarrow> retains b c \<Longrightarrow> retains a c"
    and abstract_step_retains: "abstract_step a b \<Longrightarrow> retains a b"
begin

lemma run_retains:
  assumes "step\<^sup>*\<^sup>* s t" and "inv s"
  shows "retains (view s) (view t)"
proof -
  have "abstract_step\<^sup>*\<^sup>* (view s) (view t)"
    using run_simulates [OF assms] by blast
  then show ?thesis
    by (induction rule: rtranclp_induct) (blast intro: retains_refl retains_trans abstract_step_retains)+
qed

end

subsection \<open>Transactions\<close>

type_synonym store = maintenance_tables

inductive store_step :: "int \<Rightarrow> store \<Rightarrow> store \<Rightarrow> bool" for M :: int where
  ingest: "\<lbrakk>ingest_transaction (env :: unit gateway_env) st p md events keys seen db = Inr (db', res);
            wf_keys keys; covers (mt_inbox db) seen\<rbrakk> \<Longrightarrow> store_step M db db'"
| claim: "store_step M db (db\<lparr>mt_inbox := fst (claim_batch locked owner limit ls now (mt_inbox db))\<rparr>)"
| deliver: "store_step M db (db\<lparr>mt_inbox := fst (mark_delivered owner ids t (mt_inbox db))\<rparr>)"
| fail: "store_step M db (db\<lparr>mt_inbox := fst (mark_failed owner es retryable max_attempts code msg
           retry_after clock (mt_inbox db))\<rparr>)"
| claim_jobs: "store_step M db (db\<lparr>mt_jobs := fst (claim_symbolization_batch locked owner limit ls now (mt_jobs db))\<rparr>)"
| start: "store_step M db (db\<lparr>mt_jobs := fst (start_symbolization_attempt owner job M now (mt_jobs db))\<rparr>)"
| missing: "store_step M db (db\<lparr>mt_jobs := fst (mark_symbols_missing owner i msg now (mt_jobs db))\<rparr>)"
| symbolized: "\<lbrakk>mark_symbolized owner job a result fp tn tv st now (mt_inbox db) (mt_jobs db) = Inr (inbox, jobs, ok);
                job_copy job (mt_jobs db)\<rbrakk> \<Longrightarrow> store_step M db (db\<lparr>mt_inbox := inbox, mt_jobs := jobs\<rparr>)"
| failed: "\<lbrakk>mark_symbolization_failed owner job retryable max_attempts code msg now (mt_inbox db) (mt_jobs db) =
              (inbox, jobs, ok); job_copy job (mt_jobs db)\<rbrakk>
           \<Longrightarrow> store_step M db (db\<lparr>mt_inbox := inbox, mt_jobs := jobs\<rparr>)"
| requeue: "store_step M db (db\<lparr>mt_jobs := fst (requeue_matching_missing_jobs rt k now (mt_inbox db) (mt_jobs db))\<rparr>)"
| prune: "maintain_once ms dialect locked observed written db = Inr (db', n, q) \<Longrightarrow> store_step M db db'"

inductive_cases store_stepE: "store_step M db db'"

definition empty_store :: store where
  "empty_store = \<lparr>mt_inbox = [], mt_jobs = [], mt_windows = [], mt_audit = []\<rparr>"

definition reachable :: "int \<Rightarrow> store \<Rightarrow> bool" where
  "reachable M db \<longleftrightarrow> (store_step M)\<^sup>*\<^sup>* empty_store db"

subsection \<open>The ledger\<close>

datatype phase = Open | Delivered | Dead

text \<open>An open event may settle either way, and stays settled: the final phases are above the open one.\<close>

instantiation phase :: order
begin

definition less_eq_phase :: "phase \<Rightarrow> phase \<Rightarrow> bool" where
  "less_eq_phase x y \<longleftrightarrow> x = y \<or> x = Open"

definition less_phase :: "phase \<Rightarrow> phase \<Rightarrow> bool" where
  "less_phase x y \<longleftrightarrow> x \<le> y \<and> \<not> y \<le> x"

instance
  by standard (auto simp: less_eq_phase_def less_phase_def)

end

definition phase_of :: "inbox_event \<Rightarrow> phase" where
  "phase_of r =
     (case ie_status r of IS_delivered \<Rightarrow> Delivered | IS_dead_letter \<Rightarrow> Dead | _ \<Rightarrow> Open)"

type_synonym identity = "string list \<times> string option list \<times> identity_quality list"

type_synonym ledger = "(string \<times> string) \<Rightarrow> (identity \<times> phase) option"

definition ledger_of :: "inbox_event list \<Rightarrow> ledger" where
  "ledger_of tbl = map_of (map (\<lambda>r. (inbox_key r, (row_identity r, phase_of r))) tbl)"

definition settle :: "((string \<times> string) \<Rightarrow> phase option) \<Rightarrow> ledger \<Rightarrow> ledger" where
  "settle out L = (\<lambda>k. case out k of None \<Rightarrow> L k | Some ph \<Rightarrow> map_option (\<lambda>(h, _). (h, ph)) (L k))"

inductive ledger_step :: "ledger \<Rightarrow> ledger \<Rightarrow> bool" where
  append: "(\<And>k v. new k = Some v \<Longrightarrow> L k = None \<and> snd v = Open) \<Longrightarrow> ledger_step L (L ++ new)"
| settle: "(\<And>k ph. out k = Some ph \<Longrightarrow> \<exists>h. L k = Some (h, Open)) \<Longrightarrow> ledger_step L (settle out L)"

text \<open>
  What a client may conclude later from what it once saw: every recorded event is still recorded, with
  its identity, in the same phase or, if it was open, in any.
\<close>

definition ledger_le :: "ledger \<Rightarrow> ledger \<Rightarrow> bool" where
  "ledger_le L L' \<longleftrightarrow> (\<forall>k h ph. L k = Some (h, ph) \<longrightarrow> (\<exists>ph'. L' k = Some (h, ph') \<and> ph \<le> ph'))"

lemma ledger_leD: "ledger_le L L' \<Longrightarrow> L k = Some (h, ph) \<Longrightarrow> \<exists>ph'. L' k = Some (h, ph') \<and> ph \<le> ph'"
  unfolding ledger_le_def by blast

lemma ledger_le_refl: "ledger_le L L"
  unfolding ledger_le_def by blast

lemma ledger_le_trans: "ledger_le L L' \<Longrightarrow> ledger_le L' L'' \<Longrightarrow> ledger_le L L''"
  unfolding ledger_le_def by (meson order_trans)

lemma ledger_step_le:
  assumes "ledger_step L L'"
  shows "ledger_le L L'"
  unfolding ledger_le_def
proof (intro allI impI)
  fix k h ph assume seen: "L k = Some (h, ph)"
  from assms show "\<exists>ph'. L' k = Some (h, ph') \<and> ph \<le> ph'"
  proof cases
    case (append new)
    then have "new k = None" using seen by (cases "new k") auto
    then show ?thesis using append seen by (simp add: map_add_def)
  next
    case (settle out)
    show ?thesis
    proof (cases "out k")
      case None
      then show ?thesis using settle seen by (simp add: settle_def)
    next
      case (Some q)
      then show ?thesis using settle(2) [OF Some] settle(1) seen by (simp add: settle_def less_eq_phase_def)
    qed
  qed
qed

subsection \<open>Refinement\<close>

lemma ledger_row_change:
  assumes "row_change p a b"
    and "\<And>r s. p r s \<Longrightarrow> phase_of s = phase_of r \<or> phase_of r = Open"
  shows "rel_option (\<lambda>(h, ph) (h', ph'). h' = h \<and> (ph' = ph \<or> ph = Open)) (ledger_of a k) (ledger_of b k)"
proof -
  have "list_all2 (\<lambda>r s. inbox_key s = inbox_key r \<and> row_identity s = row_identity r \<and>
      (phase_of s = phase_of r \<or> phase_of r = Open)) a b"
    using assms(1) unfolding row_change_def
    by (rule list_all2_mono) (use assms(2) row_identity_key in metis)
  then show ?thesis
    unfolding ledger_of_def by (induction rule: list_all2_induct) auto
qed

lemma ledger_settle_step:
  assumes "\<And>k. rel_option (\<lambda>(h, ph) (h', ph'). h' = h \<and> (ph' = ph \<or> ph = Open)) (L k) (L' k)"
  shows "ledger_step L L'"
proof -
  define out where "out = (\<lambda>k. case (L k, L' k) of (Some (h, Open), Some (h', ph)) \<Rightarrow> Some ph | _ \<Rightarrow> None)"
  have "L' = settle out L"
  proof
    fix k
    show "L' k = settle out L k"
      using assms [of k] by (cases "L k"; cases "L' k"; cases "snd (the (L k))")
        (auto simp: settle_def out_def split: prod.splits)
  qed
  moreover have "\<exists>h. L k = Some (h, Open)" if "out k = Some ph" for k ph
    using that by (auto simp: out_def split: option.splits prod.splits phase.splits)
  ultimately show ?thesis using ledger_step.settle [of out L] by metis
qed

lemma ledger_row_change_step:
  assumes "row_change p a b" and "\<And>r s. p r s \<Longrightarrow> phase_of s = phase_of r \<or> phase_of r = Open"
  shows "ledger_step (ledger_of a) (ledger_of b)"
  using ledger_row_change [OF assms] by (rule ledger_settle_step)

lemma ledger_row_change_same:
  assumes "row_change p a b" and "\<And>r s. p r s \<Longrightarrow> phase_of s = phase_of r"
  shows "ledger_of b = ledger_of a"
proof -
  have "list_all2 (\<lambda>r s. inbox_key s = inbox_key r \<and> row_identity s = row_identity r \<and> phase_of s = phase_of r) a b"
    using assms(1) unfolding row_change_def
    by (rule list_all2_mono) (use assms(2) row_identity_key in metis)
  then have "map (\<lambda>r. (inbox_key r, (row_identity r, phase_of r))) b = map (\<lambda>r. (inbox_key r, (row_identity r, phase_of r))) a"
    by (induction rule: list_all2_induct) auto
  then show ?thesis by (simp add: ledger_of_def)
qed

lemma held_open: "lease_held owner t (inbox_lease r) \<Longrightarrow> phase_of r = Open"
  by (auto simp: lease_held_def inbox_lease_def phase_of_def)

lemma claimable_open: "inbox_claimable t r \<Longrightarrow> phase_of r = Open"
  by (auto simp: inbox_claimable_def phase_of_def)

lemma symbol_change_phase: "symbol_change r s \<Longrightarrow> phase_of s = phase_of r"
  unfolding symbol_change_def phase_of_def by (elim disjE exE conjE) simp_all

lemma prune_change_phase: "prune_change ms t jobs r s \<Longrightarrow> phase_of s = phase_of r"
  unfolding prune_change_def phase_of_def by (elim conjE) (simp add: prune_rowD(3))

text \<open>One step keeps the invariant and is one step of the ledger.\<close>

definition good_step :: "int \<Rightarrow> store \<Rightarrow> store \<Rightarrow> bool" where
  "good_step M db db' \<longleftrightarrow> tables_ok M db' \<and> ledger_step (ledger_of (mt_inbox db)) (ledger_of (mt_inbox db')) \<and>
     covers (mt_inbox db') (mt_inbox db)"

lemma row_change_wf: "row_change p a b \<Longrightarrow> wf_inbox a \<Longrightarrow> wf_inbox b"
proof -
  assume c: "row_change p a b" and wf: "wf_inbox a"
  have "map ie_installation_hmac_key_version b = map ie_installation_hmac_key_version a"
  proof -
    have "map ie_installation_hmac_key_version t = map (\<lambda>i. fst (snd i) ! 5) (map row_identity t)" for t
      by (simp add: row_identity_def)
    then show ?thesis by (simp only: row_change_maps(3) [OF c])
  qed
  moreover have "list_all (\<lambda>r. ie_installation_hmac_key_version r \<noteq> Some []) t \<longleftrightarrow>
      Some [] \<notin> set (map ie_installation_hmac_key_version t)" for t
    unfolding list_all_iff set_map image_iff by metis
  ultimately show "wf_inbox b"
    using wf row_change_constraints(1,2) [OF c] unfolding wf_inbox_def by metis
qed

lemma good_row_change:
  assumes ok: "tables_ok M db" and c: "row_change p (mt_inbox db) inbox"
    and row: "\<And>r s. p r s \<Longrightarrow> inbox_row_ok r \<Longrightarrow> inbox_row_ok s"
    and ph: "\<And>r s. p r s \<Longrightarrow> phase_of s = phase_of r \<or> phase_of r = Open"
    and j: "wf_jobs M jobs" and aw: "awaits_unfinished inbox jobs"
    and db': "mt_inbox db' = inbox" "mt_jobs db' = jobs"
  shows "good_step M db db'"
proof -
  have "wf_inbox inbox"
    using row_change_wf [OF c] ok by (simp add: tables_ok_def)
  moreover have "\<forall>r \<in> set inbox. inbox_row_ok r"
    by (rule row_change_all [OF c]) (use ok row in \<open>simp_all add: tables_ok_def list_all_iff\<close>)
  ultimately show ?thesis
    using ledger_row_change_step [OF c ph] row_change_constraints(3) [OF c] j aw
    by (simp add: good_step_def tables_ok_def list_all_iff db')
qed

lemma good_jobs:
  assumes "tables_ok M db" and "wf_jobs M jobs" and "awaits_unfinished (mt_inbox db) jobs"
  shows "good_step M db (db\<lparr>mt_jobs := jobs\<rparr>)"
  by (rule good_row_change [OF assms(1) row_change_refl [of "\<lambda>_ _. False"] _ _ assms(2,3)]) auto

lemma good_ingest:
  assumes "ingest_transaction env st p md events keys seen db = Inr (db', res)"
    and "wf_keys keys" and ok: "tables_ok M db" and M: "0 \<le> M"
  shows "good_step M db db'"
proof -
  obtain inbox k where ins: "insert_batch (ge_runtime env) (ge_dialect env) (ge_now env) md events keys seen
      (mt_inbox db) = Inr (inbox, res)"
    and enq: "enqueue_symbolization_jobs (ge_runtime env) (ge_dialect env) (gs_symbolization_enabled st)
      (ge_now env) md events inbox (mt_jobs db) = Inr (mt_inbox db', mt_jobs db', k)"
    by (rule ingest_transactionD [OF assms(1)]) blast
  have o: "wf_inbox (mt_inbox db)" "list_all inbox_row_ok (mt_inbox db)" "wf_jobs M (mt_jobs db)"
    "awaits_unfinished (mt_inbox db) (mt_jobs db)"
    using ok by (simp_all add: tables_ok_def)
  have wf: "wf_inbox inbox" by (rule insert_batch_wf(1) [OF ins assms(2) o(1)])
  obtain new where new: "inbox = mt_inbox db @ new" "\<forall>n \<in> set new. inbox_row_ok n \<and> ie_status n = IS_pending"
    using insert_batch_new [OF ins] by blast
  have aw: "awaits_unfinished inbox (mt_jobs db)" by (rule insert_batch_awaits [OF ins o(4)])
  have pk: "inbox_primary_key inbox" using wf by (simp add: wf_inbox_def)
  note e = enqueue_keeps [OF enq o(3) aw pk M]
  have "tables_ok M (db\<lparr>mt_inbox := inbox\<rparr>)"
    using wf new o aw by (simp add: tables_ok_def list_all_iff ball_Un)
  then have g: "good_step M (db\<lparr>mt_inbox := inbox\<rparr>) db'"
    by (rule good_row_change [where p = symbol_change, OF _ _ symbol_change_ok _ e(1,2)])
      (use e(3) symbol_change_phase in auto)
  have same: "ledger_of (mt_inbox db') = ledger_of inbox"
    by (rule ledger_row_change_same [OF e(3) symbol_change_phase])
  have uq: "distinct (map inbox_key (mt_inbox db @ new))"
    using wf new(1) by (simp add: wf_inbox_def uq_inbox_tenant_event_def)
  have dom: "dom (ledger_of t) = inbox_key ` set t" for t
    by (simp add: ledger_of_def dom_map_of_conv_image_fst image_image)
  have "ledger_of inbox = ledger_of new ++ ledger_of (mt_inbox db)"
    by (simp add: ledger_of_def new(1) map_of_append)
  moreover have "dom (ledger_of new) \<inter> dom (ledger_of (mt_inbox db)) = {}"
    using uq unfolding dom by auto
  ultimately have l: "ledger_of inbox = ledger_of (mt_inbox db) ++ ledger_of new"
    using map_add_comm [of "ledger_of new" "ledger_of (mt_inbox db)"] by simp
  have "ledger_step (ledger_of (mt_inbox db)) (ledger_of inbox)"
    unfolding l
  proof (rule ledger_step.append)
    fix k v assume "ledger_of new k = Some v"
    then obtain n where "n \<in> set new" "k = inbox_key n" "v = (row_identity n, phase_of n)"
      by (auto simp: ledger_of_def dest!: map_of_SomeD)
    then show "ledger_of (mt_inbox db) k = None \<and> snd v = Open"
      using uq new(2) by (auto simp: ledger_of_def map_of_eq_None_iff image_image phase_of_def)
  qed
  moreover have "covers inbox (mt_inbox db)" by (auto simp: covers_def new(1))
  ultimately show ?thesis
    using g by (auto simp: good_step_def same covers_def)
qed

lemma ok_parts:
  assumes "tables_ok M db"
  shows "wf_jobs M (mt_jobs db)" and "awaits_unfinished (mt_inbox db) (mt_jobs db)" and "inbox_primary_key (mt_inbox db)"
  using assms by (simp_all add: tables_ok_def wf_inbox_def)

lemma good_claim:
  assumes "tables_ok M db"
  shows "good_step M db (db\<lparr>mt_inbox := fst (claim_batch locked owner limit ls now (mt_inbox db))\<rparr>)"
proof (rule good_row_change [OF assms claim_batch_change [OF ok_parts(3) [OF assms]] _ _ ok_parts(1) [OF assms]])
  fix r s assume c: "claim_change owner now (now + seconds ls) r s"
  show "inbox_row_ok s" if "inbox_row_ok r"
    using c that claim_row_ok unfolding claim_change_def by blast
  show "phase_of s = phase_of r \<or> phase_of r = Open"
    using c claimable_open unfolding claim_change_def by blast
next
  show "awaits_unfinished (fst (claim_batch locked owner limit ls now (mt_inbox db))) (mt_jobs db)"
    by (rule awaits_row_change [OF ok_parts(2) [OF assms] claim_batch_change [OF ok_parts(3) [OF assms]]])
      (simp add: claim_change_def claim_inbox_row_def)
qed simp_all

lemma good_deliver:
  assumes "tables_ok M db"
  shows "good_step M db (db\<lparr>mt_inbox := fst (mark_delivered owner ids t (mt_inbox db))\<rparr>)"
proof (rule good_row_change [OF assms mark_delivered_change _ _ ok_parts(1) [OF assms]])
  fix r s assume c: "deliver_change owner ids t r s"
  show "inbox_row_ok s" if "inbox_row_ok r"
    using c that deliver_row_ok unfolding deliver_change_def by blast
  show "phase_of s = phase_of r \<or> phase_of r = Open"
    using c held_open unfolding deliver_change_def by blast
next
  show "awaits_unfinished (fst (mark_delivered owner ids t (mt_inbox db))) (mt_jobs db)"
    by (rule awaits_row_change [OF ok_parts(2) [OF assms] mark_delivered_change])
      (simp add: deliver_change_def row_simps)
qed simp_all

lemma good_fail:
  assumes "tables_ok M db"
  shows "good_step M db (db\<lparr>mt_inbox := fst (mark_failed owner es retryable max_attempts code msg
           retry_after clock (mt_inbox db))\<rparr>)"
proof (rule good_row_change [OF assms mark_failed_change _ _ ok_parts(1) [OF assms]])
  fix r s assume c: "fail_change owner es clock r s"
  show "inbox_row_ok s" if "inbox_row_ok r"
    using c that fail_row_ok unfolding fail_change_def by blast
  show "phase_of s = phase_of r \<or> phase_of r = Open"
    using c held_open unfolding fail_change_def by blast
next
  show "awaits_unfinished (fst (mark_failed owner es retryable max_attempts code msg retry_after clock (mt_inbox db)))
      (mt_jobs db)"
    by (rule awaits_row_change [OF ok_parts(2) [OF assms] mark_failed_change])
      (auto simp: fail_change_def fail_row_def split: if_splits)
qed simp_all

lemma good_symbolized:
  assumes "mark_symbolized owner job a result fp tn tv st now (mt_inbox db) (mt_jobs db) = Inr (inbox, jobs, ok)"
    and "job_copy job (mt_jobs db)" and "tables_ok M db"
  shows "good_step M db (db\<lparr>mt_inbox := inbox, mt_jobs := jobs\<rparr>)"
proof -
  note k = mark_symbolized_keeps [OF assms(1) ok_parts(1,2) [OF assms(3)] assms(2)]
  show ?thesis
  proof (rule good_row_change [OF assms(3) k(4) _ _ k(1,3)])
    fix r s assume c: "\<exists>q. symbol_change r q \<and> (s = q \<or> symbol_change q s)"
    show "inbox_row_ok s" if "inbox_row_ok r"
      using c that symbol_change_ok by blast
    show "phase_of s = phase_of r \<or> phase_of r = Open"
      using c symbol_change_phase by metis
  qed simp_all
qed

lemma good_symbol_failed:
  assumes "mark_symbolization_failed owner job retryable max_attempts code msg now (mt_inbox db) (mt_jobs db) =
      (inbox, jobs, ok)"
    and "job_copy job (mt_jobs db)" and "tables_ok M db"
  shows "good_step M db (db\<lparr>mt_inbox := inbox, mt_jobs := jobs\<rparr>)"
proof -
  note k = mark_failed_keeps [OF assms(1) ok_parts(1,2) [OF assms(3)] assms(2)]
  show ?thesis
    by (rule good_row_change [OF assms(3) k(4) symbol_change_ok _ k(1,3)]) (use symbol_change_phase in auto)
qed

lemma good_prune:
  assumes "maintain_once ms dialect locked observed written db = Inr (db', n, q)" and "tables_ok M db"
  shows "good_step M db db'"
proof -
  note k = maintain_keeps [OF assms(1) ok_parts(3) [OF assms(2)]]
  show ?thesis
  proof (rule good_row_change [OF assms(2) k(1) _ _ k(3) [OF ok_parts(1) [OF assms(2)]] k(4) [OF ok_parts(2) [OF assms(2)]]])
    fix r s assume c: "prune_change ms observed (mt_jobs db) r s"
    show "inbox_row_ok s" if "inbox_row_ok r"
      using c that prune_row_ok prunable_final unfolding prune_change_def by blast
    show "phase_of s = phase_of r \<or> phase_of r = Open"
      using prune_change_phase [OF c] by blast
  qed simp_all
qed

lemma store_step_good:
  assumes "store_step M db db'" and "tables_ok M db" and "0 \<le> M"
  shows "good_step M db db'"
  using assms(1)
proof cases
  case ingest
  then show ?thesis using good_ingest assms(2,3) by blast
next
  case claim
  then show ?thesis using good_claim [OF assms(2)] by simp
next
  case deliver
  then show ?thesis using good_deliver [OF assms(2)] by simp
next
  case fail
  then show ?thesis using good_fail [OF assms(2)] by simp
next
  case claim_jobs
  then show ?thesis
    using good_jobs [OF assms(2)] claim_symbolization_keeps(1,3) [OF ok_parts(1) [OF assms(2)]] ok_parts(2) [OF assms(2)]
    by simp
next
  case start
  then show ?thesis
    using good_jobs [OF assms(2)] start_attempt_keeps(1,3) [OF ok_parts(1) [OF assms(2)]] ok_parts(2) [OF assms(2)]
    by simp
next
  case missing
  then show ?thesis
    using good_jobs [OF assms(2)] mark_symbols_missing_keeps(1,3) [OF ok_parts(1) [OF assms(2)]] ok_parts(2) [OF assms(2)]
    by simp
next
  case symbolized
  then show ?thesis using good_symbolized assms(2) by blast
next
  case failed
  then show ?thesis using good_symbol_failed assms(2) by blast
next
  case requeue
  then show ?thesis
    using good_jobs [OF assms(2)] requeue_keeps(1,3) [OF ok_parts(1) [OF assms(2)]] ok_parts(2) [OF assms(2)]
    by simp
next
  case prune
  then show ?thesis using good_prune assms(2) by blast
qed

interpretation store_ledger: monotone_simulation "store_step (int m)" "tables_ok (int m)"
    "\<lambda>db. ledger_of (mt_inbox db)" ledger_step ledger_le for m
  by unfold_locales
    (use store_step_good in \<open>auto simp: good_step_def intro: ledger_le_refl ledger_le_trans ledger_step_le\<close>)

interpretation store_rows: monotone_simulation "store_step (int m)" "tables_ok (int m)"
    mt_inbox "\<lambda>t t'. covers t' t" "\<lambda>t t'. covers t' t" for m
  by unfold_locales (use store_step_good in \<open>auto simp: good_step_def covers_def\<close>)

lemma store_steps_good:
  assumes "(store_step M)\<^sup>*\<^sup>* db db'" and "tables_ok M db" and "0 \<le> M"
  shows "tables_ok M db'" and "ledger_step\<^sup>*\<^sup>* (ledger_of (mt_inbox db)) (ledger_of (mt_inbox db'))"
    and "covers (mt_inbox db') (mt_inbox db)" and "ledger_le (ledger_of (mt_inbox db)) (ledger_of (mt_inbox db'))"
proof -
  obtain m where M: "M = int m"
    using nonneg_int_cases [OF assms(3)] by blast
  show "tables_ok M db'" and "ledger_step\<^sup>*\<^sup>* (ledger_of (mt_inbox db)) (ledger_of (mt_inbox db'))"
    using store_ledger.run_simulates [OF assms(1,2) [unfolded M]] M by simp_all
  show "covers (mt_inbox db') (mt_inbox db)"
    by (rule store_rows.run_retains [OF assms(1,2) [unfolded M]])
  show "ledger_le (ledger_of (mt_inbox db)) (ledger_of (mt_inbox db'))"
    by (rule store_ledger.run_retains [OF assms(1,2) [unfolded M]])
qed

lemma empty_store_ok: "tables_ok M empty_store"
  by (simp add: tables_ok_def empty_store_def wf_inbox_def uq_inbox_tenant_event_def inbox_primary_key_def
      wf_jobs_def uq_job_inbox_event_def awaits_unfinished_def)

lemma reachable_ok: "reachable M db \<Longrightarrow> 0 \<le> M \<Longrightarrow> tables_ok M db"
  using store_steps_good(1) [OF _ empty_store_ok] by (simp add: reachable_def)

subsection \<open>Samples\<close>

definition sample_store_env :: "unit gateway_env" where
  "sample_store_env = sample_gateway_env\<lparr>ge_now := 7\<rparr>"

definition sample_charge :: principal where
  "sample_charge =
     \<lparr>pr_tenant_id = ''t1'', pr_key_id = ''k'', pr_app_id = ''app'', pr_environment = ''prod'',
      pr_requests_per_minute = 2, pr_events_per_minute = 10\<rparr>"

definition sample_store :: store where
  "sample_store =
     \<lparr>mt_inbox = [sample_row], mt_jobs = [],
      mt_windows = [\<lparr>rw_key_id = ''k'', rw_window_started_at = 0, rw_request_count = 1, rw_event_count = 1\<rparr>],
      mt_audit = []\<rparr>"

lemma sample_transaction:
  "ingest_transaction sample_store_env sample_ingest_settings sample_charge sample_metadata [sample_event]
     (Some (sample_ring ''k1'')) [] empty_store =
   Inr (sample_store, \<lparr>ir_received = 1, ir_inserted = 1, ir_duplicates = 0\<rparr>)"
  by code_simp

lemma sample_step: "store_step 3 empty_store sample_store"
  by (rule store_step.ingest [OF sample_transaction sample_ring_valid(1)]) (simp add: covers_def)

lemma sample_delivery:
  "store_step 3 sample_store (sample_store\<lparr>mt_inbox := fst (claim_batch (\<lambda>_. False) ''w'' 5 60 100 (mt_inbox sample_store))\<rparr>)"
  by (rule store_step.claim)

subsection \<open>Properties\<close>

text \<open>
  C4. In every store that any interleaving of the gateway, the workers and the retention pass can
  reach: event keys, row identifiers and job keys are unique, every row has consistent lease and
  completion columns, only final rows are pruned, no job has spent more than its attempts, and a
  row waits for symbols only while a job for it is unfinished.
\<close>

theorem reachable_store_ok:
  assumes "reachable M db" and "0 \<le> M"
  shows "wf_inbox (mt_inbox db) \<and> list_all inbox_row_ok (mt_inbox db) \<and> wf_jobs M (mt_jobs db) \<and>
         awaits_unfinished (mt_inbox db) (mt_jobs db)"
  using reachable_ok [OF assms] by (simp add: tables_ok_def)

theorem reachable_store_ok_witness: "wf_inbox (mt_inbox sample_store)"
proof -
  have "reachable 3 sample_store"
    unfolding reachable_def using sample_step by (rule r_into_rtranclp)
  from reachable_store_ok [OF this] show ?thesis by simp
qed

text \<open>
  C3. The store refines the ledger: whatever a transaction does to leases, jobs, attempts or raw
  evidence, what a client can rely on changes only by appending open events under fresh keys or by
  settling open events. An initial store has an empty ledger.
\<close>

theorem store_refines_ledger:
  assumes "reachable M db" and "store_step M db db'" and "0 \<le> M"
  shows "ledger_step (ledger_of (mt_inbox db)) (ledger_of (mt_inbox db')) \<and>
         ledger_step\<^sup>*\<^sup>* Map.empty (ledger_of (mt_inbox db'))"
proof -
  have r: "(store_step M)\<^sup>*\<^sup>* empty_store db" using assms(1) by (simp add: reachable_def)
  have "good_step M db db'"
    by (rule store_step_good [OF assms(2) reachable_ok [OF assms(1,3)] assms(3)])
  then have "ledger_step (ledger_of (mt_inbox db)) (ledger_of (mt_inbox db'))" by (simp add: good_step_def)
  moreover have "ledger_step\<^sup>*\<^sup>* Map.empty (ledger_of (mt_inbox db))"
    using store_steps_good(2) [OF r empty_store_ok assms(3)] by (simp add: empty_store_def ledger_of_def)
  ultimately show ?thesis by (blast intro: rtranclp.rtrancl_into_rtrancl)
qed

theorem store_refines_ledger_witness: "ledger_step (ledger_of []) (ledger_of [sample_row])"
proof -
  have "reachable 3 empty_store" by (simp add: reachable_def)
  from store_refines_ledger [OF this sample_step] show ?thesis
    by (simp add: empty_store_def sample_store_def)
qed

text \<open>
  C1. An acknowledged event is never lost, changed or delivered twice: after any further
  transactions exactly one row still carries its key, with the same identity columns, and its phase
  has at most moved up: once it was delivered or given up it stays so.
\<close>

theorem acknowledged_event_never_lost:
  assumes "reachable M db" and "(store_step M)\<^sup>*\<^sup>* db db'" and "0 \<le> M" and "r \<in> set (mt_inbox db)"
  shows "\<exists>s. filter (\<lambda>s. inbox_key s = inbox_key r) (mt_inbox db') = [s] \<and> row_identity s = row_identity r \<and>
           phase_of r \<le> phase_of s"
proof -
  have ok: "tables_ok M db"
    by (rule reachable_ok [OF assms(1,3)])
  note g = store_steps_good [OF assms(2) ok assms(3)]
  have uq: "distinct (map inbox_key (mt_inbox db))" "distinct (map inbox_key (mt_inbox db'))"
    using ok g(1) by (simp_all add: tables_ok_def wf_inbox_def uq_inbox_tenant_event_def)
  have "ledger_of (mt_inbox db) (inbox_key r) = Some (row_identity r, phase_of r)"
    using uq(1) assms(4) unfolding ledger_of_def
    by (intro map_of_is_SomeI) (auto simp: comp_def)
  then obtain ph where "ledger_of (mt_inbox db') (inbox_key r) = Some (row_identity r, ph)"
    and ph: "phase_of r \<le> ph"
    using ledger_leD [OF g(4)] by blast
  then have "(inbox_key r, (row_identity r, ph)) \<in> (\<lambda>s. (inbox_key s, (row_identity s, phase_of s))) ` set (mt_inbox db')"
    unfolding ledger_of_def by (metis (no_types, lifting) list.set_map map_of_SomeD)
  then obtain s where s: "s \<in> set (mt_inbox db')" "inbox_key s = inbox_key r" "row_identity s = row_identity r" "phase_of s = ph"
    unfolding image_iff by (metis (no_types, lifting) prod.inject)
  have "filter (\<lambda>x. inbox_key x = inbox_key r) (mt_inbox db') = [s]"
    using filter_unique_key [OF uq(2) s(1)] unfolding s(2) .
  then show ?thesis
    using s(3,4) ph by blast
qed

theorem acknowledged_event_never_lost_witness:
  "\<exists>s. filter (\<lambda>s. inbox_key s = inbox_key sample_row)
         (fst (claim_batch (\<lambda>_. False) ''w'' 5 60 100 [sample_row])) = [s] \<and> row_identity s = row_identity sample_row"
proof -
  have r: "reachable 3 sample_store"
    unfolding reachable_def using sample_step by (rule r_into_rtranclp)
  have st: "(store_step 3)\<^sup>*\<^sup>* sample_store
      (sample_store\<lparr>mt_inbox := fst (claim_batch (\<lambda>_. False) ''w'' 5 60 100 (mt_inbox sample_store))\<rparr>)"
    using sample_delivery by (rule r_into_rtranclp)
  have m: "sample_row \<in> set (mt_inbox sample_store)" and i: "mt_inbox sample_store = [sample_row]"
    by (simp_all add: sample_store_def)
  have "\<exists>s. filter (\<lambda>s. inbox_key s = inbox_key sample_row)
      (mt_inbox (sample_store\<lparr>mt_inbox := fst (claim_batch (\<lambda>_. False) ''w'' 5 60 100 (mt_inbox sample_store))\<rparr>)) = [s] \<and>
      row_identity s = row_identity sample_row \<and> phase_of sample_row \<le> phase_of s"
    by (rule acknowledged_event_never_lost [OF r st _ m]) simp
  moreover have "mt_inbox (sample_store\<lparr>mt_inbox := t\<rparr>) = t" for t by simp
  ultimately show ?thesis
    unfolding i by metis
qed

text \<open>
  C15. Retrying is always safe: after a batch was committed, and after any further transactions of
  any process, sending the same batch again, also under a rotated pseudonymization key, inserts
  nothing, changes nothing in the inbox and reports every event as a duplicate.
\<close>

theorem replay_after_any_run:
  assumes "reachable M db" and "0 \<le> M"
    and "ingest_transaction env st p md events keys seen db = Inr (db1, res)"
    and "wf_keys keys" and "covers (mt_inbox db) seen" and "distinct (map ev_event_id events)"
    and "(store_step M)\<^sup>*\<^sup>* db1 db2"
    and "rotation_of keys' keys" and "wf_keys keys'" and "d = Postgresql \<or> d = Sqlite"
    and "\<And>e s. e \<in> set events \<Longrightarrow> event_installation md e = Some s \<Longrightarrow> s \<noteq> [] \<Longrightarrow> \<not> sublist s rid"
  shows "insert_batch (ge_runtime env) d later (md\<lparr>md_request_id := rid\<rparr>) events keys' (mt_inbox db2) (mt_inbox db2) =
    Inr (mt_inbox db2, \<lparr>ir_received = int (length events), ir_inserted = 0, ir_duplicates = int (length events)\<rparr>)"
proof -
  have ok: "tables_ok M db"
    by (rule reachable_ok [OF assms(1,2)])
  obtain inbox k where ins: "insert_batch (ge_runtime env) (ge_dialect env) (ge_now env) md events keys seen
      (mt_inbox db) = Inr (inbox, res)"
    and enq: "enqueue_symbolization_jobs (ge_runtime env) (ge_dialect env) (gs_symbolization_enabled st)
      (ge_now env) md events inbox (mt_jobs db) = Inr (mt_inbox db1, mt_jobs db1, k)"
    by (rule ingest_transactionD [OF assms(3)]) blast
  have ok1: "tables_ok M db1"
    using good_ingest [OF assms(3,4) ok assms(2)] by (simp add: good_step_def)
  have pk: "inbox_primary_key inbox"
    using insert_batch_wf(1) [OF ins assms(4)] ok by (simp add: tables_ok_def wf_inbox_def)
  have "row_change symbol_change inbox (mt_inbox db1)"
    by (rule enqueue_keeps(3) [OF enq ok_parts(1) [OF ok] insert_batch_awaits [OF ins ok_parts(2) [OF ok]] pk assms(2)])
  then have "covers (mt_inbox db1) inbox" by (rule row_change_constraints(3))
  moreover have "covers (mt_inbox db2) (mt_inbox db1)"
    by (rule store_steps_good(3) [OF assms(7) ok1 assms(2)])
  ultimately have "covers (mt_inbox db2) inbox" unfolding covers_def by (rule order_trans)
  moreover have "wf_inbox (mt_inbox db2)"
    using store_steps_good(1) [OF assms(7) ok1 assms(2)] by (simp add: tables_ok_def)
  ultimately show ?thesis
    by (rule replay_unchanged [OF ins assms(4,5,6) _ _ assms(8,9,10,11)])
qed

theorem replay_after_any_run_witness:
  "insert_batch sample_runtime Sqlite 90 (sample_metadata\<lparr>md_request_id := ''rq2''\<rparr>) [sample_event]
     (Some (sample_ring ''k2'')) (mt_inbox sample_store) (mt_inbox sample_store) =
   Inr (mt_inbox sample_store, \<lparr>ir_received = 1, ir_inserted = 0, ir_duplicates = 1\<rparr>)"
proof -
  have e: "ge_runtime sample_store_env = sample_runtime"
    by (simp add: sample_store_env_def sample_gateway_env_def)
  have r: "reachable 3 empty_store" and st: "(store_step 3)\<^sup>*\<^sup>* sample_store sample_store"
    and c: "covers (mt_inbox empty_store) []"
    and ro: "rotation_of (Some (sample_ring ''k2'')) (Some (sample_ring ''k1''))"
    and di: "distinct (map ev_event_id [sample_event])" and M: "(0::int) \<le> 3"
    by (simp_all add: reachable_def covers_def rotation_of_def sample_ring_def)
  have i: "\<not> sublist s ''rq2''"
    if "e \<in> set [sample_event]" "event_installation sample_metadata e = Some s" "s \<noteq> []" for e s
  proof -
    have "event_installation sample_metadata sample_event = Some ''device-9''" by code_simp
    then show ?thesis using that by (auto dest: sublist_length_le)
  qed
  show ?thesis
    using replay_after_any_run [OF r M sample_transaction sample_ring_valid(1) c di st ro sample_ring_valid(2)
        disjI2 [OF refl] i]
    by (simp add: e)
qed

end
