(* ===== verification/Apm_Grouping.thy ===== *)
theory Apm_Grouping
  imports Apm_Prelude
begin

section \<open>Grouping\<close>

text \<open>
  \<open>GROUP BY\<close> of the query statements and the \<open>defaultdict(list)\<close> and \<open>Counter\<close> loops of the response
  builders: rows are collected under a key in the order of first occurrence. The lemmas say that
  grouping neither loses nor invents rows, whatever is summed over them.
\<close>

fun group_put :: "'k \<Rightarrow> 'a \<Rightarrow> ('k \<times> 'a list) list \<Rightarrow> ('k \<times> 'a list) list" where
  "group_put k x [] = [(k, [x])]"
| "group_put k x ((k', xs) # g) = (if k' = k then (k', xs @ [x]) # g else (k', xs) # group_put k x g)"

definition group_by :: "('a \<Rightarrow> 'k) \<Rightarrow> 'a list \<Rightarrow> ('k \<times> 'a list) list" where
  "group_by key xs = foldl (\<lambda>g x. group_put (key x) x g) [] xs"

fun keys_add :: "'k \<Rightarrow> 'k list \<Rightarrow> 'k list" where
  "keys_add k ks = (if k \<in> set ks then ks else ks @ [k])"

definition first_keys :: "('a \<Rightarrow> 'k) \<Rightarrow> 'a list \<Rightarrow> 'k list" where
  "first_keys key xs = foldl (\<lambda>ks x. keys_add (key x) ks) [] xs"

lemma group_by_snoc: "group_by key (xs @ [x]) = group_put (key x) x (group_by key xs)"
  by (simp add: group_by_def)

lemma keys_group_put: "map fst (group_put k x g) = keys_add k (map fst g)"
  by (induction k x g rule: group_put.induct) auto

lemma group_put_sum:
  "(\<Sum>(k, g) \<leftarrow> group_put k x gs. \<Sum>y \<leftarrow> g. f y) = f x + (\<Sum>(k, g) \<leftarrow> gs. \<Sum>y \<leftarrow> g. (f y :: 'b::comm_monoid_add))"
  by (induction k x gs rule: group_put.induct) (auto simp: ac_simps)

lemma distinct_group_put: "distinct (map fst g) \<Longrightarrow> distinct (map fst (group_put k x g))"
  by (simp add: keys_group_put)

lemma distinct_group_by: "distinct (map fst (group_by key xs))"
  by (induction xs rule: rev_induct) (simp_all add: group_by_snoc distinct_group_put, simp add: group_by_def)

lemma sum_group_by:
  "(\<Sum>(k, g) \<leftarrow> group_by key xs. \<Sum>y \<leftarrow> g. f y) = (\<Sum>x \<leftarrow> xs. (f x :: 'b::comm_monoid_add))"
  by (induction xs rule: rev_induct) (simp_all add: group_by_snoc group_put_sum ac_simps, simp add: group_by_def)

lemma map_of_group_put:
  "map_of (group_put k x g) k' =
     (if k' = k then Some ((case map_of g k of None \<Rightarrow> [] | Some ys \<Rightarrow> ys) @ [x]) else map_of g k')"
  by (induction k x g rule: group_put.induct) auto

lemma map_of_group_by:
  "map_of (group_by key xs) k =
     (if \<exists>x \<in> set xs. key x = k then Some (filter (\<lambda>x. key x = k) xs) else None)"
proof (induction xs rule: rev_induct)
  case (snoc x xs)
  then show ?case
    by (auto simp: group_by_snoc map_of_group_put filter_empty_conv)
qed (simp add: group_by_def)

lemma in_group_by:
  assumes "(k, g) \<in> set (group_by key xs)"
  shows "g = filter (\<lambda>x. key x = k) xs" and "g \<noteq> []"
proof -
  have "map_of (group_by key xs) k = Some g"
    by (rule map_of_is_SomeI [OF distinct_group_by assms])
  then show "g = filter (\<lambda>x. key x = k) xs" and "g \<noteq> []"
    by (auto simp: map_of_group_by filter_empty_conv split: if_splits)
qed

lemma group_by_mem:
  assumes "x \<in> set xs"
  shows "(key x, filter (\<lambda>y. key y = key x) xs) \<in> set (group_by key xs)"
proof (rule map_of_SomeD)
  have "\<exists>y \<in> set xs. key y = key x" using assms by blast
  then show "map_of (group_by key xs) (key x) = Some (filter (\<lambda>y. key y = key x) xs)"
    by (simp only: map_of_group_by if_True)
qed

lemma group_by_members: "(k, g) \<in> set (group_by key xs) \<Longrightarrow> x \<in> set g \<Longrightarrow> x \<in> set xs \<and> key x = k"
  using in_group_by(1) [of k g key xs] by simp

lemma length_group_by: "length (group_by key xs) = card (key ` set xs)"
proof -
  have "fst ` set (group_by key xs) = dom (map_of (group_by key xs))"
    by (simp add: dom_map_of_conv_image_fst)
  also have "\<dots> = key ` set xs"
    by (auto simp: dom_def map_of_group_by split: if_splits)
  finally have "set (map fst (group_by key xs)) = key ` set xs" by simp
  then show ?thesis
    using distinct_card [OF distinct_group_by, of key xs] by simp
qed

end
