(* ===== verification/Apm_Query_Store.thy ===== *)
theory Apm_Query_Store
  imports Apm_Grouping Apm_Ingest_Api "HOL-Library.Product_Lexorder"
begin

section \<open>Scoped reads\<close>

text \<open>
  \<^verbatim>\<open>db/query.py\<close>: the statements behind the query plane, all restricted to the tenant, app and
  environment of the credential. Window facts are a \<open>GROUP BY\<close> over the matching rows; an event page
  is keyset pagination on (occurrence time, identifier), newest first. A timeout of a statement is
  the argument \<open>timely\<close>.
\<close>

subsection \<open>Facts\<close>

record query_fact =
  qf_id :: int
  qf_event_id :: string
  qf_app_version :: "string option"
  qf_release_identity_quality :: identity_quality
  qf_installation_identity_quality :: identity_quality
  qf_installation_hmac :: "string option"
  qf_occurrence_timestamp_ms :: int
  qf_received_at :: time
  qf_incident_fingerprint :: "string option"
  qf_schema_version :: string
  qf_protocol :: string
  qf_inbox_status :: inbox_status
  qf_module :: string
  qf_name :: string
  qf_scene :: "string option"
  qf_sdk_drop_count :: "int option"
  qf_sdk_drop_rate :: "rat option"
  qf_sdk_emit_count :: "int option"
  qf_installation_hmac_key_version :: "string option"
  qf_weight :: int
  qf_last_occurrence_timestamp_ms :: "int option"
  qf_late :: "bool option"
  qf_scene_state :: "string option"

definition query_bucket_ms :: "int \<Rightarrow> int \<Rightarrow> int" where
  "query_bucket_ms from_ms to_ms =
     (let raw = (to_ms - from_ms + 23) div 24 in max 60000 ((raw + 59999) div 60000 * 60000))"

definition in_scope :: "query_principal \<Rightarrow> inbox_event \<Rightarrow> bool" where
  "in_scope p r \<longleftrightarrow>
     ie_tenant_id r = qp_tenant_id p \<and> ie_app_id r = qp_app_id p \<and> ie_environment r = qp_environment p"

definition scope_window_predicates :: "query_principal \<Rightarrow> int \<Rightarrow> int \<Rightarrow> inbox_event \<Rightarrow> bool" where
  "scope_window_predicates p from_ms to_ms r \<longleftrightarrow>
     in_scope p r \<and> from_ms \<le> ie_occurrence_timestamp_ms r \<and> ie_occurrence_timestamp_ms r < to_ms"

definition query_timeout :: exn where
  "query_timeout = mk_error 503 ''query_timeout'' ''Query exceeded the execution time budget'' True None"

definition execute_bounded :: "bool \<Rightarrow> 'a \<Rightarrow> 'a result" where
  "execute_bounded timely rows = (if timely then Inr rows else Inl query_timeout)"

text \<open>
  JSON access of the statements: \<open>as_string\<close> of a missing key or null is NULL. The casts to BIGINT and
  to a float are written for the values normalization can store under these names (an integer, a
  finite number); \<open>received_at\<close> is compared in microseconds, exactly.
\<close>

definition sql_string :: "runtime \<Rightarrow> json option \<Rightarrow> string option" where
  "sql_string rt v =
     (case v of
        None \<Rightarrow> None
      | Some (JScalar SNone) \<Rightarrow> None
      | Some (JScalar (SStr s)) \<Rightarrow> Some s
      | Some j \<Rightarrow> Some (json_dumps rt j))"

definition sql_integer :: "json option \<Rightarrow> int option" where
  "sql_integer v = (case v of Some (JScalar (SInt i)) \<Rightarrow> Some i | _ \<Rightarrow> None)"

definition sql_number :: "json option \<Rightarrow> rat option" where
  "sql_number v =
     (case v of
        Some (JScalar (SInt i)) \<Rightarrow> Some (of_int i)
      | Some (JScalar (SFloat f)) \<Rightarrow> finite_value f
      | _ \<Rightarrow> None)"

definition registered_field :: "inbox_event \<Rightarrow> string \<Rightarrow> json option" where
  "registered_field r name =
     Option.bind (obj_get ''registered_fields'' (ie_normalized_json r)) (obj_get name)"

definition row_scene :: "runtime \<Rightarrow> inbox_event \<Rightarrow> string option" where
  "row_scene rt r =
     (if ie_raw_pruned_at r = None then sql_string rt (map_of (ie_payload_json r) ''scene'') else None)"

definition row_scene_state :: "runtime \<Rightarrow> inbox_event \<Rightarrow> string" where
  "row_scene_state rt r =
     (if ie_raw_pruned_at r \<noteq> None then
        (case sql_string rt (Option.bind (obj_get ''retention'' (ie_normalized_json r)) (obj_get ''scene_state'')) of
           Some s \<Rightarrow> if s \<in> {''EXPIRED'', ''MISSING''} then s else ''RETENTION_UNKNOWN''
         | None \<Rightarrow> ''RETENTION_UNKNOWN'')
      else case row_scene rt r of
        Some s \<Rightarrow> if s \<noteq> [] then ''AVAILABLE'' else ''MISSING''
      | None \<Rightarrow> ''MISSING'')"

definition valid_health :: "inbox_event \<Rightarrow> int option" where
  "valid_health r =
     (case (sql_integer (registered_field r ''emitCount''), sql_integer (registered_field r ''dropCount''),
            sql_number (registered_field r ''dropRate'')) of
        (Some emit, Some drops, Some rate) \<Rightarrow>
          if emit > 0 \<and> drops \<ge> 0 \<and> rate \<ge> 0 \<and> rate \<le> 1 then Some 1 else None
      | _ \<Rightarrow> None)"

definition row_late :: "int \<Rightarrow> inbox_event \<Rightarrow> bool" where
  "row_late late_after_ms r \<longleftrightarrow>
     ie_received_at r - ie_occurrence_timestamp_ms r * 1000 > late_after_ms * 1000"

definition row_bucket :: "int \<Rightarrow> int \<Rightarrow> inbox_event \<Rightarrow> int" where
  "row_bucket from_ms to_ms r = (ie_occurrence_timestamp_ms r - from_ms) div query_bucket_ms from_ms to_ms"

text \<open>The \<open>GROUP BY\<close> dimensions of a row, in the order of the statement.\<close>

record fact_dimensions =
  fd_app_version :: "string option"
  fd_qualities :: "identity_quality \<times> identity_quality"
  fd_installation :: "string option \<times> string option"
  fd_fingerprint :: "string option"
  fd_formats :: "string \<times> string"
  fd_status :: inbox_status
  fd_names :: "string option \<times> string option"
  fd_scene :: "string option \<times> string"
  fd_health :: "int option"
  fd_late :: bool
  fd_bucket :: int

definition dimensions :: "runtime \<Rightarrow> int \<Rightarrow> int \<Rightarrow> int \<Rightarrow> inbox_event \<Rightarrow> fact_dimensions" where
  "dimensions rt from_ms to_ms late_after_ms r =
     \<lparr>fd_app_version = ie_app_version r,
      fd_qualities = (ie_release_identity_quality r, ie_installation_identity_quality r),
      fd_installation = (ie_installation_hmac r, ie_installation_hmac_key_version r),
      fd_fingerprint = ie_incident_fingerprint r,
      fd_formats = (ie_schema_version r, ie_protocol r),
      fd_status = ie_status r,
      fd_names = (sql_string rt (map_of (ie_payload_json r) ''module''),
                  sql_string rt (map_of (ie_payload_json r) ''name'')),
      fd_scene = (row_scene rt r, row_scene_state rt r),
      fd_health = valid_health r,
      fd_late = row_late late_after_ms r,
      fd_bucket = row_bucket from_ms to_ms r\<rparr>"

definition min_of :: "'a::linorder list \<Rightarrow> 'a" where
  "min_of xs = foldl min (hd xs) (tl xs)"

definition max_of :: "'a::linorder list \<Rightarrow> 'a" where
  "max_of xs = foldl max (hd xs) (tl xs)"

definition max_option :: "'a::linorder option list \<Rightarrow> 'a option" where
  "max_option xs = (case List.map_filter id xs of [] \<Rightarrow> None | y # ys \<Rightarrow> Some (max_of (y # ys)))"

definition text_or :: "string option \<Rightarrow> string" where
  "text_or v = (case v of None \<Rightarrow> [] | Some s \<Rightarrow> s)"

definition fact_from_group :: "fact_dimensions \<times> inbox_event list \<Rightarrow> query_fact" where
  "fact_from_group dg =
     (let d = fst dg; rows = snd dg
      in \<lparr>qf_id = min_of (map ie_id rows),
          qf_event_id = hd (map ie_event_id (sort_key ie_event_id rows)),
          qf_app_version = fd_app_version d,
          qf_release_identity_quality = fst (fd_qualities d),
          qf_installation_identity_quality = snd (fd_qualities d),
          qf_installation_hmac = fst (fd_installation d),
          qf_occurrence_timestamp_ms = min_of (map ie_occurrence_timestamp_ms rows),
          qf_received_at = max_of (map ie_received_at rows),
          qf_incident_fingerprint = fd_fingerprint d,
          qf_schema_version = fst (fd_formats d), qf_protocol = snd (fd_formats d),
          qf_inbox_status = fd_status d,
          qf_module = text_or (fst (fd_names d)), qf_name = text_or (snd (fd_names d)),
          qf_scene = fst (fd_scene d),
          qf_sdk_drop_count = max_option (map (\<lambda>r. sql_integer (registered_field r ''dropCount'')) rows),
          qf_sdk_drop_rate = max_option (map (\<lambda>r. sql_number (registered_field r ''dropRate'')) rows),
          qf_sdk_emit_count = fd_health d,
          qf_installation_hmac_key_version = snd (fd_installation d),
          qf_weight = int (length rows),
          qf_last_occurrence_timestamp_ms = Some (max_of (map ie_occurrence_timestamp_ms rows)),
          qf_late = Some (fd_late d),
          qf_scene_state = Some (snd (fd_scene d))\<rparr>)"

definition query_budget_exceeded :: "nat \<Rightarrow> exn" where
  "query_budget_exceeded max_rows =
     mk_error 422 ''query_budget_exceeded''
       (''The requested window exceeds the '' @ nat_str max_rows @ '' aggregate-group query budget'') False None"

definition window_rows ::
    "query_principal \<Rightarrow> int \<Rightarrow> int \<Rightarrow> string list option \<Rightarrow> string option \<Rightarrow> inbox_event list \<Rightarrow> inbox_event list" where
  "window_rows p from_ms to_ms releases fingerprint tbl =
     filter (\<lambda>r. scope_window_predicates p from_ms to_ms r \<and>
                 (case releases of None \<Rightarrow> True
                  | Some rs \<Rightarrow> (case ie_app_version r of None \<Rightarrow> False | Some v \<Rightarrow> v \<in> set rs)) \<and>
                 (case fingerprint of None \<Rightarrow> True | Some f \<Rightarrow> ie_incident_fingerprint r = Some f)) tbl"

definition load_window_facts ::
    "runtime \<Rightarrow> bool \<Rightarrow> query_principal \<Rightarrow> int \<Rightarrow> int \<Rightarrow> nat \<Rightarrow> string list option \<Rightarrow> string option \<Rightarrow> int
       \<Rightarrow> inbox_event list \<Rightarrow> query_fact list result" where
  "load_window_facts rt timely p from_ms to_ms max_rows releases fingerprint late_after_ms tbl =
     (let groups = group_by (dimensions rt from_ms to_ms late_after_ms)
                     (window_rows p from_ms to_ms releases fingerprint tbl)
      in rbind (execute_bounded timely
                  (order_limit (\<lambda>g. min_of (map ie_id (snd g))) (max_rows + 1) groups)) (\<lambda>rows.
         if length rows > max_rows then Inl (query_budget_exceeded max_rows)
         else Inr (map fact_from_group rows)))"

definition resolve_issue_fingerprint ::
    "bool \<Rightarrow> query_principal \<Rightarrow> string \<Rightarrow> int \<Rightarrow> int \<Rightarrow> inbox_event list \<Rightarrow> string result" where
  "resolve_issue_fingerprint timely p fingerprint from_ms to_ms tbl =
     rbind (execute_bounded timely
              (take 2 (remdups (List.map_filter ie_incident_fingerprint
                 (filter (\<lambda>r. scope_window_predicates p from_ms to_ms r \<and>
                              ie_raw_incident_fingerprint r = Some fingerprint) tbl))))) (\<lambda>matches.
       case matches of
         [] \<Rightarrow> Inr fingerprint
       | [m] \<Rightarrow> Inr m
       | _ \<Rightarrow> Inl (mk_error 409 ''ambiguous_issue_fingerprint''
                     ''This raw fingerprint resolves to multiple Issues; select a current Issue'' False None))"

subsection \<open>Pages\<close>

record event_filter =
  ef_release_version :: "string option"
  ef_module :: "string option"
  ef_name :: "string option"
  ef_fingerprint :: "string option"

definition filter_matches :: "runtime \<Rightarrow> event_filter \<Rightarrow> inbox_event \<Rightarrow> bool" where
  "filter_matches rt f r \<longleftrightarrow>
     (ef_release_version f \<noteq> None \<longrightarrow> ie_app_version r = ef_release_version f) \<and>
     (ef_module f \<noteq> None \<longrightarrow> sql_string rt (map_of (ie_payload_json r) ''module'') = ef_module f) \<and>
     (ef_name f \<noteq> None \<longrightarrow> sql_string rt (map_of (ie_payload_json r) ''name'') = ef_name f) \<and>
     (ef_fingerprint f \<noteq> None \<longrightarrow> ie_incident_fingerprint r = ef_fingerprint f)"

definition after_cursor :: "(int \<times> int) option \<Rightarrow> inbox_event \<Rightarrow> bool" where
  "after_cursor cursor r \<longleftrightarrow>
     (case cursor of
        None \<Rightarrow> True
      | Some (timestamp_ms, row_id) \<Rightarrow>
          ie_occurrence_timestamp_ms r < timestamp_ms \<or>
          (ie_occurrence_timestamp_ms r = timestamp_ms \<and> ie_id r < row_id))"

text \<open>Descending order on both columns: ascending order of the negated pair.\<close>

definition page_key :: "inbox_event \<Rightarrow> int \<times> int" where
  "page_key r = (- ie_occurrence_timestamp_ms r, - ie_id r)"

definition list_scoped_events ::
    "runtime \<Rightarrow> bool \<Rightarrow> query_principal \<Rightarrow> int \<Rightarrow> int \<Rightarrow> nat \<Rightarrow> event_filter \<Rightarrow> (int \<times> int) option
       \<Rightarrow> inbox_event list \<Rightarrow> (inbox_event list \<times> bool) result" where
  "list_scoped_events rt timely p from_ms to_ms limit f cursor tbl =
     rbind (execute_bounded timely
              (take (limit + 1) (sort_key page_key
                 (filter (\<lambda>r. scope_window_predicates p from_ms to_ms r \<and> filter_matches rt f r \<and>
                              after_cursor cursor r) tbl)))) (\<lambda>events.
       Inr (take limit events, length events > limit))"

definition get_scoped_event :: "query_principal \<Rightarrow> string \<Rightarrow> inbox_event list \<Rightarrow> inbox_event option" where
  "get_scoped_event p event_id tbl = find (\<lambda>r. in_scope p r \<and> ie_event_id r = event_id) tbl"

definition list_release_decisions ::
    "query_principal \<Rightarrow> string option \<Rightarrow> nat \<Rightarrow> release_decision list \<Rightarrow> release_decision list" where
  "list_release_decisions p release_version limit tbl =
     take limit (sort_key (\<lambda>d. (- rd_created_at d, - rd_id d))
       (filter (\<lambda>d. rd_tenant_id d = qp_tenant_id p \<and> rd_app_id d = qp_app_id p \<and>
                    rd_environment d = qp_environment p \<and>
                    (release_version \<noteq> None \<longrightarrow> Some (rd_release_version d) = release_version)) tbl))"


subsection \<open>Sample rows\<close>

text \<open>Two rows of tenant t1, a row of another tenant between them, and an open filter.\<close>

definition sample_viewer :: query_principal where
  "sample_viewer = \<lparr>qp_tenant_id = ''t1'', qp_key_id = ''k'', qp_app_id = ''app'', qp_environment = ''prod'',
     qp_role = QUERY_ROLE_VIEWER, qp_expires_at = None\<rparr>"

definition no_filter :: event_filter where
  "no_filter = \<lparr>ef_release_version = None, ef_module = None, ef_name = None, ef_fingerprint = None\<rparr>"

definition scoped_row :: "int \<Rightarrow> inbox_event" where
  "scoped_row i = (sample_inbox_row i)
     \<lparr>ie_tenant_id := ''t1'', ie_app_id := ''app'', ie_environment := ''prod'', ie_occurrence_timestamp_ms := i * 1000\<rparr>"

definition foreign_row :: inbox_event where
  "foreign_row = (scoped_row 2)\<lparr>ie_tenant_id := ''t2''\<rparr>"

lemma scoped_columns [simp]:
  "ie_id (scoped_row i) = i" "ie_occurrence_timestamp_ms (scoped_row i) = i * 1000"
  "in_scope sample_viewer (scoped_row i)" "\<not> in_scope sample_viewer foreign_row" "ie_id foreign_row = 2"
  by (simp_all add: scoped_row_def foreign_row_def in_scope_def sample_viewer_def sample_inbox_row_def)

lemma no_filter_matches [simp]: "filter_matches rt no_filter r"
  by (simp add: filter_matches_def no_filter_def)

subsection \<open>Isolation\<close>

lemma window_rows_scope: "window_rows p a b rel fp tbl = window_rows p a b rel fp (filter (in_scope p) tbl)"
  by (auto simp: window_rows_def scope_window_predicates_def intro!: filter_cong)

lemma find_filter: "find (\<lambda>r. P r \<and> Q r) xs = find (\<lambda>r. P r \<and> Q r) (filter P xs)"
  by (induction xs) auto

lemma filter_scope: "filter (\<lambda>r. scope_window_predicates p a b r \<and> Q r) (filter (in_scope p) tbl) =
    filter (\<lambda>r. scope_window_predicates p a b r \<and> Q r) tbl"
  by (auto simp: scope_window_predicates_def intro!: filter_cong)



subsection \<open>Pagination\<close>

text \<open>A client that asks for the next page with the key of the last row it was given.\<close>

definition row_cursor :: "inbox_event \<Rightarrow> int \<times> int" where
  "row_cursor r = (ie_occurrence_timestamp_ms r, ie_id r)"

fun follow_pages ::
    "((int \<times> int) option \<Rightarrow> (inbox_event list \<times> bool) result) \<Rightarrow> nat \<Rightarrow> (int \<times> int) option \<Rightarrow> inbox_event list option" where
  "follow_pages page 0 cursor = None"
| "follow_pages page (Suc n) cursor =
     (case page cursor of
        Inl _ \<Rightarrow> None
      | Inr (events, has_more) \<Rightarrow>
          if has_more then map_option ((@) events) (follow_pages page n (Some (row_cursor (last events))))
          else Some events)"

definition matching_events ::
    "runtime \<Rightarrow> query_principal \<Rightarrow> int \<Rightarrow> int \<Rightarrow> event_filter \<Rightarrow> inbox_event list \<Rightarrow> inbox_event list" where
  "matching_events rt p a b f tbl =
     sort_key page_key (filter (\<lambda>r. scope_window_predicates p a b r \<and> filter_matches rt f r) tbl)"

lemma page_of_matching:
  "list_scoped_events rt True p a b limit f cursor tbl =
     (let rest = filter (after_cursor cursor) (matching_events rt p a b f tbl)
      in Inr (take limit rest, length rest > limit))"
proof -
  have eq: "sort_key page_key (filter (\<lambda>r. scope_window_predicates p a b r \<and> filter_matches rt f r \<and> after_cursor cursor r) tbl)
      = filter (after_cursor cursor) (matching_events rt p a b f tbl)"
    by (simp add: matching_events_def filter_sort [symmetric] conj_ac)
  show ?thesis
    unfolding list_scoped_events_def eq
    by (auto simp: execute_bounded_def Let_def min_def)
qed

lemma after_cursor_key: "after_cursor (Some (row_cursor x)) r \<longleftrightarrow> page_key x < page_key r"
  by (auto simp: after_cursor_def row_cursor_def page_key_def less_prod_def)

lemma filter_after:
  assumes "sorted_wrt (\<lambda>x y. page_key x < page_key y) (xs @ x # ys)"
  shows "filter (after_cursor (Some (row_cursor x))) (xs @ x # ys) = ys"
proof -
  have "\<forall>r \<in> set xs. \<not> page_key x < page_key r" "\<forall>r \<in> set ys. page_key x < page_key r"
    using assms by (auto simp: sorted_wrt_append dest: less_asym)
  then show ?thesis by (simp add: after_cursor_key filter_empty_conv)
qed

lemma follow_from:
  assumes srt: "sorted_wrt (\<lambda>x y. page_key x < page_key y) (seen @ rest)"
    and m: "matching_events rt p a b f tbl = seen @ rest"
    and cur: "filter (after_cursor cursor) (seen @ rest) = rest"
    and "limit > 0" "length rest < n"
  shows "follow_pages (\<lambda>c. list_scoped_events rt True p a b limit f c tbl) n cursor = Some rest"
  using assms
proof (induction n arbitrary: seen rest cursor)
  case (Suc n)
  have page: "list_scoped_events rt True p a b limit f cursor tbl = Inr (take limit rest, length rest > limit)"
    by (simp only: page_of_matching Suc.prems(2,3) Let_def)
  show ?case
  proof (cases "length rest > limit")
    case True
    define x where "x = last (take limit rest)"
    have pre: "take limit rest = butlast (take limit rest) @ [x]"
      unfolding x_def using True Suc.prems(4) by (metis append_butlast_last_id less_zeroE list.size(3) take_eq_Nil)
    define seen' where "seen' = seen @ take limit rest"
    have split: "seen @ rest = seen' @ drop limit rest"
      by (simp add: seen'_def)
    have "seen @ rest = (seen @ butlast (take limit rest)) @ x # drop limit rest"
      using pre by (metis append.assoc append_Cons append_Nil append_take_drop_id)
    then have cur: "filter (after_cursor (Some (row_cursor x))) (seen' @ drop limit rest) = drop limit rest"
      using filter_after Suc.prems(1) split by metis
    have "follow_pages (\<lambda>c. list_scoped_events rt True p a b limit f c tbl) n (Some (row_cursor x)) = Some (drop limit rest)"
      by (rule Suc.IH [OF _ _ cur]) (use Suc.prems split True in auto)
    then show ?thesis using True by (simp add: page x_def [symmetric])
  qed (simp add: page)
qed simp

lemma matching_strict:
  assumes "inbox_primary_key tbl"
  shows "sorted_wrt (\<lambda>x y. page_key x < page_key y) (matching_events rt p a b f tbl)"
proof -
  let ?m = "matching_events rt p a b f tbl"
  have "inj_on page_key (set ?m)"
    using assms inbox_id_unique [OF assms] by (auto simp: inj_on_def page_key_def matching_events_def)
  moreover have "distinct ?m"
    using assms by (simp add: matching_events_def inbox_primary_key_def distinct_map)
  ultimately have "distinct (map page_key ?m)" by (simp add: distinct_map)
  then have "sorted_wrt (<) (map page_key ?m)"
    by (simp add: strict_sorted_iff matching_events_def)
  then show ?thesis by (simp add: sorted_wrt_map)
qed

lemma length_matching: "length (matching_events rt p a b f tbl) \<le> length tbl"
  by (simp add: matching_events_def)

text \<open>
  Pagination ends and is complete: asking for the next page with the key of the last row received,
  a client gets after at most one request per stored row a page that says there is no more, and the
  pages together are exactly the rows of its scope, window and filters, each once, newest first.
\<close>

theorem pagination_enumerates:
  assumes "inbox_primary_key tbl" "limit > 0"
  shows "follow_pages (\<lambda>c. list_scoped_events rt True p a b limit f c tbl) (Suc (length tbl)) None =
    Some (sort_key page_key (filter (\<lambda>r. scope_window_predicates p a b r \<and> filter_matches rt f r) tbl))"
proof -
  have "follow_pages (\<lambda>c. list_scoped_events rt True p a b limit f c tbl) (Suc (length tbl)) None =
      Some (matching_events rt p a b f tbl)"
    by (rule follow_from [where seen = "[]"])
       (use assms matching_strict length_matching in \<open>auto simp: after_cursor_def less_Suc_eq_le\<close>)
  then show ?thesis by (simp only: matching_events_def)
qed

theorem pagination_enumerates_witness:
  "follow_pages (\<lambda>c. list_scoped_events sample_runtime True sample_viewer 0 9000 1 no_filter c
       [scoped_row 1, foreign_row, scoped_row 3]) 4 None = Some [scoped_row 3, scoped_row 1]"
proof -
  have "inbox_primary_key [scoped_row 1, foreign_row, scoped_row 3]"
    by (simp add: inbox_primary_key_def)
  from pagination_enumerates [OF this, of 1 sample_runtime sample_viewer 0 9000 no_filter]
  show ?thesis
    by (simp add: scope_window_predicates_def page_key_def eval_nat_numeral del: follow_pages.simps)
qed

subsection \<open>Aggregation\<close>

lemma foldl_min_mem: "foldl min (m::'a::linorder) xs \<in> insert m (set xs)"
  by (induction xs arbitrary: m) (auto simp: min_def)

lemma min_of_mem: "xs \<noteq> [] \<Longrightarrow> min_of xs \<in> set xs"
  using foldl_min_mem [of "hd xs" "tl xs"] by (cases xs) (auto simp: min_of_def)

text \<open>What the response builders read of a fact, and the same columns of a row.\<close>

definition fact_view ::
    "int \<Rightarrow> int \<Rightarrow> query_fact \<Rightarrow> (string option \<times> identity_quality \<times> identity_quality) \<times>
       (string option \<times> string option) \<times> string option \<times> (string \<times> string) \<times> inbox_status \<times> bool option \<times> string option \<times> int" where
  "fact_view from_ms to_ms f =
     ((qf_app_version f, qf_release_identity_quality f, qf_installation_identity_quality f),
      (qf_installation_hmac f, qf_installation_hmac_key_version f), qf_incident_fingerprint f,
      (qf_module f, qf_name f), qf_inbox_status f, qf_late f, qf_scene_state f,
      (qf_occurrence_timestamp_ms f - from_ms) div query_bucket_ms from_ms to_ms)"

definition row_view ::
    "runtime \<Rightarrow> int \<Rightarrow> int \<Rightarrow> int \<Rightarrow> inbox_event \<Rightarrow> (string option \<times> identity_quality \<times> identity_quality) \<times>
       (string option \<times> string option) \<times> string option \<times> (string \<times> string) \<times> inbox_status \<times> bool option \<times> string option \<times> int" where
  "row_view rt from_ms to_ms late_after_ms r =
     ((ie_app_version r, ie_release_identity_quality r, ie_installation_identity_quality r),
      (ie_installation_hmac r, ie_installation_hmac_key_version r), ie_incident_fingerprint r,
      (text_or (sql_string rt (map_of (ie_payload_json r) ''module'')),
       text_or (sql_string rt (map_of (ie_payload_json r) ''name''))), ie_status r, Some (row_late late_after_ms r), Some (row_scene_state rt r),
      (ie_occurrence_timestamp_ms r - from_ms) div query_bucket_ms from_ms to_ms)"

lemma fact_view_of_group:
  assumes "(d, g) \<in> set (group_by (dimensions rt a b late) rows)" "r \<in> set g"
  shows "fact_view a b (fact_from_group (d, g)) = row_view rt a b late r"
proof -
  have g: "\<forall>x \<in> set g. dimensions rt a b late x = d" and "g \<noteq> []"
    using group_by_members [OF assms(1)] in_group_by(2) [OF assms(1)] by auto
  then have "min_of (map ie_occurrence_timestamp_ms g) \<in> ie_occurrence_timestamp_ms ` set g"
    using min_of_mem [of "map ie_occurrence_timestamp_ms g"] by simp
  then obtain x where x: "x \<in> set g" "min_of (map ie_occurrence_timestamp_ms g) = ie_occurrence_timestamp_ms x"
    by auto
  have dx: "dimensions rt a b late x = d" and dr: "d = dimensions rt a b late r"
    using g x(1) assms(2) by auto
  have "fd_bucket (dimensions rt a b late x) = fd_bucket (dimensions rt a b late r)"
    using dx dr by simp
  then have "row_bucket a b x = row_bucket a b r"
    by (simp add: dimensions_def)
  then show ?thesis
    unfolding dr by (simp add: fact_view_def row_view_def fact_from_group_def dimensions_def x(2) row_bucket_def)
qed

lemma facts_of_groups:
  assumes "load_window_facts rt timely p a b n rel fpo late tbl = Inr facts"
  shows "mset facts = mset (map fact_from_group
      (group_by (dimensions rt a b late) (window_rows p a b rel fpo tbl))) \<and> length facts \<le> n"
proof -
  let ?g = "group_by (dimensions rt a b late) (window_rows p a b rel fpo tbl)"
  have le: "length (order_limit (\<lambda>g. min_of (map ie_id (snd g))) (n + 1) ?g) \<le> n"
    and f: "facts = map fact_from_group (order_limit (\<lambda>g. min_of (map ie_id (snd g))) (n + 1) ?g)"
    using assms by (auto simp: load_window_facts_def Let_def execute_bounded_def split: if_splits)
  have "length ?g \<le> n" using le by (simp add: order_limit_def min_def split: if_splits)
  then show ?thesis using le by (simp add: f order_limit_def)
qed

lemma sum_filter_mset:
  "mset xs = mset ys \<Longrightarrow> sum_list (map h (filter Q xs)) = sum_list (map (h :: 'a \<Rightarrow> int) (filter Q ys))"
  by (metis mset_filter mset_map sum_mset_sum_list)

lemma sum_list_filter_int:
  "sum_list (map h (filter Q xs)) = (\<Sum>x \<leftarrow> xs. if Q x then h x else (0::int))"
  by (induction xs) auto

lemma length_filter_sum: "int (length (filter Q xs)) = (\<Sum>x \<leftarrow> xs. if Q x then 1 else 0)"
  by (induction xs) auto

text \<open>
  The facts are the window: when the aggregate statement answers, counting events by the weights of
  the facts gives for every question about release, identity qualities, installation, fingerprint,
  event name, delivery status, lateness, scene state and time bucket exactly the number of matching stored rows,
  and there are at most \<open>max_rows\<close> facts; no row is dropped, counted twice or moved to another bucket.
\<close>

theorem window_facts_conserve_rows:
  assumes "load_window_facts rt timely p a b n rel fpo late tbl = Inr facts"
  shows "length facts \<le> n \<and>
    sum_list (map qf_weight (filter (\<lambda>f. Q (fact_view a b f)) facts)) =
      int (length (filter (\<lambda>r. Q (row_view rt a b late r)) (window_rows p a b rel fpo tbl)))"
proof -
  let ?rows = "window_rows p a b rel fpo tbl" and ?dim = "dimensions rt a b late"
  let ?one = "\<lambda>r. if Q (row_view rt a b late r) then 1 else (0::int)"
  have group: "(if Q (fact_view a b (fact_from_group dg)) then qf_weight (fact_from_group dg) else 0) =
      (case dg of (d, g) \<Rightarrow> \<Sum>r \<leftarrow> g. ?one r)" if "dg \<in> set (group_by ?dim ?rows)" for dg
  proof -
    obtain d g where dg: "dg = (d, g)" by (cases dg)
    have view: "\<forall>r \<in> set g. row_view rt a b late r = fact_view a b (fact_from_group (d, g))"
      using fact_view_of_group that by (simp add: dg)
    have "(\<Sum>r \<leftarrow> g. ?one r) = (\<Sum>r \<leftarrow> g. if Q (fact_view a b (fact_from_group (d, g))) then 1 else (0::int))"
      by (intro arg_cong [where f = sum_list] map_cong) (use view in auto)
    moreover have "qf_weight (fact_from_group (d, g)) = int (length g)"
      by (simp add: fact_from_group_def)
    ultimately show ?thesis by (simp add: dg sum_list_triv)
  qed
  have "sum_list (map qf_weight (filter (\<lambda>f. Q (fact_view a b f)) facts)) =
      sum_list (map qf_weight (filter (\<lambda>f. Q (fact_view a b f)) (map fact_from_group (group_by ?dim ?rows))))"
    by (rule sum_filter_mset) (use facts_of_groups [OF assms] in blast)
  also have "\<dots> = (\<Sum>dg \<leftarrow> group_by ?dim ?rows. if Q (fact_view a b (fact_from_group dg)) then qf_weight (fact_from_group dg) else 0)"
    by (simp add: sum_list_filter_int comp_def)
  also have "\<dots> = (\<Sum>(d, g) \<leftarrow> group_by ?dim ?rows. \<Sum>r \<leftarrow> g. ?one r)"
    by (intro arg_cong [where f = sum_list] map_cong refl group)
  also have "\<dots> = int (length (filter (\<lambda>r. Q (row_view rt a b late r)) ?rows))"
    by (simp only: sum_group_by length_filter_sum)
  finally show ?thesis using facts_of_groups [OF assms] by blast
qed

lemma scoped_window:
  "window_rows sample_viewer 0 9000 None None [scoped_row 1, foreign_row, scoped_row 3] = [scoped_row 1, scoped_row 3]"
  by (simp add: window_rows_def scope_window_predicates_def)

theorem window_facts_conserve_rows_witness:
  "\<exists>facts. load_window_facts sample_runtime True sample_viewer 0 9000 10 None None 900000
       [scoped_row 1, foreign_row, scoped_row 3] = Inr facts \<and> sum_list (map qf_weight facts) = 2"
proof -
  let ?load = "load_window_facts sample_runtime True sample_viewer 0 9000 10 None None 900000
       [scoped_row 1, foreign_row, scoped_row 3]"
  have "length (group_by k [scoped_row 1, scoped_row 3]) \<le> 10" for k :: "inbox_event \<Rightarrow> fact_dimensions"
    by (simp add: group_by_def)
  then have "\<not> 10 < length (group_by (dimensions sample_runtime 0 9000 900000) [scoped_row 1, scoped_row 3])"
    by (simp only: not_less)
  then obtain facts where f: "?load = Inr facts"
    by (simp add: load_window_facts_def scoped_window execute_bounded_def order_limit_def Let_def)
  then show ?thesis
    using window_facts_conserve_rows [OF f, of "\<lambda>_. True"] by (simp add: scoped_window)
qed

lemma div_less_of_less_mult: "0 < b \<Longrightarrow> a < k * b \<Longrightarrow> a div b < (k::int)"
proof (rule ccontr)
  assume "0 < b" "a < k * b" "\<not> a div b < k"
  then have "k * b \<le> a div b * b" by (intro mult_right_mono) auto
  also have "\<dots> \<le> a" using \<open>0 < b\<close> div_mult_mod_eq [of a b] pos_mod_sign [of b a] by linarith
  finally show False using \<open>a < k * b\<close> by simp
qed

lemma round_up_ge: "0 < k \<Longrightarrow> x \<le> (x + (k - 1)) div k * (k::int)"
proof -
  assume "0 < k"
  then have "(x + (k - 1)) mod k < k" by simp
  then show ?thesis using div_mult_mod_eq [of "x + (k - 1)" k] by linarith
qed

text \<open>
  Time buckets: the shared bucket width is a whole number of minutes, at least one, and at most 24
  buckets of it cover a window, so every event of the window falls in a bucket from 0 to 23.
\<close>

theorem buckets_cover_window:
  assumes "from_ms < to_ms" "from_ms \<le> t" "t < to_ms"
  shows "60000 dvd query_bucket_ms from_ms to_ms \<and> 60000 \<le> query_bucket_ms from_ms to_ms \<and>
    0 \<le> (t - from_ms) div query_bucket_ms from_ms to_ms \<and> (t - from_ms) div query_bucket_ms from_ms to_ms < 24"
proof -
  let ?B = "query_bucket_ms from_ms to_ms"
  have dvd: "60000 dvd ?B" by (simp add: query_bucket_ms_def Let_def max_def)
  have ge: "60000 \<le> ?B" by (simp add: query_bucket_ms_def Let_def)
  have "(to_ms - from_ms + 23) div 24 \<le> ?B"
    unfolding query_bucket_ms_def Let_def by (rule max.coboundedI2) (use round_up_ge [of 60000] in simp)
  moreover have "to_ms - from_ms \<le> 24 * ((to_ms - from_ms + 23) div 24)"
    using round_up_ge [of 24 "to_ms - from_ms"] by (simp add: mult.commute)
  ultimately have "to_ms - from_ms \<le> 24 * ?B" by linarith
  then have "t - from_ms < 24 * ?B" using assms by linarith
  then have "(t - from_ms) div ?B < 24"
    using ge div_less_of_less_mult by simp
  then show ?thesis using dvd ge assms by (simp add: pos_imp_zdiv_nonneg_iff)
qed

theorem buckets_cover_window_witness: "(86399999 - 0) div query_bucket_ms 0 86400000 < 24"
  using buckets_cover_window [of 0 86400000 86399999] by simp

end
