(* ===== verification/Apm_Tokens.thy ===== *)
theory Apm_Tokens
  imports Apm_Auth
begin

section \<open>Signed tokens\<close>

text \<open>
  The two kinds of signed tokens of the query plane share one shape: a JSON payload and its
  HMAC-SHA256, both in unpadded URL-safe Base64, joined by a dot. \<^verbatim>\<open>query.py\<close> signs pagination
  cursors, \<^verbatim>\<open>web_auth.py\<close> signs browser sessions. Base64 is written out; the decoder refuses every
  text that is not the canonical encoding of what it decodes to, so each payload has one token.
\<close>

subsection \<open>Base64url\<close>

definition b64_char :: "nat \<Rightarrow> char" where
  "b64_char n =
     char_of (if n < 26 then n + 65 else if n < 52 then n + 71 else if n < 62 then n - 4
              else if n = 62 then 45 else 95)"

definition b64_value :: "char \<Rightarrow> nat option" where
  "b64_value c =
     (let b = byte c
      in if 65 \<le> b \<and> b \<le> 90 then Some (b - 65)
         else if 97 \<le> b \<and> b \<le> 122 then Some (b - 71)
         else if 48 \<le> b \<and> b \<le> 57 then Some (b + 4)
         else if b = 45 \<or> b = 43 then Some 62
         else if b = 95 \<or> b = 47 then Some 63
         else None)"

fun sextets :: "nat list \<Rightarrow> nat list" where
  "sextets [] = []"
| "sextets [a] = [a div 4, a mod 4 * 16]"
| "sextets [a, b] = [a div 4, a mod 4 * 16 + b div 16, b mod 16 * 4]"
| "sextets (a # b # c # r) =
     a div 4 # (a mod 4 * 16 + b div 16) # (b mod 16 * 4 + c div 64) # c mod 64 # sextets r"

fun unsextets :: "nat list \<Rightarrow> nat list option" where
  "unsextets [] = Some []"
| "unsextets [x] = None"
| "unsextets [x, y] = Some [x * 4 + y div 16]"
| "unsextets [x, y, z] = Some [x * 4 + y div 16, y mod 16 * 16 + z div 4]"
| "unsextets (x # y # z # w # r) =
     map_option (\<lambda>bs. (x * 4 + y div 16) # (y mod 16 * 16 + z div 4) # (z mod 4 * 64 + w) # bs) (unsextets r)"

definition b64url :: "string \<Rightarrow> string" where
  "b64url s = map b64_char (sextets (map byte s))"

definition b64_values :: "string \<Rightarrow> nat list option" where
  "b64_values s = those (map b64_value s)"

text \<open>
  \<open>base64.b64decode(value + padding, altchars=b"-_", validate=True)\<close> followed by the comparison with
  the re-encoded bytes. The text the library decodes beyond this (padding inside the value, the
  standard alphabet) fails the comparison.
\<close>

definition b64url_decode :: "string \<Rightarrow> string option" where
  "b64url_decode v =
     (case Option.bind (b64_values v) unsextets of
        None \<Rightarrow> None
      | Some bs \<Rightarrow>
          let decoded = map char_of bs
          in if b64url decoded = v then Some decoded else None)"

lemma byte_lt [simp]: "byte c < 256"
  by (simp add: byte_def)

lemma char_of_byte [simp]: "char_of (byte c) = c"
  by (simp add: byte_def)

lemma b64_value_char: "n < 64 \<Longrightarrow> b64_value (b64_char n) = Some n"
  by (auto simp: b64_value_def b64_char_def byte_def Let_def)

lemma b64_char_no_dot: "n < 64 \<Longrightarrow> b64_char n \<noteq> CHR ''.''"
proof
  assume "n < 64" "b64_char n = CHR ''.''"
  then have "b64_value CHR ''.'' = Some n" using b64_value_char by metis
  then show False by (simp add: b64_value_def byte_def)
qed

lemma sextets_lt: "\<forall>b \<in> set bs. b < 256 \<Longrightarrow> \<forall>x \<in> set (sextets bs). x < 64"
  by (induction bs rule: sextets.induct) (auto simp: less_mult_imp_div_less)

lemma unsextets_sextets: "\<forall>b \<in> set bs. b < 256 \<Longrightarrow> unsextets (sextets bs) = Some bs"
  by (induction bs rule: sextets.induct) auto

lemma b64_values_b64url: "b64_values (b64url s) = Some (sextets (map byte s))"
proof -
  have "\<forall>x \<in> set (sextets (map byte s)). x < 64" by (rule sextets_lt) simp
  then have "those (map b64_value (map b64_char xs)) = Some xs" if "set xs \<subseteq> set (sextets (map byte s))" for xs
    using that by (induction xs) (auto simp: b64_value_char)
  then show ?thesis by (simp add: b64_values_def b64url_def)
qed

lemma b64url_decode_b64url [simp]: "b64url_decode (b64url s) = Some s"
  by (simp add: b64url_decode_def b64_values_b64url unsextets_sextets Let_def comp_def)

lemma b64url_decode_eq: "b64url_decode v = Some s \<longleftrightarrow> v = b64url s"
proof
  show "v = b64url s" if "b64url_decode v = Some s"
    using that by (auto simp: b64url_decode_def Let_def split: option.splits if_splits)
qed simp

lemma b64url_inj: "b64url s = b64url t \<longleftrightarrow> s = t"
  using b64url_decode_b64url by (metis option.inject)

lemma b64url_no_dot: "CHR ''.'' \<notin> set (b64url s)"
proof -
  have "\<forall>x \<in> set (sextets (map byte s)). x < 64" by (rule sextets_lt) simp
  then show ?thesis using b64_char_no_dot by (fastforce simp: b64url_def)
qed

lemma length_sextets: "length (sextets bs) = (4 * length bs + 2) div 3"
  by (induction bs rule: sextets.induct) auto

lemma length_b64url: "length (b64url s) = (4 * length s + 2) div 3"
  by (simp add: b64url_def length_sextets)

subsection \<open>Sealing\<close>

definition seal :: "runtime \<Rightarrow> string \<Rightarrow> string \<Rightarrow> string" where
  "seal rt key payload = b64url payload @ CHR ''.'' # b64url (rt_hmac_sha256 rt key payload)"

text \<open>The decoded components of a token: split at the first dot, both parts canonical.\<close>

definition token_parts :: "string \<Rightarrow> (string \<times> string) option" where
  "token_parts token =
     (case partition_on CHR ''.'' token of
        (p, sep, s) \<Rightarrow>
          if sep then
            Option.bind (b64url_decode p) (\<lambda>payload. map_option (Pair payload) (b64url_decode s))
          else None)"

lemma token_parts_seal [simp]: "token_parts (seal rt key payload) = Some (payload, rt_hmac_sha256 rt key payload)"
  by (simp add: token_parts_def seal_def partition_on_append b64url_no_dot)

lemma token_parts_eq:
  "token_parts token = Some (payload, signature) \<longleftrightarrow> token = b64url payload @ CHR ''.'' # b64url signature"
proof
  assume l: "token_parts token = Some (payload, signature)"
  obtain p sep s where t: "partition_on CHR ''.'' token = (p, sep, s)" by (cases "partition_on CHR ''.'' token")
  then have sep and "b64url_decode p = Some payload" "b64url_decode s = Some signature"
    using l by (auto simp: token_parts_def split: bind_splits if_splits)
  then show "token = b64url payload @ CHR ''.'' # b64url signature"
    using t by (simp add: b64url_decode_eq partition_on_sep)
qed (simp add: token_parts_def partition_on_append b64url_no_dot)

lemma seal_iff:
  "token_parts token = Some (payload, rt_hmac_sha256 rt key payload) \<longleftrightarrow> token = seal rt key payload"
  by (simp add: token_parts_eq seal_def)

text \<open>Python's \<open>1 == True == 1.0\<close>: the values equal to the token version 1.\<close>

definition is_one :: "json option \<Rightarrow> bool" where
  "is_one v \<longleftrightarrow>
     (case v of
        Some (JScalar (SInt i)) \<Rightarrow> i = 1
      | Some (JScalar (SBool b)) \<Rightarrow> b
      | Some (JScalar (SFloat f)) \<Rightarrow> finite_value f = Some 1
      | _ \<Rightarrow> False)"

definition int_of :: "json option \<Rightarrow> int option" where
  "int_of v = (case v of Some (JScalar (SInt i)) \<Rightarrow> Some i | _ \<Rightarrow> None)"

text \<open>\<open>hmac.compare_digest\<close> on text refuses non-ASCII arguments with a \<open>TypeError\<close>.\<close>

definition compare_digest :: "string \<Rightarrow> string \<Rightarrow> bool option" where
  "compare_digest a b = (if list_all is_ascii a \<and> list_all is_ascii b then Some (a = b) else None)"

text \<open>A signing key: standard Base64 of at least 32 bytes.\<close>

definition signing_key :: "runtime \<Rightarrow> exn \<Rightarrow> string \<Rightarrow> string result" where
  "signing_key rt unavailable value =
     (case rt_b64decode rt value of
        None \<Rightarrow> Inl unavailable
      | Some key \<Rightarrow> if length key < 32 then Inl unavailable else Inr key)"

subsection \<open>Cursors\<close>

definition QUERY_CURSOR_VERSION :: int where [consts_simps]: "QUERY_CURSOR_VERSION = 1"

definition cursor_unavailable :: exn where
  "cursor_unavailable =
     mk_error 503 ''query_cursor_unavailable'' ''Query pagination is not configured'' True None"

definition cursor_key :: "runtime \<Rightarrow> string \<Rightarrow> string result" where
  "cursor_key rt value = signing_key rt cursor_unavailable value"

definition cursor_filter_hash ::
    "runtime \<Rightarrow> query_principal \<Rightarrow> int \<Rightarrow> int \<Rightarrow> string option \<Rightarrow> string option \<Rightarrow> string option \<Rightarrow> string option \<Rightarrow> string" where
  "cursor_filter_hash rt p from_ms to_ms release_version md nm fingerprint =
     rt_sha256_hex rt (canonical_json rt (JObj
       [(''tenant'', jstr (qp_tenant_id p)), (''app'', jstr (qp_app_id p)),
        (''environment'', jstr (qp_environment p)), (''from'', jint from_ms), (''to'', jint to_ms),
        (''release'', jopt release_version), (''module'', jopt md), (''name'', jopt nm),
        (''fingerprint'', jopt fingerprint)]))"

definition cursor_payload :: "int \<Rightarrow> int \<Rightarrow> string \<Rightarrow> json" where
  "cursor_payload timestamp_ms row_id filter_hash =
     JObj [(''v'', jint QUERY_CURSOR_VERSION), (''t'', jint timestamp_ms), (''i'', jint row_id),
           (''f'', jstr filter_hash)]"

definition encode_cursor :: "runtime \<Rightarrow> int \<Rightarrow> int \<Rightarrow> string \<Rightarrow> string \<Rightarrow> string result" where
  "encode_cursor rt timestamp_ms row_id filter_hash key_b64 =
     rbind (cursor_key rt key_b64) (\<lambda>key.
       Inr (seal rt key (canonical_json rt (cursor_payload timestamp_ms row_id filter_hash))))"

definition invalid_cursor :: exn where
  "invalid_cursor = mk_error 400 ''invalid_cursor'' ''The pagination cursor is invalid'' False None"

definition cursor_value :: "string \<Rightarrow> json \<Rightarrow> (int \<times> int) option" where
  "cursor_value filter_hash v =
     (if obj_of v = None then None
      else case (int_of (obj_get ''t'' v), int_of (obj_get ''i'' v), Option.bind (obj_get ''f'' v) str_of) of
             (Some timestamp_ms, Some row_id, Some bound_filter) \<Rightarrow>
               if is_one (obj_get ''v'' v) \<and> timestamp_ms > 0 \<and> row_id > 0 \<and>
                  compare_digest bound_filter filter_hash = Some True
               then Some (timestamp_ms, row_id) else None
           | _ \<Rightarrow> None)"

definition decode_cursor :: "runtime \<Rightarrow> string \<Rightarrow> string \<Rightarrow> string \<Rightarrow> (int \<times> int) result" where
  "decode_cursor rt cursor filter_hash key_b64 =
     rbind (cursor_key rt key_b64) (\<lambda>key.
       case token_parts cursor of
         None \<Rightarrow> Inl invalid_cursor
       | Some (payload, signature) \<Rightarrow>
           if signature \<noteq> rt_hmac_sha256 rt key payload then Inl invalid_cursor
           else case Option.bind (rt_json_loads rt payload) (cursor_value filter_hash) of
                  None \<Rightarrow> Inl invalid_cursor
                | Some position \<Rightarrow> Inr position)"

subsection \<open>Cursor properties\<close>

text \<open>What the code relies on of the JSON library: loading a dumped document gives it back.\<close>

definition json_round_trip :: "runtime \<Rightarrow> json \<Rightarrow> bool" where
  "json_round_trip rt v \<longleftrightarrow> rt_json_loads rt (canonical_json rt v) = Some (sort_keys v)"

lemma sort_cursor_payload:
  "sort_keys (cursor_payload t i h) =
     JObj [(''f'', jstr h), (''i'', jint i), (''t'', jint t), (''v'', jint 1)]"
  by (simp add: cursor_payload_def consts_simps)

lemma cursor_value_payload:
  "t > 0 \<Longrightarrow> i > 0 \<Longrightarrow> list_all is_ascii h \<Longrightarrow>
     cursor_value h' (sort_keys (cursor_payload t i h)) = (if h' = h then Some (t, i) else None)"
  by (simp add: sort_cursor_payload cursor_value_def int_of_def is_one_def compare_digest_def)

lemma cursor_valueD:
  assumes "cursor_value h v = Some (t, i)"
  shows "t > 0 \<and> i > 0 \<and> obj_get ''t'' v = Some (jint t) \<and> obj_get ''i'' v = Some (jint i) \<and>
    obj_get ''f'' v = Some (jstr h)"
proof -
  obtain t' i' h' where g: "int_of (obj_get ''t'' v) = Some t'" "int_of (obj_get ''i'' v) = Some i'"
      "Option.bind (obj_get ''f'' v) str_of = Some h'"
    using assms by (auto simp: cursor_value_def split: if_splits option.splits)
  then have "t' = t" "i' = i" "h' = h" "t > 0" "i > 0"
    using assms by (auto simp: cursor_value_def compare_digest_def split: if_splits)
  moreover have "obj_get ''t'' v = Some (jint t')" "obj_get ''i'' v = Some (jint i')" "obj_get ''f'' v = Some (jstr h')"
    using g by (auto simp: int_of_def split: option.splits json.splits scalar.splits bind_splits elim: str_of.elims)
  ultimately show ?thesis by simp
qed

lemma decode_cursor_encoded:
  assumes "json_round_trip rt (cursor_payload t i h)" "cursor_key rt k = Inr key" "t > 0" "i > 0" "list_all is_ascii h"
  shows "decode_cursor rt (seal rt key (canonical_json rt (cursor_payload t i h))) h' k =
    (if h' = h then Inr (t, i) else Inl invalid_cursor)"
  using assms by (simp add: decode_cursor_def json_round_trip_def cursor_value_payload)

text \<open>
  Cursor round trip: with a configured key, the cursor issued for a row position decodes under the
  same query to exactly that position, and under every other scope, window or filter hash it is
  refused with \<open>invalid_cursor\<close>.
\<close>

theorem cursor_round_trip:
  assumes "json_round_trip rt (cursor_payload t i h)" "cursor_key rt k = Inr key"
    and "t > 0" "i > 0" "list_all is_ascii h"
  shows "\<exists>c. encode_cursor rt t i h k = Inr c \<and>
    (\<forall>h'. decode_cursor rt c h' k = (if h' = h then Inr (t, i) else Inl invalid_cursor))"
  using assms decode_cursor_encoded [OF assms] by (simp add: encode_cursor_def)

definition token_runtime :: runtime where
  "token_runtime = sample_runtime\<lparr>rt_b64decode := Some,
     rt_json_loads := (\<lambda>s. if s = canonical_json sample_runtime (cursor_payload 7 3 ''abc'')
                           then Some (sort_keys (cursor_payload 7 3 ''abc'')) else None)\<rparr>"

lemma canonical_json_runtime: "rt_float_repr rt = rt_float_repr rt' \<Longrightarrow> canonical_json rt v = canonical_json rt' v"
proof -
  assume eq: "rt_float_repr rt = rt_float_repr rt'"
  have s: "json_scalar rt x = json_scalar rt' x" for x
    by (cases x) (use eq in \<open>auto split: pyfloat.splits\<close>)
  have "json_dumps rt v = json_dumps rt' v" for v
    by (induction v) (auto simp: s intro!: arg_cong [where f = "join_with _"])
  then show ?thesis by (simp add: canonical_json_def)
qed

lemma token_runtime_law: "json_round_trip token_runtime (cursor_payload 7 3 ''abc'')"
  using canonical_json_runtime [of token_runtime sample_runtime]
  by (simp add: json_round_trip_def token_runtime_def)

theorem cursor_round_trip_witness:
  "\<exists>c. encode_cursor token_runtime 7 3 ''abc'' (replicate 32 CHR ''k'') = Inr c \<and>
     decode_cursor token_runtime c ''abc'' (replicate 32 CHR ''k'') = Inr (7, 3) \<and>
     decode_cursor token_runtime c ''abd'' (replicate 32 CHR ''k'') = Inl invalid_cursor"
proof -
  have "cursor_key token_runtime (replicate 32 CHR ''k'') = Inr (replicate 32 CHR ''k'')"
    by (simp add: cursor_key_def signing_key_def token_runtime_def)
  then obtain c where c: "encode_cursor token_runtime 7 3 ''abc'' (replicate 32 CHR ''k'') = Inr c"
      "\<And>h'. decode_cursor token_runtime c h' (replicate 32 CHR ''k'') = (if h' = ''abc'' then Inr (7, 3) else Inl invalid_cursor)"
    using cursor_round_trip [OF token_runtime_law, of "replicate 32 CHR ''k''" "replicate 32 CHR ''k''"]
    by (auto simp: is_ascii_def byte_def)
  from c(1) c(2) [of "''abc''"] c(2) [of "''abd''"] show ?thesis by auto
qed

text \<open>
  Cursors cannot be forged by editing: an accepted cursor is byte for byte the sealed form of a
  payload under the configured key, the payload names this query's filter hash and the returned
  positive position; whatever else is presented is refused with 400, or with 503 when no key of at
  least 32 bytes is configured.
\<close>

theorem accepted_cursor_is_sealed:
  "(\<forall>t i. decode_cursor rt c h k = Inr (t, i) \<longrightarrow>
      (\<exists>key payload v. cursor_key rt k = Inr key \<and> 32 \<le> length key \<and> c = seal rt key payload \<and>
         rt_json_loads rt payload = Some v \<and> obj_get ''t'' v = Some (jint t) \<and>
         obj_get ''i'' v = Some (jint i) \<and> obj_get ''f'' v = Some (jstr h) \<and> t > 0 \<and> i > 0)) \<and>
   (\<forall>e. decode_cursor rt c h k = Inl e \<longrightarrow> e = invalid_cursor \<or> e = cursor_unavailable)"
proof (intro conjI allI impI)
  fix t i
  assume d: "decode_cursor rt c h k = Inr (t, i)"
  then obtain key payload signature where key: "cursor_key rt k = Inr key"
      and parts: "token_parts c = Some (payload, signature)"
    by (auto simp: decode_cursor_def split: option.splits)
  have sig: "signature = rt_hmac_sha256 rt key payload"
    using d key parts by (simp add: decode_cursor_def split: if_splits)
  then obtain v where v: "rt_json_loads rt payload = Some v" "cursor_value h v = Some (t, i)"
    using d key parts by (auto simp: decode_cursor_def split: option.splits bind_splits)
  have "32 \<le> length key"
    using key by (auto simp: cursor_key_def signing_key_def split: option.splits if_splits)
  moreover have "c = seal rt key payload"
    using parts sig by (simp add: seal_iff)
  ultimately show "\<exists>key payload v. cursor_key rt k = Inr key \<and> 32 \<le> length key \<and> c = seal rt key payload \<and>
         rt_json_loads rt payload = Some v \<and> obj_get ''t'' v = Some (jint t) \<and>
         obj_get ''i'' v = Some (jint i) \<and> obj_get ''f'' v = Some (jstr h) \<and> t > 0 \<and> i > 0"
    using key v(1) cursor_valueD [OF v(2)] by blast
next
  fix e
  assume "decode_cursor rt c h k = Inl e"
  then show "e = invalid_cursor \<or> e = cursor_unavailable"
    by (auto simp: decode_cursor_def rbind_eq_Inl cursor_key_def signing_key_def split: option.splits if_splits)
qed

theorem accepted_cursor_is_sealed_witness:
  "\<exists>key payload. seal token_runtime (replicate 32 CHR ''k'') (canonical_json token_runtime (cursor_payload 7 3 ''abc'')) =
     seal token_runtime key payload \<and> cursor_key token_runtime (replicate 32 CHR ''k'') = Inr key"
proof -
  let ?k = "replicate 32 CHR ''k''"
  have key: "cursor_key token_runtime ?k = Inr ?k"
    by (simp add: cursor_key_def signing_key_def token_runtime_def)
  have "decode_cursor token_runtime (seal token_runtime ?k (canonical_json token_runtime (cursor_payload 7 3 ''abc''))) ''abc'' ?k = Inr (7, 3)"
    by (subst decode_cursor_encoded [OF token_runtime_law key]) (auto simp: is_ascii_def byte_def)
  then show ?thesis using accepted_cursor_is_sealed by blast
qed

end
