(* ===== verification/Apm_Web.thy ===== *)
theory Apm_Web
  imports Apm_Tokens
begin

section \<open>Web sessions\<close>

text \<open>
  \<^verbatim>\<open>web_auth.py\<close> and \<^verbatim>\<open>api/web.py\<close>: browser sessions are signed claims that name a query key; the
  key is looked up again on every request, and a request that changes state must present the
  cross-site token bound into the claims. Random tokens, the clock, the file system and path
  resolution are arguments.
\<close>

subsection \<open>Requests and settings\<close>

record web_request =
  wr_headers :: "(string \<times> string) list"
  wr_cookies :: "(string \<times> string) list"
  wr_params :: "string list"
  wr_request_id :: string

record query_settings =
  qs_query_max_window_days :: int
  qs_query_max_rows :: nat
  qs_query_max_limit :: int
  qs_query_late_after_seconds :: int
  qs_query_min_installations :: int
  qs_query_min_sdk_health_coverage :: rat
  qs_query_cursor_hmac_key_b64 :: string
  qs_web_session_hmac_key_b64 :: string
  qs_web_session_ttl_seconds :: int
  qs_web_session_cookie_secure :: bool

definition web_header :: "web_request \<Rightarrow> string \<Rightarrow> string option" where
  "web_header rq name = map_of (map (\<lambda>(k, v). (py_lower k, v)) (wr_headers rq)) name"

definition web_cookie :: "web_request \<Rightarrow> string \<Rightarrow> string option" where
  "web_cookie rq name = map_of (wr_cookies rq) name"

definition WEB_SESSION_COOKIE :: string where [consts_simps]: "WEB_SESSION_COOKIE = ''androidapm_session''"
definition WEB_CSRF_COOKIE :: string where [consts_simps]: "WEB_CSRF_COOKIE = ''androidapm_csrf''"
definition WEB_CSRF_HEADER :: string where [consts_simps]: "WEB_CSRF_HEADER = ''x-apm-csrf-token''"
definition WEB_SESSION_VERSION :: int where [consts_simps]: "WEB_SESSION_VERSION = 1"
definition WEB_SESSION_SIGNATURE_BYTES :: nat where [consts_simps]: "WEB_SESSION_SIGNATURE_BYTES = 32"
definition WEB_SESSION_MAX_PAYLOAD_BYTES :: nat where [consts_simps]: "WEB_SESSION_MAX_PAYLOAD_BYTES = 1024"
definition WEB_SESSION_CLOCK_SKEW_SECONDS :: int where [consts_simps]: "WEB_SESSION_CLOCK_SKEW_SECONDS = 60"

record web_session_claims =
  wc_key_id :: string
  wc_issued_at :: int
  wc_expires_at :: int
  wc_csrf_sha256 :: string

record new_web_session =
  ns_token :: string
  ns_csrf_token :: string
  ns_expires_at :: int

definition invalid_web_session :: exn where
  "invalid_web_session = mk_error 401 ''invalid_web_session'' ''The Web session is invalid or expired'' False None"

definition invalid_csrf :: exn where
  "invalid_csrf = mk_error 403 ''csrf_validation_failed'' ''The Web request could not be verified'' False None"

definition web_session_unavailable :: exn where
  "web_session_unavailable =
     mk_error 503 ''web_session_unavailable'' ''Web session authentication is not configured'' True None"

definition session_key :: "runtime \<Rightarrow> query_settings \<Rightarrow> string result" where
  "session_key rt settings = signing_key rt web_session_unavailable (qs_web_session_hmac_key_b64 settings)"

text \<open>\<open>int(moment.timestamp())\<close> of a time in microseconds.\<close>

definition epoch_seconds :: "time \<Rightarrow> int" where
  "epoch_seconds t = t div 1000000"

subsection \<open>Issuing\<close>

definition session_payload :: "string \<Rightarrow> int \<Rightarrow> int \<Rightarrow> string \<Rightarrow> json" where
  "session_payload key_id now expires_at csrf_sha256 =
     JObj [(''v'', jint WEB_SESSION_VERSION), (''kid'', jstr key_id), (''iat'', jint now),
           (''exp'', jint expires_at), (''csrf'', jstr csrf_sha256)]"

definition session_expiry :: "int \<Rightarrow> query_principal \<Rightarrow> query_settings \<Rightarrow> int" where
  "session_expiry now p settings =
     (let expires_at = now + qs_web_session_ttl_seconds settings
      in case qp_expires_at p of None \<Rightarrow> expires_at | Some e \<Rightarrow> min expires_at (epoch_seconds e))"

definition create_web_session ::
    "runtime \<Rightarrow> time \<Rightarrow> string \<Rightarrow> query_principal \<Rightarrow> query_settings \<Rightarrow> new_web_session result" where
  "create_web_session rt clock random_token p settings =
     (let now = epoch_seconds clock; expires_at = session_expiry now p settings
      in if expires_at \<le> now then Inl invalid_web_session
         else
           let csrf_token = rev (dropWhile (\<lambda>c. c = CHR ''='') (rev random_token));
               encoded_payload = canonical_json rt
                 (session_payload (qp_key_id p) now expires_at (rt_sha256_hex rt csrf_token))
           in rbind (session_key rt settings) (\<lambda>key.
                Inr \<lparr>ns_token = seal rt key encoded_payload, ns_csrf_token = csrf_token,
                     ns_expires_at = expires_at\<rparr>))"

subsection \<open>Verification\<close>

definition parse_claims :: "json \<Rightarrow> web_session_claims option" where
  "parse_claims v =
     (case obj_of v of
        None \<Rightarrow> None
      | Some kvs \<Rightarrow>
          if fst ` set kvs \<noteq> {''v'', ''kid'', ''iat'', ''exp'', ''csrf''} then None
          else case (Option.bind (map_of kvs ''kid'') str_of, int_of (map_of kvs ''iat''), int_of (map_of kvs ''exp''),
                     Option.bind (map_of kvs ''csrf'') str_of) of
            (Some key_id, Some issued_at, Some expires_at, Some csrf_sha256) \<Rightarrow>
              if is_one (map_of kvs ''v'') \<and> cp_len key_id = 18 \<and> list_all is_lower_hex key_id \<and>
                 cp_len csrf_sha256 = 64 \<and> list_all is_lower_hex csrf_sha256
              then Some \<lparr>wc_key_id = key_id, wc_issued_at = issued_at, wc_expires_at = expires_at,
                         wc_csrf_sha256 = csrf_sha256\<rparr>
              else None
          | _ \<Rightarrow> None)"

definition session_b64url_decode :: "string \<Rightarrow> string option" where
  "session_b64url_decode value = (if length value > 2048 then None else b64url_decode value)"

definition session_parts :: "string \<Rightarrow> (string \<times> string) option" where
  "session_parts token =
     (case partition_on CHR ''.'' token of
        (p, sep, s) \<Rightarrow>
          if sep then
            Option.bind (session_b64url_decode p) (\<lambda>payload.
              map_option (Pair payload) (session_b64url_decode s))
          else None)"

definition clock_bounds :: "int \<Rightarrow> query_settings \<Rightarrow> web_session_claims \<Rightarrow> bool" where
  "clock_bounds now settings c \<longleftrightarrow>
     wc_issued_at c \<le> now + WEB_SESSION_CLOCK_SKEW_SECONDS \<and> wc_expires_at c > now \<and>
     wc_expires_at c > wc_issued_at c \<and>
     wc_expires_at c - wc_issued_at c \<le> qs_web_session_ttl_seconds settings"

definition decode_web_session ::
    "runtime \<Rightarrow> time \<Rightarrow> string option \<Rightarrow> query_settings \<Rightarrow> web_session_claims result" where
  "decode_web_session rt clock token settings =
     (case token of
        None \<Rightarrow> Inl invalid_web_session
      | Some t \<Rightarrow>
          (case session_parts t of
             None \<Rightarrow> Inl invalid_web_session
           | Some (payload, signature) \<Rightarrow>
               if length payload > WEB_SESSION_MAX_PAYLOAD_BYTES \<or>
                  length signature \<noteq> WEB_SESSION_SIGNATURE_BYTES
               then Inl invalid_web_session
               else rbind (session_key rt settings) (\<lambda>key.
                 if signature \<noteq> rt_hmac_sha256 rt key payload then Inl invalid_web_session
                 else case Option.bind (rt_json_loads rt payload) parse_claims of
                        None \<Rightarrow> Inl invalid_web_session
                      | Some claims \<Rightarrow>
                          if clock_bounds (epoch_seconds clock) settings claims then Inr claims
                          else Inl invalid_web_session)))"

definition verify_csrf :: "runtime \<Rightarrow> web_request \<Rightarrow> web_session_claims \<Rightarrow> unit result" where
  "verify_csrf rt rq claims =
     (case (web_cookie rq WEB_CSRF_COOKIE, web_header rq WEB_CSRF_HEADER) of
        (Some cookie, Some header) \<Rightarrow>
          if cp_len cookie > 256 \<or> cp_len header > 256 then Inl invalid_csrf
          else (case compare_digest cookie header of
                  None \<Rightarrow> Inl (Uncaught ''TypeError'')
                | Some False \<Rightarrow> Inl invalid_csrf
                | Some True \<Rightarrow>
                    (case compare_digest (rt_sha256_hex rt header) (wc_csrf_sha256 claims) of
                       None \<Rightarrow> Inl (Uncaught ''TypeError'')
                     | Some False \<Rightarrow> Inl invalid_csrf
                     | Some True \<Rightarrow> Inr ()))
      | _ \<Rightarrow> Inl invalid_csrf)"

definition authenticate_web_session ::
    "runtime \<Rightarrow> time \<Rightarrow> query_key list \<Rightarrow> tenant list \<Rightarrow> web_request \<Rightarrow> query_settings
       \<Rightarrow> (query_principal \<times> web_session_claims) result" where
  "authenticate_web_session rt clock keys tenants rq settings =
     rbind (decode_web_session rt clock (web_cookie rq WEB_SESSION_COOKIE) settings) (\<lambda>claims.
     rbind (authenticate_query_key_id clock keys tenants (wc_key_id claims)) (\<lambda>p.
       Inr (p, claims)))"

definition authenticate_query_request ::
    "runtime \<Rightarrow> auth_env \<Rightarrow> query_key list \<Rightarrow> tenant list \<Rightarrow> web_request \<Rightarrow> query_settings \<Rightarrow> bool
       \<Rightarrow> auth_state \<Rightarrow> auth_state \<times> query_principal result" where
  "authenticate_query_request rt env keys tenants rq settings unsafe s =
     (case web_header rq ''authorization'' of
        Some authorization \<Rightarrow> authenticate_query_key env keys tenants (Some authorization) s
      | None \<Rightarrow>
          (s, rbind (authenticate_web_session rt (ae_now env) keys tenants rq settings) (\<lambda>(p, claims).
                if unsafe then rbind (verify_csrf rt rq claims) (\<lambda>_. Inr p) else Inr p)))"

subsection \<open>Endpoints\<close>

record query_scope =
  sc_tenant_id :: string
  sc_app_id :: string
  sc_environment :: string

definition scope_for :: "query_principal \<Rightarrow> query_scope" where
  "scope_for p = \<lparr>sc_tenant_id = qp_tenant_id p, sc_app_id = qp_app_id p, sc_environment = qp_environment p\<rparr>"

record web_session_response =
  sr_request_id :: string
  sr_scope :: query_scope
  sr_role :: string
  sr_expires_at_ms :: int

record set_cookie =
  co_name :: string
  co_value :: string
  co_max_age :: int
  co_expires :: "int option"
  co_path :: string
  co_secure :: bool
  co_httponly :: bool
  co_samesite :: string

definition session_response :: "web_request \<Rightarrow> query_principal \<Rightarrow> int \<Rightarrow> web_session_response" where
  "session_response rq p expires_at =
     \<lparr>sr_request_id = wr_request_id rq, sr_scope = scope_for p, sr_role = qp_role p,
      sr_expires_at_ms = expires_at * 1000\<rparr>"

definition set_session_cookies :: "time \<Rightarrow> string \<Rightarrow> string \<Rightarrow> int \<Rightarrow> query_settings \<Rightarrow> set_cookie list" where
  "set_session_cookies clock token csrf_token expires_at settings =
     (let max_age = max 0 (expires_at - epoch_seconds clock);
          cookie = (\<lambda>name v httponly.
            \<lparr>co_name = name, co_value = v, co_max_age = max_age, co_expires = Some expires_at, co_path = ''/'',
             co_secure = qs_web_session_cookie_secure settings, co_httponly = httponly, co_samesite = ''strict''\<rparr>)
      in [cookie WEB_SESSION_COOKIE token True, cookie WEB_CSRF_COOKIE csrf_token False])"

definition session_audit :: "time \<Rightarrow> query_principal \<Rightarrow> string \<Rightarrow> string \<Rightarrow> int \<Rightarrow> audit_log" where
  "session_audit now p request_id action expires_at =
     \<lparr>al_tenant_id = Some (qp_tenant_id p), al_actor = ''query-key:'' @ qp_key_id p, al_action = action,
      al_object_type = ''web_session'', al_object_id = None, al_result = ''success'',
      al_request_id = Some request_id,
      al_details_json = JObj [(''app_id'', jstr (qp_app_id p)), (''environment'', jstr (qp_environment p)),
                              (''expires_at'', jint expires_at)],
      al_created_at = now\<rparr>"

definition delete_cookie :: "string \<Rightarrow> set_cookie" where
  "delete_cookie name =
     \<lparr>co_name = name, co_value = [], co_max_age = 0, co_expires = Some 0, co_path = ''/'', co_secure = False,
      co_httponly = False, co_samesite = ''strict''\<rparr>"

definition create_session ::
    "runtime \<Rightarrow> auth_env \<Rightarrow> string \<Rightarrow> query_key list \<Rightarrow> tenant list \<Rightarrow> string \<Rightarrow> web_request \<Rightarrow> query_settings
       \<Rightarrow> audit_log list \<Rightarrow> auth_state
       \<Rightarrow> auth_state \<times> audit_log list \<times> (set_cookie list \<times> web_session_response) result" where
  "create_session rt env random_token keys tenants query_key rq settings audit s =
     (case authenticate_query_key env keys tenants (Some (''Bearer '' @ query_key)) s of
        (s', Inl e) \<Rightarrow> (s', audit, Inl e)
      | (s', Inr p) \<Rightarrow>
          (case create_web_session rt (ae_now env) random_token p settings of
             Inl e \<Rightarrow> (s', audit, Inl e)
           | Inr issued \<Rightarrow>
               (s', audit @ [session_audit (ae_now env) p (wr_request_id rq) ''web.session.create'' (ns_expires_at issued)],
                Inr (set_session_cookies (ae_now env) (ns_token issued) (ns_csrf_token issued) (ns_expires_at issued) settings,
                     session_response rq p (ns_expires_at issued)))))"

definition get_session_state ::
    "runtime \<Rightarrow> time \<Rightarrow> query_key list \<Rightarrow> tenant list \<Rightarrow> web_request \<Rightarrow> query_settings \<Rightarrow> web_session_response result" where
  "get_session_state rt clock keys tenants rq settings =
     rbind (authenticate_web_session rt clock keys tenants rq settings) (\<lambda>(p, claims).
       Inr (session_response rq p (wc_expires_at claims)))"

definition delete_session ::
    "runtime \<Rightarrow> time \<Rightarrow> query_key list \<Rightarrow> tenant list \<Rightarrow> web_request \<Rightarrow> query_settings \<Rightarrow> audit_log list
       \<Rightarrow> audit_log list \<times> set_cookie list result" where
  "delete_session rt clock keys tenants rq settings audit =
     (case rbind (authenticate_web_session rt clock keys tenants rq settings) (\<lambda>(p, claims).
             rbind (verify_csrf rt rq claims) (\<lambda>_. Inr (p, claims))) of
        Inl e \<Rightarrow> (audit, Inl e)
      | Inr (p, claims) \<Rightarrow>
          (audit @ [session_audit clock p (wr_request_id rq) ''web.session.delete'' (wc_expires_at claims)],
           Inr [delete_cookie WEB_SESSION_COOKIE, delete_cookie WEB_CSRF_COOKIE]))"

subsection \<open>Console assets\<close>

text \<open>
  A path is its list of components; \<open>resolve\<close> is \<open>Path.resolve\<close>, which follows links and removes
  parent references, and \<open>is_file\<close> the file system's answer. Joining with an absolute path replaces
  the root.
\<close>

record asset_response =
  ar_status :: int
  ar_file :: "string list option"
  ar_body :: string
  ar_headers :: "(string \<times> string) list"

definition WEB_SECURITY_HEADERS :: "(string \<times> string) list" where
  "WEB_SECURITY_HEADERS =
     [(''Content-Security-Policy'',
       ''default-src 'self'; base-uri 'none'; connect-src 'self'; font-src 'self'; '' @
       ''form-action 'self'; frame-ancestors 'none'; img-src 'self' data:; '' @
       ''object-src 'none'; script-src 'self'; style-src 'self'' @ [CHR 0x27]),
      (''Permissions-Policy'', ''camera=(), geolocation=(), microphone=(), payment=(), usb=()''),
      (''Referrer-Policy'', ''no-referrer''),
      (''X-Content-Type-Options'', ''nosniff''),
      (''X-Frame-Options'', ''DENY'')]"

definition WEB_FAVICON_CACHE_CONTROL :: string where
  "WEB_FAVICON_CACHE_CONTROL = ''public, max-age=86400''"

definition path_join :: "string list \<Rightarrow> string \<Rightarrow> string list" where
  "path_join base p =
     (let components = filter (\<lambda>c. c \<noteq> [] \<and> c \<noteq> ''.'') (split_on CHR ''/'' p)
      in if starts_with ''/'' p then components else base @ components)"

definition is_file_below :: "(string list \<Rightarrow> bool) \<Rightarrow> string list \<Rightarrow> string list \<Rightarrow> bool" where
  "is_file_below is_file candidate base \<longleftrightarrow> take (length base) candidate = base \<and> is_file candidate"

definition asset_not_found :: asset_response where
  "asset_not_found = \<lparr>ar_status = 404, ar_file = None, ar_body = ''Not found'', ar_headers = WEB_SECURITY_HEADERS\<rparr>"

definition get_web_asset ::
    "(string list \<Rightarrow> string list) \<Rightarrow> (string list \<Rightarrow> bool) \<Rightarrow> string list \<Rightarrow> string \<Rightarrow> asset_response" where
  "get_web_asset resolve is_file web_dist_path asset_path =
     (let asset_root = resolve (web_dist_path @ [''assets'']);
          candidate = resolve (path_join asset_root asset_path)
      in if \<not> is_file_below is_file candidate asset_root then asset_not_found
         else \<lparr>ar_status = 200, ar_file = Some candidate, ar_body = [],
               ar_headers = WEB_SECURITY_HEADERS @ [(''Cache-Control'', ''public, max-age=31536000, immutable'')]\<rparr>)"

definition get_web_console ::
    "(string list \<Rightarrow> string list) \<Rightarrow> (string list \<Rightarrow> bool) \<Rightarrow> string list \<Rightarrow> asset_response" where
  "get_web_console resolve is_file web_dist_path =
     (let index = resolve (web_dist_path @ [''index.html'']);
          headers = WEB_SECURITY_HEADERS @ [(''Cache-Control'', ''no-store'')]
      in if \<not> is_file index
         then \<lparr>ar_status = 503, ar_file = None,
               ar_body = ''AndroidAPM Web console is not built. Run pnpm --dir web build.'', ar_headers = headers\<rparr>
         else \<lparr>ar_status = 200, ar_file = Some index, ar_body = [], ar_headers = headers\<rparr>)"

definition get_web_favicon ::
    "(string list \<Rightarrow> string list) \<Rightarrow> (string list \<Rightarrow> bool) \<Rightarrow> string list \<Rightarrow> asset_response" where
  "get_web_favicon resolve is_file web_dist_path =
     (let dist_root = resolve web_dist_path; favicon = resolve (dist_root @ [''favicon.svg''])
      in if \<not> is_file_below is_file favicon dist_root then asset_not_found
         else \<lparr>ar_status = 200, ar_file = Some favicon, ar_body = [],
               ar_headers = WEB_SECURITY_HEADERS @ [(''Cache-Control'', WEB_FAVICON_CACHE_CONTROL)]\<rparr>)"

subsection \<open>Verified sessions\<close>

lemma session_parts_token: "session_parts token = Some (payload, signature) \<Longrightarrow> token_parts token = Some (payload, signature)"
  by (auto simp: session_parts_def token_parts_def session_b64url_decode_def split: prod.splits if_splits bind_splits)

lemma session_parts_sealed:
  assumes "length payload \<le> 1024" "length (rt_hmac_sha256 rt key payload) = 32"
  shows "session_parts (seal rt key payload) = Some (payload, rt_hmac_sha256 rt key payload)"
proof -
  have "length (b64url payload) \<le> 2048" "length (b64url (rt_hmac_sha256 rt key payload)) \<le> 2048"
    using assms by (simp_all add: length_b64url)
  then show ?thesis
    by (simp add: session_parts_def seal_def partition_on_append b64url_no_dot session_b64url_decode_def)
qed

lemma signing_key_long: "signing_key rt e v = Inr key \<Longrightarrow> 32 \<le> length key"
  by (auto simp: signing_key_def split: option.splits if_splits)

lemma csrf_non_ascii_uncaught:
  assumes "web_cookie rq WEB_CSRF_COOKIE = Some cookie" "web_header rq WEB_CSRF_HEADER = Some header"
    and "cp_len cookie \<le> 256" "cp_len header \<le> 256" "\<not> list_all is_ascii header"
  shows "verify_csrf rt rq claims = Inl (Uncaught ''TypeError'')"
  using assms by (simp add: verify_csrf_def compare_digest_def)

definition sealed_claims :: "runtime \<Rightarrow> query_settings \<Rightarrow> int \<Rightarrow> string \<Rightarrow> web_session_claims \<Rightarrow> bool" where
  "sealed_claims rt settings now token claims \<longleftrightarrow>
     (\<exists>key payload v. session_key rt settings = Inr key \<and> 32 \<le> length key \<and> token = seal rt key payload \<and>
        rt_json_loads rt payload = Some v \<and> parse_claims v = Some claims) \<and>
     clock_bounds now settings claims"

lemma decode_web_session_sealed:
  assumes "decode_web_session rt clock token settings = Inr claims"
  shows "\<exists>t. token = Some t \<and> sealed_claims rt settings (epoch_seconds clock) t claims"
proof -
  obtain t where t: "token = Some t"
    using assms by (cases token) (auto simp: decode_web_session_def)
  obtain payload signature where parts: "session_parts t = Some (payload, signature)"
    using assms t by (auto simp: decode_web_session_def split: option.splits)
  obtain key where key: "session_key rt settings = Inr key" "signature = rt_hmac_sha256 rt key payload"
    using assms t parts by (auto simp: decode_web_session_def split: if_splits)
  obtain v where v: "rt_json_loads rt payload = Some v" "parse_claims v = Some claims"
      "clock_bounds (epoch_seconds clock) settings claims"
    using assms t parts key by (auto simp: decode_web_session_def split: if_splits option.splits bind_splits)
  have "t = seal rt key payload"
    using session_parts_token [OF parts] key(2) by (simp add: seal_iff)
  moreover have "32 \<le> length key" using key(1) signing_key_long by (auto simp: session_key_def)
  ultimately have "sealed_claims rt settings (epoch_seconds clock) t claims"
    using key(1) v unfolding sealed_claims_def by blast
  then show ?thesis using t by blast
qed

definition live_key :: "time \<Rightarrow> query_key list \<Rightarrow> tenant list \<Rightarrow> string \<Rightarrow> query_principal \<Rightarrow> bool" where
  "live_key now keys tenants key_id p \<longleftrightarrow>
     (\<exists>k t. k \<in> set keys \<and> t \<in> set tenants \<and> qk_key_id k = key_id \<and> tn_id t = qk_tenant_id k \<and>
        qk_active k \<and> qk_revoked_at k = None \<and> tn_active t \<and> \<not> expired (qk_expires_at k) now \<and>
        p = \<lparr>qp_tenant_id = tn_id t, qp_key_id = qk_key_id k, qp_app_id = qk_app_id k,
             qp_environment = qk_environment k, qp_role = qk_role k, qp_expires_at = qk_expires_at k\<rparr>)"

lemma verify_csrf_Inr:
  "verify_csrf rt rq claims = Inr () \<longleftrightarrow>
     (\<exists>token. web_cookie rq WEB_CSRF_COOKIE = Some token \<and> web_header rq WEB_CSRF_HEADER = Some token \<and>
        cp_len token \<le> 256 \<and> list_all is_ascii token \<and> list_all is_ascii (wc_csrf_sha256 claims) \<and>
        rt_sha256_hex rt token = wc_csrf_sha256 claims)"
  by (auto simp: verify_csrf_def compare_digest_def split: option.splits bool.splits if_splits)


lemma authenticate_query_key_id_live:
  "authenticate_query_key_id now keys tenants key_id = Inr p \<Longrightarrow> live_key now keys tenants key_id p"
  unfolding authenticate_query_key_id_def live_key_def load_query_key_def
  by (fastforce simp: active_principal_def split: option.splits if_splits dest: load_keyD)

lemma web_session_backed:
  assumes "authenticate_web_session rt clock keys tenants rq settings = Inr (p, claims)"
  shows "\<exists>token. web_cookie rq WEB_SESSION_COOKIE = Some token \<and>
    sealed_claims rt settings (epoch_seconds clock) token claims \<and> live_key clock keys tenants (wc_key_id claims) p"
  using assms decode_web_session_sealed authenticate_query_key_id_live
  by (fastforce simp: authenticate_web_session_def)

text \<open>
  C35. A browser request is authenticated only by a session this server signed: without an
  \<open>Authorization\<close> header a principal is granted only when the session cookie is byte for byte the
  sealed form of well-formed claims that are not expired and live no longer than the configured
  lifetime, and the query key the claims name is now active, not revoked and not expired; the
  principal is that key's. A request that changes state must in addition carry the same token in
  cookie and header, with the digest bound into the claims. No authentication attempt is charged.
\<close>

theorem browser_principal_backed:
  assumes "web_header rq ''authorization'' = None"
    and "authenticate_query_request rt env keys tenants rq settings unsafe s = (s', Inr p)"
  shows "s' = s \<and> (\<exists>token claims. web_cookie rq WEB_SESSION_COOKIE = Some token \<and>
    sealed_claims rt settings (epoch_seconds (ae_now env)) token claims \<and>
    live_key (ae_now env) keys tenants (wc_key_id claims) p \<and>
    (unsafe \<longrightarrow> (\<exists>csrf. web_cookie rq WEB_CSRF_COOKIE = Some csrf \<and> web_header rq WEB_CSRF_HEADER = Some csrf \<and>
       rt_sha256_hex rt csrf = wc_csrf_sha256 claims)))"
proof -
  obtain claims where a: "authenticate_web_session rt (ae_now env) keys tenants rq settings = Inr (p, claims)"
      and s: "s' = s" and u: "unsafe \<longrightarrow> verify_csrf rt rq claims = Inr ()"
    using assms by (auto simp: authenticate_query_request_def split: if_splits prod.splits)
  from web_session_backed [OF a] obtain token where "web_cookie rq WEB_SESSION_COOKIE = Some token"
      "sealed_claims rt settings (epoch_seconds (ae_now env)) token claims"
      "live_key (ae_now env) keys tenants (wc_key_id claims) p"
    by blast
  moreover have "unsafe \<longrightarrow> (\<exists>csrf. web_cookie rq WEB_CSRF_COOKIE = Some csrf \<and>
      web_header rq WEB_CSRF_HEADER = Some csrf \<and> rt_sha256_hex rt csrf = wc_csrf_sha256 claims)"
    using u by (auto simp: verify_csrf_Inr)
  ultimately show ?thesis using s by blast
qed

text \<open>
  A session that was issued works until it expires, and not for longer than its key: with a
  configured signing key the issued cookie decodes, at every later time before its expiry, to claims
  that name the principal's key and the digest of the issued cross-site token; the expiry is at most
  the configured lifetime away and never after the key's own expiry; from the expiry on the cookie
  is refused.
\<close>

theorem issued_session_valid_until_expiry:
  assumes issued: "create_web_session rt clock random_token p settings = Inr session"
    and json: "json_round_trip rt (session_payload (qp_key_id p) (epoch_seconds clock) (ns_expires_at session)
                 (rt_sha256_hex rt (ns_csrf_token session)))"
    and size: "length (canonical_json rt (session_payload (qp_key_id p) (epoch_seconds clock) (ns_expires_at session)
                 (rt_sha256_hex rt (ns_csrf_token session)))) \<le> 1024"
    and digests: "\<And>key m. length (rt_hmac_sha256 rt key m) = 32"
      "\<And>m. cp_len (rt_sha256_hex rt m) = 64 \<and> list_all is_lower_hex (rt_sha256_hex rt m)"
    and key_id: "cp_len (qp_key_id p) = 18" "list_all is_lower_hex (qp_key_id p)"
    and later: "clock \<le> clock'"
  shows "ns_expires_at session \<le> epoch_seconds clock + qs_web_session_ttl_seconds settings \<and>
    (\<forall>e. qp_expires_at p = Some e \<longrightarrow> ns_expires_at session \<le> epoch_seconds e) \<and>
    decode_web_session rt clock' (Some (ns_token session)) settings =
      (if epoch_seconds clock' < ns_expires_at session
       then Inr \<lparr>wc_key_id = qp_key_id p, wc_issued_at = epoch_seconds clock, wc_expires_at = ns_expires_at session,
                 wc_csrf_sha256 = rt_sha256_hex rt (ns_csrf_token session)\<rparr>
       else Inl invalid_web_session)"
proof -
  define now where "now = epoch_seconds clock"
  define payload where "payload = session_payload (qp_key_id p) now (ns_expires_at session) (rt_sha256_hex rt (ns_csrf_token session))"
  obtain key where key: "session_key rt settings = Inr key" and token: "ns_token session = seal rt key (canonical_json rt payload)"
      and exp: "ns_expires_at session = session_expiry now p settings" "ns_expires_at session > now"
    using issued by (auto simp: create_web_session_def Let_def now_def payload_def split: if_splits)
  have ttl: "ns_expires_at session \<le> now + qs_web_session_ttl_seconds settings"
    and key_exp: "\<forall>e. qp_expires_at p = Some e \<longrightarrow> ns_expires_at session \<le> epoch_seconds e"
    using exp(1) by (auto simp: session_expiry_def Let_def split: option.splits)
  have parts: "session_parts (ns_token session) = Some (canonical_json rt payload, rt_hmac_sha256 rt key (canonical_json rt payload))"
    unfolding token using size digests(1) by (intro session_parts_sealed) (simp_all add: payload_def now_def)
  have load: "rt_json_loads rt (canonical_json rt payload) = Some (sort_keys payload)"
    using json by (simp add: json_round_trip_def payload_def now_def)
  have claims: "parse_claims (sort_keys payload) =
      Some \<lparr>wc_key_id = qp_key_id p, wc_issued_at = now, wc_expires_at = ns_expires_at session,
            wc_csrf_sha256 = rt_sha256_hex rt (ns_csrf_token session)\<rparr>"
    using key_id digests(2) by (auto simp: parse_claims_def payload_def session_payload_def consts_simps int_of_def is_one_def)
  have "now \<le> epoch_seconds clock'"
    using later by (simp add: now_def epoch_seconds_def zdiv_mono1)
  then show ?thesis
    using key ttl key_exp exp(2) size digests(1) load claims
    by (auto simp: decode_web_session_def parts consts_simps clock_bounds_def now_def payload_def)
qed

definition sample_session_payload :: json where
  "sample_session_payload = session_payload (replicate 18 CHR ''a'') 50 3650 (replicate 64 CHR ''b'')"

definition web_runtime :: runtime where
  "web_runtime = sample_runtime\<lparr>rt_sha256_hex := (\<lambda>_. replicate 64 CHR ''b''), rt_b64decode := Some,
     rt_json_loads := (\<lambda>s. if s = canonical_json sample_runtime sample_session_payload
                           then Some (sort_keys sample_session_payload) else None)\<rparr>"

definition web_settings :: query_settings where
  "web_settings =
     \<lparr>qs_query_max_window_days = 31, qs_query_max_rows = 10000, qs_query_max_limit = 100,
      qs_query_late_after_seconds = 900, qs_query_min_installations = 100,
      qs_query_min_sdk_health_coverage = 1, qs_query_cursor_hmac_key_b64 = replicate 32 CHR ''k'',
      qs_web_session_hmac_key_b64 = replicate 32 CHR ''k'', qs_web_session_ttl_seconds = 3600,
      qs_web_session_cookie_secure = True\<rparr>"

definition web_key :: query_key where
  "web_key = sample_query_key\<lparr>qk_key_id := replicate 18 CHR ''a''\<rparr>"

definition web_principal :: query_principal where
  "web_principal =
     \<lparr>qp_tenant_id = ''t1'', qp_key_id = replicate 18 CHR ''a'', qp_app_id = ''app'', qp_environment = ''prod'',
      qp_role = ''viewer'', qp_expires_at = None\<rparr>"

definition web_session :: new_web_session where
  "web_session =
     \<lparr>ns_token = seal web_runtime (replicate 32 CHR ''k'') (canonical_json sample_runtime sample_session_payload),
      ns_csrf_token = ''csrf'', ns_expires_at = 3650\<rparr>"

lemma web_runtime_json: "canonical_json web_runtime v = canonical_json sample_runtime v"
  by (rule canonical_json_runtime) (simp add: web_runtime_def)

lemma web_session_issued: "create_web_session web_runtime 50000000 ''csrf'' web_principal web_settings = Inr web_session"
proof -
  have "session_expiry 50 web_principal web_settings = 3650"
    by (simp add: session_expiry_def web_principal_def web_settings_def)
  moreover have "session_key web_runtime web_settings = Inr (replicate 32 CHR ''k'')"
    by (simp add: session_key_def signing_key_def web_runtime_def web_settings_def)
  moreover have "session_payload (qp_key_id web_principal) 50 3650 (rt_sha256_hex web_runtime ''csrf'') = sample_session_payload"
    by (simp add: sample_session_payload_def web_principal_def web_runtime_def)
  ultimately show ?thesis
    by (simp add: create_web_session_def web_runtime_json epoch_seconds_def web_session_def)
qed

lemma web_payload_size: "length (canonical_json sample_runtime sample_session_payload) \<le> 1024"
  by code_simp

theorem issued_session_valid_until_expiry_witness:
  "decode_web_session web_runtime 60000000 (Some (ns_token web_session)) web_settings =
     Inr \<lparr>wc_key_id = replicate 18 CHR ''a'', wc_issued_at = 50, wc_expires_at = 3650,
          wc_csrf_sha256 = replicate 64 CHR ''b''\<rparr>"
proof -
  have payload: "session_payload (qp_key_id web_principal) (epoch_seconds 50000000) (ns_expires_at web_session)
      (rt_sha256_hex web_runtime (ns_csrf_token web_session)) = sample_session_payload"
    by (simp add: web_principal_def web_session_def web_runtime_def epoch_seconds_def sample_session_payload_def)
  have "json_round_trip web_runtime sample_session_payload"
    unfolding json_round_trip_def web_runtime_json by (simp add: web_runtime_def)
  moreover have "\<And>key m. length (rt_hmac_sha256 web_runtime key m) = 32"
    by (simp add: web_runtime_def sample_runtime_def)
  moreover have "cp_len (rt_sha256_hex web_runtime m) = 64 \<and> list_all is_lower_hex (rt_sha256_hex web_runtime m)" for m
    by (simp add: web_runtime_def cp_len_def is_lower_hex_def is_digit_def is_continuation_def byte_def list_all_iff)
  moreover have "cp_len (qp_key_id web_principal) = 18" "list_all is_lower_hex (qp_key_id web_principal)"
    by (simp_all add: web_principal_def cp_len_def is_lower_hex_def is_digit_def is_continuation_def byte_def list_all_iff)
  ultimately show ?thesis
    using issued_session_valid_until_expiry [OF web_session_issued, of 60000000, unfolded payload web_runtime_json] web_payload_size
    by (simp add: web_session_def epoch_seconds_def) (simp add: web_principal_def web_runtime_def)
qed

definition web_state_change :: web_request where
  "web_state_change =
     \<lparr>wr_headers = [(WEB_CSRF_HEADER, ''csrf'')],
      wr_cookies = [(WEB_SESSION_COOKIE, ns_token web_session), (WEB_CSRF_COOKIE, ''csrf'')],
      wr_params = [], wr_request_id = ''r''\<rparr>"

lemma web_session_decodes:
  "decode_web_session web_runtime 60000000 (Some (ns_token web_session)) web_settings =
     Inr \<lparr>wc_key_id = replicate 18 CHR ''a'', wc_issued_at = 50, wc_expires_at = 3650,
          wc_csrf_sha256 = replicate 64 CHR ''b''\<rparr>"
proof -
  have len: "length (rt_hmac_sha256 web_runtime key m) = 32" for key m
    by (simp add: web_runtime_def sample_runtime_def)
  have parts: "session_parts (ns_token web_session) =
      Some (canonical_json sample_runtime sample_session_payload,
            rt_hmac_sha256 web_runtime (replicate 32 CHR ''k'') (canonical_json sample_runtime sample_session_payload))"
    unfolding web_session_def using session_parts_sealed web_payload_size len by simp
  have load: "rt_json_loads web_runtime (canonical_json sample_runtime sample_session_payload) = Some (sort_keys sample_session_payload)"
    by (simp add: web_runtime_def)
  have claims: "parse_claims (sort_keys sample_session_payload) =
     Some \<lparr>wc_key_id = replicate 18 CHR ''a'', wc_issued_at = 50, wc_expires_at = 3650,
          wc_csrf_sha256 = replicate 64 CHR ''b''\<rparr>"
    by (simp add: sample_session_payload_def session_payload_def parse_claims_def consts_simps int_of_def is_one_def
        cp_len_def is_lower_hex_def is_digit_def is_continuation_def byte_def list_all_iff insert_commute)
  have key: "session_key web_runtime web_settings = Inr (replicate 32 CHR ''k'')"
    by (simp add: session_key_def signing_key_def web_runtime_def web_settings_def)
  show ?thesis
    using web_payload_size
    by (simp add: decode_web_session_def parts len key load claims consts_simps)
       (simp add: clock_bounds_def epoch_seconds_def web_settings_def consts_simps)
qed

theorem browser_principal_backed_witness:
  "live_key 60000000 [web_key] [sample_tenant] (replicate 18 CHR ''a'') web_principal \<and>
   (\<exists>token. web_cookie web_state_change WEB_SESSION_COOKIE = Some token)"
proof -
  let ?env = "sample_auth_env\<lparr>ae_now := 60000000\<rparr>"
  have no: "web_header web_state_change ''authorization'' = None"
    by (simp add: web_header_def web_state_change_def consts_simps py_lower_def lower_char_def byte_def)
  have key: "authenticate_query_key_id 60000000 [web_key] [sample_tenant] (replicate 18 CHR ''a'') = Inr web_principal"
    by (simp add: authenticate_query_key_id_def load_query_key_def load_key_def web_key_def sample_query_key_def
        sample_tenant_def active_principal_def expired_def QUERY_ROLES_def consts_simps web_principal_def)
  have csrf: "verify_csrf web_runtime web_state_change
      \<lparr>wc_key_id = replicate 18 CHR ''a'', wc_issued_at = 50, wc_expires_at = 3650, wc_csrf_sha256 = replicate 64 CHR ''b''\<rparr> = Inr ()"
    by (simp add: verify_csrf_Inr web_state_change_def web_cookie_def web_header_def consts_simps py_lower_def
        lower_char_def byte_def cp_len_def is_continuation_def is_ascii_def web_runtime_def list_all_iff)
  have cookie: "web_cookie web_state_change WEB_SESSION_COOKIE = Some (ns_token web_session)"
    by (simp add: web_cookie_def web_state_change_def)
  have "authenticate_query_request web_runtime ?env [web_key] [sample_tenant] web_state_change web_settings True s = (s, Inr web_principal)" for s
    by (simp add: authenticate_query_request_def no authenticate_web_session_def cookie web_session_decodes key csrf)
  from browser_principal_backed [OF no this] show ?thesis
    by (auto simp: cookie live_key_def web_principal_def)
qed

text \<open>
  Served files stay below the console directory: whatever path is requested, also an absolute one or
  one with parent references, a file is served only when the resolved path is a file below the
  resolved asset root, every answer carries the security headers, and all else is a 404.
\<close>

theorem served_asset_below_root:
  "set WEB_SECURITY_HEADERS \<subseteq> set (ar_headers (get_web_asset resolve is_file base path)) \<and>
   (case ar_file (get_web_asset resolve is_file base path) of
     None \<Rightarrow> ar_status (get_web_asset resolve is_file base path) = 404
   | Some f \<Rightarrow> ar_status (get_web_asset resolve is_file base path) = 200 \<and> is_file f \<and>
       (\<exists>below. f = resolve (base @ [''assets'']) @ below) \<and> f = resolve (path_join (resolve (base @ [''assets''])) path))"
  by (auto simp: get_web_asset_def Let_def asset_not_found_def is_file_below_def)
     (metis append_take_drop_id)

end
