(* ===== verification/Apm_Query.thy ===== *)
theory Apm_Query
  imports Apm_Query_Store Apm_Web
begin

section \<open>Query responses\<close>

text \<open>
  \<^verbatim>\<open>query.py\<close>: the response models and the builders that turn window facts into them. A pydantic
  model is a record; a metric value that is \<open>int | float | None\<close> is an optional \<open>number\<close>. A ratio of
  two counts is the exact rational; the code's binary64 quotient is its nearest float, which is 1
  exactly when the counts are equal as long as they stay below \<open>2 ^ 53\<close>.
\<close>

subsection \<open>Models\<close>

datatype query_state =
  PRESENT_STATE | ZERO_STATE | NO_DATA_STATE | UNAVAILABLE_STATE | UNKNOWN_COVERAGE_STATE
| DEGRADED_STATE | LATE_STATE

datatype number = NInt int | NFloat rat

fun rat_of :: "number \<Rightarrow> rat" where
  "rat_of (NInt i) = of_int i"
| "rat_of (NFloat q) = q"

definition QUERY_SOURCE :: string where "QUERY_SOURCE = ''durable_inbox''"
definition SESSION_UNAVAILABLE_REASON :: string where "SESSION_UNAVAILABLE_REASON = ''SESSION_ID_NOT_PROVIDED''"
definition OCCURRENCE_UNAVAILABLE_REASON :: string where
  "OCCURRENCE_UNAVAILABLE_REASON = ''OCCURRENCE_IDENTITY_NOT_PROVIDED''"
definition INSTALLATION_UNAVAILABLE_REASON :: string where
  "INSTALLATION_UNAVAILABLE_REASON = ''INSTALLATION_IDENTITY_NOT_PROVIDED''"
definition SDK_HEALTH_UNAVAILABLE_REASON :: string where
  "SDK_HEALTH_UNAVAILABLE_REASON = ''SDK_HEALTH_NOT_PROVIDED''"
definition EVIDENCE_AVAILABLE :: string where [consts_simps]: "EVIDENCE_AVAILABLE = ''AVAILABLE''"
definition EVIDENCE_MISSING :: string where [consts_simps]: "EVIDENCE_MISSING = ''MISSING''"
definition EVIDENCE_EXPIRED :: string where [consts_simps]: "EVIDENCE_EXPIRED = ''EXPIRED''"
definition EVIDENCE_RETENTION_UNKNOWN :: string where
  [consts_simps]: "EVIDENCE_RETENTION_UNKNOWN = ''RETENTION_UNKNOWN''"

record query_window =
  qw_from_ms :: int
  qw_to_ms :: int

record metric_result =
  mr_state :: query_state
  mr_value :: "number option"
  mr_numerator :: "number option"
  mr_denominator :: "number option"
  mr_sample_count :: int
  mr_coverage :: "rat option"
  mr_as_of_ms :: int
  mr_source :: string
  mr_reason :: "string option"

record release_metric_set =
  rm_java_crash_events :: metric_result
  rm_anr_events :: metric_result
  rm_affected_installations :: metric_result
  rm_active_installations :: metric_result
  rm_affected_installation_ratio :: metric_result
  rm_incident_fingerprint_count :: metric_result
  rm_late_ratio :: metric_result
  rm_sdk_drop_rate :: metric_result
  rm_crash_free_sessions :: metric_result
  rm_anr_free_sessions :: metric_result

record release_slice =
  rs_release_version :: string
  rs_state :: query_state
  rs_declared_sample_count :: int
  rs_eligible_sample_count :: int
  rs_excluded_non_occurrence_count :: int
  rs_release_identity_coverage :: "rat option"
  rs_installation_identity_coverage :: "rat option"
  rs_metrics :: release_metric_set

record release_comparison =
  cmp_java_crash_event_delta :: "int option"
  cmp_anr_event_delta :: "int option"
  cmp_affected_installation_delta :: "int option"
  cmp_affected_installation_ratio_delta :: "rat option"

record release_trend_point =
  tp_bucket_start_ms :: int
  tp_bucket_end_ms :: int
  tp_new_java_crash_events :: "int option"
  tp_new_anr_events :: "int option"
  tp_baseline_java_crash_events :: "int option"
  tp_baseline_anr_events :: "int option"
  tp_new_state :: query_state
  tp_baseline_state :: query_state

record release_health_response =
  rh_request_id :: string
  rh_scope :: query_scope
  rh_window :: query_window
  rh_new_release :: release_slice
  rh_baseline_release :: release_slice
  rh_comparison :: release_comparison
  rh_trend :: "release_trend_point list"

record fingerprint_item =
  fi_fingerprint :: string
  fi_event_family :: string
  fi_event_count :: int
  fi_affected_installation_count :: "int option"
  fi_first_seen_ms :: int
  fi_last_seen_ms :: int

record fingerprint_response =
  fr_request_id :: string
  fr_scope :: query_scope
  fr_window :: query_window
  fr_release_version :: string
  fr_state :: query_state
  fr_sample_count :: int
  fr_fingerprint_coverage :: "rat option"
  fr_installation_reason :: "string option"
  fr_items :: "fingerprint_item list"

record issue_distribution_item =
  di_label :: string
  di_event_count :: int
  di_affected_installation_count :: "int option"

record issue_distribution_coverage =
  dc_total_event_count :: int
  dc_available_event_count :: int
  dc_missing_event_count :: int
  dc_expired_event_count :: int
  dc_retention_unknown_event_count :: int

record issue_distribution =
  ds_dimension :: string
  ds_state :: query_state
  ds_reason :: "string option"
  ds_items :: "issue_distribution_item list"
  ds_coverage :: "issue_distribution_coverage option"

record issue_trend_point =
  ip_bucket_start_ms :: int
  ip_bucket_end_ms :: int
  ip_event_count :: "int option"
  ip_affected_installation_count :: "int option"

record issue_detail_response =
  id_request_id :: string
  id_scope :: query_scope
  id_window :: query_window
  id_fingerprint :: string
  id_state :: query_state
  id_reason :: "string option"
  id_event_family :: "string option"
  id_event_count :: int
  id_affected_installation_count :: "int option"
  id_first_seen_ms :: "int option"
  id_last_seen_ms :: "int option"
  id_trend :: "issue_trend_point list"
  id_releases :: issue_distribution
  id_scenes :: issue_distribution
  id_device_models :: issue_distribution
  id_android_versions :: issue_distribution

record data_quality_response =
  dq_request_id :: string
  dq_scope :: query_scope
  dq_window :: query_window
  dq_release_version :: "string option"
  dq_state :: query_state
  dq_sample_count :: int
  dq_protocol_counts :: "(string \<times> int) list"
  dq_schema_version_counts :: "(string \<times> int) list"
  dq_inbox_status_counts :: "(string \<times> int) list"
  dq_release_identity :: metric_result
  dq_installation_identity :: metric_result
  dq_sdk_health :: metric_result
  dq_late_data :: metric_result

subsection \<open>Facts\<close>

definition ratio :: "int \<Rightarrow> int \<Rightarrow> rat" where
  "ratio a b = of_int a / of_int b"

definition sample_count :: "query_fact list \<Rightarrow> int" where
  "sample_count facts = sum_list (map qf_weight facts)"

definition fact_counts :: "query_fact list \<Rightarrow> (query_fact \<Rightarrow> string) \<Rightarrow> (string \<times> int) list" where
  "fact_counts facts value_for = foldl (\<lambda>d f. dict_incr (value_for f) (qf_weight f) d) [] facts"

definition occurrence_bound :: "query_fact \<Rightarrow> bool" where
  "occurrence_bound f \<longleftrightarrow> qf_release_identity_quality f = OCCURRENCE_BOUND"

definition is_late :: "query_fact \<Rightarrow> int \<Rightarrow> bool" where
  "is_late f late_after_ms \<longleftrightarrow>
     (case qf_late f of
        Some b \<Rightarrow> b
      | None \<Rightarrow> qf_received_at f div 1000 - qf_occurrence_timestamp_ms f > late_after_ms)"

definition fact_family :: "string \<Rightarrow> string \<Rightarrow> string" where
  "fact_family m n =
     (if (m, n) = (''crash'', ''java_crash'') then ''JAVA_CRASH''
      else if (m, n) = (''anr'', ''anr_detected'') then ''ANR''
      else if (m, n) = (''crash'', ''app_exit'') then ''APP_EXIT''
      else if (m, n) = (''core'', ''sdk_health'') then ''SDK_HEALTH''
      else ''UNREGISTERED'')"

definition named :: "string \<Rightarrow> string \<Rightarrow> query_fact \<Rightarrow> bool" where
  "named m n f \<longleftrightarrow> qf_module f = m \<and> qf_name f = n"

definition is_incident :: "query_fact \<Rightarrow> bool" where
  "is_incident f \<longleftrightarrow> named ''crash'' ''java_crash'' f \<or> named ''anr'' ''anr_detected'' f"

definition distinct_count :: "'a list \<Rightarrow> int" where
  "distinct_count xs = int (length (remdups xs))"

definition installations :: "query_fact list \<Rightarrow> string list" where
  "installations facts = remdups (List.map_filter qf_installation_hmac facts)"

definition installation_continuity_reason :: "query_fact list \<Rightarrow> string option" where
  "installation_continuity_reason facts =
     (let identified = filter (\<lambda>f. qf_installation_hmac f \<noteq> None) facts
      in if list_ex (\<lambda>f. qf_installation_hmac_key_version f = None) identified
         then Some ''INSTALLATION_HMAC_VERSION_MISSING''
         else if distinct_count (map qf_installation_hmac_key_version identified) > 1
         then Some ''INSTALLATION_HMAC_CONTINUITY_BREAK''
         else None)"

definition installation_count :: "query_fact list \<Rightarrow> string option \<Rightarrow> int option" where
  "installation_count facts continuity_reason =
     (if continuity_reason \<noteq> None \<or> list_ex (\<lambda>f. qf_installation_hmac f = None) facts then None
      else Some (distinct_count (map qf_installation_hmac facts)))"

definition last_occurrence :: "query_fact \<Rightarrow> int" where
  "last_occurrence f =
     (case qf_last_occurrence_timestamp_ms f of
        Some t \<Rightarrow> if t \<noteq> 0 then t else qf_occurrence_timestamp_ms f
      | None \<Rightarrow> qf_occurrence_timestamp_ms f)"

subsection \<open>Metrics\<close>

definition metric :: "query_state \<Rightarrow> int \<Rightarrow> int \<Rightarrow> metric_result" where
  "metric state as_of_ms samples =
     \<lparr>mr_state = state, mr_value = None, mr_numerator = None, mr_denominator = None,
      mr_sample_count = samples, mr_coverage = None, mr_as_of_ms = as_of_ms, mr_source = QUERY_SOURCE,
      mr_reason = None\<rparr>"

definition count_metric :: "int \<Rightarrow> int \<Rightarrow> int \<Rightarrow> query_state \<Rightarrow> string option \<Rightarrow> metric_result" where
  "count_metric n samples as_of_ms quality_state reason =
     (if quality_state = NO_DATA_STATE \<or> quality_state = UNAVAILABLE_STATE
      then (metric quality_state as_of_ms samples)\<lparr>mr_reason := reason\<rparr>
      else
        let state = (if quality_state \<noteq> PRESENT_STATE then quality_state
                     else if n = 0 then ZERO_STATE else PRESENT_STATE)
        in (metric state as_of_ms samples)\<lparr>mr_value := Some (NInt n), mr_reason := reason\<rparr>)"

definition coverage_metric :: "int \<Rightarrow> int \<Rightarrow> int \<Rightarrow> string \<Rightarrow> metric_result" where
  "coverage_metric numerator denominator as_of_ms missing_reason =
     (if denominator = 0 then metric NO_DATA_STATE as_of_ms 0
      else if numerator = 0 then
        (metric UNAVAILABLE_STATE as_of_ms denominator)
          \<lparr>mr_numerator := Some (NInt 0), mr_denominator := Some (NInt denominator), mr_coverage := Some 0,
           mr_reason := Some missing_reason\<rparr>
      else
        (metric (if numerator = denominator then PRESENT_STATE else DEGRADED_STATE) as_of_ms denominator)
          \<lparr>mr_value := Some (NFloat (ratio numerator denominator)), mr_numerator := Some (NInt numerator),
           mr_denominator := Some (NInt denominator), mr_coverage := Some (ratio numerator denominator),
           mr_reason := (if numerator = denominator then None else Some ''IDENTITY_COVERAGE_INCOMPLETE'')\<rparr>)"

definition valid_sdk_health :: "query_fact \<Rightarrow> bool" where
  "valid_sdk_health f \<longleftrightarrow>
     (case (qf_sdk_emit_count f, qf_sdk_drop_count f, qf_sdk_drop_rate f) of
        (Some e, Some d, Some r) \<Rightarrow> e > 0 \<and> d \<ge> 0 \<and> 0 \<le> r \<and> r \<le> 1
      | _ \<Rightarrow> False)"

definition positive_drops :: "query_fact \<Rightarrow> bool" where
  "positive_drops f \<longleftrightarrow>
     (case qf_sdk_drop_count f of None \<Rightarrow> False | Some d \<Rightarrow> d > 0) \<or>
     (case qf_sdk_drop_rate f of None \<Rightarrow> False | Some r \<Rightarrow> r > 0)"

definition sdk_health_metric :: "query_fact list \<Rightarrow> int \<Rightarrow> metric_result" where
  "sdk_health_metric facts as_of_ms =
     (if facts = [] then
        (metric UNAVAILABLE_STATE as_of_ms 0)\<lparr>mr_reason := Some SDK_HEALTH_UNAVAILABLE_REASON\<rparr>
      else if \<not> list_all valid_sdk_health facts then
        (metric UNAVAILABLE_STATE as_of_ms (sample_count facts))
          \<lparr>mr_reason := Some ''SDK_HEALTH_FIELDS_OR_SAMPLE_INVALID''\<rparr>
      else
        let dropped = list_ex positive_drops facts
        in (metric (if dropped then DEGRADED_STATE else ZERO_STATE) as_of_ms (sample_count facts))
             \<lparr>mr_value := map_option NFloat (max_option (map qf_sdk_drop_rate facts)),
              mr_reason := (if dropped then Some ''SDK_REPORTED_DROPS'' else None)\<rparr>)"

definition release_quality_state ::
    "query_fact list \<Rightarrow> query_fact list \<Rightarrow> int \<Rightarrow> query_fact list \<Rightarrow> int \<Rightarrow> query_state \<times> string option" where
  "release_quality_state declared eligible installation_eligible dropped late_count =
     (if declared = [] then (NO_DATA_STATE, None)
      else if eligible = [] then (UNAVAILABLE_STATE, Some OCCURRENCE_UNAVAILABLE_REASON)
      else if sample_count eligible < sample_count declared
      then (DEGRADED_STATE, Some ''RELEASE_IDENTITY_COVERAGE_INCOMPLETE'')
      else if installation_eligible < sample_count eligible
      then (DEGRADED_STATE, Some ''INSTALLATION_IDENTITY_COVERAGE_INCOMPLETE'')
      else if dropped \<noteq> [] then (DEGRADED_STATE, Some ''SDK_REPORTED_DROPS'')
      else if late_count \<noteq> 0 then (LATE_STATE, Some ''LATE_DATA_PRESENT'')
      else (PRESENT_STATE, None))"

definition metric_delta :: "metric_result \<Rightarrow> metric_result \<Rightarrow> int option" where
  "metric_delta new baseline =
     (case (mr_value new, mr_value baseline) of
        (Some (NInt a), Some (NInt b)) \<Rightarrow> Some (a - b)
      | _ \<Rightarrow> None)"

definition ratio_delta :: "metric_result \<Rightarrow> metric_result \<Rightarrow> rat option" where
  "ratio_delta new baseline =
     (if mr_state new \<notin> {PRESENT_STATE, ZERO_STATE} \<or> mr_state baseline \<notin> {PRESENT_STATE, ZERO_STATE} then None
      else case (mr_value new, mr_value baseline) of
             (Some a, Some b) \<Rightarrow> Some (rat_of a - rat_of b)
           | _ \<Rightarrow> None)"

subsection \<open>One release\<close>

definition weight_where :: "(query_fact \<Rightarrow> bool) \<Rightarrow> query_fact list \<Rightarrow> int" where
  "weight_where P facts = sum_list (map qf_weight (filter P facts))"

definition installation_metrics ::
    "query_fact list \<Rightarrow> query_fact list \<Rightarrow> query_fact list \<Rightarrow> int \<Rightarrow> metric_result \<times> metric_result \<times> metric_result" where
  "installation_metrics declared eligible incidents as_of_ms =
     (let installation_eligible = weight_where (\<lambda>f. qf_installation_hmac f \<noteq> None) eligible
      in if declared = [] then
           (metric NO_DATA_STATE as_of_ms 0, metric NO_DATA_STATE as_of_ms 0, metric NO_DATA_STATE as_of_ms 0)
         else if eligible = [] then
           let m = (metric UNAVAILABLE_STATE as_of_ms (sample_count declared))
                     \<lparr>mr_reason := Some OCCURRENCE_UNAVAILABLE_REASON\<rparr>
           in (m, m, m)
         else if installation_eligible = 0 then
           let m = (metric UNAVAILABLE_STATE as_of_ms (sample_count eligible))
                     \<lparr>mr_reason := Some INSTALLATION_UNAVAILABLE_REASON\<rparr>
           in (m, m, m)
         else
           let install_state = (if installation_eligible < sample_count eligible then DEGRADED_STATE else PRESENT_STATE);
               active_count = int (length (installations eligible));
               affected_count = int (length (installations incidents));
               coverage = ratio installation_eligible (sample_count eligible);
               active_metric =
                 (metric (if active_count = 0 then ZERO_STATE else install_state) as_of_ms (sample_count eligible))
                   \<lparr>mr_value := Some (NInt active_count), mr_coverage := Some coverage\<rparr>;
               affected_metric =
                 (metric (if affected_count = 0 \<and> install_state = PRESENT_STATE then ZERO_STATE else install_state)
                    as_of_ms (sample_count incidents))
                   \<lparr>mr_value := Some (NInt affected_count),
                    mr_coverage := Some (if incidents \<noteq> []
                      then ratio (weight_where (\<lambda>f. qf_installation_hmac f \<noteq> None) incidents) (sample_count incidents)
                      else 1)\<rparr>;
               ratio_metric =
                 (if install_state = DEGRADED_STATE then
                    (metric DEGRADED_STATE as_of_ms (sample_count eligible))
                      \<lparr>mr_numerator := Some (NInt affected_count), mr_denominator := Some (NInt active_count),
                       mr_coverage := Some coverage, mr_reason := Some ''INSTALLATION_IDENTITY_COVERAGE_INCOMPLETE''\<rparr>
                  else if active_count = 0 then
                    (metric NO_DATA_STATE as_of_ms (sample_count eligible))
                      \<lparr>mr_numerator := Some (NInt affected_count), mr_denominator := Some (NInt 0)\<rparr>
                  else
                    (metric (if affected_count = 0 then ZERO_STATE else PRESENT_STATE) as_of_ms (sample_count eligible))
                      \<lparr>mr_value := Some (NFloat (ratio affected_count active_count)),
                       mr_numerator := Some (NInt affected_count), mr_denominator := Some (NInt active_count),
                       mr_coverage := Some 1\<rparr>)
           in (active_metric, affected_metric, ratio_metric))"

definition fingerprint_metric ::
    "query_fact list \<Rightarrow> query_fact list \<Rightarrow> query_fact list \<Rightarrow> int \<Rightarrow> query_state \<Rightarrow> string option \<Rightarrow> metric_result" where
  "fingerprint_metric declared eligible incidents as_of_ms quality_state quality_reason =
     (let fingerprints = remdups (filter (\<lambda>p. p \<noteq> []) (List.map_filter qf_incident_fingerprint incidents));
          coverage = (if incidents \<noteq> []
                      then Some (ratio (weight_where (\<lambda>f. qf_incident_fingerprint f \<noteq> None) incidents) (sample_count incidents))
                      else None)
      in if incidents = [] \<and> eligible \<noteq> [] then
           (metric ZERO_STATE as_of_ms (sample_count eligible))\<lparr>mr_value := Some (NInt 0)\<rparr>
         else if incidents \<noteq> [] \<and> fingerprints = [] then
           (metric UNAVAILABLE_STATE as_of_ms (sample_count incidents))
             \<lparr>mr_reason := Some ''INCIDENT_FINGERPRINT_NOT_PROVIDED''\<rparr>
         else if incidents \<noteq> [] then
           (metric (if coverage \<noteq> Some 1 then DEGRADED_STATE else PRESENT_STATE) as_of_ms (sample_count incidents))
             \<lparr>mr_value := Some (NInt (int (length fingerprints))), mr_coverage := coverage\<rparr>
         else (metric quality_state as_of_ms (sample_count declared))\<lparr>mr_reason := quality_reason\<rparr>)"

definition late_metric :: "query_fact list \<Rightarrow> query_fact list \<Rightarrow> int \<Rightarrow> int \<Rightarrow> metric_result" where
  "late_metric declared eligible late_count as_of_ms =
     (if declared = [] then metric NO_DATA_STATE as_of_ms 0
      else if eligible = [] then
        (metric UNAVAILABLE_STATE as_of_ms (sample_count declared))\<lparr>mr_reason := Some OCCURRENCE_UNAVAILABLE_REASON\<rparr>
      else
        (metric (if late_count \<noteq> 0 then LATE_STATE else ZERO_STATE) as_of_ms (sample_count eligible))
          \<lparr>mr_value := Some (NFloat (ratio late_count (sample_count eligible))),
           mr_numerator := Some (NInt late_count), mr_denominator := Some (NInt (sample_count eligible))\<rparr>)"

definition sdk_installation_coverage :: "query_fact list \<Rightarrow> query_fact list \<Rightarrow> rat option" where
  "sdk_installation_coverage sdk_facts eligible =
     (if installations eligible \<noteq> []
      then Some (ratio (int (length (installations (filter valid_sdk_health sdk_facts)))) (int (length (installations eligible))))
      else None)"

definition release_gate ::
    "query_state \<Rightarrow> string option \<Rightarrow> metric_result \<Rightarrow> rat option \<Rightarrow> rat \<Rightarrow> int \<Rightarrow> int \<Rightarrow> query_state \<times> string option" where
  "release_gate quality_state quality_reason sdk_metric sdk_coverage min_sdk_health_coverage active_count min_installations =
     (if quality_state \<noteq> PRESENT_STATE then (quality_state, quality_reason)
      else if mr_state sdk_metric \<notin> {PRESENT_STATE, ZERO_STATE} then (mr_state sdk_metric, mr_reason sdk_metric)
      else if (case sdk_coverage of None \<Rightarrow> True | Some c \<Rightarrow> c < min_sdk_health_coverage)
      then (UNKNOWN_COVERAGE_STATE, Some ''SDK_HEALTH_INSTALLATION_COVERAGE_INCOMPLETE'')
      else if active_count < min_installations then (UNAVAILABLE_STATE, Some ''INSUFFICIENT_INSTALLATION_SAMPLE'')
      else (quality_state, quality_reason))"

definition declared_facts :: "query_fact list \<Rightarrow> string \<Rightarrow> query_fact list" where
  "declared_facts facts release_version = filter (\<lambda>f. qf_app_version f = Some release_version) facts"

definition eligible_facts :: "query_fact list \<Rightarrow> string \<Rightarrow> query_fact list" where
  "eligible_facts facts release_version = filter occurrence_bound (declared_facts facts release_version)"

definition release_slice_of ::
    "query_fact list \<Rightarrow> string \<Rightarrow> int \<Rightarrow> int \<Rightarrow> int \<Rightarrow> rat \<Rightarrow> release_slice" where
  "release_slice_of facts release_version as_of_ms late_after_ms min_installations min_sdk_health_coverage =
     (let declared = declared_facts facts release_version;
          eligible = eligible_facts facts release_version;
          incidents = filter is_incident eligible;
          java_count = weight_where (named ''crash'' ''java_crash'') incidents;
          anr_count = weight_where (named ''anr'' ''anr_detected'') incidents;
          installation_eligible = weight_where (\<lambda>f. qf_installation_hmac f \<noteq> None) eligible;
          release_coverage = (if declared \<noteq> [] then Some (ratio (sample_count eligible) (sample_count declared)) else None);
          installation_coverage = (if eligible \<noteq> [] then Some (ratio installation_eligible (sample_count eligible)) else None);
          late_count = weight_where (\<lambda>f. is_late f late_after_ms) eligible;
          sdk_facts = filter (named ''core'' ''sdk_health'') eligible;
          dropped = filter positive_drops sdk_facts;
          (quality_state, quality_reason) =
            release_quality_state declared eligible installation_eligible dropped late_count;
          (active_metric, affected_metric, ratio_metric) = installation_metrics declared eligible incidents as_of_ms;
          sdk_coverage = sdk_installation_coverage sdk_facts eligible;
          sdk_metric = (if declared = [] then metric NO_DATA_STATE as_of_ms 0
                        else sdk_health_metric sdk_facts as_of_ms)\<lparr>mr_coverage := sdk_coverage\<rparr>;
          (gate_state, gate_reason) =
            release_gate quality_state quality_reason sdk_metric sdk_coverage min_sdk_health_coverage
              (int (length (installations eligible))) min_installations;
          gated = (gate_state \<noteq> PRESENT_STATE \<and> eligible \<noteq> []);
          session_metric = (metric UNAVAILABLE_STATE as_of_ms (sample_count eligible))
            \<lparr>mr_reason := Some SESSION_UNAVAILABLE_REASON\<rparr>
      in \<lparr>rs_release_version = release_version,
          rs_state = (if gated then gate_state else quality_state),
          rs_declared_sample_count = sample_count declared,
          rs_eligible_sample_count = sample_count eligible,
          rs_excluded_non_occurrence_count = sample_count declared - sample_count eligible,
          rs_release_identity_coverage = release_coverage,
          rs_installation_identity_coverage = installation_coverage,
          rs_metrics =
            \<lparr>rm_java_crash_events = count_metric java_count (sample_count eligible) as_of_ms quality_state quality_reason,
             rm_anr_events = count_metric anr_count (sample_count eligible) as_of_ms quality_state quality_reason,
             rm_affected_installations = affected_metric,
             rm_active_installations = active_metric,
             rm_affected_installation_ratio =
               (if gated then
                  (metric gate_state as_of_ms (sample_count eligible))
                    \<lparr>mr_numerator := Some (NInt (int (length (installations incidents)))),
                     mr_denominator := Some (NInt (int (length (installations eligible)))),
                     mr_coverage := installation_coverage, mr_reason := gate_reason\<rparr>
                else ratio_metric),
             rm_incident_fingerprint_count =
               fingerprint_metric declared eligible incidents as_of_ms quality_state quality_reason,
             rm_late_ratio = late_metric declared eligible late_count as_of_ms,
             rm_sdk_drop_rate = sdk_metric,
             rm_crash_free_sessions = session_metric,
             rm_anr_free_sessions = session_metric\<rparr>\<rparr>)"

subsection \<open>Trends\<close>

definition bucket_count :: "int \<Rightarrow> int \<Rightarrow> nat" where
  "bucket_count from_ms to_ms =
     nat ((to_ms - from_ms + query_bucket_ms from_ms to_ms - 1) div query_bucket_ms from_ms to_ms)"

definition bucket_index :: "int \<Rightarrow> int \<Rightarrow> query_fact \<Rightarrow> int" where
  "bucket_index from_ms to_ms f = (qf_occurrence_timestamp_ms f - from_ms) div query_bucket_ms from_ms to_ms"

definition bucket_facts :: "int \<Rightarrow> int \<Rightarrow> query_fact list \<Rightarrow> nat \<Rightarrow> query_fact list" where
  "bucket_facts from_ms to_ms facts index = filter (\<lambda>f. bucket_index from_ms to_ms f = int index) facts"

definition bucket_incidents :: "query_fact list \<Rightarrow> string \<Rightarrow> int option \<times> int option \<times> query_state" where
  "bucket_incidents facts release =
     (let declared = declared_facts facts release; eligible = eligible_facts facts release
      in if declared = [] then (None, None, NO_DATA_STATE)
         else if eligible = [] then (None, None, UNAVAILABLE_STATE)
         else
           let java = weight_where (named ''crash'' ''java_crash'') eligible;
               anr = weight_where (named ''anr'' ''anr_detected'') eligible;
               state = (if java \<noteq> 0 \<or> anr \<noteq> 0 then PRESENT_STATE else ZERO_STATE)
           in (Some java, Some anr, if length eligible < length declared then DEGRADED_STATE else state))"

definition release_incident_trend ::
    "query_fact list \<Rightarrow> string \<Rightarrow> string \<Rightarrow> int \<Rightarrow> int \<Rightarrow> release_trend_point list" where
  "release_incident_trend facts new_release baseline_release from_ms to_ms =
     (let bucket_ms = query_bucket_ms from_ms to_ms;
          relevant = filter (\<lambda>f. qf_app_version f = Some new_release \<or> qf_app_version f = Some baseline_release) facts
      in map (\<lambda>index.
           let members = bucket_facts from_ms to_ms relevant index;
               (new_java, new_anr, new_state) = bucket_incidents members new_release;
               (baseline_java, baseline_anr, baseline_state) = bucket_incidents members baseline_release;
               bucket_start = from_ms + int index * bucket_ms
           in \<lparr>tp_bucket_start_ms = bucket_start, tp_bucket_end_ms = min (bucket_start + bucket_ms) to_ms,
               tp_new_java_crash_events = new_java, tp_new_anr_events = new_anr,
               tp_baseline_java_crash_events = baseline_java, tp_baseline_anr_events = baseline_anr,
               tp_new_state = new_state, tp_baseline_state = baseline_state\<rparr>)
         [0..<bucket_count from_ms to_ms])"

definition issue_trend :: "query_fact list \<Rightarrow> int \<Rightarrow> int \<Rightarrow> issue_trend_point list" where
  "issue_trend facts from_ms to_ms =
     (let bucket_ms = query_bucket_ms from_ms to_ms;
          continuity_reason = installation_continuity_reason facts
      in map (\<lambda>index.
           let members = bucket_facts from_ms to_ms facts index;
               bucket_start = from_ms + int index * bucket_ms
           in \<lparr>ip_bucket_start_ms = bucket_start, ip_bucket_end_ms = min (bucket_start + bucket_ms) to_ms,
               ip_event_count = (if members \<noteq> [] then Some (sample_count members) else None),
               ip_affected_installation_count =
                 (if members \<noteq> [] then installation_count members continuity_reason else None)\<rparr>)
         [0..<bucket_count from_ms to_ms])"

subsection \<open>Responses\<close>

definition continuity_break :: "string option \<Rightarrow> int \<Rightarrow> release_slice \<Rightarrow> release_slice" where
  "continuity_break continuity_reason as_of_ms slice =
     (if continuity_reason \<noteq> None \<and> rs_eligible_sample_count slice \<noteq> 0 then
        let m = (metric UNAVAILABLE_STATE as_of_ms (rs_eligible_sample_count slice))\<lparr>mr_reason := continuity_reason\<rparr>
        in slice\<lparr>rs_state := UNAVAILABLE_STATE,
                 rs_metrics := (rs_metrics slice)\<lparr>rm_active_installations := m, rm_affected_installations := m,
                                                  rm_affected_installation_ratio := m\<rparr>\<rparr>
      else slice)"

definition build_release_health ::
    "string \<Rightarrow> query_principal \<Rightarrow> query_fact list \<Rightarrow> string \<Rightarrow> string \<Rightarrow> int \<Rightarrow> int \<Rightarrow> int \<Rightarrow> int \<Rightarrow> rat
       \<Rightarrow> release_health_response" where
  "build_release_health request_id p facts new_release baseline_release from_ms to_ms late_after_ms
       min_installations min_sdk_health_coverage =
     (let continuity_reason = installation_continuity_reason
            (filter (\<lambda>f. (qf_app_version f = Some new_release \<or> qf_app_version f = Some baseline_release) \<and>
                         occurrence_bound f) facts);
          slice = (\<lambda>release. continuity_break continuity_reason to_ms
                     (release_slice_of facts release to_ms late_after_ms min_installations min_sdk_health_coverage));
          new_slice = slice new_release; baseline_slice = slice baseline_release;
          new_metrics = rs_metrics new_slice; baseline_metrics = rs_metrics baseline_slice
      in \<lparr>rh_request_id = request_id, rh_scope = scope_for p,
          rh_window = \<lparr>qw_from_ms = from_ms, qw_to_ms = to_ms\<rparr>,
          rh_new_release = new_slice, rh_baseline_release = baseline_slice,
          rh_comparison =
            \<lparr>cmp_java_crash_event_delta =
               metric_delta (rm_java_crash_events new_metrics) (rm_java_crash_events baseline_metrics),
             cmp_anr_event_delta = metric_delta (rm_anr_events new_metrics) (rm_anr_events baseline_metrics),
             cmp_affected_installation_delta =
               metric_delta (rm_affected_installations new_metrics) (rm_affected_installations baseline_metrics),
             cmp_affected_installation_ratio_delta =
               ratio_delta (rm_affected_installation_ratio new_metrics) (rm_affected_installation_ratio baseline_metrics)\<rparr>,
          rh_trend = release_incident_trend facts new_release baseline_release from_ms to_ms\<rparr>)"

definition fingerprint_group_item ::
    "string option \<Rightarrow> (string \<times> string) \<times> query_fact list \<Rightarrow> fingerprint_item" where
  "fingerprint_group_item continuity_reason entry =
     (case entry of ((fingerprint, family), members) \<Rightarrow>
        \<lparr>fi_fingerprint = fingerprint, fi_event_family = family, fi_event_count = sample_count members,
         fi_affected_installation_count = installation_count members continuity_reason,
         fi_first_seen_ms = min_of (map qf_occurrence_timestamp_ms members),
         fi_last_seen_ms = max_of (map last_occurrence members)\<rparr>)"

definition top_fingerprint_state ::
    "query_fact list \<Rightarrow> query_fact list \<Rightarrow> query_fact list \<Rightarrow> query_fact list \<Rightarrow> query_state" where
  "top_fingerprint_state declared eligible incidents fingerprinted =
     (if declared = [] then NO_DATA_STATE
      else if eligible = [] then UNAVAILABLE_STATE
      else if incidents = [] then ZERO_STATE
      else if fingerprinted = [] then UNAVAILABLE_STATE
      else if sample_count fingerprinted < sample_count incidents then DEGRADED_STATE
      else PRESENT_STATE)"

definition build_top_fingerprints ::
    "string \<Rightarrow> query_principal \<Rightarrow> query_fact list \<Rightarrow> string \<Rightarrow> int \<Rightarrow> int \<Rightarrow> nat \<Rightarrow> fingerprint_response" where
  "build_top_fingerprints request_id p facts release_version from_ms to_ms limit =
     (let declared = declared_facts facts release_version;
          eligible = eligible_facts facts release_version;
          continuity_reason = installation_continuity_reason eligible;
          incidents = filter is_incident eligible;
          fingerprinted = filter (\<lambda>f. qf_incident_fingerprint f \<noteq> None) incidents;
          grouped = group_by (\<lambda>f. (the (qf_incident_fingerprint f), fact_family (qf_module f) (qf_name f))) fingerprinted;
          items = sort_key (\<lambda>i. (- fi_event_count i, - fi_last_seen_ms i, fi_fingerprint i))
                    (map (fingerprint_group_item continuity_reason) grouped);
          coverage = (if incidents \<noteq> [] then Some (ratio (sample_count fingerprinted) (sample_count incidents)) else None);
          state = top_fingerprint_state declared eligible incidents fingerprinted
      in \<lparr>fr_request_id = request_id, fr_scope = scope_for p,
          fr_window = \<lparr>qw_from_ms = from_ms, qw_to_ms = to_ms\<rparr>, fr_release_version = release_version,
          fr_state = (if continuity_reason \<noteq> None \<and> incidents \<noteq> [] then DEGRADED_STATE else state),
          fr_sample_count = sample_count incidents, fr_fingerprint_coverage = coverage,
          fr_installation_reason = continuity_reason, fr_items = take limit items\<rparr>)"

definition count_of :: "string \<Rightarrow> (string \<times> int) list \<Rightarrow> int" where
  "count_of k counts = (case map_of counts k of None \<Rightarrow> 0 | Some n \<Rightarrow> n)"

definition issue_distribution_of ::
    "string \<Rightarrow> query_fact list \<Rightarrow> (query_fact \<Rightarrow> string option) \<Rightarrow> string \<Rightarrow> (query_fact \<Rightarrow> string) option
       \<Rightarrow> issue_distribution" where
  "issue_distribution_of dimension facts value_for unavailable_reason state_for =
     (let continuity_reason = installation_continuity_reason facts;
          truthy_label = (\<lambda>f. case value_for f of None \<Rightarrow> False | Some l \<Rightarrow> l \<noteq> []);
          availability = (\<lambda>f. case state_for of
              Some g \<Rightarrow> g f
            | None \<Rightarrow> if truthy_label f then EVIDENCE_AVAILABLE else EVIDENCE_MISSING);
          counts = fact_counts facts availability;
          grouped = group_by (\<lambda>f. the (value_for f))
                      (filter (\<lambda>f. truthy_label f \<and> availability f = EVIDENCE_AVAILABLE) facts);
          items = sort_key (\<lambda>i. (- di_event_count i, di_label i))
                    (map (\<lambda>(label, members).
                       \<lparr>di_label = label, di_event_count = sample_count members,
                        di_affected_installation_count = installation_count members continuity_reason\<rparr>) grouped);
          unavailable_count = count_of EVIDENCE_EXPIRED counts + count_of EVIDENCE_MISSING counts +
                              count_of EVIDENCE_RETENTION_UNKNOWN counts;
          coverage_reason =
            (if count_of EVIDENCE_RETENTION_UNKNOWN counts \<noteq> 0 then ''SCENE_RETENTION_UNKNOWN''
             else if count_of EVIDENCE_EXPIRED counts \<noteq> 0 then ''SCENE_EVIDENCE_EXPIRED''
             else unavailable_reason);
          (state, reason) =
            (if facts = [] then (NO_DATA_STATE, None)
             else if items = [] then (UNAVAILABLE_STATE, Some coverage_reason)
             else if unavailable_count \<noteq> 0 then (DEGRADED_STATE, Some coverage_reason)
             else (PRESENT_STATE, None))
      in \<lparr>ds_dimension = dimension, ds_state = state, ds_reason = reason, ds_items = take 10 items,
          ds_coverage = Some
            \<lparr>dc_total_event_count = sample_count facts,
             dc_available_event_count = count_of EVIDENCE_AVAILABLE counts,
             dc_missing_event_count = count_of EVIDENCE_MISSING counts,
             dc_expired_event_count = count_of EVIDENCE_EXPIRED counts,
             dc_retention_unknown_event_count = count_of EVIDENCE_RETENTION_UNKNOWN counts\<rparr>\<rparr>)"

definition scene_availability :: "query_fact \<Rightarrow> string" where
  "scene_availability f =
     (case qf_scene_state f of
        Some s \<Rightarrow> if s \<noteq> [] then s
                  else (case qf_scene f of None \<Rightarrow> EVIDENCE_MISSING
                        | Some t \<Rightarrow> if t \<noteq> [] then EVIDENCE_AVAILABLE else EVIDENCE_MISSING)
      | None \<Rightarrow> (case qf_scene f of None \<Rightarrow> EVIDENCE_MISSING
                  | Some t \<Rightarrow> if t \<noteq> [] then EVIDENCE_AVAILABLE else EVIDENCE_MISSING))"

definition unknown_dimension :: "string \<Rightarrow> string \<Rightarrow> issue_distribution" where
  "unknown_dimension dimension reason =
     \<lparr>ds_dimension = dimension, ds_state = UNKNOWN_COVERAGE_STATE, ds_reason = Some reason, ds_items = [],
      ds_coverage = None\<rparr>"

definition build_issue_detail ::
    "string \<Rightarrow> query_principal \<Rightarrow> query_fact list \<Rightarrow> string \<Rightarrow> int \<Rightarrow> int \<Rightarrow> issue_detail_response" where
  "build_issue_detail request_id p facts fingerprint from_ms to_ms =
     (let declared = filter (\<lambda>f. qf_incident_fingerprint f = Some fingerprint \<and> is_incident f) facts;
          eligible = filter occurrence_bound declared;
          continuity_reason = installation_continuity_reason eligible;
          (state, reason) =
            (if eligible \<noteq> [] \<and> continuity_reason \<noteq> None then (UNAVAILABLE_STATE, continuity_reason)
             else if declared = [] then (NO_DATA_STATE, Some ''FINGERPRINT_NOT_FOUND'')
             else if eligible = [] then (UNAVAILABLE_STATE, Some OCCURRENCE_UNAVAILABLE_REASON)
             else (PRESENT_STATE, None));
          families = remdups (map (\<lambda>f. fact_family (qf_module f) (qf_name f)) eligible)
      in \<lparr>id_request_id = request_id, id_scope = scope_for p,
          id_window = \<lparr>qw_from_ms = from_ms, qw_to_ms = to_ms\<rparr>, id_fingerprint = fingerprint,
          id_state = state, id_reason = reason,
          id_event_family = (case families of [] \<Rightarrow> None | [x] \<Rightarrow> Some x | _ \<Rightarrow> Some ''MIXED''),
          id_event_count = sample_count eligible,
          id_affected_installation_count = installation_count eligible continuity_reason,
          id_first_seen_ms = (if eligible = [] then None else Some (min_of (map qf_occurrence_timestamp_ms eligible))),
          id_last_seen_ms = (if eligible = [] then None else Some (max_of (map last_occurrence eligible))),
          id_trend = issue_trend eligible from_ms to_ms,
          id_releases = issue_distribution_of ''release'' eligible qf_app_version OCCURRENCE_UNAVAILABLE_REASON None,
          id_scenes = issue_distribution_of ''scene'' eligible qf_scene ''SCENE_NOT_PROVIDED'' (Some scene_availability),
          id_device_models = unknown_dimension ''device_model'' ''STANDARD_DEVICE_RESOURCE_NOT_PROVIDED'',
          id_android_versions = unknown_dimension ''android_version'' ''STANDARD_OS_RESOURCE_NOT_PROVIDED''\<rparr>)"

definition build_data_quality ::
    "string \<Rightarrow> query_principal \<Rightarrow> query_fact list \<Rightarrow> string option \<Rightarrow> int \<Rightarrow> int \<Rightarrow> int \<Rightarrow> data_quality_response" where
  "build_data_quality request_id p facts release_version from_ms to_ms late_after_ms =
     (let selected = (case release_version of None \<Rightarrow> facts | Some v \<Rightarrow> declared_facts facts v);
          samples = sample_count selected;
          occurrence_count = weight_where occurrence_bound selected;
          installed = weight_where (\<lambda>f. occurrence_bound f \<and> qf_installation_hmac f \<noteq> None) selected;
          sdk_facts = filter (named ''core'' ''sdk_health'') selected;
          dropped = filter positive_drops sdk_facts;
          late_count = weight_where (\<lambda>f. is_late f late_after_ms) selected;
          sdk_metric = (if selected = [] then metric NO_DATA_STATE to_ms 0 else sdk_health_metric sdk_facts to_ms);
          late = (if selected = [] then metric NO_DATA_STATE to_ms 0
            else (metric (if late_count \<noteq> 0 then LATE_STATE else ZERO_STATE) to_ms samples)
                   \<lparr>mr_value := Some (NFloat (ratio late_count samples)), mr_numerator := Some (NInt late_count),
                    mr_denominator := Some (NInt samples)\<rparr>);
          state =
            (if selected = [] then NO_DATA_STATE
             else if occurrence_count = 0 then UNAVAILABLE_STATE
             else if occurrence_count < samples \<or> installed < occurrence_count \<or> dropped \<noteq> [] then DEGRADED_STATE
             else if late_count \<noteq> 0 then LATE_STATE
             else if mr_state sdk_metric = UNAVAILABLE_STATE then UNAVAILABLE_STATE
             else PRESENT_STATE);
          continuity_reason = installation_continuity_reason selected;
          broken = (continuity_reason \<noteq> None \<and> selected \<noteq> [])
      in \<lparr>dq_request_id = request_id, dq_scope = scope_for p,
          dq_window = \<lparr>qw_from_ms = from_ms, qw_to_ms = to_ms\<rparr>, dq_release_version = release_version,
          dq_state = (if broken then UNAVAILABLE_STATE else state),
          dq_sample_count = samples,
          dq_protocol_counts = sort_key fst (fact_counts selected qf_protocol),
          dq_schema_version_counts = sort_key fst (fact_counts selected qf_schema_version),
          dq_inbox_status_counts = sort_key fst (fact_counts selected (\<lambda>f. inbox_status_text (qf_inbox_status f))),
          dq_release_identity = coverage_metric occurrence_count samples to_ms OCCURRENCE_UNAVAILABLE_REASON,
          dq_installation_identity =
            (if broken then (metric UNAVAILABLE_STATE to_ms samples)\<lparr>mr_reason := continuity_reason\<rparr>
             else coverage_metric installed occurrence_count to_ms INSTALLATION_UNAVAILABLE_REASON),
          dq_sdk_health = sdk_metric, dq_late_data = late\<rparr>)"

end
