(* ===== verification/Apm_Query_Quality.thy ===== *)
theory Apm_Query_Quality
  imports Apm_Query
begin

section \<open>What the query responses guarantee\<close>

text \<open>
  Properties of the builders of \<^verbatim>\<open>query.py\<close> and of their composition with the aggregate statement of
  \<^verbatim>\<open>db/query.py\<close>: when a ratio may be shown, what a missing value means, and that the counts shown are
  counts of stored rows.
\<close>

subsection \<open>Weights\<close>

definition weighted :: "query_fact list \<Rightarrow> bool" where
  "weighted facts \<longleftrightarrow> list_all (\<lambda>f. qf_weight f > 0) facts"

lemma loaded_facts_weighted:
  assumes "load_window_facts rt timely p a b n rel fpo late tbl = Inr facts"
  shows "weighted facts"
proof -
  let ?g = "group_by (dimensions rt a b late) (window_rows p a b rel fpo tbl)"
  have "mset facts = mset (map fact_from_group ?g)"
    using facts_of_groups [OF assms] by blast
  then have set: "set facts = fact_from_group ` set ?g"
    by (metis list.set_map set_mset_mset)
  have "qf_weight (fact_from_group (d, m)) > 0" if "(d, m) \<in> set ?g" for d m
    using in_group_by(2) [OF that] by (simp add: fact_from_group_def)
  then show ?thesis unfolding weighted_def list_all_iff set by auto
qed

lemma weighted_filter [simp]: "weighted facts \<Longrightarrow> weighted (filter P facts)"
  by (auto simp: weighted_def list_all_iff)

lemma weight_where_split: "weighted facts \<Longrightarrow> weight_where P facts \<ge> 0 \<and> weight_where P facts \<le> sample_count facts"
  by (induction facts) (auto simp: weight_where_def sample_count_def weighted_def)

lemma weight_where_zero: "weighted facts \<Longrightarrow> weight_where P facts = 0 \<longleftrightarrow> list_all (\<lambda>f. \<not> P f) facts"
proof (induction facts)
  case (Cons f fs)
  then show ?case
    using weight_where_split [of fs P] by (auto simp: weight_where_def weighted_def)
qed (simp add: weight_where_def)

lemma weight_where_full: "weighted facts \<Longrightarrow> \<not> weight_where P facts < sample_count facts \<longleftrightarrow> list_all P facts"
proof (induction facts)
  case (Cons f fs)
  then show ?case
    using weight_where_split [of fs P] by (auto simp: weight_where_def sample_count_def weighted_def)
qed (simp add: weight_where_def sample_count_def)

lemma sample_count_filter: "sample_count (filter P facts) = weight_where P facts"
  by (simp add: sample_count_def weight_where_def)

lemma sample_count_pos: "weighted facts \<Longrightarrow> facts \<noteq> [] \<Longrightarrow> sample_count facts > 0"
proof (induction facts)
  case (Cons f fs)
  then show ?case by (cases fs) (auto simp: sample_count_def weighted_def)
qed simp

subsection \<open>When a ratio is shown\<close>

text \<open>The conditions under which the ratio of affected installations of a release is meaningful.\<close>

definition trustworthy :: "query_fact list \<Rightarrow> string \<Rightarrow> int \<Rightarrow> int \<Rightarrow> rat \<Rightarrow> bool" where
  "trustworthy facts release late_after_ms min_installations min_coverage \<longleftrightarrow>
     (let declared = declared_facts facts release; sdk = filter (named ''core'' ''sdk_health'') declared
      in declared \<noteq> [] \<and>
         list_all (\<lambda>f. occurrence_bound f \<and> qf_installation_hmac f \<noteq> None \<and> \<not> is_late f late_after_ms) declared \<and>
         sdk \<noteq> [] \<and> list_all (\<lambda>f. valid_sdk_health f \<and> \<not> positive_drops f) sdk \<and>
         min_coverage \<le> ratio (int (length (installations sdk))) (int (length (installations declared))) \<and>
         min_installations \<le> int (length (installations declared)))"

lemma installations_set: "set (installations facts) = {h. \<exists>f \<in> set facts. qf_installation_hmac f = Some h}"
  by (force simp: installations_def List.map_filter_def)

lemma length_installations: "length (installations facts) = card {h. \<exists>f \<in> set facts. qf_installation_hmac f = Some h}"
  unfolding installations_set [symmetric] by (rule distinct_card [symmetric]) (simp add: installations_def)

lemma installations_mono: "set xs \<subseteq> set ys \<Longrightarrow> length (installations xs) \<le> length (installations ys)"
proof -
  assume sub: "set xs \<subseteq> set ys"
  have "finite (set (installations ys))" by simp
  then show ?thesis
    unfolding length_installations installations_set
    by (rule card_mono) (use sub in blast)
qed

lemma quality_present_iff:
  assumes "weighted facts"
  shows "fst (release_quality_state (declared_facts facts r) (eligible_facts facts r)
           (weight_where (\<lambda>f. qf_installation_hmac f \<noteq> None) (eligible_facts facts r)) dropped
           (weight_where (\<lambda>f. is_late f late) (eligible_facts facts r))) = PRESENT_STATE \<longleftrightarrow>
    declared_facts facts r \<noteq> [] \<and> dropped = [] \<and>
    list_all (\<lambda>f. occurrence_bound f \<and> qf_installation_hmac f \<noteq> None \<and> \<not> is_late f late) (declared_facts facts r)"
proof -
  let ?d = "declared_facts facts r"
  have w: "weighted ?d" using assms by (simp add: declared_facts_def)
  have e: "eligible_facts facts r = filter occurrence_bound ?d" by (simp add: eligible_facts_def)
  have c: "sample_count (filter occurrence_bound ?d) < sample_count ?d \<longleftrightarrow> \<not> list_all occurrence_bound ?d"
    unfolding sample_count_filter using weight_where_full [OF w, of occurrence_bound] by blast
  have "filter occurrence_bound ?d = ?d \<longleftrightarrow> list_all occurrence_bound ?d"
    by (simp add: filter_id_conv list_all_iff)
  then show ?thesis
    unfolding release_quality_state_def e
    using c weight_where_full [OF w, of "\<lambda>f. qf_installation_hmac f \<noteq> None"]
      weight_where_zero [OF w, of "\<lambda>f. is_late f late"]
    by (cases "list_all occurrence_bound ?d") (auto simp: list_all_iff)
qed

lemma gate_present_iff:
  "fst (release_gate q reason sdk cov min_cov active min_inst) = PRESENT_STATE \<longleftrightarrow>
     q = PRESENT_STATE \<and> mr_state sdk \<in> {PRESENT_STATE, ZERO_STATE} \<and>
     (\<exists>c. cov = Some c \<and> min_cov \<le> c) \<and> min_inst \<le> active"
  by (auto simp: release_gate_def not_less split: option.splits)

lemma sdk_state_iff:
  "mr_state (sdk_health_metric facts t) \<in> {PRESENT_STATE, ZERO_STATE} \<longleftrightarrow>
     facts \<noteq> [] \<and> list_all (\<lambda>f. valid_sdk_health f \<and> \<not> positive_drops f) facts"
  by (auto simp: sdk_health_metric_def metric_def Let_def list_all_iff list_ex_iff)


text \<open>The gate of a slice, and the metric it guards.\<close>

definition slice_gate :: "query_fact list \<Rightarrow> string \<Rightarrow> int \<Rightarrow> int \<Rightarrow> int \<Rightarrow> rat \<Rightarrow> query_state" where
  "slice_gate facts r as_of late min_inst min_cov =
     (let declared = declared_facts facts r; eligible = eligible_facts facts r;
          sdk = filter (named ''core'' ''sdk_health'') eligible;
          cov = sdk_installation_coverage sdk eligible;
          (q, reason) = release_quality_state declared eligible
            (weight_where (\<lambda>f. qf_installation_hmac f \<noteq> None) eligible) (filter positive_drops sdk)
            (weight_where (\<lambda>f. is_late f late) eligible)
      in fst (release_gate q reason
           ((if declared = [] then metric NO_DATA_STATE as_of 0 else sdk_health_metric sdk as_of)\<lparr>mr_coverage := cov\<rparr>)
           cov min_cov (int (length (installations eligible))) min_inst))"

lemma slice_ratio_value:
  "mr_value (rm_affected_installation_ratio (rs_metrics (release_slice_of facts r as_of late min_inst min_cov))) =
     (if slice_gate facts r as_of late min_inst min_cov \<noteq> PRESENT_STATE \<and> eligible_facts facts r \<noteq> [] then None
      else mr_value (snd (snd (installation_metrics (declared_facts facts r) (eligible_facts facts r)
             (filter is_incident (eligible_facts facts r)) as_of))))"
  by (simp add: release_slice_of_def slice_gate_def Let_def metric_def split: prod.splits)

lemma slice_gate_conditions:
  assumes "weighted facts"
  shows "slice_gate facts r as_of late min_inst min_cov = PRESENT_STATE \<longleftrightarrow>
    (let declared = declared_facts facts r; eligible = eligible_facts facts r;
         sdk = filter (named ''core'' ''sdk_health'') eligible
     in declared \<noteq> [] \<and> filter positive_drops sdk = [] \<and>
        list_all (\<lambda>f. occurrence_bound f \<and> qf_installation_hmac f \<noteq> None \<and> \<not> is_late f late) declared \<and>
        sdk \<noteq> [] \<and> list_all (\<lambda>f. valid_sdk_health f \<and> \<not> positive_drops f) sdk \<and>
        (\<exists>c. sdk_installation_coverage sdk eligible = Some c \<and> min_cov \<le> c) \<and>
        min_inst \<le> int (length (installations eligible)))"
proof -
  have state: "mr_state ((if declared_facts facts r = [] then metric NO_DATA_STATE as_of 0 else sdk_health_metric sdk as_of)
      \<lparr>mr_coverage := c\<rparr>) = (if declared_facts facts r = [] then NO_DATA_STATE else mr_state (sdk_health_metric sdk as_of))" for sdk c
    by (simp add: metric_def)
  show ?thesis
    unfolding slice_gate_def Let_def case_prod_beta gate_present_iff quality_present_iff [OF assms] state
    by (cases "declared_facts facts r = []") (simp_all add: sdk_state_iff [simplified] conj_ac)
qed

lemma slice_gate_iff:
  assumes "weighted facts"
  shows "slice_gate facts r as_of late min_inst min_cov = PRESENT_STATE \<longleftrightarrow>
    trustworthy facts r late min_inst min_cov"
proof -
  let ?d = "declared_facts facts r" and ?e = "eligible_facts facts r"
  let ?ok = "list_all (\<lambda>f. occurrence_bound f \<and> qf_installation_hmac f \<noteq> None \<and> \<not> is_late f late) ?d"
  let ?sdk = "filter (named ''core'' ''sdk_health'') ?d"
  let ?healthy = "list_all (\<lambda>f. valid_sdk_health f \<and> \<not> positive_drops f) ?sdk"
  show ?thesis
  proof (cases "?d \<noteq> [] \<and> ?ok \<and> ?healthy")
    case True
    then have e: "?e = ?d"
      by (auto simp: eligible_facts_def list_all_iff intro: filter_True)
    have "set (installations ?d) \<noteq> {}"
      using True unfolding installations_set by (cases ?d) (auto simp: list_all_iff)
    then have ne: "installations ?d \<noteq> []" by auto
    have valid: "filter valid_sdk_health ?sdk = ?sdk"
      by (rule filter_True) (use True in \<open>auto simp: list_all_iff\<close>)
    have undropped: "filter positive_drops ?sdk = []"
      using True by (auto simp: list_all_iff filter_empty_conv)
    show ?thesis
      unfolding slice_gate_conditions [OF assms] trustworthy_def Let_def e sdk_installation_coverage_def valid undropped
      using True ne by auto
  next
    case False
    have e: "?e = ?d" if ?ok
      using that by (auto simp: eligible_facts_def list_all_iff intro: filter_True)
    show ?thesis
      unfolding slice_gate_conditions [OF assms] trustworthy_def Let_def
      using False e by auto
  qed
qed

lemma trusted_ratio:
  assumes "weighted facts" "trustworthy facts r late min_inst min_cov"
  shows "mr_value (snd (snd (installation_metrics (declared_facts facts r) (eligible_facts facts r)
      (filter is_incident (eligible_facts facts r)) as_of))) =
    Some (NFloat (ratio (int (length (installations (filter is_incident (declared_facts facts r)))))
                        (int (length (installations (declared_facts facts r))))))"
proof -
  let ?d = "declared_facts facts r"
  have t: "?d \<noteq> []" "list_all occurrence_bound ?d" "list_all (\<lambda>f. qf_installation_hmac f \<noteq> None) ?d"
    using assms(2) by (auto simp: trustworthy_def Let_def list_all_iff)
  have e: "eligible_facts facts r = ?d"
    using t(2) by (auto simp: eligible_facts_def list_all_iff intro: filter_True)
  have w: "weighted ?d" using assms(1) by (simp add: declared_facts_def)
  have full: "\<not> weight_where (\<lambda>f. qf_installation_hmac f \<noteq> None) ?d < sample_count ?d"
    using weight_where_full [OF w] t(3) by blast
  then have "weight_where (\<lambda>f. qf_installation_hmac f \<noteq> None) ?d \<noteq> 0"
    using sample_count_pos [OF w t(1)] by linarith
  moreover have "set (installations ?d) \<noteq> {}"
    using t(1,3) unfolding installations_set by (cases ?d) (auto simp: list_all_iff)
  then have "installations ?d \<noteq> []" by auto
  ultimately show ?thesis
    using t(1) full by (simp add: installation_metrics_def e Let_def metric_def)
qed

lemma ratio_unit: "0 \<le> a \<Longrightarrow> a \<le> b \<Longrightarrow> 0 \<le> ratio a b \<and> ratio a b \<le> 1"
  by (cases "b = 0") (auto simp: ratio_def divide_le_eq)

text \<open>
  C11. A release ratio is shown exactly when it can be trusted. In the release comparison, the ratio of
  affected installations of either release has a value if and only if no installation pseudonyms of
  two key epochs are mixed, every declared event is bound to the release at its occurrence, carries an
  installation and is not late, SDK health is reported, valid and free of drops by the required share
  of installations, and there are enough installations; the value is then the number of installations
  with an incident divided by the number of active ones, between 0 and 1.
\<close>

theorem release_ratio_shown_iff_trustworthy:
  assumes "weighted facts"
    and "slice = rh_new_release (build_release_health q p facts new_rel base_rel a b late min_inst min_cov) \<and> r = new_rel \<or>
         slice = rh_baseline_release (build_release_health q p facts new_rel base_rel a b late min_inst min_cov) \<and> r = base_rel"
  shows "(mr_value (rm_affected_installation_ratio (rs_metrics slice)) \<noteq> None \<longleftrightarrow>
      trustworthy facts r late min_inst min_cov \<and>
      installation_continuity_reason (filter (\<lambda>f. (qf_app_version f = Some new_rel \<or> qf_app_version f = Some base_rel) \<and>
         occurrence_bound f) facts) = None) \<and>
    (\<forall>v. mr_value (rm_affected_installation_ratio (rs_metrics slice)) = Some v \<longrightarrow>
       v = NFloat (ratio (int (length (installations (filter is_incident (declared_facts facts r)))))
                         (int (length (installations (declared_facts facts r))))) \<and>
       0 \<le> rat_of v \<and> rat_of v \<le> 1)"
proof -
  define broken where "broken = installation_continuity_reason
      (filter (\<lambda>f. (qf_app_version f = Some new_rel \<or> qf_app_version f = Some base_rel) \<and> occurrence_bound f) facts)"
  let ?s = "release_slice_of facts r b late min_inst min_cov"
  let ?v = "NFloat (ratio (int (length (installations (filter is_incident (declared_facts facts r)))))
                          (int (length (installations (declared_facts facts r)))))"
  have slice: "slice = continuity_break broken b ?s"
    using assms(2) by (auto simp: build_release_health_def broken_def Let_def)
  have count: "rs_eligible_sample_count ?s = sample_count (eligible_facts facts r)"
    by (simp add: release_slice_of_def Let_def split: prod.splits)
  have none: "mr_value (snd (snd (installation_metrics (declared_facts facts r) [] is b))) = None" for "is"
    by (simp add: installation_metrics_def metric_def Let_def)
  have val: "mr_value (rm_affected_installation_ratio (rs_metrics ?s)) =
      (if trustworthy facts r late min_inst min_cov then Some ?v else None)"
  proof (cases "trustworthy facts r late min_inst min_cov")
    case True
    then show ?thesis
      using trusted_ratio [OF assms(1) True, of b] slice_gate_iff [OF assms(1), of r b late min_inst min_cov]
      by (simp add: slice_ratio_value)
  next
    case False
    then have "slice_gate facts r b late min_inst min_cov \<noteq> PRESENT_STATE"
      using slice_gate_iff [OF assms(1)] by blast
    then show ?thesis
      using False none by (cases "eligible_facts facts r = []") (simp_all add: slice_ratio_value)
  qed
  have eligible: "sample_count (eligible_facts facts r) \<noteq> 0" if "trustworthy facts r late min_inst min_cov"
  proof -
    have "eligible_facts facts r = declared_facts facts r" "declared_facts facts r \<noteq> []"
      using that by (auto simp: trustworthy_def Let_def eligible_facts_def list_all_iff intro: filter_True)
    then show ?thesis
      using sample_count_pos [of "declared_facts facts r"] assms(1) by (simp add: declared_facts_def)
  qed
  have "mr_value (rm_affected_installation_ratio (rs_metrics slice)) =
      (if trustworthy facts r late min_inst min_cov \<and> broken = None then Some ?v else None)"
    unfolding slice using val eligible by (auto simp: continuity_break_def count metric_def Let_def)
  moreover have "int (length (installations (filter is_incident (declared_facts facts r)))) \<le> int (length (installations (declared_facts facts r)))"
    by (simp add: installations_mono)
  ultimately show ?thesis
    using ratio_unit by (auto simp: broken_def split: if_splits)
qed


subsection \<open>What a state says about the value\<close>

definition honest :: "metric_result \<Rightarrow> bool" where
  "honest m \<longleftrightarrow>
     (case mr_state m of
        NO_DATA_STATE \<Rightarrow> mr_value m = None
      | UNAVAILABLE_STATE \<Rightarrow> mr_value m = None
      | UNKNOWN_COVERAGE_STATE \<Rightarrow> mr_value m = None
      | ZERO_STATE \<Rightarrow> (case mr_value m of None \<Rightarrow> False | Some v \<Rightarrow> rat_of v = 0)
      | PRESENT_STATE \<Rightarrow> mr_value m \<noteq> None
      | _ \<Rightarrow> True)"

lemma honest_metric:
  "honest (metric s t n) \<longleftrightarrow> s \<noteq> ZERO_STATE \<and> s \<noteq> PRESENT_STATE"
  "honest ((metric s t n)\<lparr>mr_reason := x\<rparr>) \<longleftrightarrow> s \<noteq> ZERO_STATE \<and> s \<noteq> PRESENT_STATE"
  by (cases s; simp add: honest_def metric_def)+

lemma honest_coverage [simp]: "honest (m\<lparr>mr_coverage := c\<rparr>) = honest m"
  by (cases "mr_state m") (simp_all add: honest_def)

lemma honest_count: "honest (count_metric n k t q reason)" if "q \<noteq> ZERO_STATE" "q \<noteq> UNKNOWN_COVERAGE_STATE"
  using that by (cases q) (auto simp: count_metric_def honest_def metric_def Let_def)

lemma honest_coverage_metric: "honest (coverage_metric n d t reason)"
  by (auto simp: coverage_metric_def honest_def metric_def)

lemma drop_rates_zero:
  assumes "list_all (\<lambda>f. valid_sdk_health f \<and> \<not> positive_drops f) facts" "facts \<noteq> []"
  shows "max_option (map qf_sdk_drop_rate facts) = Some 0"
proof -
  have z: "qf_sdk_drop_rate f = Some 0" if "f \<in> set facts" for f
    using assms(1) that by (fastforce simp: list_all_iff valid_sdk_health_def positive_drops_def split: option.splits)
  then have "map qf_sdk_drop_rate facts = replicate (length facts) (Some 0)"
    by (metis map_replicate_const map_eq_conv)
  moreover have "List.map_filter id (replicate n (Some x)) = replicate n x" for n and x :: rat
    by (induction n) (simp_all add: List.map_filter_simps)
  moreover have "foldl max (0::rat) (replicate n 0) = 0" for n
    by (induction n) auto
  ultimately show ?thesis
    using assms(2) by (cases "length facts") (simp_all add: max_option_def max_of_def)
qed

lemma honest_sdk: "honest (sdk_health_metric facts t)"
proof (cases "facts \<noteq> [] \<and> list_all valid_sdk_health facts \<and> \<not> list_ex positive_drops facts")
  case True
  then have "list_all (\<lambda>f. valid_sdk_health f \<and> \<not> positive_drops f) facts"
    by (auto simp: list_all_iff list_ex_iff)
  then show ?thesis
    using True drop_rates_zero [of facts] by (simp add: sdk_health_metric_def honest_def metric_def)
qed (auto simp: sdk_health_metric_def honest_def metric_def Let_def)

lemma honest_installation_metrics:
  "case installation_metrics d e i t of (a, b, c) \<Rightarrow> honest a \<and> honest b \<and> honest c"
  by (auto simp: installation_metrics_def Let_def honest_def metric_def ratio_def)

lemma quality_states: "fst (release_quality_state d e n x l) \<in> {NO_DATA_STATE, UNAVAILABLE_STATE, DEGRADED_STATE, LATE_STATE, PRESENT_STATE}"
  by (simp add: release_quality_state_def)

lemma honest_fingerprints:
  assumes "(q, reason) = release_quality_state d e n x l" "d = [] \<longrightarrow> e = []"
  shows "honest (fingerprint_metric d e i t q reason)"
  using assms by (auto simp: fingerprint_metric_def release_quality_state_def honest_def metric_def Let_def split: if_splits)

lemma honest_late: "honest (late_metric d e n t)"
  by (auto simp: late_metric_def honest_def metric_def ratio_def)

lemma gate_states:
  assumes "q \<in> {NO_DATA_STATE, UNAVAILABLE_STATE, DEGRADED_STATE, LATE_STATE, PRESENT_STATE}"
  shows "fst (release_gate q reason sdk cov c active m) \<noteq> ZERO_STATE"
  using assms by (auto simp: release_gate_def)

definition slice_metrics :: "release_slice \<Rightarrow> metric_result list" where
  "slice_metrics s =
     (let m = rs_metrics s
      in [rm_java_crash_events m, rm_anr_events m, rm_affected_installations m, rm_active_installations m,
          rm_affected_installation_ratio m, rm_incident_fingerprint_count m, rm_late_ratio m, rm_sdk_drop_rate m,
          rm_crash_free_sessions m, rm_anr_free_sessions m])"

lemma honest_slice: "list_all honest (slice_metrics (release_slice_of facts r t late min_inst min_cov))"
proof -
  let ?d = "declared_facts facts r" and ?e = "eligible_facts facts r"
  let ?i = "filter is_incident ?e"
  obtain q reason where q: "release_quality_state ?d ?e (weight_where (\<lambda>f. qf_installation_hmac f \<noteq> None) ?e)
      (filter positive_drops (filter (named ''core'' ''sdk_health'') ?e)) (weight_where (\<lambda>f. is_late f late) ?e) = (q, reason)"
    by (meson surj_pair)
  obtain a b c where im: "installation_metrics ?d ?e ?i t = (a, b, c)" by (metis prod_cases3)
  have qs: "q \<in> {NO_DATA_STATE, UNAVAILABLE_STATE, DEGRADED_STATE, LATE_STATE, PRESENT_STATE}"
    using quality_states q by (metis fst_conv)
  have counts: "honest (count_metric n k t q reason)" for n k
    using qs by (intro honest_count) auto
  have inst: "honest a" "honest b" "honest c"
    using honest_installation_metrics [of ?d ?e ?i t] by (auto simp: im)
  have fp: "honest (fingerprint_metric ?d ?e ?i t q reason)"
    by (rule honest_fingerprints [OF q [symmetric]]) (simp add: eligible_facts_def)
  have gated: "honest ((metric g t n)\<lparr>mr_numerator := x, mr_denominator := y, mr_coverage := z, mr_reason := w\<rparr>)"
    if "g \<noteq> ZERO_STATE" "g \<noteq> PRESENT_STATE" for g n x y z w
    using that by (cases g) (auto simp: honest_def metric_def)
  show ?thesis
    unfolding slice_metrics_def release_slice_of_def Let_def q im case_prod_beta fst_conv snd_conv
    by (simp add: counts inst fp honest_late honest_sdk honest_metric gated gate_states [OF qs])
qed

text \<open>
  A state never misrepresents its value. Every metric of both releases in a comparison and of the
  data-quality report is honest: without data, when unavailable or when coverage is unknown there is no
  value, zero means a value that is zero, and present means that there is a value. In particular no
  missing measurement is ever shown as zero.
\<close>

theorem metrics_never_fabricated:
  "list_all honest
     (slice_metrics (rh_new_release (build_release_health q p facts new_rel base_rel a b late min_inst min_cov)) @
      slice_metrics (rh_baseline_release (build_release_health q p facts new_rel base_rel a b late min_inst min_cov)) @
      [dq_release_identity (build_data_quality q p facts rel a b late),
       dq_installation_identity (build_data_quality q p facts rel a b late),
       dq_sdk_health (build_data_quality q p facts rel a b late),
       dq_late_data (build_data_quality q p facts rel a b late)])"
proof -
  have br: "list_all honest (slice_metrics (continuity_break reason b s))" if "list_all honest (slice_metrics s)" for reason s
    using that by (auto simp: continuity_break_def slice_metrics_def Let_def honest_metric)
  have "list_all honest (slice_metrics (continuity_break reason b (release_slice_of facts r b late min_inst min_cov)))" for reason r
    by (rule br, rule honest_slice)
  moreover have "honest (dq_late_data (build_data_quality q p facts rel a b late))"
    by (simp add: build_data_quality_def Let_def honest_def metric_def ratio_def)
  ultimately show ?thesis
    by (simp add: build_release_health_def build_data_quality_def Let_def honest_coverage_metric honest_sdk honest_metric)
qed


subsection \<open>Counts shown are counts of rows\<close>

definition row_named :: "runtime \<Rightarrow> string \<Rightarrow> string \<Rightarrow> inbox_event \<Rightarrow> bool" where
  "row_named rt m n r \<longleftrightarrow>
     text_or (sql_string rt (map_of (ie_payload_json r) ''module'')) = m \<and>
     text_or (sql_string rt (map_of (ie_payload_json r) ''name'')) = n"

definition row_incident :: "runtime \<Rightarrow> inbox_event \<Rightarrow> bool" where
  "row_incident rt r \<longleftrightarrow> row_named rt ''crash'' ''java_crash'' r \<or> row_named rt ''anr'' ''anr_detected'' r"

definition row_bound :: "inbox_event \<Rightarrow> bool" where
  "row_bound r \<longleftrightarrow> ie_release_identity_quality r = OCCURRENCE_BOUND"

text \<open>A question about a fact and the same question about a row.\<close>

lemma facts_answer_rows:
  assumes "load_window_facts rt timely p a b n rel fpo late tbl = Inr facts"
    and "\<And>f. P f = Q (fact_view a b f)" and "\<And>r. R r = Q (row_view rt a b late r)"
  shows "sample_count (filter P facts) = int (length (filter R (window_rows p a b rel fpo tbl)))"
proof -
  have "P = (\<lambda>f. Q (fact_view a b f))" "R = (\<lambda>r. Q (row_view rt a b late r))"
    using assms(2,3) by blast+
  then show ?thesis
    using window_facts_conserve_rows [OF assms(1), of Q] by (simp add: sample_count_def)
qed

lemma release_events_count:
  assumes "load_window_facts rt timely p a b n rel fpo late tbl = Inr facts"
  shows "weight_where (named m k) (filter is_incident (eligible_facts facts v)) =
    int (length (filter (\<lambda>r. ie_app_version r = Some v \<and> row_bound r \<and> row_incident rt r \<and> row_named rt m k r)
      (window_rows p a b rel fpo tbl)))"
proof -
  let ?Q = "\<lambda>((app, quality, _), _, _, (md, nm), _). app = Some v \<and> quality = OCCURRENCE_BOUND \<and>
      ((md, nm) = (''crash'', ''java_crash'') \<or> (md, nm) = (''anr'', ''anr_detected'')) \<and> md = m \<and> nm = k"
  have "weight_where (named m k) (filter is_incident (eligible_facts facts v)) =
      sample_count (filter (\<lambda>f. qf_app_version f = Some v \<and> occurrence_bound f \<and> is_incident f \<and> named m k f) facts)"
    by (simp add: weight_where_def sample_count_def eligible_facts_def declared_facts_def conj_ac)
  also have "\<dots> = int (length (filter (\<lambda>r. ie_app_version r = Some v \<and> row_bound r \<and> row_incident rt r \<and> row_named rt m k r)
      (window_rows p a b rel fpo tbl)))"
    by (rule facts_answer_rows [OF assms, where Q = ?Q])
       (simp_all add: fact_view_def row_view_def occurrence_bound_def is_incident_def named_def row_bound_def
          row_incident_def row_named_def)
  finally show ?thesis .
qed

lemma slice_counts:
  "\<exists>x1 x2 x3 x4. rm_java_crash_events (rs_metrics (release_slice_of facts r t late min_inst min_cov)) =
     count_metric (weight_where (named ''crash'' ''java_crash'') (filter is_incident (eligible_facts facts r))) x1 x2 x3 x4"
  "\<exists>x1 x2 x3 x4. rm_anr_events (rs_metrics (release_slice_of facts r t late min_inst min_cov)) =
     count_metric (weight_where (named ''anr'' ''anr_detected'') (filter is_incident (eligible_facts facts r))) x1 x2 x3 x4"
  by (simp_all only: release_slice_of_def Let_def case_prod_beta release_slice.simps release_metric_set.simps) blast+

text \<open>
  The release comparison counts stored rows: from the facts of one aggregate statement, a shown number
  of Java crashes or of application hangs of a release is exactly the number of inbox rows of the
  credential's scope, the window and that release, bound to it at occurrence, with that event name.
\<close>

theorem release_health_counts_rows:
  assumes "load_window_facts rt timely p a b n rel None late tbl = Inr facts"
    and "metrics = rs_metrics (rh_new_release (build_release_health q p facts new_rel base_rel a b late min_inst min_cov))"
  shows "(\<forall>v. mr_value (rm_java_crash_events metrics) = Some v \<longrightarrow>
      v = NInt (int (length (filter (\<lambda>r. ie_app_version r = Some new_rel \<and> row_bound r \<and>
        row_named rt ''crash'' ''java_crash'' r) (window_rows p a b rel None tbl))))) \<and>
    (\<forall>v. mr_value (rm_anr_events metrics) = Some v \<longrightarrow>
      v = NInt (int (length (filter (\<lambda>r. ie_app_version r = Some new_rel \<and> row_bound r \<and>
        row_named rt ''anr'' ''anr_detected'' r) (window_rows p a b rel None tbl)))))"
proof -
  let ?s = "release_slice_of facts new_rel b late min_inst min_cov"
  have m: "rm_java_crash_events metrics = rm_java_crash_events (rs_metrics ?s)"
      "rm_anr_events metrics = rm_anr_events (rs_metrics ?s)"
    unfolding assms(2) by (simp_all add: build_release_health_def continuity_break_def Let_def)
  have cnt: "mr_value (count_metric k s t st reason) = Some v \<Longrightarrow> v = NInt k" for k s t st reason v
    by (auto simp: count_metric_def metric_def Let_def split: if_splits)
  have inc: "row_named rt ''crash'' ''java_crash'' r \<Longrightarrow> row_incident rt r"
      "row_named rt ''anr'' ''anr_detected'' r \<Longrightarrow> row_incident rt r" for r
    by (simp_all add: row_incident_def)
  have rows: "(\<lambda>r. ie_app_version r = Some new_rel \<and> row_bound r \<and> row_incident rt r \<and> row_named rt ''crash'' ''java_crash'' r) =
      (\<lambda>r. ie_app_version r = Some new_rel \<and> row_bound r \<and> row_named rt ''crash'' ''java_crash'' r)"
    "(\<lambda>r. ie_app_version r = Some new_rel \<and> row_bound r \<and> row_incident rt r \<and> row_named rt ''anr'' ''anr_detected'' r) =
      (\<lambda>r. ie_app_version r = Some new_rel \<and> row_bound r \<and> row_named rt ''anr'' ''anr_detected'' r)"
    using inc by blast+
  obtain x1 x2 x3 x4 y1 y2 y3 y4 where slice:
      "rm_java_crash_events (rs_metrics ?s) =
         count_metric (weight_where (named ''crash'' ''java_crash'') (filter is_incident (eligible_facts facts new_rel))) x1 x2 x3 x4"
      "rm_anr_events (rs_metrics ?s) =
         count_metric (weight_where (named ''anr'' ''anr_detected'') (filter is_incident (eligible_facts facts new_rel))) y1 y2 y3 y4"
    using slice_counts [of facts new_rel b late min_inst min_cov] by (elim exE) (rule that)
  show ?thesis
    unfolding m slice release_events_count [OF assms(1)] rows using cnt by blast
qed

lemma bucket_count_le: "a < b \<Longrightarrow> bucket_count a b \<le> 24"
proof -
  assume "a < b"
  let ?B = "query_bucket_ms a b"
  have B: "60000 \<le> ?B" by (simp add: query_bucket_ms_def Let_def)
  have "(b - a + 23) div 24 \<le> ?B"
    unfolding query_bucket_ms_def Let_def by (rule max.coboundedI2) (use round_up_ge [of 60000] in simp)
  moreover have "b - a \<le> 24 * ((b - a + 23) div 24)"
    using round_up_ge [of 24 "b - a"] by (simp add: mult.commute)
  ultimately have "b - a + ?B - 1 < 25 * ?B" using B by linarith
  then have "(b - a + ?B - 1) div ?B < 25" using B div_less_of_less_mult by simp
  then show ?thesis by (simp add: bucket_count_def)
qed

lemma in_bucket_iff:
  assumes "0 < B" "t < (b::int)"
  shows "(t - a) div B = int k \<longleftrightarrow> a + int k * B \<le> t \<and> t < min (a + int k * B + B) b"
proof -
  have "(t - a) div B * B \<le> t - a" "t - a < (t - a) div B * B + B"
    using assms(1) div_mult_mod_eq [of "t - a" B] pos_mod_bound [of B "t - a"] pos_mod_sign [of B "t - a"] by linarith+
  moreover have "(t - a) div B = int k" if "int k * B \<le> t - a" "t - a < int k * B + B"
  proof (rule order_antisym)
    show "(t - a) div B \<le> int k"
      using div_less_of_less_mult [of B "t - a" "int k + 1"] that assms(1) by (simp add: algebra_simps)
    show "int k \<le> (t - a) div B"
      using zdiv_mono1 [OF that(1), of B] assms(1) by simp
  qed
  ultimately show ?thesis using assms(2) by auto
qed

text \<open>The rows an issue is about, and the facts of a load that describe them in a set of intervals.\<close>

definition issue_rows :: "runtime \<Rightarrow> query_principal \<Rightarrow> int \<Rightarrow> int \<Rightarrow> string \<Rightarrow> inbox_event list \<Rightarrow> inbox_event list" where
  "issue_rows rt p a b fp tbl = filter (\<lambda>r. row_bound r \<and> row_incident rt r) (window_rows p a b None (Some fp) tbl)"

definition issue_facts :: "string \<Rightarrow> query_fact list \<Rightarrow> query_fact list" where
  "issue_facts fp facts =
     filter (\<lambda>f. qf_incident_fingerprint f = Some fp \<and> is_incident f \<and> occurrence_bound f) facts"

lemma issue_rowD:
  "r \<in> set (window_rows p a b None (Some fp) tbl) \<Longrightarrow>
     ie_incident_fingerprint r = Some fp \<and> ie_occurrence_timestamp_ms r < b"
  by (auto simp: window_rows_def scope_window_predicates_def)

lemma issue_facts_count:
  assumes "load_window_facts rt timely p a b n None (Some fp) late tbl = Inr facts"
  shows "sample_count (filter (\<lambda>f. K (bucket_index a b f)) (issue_facts fp facts)) =
    int (length (filter (\<lambda>r. K ((ie_occurrence_timestamp_ms r - a) div query_bucket_ms a b)) (issue_rows rt p a b fp tbl)))"
proof -
  let ?B = "query_bucket_ms a b" and ?wr = "window_rows p a b None (Some fp) tbl"
  let ?Q = "\<lambda>((app, quality, _), _, fpo, (md, nm), _, _, _, bk :: int). fpo = Some fp \<and> quality = OCCURRENCE_BOUND \<and>
      ((md, nm) = (''crash'', ''java_crash'') \<or> (md, nm) = (''anr'', ''anr_detected'')) \<and> K bk"
  have "sample_count (filter (\<lambda>f. K (bucket_index a b f)) (issue_facts fp facts)) =
      sample_count (filter (\<lambda>f. (qf_incident_fingerprint f = Some fp \<and> is_incident f \<and> occurrence_bound f) \<and> K (bucket_index a b f)) facts)"
    by (simp add: issue_facts_def conj_ac)
  also have "\<dots> = int (length (filter (\<lambda>r. ie_incident_fingerprint r = Some fp \<and> row_bound r \<and> row_incident rt r \<and>
      K ((ie_occurrence_timestamp_ms r - a) div ?B)) ?wr))"
    by (rule facts_answer_rows [OF assms, where Q = ?Q])
       (auto simp: fact_view_def row_view_def occurrence_bound_def is_incident_def named_def row_bound_def
          row_incident_def row_named_def bucket_index_def)
  also have "filter (\<lambda>r. ie_incident_fingerprint r = Some fp \<and> row_bound r \<and> row_incident rt r \<and>
      K ((ie_occurrence_timestamp_ms r - a) div ?B)) ?wr =
      filter (\<lambda>r. K ((ie_occurrence_timestamp_ms r - a) div ?B)) (issue_rows rt p a b fp tbl)"
    unfolding issue_rows_def filter_filter by (rule filter_cong) (use issue_rowD in auto)
  finally show ?thesis .
qed

lemma issue_interval_shown:
  assumes "load_window_facts rt timely p a b n None (Some fp) late tbl = Inr facts"
  shows "(let here = filter (\<lambda>r. (ie_occurrence_timestamp_ms r - a) div query_bucket_ms a b = int k) (issue_rows rt p a b fp tbl);
              facts_here = bucket_facts a b (issue_facts fp facts) k
          in (if facts_here \<noteq> [] then Some (sample_count facts_here) else None) =
             (if here = [] then None else Some (int (length here))))"
proof -
  let ?F = "bucket_facts a b (issue_facts fp facts) k"
  have "sample_count ?F = int (length (filter (\<lambda>r. (ie_occurrence_timestamp_ms r - a) div query_bucket_ms a b = int k) (issue_rows rt p a b fp tbl)))"
    unfolding bucket_facts_def using issue_facts_count [OF assms, of "\<lambda>i. i = int k"] by simp
  moreover have "weighted ?F"
    using loaded_facts_weighted [OF assms] unfolding bucket_facts_def issue_facts_def by (intro weighted_filter)
  then have "?F \<noteq> [] \<longleftrightarrow> sample_count ?F \<noteq> 0"
    using sample_count_pos by (force simp: sample_count_def simp del: filter_filter)
  ultimately show ?thesis by (simp add: Let_def del: filter_filter)
qed

lemma issue_interval_rows:
  "filter (\<lambda>r. a + int k * query_bucket_ms a b \<le> ie_occurrence_timestamp_ms r \<and>
      ie_occurrence_timestamp_ms r < min (a + int k * query_bucket_ms a b + query_bucket_ms a b) b) (issue_rows rt p a b fp tbl) =
   filter (\<lambda>r. (ie_occurrence_timestamp_ms r - a) div query_bucket_ms a b = int k) (issue_rows rt p a b fp tbl)"
proof (rule filter_cong [OF refl])
  fix r assume "r \<in> set (issue_rows rt p a b fp tbl)"
  then have "ie_occurrence_timestamp_ms r < b" using issue_rowD by (auto simp: issue_rows_def)
  moreover have "0 < query_bucket_ms a b" by (simp add: query_bucket_ms_def Let_def max_def)
  ultimately show "(a + int k * query_bucket_ms a b \<le> ie_occurrence_timestamp_ms r \<and>
      ie_occurrence_timestamp_ms r < min (a + int k * query_bucket_ms a b + query_bucket_ms a b) b) \<longleftrightarrow>
      (ie_occurrence_timestamp_ms r - a) div query_bucket_ms a b = int k"
    using in_bucket_iff [of "query_bucket_ms a b" "ie_occurrence_timestamp_ms r" b a k] by blast
qed



subsection \<open>Samples\<close>

text \<open>One Java crash of release 2 in the window, and one healthy SDK report of release 2.\<close>

definition crash_row :: inbox_event where
  "crash_row = (scoped_row 1)
     \<lparr>ie_app_version := Some ''2'', ie_release_identity_quality := OCCURRENCE_BOUND,
      ie_installation_hmac := Some ''i1'', ie_installation_hmac_key_version := Some ''k1'',
      ie_incident_fingerprint := Some ''fp'', ie_received_at := 0,
      ie_payload_json := [(''module'', jstr ''crash''), (''name'', jstr ''java_crash'')]\<rparr>"

definition crash_fact :: query_fact where
  "crash_fact = fact_from_group (dimensions sample_runtime 0 9000 900000 crash_row, [crash_row])"

definition health_fact :: query_fact where
  "health_fact = crash_fact
     \<lparr>qf_module := ''core'', qf_name := ''sdk_health'', qf_incident_fingerprint := None,
      qf_sdk_emit_count := Some 1, qf_sdk_drop_count := Some 0, qf_sdk_drop_rate := Some 0\<rparr>"

lemma crash_row_columns [simp]:
  "ie_id crash_row = 1" "ie_app_version crash_row = Some ''2''" "row_bound crash_row"
  "ie_occurrence_timestamp_ms crash_row = 1000" "in_scope sample_viewer crash_row"
  "ie_incident_fingerprint crash_row = Some ''fp''" "row_named rt m n crash_row \<longleftrightarrow> m = ''crash'' \<and> n = ''java_crash''"
proof -
  have "in_scope sample_viewer (scoped_row 1)" by simp
  then show "in_scope sample_viewer crash_row" by (simp add: in_scope_def crash_row_def)
qed (auto simp: crash_row_def row_bound_def row_named_def text_or_def sql_string_def scoped_row_def sample_inbox_row_def)

lemma crash_window: "fpo = None \<or> fpo = Some ''fp'' \<Longrightarrow>
    window_rows sample_viewer 0 9000 None fpo [crash_row, foreign_row] = [crash_row]"
  by (auto simp: window_rows_def scope_window_predicates_def)

lemma crash_facts: "fpo = None \<or> fpo = Some ''fp'' \<Longrightarrow>
    load_window_facts sample_runtime True sample_viewer 0 9000 10 None fpo 900000 [crash_row, foreign_row] = Inr [crash_fact]"
  by (simp add: load_window_facts_def crash_window execute_bounded_def order_limit_def group_by_def crash_fact_def)

lemma crash_fact_columns [simp]:
  "qf_app_version crash_fact = Some ''2''" "occurrence_bound crash_fact" "qf_weight crash_fact = 1"
  "qf_installation_hmac crash_fact = Some ''i1''" "qf_installation_hmac_key_version crash_fact = Some ''k1''"
  "named m n crash_fact \<longleftrightarrow> m = ''crash'' \<and> n = ''java_crash''" "\<not> is_late crash_fact t"
  by (auto simp: crash_fact_def fact_from_group_def dimensions_def crash_row_def scoped_row_def occurrence_bound_def
      named_def text_or_def sql_string_def is_late_def row_late_def Let_def)

lemma health_fact_columns [simp]:
  "qf_app_version health_fact = Some ''2''" "occurrence_bound health_fact" "qf_weight health_fact = 1"
  "qf_installation_hmac health_fact = Some ''i1''" "qf_installation_hmac_key_version health_fact = Some ''k1''"
  "named m n health_fact \<longleftrightarrow> m = ''core'' \<and> n = ''sdk_health''" "\<not> is_late health_fact t"
  "valid_sdk_health health_fact" "\<not> positive_drops health_fact"
proof -
  show "occurrence_bound health_fact" "\<not> is_late health_fact t"
    using crash_fact_columns(2) crash_fact_columns(7) [of t] by (simp_all add: health_fact_def occurrence_bound_def is_late_def split: option.splits)
qed (auto simp: health_fact_def named_def valid_sdk_health_def positive_drops_def)

theorem release_ratio_shown_iff_trustworthy_witness:
  "mr_value (rm_affected_installation_ratio (rs_metrics (rh_new_release
     (build_release_health ''q'' sample_viewer [crash_fact, health_fact] ''2'' ''1'' 0 9000 900000 1 1)))) = Some (NFloat 1)"
proof -
  have one: "installations [crash_fact, health_fact] = [''i1'']" "installations [health_fact] = [''i1'']" "installations [crash_fact] = [''i1'']"
    by (simp_all add: installations_def List.map_filter_simps)
  have d: "declared_facts [crash_fact, health_fact] ''2'' = [crash_fact, health_fact]"
    by (simp add: declared_facts_def)
  have "trustworthy [crash_fact, health_fact] ''2'' 900000 1 1"
    by (simp add: trustworthy_def d one ratio_def)
  moreover have "weighted [crash_fact, health_fact]" by (simp add: weighted_def)
  moreover have "installation_continuity_reason (filter (\<lambda>f. (qf_app_version f = Some ''2'' \<or> qf_app_version f = Some ''1'') \<and>
      occurrence_bound f) [crash_fact, health_fact]) = None"
    by (simp add: installation_continuity_reason_def distinct_count_def)
  ultimately show ?thesis
    using release_ratio_shown_iff_trustworthy [of "[crash_fact, health_fact]" _ "''q''" sample_viewer "''2''" "''1''" 0 9000 900000 1 1 "''2''"]
    by (fastforce simp: d one is_incident_def ratio_def)
qed

theorem release_health_counts_rows_witness:
  "mr_value (rm_java_crash_events (rs_metrics (rh_new_release
     (build_release_health ''q'' sample_viewer [crash_fact] ''2'' ''1'' 0 9000 900000 1 1)))) = Some (NInt 1)"
proof -
  let ?m = "rs_metrics (rh_new_release (build_release_health ''q'' sample_viewer [crash_fact] ''2'' ''1'' 0 9000 900000 1 1))"
  have d: "declared_facts [crash_fact] ''2'' = [crash_fact]" "eligible_facts [crash_fact] ''2'' = [crash_fact]"
    by (simp_all add: eligible_facts_def declared_facts_def)
  have "mr_value (rm_java_crash_events ?m) \<noteq> None"
    by (simp add: build_release_health_def continuity_break_def release_slice_of_def Let_def d release_quality_state_def
        weight_where_def sample_count_def count_metric_def case_prod_beta metric_def)
  then obtain v where v: "mr_value (rm_java_crash_events ?m) = Some v" by blast
  moreover have "v = NInt 1"
    using release_health_counts_rows [OF crash_facts [of None] refl, of "''q''" "''2''" "''1''" 1 1] v
    by (simp add: crash_window)
  ultimately show ?thesis by simp
qed


end
