(* ===== verification/Apm_Query_Api.thy ===== *)
theory Apm_Query_Api
  imports Apm_Query
begin

section \<open>Query endpoints\<close>

text \<open>
  \<^verbatim>\<open>api/query.py\<close> and the event and decision projections of \<^verbatim>\<open>query.py\<close>. A handler takes the
  authentication state and the tables and returns both with the response or the error it raises; what
  it added before \<open>session.commit()\<close> is in the returned tables. Query parameters and JSON bodies arrive
  typed and within the field constraints, as the framework checks them first; \<open>validate\<close> is the
  validation of stored evidence by the model class.
\<close>

subsection \<open>Projections\<close>

record symbolization_summary =
  ss_status :: symbol_status
  ss_fingerprint :: "string option"
  ss_tool_name :: "string option"
  ss_tool_version :: "string option"
  ss_last_error_code :: "string option"

record event_summary =
  es_event_id :: string
  es_module :: string
  es_name :: string
  es_event_family :: string
  es_app_version :: "string option"
  es_app_build :: "string option"
  es_version_code :: "string option"
  es_variant :: "string option"
  es_release_identity_quality :: identity_quality
  es_installation_identity_quality :: identity_quality
  es_installation_hmac :: "string option"
  es_occurrence_timestamp_ms :: int
  es_collection_timestamp_ms :: "int option"
  es_received_at :: time
  es_timestamp_quality :: string
  es_scene :: "string option"
  es_process_name :: "string option"
  es_thread_name :: "string option"
  es_foreground :: "bool option"
  es_incident_fingerprint :: "string option"
  es_inbox_status :: inbox_status
  es_symbolization :: "symbolization_summary option"

record event_page_response =
  ep_request_id :: string
  ep_scope :: query_scope
  ep_window :: query_window
  ep_items :: "event_summary list"
  ep_next_cursor :: "string option"

record event_metadata_response =
  em_raw_available :: bool
  em_request_id :: string
  em_scope :: query_scope
  em_event :: event_summary
  em_schema_version :: string
  em_protocol :: string
  em_normalization_version :: int
  em_field_states :: "(string \<times> json) list"

record raw_access_request =
  ra_purpose_code :: string
  ra_reason :: string

record raw_event_response =
  re_request_id :: string
  re_scope :: query_scope
  re_event :: event_summary
  re_raw_payload :: dict
  re_symbolized_result :: "json option"

record release_evidence =
  ev_release_state :: string
  ev_baseline_state :: "string option"
  ev_java_crash_events :: "int option"
  ev_anr_events :: "int option"
  ev_affected_installations :: "int option"
  ev_active_installations :: "int option"
  ev_affected_installation_ratio :: "rat option"
  ev_data_quality_state :: string
  ev_query_request_id :: string

record release_decision_request =
  dr_release_version :: string
  dr_decision :: string
  dr_evidence_from_ms :: int
  dr_evidence_to_ms :: int
  dr_reason :: string
  dr_evidence :: release_evidence

record release_decision_response =
  dp_id :: int
  dp_release_version :: string
  dp_decision :: string
  dp_actor :: string
  dp_evidence_from_ms :: int
  dp_evidence_to_ms :: int
  dp_reason :: string
  dp_evidence :: release_evidence
  dp_created_at :: time

record release_decision_list_response =
  dl_request_id :: string
  dl_scope :: query_scope
  dl_items :: "release_decision_response list"

fun string_value :: "dict \<Rightarrow> string list \<Rightarrow> string option" where
  "string_value d [] = None"
| "string_value d (k # ks) =
     (case Option.bind (map_of d k) str_of of Some s \<Rightarrow> Some s | None \<Rightarrow> string_value d ks)"

definition bool_value :: "dict \<Rightarrow> string \<Rightarrow> bool option" where
  "bool_value d k = (case map_of d k of Some (JScalar (SBool b)) \<Rightarrow> Some b | _ \<Rightarrow> None)"

definition symbol_job :: "symbolization_job list \<Rightarrow> inbox_event \<Rightarrow> symbolization_job option" where
  "symbol_job jobs e = find (\<lambda>j. sj_inbox_event_id j = ie_id e) jobs"

definition event_summary_of :: "symbolization_job list \<Rightarrow> inbox_event \<Rightarrow> event_summary" where
  "event_summary_of jobs e =
     (let payload = ie_payload_json e;
          normalized = (case obj_of (ie_normalized_json e) of None \<Rightarrow> [] | Some d \<Rightarrow> d);
          family = text_or (string_value normalized [''event_family''])
      in \<lparr>es_event_id = ie_event_id e,
          es_module = text_or (string_value payload [''module'']),
          es_name = text_or (string_value payload [''name'']),
          es_event_family = (if family = [] then ''UNREGISTERED'' else family),
          es_app_version = ie_app_version e, es_app_build = ie_app_build e,
          es_version_code = ie_version_code e, es_variant = ie_variant e,
          es_release_identity_quality = ie_release_identity_quality e,
          es_installation_identity_quality = ie_installation_identity_quality e,
          es_installation_hmac = ie_installation_hmac e,
          es_occurrence_timestamp_ms = ie_occurrence_timestamp_ms e,
          es_collection_timestamp_ms = ie_collection_timestamp_ms e,
          es_received_at = ie_received_at e, es_timestamp_quality = ie_timestamp_quality e,
          es_scene = string_value payload [''scene''],
          es_process_name = string_value payload [''process_name'', ''processName''],
          es_thread_name = string_value payload [''thread_name'', ''threadName''],
          es_foreground = bool_value payload ''foreground'',
          es_incident_fingerprint = ie_incident_fingerprint e, es_inbox_status = ie_status e,
          es_symbolization = map_option (\<lambda>j.
            \<lparr>ss_status = sj_status j, ss_fingerprint = sj_fingerprint_sha256 j, ss_tool_name = sj_tool_name j,
             ss_tool_version = sj_tool_version j, ss_last_error_code = sj_last_error_code j\<rparr>) (symbol_job jobs e)\<rparr>)"

definition field_states :: "inbox_event \<Rightarrow> (string \<times> json) list" where
  "field_states e = field_availability (ie_normalized_json e) (ie_raw_pruned_at e \<noteq> None)"

fun jint_option :: "int option \<Rightarrow> json" where
  "jint_option None = jnull"
| "jint_option (Some i) = jint i"

definition evidence_json :: "release_evidence \<Rightarrow> json" where
  "evidence_json e =
     JObj [(''releaseState'', jstr (ev_release_state e)), (''baselineState'', jopt (ev_baseline_state e)),
           (''javaCrashEvents'', jint_option (ev_java_crash_events e)), (''anrEvents'', jint_option (ev_anr_events e)),
           (''affectedInstallations'', jint_option (ev_affected_installations e)),
           (''activeInstallations'', jint_option (ev_active_installations e)),
           (''affectedInstallationRatio'',
            (case ev_affected_installation_ratio e of None \<Rightarrow> jnull | Some q \<Rightarrow> JScalar (SFloat (Fin q)))),
           (''dataQualityState'', jstr (ev_data_quality_state e)),
           (''queryRequestId'', jstr (ev_query_request_id e))]"

definition decision_response ::
    "(json \<Rightarrow> release_evidence option) \<Rightarrow> release_decision \<Rightarrow> release_decision_response result" where
  "decision_response validate d =
     (case validate (rd_evidence_json d) of
        None \<Rightarrow> Inl (Uncaught ''ValidationError'')
      | Some e \<Rightarrow>
          Inr \<lparr>dp_id = rd_id d, dp_release_version = rd_release_version d, dp_decision = rd_decision d,
               dp_actor = rd_actor d, dp_evidence_from_ms = rd_evidence_from_ms d,
               dp_evidence_to_ms = rd_evidence_to_ms d, dp_reason = rd_reason d, dp_evidence = e,
               dp_created_at = rd_created_at d\<rparr>)"

subsection \<open>Validation\<close>

definition MILLISECONDS_PER_DAY :: int where [consts_simps]: "MILLISECONDS_PER_DAY = 86400000"

definition FORBIDDEN_SCOPE_PARAMETERS :: "string list" where
  "FORBIDDEN_SCOPE_PARAMETERS = [''tenant'', ''tenantid'', ''appid'', ''environment'']"

definition QUERY_RELEASE_DECISIONS :: "string list" where
  "QUERY_RELEASE_DECISIONS = [''continue'', ''pause'', ''rollback'']"

definition QUERY_RAW_PURPOSES :: "string list" where
  "QUERY_RAW_PURPOSES = [''incident_diagnosis'', ''release_validation'', ''customer_support'', ''security_investigation'']"

definition validate_window :: "int \<Rightarrow> int \<Rightarrow> query_settings \<Rightarrow> unit result" where
  "validate_window from_ms to_ms settings =
     (if from_ms \<le> 0 \<or> to_ms \<le> 0 \<or> from_ms \<ge> to_ms
      then Inl (mk_error 400 ''invalid_query_window'' ''The query window is invalid'' False None)
      else if to_ms - from_ms > qs_query_max_window_days settings * MILLISECONDS_PER_DAY
      then Inl (mk_error 422 ''query_window_exceeded''
                  (''The query window exceeds '' @ int_str (qs_query_max_window_days settings) @ '' days'') False None)
      else Inr ())"

definition validate_limit :: "int \<Rightarrow> query_settings \<Rightarrow> unit result" where
  "validate_limit limit settings =
     (if limit \<le> 0 then Inl (mk_error 400 ''invalid_query_limit'' ''The query limit must be positive'' False None)
      else if limit > qs_query_max_limit settings
      then Inl (mk_error 422 ''query_limit_exceeded''
                  (''The query limit exceeds '' @ int_str (qs_query_max_limit settings)) False None)
      else Inr ())"

definition validate_identifier :: "string \<Rightarrow> string \<Rightarrow> nat \<Rightarrow> string result" where
  "validate_identifier value field max_bytes =
     (if value = [] \<or> value \<noteq> py_strip value \<or> length value > max_bytes \<or> list_ex is_control value
      then Inl (mk_error 400 ''invalid_query_filter'' (''The '' @ field @ '' filter is invalid'') False None)
      else Inr value)"

definition optional_identifier :: "string option \<Rightarrow> string \<Rightarrow> nat \<Rightarrow> string option result" where
  "optional_identifier value field max_bytes =
     (case value of None \<Rightarrow> Inr None | Some v \<Rightarrow> rbind (validate_identifier v field max_bytes) (\<lambda>w. Inr (Some w)))"

definition fingerprint_pattern :: "string \<Rightarrow> bool" where
  "fingerprint_pattern s \<longleftrightarrow> length s = 64 \<and> list_all is_lower_hex s"

definition optional_fingerprint :: "string option \<Rightarrow> string option result" where
  "optional_fingerprint value =
     (case value of
        None \<Rightarrow> Inr None
      | Some v \<Rightarrow>
          if fingerprint_pattern v then Inr (Some v)
          else Inl (mk_error 400 ''invalid_query_filter'' ''The fingerprint filter is invalid'' False None))"

definition reject_scope_parameters :: "web_request \<Rightarrow> unit result" where
  "reject_scope_parameters rq =
     guard (\<not> list_ex (\<lambda>k. filter (\<lambda>c. c \<noteq> CHR ''_'' \<and> c \<noteq> CHR ''-'') (py_lower k) \<in> set FORBIDDEN_SCOPE_PARAMETERS)
              (wr_params rq))
       (mk_error 400 ''scope_parameter_forbidden''
          ''Tenant, app, and environment are derived from the query credential'' False None)"

definition query_actor :: "query_principal \<Rightarrow> string" where
  "query_actor p = ''query-key:'' @ qp_key_id p"

definition audit_row ::
    "time \<Rightarrow> query_principal \<Rightarrow> string \<Rightarrow> string \<Rightarrow> string \<Rightarrow> string option \<Rightarrow> string \<Rightarrow> dict \<Rightarrow> audit_log" where
  "audit_row now p request_id action object_type object_id outcome details =
     \<lparr>al_tenant_id = Some (qp_tenant_id p), al_actor = query_actor p, al_action = action,
      al_object_type = object_type, al_object_id = object_id, al_result = outcome,
      al_request_id = Some request_id,
      al_details_json = JObj ([(''app_id'', jstr (qp_app_id p)), (''environment'', jstr (qp_environment p))] @ details),
      al_created_at = now\<rparr>"

subsection \<open>Handlers\<close>

record query_tables =
  qt_inbox :: "inbox_event list"
  qt_jobs :: "symbolization_job list"
  qt_decisions :: "release_decision list"
  qt_audit :: "audit_log list"
  qt_keys :: "query_key list"
  qt_tenants :: "tenant list"

text \<open>
  What a request runs in: the runtime, the clocks and verifier of authentication, the deployment's
  settings, and whether the statements end within their budget.
\<close>

record query_env =
  qe_runtime :: runtime
  qe_auth :: auth_env
  qe_settings :: query_settings
  qe_timely :: bool
  qe_validate :: "json \<Rightarrow> release_evidence option"

text \<open>Scope parameters are refused first, then the caller is authenticated, then the body runs.\<close>

definition with_principal ::
    "query_env \<Rightarrow> web_request \<Rightarrow> bool \<Rightarrow> auth_state \<Rightarrow> query_tables
       \<Rightarrow> (query_principal \<Rightarrow> query_tables \<times> 'a result) \<Rightarrow> auth_state \<times> query_tables \<times> 'a result" where
  "with_principal env rq unsafe s tables body =
     (case reject_scope_parameters rq of
        Inl e \<Rightarrow> (s, tables, Inl e)
      | Inr _ \<Rightarrow>
          (case authenticate_query_request (qe_runtime env) (qe_auth env) (qt_keys tables) (qt_tenants tables) rq
                  (qe_settings env) unsafe s of
             (s', Inl e) \<Rightarrow> (s', tables, Inl e)
           | (s', Inr p) \<Rightarrow> (s', body p)))"

definition late_after_ms :: "query_env \<Rightarrow> int" where
  "late_after_ms env = qs_query_late_after_seconds (qe_settings env) * 1000"

definition get_release_health ::
    "query_env \<Rightarrow> web_request \<Rightarrow> string \<Rightarrow> string \<Rightarrow> int \<Rightarrow> int \<Rightarrow> auth_state \<Rightarrow> query_tables
       \<Rightarrow> auth_state \<times> query_tables \<times> release_health_response result" where
  "get_release_health env rq new_release baseline_release from_ms to_ms s tables =
     with_principal env rq False s tables (\<lambda>p. (tables,
       rbind (validate_window from_ms to_ms (qe_settings env)) (\<lambda>_.
       rbind (validate_identifier new_release ''newRelease'' MAX_IDENTIFIER_BYTES) (\<lambda>new_release.
       rbind (validate_identifier baseline_release ''baselineRelease'' MAX_IDENTIFIER_BYTES) (\<lambda>baseline_release.
       if new_release = baseline_release
       then Inl (mk_error 400 ''invalid_release_comparison'' ''The two releases must be different'' False None)
       else rbind (load_window_facts (qe_runtime env) (qe_timely env) p from_ms to_ms (qs_query_max_rows (qe_settings env))
                     (Some [new_release, baseline_release]) None (late_after_ms env) (qt_inbox tables)) (\<lambda>facts.
         Inr (build_release_health (wr_request_id rq) p facts new_release baseline_release from_ms to_ms
                (late_after_ms env) (qs_query_min_installations (qe_settings env))
                (qs_query_min_sdk_health_coverage (qe_settings env)))))))))"

definition get_top_fingerprints ::
    "query_env \<Rightarrow> web_request \<Rightarrow> string \<Rightarrow> int \<Rightarrow> int \<Rightarrow> int \<Rightarrow> auth_state \<Rightarrow> query_tables
       \<Rightarrow> auth_state \<times> query_tables \<times> fingerprint_response result" where
  "get_top_fingerprints env rq release_version from_ms to_ms limit s tables =
     with_principal env rq False s tables (\<lambda>p. (tables,
       rbind (validate_window from_ms to_ms (qe_settings env)) (\<lambda>_.
       rbind (validate_identifier release_version ''releaseVersion'' MAX_IDENTIFIER_BYTES) (\<lambda>release_version.
       rbind (validate_limit limit (qe_settings env)) (\<lambda>_.
       rbind (load_window_facts (qe_runtime env) (qe_timely env) p from_ms to_ms (qs_query_max_rows (qe_settings env))
                (Some [release_version]) None (late_after_ms env) (qt_inbox tables)) (\<lambda>facts.
         Inr (build_top_fingerprints (wr_request_id rq) p facts release_version from_ms to_ms (nat limit))))))))"

definition get_issue_detail ::
    "query_env \<Rightarrow> web_request \<Rightarrow> string \<Rightarrow> int \<Rightarrow> int \<Rightarrow> auth_state \<Rightarrow> query_tables
       \<Rightarrow> auth_state \<times> query_tables \<times> issue_detail_response result" where
  "get_issue_detail env rq fingerprint from_ms to_ms s tables =
     with_principal env rq False s tables (\<lambda>p. (tables,
       rbind (validate_window from_ms to_ms (qe_settings env)) (\<lambda>_.
       rbind (optional_fingerprint (Some fingerprint)) (\<lambda>validated.
       case validated of
         None \<Rightarrow> Inl (mk_error 400 ''invalid_query_filter'' ''The fingerprint filter is invalid'' False None)
       | Some v \<Rightarrow>
           rbind (resolve_issue_fingerprint (qe_timely env) p v from_ms to_ms (qt_inbox tables)) (\<lambda>current.
           rbind (load_window_facts (qe_runtime env) (qe_timely env) p from_ms to_ms (qs_query_max_rows (qe_settings env))
                    None (Some current) (late_after_ms env) (qt_inbox tables)) (\<lambda>facts.
             Inr (build_issue_detail (wr_request_id rq) p facts current from_ms to_ms)))))))"

definition get_data_quality ::
    "query_env \<Rightarrow> web_request \<Rightarrow> int \<Rightarrow> int \<Rightarrow> string option \<Rightarrow> auth_state \<Rightarrow> query_tables
       \<Rightarrow> auth_state \<times> query_tables \<times> data_quality_response result" where
  "get_data_quality env rq from_ms to_ms release_version s tables =
     with_principal env rq False s tables (\<lambda>p. (tables,
       rbind (validate_window from_ms to_ms (qe_settings env)) (\<lambda>_.
       rbind (optional_identifier release_version ''releaseVersion'' MAX_IDENTIFIER_BYTES) (\<lambda>release_version.
       rbind (load_window_facts (qe_runtime env) (qe_timely env) p from_ms to_ms (qs_query_max_rows (qe_settings env))
                (map_option (\<lambda>v. [v]) release_version) None (late_after_ms env) (qt_inbox tables)) (\<lambda>facts.
         Inr (build_data_quality (wr_request_id rq) p facts release_version from_ms to_ms (late_after_ms env)))))))"

record events_query =
  eq_from_ms :: int
  eq_to_ms :: int
  eq_filter :: event_filter
  eq_cursor :: "string option"
  eq_limit :: int

definition resolve_filter ::
    "query_env \<Rightarrow> query_principal \<Rightarrow> events_query \<Rightarrow> query_tables \<Rightarrow> event_filter result" where
  "resolve_filter env p q tables =
     rbind (optional_identifier (ef_release_version (eq_filter q)) ''releaseVersion'' MAX_IDENTIFIER_BYTES) (\<lambda>release_version.
     rbind (optional_identifier (ef_module (eq_filter q)) ''module'' 256) (\<lambda>module'.
     rbind (optional_identifier (ef_name (eq_filter q)) ''name'' 256) (\<lambda>name.
     rbind (optional_fingerprint (ef_fingerprint (eq_filter q))) (\<lambda>fingerprint.
     rbind (case fingerprint of
              None \<Rightarrow> Inr None
            | Some v \<Rightarrow> rbind (resolve_issue_fingerprint (qe_timely env) p v (eq_from_ms q) (eq_to_ms q) (qt_inbox tables))
                          (\<lambda>current. Inr (Some current))) (\<lambda>fingerprint.
       Inr \<lparr>ef_release_version = release_version, ef_module = module', ef_name = name,
            ef_fingerprint = fingerprint\<rparr>)))))"

definition filter_hash_of :: "query_env \<Rightarrow> query_principal \<Rightarrow> events_query \<Rightarrow> event_filter \<Rightarrow> string" where
  "filter_hash_of env p q f =
     cursor_filter_hash (qe_runtime env) p (eq_from_ms q) (eq_to_ms q) (ef_release_version f) (ef_module f) (ef_name f)
       (ef_fingerprint f)"

definition events_page ::
    "query_env \<Rightarrow> web_request \<Rightarrow> query_principal \<Rightarrow> events_query \<Rightarrow> event_filter
       \<Rightarrow> query_tables \<Rightarrow> (inbox_event list \<times> string option) result" where
  "events_page env rq p q f tables =
     (let filter_hash = filter_hash_of env p q f; key = qs_query_cursor_hmac_key_b64 (qe_settings env)
      in rbind (case eq_cursor q of
                  None \<Rightarrow> Inr None
                | Some c \<Rightarrow>
                    if c = [] then Inr None
                    else rbind (decode_cursor (qe_runtime env) c filter_hash key) (\<lambda>position. Inr (Some position))) (\<lambda>cursor.
         rbind (list_scoped_events (qe_runtime env) (qe_timely env) p (eq_from_ms q) (eq_to_ms q) (nat (eq_limit q)) f cursor
                  (qt_inbox tables)) (\<lambda>(events, has_more).
           if has_more \<and> events \<noteq> [] then
             rbind (encode_cursor (qe_runtime env) (ie_occurrence_timestamp_ms (last events)) (ie_id (last events))
                      filter_hash key) (\<lambda>c. Inr (events, Some c))
           else Inr (events, None))))"

definition get_events ::
    "query_env \<Rightarrow> web_request \<Rightarrow> events_query \<Rightarrow> auth_state \<Rightarrow> query_tables
       \<Rightarrow> auth_state \<times> query_tables \<times> event_page_response result" where
  "get_events env rq q s tables =
     with_principal env rq False s tables (\<lambda>p.
       case rbind (require_investigator p) (\<lambda>_.
            rbind (validate_window (eq_from_ms q) (eq_to_ms q) (qe_settings env)) (\<lambda>_.
            rbind (validate_limit (eq_limit q) (qe_settings env)) (\<lambda>_.
            rbind (resolve_filter env p q tables) (\<lambda>f.
            rbind (events_page env rq p q f tables) (\<lambda>page. Inr (f, page)))))) of
         Inl e \<Rightarrow> (tables, Inl e)
       | Inr (f, events, next_cursor) \<Rightarrow>
           (tables\<lparr>qt_audit := qt_audit tables @
              [audit_row (ae_now (qe_auth env)) p (wr_request_id rq) ''query.events.list'' ''event_page'' None ''success''
                 [(''from_ms'', jint (eq_from_ms q)), (''to_ms'', jint (eq_to_ms q)),
                  (''release_version'', jopt (ef_release_version f)), (''module'', jopt (ef_module f)),
                  (''name'', jopt (ef_name f)), (''fingerprint'', jopt (ef_fingerprint f)),
                  (''returned_count'', jint (int (length events)))]]\<rparr>,
            Inr \<lparr>ep_request_id = wr_request_id rq, ep_scope = scope_for p,
                 ep_window = \<lparr>qw_from_ms = eq_from_ms q, qw_to_ms = eq_to_ms q\<rparr>,
                 ep_items = map (event_summary_of (qt_jobs tables)) events, ep_next_cursor = next_cursor\<rparr>))"

definition event_not_found :: exn where
  "event_not_found = mk_error 404 ''event_not_found'' ''The event was not found'' False None"

definition raw_evidence_expired :: exn where
  "raw_evidence_expired =
     mk_error 410 ''raw_evidence_expired'' ''Raw evidence expired under the retention policy'' False None"

definition raw_event_of ::
    "query_env \<Rightarrow> web_request \<Rightarrow> string \<Rightarrow> raw_access_request \<Rightarrow> query_tables \<Rightarrow> query_principal
       \<Rightarrow> query_tables \<times> raw_event_response result" where
  "raw_event_of env rq event_id access tables p =
     (case rbind (require_investigator p) (\<lambda>_.
            rbind (validate_identifier event_id ''eventId'' 128) (\<lambda>event_id.
              if ra_purpose_code access \<notin> set QUERY_RAW_PURPOSES
              then Inl (mk_error 400 ''invalid_purpose_code'' ''The raw-access purpose code is invalid'' False None)
              else Inr event_id)) of
         Inl e \<Rightarrow> (tables, Inl e)
       | Inr event_id \<Rightarrow>
           let event = get_scoped_event p event_id (qt_inbox tables);
               outcome = (case event of None \<Rightarrow> ''not_found''
                          | Some e \<Rightarrow> if ie_raw_pruned_at e \<noteq> None then ''expired'' else ''success'');
               tables' = tables\<lparr>qt_audit := qt_audit tables @
                 [audit_row (ae_now (qe_auth env)) p (wr_request_id rq) ''query.event.raw.read'' ''inbox_event'' (Some event_id)
                    outcome [(''purpose_code'', jstr (ra_purpose_code access)), (''reason'', jstr (ra_reason access))]]\<rparr>
           in (tables',
               case event of
                 None \<Rightarrow> Inl event_not_found
               | Some e \<Rightarrow>
                   if ie_raw_pruned_at e \<noteq> None then Inl raw_evidence_expired
                   else Inr \<lparr>re_request_id = wr_request_id rq, re_scope = scope_for p,
                             re_event = event_summary_of (qt_jobs tables) e, re_raw_payload = ie_payload_json e,
                             re_symbolized_result = Option.bind (symbol_job (qt_jobs tables) e) sj_result_json\<rparr>))"

definition get_raw_event ::
    "query_env \<Rightarrow> web_request \<Rightarrow> string \<Rightarrow> raw_access_request \<Rightarrow> auth_state \<Rightarrow> query_tables
       \<Rightarrow> auth_state \<times> query_tables \<times> raw_event_response result" where
  "get_raw_event env rq event_id access s tables =
     with_principal env rq True s tables (raw_event_of env rq event_id access tables)"

definition get_event_metadata ::
    "query_env \<Rightarrow> web_request \<Rightarrow> string \<Rightarrow> auth_state \<Rightarrow> query_tables
       \<Rightarrow> auth_state \<times> query_tables \<times> event_metadata_response result" where
  "get_event_metadata env rq event_id s tables =
     with_principal env rq False s tables (\<lambda>p.
       case rbind (require_investigator p) (\<lambda>_. validate_identifier event_id ''eventId'' 128) of
         Inl e \<Rightarrow> (tables, Inl e)
       | Inr event_id \<Rightarrow>
           let event = get_scoped_event p event_id (qt_inbox tables);
               tables' = tables\<lparr>qt_audit := qt_audit tables @
                 [audit_row (ae_now (qe_auth env)) p (wr_request_id rq) ''query.event.metadata.read'' ''inbox_event''
                    (Some event_id) (if event \<noteq> None then ''success'' else ''not_found'') []]\<rparr>
           in (tables',
               case event of
                 None \<Rightarrow> Inl event_not_found
               | Some e \<Rightarrow>
                   Inr \<lparr>em_raw_available = (ie_raw_pruned_at e = None), em_request_id = wr_request_id rq,
                        em_scope = scope_for p, em_event = event_summary_of (qt_jobs tables) e,
                        em_schema_version = ie_schema_version e, em_protocol = ie_protocol e,
                        em_normalization_version = ie_normalization_version e, em_field_states = field_states e\<rparr>))"

definition new_decision ::
    "query_env \<Rightarrow> query_principal \<Rightarrow> release_decision_request \<Rightarrow> release_decision list \<Rightarrow> release_decision" where
  "new_decision env p d tbl =
     \<lparr>rd_id = next_id rd_id tbl, rd_tenant_id = qp_tenant_id p, rd_app_id = qp_app_id p,
      rd_environment = qp_environment p, rd_release_version = dr_release_version d, rd_decision = dr_decision d,
      rd_actor = query_actor p, rd_evidence_from_ms = dr_evidence_from_ms d, rd_evidence_to_ms = dr_evidence_to_ms d,
      rd_reason = dr_reason d, rd_evidence_json = evidence_json (dr_evidence d), rd_created_at = ae_now (qe_auth env)\<rparr>"

definition record_decision ::
    "query_env \<Rightarrow> web_request \<Rightarrow> release_decision_request \<Rightarrow> query_tables \<Rightarrow> query_principal
       \<Rightarrow> query_tables \<times> release_decision_response result" where
  "record_decision env rq d tables p =
     (case rbind (require_investigator p) (\<lambda>_.
            if dr_decision d \<notin> set QUERY_RELEASE_DECISIONS
            then Inl (mk_error 400 ''invalid_release_decision'' ''The release decision is invalid'' False None)
            else rbind (validate_window (dr_evidence_from_ms d) (dr_evidence_to_ms d) (qe_settings env)) (\<lambda>_.
              validate_identifier (dr_release_version d) ''releaseVersion'' MAX_IDENTIFIER_BYTES)) of
         Inl e \<Rightarrow> (tables, Inl e)
       | Inr release_version \<Rightarrow>
           let stored = new_decision env p d (qt_decisions tables);
               tables' = tables\<lparr>qt_decisions := qt_decisions tables @ [stored],
                 qt_audit := qt_audit tables @
                   [audit_row (ae_now (qe_auth env)) p (wr_request_id rq) ''release_decision.record'' ''release_decision''
                      (Some (int_str (rd_id stored))) ''success''
                      [(''release_version'', jstr release_version), (''decision'', jstr (dr_decision d)),
                       (''evidence_from_ms'', jint (dr_evidence_from_ms d)), (''evidence_to_ms'', jint (dr_evidence_to_ms d))]]\<rparr>
           in (tables', decision_response (qe_validate env) stored))"

definition create_release_decision ::
    "query_env \<Rightarrow> web_request \<Rightarrow> release_decision_request \<Rightarrow> auth_state \<Rightarrow> query_tables
       \<Rightarrow> auth_state \<times> query_tables \<times> release_decision_response result" where
  "create_release_decision env rq d s tables =
     with_principal env rq True s tables (record_decision env rq d tables)"

definition get_release_decisions ::
    "query_env \<Rightarrow> web_request \<Rightarrow> string option \<Rightarrow> int \<Rightarrow> auth_state \<Rightarrow> query_tables
       \<Rightarrow> auth_state \<times> query_tables \<times> release_decision_list_response result" where
  "get_release_decisions env rq release_version limit s tables =
     with_principal env rq False s tables (\<lambda>p. (tables,
       rbind (require_investigator p) (\<lambda>_.
       rbind (optional_identifier release_version ''releaseVersion'' MAX_IDENTIFIER_BYTES) (\<lambda>release_version.
       rbind (validate_limit limit (qe_settings env)) (\<lambda>_.
       rbind (rmap (decision_response (qe_validate env))
                (list_release_decisions p release_version (nat limit) (qt_decisions tables))) (\<lambda>items.
         Inr \<lparr>dl_request_id = wr_request_id rq, dl_scope = scope_for p, dl_items = items\<rparr>))))))"

end
