(* ===== verification/Apm_Query_Access.thy ===== *)
theory Apm_Query_Access
  imports Apm_Query_Api
begin

section \<open>What the query endpoints guarantee\<close>

text \<open>
  Properties of the handlers of \<^verbatim>\<open>api/query.py\<close>: raw evidence leaves only with a committed audit row,
  the query plane changes nothing but audit rows and release decisions, opaque cursors enumerate a
  query exactly, and a recorded decision is the first one listed.
\<close>

lemma with_principalE:
  assumes "with_principal env rq unsafe s tables body = (s', tables', res)"
  obtains e where "tables' = tables" "res = Inl e"
  | p where "authenticate_query_request (qe_runtime env) (qe_auth env) (qt_keys tables) (qt_tenants tables) rq
        (qe_settings env) unsafe s = (s', Inr p)" "body p = (tables', res)"
  using assms by (auto simp: with_principal_def split: sum.splits prod.splits)

subsection \<open>Read only\<close>

definition only_appends :: "query_tables \<Rightarrow> query_tables \<Rightarrow> bool" where
  "only_appends t t' \<longleftrightarrow>
     qt_inbox t' = qt_inbox t \<and> qt_jobs t' = qt_jobs t \<and> qt_keys t' = qt_keys t \<and> qt_tenants t' = qt_tenants t \<and>
     take (length (qt_decisions t)) (qt_decisions t') = qt_decisions t \<and>
     take (length (qt_audit t)) (qt_audit t') = qt_audit t"

lemma with_principal_appends:
  assumes "\<And>p. only_appends tables (fst (body p))"
  shows "only_appends tables (fst (snd (with_principal env rq unsafe s tables body)))"
proof -
  obtain s' tables' res where w: "with_principal env rq unsafe s tables body = (s', tables', res)"
    by (metis prod_cases3)
  have same: "only_appends tables tables" by (simp add: only_appends_def)
  show ?thesis
    unfolding w fst_conv snd_conv by (rule with_principalE [OF w]) (use assms same in \<open>metis fst_conv\<close>)+
qed

lemmas handler_defs = get_release_health_def get_top_fingerprints_def get_issue_detail_def get_data_quality_def
  get_events_def get_raw_event_def raw_event_of_def get_event_metadata_def create_release_decision_def record_decision_def get_release_decisions_def

text \<open>
  The query plane never touches what it reads: whatever the request and its outcome, every endpoint
  leaves the inbox, the symbolization jobs, the keys and the tenants exactly as they were, and can only
  append audit rows and release decisions; no recorded row is changed or removed.
\<close>

theorem query_plane_only_appends:
  "only_appends tables (fst (snd (get_release_health env rq new_rel base_rel a b s tables))) \<and>
   only_appends tables (fst (snd (get_top_fingerprints env rq rel a b limit s tables))) \<and>
   only_appends tables (fst (snd (get_issue_detail env rq fp a b s tables))) \<and>
   only_appends tables (fst (snd (get_data_quality env rq a b relo s tables))) \<and>
   only_appends tables (fst (snd (get_events env rq q s tables))) \<and>
   only_appends tables (fst (snd (get_raw_event env rq eid access s tables))) \<and>
   only_appends tables (fst (snd (get_event_metadata env rq eid s tables))) \<and>
   only_appends tables (fst (snd (create_release_decision env rq d s tables))) \<and>
   only_appends tables (fst (snd (get_release_decisions env rq relo limit s tables)))"
  unfolding handler_defs
  by (intro conjI with_principal_appends) (simp_all add: only_appends_def Let_def split: sum.splits prod.splits)

subsection \<open>Raw evidence\<close>

definition raw_audit :: "query_env \<Rightarrow> query_principal \<Rightarrow> web_request \<Rightarrow> string \<Rightarrow> string \<Rightarrow> raw_access_request \<Rightarrow> audit_log" where
  "raw_audit env p rq event_id outcome access =
     audit_row (ae_now (qe_auth env)) p (wr_request_id rq) ''query.event.raw.read'' ''inbox_event'' (Some event_id) outcome
       [(''purpose_code'', jstr (ra_purpose_code access)), (''reason'', jstr (ra_reason access))]"

lemma get_scoped_eventD:
  "get_scoped_event p eid tbl = Some e \<Longrightarrow> e \<in> set tbl \<and> in_scope p e \<and> ie_event_id e = eid"
  by (auto simp: get_scoped_event_def find_Some_iff)

text \<open>
  C9. No raw evidence without an audit record: the payload of an event is returned only to an
  authenticated investigator for an allowed purpose, the event lies in the caller's scope and has not
  been pruned, and the audit log then holds a row naming caller, event, purpose and reason. An
  investigator who asks for a missing or expired event is recorded too, with that outcome; every other
  refusal leaves all tables as they were.
\<close>

theorem raw_evidence_is_audited:
  assumes "get_raw_event env rq eid access s tables = (s', tables', res)"
  shows "(\<forall>resp. res = Inr resp \<longrightarrow>
      (\<exists>p e. authenticate_query_request (qe_runtime env) (qe_auth env) (qt_keys tables) (qt_tenants tables) rq
           (qe_settings env) True s = (s', Inr p) \<and> qp_role p = QUERY_ROLE_INVESTIGATOR \<and>
         ra_purpose_code access \<in> set QUERY_RAW_PURPOSES \<and> e \<in> set (qt_inbox tables) \<and> in_scope p e \<and>
         ie_event_id e = eid \<and> ie_raw_pruned_at e = None \<and> re_raw_payload resp = ie_payload_json e \<and>
         tables' = tables\<lparr>qt_audit := qt_audit tables @ [raw_audit env p rq eid ''success'' access]\<rparr>)) \<and>
    (\<forall>err. res = Inl err \<longrightarrow> tables' = tables \<or>
      (\<exists>p outcome. qp_role p = QUERY_ROLE_INVESTIGATOR \<and>
         (err = event_not_found \<and> outcome = ''not_found'' \<or> err = raw_evidence_expired \<and> outcome = ''expired'') \<and>
         tables' = tables\<lparr>qt_audit := qt_audit tables @ [raw_audit env p rq eid outcome access]\<rparr>))"
  using assms unfolding get_raw_event_def
proof (rule with_principalE)
  fix p
  assume auth: "authenticate_query_request (qe_runtime env) (qe_auth env) (qt_keys tables) (qt_tenants tables) rq
      (qe_settings env) True s = (s', Inr p)"
    and body: "raw_event_of env rq eid access tables p = (tables', res)"
  show ?thesis
  proof (cases "qp_role p = QUERY_ROLE_INVESTIGATOR \<and> validate_identifier eid ''eventId'' 128 = Inr eid \<and>
      ra_purpose_code access \<in> set QUERY_RAW_PURPOSES")
    case False
    then have "tables' = tables" "\<exists>e. res = Inl e"
      using body by (auto simp: raw_event_of_def require_investigator_def guard_def validate_identifier_def split: if_splits)
    then show ?thesis by blast
  next
    case True
    then have check: "require_investigator p = Inr ()" by (simp add: require_investigator_def)
    show ?thesis
    proof (cases "get_scoped_event p eid (qt_inbox tables)")
      case None
      then show ?thesis using body True by (auto simp: raw_event_of_def check Let_def raw_audit_def)
    next
      case (Some e)
      then show ?thesis
        using body True auth get_scoped_eventD [OF Some]
        by (cases "ie_raw_pruned_at e") (auto simp: raw_event_of_def check Let_def raw_audit_def)
    qed
  qed
qed auto


subsection \<open>Following cursors\<close>

text \<open>A client that asks for the page of the cursor it was given, until there is none.\<close>

fun follow_cursors ::
    "(string option \<Rightarrow> (inbox_event list \<times> string option) result) \<Rightarrow> nat \<Rightarrow> string option \<Rightarrow> inbox_event list option" where
  "follow_cursors page 0 cursor = None"
| "follow_cursors page (Suc n) cursor =
     (case page cursor of
        Inl _ \<Rightarrow> None
      | Inr (events, next_cursor) \<Rightarrow>
          (case next_cursor of
             None \<Rightarrow> Some events
           | Some c \<Rightarrow> map_option ((@) events) (follow_cursors page n (Some c))))"

definition cursor_of :: "runtime \<Rightarrow> string \<Rightarrow> string \<Rightarrow> int \<times> int \<Rightarrow> string" where
  "cursor_of rt key filter_hash position =
     seal rt key (canonical_json rt (cursor_payload (fst position) (snd position) filter_hash))"

text \<open>The laws of the libraries and of the deployment that paging relies on.\<close>

definition paging_laws :: "query_env \<Rightarrow> string \<Rightarrow> string \<Rightarrow> inbox_event list \<Rightarrow> bool" where
  "paging_laws env key filter_hash tbl \<longleftrightarrow>
     qe_timely env \<and> cursor_key (qe_runtime env) (qs_query_cursor_hmac_key_b64 (qe_settings env)) = Inr key \<and>
     list_all is_ascii filter_hash \<and>
     list_all (\<lambda>r. ie_id r > 0 \<and>
       json_round_trip (qe_runtime env) (cursor_payload (ie_occurrence_timestamp_ms r) (ie_id r) filter_hash)) tbl"

lemma seal_nonempty: "seal rt key payload \<noteq> []"
  by (simp add: seal_def)

lemma page_of_cursor:
  assumes laws: "paging_laws env key (filter_hash_of env p q f) (qt_inbox tables)"
    and "eq_from_ms q > 0" and "eq_limit q > 0"
    and cur: "cursor = None \<and> position = None \<or>
         (\<exists>r \<in> set (qt_inbox tables). ie_occurrence_timestamp_ms r > 0 \<and> position = Some (row_cursor r) \<and>
            cursor = Some (cursor_of (qe_runtime env) key (filter_hash_of env p q f) (row_cursor r)))"
    and page: "list_scoped_events (qe_runtime env) True p (eq_from_ms q) (eq_to_ms q) (nat (eq_limit q)) f position (qt_inbox tables) =
      Inr (events, has_more)"
  shows "events_page env rq p (q\<lparr>eq_cursor := cursor\<rparr>) f tables =
    Inr (events, if has_more then Some (cursor_of (qe_runtime env) key (filter_hash_of env p q f) (row_cursor (last events))) else None) \<and>
    (has_more \<longrightarrow> last events \<in> set (qt_inbox tables) \<and> ie_occurrence_timestamp_ms (last events) > 0)"
proof -
  let ?rt = "qe_runtime env" and ?h = "filter_hash_of env p q f" and ?kb = "qs_query_cursor_hmac_key_b64 (qe_settings env)"
  have hash: "filter_hash_of env p (q\<lparr>eq_cursor := c\<rparr>) f = ?h" for c
    by (simp add: filter_hash_of_def)
  have key: "cursor_key ?rt ?kb = Inr key" and timely: "qe_timely env" and ascii: "list_all is_ascii ?h"
    using laws by (auto simp: paging_laws_def)
  have decode: "(case cursor of None \<Rightarrow> Inr None
      | Some c \<Rightarrow> if c = [] then Inr None else rbind (decode_cursor ?rt c ?h ?kb) (\<lambda>position. Inr (Some position))) = Inr position"
  proof (cases cursor)
    case None
    then show ?thesis using cur by auto
  next
    case (Some c)
    then obtain r where r: "r \<in> set (qt_inbox tables)" "ie_occurrence_timestamp_ms r > 0" "position = Some (row_cursor r)"
        "c = cursor_of ?rt key ?h (row_cursor r)"
      using cur by auto
    then have "json_round_trip ?rt (cursor_payload (ie_occurrence_timestamp_ms r) (ie_id r) ?h)" "ie_id r > 0"
      using laws by (auto simp: paging_laws_def list_all_iff)
    then have "decode_cursor ?rt c ?h ?kb = Inr (row_cursor r)"
      using decode_cursor_encoded [OF _ key r(2) _ ascii, of "ie_id r" ?h] by (simp add: r(4) cursor_of_def row_cursor_def)
    then show ?thesis using Some r(3,4) seal_nonempty by (simp add: cursor_of_def)
  qed
  have ev: "set events \<subseteq> set (qt_inbox tables) \<and> (\<forall>e \<in> set events. eq_from_ms q \<le> ie_occurrence_timestamp_ms e)"
    and ne: "has_more \<longrightarrow> events \<noteq> []"
    using page assms(3) by (auto simp: page_of_matching matching_events_def Let_def scope_window_predicates_def dest!: in_set_takeD)
  have last: "has_more \<longrightarrow> last events \<in> set (qt_inbox tables) \<and> ie_occurrence_timestamp_ms (last events) > 0"
    using ev ne assms(2) last_in_set by fastforce
  have enc: "encode_cursor ?rt (ie_occurrence_timestamp_ms (last events)) (ie_id (last events)) ?h ?kb =
      Inr (cursor_of ?rt key ?h (row_cursor (last events)))"
    by (simp add: encode_cursor_def key cursor_of_def row_cursor_def)
  have "events_page env rq p (q\<lparr>eq_cursor := cursor\<rparr>) f tables =
      Inr (events, if has_more then Some (cursor_of ?rt key ?h (row_cursor (last events))) else None)"
    using decode page ne enc timely by (simp add: events_page_def Let_def hash)
  then show ?thesis using last by blast
qed

lemma follow_cursors_pages:
  assumes "paging_laws env key (filter_hash_of env p q f) (qt_inbox tables)"
    and "eq_from_ms q > 0" and "eq_limit q > 0"
    and "cursor = None \<and> position = None \<or>
         (\<exists>r \<in> set (qt_inbox tables). ie_occurrence_timestamp_ms r > 0 \<and> position = Some (row_cursor r) \<and>
            cursor = Some (cursor_of (qe_runtime env) key (filter_hash_of env p q f) (row_cursor r)))"
  shows "follow_cursors (\<lambda>c. events_page env rq p (q\<lparr>eq_cursor := c\<rparr>) f tables) n cursor =
    follow_pages (\<lambda>c. list_scoped_events (qe_runtime env) True p (eq_from_ms q) (eq_to_ms q) (nat (eq_limit q)) f c (qt_inbox tables)) n position"
  using assms(4)
proof (induction n arbitrary: cursor position)
  case (Suc n)
  obtain events has_more where page: "list_scoped_events (qe_runtime env) True p (eq_from_ms q) (eq_to_ms q) (nat (eq_limit q)) f
      position (qt_inbox tables) = Inr (events, has_more)"
    by (simp add: page_of_matching Let_def)
  note this_page = page_of_cursor [OF assms(1,2,3) Suc.prems page, of rq]
  show ?case
  proof (cases has_more)
    case True
    let ?c = "cursor_of (qe_runtime env) key (filter_hash_of env p q f) (row_cursor (last events))"
    have "follow_cursors (\<lambda>c. events_page env rq p (q\<lparr>eq_cursor := c\<rparr>) f tables) n (Some ?c) =
      follow_pages (\<lambda>c. list_scoped_events (qe_runtime env) True p (eq_from_ms q) (eq_to_ms q) (nat (eq_limit q)) f c
        (qt_inbox tables)) n (Some (row_cursor (last events)))"
      by (rule Suc.IH, rule disjI2) (use this_page True in blast)
    then show ?thesis using True this_page by (simp add: page)
  qed (use this_page in \<open>simp add: page\<close>)
qed simp

text \<open>
  C10. Opaque cursors enumerate a query exactly: an investigator who follows the cursors of the event
  pages from the first page receives, after at most one request per stored row, every event of the
  scope, window and filters exactly once, newest first, and then no further cursor.
\<close>

theorem cursors_enumerate_events:
  assumes "paging_laws env key (filter_hash_of env p q f) (qt_inbox tables)" "inbox_primary_key (qt_inbox tables)"
    and "eq_from_ms q > 0" "eq_limit q > 0"
  shows "follow_cursors (\<lambda>c. events_page env rq p (q\<lparr>eq_cursor := c\<rparr>) f tables) (Suc (length (qt_inbox tables))) None =
    Some (sort_key page_key (filter (\<lambda>r. scope_window_predicates p (eq_from_ms q) (eq_to_ms q) r \<and>
      filter_matches (qe_runtime env) f r) (qt_inbox tables)))"
proof -
  have "follow_cursors (\<lambda>c. events_page env rq p (q\<lparr>eq_cursor := c\<rparr>) f tables) (Suc (length (qt_inbox tables))) None =
      follow_pages (\<lambda>c. list_scoped_events (qe_runtime env) True p (eq_from_ms q) (eq_to_ms q) (nat (eq_limit q)) f c (qt_inbox tables))
        (Suc (length (qt_inbox tables))) None"
    by (rule follow_cursors_pages [OF assms(1,3,4)]) simp
  also have "\<dots> = Some (matching_events (qe_runtime env) p (eq_from_ms q) (eq_to_ms q) f (qt_inbox tables))"
    by (rule follow_from [where seen = "[]"])
       (use assms matching_strict length_matching in \<open>auto simp: after_cursor_def less_Suc_eq_le\<close>)
  finally show ?thesis by (simp only: matching_events_def)
qed

subsection \<open>Release decisions\<close>

lemma hd_sort_key_least:
  assumes "x \<in> set xs" "\<And>y. y \<in> set xs \<Longrightarrow> y \<noteq> x \<Longrightarrow> (k x :: 'b::linorder) < k y"
  shows "hd (sort_key k xs) = x"
proof (rule ccontr)
  assume ne: "hd (sort_key k xs) \<noteq> x"
  obtain h t where ht: "sort_key k xs = h # t"
    using assms(1) by (cases "sort_key k xs") (metis length_0_conv length_sort list.size(3) list.set(1) empty_iff, blast)
  then have "h \<in> set xs" "x \<in> set (h # t)"
    using assms(1) by (metis list.set_intros(1) set_sort, metis set_sort)
  then have "k x < k h" using assms(2) ne ht by auto
  moreover have "k h \<le> k x"
    using sorted_sort_key [of k xs] \<open>x \<in> set (h # t)\<close> by (auto simp: ht)
  ultimately show False by simp
qed

text \<open>
  A recorded decision is durable and visible: a successful answer means that exactly one decision row
  was appended, with a fresh identifier, in the scope and under the name of the authenticated
  investigator, together with one audit row that names it; the answer shows the evidence that was
  submitted; and as no decision is from the future, the next listing of that scope shows it first.
\<close>

theorem recorded_decision_is_listed_first:
  assumes "create_release_decision env rq d s tables = (s', tables', Inr resp)"
    and "\<And>e. qe_validate env (evidence_json e) = Some e"
    and "list_all (\<lambda>r. rd_created_at r \<le> ae_now (qe_auth env)) (qt_decisions tables)" and "limit > 0"
  shows "\<exists>p stored. authenticate_query_request (qe_runtime env) (qe_auth env) (qt_keys tables) (qt_tenants tables) rq
        (qe_settings env) True s = (s', Inr p) \<and> qp_role p = QUERY_ROLE_INVESTIGATOR \<and>
      qt_decisions tables' = qt_decisions tables @ [stored] \<and> rd_id stored \<notin> rd_id ` set (qt_decisions tables) \<and>
      rd_actor stored = query_actor p \<and> dp_id resp = rd_id stored \<and> dp_evidence resp = dr_evidence d \<and>
      dp_decision resp \<in> set QUERY_RELEASE_DECISIONS \<and>
      (\<exists>audit. qt_audit tables' = qt_audit tables @ [audit] \<and> al_object_id audit = Some (int_str (rd_id stored)) \<and>
         al_actor audit = query_actor p) \<and>
      hd (list_release_decisions p (Some (dr_release_version d)) limit (qt_decisions tables')) = stored"
  using assms(1) unfolding create_release_decision_def
proof (rule with_principalE)
  fix p
  define stored where "stored = new_decision env p d (qt_decisions tables)"
  assume auth: "authenticate_query_request (qe_runtime env) (qe_auth env) (qt_keys tables) (qt_tenants tables) rq
      (qe_settings env) True s = (s', Inr p)"
    and body: "record_decision env rq d tables p = (tables', Inr resp)"
  then have checks: "qp_role p = QUERY_ROLE_INVESTIGATOR" "dr_decision d \<in> set QUERY_RELEASE_DECISIONS"
    and resp: "decision_response (qe_validate env) stored = Inr resp"
    and rows: "qt_decisions tables' = qt_decisions tables @ [stored]"
    and audit: "\<exists>audit. qt_audit tables' = qt_audit tables @ [audit] \<and>
      al_object_id audit = Some (int_str (rd_id stored)) \<and> al_actor audit = query_actor p"
    by (auto simp: record_decision_def require_investigator_def guard_def stored_def Let_def audit_row_def
        split: sum.splits if_splits)
  have fresh: "rd_id r < rd_id stored" if "r \<in> set (qt_decisions tables)" for r
    using next_id_fresh [OF that, of rd_id] by (simp add: stored_def new_decision_def)
  have columns: "rd_tenant_id stored = qp_tenant_id p" "rd_app_id stored = qp_app_id p" "rd_environment stored = qp_environment p"
      "rd_release_version stored = dr_release_version d" "rd_created_at stored = ae_now (qe_auth env)"
      "rd_actor stored = query_actor p" "rd_evidence_json stored = evidence_json (dr_evidence d)" "rd_decision stored = dr_decision d"
    by (simp_all add: stored_def new_decision_def)
  let ?match = "filter (\<lambda>r. rd_tenant_id r = qp_tenant_id p \<and> rd_app_id r = qp_app_id p \<and> rd_environment r = qp_environment p \<and>
      (Some (dr_release_version d) \<noteq> None \<longrightarrow> Some (rd_release_version r) = Some (dr_release_version d))) (qt_decisions tables')"
  have "hd (sort_key (\<lambda>r. (- rd_created_at r, - rd_id r)) ?match) = stored"
  proof (rule hd_sort_key_least)
    fix r assume "r \<in> set ?match" "r \<noteq> stored"
    then have "r \<in> set (qt_decisions tables)" by (auto simp: rows split: if_splits)
    then show "(- rd_created_at stored, - rd_id stored) < (- rd_created_at r, - rd_id r)"
      using fresh [of r] assms(3) by (auto simp: columns list_all_iff less_prod_def)
  qed (simp add: rows columns)
  then have "hd (list_release_decisions p (Some (dr_release_version d)) limit (qt_decisions tables')) = stored"
    using assms(4) by (simp add: list_release_decisions_def hd_take)
  moreover have "dp_id resp = rd_id stored" "dp_evidence resp = dr_evidence d" "dp_decision resp = dr_decision d"
    using resp assms(2) by (auto simp: decision_response_def columns)
  moreover have "rd_id stored \<notin> rd_id ` set (qt_decisions tables)"
    using fresh by force
  ultimately show ?thesis
    using auth checks rows audit columns(6) by (intro exI [of _ p] exI [of _ stored]) simp
qed simp


subsection \<open>Samples\<close>

definition investigator_key :: query_key where
  "investigator_key = sample_query_key\<lparr>qk_role := ''investigator''\<rparr>"

definition investigator :: query_principal where
  "investigator = \<lparr>qp_tenant_id = ''t1'', qp_key_id = ''q'', qp_app_id = ''app'', qp_environment = ''prod'',
     qp_role = ''investigator'', qp_expires_at = None\<rparr>"

definition bearer_request :: web_request where
  "bearer_request = \<lparr>wr_headers = [(''authorization'', ''Bearer apmq1_q_pw'')], wr_cookies = [], wr_params = [''fromMs''],
     wr_request_id = ''r1''\<rparr>"

text \<open>The inverse of the evidence dump, and JSON loading for the cursors of two rows.\<close>

definition evidence_of :: "json \<Rightarrow> release_evidence option" where
  "evidence_of j = Some
     \<lparr>ev_release_state = text_or (Option.bind (obj_get ''releaseState'' j) str_of),
      ev_baseline_state = Option.bind (obj_get ''baselineState'' j) str_of,
      ev_java_crash_events = int_of (obj_get ''javaCrashEvents'' j), ev_anr_events = int_of (obj_get ''anrEvents'' j),
      ev_affected_installations = int_of (obj_get ''affectedInstallations'' j),
      ev_active_installations = int_of (obj_get ''activeInstallations'' j),
      ev_affected_installation_ratio =
        (case obj_get ''affectedInstallationRatio'' j of Some (JScalar (SFloat (Fin x))) \<Rightarrow> Some x | _ \<Rightarrow> None),
      ev_data_quality_state = text_or (Option.bind (obj_get ''dataQualityState'' j) str_of),
      ev_query_request_id = text_or (Option.bind (obj_get ''queryRequestId'' j) str_of)\<rparr>"

lemma str_of_jopt [simp]: "str_of (jopt x) = x"
  by (cases x) simp_all

lemma int_of_jint_option [simp]: "int_of (Some (jint_option x)) = x"
  by (cases x) (simp_all add: int_of_def)

lemma evidence_of_json: "evidence_of (evidence_json e) = Some e"
  by (cases e; cases "ev_affected_installation_ratio e") (simp_all add: evidence_of_def evidence_json_def text_or_def)

definition page_payloads :: "json list" where
  "page_payloads = [cursor_payload 1000 1 ''abc'', cursor_payload 3000 3 ''abc'']"

definition paging_runtime :: runtime where
  "paging_runtime = sample_runtime\<lparr>rt_sha256_hex := (\<lambda>_. ''abc''), rt_b64decode := Some,
     rt_json_loads := (\<lambda>s. map_option sort_keys (find (\<lambda>v. canonical_json sample_runtime v = s) page_payloads))\<rparr>"

definition paging_env :: query_env where
  "paging_env = \<lparr>qe_runtime = paging_runtime, qe_auth = sample_auth_env, qe_settings = web_settings, qe_timely = True,
     qe_validate = evidence_of\<rparr>"

definition paging_tables :: query_tables where
  "paging_tables = \<lparr>qt_inbox = [scoped_row 1, foreign_row, scoped_row 3], qt_jobs = [], qt_decisions = [], qt_audit = [],
     qt_keys = [investigator_key], qt_tenants = [sample_tenant]\<rparr>"

lemma bearer_key:
  "\<exists>s'. authenticate_query_key sample_auth_env [investigator_key] [sample_tenant] (Some ''Bearer apmq1_q_pw'') (initial_auth_state 0) =
     (s', Inr investigator)"
proof -
  have "authenticate_query_key sample_auth_env [investigator_key] [sample_tenant] (Some ''Bearer apmq1_q_pw'') (initial_auth_state 0) =
      ((initial_auth_state 0)\<lparr>as_attempts := fst (consume 1 (as_attempts (initial_auth_state 0)))\<rparr>, Inr investigator)"
    by code_simp
  then show ?thesis by blast
qed

lemma bearer_authenticated:
  "\<exists>s'. authenticate_query_request (qe_runtime paging_env) (qe_auth paging_env) (qt_keys paging_tables) (qt_tenants paging_tables)
     bearer_request (qe_settings paging_env) unsafe (initial_auth_state 0) = (s', Inr investigator)"
  using bearer_key
  by (simp add: authenticate_query_request_def web_header_def bearer_request_def paging_env_def paging_tables_def
      py_lower_def lower_char_def byte_def)

lemma investigator_scope [simp]: "in_scope investigator = in_scope sample_viewer"
  by (simp add: in_scope_def investigator_def sample_viewer_def fun_eq_iff)

lemma bearer_no_scope: "reject_scope_parameters bearer_request = Inr ()"
  by (simp add: reject_scope_parameters_def bearer_request_def FORBIDDEN_SCOPE_PARAMETERS_def py_lower_def lower_char_def byte_def)

lemma bearer_body: "\<exists>s'. with_principal paging_env bearer_request unsafe (initial_auth_state 0) paging_tables body = (s', body investigator)"
  using bearer_authenticated [of unsafe] by (auto simp: with_principal_def bearer_no_scope)

lemma valid_identifiers: "validate_identifier ''1'' ''eventId'' 128 = Inr ''1''" "validate_identifier ''2'' f 256 = Inr ''2''"
  by code_simp+

theorem raw_evidence_is_audited_witness:
  "\<exists>s' tables' resp p e. get_raw_event paging_env bearer_request ''1'' \<lparr>ra_purpose_code = ''customer_support'', ra_reason = ''ticket 4711''\<rparr>
      (initial_auth_state 0) paging_tables = (s', tables', Inr resp) \<and>
     qt_audit tables' = [raw_audit paging_env p bearer_request ''1'' ''success''
        \<lparr>ra_purpose_code = ''customer_support'', ra_reason = ''ticket 4711''\<rparr>] \<and>
     in_scope p e \<and> re_raw_payload resp = ie_payload_json e"
proof -
  let ?a = "\<lparr>ra_purpose_code = ''customer_support'', ra_reason = ''ticket 4711''\<rparr>"
  have one: "get_scoped_event investigator ''1'' (qt_inbox paging_tables) = Some (scoped_row 1)"
    "ie_raw_pruned_at (scoped_row 1) = None"
  proof -
    have "ie_event_id (scoped_row 1) = int_str 1" by (simp add: scoped_row_def sample_inbox_row_def)
    also have "int_str 1 = ''1''" by code_simp
    finally show "get_scoped_event investigator ''1'' (qt_inbox paging_tables) = Some (scoped_row 1)"
      by (simp add: get_scoped_event_def paging_tables_def)
    show "ie_raw_pruned_at (scoped_row 1) = None" by (simp add: scoped_row_def sample_inbox_row_def)
  qed
  obtain s' where "get_raw_event paging_env bearer_request ''1'' ?a (initial_auth_state 0) paging_tables =
      (s', raw_event_of paging_env bearer_request ''1'' ?a paging_tables investigator)"
    unfolding get_raw_event_def using bearer_body by metis
  moreover have "require_investigator investigator = Inr ()"
    by (simp add: require_investigator_def investigator_def consts_simps)
  ultimately obtain tables' resp where r: "get_raw_event paging_env bearer_request ''1'' ?a (initial_auth_state 0) paging_tables = (s', tables', Inr resp)"
    by (simp add: raw_event_of_def valid_identifiers one QUERY_RAW_PURPOSES_def Let_def)
  have "qt_audit paging_tables = []" by (simp add: paging_tables_def)
  then show ?thesis
    using raw_evidence_is_audited [OF r, THEN conjunct1, rule_format, OF refl] r by fastforce
qed

definition page_query :: events_query where
  "page_query = \<lparr>eq_from_ms = 1, eq_to_ms = 9000, eq_filter = no_filter, eq_cursor = None, eq_limit = 1\<rparr>"

lemma page_hash: "filter_hash_of paging_env p q f = ''abc''"
  by (simp add: filter_hash_of_def cursor_filter_hash_def paging_env_def paging_runtime_def)

lemma page_laws: "paging_laws paging_env (replicate 32 CHR ''k'') ''abc'' [scoped_row 1, scoped_row 3]"
proof -
  have json: "canonical_json paging_runtime v = canonical_json sample_runtime v" for v
    by (rule canonical_json_runtime) (simp add: paging_runtime_def)
  have ne: "canonical_json sample_runtime (cursor_payload 1000 1 ''abc'') \<noteq> canonical_json sample_runtime (cursor_payload 3000 3 ''abc'')"
    by code_simp
  then have "json_round_trip paging_runtime (cursor_payload 1000 1 ''abc'')" "json_round_trip paging_runtime (cursor_payload 3000 3 ''abc'')"
    unfolding json_round_trip_def json by (simp_all add: paging_runtime_def page_payloads_def)
  then show ?thesis
    by (simp add: paging_laws_def paging_env_def cursor_key_def signing_key_def is_ascii_def byte_def)
       (simp add: paging_runtime_def web_settings_def)
qed

theorem cursors_enumerate_events_witness:
  "follow_cursors (\<lambda>c. events_page paging_env bearer_request investigator (page_query\<lparr>eq_cursor := c\<rparr>) no_filter
       (paging_tables\<lparr>qt_inbox := [scoped_row 1, scoped_row 3]\<rparr>)) 3 None = Some [scoped_row 3, scoped_row 1]"
proof -
  let ?t = "paging_tables\<lparr>qt_inbox := [scoped_row 1, scoped_row 3]\<rparr>"
  have "paging_laws paging_env (replicate 32 CHR ''k'') (filter_hash_of paging_env investigator page_query no_filter) (qt_inbox ?t)"
    using page_laws by (simp add: page_hash)
  moreover have "inbox_primary_key (qt_inbox ?t)" by (simp add: inbox_primary_key_def)
  moreover have "eq_from_ms page_query > 0" "eq_limit page_query > 0" by (simp_all add: page_query_def)
  ultimately have "follow_cursors (\<lambda>c. events_page paging_env bearer_request investigator (page_query\<lparr>eq_cursor := c\<rparr>) no_filter ?t)
      (Suc (length (qt_inbox ?t))) None =
      Some (sort_key page_key (filter (\<lambda>r. scope_window_predicates investigator (eq_from_ms page_query) (eq_to_ms page_query) r \<and>
        filter_matches (qe_runtime paging_env) no_filter r) (qt_inbox ?t)))"
    by (rule cursors_enumerate_events)
  moreover have "scope_window_predicates investigator 1 9000 (scoped_row i) \<longleftrightarrow> 1 \<le> i * 1000 \<and> i * 1000 < 9000" for i
    by (simp add: scope_window_predicates_def)
  ultimately show ?thesis
    by (simp add: page_query_def page_key_def eval_nat_numeral del: follow_cursors.simps)
qed

definition sample_evidence :: release_evidence where
  "sample_evidence = \<lparr>ev_release_state = ''PRESENT'', ev_baseline_state = None, ev_java_crash_events = Some 1, ev_anr_events = Some 0,
     ev_affected_installations = None, ev_active_installations = None, ev_affected_installation_ratio = None,
     ev_data_quality_state = ''PRESENT'', ev_query_request_id = ''r1''\<rparr>"

definition sample_decision :: release_decision_request where
  "sample_decision = \<lparr>dr_release_version = ''2'', dr_decision = ''pause'', dr_evidence_from_ms = 1, dr_evidence_to_ms = 9000,
     dr_reason = ''crash rate rose'', dr_evidence = sample_evidence\<rparr>"

theorem recorded_decision_is_listed_first_witness:
  "\<exists>s' tables' resp p. create_release_decision paging_env bearer_request sample_decision (initial_auth_state 0) paging_tables =
      (s', tables', Inr resp) \<and> dp_evidence resp = sample_evidence \<and>
      rd_id (hd (list_release_decisions p (Some ''2'') 5 (qt_decisions tables'))) = dp_id resp"
proof -
  obtain s' where "create_release_decision paging_env bearer_request sample_decision (initial_auth_state 0) paging_tables =
      (s', record_decision paging_env bearer_request sample_decision paging_tables investigator)"
    unfolding create_release_decision_def using bearer_body by metis
  moreover have "require_investigator investigator = Inr ()"
    by (simp add: require_investigator_def investigator_def consts_simps)
  moreover have "validate_window 1 9000 (qe_settings paging_env) = Inr ()"
    by (simp add: validate_window_def paging_env_def web_settings_def consts_simps)
  moreover have "\<exists>resp. decision_response (qe_validate paging_env) (new_decision paging_env investigator sample_decision tbl) = Inr resp" for tbl
    by (simp add: decision_response_def paging_env_def new_decision_def evidence_of_json)
  ultimately obtain tables' resp where r: "create_release_decision paging_env bearer_request sample_decision (initial_auth_state 0) paging_tables =
      (s', tables', Inr resp)"
    by (auto simp: record_decision_def sample_decision_def QUERY_RELEASE_DECISIONS_def valid_identifiers consts_simps Let_def)
  have "\<And>e. qe_validate paging_env (evidence_json e) = Some e" by (simp add: paging_env_def evidence_of_json)
  moreover have "list_all (\<lambda>r. rd_created_at r \<le> ae_now (qe_auth paging_env)) (qt_decisions paging_tables)"
    by (simp add: paging_tables_def)
  ultimately show ?thesis
    using recorded_decision_is_listed_first [OF r, of 5] r by (auto simp: sample_decision_def)
qed

end
