(* ===== verification/Apm_Remote_Config.thy ===== *)
theory Apm_Remote_Config
  imports Apm_Ingest_Api
begin

section \<open>Remote configuration\<close>

text \<open>
  \<^verbatim>\<open>remote_config.py\<close> and \<^verbatim>\<open>api/remote_config.py\<close>: signed configuration revisions and their delivery to
  the installations of a rollout. Ed25519, Base64, the ISO rendering of a UTC time and the clock are
  fields of \<open>config_env\<close>. The administration command that publishes revisions is in \<open>Apm_Admin\<close>.
\<close>

record config_env =
  ce_runtime :: runtime
  ce_isoformat :: "time \<Rightarrow> string"
  ce_b64encode :: "string \<Rightarrow> string"
  ce_b64decode :: "string \<Rightarrow> string option"
  ce_sign :: "string \<Rightarrow> string \<Rightarrow> string"
  ce_verify :: "string \<Rightarrow> string \<Rightarrow> string \<Rightarrow> bool"
  ce_now :: time

subsection \<open>Signed envelopes\<close>

definition ROLLOUT_DENOMINATOR :: int where [consts_simps]: "ROLLOUT_DENOMINATOR = 10000"

record signed_config =
  sg_revision :: int
  sg_issued_at :: time
  sg_expires_at :: time
  sg_rollout_basis_points :: int
  sg_payload :: json
  sg_key_id :: string
  sg_signature_b64 :: string

text \<open>\<open>str.replace\<close> with a non-empty first argument.\<close>

fun py_replace :: "string \<Rightarrow> string \<Rightarrow> string \<Rightarrow> string" where
  "py_replace old new [] = []"
| "py_replace old new (c # s) =
     (if starts_with old (c # s) then new @ py_replace old new (drop (length old - 1) s)
      else c # py_replace old new s)"

definition utc_text :: "config_env \<Rightarrow> time \<Rightarrow> string" where
  "utc_text env t = py_replace ''+00:00'' ''Z'' (ce_isoformat env t)"

definition unsigned_envelope ::
    "config_env \<Rightarrow> int \<Rightarrow> time \<Rightarrow> time \<Rightarrow> int \<Rightarrow> json \<Rightarrow> string \<Rightarrow> dict" where
  "unsigned_envelope env revision issued_at expires_at rollout_basis_points payload key_id =
     [(''revision'', jint revision), (''issuedAt'', jstr (utc_text env issued_at)),
      (''expiresAt'', jstr (utc_text env expires_at)), (''rolloutBasisPoints'', jint rollout_basis_points),
      (''payload'', payload), (''keyId'', jstr key_id)]"

definition canonical_bytes :: "config_env \<Rightarrow> dict \<Rightarrow> string" where
  "canonical_bytes env d = canonical_json (ce_runtime env) (JObj d)"

definition envelope :: "config_env \<Rightarrow> signed_config \<Rightarrow> dict" where
  "envelope env c =
     unsigned_envelope env (sg_revision c) (sg_issued_at c) (sg_expires_at c) (sg_rollout_basis_points c) (sg_payload c)
       (sg_key_id c) @ [(''signature'', jstr (sg_signature_b64 c))]"

text \<open>
  \<open>Inl\<close> is the raised \<open>ValueError\<close>; a key that is not Base64 of 32 bytes raises one too. The payload is
  a loaded JSON document, so \<open>allow_nan=False\<close> can refuse it; \<open>finite_json\<close> is that check.
\<close>

fun finite_json :: "json \<Rightarrow> bool" where
  "finite_json (JScalar s) = (case s of SFloat f \<Rightarrow> finite_value f \<noteq> None | _ \<Rightarrow> True)"
| "finite_json (JList js) = list_all finite_json js"
| "finite_json (JObj kvs) = list_all (\<lambda>(k, v). finite_json v) kvs"

definition sign_config ::
    "config_env \<Rightarrow> string \<Rightarrow> int \<Rightarrow> time \<Rightarrow> time \<Rightarrow> int \<Rightarrow> json \<Rightarrow> string \<Rightarrow> string + signed_config" where
  "sign_config env private_key_b64 revision issued_at expires_at rollout_basis_points payload key_id =
     (if revision \<le> 0 then Inl ''revision must be positive''
      else if expires_at \<le> issued_at then Inl ''expires_at must be after issued_at''
      else if \<not> (0 \<le> rollout_basis_points \<and> rollout_basis_points \<le> ROLLOUT_DENOMINATOR)
      then Inl ''rollout_basis_points must be between 0 and 10000''
      else
        let unsigned = unsigned_envelope env revision issued_at expires_at rollout_basis_points payload key_id
        in case ce_b64decode env private_key_b64 of
             None \<Rightarrow> Inl ''Incorrect padding''
           | Some private_key \<Rightarrow>
               if length private_key \<noteq> 32 then Inl ''An Ed25519 private key is 32 bytes long''
               else if \<not> finite_json payload then Inl ''Out of range float values are not JSON compliant''
               else Inr \<lparr>sg_revision = revision, sg_issued_at = issued_at, sg_expires_at = expires_at,
                         sg_rollout_basis_points = rollout_basis_points, sg_payload = payload, sg_key_id = key_id,
                         sg_signature_b64 =
                           ce_b64encode env (ce_sign env private_key (canonical_bytes env unsigned))\<rparr>)"

definition verify_envelope :: "config_env \<Rightarrow> string \<Rightarrow> dict \<Rightarrow> bool" where
  "verify_envelope env public_key_b64 d =
     (case (Option.bind (map_of d ''signature'') str_of) of
        None \<Rightarrow> False
      | Some signature_b64 \<Rightarrow>
          (case (ce_b64decode env public_key_b64, ce_b64decode env signature_b64) of
             (Some public_key, Some signature) \<Rightarrow>
               ce_verify env public_key signature
                 (canonical_bytes env (filter (\<lambda>(k, v). k \<noteq> ''signature'') d))
           | _ \<Rightarrow> False))"

subsection \<open>Rollout\<close>

fun hex_value :: "char \<Rightarrow> nat option" where
  "hex_value c =
     (if is_digit c then Some (byte c - 48)
      else if 97 \<le> byte c \<and> byte c \<le> 102 then Some (byte c - 87)
      else if 65 \<le> byte c \<and> byte c \<le> 70 then Some (byte c - 55)
      else None)"

text \<open>\<open>bytes.fromhex\<close> skips ASCII white space between the pairs.\<close>

fun fromhex :: "string \<Rightarrow> string option" where
  "fromhex [] = Some []"
| "fromhex [c] = (if byte c = 32 \<or> 9 \<le> byte c \<and> byte c \<le> 13 then Some [] else None)"
| "fromhex (c # d # s) =
     (if byte c = 32 \<or> 9 \<le> byte c \<and> byte c \<le> 13 then fromhex (d # s)
      else case (hex_value c, hex_value d) of
             (Some h, Some l) \<Rightarrow> map_option (\<lambda>bs. char_of (16 * h + l) # bs) (fromhex s)
           | _ \<Rightarrow> None)"

definition int_from_bytes :: "string \<Rightarrow> nat" where
  "int_from_bytes bs = foldl (\<lambda>n b. 256 * n + byte b) 0 bs"

definition rollout_bucket :: "runtime \<Rightarrow> string \<Rightarrow> string \<Rightarrow> nat" where
  "rollout_bucket rt salt installation_id =
     int_from_bytes (take 8 (rt_hmac_sha256 rt salt installation_id)) mod nat ROLLOUT_DENOMINATOR"

definition rollout_includes :: "runtime \<Rightarrow> string \<Rightarrow> string \<Rightarrow> int \<Rightarrow> bool result" where
  "rollout_includes rt rollout_salt installation_id basis_points =
     (if basis_points \<le> 0 then Inr False
      else if basis_points \<ge> ROLLOUT_DENOMINATOR then Inr True
      else case fromhex rollout_salt of
             None \<Rightarrow> Inl (Uncaught ''ValueError'')
           | Some salt \<Rightarrow> Inr (int (rollout_bucket rt salt installation_id) < basis_points))"

subsection \<open>Delivery\<close>

datatype config_response =
  Config_204
| Config_304 string
| Config_200 string dict

definition current_config ::
    "string \<Rightarrow> string \<Rightarrow> string \<Rightarrow> time \<Rightarrow> tenant list \<Rightarrow> remote_config_version list
       \<Rightarrow> (remote_config_version \<times> string) option" where
  "current_config tenant_id app_id environment now tenants configs =
     (case sort_key (\<lambda>(c, t). - rc_revision c)
             (filter (\<lambda>(c, t). tn_id t = rc_tenant_id c \<and> rc_tenant_id c = tenant_id \<and> rc_app_id c = app_id \<and>
                               rc_environment c = environment \<and> rc_active c \<and> rc_expires_at c > now)
                (List.product configs tenants)) of
        [] \<Rightarrow> None
      | (c, t) # _ \<Rightarrow> Some (c, tn_config_rollout_salt t))"

definition config_etag :: "remote_config_version \<Rightarrow> string" where
  "config_etag c = [CHR 0x22] @ ''config-'' @ int_str (rc_revision c) @ [CHR 0x22]"

definition stored_signed_config :: "remote_config_version \<Rightarrow> signed_config" where
  "stored_signed_config c =
     \<lparr>sg_revision = rc_revision c, sg_issued_at = rc_issued_at c, sg_expires_at = rc_expires_at c,
      sg_rollout_basis_points = rc_rollout_basis_points c, sg_payload = rc_payload_json c, sg_key_id = rc_key_id c,
      sg_signature_b64 = rc_signature_b64 c\<rparr>"

definition config_headers :: "request \<Rightarrow> (string \<times> string \<times> string) result" where
  "config_headers rq =
     rbind (required_header rq HEADER_APP_ID 256) (\<lambda>app_id.
     rbind (required_header rq HEADER_ENVIRONMENT 128) (\<lambda>environment.
     rbind (required_header rq HEADER_INSTALLATION_ID 256) (\<lambda>installation_id.
       Inr (app_id, environment, installation_id))))"

definition deliver_config ::
    "config_env \<Rightarrow> request \<Rightarrow> principal \<Rightarrow> string \<times> string \<times> string \<Rightarrow> tenant list \<Rightarrow> remote_config_version list
       \<Rightarrow> config_response result" where
  "deliver_config env rq p headers tenants configs =
     (case headers of (app_id, environment, installation_id) \<Rightarrow>
       (case current_config (pr_tenant_id p) app_id environment (ce_now env) tenants configs of
          None \<Rightarrow> Inr Config_204
        | Some (c, rollout_salt) \<Rightarrow>
            rbind (rollout_includes (ce_runtime env) rollout_salt installation_id (rc_rollout_basis_points c)) (\<lambda>included.
              if \<not> included then Inr Config_204
              else if header_get rq ''if-none-match'' = Some (config_etag c) then Inr (Config_304 (config_etag c))
              else Inr (Config_200 (config_etag c) (envelope env (stored_signed_config c))))))"

definition get_remote_config ::
    "config_env \<Rightarrow> auth_env \<Rightarrow> ingest_key list \<Rightarrow> tenant list \<Rightarrow> remote_config_version list \<Rightarrow> request \<Rightarrow> auth_state
       \<Rightarrow> auth_state \<times> config_response result" where
  "get_remote_config env auth keys tenants configs rq s =
     (case config_headers rq of
        Inl e \<Rightarrow> (s, Inl e)
      | Inr (app_id, environment, installation_id) \<Rightarrow>
          (case authenticate_ingest_key auth keys tenants (header_get rq ''authorization'') app_id environment s of
             (s', Inl e) \<Rightarrow> (s', Inl e)
           | (s', Inr p) \<Rightarrow> (s', deliver_config env rq p (app_id, environment, installation_id) tenants configs)))"

subsection \<open>Rollout lemmas\<close>

lemma rollout_bucket_bound: "rollout_bucket rt salt installation_id < 10000"
  by (simp add: rollout_bucket_def ROLLOUT_DENOMINATOR_def)

lemma rollout_includes_bucket:
  assumes "fromhex salt = Some key"
  shows "rollout_includes rt salt installation_id bp = Inr (int (rollout_bucket rt key installation_id) < bp)"
  using rollout_bucket_bound [of rt key installation_id] assms
  by (simp add: rollout_includes_def ROLLOUT_DENOMINATOR_def)

lemma rollout_includes_mono:
  assumes "rollout_includes rt salt installation_id bp = Inr True" and "bp \<le> bp'"
  shows "rollout_includes rt salt installation_id bp' = Inr True"
  using assms by (auto simp: rollout_includes_def split: if_splits option.splits)

subsection \<open>Delivery lemmas\<close>

definition deliverable :: "string \<Rightarrow> string \<Rightarrow> string \<Rightarrow> time \<Rightarrow> remote_config_version \<Rightarrow> bool" where
  "deliverable tenant_id app_id environment now c \<longleftrightarrow>
     rc_tenant_id c = tenant_id \<and> rc_app_id c = app_id \<and> rc_environment c = environment \<and>
     rc_active c \<and> rc_expires_at c > now"

lemma sort_key_head:
  assumes "sort_key f xs = y # ys"
  shows "y \<in> set xs \<and> (\<forall>x\<in>set xs. f y \<le> f x)"
proof -
  have "set xs = set (y # ys)" "sorted (map f (y # ys))"
    using set_sort [of f xs] sorted_sort_key [of f xs] by (simp_all only: assms)
  then show ?thesis
    by auto
qed

lemma current_config_SomeD:
  assumes "current_config tenant_id app_id environment now tenants configs = Some (c, salt)"
  shows "c \<in> set configs \<and> deliverable tenant_id app_id environment now c \<and>
         (\<exists>t\<in>set tenants. tn_id t = tenant_id \<and> salt = tn_config_rollout_salt t) \<and>
         (\<forall>c'\<in>set configs. deliverable tenant_id app_id environment now c' \<longrightarrow> rc_revision c' \<le> rc_revision c)"
proof -
  let ?rows = "filter (\<lambda>(c, t). tn_id t = rc_tenant_id c \<and> rc_tenant_id c = tenant_id \<and> rc_app_id c = app_id \<and>
                  rc_environment c = environment \<and> rc_active c \<and> rc_expires_at c > now) (List.product configs tenants)"
  obtain t ys where srt: "sort_key (\<lambda>(c, t). - rc_revision c) ?rows = (c, t) # ys" and salt: "salt = tn_config_rollout_salt t"
    using assms by (auto simp: current_config_def split: list.splits)
  have hd: "(c, t) \<in> set ?rows" "\<forall>x\<in>set ?rows. (case (c, t) of (c, t) \<Rightarrow> - rc_revision c) \<le> (case x of (c, t) \<Rightarrow> - rc_revision c)"
    using sort_key_head [OF srt] by blast+
  have "rc_revision c' \<le> rc_revision c" if "c' \<in> set configs" "deliverable tenant_id app_id environment now c'" for c'
    using that hd(1) bspec [OF hd(2), of "(c', t)"] by (auto simp: deliverable_def)
  then show ?thesis
    using hd(1) salt by (auto simp: deliverable_def)
qed

lemma current_config_exists:
  assumes "c \<in> set configs" and "deliverable tenant_id app_id environment now c"
    and "t \<in> set tenants" and "tn_id t = tenant_id"
  shows "current_config tenant_id app_id environment now tenants configs \<noteq> None"
proof -
  have "(c, t) \<in> set (filter (\<lambda>(c, t). tn_id t = rc_tenant_id c \<and> rc_tenant_id c = tenant_id \<and> rc_app_id c = app_id \<and>
                  rc_environment c = environment \<and> rc_active c \<and> rc_expires_at c > now) (List.product configs tenants))"
    using assms by (auto simp: deliverable_def)
  then show ?thesis
    unfolding current_config_def
    by (metis (no_types, lifting) empty_iff list.exhaust list.set(1) list.simps(5) option.distinct(1) set_sort surj_pair
          case_prod_conv)
qed

lemma current_config_top:
  assumes "c \<in> set configs" and "deliverable tenant_id app_id environment now c"
    and "\<And>c'. c' \<in> set configs \<Longrightarrow> deliverable tenant_id app_id environment now c' \<Longrightarrow> c' \<noteq> c \<Longrightarrow>
               rc_revision c' < rc_revision c"
    and "t \<in> set tenants" and "tn_id t = tenant_id" and "distinct (map tn_id tenants)"
  shows "current_config tenant_id app_id environment now tenants configs = Some (c, tn_config_rollout_salt t)"
proof -
  obtain c' salt where cc: "current_config tenant_id app_id environment now tenants configs = Some (c', salt)"
    using current_config_exists [OF assms(1,2,4,5)] by auto
  note d = current_config_SomeD [OF cc]
  have "c' = c"
    using d assms(1,2) assms(3) [of c'] by fastforce
  moreover have "salt = tn_config_rollout_salt t"
    using d assms(4-6) by (auto simp: distinct_map dest: inj_onD)
  ultimately show ?thesis
    using cc by simp
qed

subsection \<open>Signature lemmas\<close>

lemma signed_envelope_verifies:
  assumes "sign_config env private_key_b64 revision issued_at expires_at bp payload key_id = Inr signed"
    and "ce_b64decode env private_key_b64 = Some sk" and "ce_b64decode env public_key_b64 = Some pk"
    and "\<And>x. ce_b64decode env (ce_b64encode env x) = Some x"
    and "\<And>m. ce_verify env pk (ce_sign env sk m) m"
  shows "verify_envelope env public_key_b64 (envelope env signed)"
proof -
  have "signed = \<lparr>sg_revision = revision, sg_issued_at = issued_at, sg_expires_at = expires_at,
      sg_rollout_basis_points = bp, sg_payload = payload, sg_key_id = key_id,
      sg_signature_b64 = ce_b64encode env (ce_sign env sk (canonical_bytes env
        (unsigned_envelope env revision issued_at expires_at bp payload key_id)))\<rparr>"
    using assms(1,2) by (auto simp: sign_config_def Let_def split: if_splits)
  then show ?thesis
    using assms(3,4,5) by (simp add: verify_envelope_def envelope_def unsigned_envelope_def)
qed

lemma envelope_fields:
  "map_of (envelope env c) ''revision'' = Some (jint (sg_revision c))"
  "map_of (envelope env c) ''payload'' = Some (sg_payload c)"
  "map_of (envelope env c) ''expiresAt'' = Some (jstr (utc_text env (sg_expires_at c)))"
  by (simp_all add: envelope_def unsigned_envelope_def)

text \<open>
  What the configuration endpoint returns: a 200 answer is sent only to an authenticated key, it
  carries the newest revision of exactly the key's tenant and the requested app and environment that
  is active and not expired, and the installation lies in that revision's rollout.
\<close>

theorem delivered_config_is_current:
  assumes "get_remote_config env auth keys tenants configs rq s = (s', Inr (Config_200 etag d))"
  shows "\<exists>app_id environment installation_id p c t.
           config_headers rq = Inr (app_id, environment, installation_id) \<and>
           authenticate_ingest_key auth keys tenants (header_get rq ''authorization'') app_id environment s = (s', Inr p) \<and>
           c \<in> set configs \<and> deliverable (pr_tenant_id p) app_id environment (ce_now env) c \<and>
           (\<forall>c'\<in>set configs. deliverable (pr_tenant_id p) app_id environment (ce_now env) c' \<longrightarrow>
              rc_revision c' \<le> rc_revision c) \<and>
           t \<in> set tenants \<and> tn_id t = pr_tenant_id p \<and>
           rollout_includes (ce_runtime env) (tn_config_rollout_salt t) installation_id (rc_rollout_basis_points c) = Inr True \<and>
           d = envelope env (stored_signed_config c)"
proof -
  obtain app_id environment installation_id p where
    h: "config_headers rq = Inr (app_id, environment, installation_id)" and
    a: "authenticate_ingest_key auth keys tenants (header_get rq ''authorization'') app_id environment s = (s', Inr p)" and
    dl: "deliver_config env rq p (app_id, environment, installation_id) tenants configs = Inr (Config_200 etag d)"
    using assms by (auto simp: get_remote_config_def split: sum.splits prod.splits)
  obtain c salt where
    cc: "current_config (pr_tenant_id p) app_id environment (ce_now env) tenants configs = Some (c, salt)" and
    r: "rollout_includes (ce_runtime env) salt installation_id (rc_rollout_basis_points c) = Inr True" and
    d: "d = envelope env (stored_signed_config c)"
    using dl by (auto simp: deliver_config_def split: option.splits if_splits)
  show ?thesis
    using h a r d current_config_SomeD [OF cc] by blast
qed

end
