(* ===== verification/Apm_Artifacts.thy ===== *)
theory Apm_Artifacts
  imports Apm_Web Apm_Symbol_Jobs Apm_Ingest_Api
begin

section \<open>Symbol artifacts\<close>

text \<open>
  \<^verbatim>\<open>artifacts.py\<close>, \<^verbatim>\<open>db/artifacts.py\<close> and \<^verbatim>\<open>api/artifacts.py\<close>: staging, validation and promotion of an
  uploaded mapping or ELF file, its registration under an immutable build identity, and the upload
  endpoint. The private file store is a map from resolved paths (lists of components) to contents;
  \<open>artifact_env\<close> holds the resolution of links, the name \<open>mkstemp\<close> picks, the ELF parser, the clock and
  the stored credentials. The identity is the record \<open>artifact_key\<close> of \<open>Apm_Symbol_Jobs\<close>.
\<close>

type_synonym files = "string list \<Rightarrow> string option"

datatype note_description = Desc_bytes string | Desc_text string

record elf_note =
  en_type :: string
  en_desc :: note_description

text \<open>A section is its notes, \<open>None\<close> when it has no note iterator; a \<open>None\<close> list of sections is one that fails to iterate.\<close>

record elf_file =
  ef_machine :: string
  ef_symtab :: bool
  ef_sections :: "elf_note list option list option"

record artifact_env =
  fe_runtime :: runtime
  fe_auth :: auth_env
  fe_ci_keys :: "ci_key list"
  fe_tenants :: "tenant list"
  fe_dialect :: dialect
  fe_now :: time
  fe_root :: "string list"
  fe_resolve :: "string list \<Rightarrow> string list"
  fe_temp :: string
  fe_elf :: "string \<Rightarrow> elf_file option"
  fe_nul_first :: bool

record artifact_settings =
  fs_max_java_mapping_bytes :: int
  fs_max_native_elf_bytes :: int

record artifact_state =
  ax_auth :: auth_state
  ax_files :: files
  ax_artifacts :: "symbol_artifact list"
  ax_inbox :: "inbox_event list"
  ax_jobs :: "symbolization_job list"
  ax_audit :: "audit_log list"

subsection \<open>Identity\<close>

text \<open>\<open>json.dumps\<close> with its default \<open>ensure_ascii\<close>: every code point outside printable ASCII is a \<open>\u\<close> escape.\<close>

definition u_escape :: "nat \<Rightarrow> string" where
  "u_escape u =
     [char_of (92::nat), CHR ''u'', hex_digit (u div 4096 mod 16), hex_digit (u div 256 mod 16), hex_digit (u div 16 mod 16),
      hex_digit (u mod 16)]"

definition cp_escape :: "nat \<Rightarrow> string" where
  "cp_escape cp =
     (if cp < 65536 then u_escape cp
      else u_escape (55296 + (cp - 65536) div 1024) @ u_escape (56320 + (cp - 65536) mod 1024))"

fun ascii_escape :: "string \<Rightarrow> string" where
  "ascii_escape [] = []"
| "ascii_escape (c # s) =
     (if byte c < 127 then json_escape_char c @ ascii_escape s
      else if byte c = 127 then u_escape 127 @ ascii_escape s
      else case s of
        [] \<Rightarrow> []
      | d # t \<Rightarrow>
          if byte c < 224 then cp_escape ((byte c - 192) * 64 + (byte d - 128)) @ ascii_escape t
          else (case t of
            [] \<Rightarrow> []
          | e # u \<Rightarrow>
              if byte c < 240
              then cp_escape ((byte c - 224) * 4096 + (byte d - 128) * 64 + (byte e - 128)) @ ascii_escape u
              else (case u of
                [] \<Rightarrow> []
              | f # v \<Rightarrow>
                  cp_escape ((byte c - 240) * 262144 + (byte d - 128) * 4096 + (byte e - 128) * 64 + (byte f - 128)) @
                    ascii_escape v)))"

definition identity_text :: "artifact_key \<Rightarrow> string" where
  "identity_text k =
     (let entry = (\<lambda>key v. [CHR 0x22] @ key @ [CHR 0x22, CHR '':'', CHR 0x22] @ ascii_escape v @ [CHR 0x22])
      in ''{'' @ join_with '',''
           [entry ''abi'' (ak_abi k), entry ''appBuild'' (ak_app_build k), entry ''appId'' (ak_app_id k),
            entry ''artifactType'' (artifact_kind_text (ak_artifact_type k)), entry ''buildId'' (ak_build_id k),
            entry ''tenantId'' (ak_tenant_id k), entry ''variant'' (ak_variant k),
            entry ''versionCode'' (ak_version_code k)] @ ''}'')"

definition storage_key :: "runtime \<Rightarrow> artifact_key \<Rightarrow> string \<Rightarrow> string \<Rightarrow> string" where
  "storage_key rt k checksum_sha256 extension =
     join_with ''/''
       [take 16 (rt_sha256_hex rt (ak_tenant_id k)), artifact_kind_text (ak_artifact_type k),
        rt_sha256_hex rt (identity_text k), checksum_sha256 @ ''.'' @ extension]"

subsection \<open>The private store\<close>

record staged_artifact =
  st_path :: "string list"
  st_checksum_sha256 :: string
  st_size_bytes :: int

definition artifact_too_large :: exn where
  "artifact_too_large = mk_error 413 ''artifact_too_large'' ''The symbol artifact is too large'' False None"

definition invalid_artifact :: "string \<Rightarrow> exn" where
  "invalid_artifact msg = mk_error 400 ''invalid_artifact'' msg False None"

fun staged_bytes :: "int \<Rightarrow> string list \<Rightarrow> string \<Rightarrow> string result" where
  "staged_bytes max_bytes [] written = Inr written"
| "staged_bytes max_bytes (chunk # chunks) written =
     (if int (length (written @ chunk)) > max_bytes then Inl artifact_too_large
      else staged_bytes max_bytes chunks (written @ chunk))"

definition temp_path :: "artifact_env \<Rightarrow> string list" where
  "temp_path env = fe_root env @ [''.staging'', fe_temp env]"

definition stage ::
    "artifact_env \<Rightarrow> string list \<Rightarrow> int \<Rightarrow> int option \<Rightarrow> files \<Rightarrow> files \<times> staged_artifact result" where
  "stage env chunks max_bytes declared_length files =
     (if (case declared_length of None \<Rightarrow> False | Some n \<Rightarrow> n < 0 \<or> n > max_bytes) then (files, Inl artifact_too_large)
      else case staged_bytes max_bytes chunks [] of
        Inl e \<Rightarrow> (files(temp_path env := None), Inl e)
      | Inr content \<Rightarrow>
          if content = [] then (files(temp_path env := None), Inl (invalid_artifact ''The symbol artifact is empty''))
          else (files(temp_path env \<mapsto> content),
                Inr \<lparr>st_path = temp_path env, st_checksum_sha256 = rt_sha256_hex (fe_runtime env) content,
                     st_size_bytes = int (length content)\<rparr>))"

definition path_for :: "artifact_env \<Rightarrow> string \<Rightarrow> string list result" where
  "path_for env key =
     (let candidate = fe_resolve env (path_join (fe_root env) key)
      in if take (length (fe_root env)) candidate = fe_root env then Inr candidate else Inl (Uncaught ''ValueError''))"

definition promote :: "artifact_env \<Rightarrow> staged_artifact \<Rightarrow> string \<Rightarrow> files \<Rightarrow> (files \<times> string list) result" where
  "promote env staged key files =
     rbind (path_for env key) (\<lambda>destination.
       Inr (if st_path staged = destination then files
            else files(destination := files (st_path staged), st_path staged := None), destination))"

definition discard :: "string list \<Rightarrow> files \<Rightarrow> files" where
  "discard path files = files(path := None)"

subsection \<open>Validation\<close>

fun universal_newlines :: "string \<Rightarrow> string" where
  "universal_newlines [] = []"
| "universal_newlines (c # s) =
     (if byte c = 13 then char_of (10::nat) # universal_newlines (if map byte (take 1 s) = [10] then drop 1 s else s)
      else c # universal_newlines s)"

definition contains_space :: "string \<Rightarrow> bool" where
  "contains_space s \<longleftrightarrow> list_ex (\<lambda>t. list_ex (\<lambda>w. starts_with w t) whitespace_codes) (suffixes s)"

definition java_class_name :: "string \<Rightarrow> bool" where
  "java_class_name s \<longleftrightarrow>
     \<not> contains_space s \<and>
     list_all (\<lambda>segment. segment \<noteq> [] \<and> list_all (\<lambda>c. c \<notin> set '':;/[]'') segment) (split_on CHR ''.'' s)"

text \<open>A class name holds no white space, so the first blank of a class line starts its arrow.\<close>

definition java_class_mapping :: "string \<Rightarrow> bool" where
  "java_class_mapping line =
     (let original = takeWhile (\<lambda>c. c \<noteq> CHR '' '') line; rest = drop (length original) line; target = drop 4 rest
      in starts_with '' -> '' rest \<and> target \<noteq> [] \<and> last target = CHR '':'' \<and> java_class_name original \<and>
         java_class_name (butlast target))"

text \<open>
  The file is decoded block by block while its lines are read: whether a line with a NUL byte is met
  before a malformed sequence depends on the blocks and is the argument \<open>nul_first\<close>.
\<close>

definition validate_java_mapping :: "bool \<Rightarrow> string \<Rightarrow> unit result" where
  "validate_java_mapping nul_first content =
     (let nul = list_ex (\<lambda>c. byte c = 0) content
      in if nul \<and> (utf8_valid content \<or> nul_first) then Inl (invalid_artifact ''The Java mapping contains NUL bytes'')
         else if \<not> utf8_valid content then Inl (invalid_artifact ''The Java mapping must be UTF-8'')
         else if \<not> list_ex java_class_mapping (split_on (char_of (10::nat)) (universal_newlines content))
         then Inl (invalid_artifact ''No ProGuard/R8 class mapping was found'')
         else Inr ())"

definition SUPPORTED_ABI_BY_MACHINE :: "(string \<times> string) list" where
  "SUPPORTED_ABI_BY_MACHINE =
     [(''EM_AARCH64'', ''arm64-v8a''), (''EM_ARM'', ''armeabi-v7a''), (''EM_X86_64'', ''x86_64''), (''EM_386'', ''x86'')]"

definition note_build_id :: "elf_note \<Rightarrow> string" where
  "note_build_id n =
     (case en_desc n of
        Desc_bytes bs \<Rightarrow> py_lower (hex_bytes (map byte bs))
      | Desc_text s \<Rightarrow> py_lower (filter (\<lambda>c. c \<noteq> CHR '' '') s))"

definition find_gnu_build_id :: "elf_note list option list \<Rightarrow> string option" where
  "find_gnu_build_id sections =
     map_option note_build_id
       (find (\<lambda>n. en_type n = ''NT_GNU_BUILD_ID'') (concat (map (\<lambda>s. case s of None \<Rightarrow> [] | Some ns \<Rightarrow> ns) sections)))"

definition inspect_native_elf :: "(string \<Rightarrow> elf_file option) \<Rightarrow> string \<Rightarrow> (string \<times> string) result" where
  "inspect_native_elf elf content =
     (case elf content of
        None \<Rightarrow> Inl (invalid_artifact ''The Native artifact is not a valid ELF'')
      | Some f \<Rightarrow>
          (case map_of SUPPORTED_ABI_BY_MACHINE (ef_machine f) of
             None \<Rightarrow> Inl (mk_error 400 ''unsupported_elf'' ''The ELF architecture is not supported'' False None)
           | Some abi \<Rightarrow>
               if \<not> ef_symtab f
               then Inl (mk_error 400 ''stripped_elf'' ''An unstripped ELF with .symtab is required'' False None)
               else (case ef_sections f of
                  None \<Rightarrow> Inl (invalid_artifact ''The Native artifact is not a valid ELF'')
                | Some sections \<Rightarrow>
                    (case find_gnu_build_id sections of
                       None \<Rightarrow> Inl (mk_error 400 ''missing_build_id'' ''The ELF does not contain a GNU build-id'' False None)
                     | Some build_id \<Rightarrow> Inr (abi, build_id)))))"

subsection \<open>Registration\<close>

record artifact_registration =
  ag_artifact :: symbol_artifact
  ag_inserted :: bool
  ag_conflict :: bool

definition artifact_row ::
    "artifact_env \<Rightarrow> artifact_key \<Rightarrow> staged_artifact \<Rightarrow> string \<Rightarrow> string \<Rightarrow> symbol_artifact list \<Rightarrow> symbol_artifact" where
  "artifact_row env k staged key uploaded_by tbl =
     \<lparr>sa_id = next_id sa_id tbl, sa_tenant_id = ak_tenant_id k, sa_artifact_type = ak_artifact_type k,
      sa_app_id = ak_app_id k, sa_version_code = ak_version_code k, sa_app_build = ak_app_build k,
      sa_variant = ak_variant k, sa_abi = ak_abi k, sa_build_id = ak_build_id k,
      sa_checksum_sha256 = st_checksum_sha256 staged, sa_size_bytes = st_size_bytes staged, sa_storage_key = key,
      sa_status = ''active'', sa_uploaded_by = uploaded_by, sa_created_at = fe_now env\<rparr>"

definition register_artifact ::
    "artifact_env \<Rightarrow> artifact_key \<Rightarrow> staged_artifact \<Rightarrow> string \<Rightarrow> string \<Rightarrow> symbol_artifact list
       \<Rightarrow> (symbol_artifact list \<times> artifact_registration) result" where
  "register_artifact env k staged key uploaded_by tbl =
     (case fe_dialect env of
        Other_dialect d \<Rightarrow> Inl (Uncaught ''RuntimeError'')
      | _ \<Rightarrow>
          let present = list_ex (artifact_matches k) tbl;
              tbl' = (if present then tbl else tbl @ [artifact_row env k staged key uploaded_by tbl])
          in (case find (artifact_matches k) tbl' of
                None \<Rightarrow> Inl (Uncaught ''RuntimeError'')
              | Some a \<Rightarrow>
                  Inr (tbl', \<lparr>ag_artifact = a, ag_inserted = \<not> present,
                              ag_conflict = (sa_checksum_sha256 a \<noteq> st_checksum_sha256 staged \<or>
                                             sa_size_bytes a \<noteq> st_size_bytes staged)\<rparr>)))"

subsection \<open>The upload endpoint\<close>

definition HEADER_ABI :: string where [consts_simps]: "HEADER_ABI = ''X-APM-ABI''"
definition HEADER_BUILD_ID :: string where [consts_simps]: "HEADER_BUILD_ID = ''X-APM-Build-Id''"
definition HEADER_CHECKSUM_SHA256 :: string where [consts_simps]: "HEADER_CHECKSUM_SHA256 = ''X-APM-Checksum-SHA256''"

definition sha256_pattern :: "string \<Rightarrow> bool" where
  "sha256_pattern s \<longleftrightarrow> length s = 64 \<and> list_all is_lower_hex s"

definition JAVA_MAPPING_CONTENT_TYPES :: "string list" where
  "JAVA_MAPPING_CONTENT_TYPES = [''text/plain'', ''application/octet-stream'']"

definition NATIVE_ELF_CONTENT_TYPES :: "string list" where
  "NATIVE_ELF_CONTENT_TYPES = [''application/x-elf'', ''application/octet-stream'']"

record artifact_ack =
  aa_artifact_id :: int
  aa_status :: string
  aa_duplicate :: bool
  aa_checksum_sha256 :: string
  aa_size_bytes :: int

record upload_labels =
  ul_app_id :: string
  ul_version_code :: string
  ul_app_build :: string
  ul_variant :: string
  ul_checksum :: string

definition upload_labels_of :: "request \<Rightarrow> upload_labels result" where
  "upload_labels_of rq =
     rbind (required_header rq HEADER_APP_ID 256) (\<lambda>app_id.
     rbind (required_header rq HEADER_VERSION_CODE 64) (\<lambda>version_code.
     rbind (required_header rq HEADER_APP_BUILD MAX_IDENTIFIER_BYTES) (\<lambda>app_build.
     rbind (required_header rq HEADER_VARIANT MAX_IDENTIFIER_BYTES) (\<lambda>variant.
     rbind (required_header rq HEADER_CHECKSUM_SHA256 64) (\<lambda>checksum.
       if \<not> sha256_pattern (py_lower checksum)
       then Inl (mk_error 400 ''invalid_checksum'' ''The expected SHA-256 is invalid'' False None)
       else Inr \<lparr>ul_app_id = app_id, ul_version_code = version_code, ul_app_build = app_build, ul_variant = variant,
                 ul_checksum = py_lower checksum\<rparr>)))))"

definition content_length :: "runtime \<Rightarrow> request \<Rightarrow> int option result" where
  "content_length rt rq =
     (case header_get rq ''content-length'' of
        None \<Rightarrow> Inr None
      | Some v \<Rightarrow>
          (case py_int rt v of
             None \<Rightarrow> Inl (invalid_request ''Content-Length must be an integer'')
           | Some n \<Rightarrow> if n < 0 then Inl (invalid_request ''Content-Length must not be negative'') else Inr (Some n)))"

text \<open>The checks between authentication and the first byte of the body: ABI, build id, extension, limit and declared length.\<close>

definition upload_format ::
    "artifact_env \<Rightarrow> artifact_settings \<Rightarrow> artifact_kind \<Rightarrow> request \<Rightarrow> (string \<times> string \<times> string \<times> int \<times> int option) result" where
  "upload_format env settings kind rq =
     rbind (guard (text_or_empty (header_get rq ''content-encoding'') = [])
              (mk_error 415 ''unsupported_content_encoding'' ''Artifact uploads must not be encoded'' False None)) (\<lambda>_.
     rbind (guard (py_lower (hd (split_on CHR '';'' (text_or_empty (header_get rq ''content-type'')))) \<in>
                   set (if kind = Java_mapping then JAVA_MAPPING_CONTENT_TYPES else NATIVE_ELF_CONTENT_TYPES))
              (mk_error 415 ''unsupported_media_type'' ''The artifact Content-Type is not supported'' False None)) (\<lambda>_.
     rbind (if kind = Java_mapping then Inr ([], [], ''txt'', fs_max_java_mapping_bytes settings)
            else
              rbind (required_header rq HEADER_ABI 32) (\<lambda>abi.
              rbind (required_header rq HEADER_BUILD_ID 128) (\<lambda>build_id.
                if abi \<notin> set SUPPORTED_ABIS
                then Inl (mk_error 400 ''unsupported_abi'' ''The Native ABI is not supported'' False None)
                else if \<not> build_id_pattern (py_lower build_id)
                then Inl (mk_error 400 ''invalid_build_id'' ''The GNU build-id is invalid'' False None)
                else Inr (abi, py_lower build_id, ''elf'', fs_max_native_elf_bytes settings)))) (\<lambda>(abi, build_id, extension, max_bytes).
     rbind (content_length (fe_runtime env) rq) (\<lambda>declared_length.
       Inr (abi, build_id, extension, max_bytes, declared_length)))))"

definition validate_artifact ::
    "artifact_env \<Rightarrow> artifact_kind \<Rightarrow> string \<Rightarrow> string \<Rightarrow> string \<Rightarrow> unit result" where
  "validate_artifact env kind abi build_id content =
     (if kind = Java_mapping then validate_java_mapping (fe_nul_first env) content
      else rbind (inspect_native_elf (fe_elf env) content) (\<lambda>(extracted_abi, extracted_build_id).
             guard (extracted_abi = abi \<and> extracted_build_id = build_id)
               (mk_error 409 ''artifact_identity_mismatch''
                  ''The ELF ABI or GNU build-id does not match the declared identity'' False None)))"

definition receive_artifact ::
    "artifact_env \<Rightarrow> artifact_kind \<Rightarrow> request \<Rightarrow> string \<Rightarrow> string \<times> string \<times> string \<times> int \<times> int option \<Rightarrow> files
       \<Rightarrow> files \<times> staged_artifact result" where
  "receive_artifact env kind rq expected_checksum fmt files =
     (case fmt of (abi, build_id, extension, max_bytes, declared_length) \<Rightarrow>
       (case stage env (rq_chunks rq) max_bytes declared_length files of
          (files', Inl e) \<Rightarrow> (files', Inl e)
        | (files', Inr staged) \<Rightarrow>
            if st_checksum_sha256 staged \<noteq> expected_checksum
            then (discard (st_path staged) files',
                  Inl (mk_error 400 ''checksum_mismatch'' ''The uploaded SHA-256 does not match'' False None))
            else (case validate_artifact env kind abi build_id (text_or_empty (files' (st_path staged))) of
                    Inl e \<Rightarrow> (discard (st_path staged) files', Inl e)
                  | Inr _ \<Rightarrow> (files', Inr staged))))"

definition upload_audit ::
    "artifact_env \<Rightarrow> artifact_key \<Rightarrow> string \<Rightarrow> string \<Rightarrow> string \<Rightarrow> staged_artifact \<Rightarrow> int \<Rightarrow> audit_log" where
  "upload_audit env k actor request_id outcome staged artifact_id =
     \<lparr>al_tenant_id = Some (ak_tenant_id k), al_actor = actor, al_action = ''symbol_artifact.upload'',
      al_object_type = artifact_kind_text (ak_artifact_type k), al_object_id = Some (int_str artifact_id),
      al_result = outcome, al_request_id = Some request_id,
      al_details_json =
        JObj [(''app_id'', jstr (ak_app_id k)), (''version_code'', jstr (ak_version_code k)),
              (''app_build'', jstr (ak_app_build k)), (''variant'', jstr (ak_variant k)),
              (''abi'', if ak_abi k = [] then jnull else jstr (ak_abi k)),
              (''build_id'', if ak_build_id k = [] then jnull else jstr (ak_build_id k)),
              (''checksum_sha256'', jstr (st_checksum_sha256 staged)), (''size_bytes'', jint (st_size_bytes staged))],
      al_created_at = fe_now env\<rparr>"

text \<open>Promotion, registration, audit and commit; an exception rolls the tables back and leaves the files as they are.\<close>

definition record_artifact ::
    "artifact_env \<Rightarrow> artifact_key \<Rightarrow> string \<Rightarrow> string \<Rightarrow> string \<Rightarrow> staged_artifact \<Rightarrow> artifact_state
       \<Rightarrow> artifact_state \<times> artifact_ack result" where
  "record_artifact env k key_id request_id key staged s =
     (case promote env staged key (ax_files s) of
        Inl e \<Rightarrow> (s, Inl e)
      | Inr (files, promoted) \<Rightarrow>
          let s = s\<lparr>ax_files := files\<rparr>
          in (case register_artifact env k staged key key_id (ax_artifacts s) of
                Inl e \<Rightarrow> (s, Inl e)
              | Inr (tbl, reg) \<Rightarrow>
                  if ag_conflict reg
                  then (s\<lparr>ax_files := discard promoted (ax_files s), ax_artifacts := tbl,
                          ax_audit := ax_audit s @ [upload_audit env k key_id request_id ''conflict'' staged (sa_id (ag_artifact reg))]\<rparr>,
                        Inl (mk_error 409 ''artifact_identity_conflict''
                               ''This build identity is already registered with different content'' False None))
                  else (s\<lparr>ax_artifacts := tbl,
                          ax_jobs := fst (requeue_matching_missing_jobs (fe_runtime env) k (fe_now env) (ax_inbox s) (ax_jobs s)),
                          ax_audit := ax_audit s @
                            [upload_audit env k key_id request_id (if ag_inserted reg then ''success'' else ''duplicate'') staged
                               (sa_id (ag_artifact reg))]\<rparr>,
                        Inr \<lparr>aa_artifact_id = sa_id (ag_artifact reg), aa_status = ''accepted'',
                             aa_duplicate = \<not> ag_inserted reg, aa_checksum_sha256 = sa_checksum_sha256 (ag_artifact reg),
                             aa_size_bytes = sa_size_bytes (ag_artifact reg)\<rparr>)))"

definition upload_identity :: "artifact_kind \<Rightarrow> string \<Rightarrow> upload_labels \<Rightarrow> string \<Rightarrow> string \<Rightarrow> artifact_key" where
  "upload_identity kind tenant_id l abi build_id =
     \<lparr>ak_artifact_type = kind, ak_tenant_id = tenant_id, ak_app_id = ul_app_id l, ak_version_code = ul_version_code l,
      ak_app_build = ul_app_build l, ak_variant = ul_variant l, ak_abi = abi, ak_build_id = build_id\<rparr>"

definition upload ::
    "artifact_env \<Rightarrow> artifact_settings \<Rightarrow> artifact_kind \<Rightarrow> request \<Rightarrow> artifact_state \<Rightarrow> artifact_state \<times> artifact_ack result" where
  "upload env settings kind rq s =
     (case upload_labels_of rq of
        Inl e \<Rightarrow> (s, Inl e)
      | Inr l \<Rightarrow>
          (case authenticate_ci_key (fe_auth env) (fe_ci_keys env) (fe_tenants env) (header_get rq ''authorization'')
                  CI_SCOPE_ARTIFACT_WRITE (ul_app_id l) (ax_auth s) of
             (auth, Inl e) \<Rightarrow> (s\<lparr>ax_auth := auth\<rparr>, Inl e)
           | (auth, Inr p) \<Rightarrow>
               (case upload_format env settings kind rq of
                  Inl e \<Rightarrow> (s\<lparr>ax_auth := auth\<rparr>, Inl e)
                | Inr (abi, build_id, extension, limits) \<Rightarrow>
                    (case receive_artifact env kind rq (ul_checksum l) (abi, build_id, extension, limits) (ax_files s) of
                       (files, Inl e) \<Rightarrow> (s\<lparr>ax_auth := auth, ax_files := files\<rparr>, Inl e)
                     | (files, Inr staged) \<Rightarrow>
                         let k = upload_identity kind (cp_tenant_id p) l abi build_id
                         in record_artifact env k (cp_key_id p) (rq_request_id rq)
                              (storage_key (fe_runtime env) k (st_checksum_sha256 staged) extension) staged
                              (s\<lparr>ax_auth := auth, ax_files := files\<rparr>)))))"

definition upload_java_mapping ::
    "artifact_env \<Rightarrow> artifact_settings \<Rightarrow> request \<Rightarrow> artifact_state \<Rightarrow> artifact_state \<times> artifact_ack result" where
  "upload_java_mapping env settings = upload env settings Java_mapping"

definition upload_native_elf ::
    "artifact_env \<Rightarrow> artifact_settings \<Rightarrow> request \<Rightarrow> artifact_state \<Rightarrow> artifact_state \<times> artifact_ack result" where
  "upload_native_elf env settings = upload env settings Native_elf"

subsection \<open>Storage paths\<close>

definition artifact_key_of :: "symbol_artifact \<Rightarrow> artifact_key" where
  "artifact_key_of a =
     \<lparr>ak_artifact_type = sa_artifact_type a, ak_tenant_id = sa_tenant_id a, ak_app_id = sa_app_id a,
      ak_version_code = sa_version_code a, ak_app_build = sa_app_build a, ak_variant = sa_variant a, ak_abi = sa_abi a,
      ak_build_id = sa_build_id a\<rparr>"

definition extension_of :: "artifact_kind \<Rightarrow> string" where
  "extension_of kind = (if kind = Java_mapping then ''txt'' else ''elf'')"

text \<open>What the store relies on: SHA-256 digests are 64 lower-case hex digits, and nothing below the private root is a link.\<close>

definition store_env_ok :: "artifact_env \<Rightarrow> bool" where
  "store_env_ok env \<longleftrightarrow>
     (\<forall>x. sha256_pattern (rt_sha256_hex (fe_runtime env) x)) \<and>
     (\<forall>cs. ''..'' \<notin> set cs \<longrightarrow> fe_resolve env (fe_root env @ cs) = fe_root env @ cs)"

definition blob_path :: "artifact_env \<Rightarrow> artifact_key \<Rightarrow> string \<Rightarrow> string list" where
  "blob_path env k checksum =
     fe_root env @ [take 16 (rt_sha256_hex (fe_runtime env) (ak_tenant_id k)), artifact_kind_text (ak_artifact_type k),
       rt_sha256_hex (fe_runtime env) (identity_text k), checksum @ ''.'' @ extension_of (ak_artifact_type k)]"

lemma artifact_matches_key: "artifact_matches k a \<longleftrightarrow> artifact_key_of a = k"
  by (cases k) (auto simp: artifact_matches_def artifact_key_of_def)

lemma artifact_identity_key: "artifact_identity a = artifact_identity b \<longleftrightarrow> artifact_key_of a = artifact_key_of b"
  by (auto simp: artifact_identity_def artifact_key_of_def)

lemma lower_hex_no_slash: "list_all is_lower_hex s \<Longrightarrow> CHR ''/'' \<notin> set s"
  by (induction s) (auto simp: is_lower_hex_def is_digit_def byte_def)

lemma list_all_take: "list_all P xs \<Longrightarrow> list_all P (take n xs)"
  by (auto simp: list_all_iff dest: in_set_takeD)

lemma path_join_components:
  assumes "ws \<noteq> []" and "\<And>w. w \<in> set ws \<Longrightarrow> CHR ''/'' \<notin> set w \<and> 2 < length w"
  shows "path_join base (join_with ''/'' ws) = base @ ws" and "''..'' \<notin> set ws"
proof -
  have split: "split_on CHR ''/'' (join_with ''/'' ws) = ws"
    using assms by (intro split_join_on) auto
  have "w \<noteq> [] \<and> w \<noteq> ''.''" if "w \<in> set ws" for w
    using assms(2) [OF that] by auto
  then have "filter (\<lambda>c. c \<noteq> [] \<and> c \<noteq> ''.'') ws = ws"
    by simp
  moreover have "\<not> starts_with ''/'' (join_with ''/'' ws)"
  proof -
    obtain w ws' where ws: "ws = w # ws'" using assms(1) by (cases ws) auto
    obtain c w' where w: "w = c # w'" "c \<noteq> CHR ''/''" using assms(2) [of w] ws by (cases w) auto
    then show ?thesis by (cases ws') (auto simp: ws starts_with_def)
  qed
  ultimately show "path_join base (join_with ''/'' ws) = base @ ws"
    by (simp add: path_join_def split)
  show "''..'' \<notin> set ws"
    using assms(2) by fastforce
qed

lemma blob_components:
  assumes "store_env_ok env" and "sha256_pattern checksum"
    and "w \<in> set [take 16 (rt_sha256_hex (fe_runtime env) (ak_tenant_id k)), artifact_kind_text (ak_artifact_type k),
       rt_sha256_hex (fe_runtime env) (identity_text k), checksum @ ''.'' @ extension_of (ak_artifact_type k)]"
  shows "CHR ''/'' \<notin> set w \<and> 2 < length w"
proof -
  have hex: "length (rt_sha256_hex (fe_runtime env) x) = 64" "CHR ''/'' \<notin> set (rt_sha256_hex (fe_runtime env) x)" for x
    using assms(1) lower_hex_no_slash by (simp_all add: store_env_ok_def sha256_pattern_def)
  have c: "length checksum = 64" "CHR ''/'' \<notin> set checksum"
    using assms(2) lower_hex_no_slash by (simp_all add: sha256_pattern_def)
  have "CHR ''/'' \<notin> set (artifact_kind_text kind) \<and> CHR ''/'' \<notin> set (extension_of kind) \<and> 2 < length (artifact_kind_text kind)" for kind
    by (cases kind) (simp_all add: extension_of_def)
  moreover have "CHR ''/'' \<notin> set (take 16 (rt_sha256_hex (fe_runtime env) x))" for x
    using hex(2) by (blast dest: in_set_takeD)
  ultimately show ?thesis
    using assms(3) hex c by auto
qed

lemma path_for_storage_key:
  assumes "store_env_ok env" and "sha256_pattern checksum"
  shows "path_for env (storage_key (fe_runtime env) k checksum (extension_of (ak_artifact_type k))) = Inr (blob_path env k checksum)"
proof -
  define ws where "ws = [take 16 (rt_sha256_hex (fe_runtime env) (ak_tenant_id k)), artifact_kind_text (ak_artifact_type k),
       rt_sha256_hex (fe_runtime env) (identity_text k), checksum @ ''.'' @ extension_of (ak_artifact_type k)]"
  have c: "CHR ''/'' \<notin> set w \<and> 2 < length w" if "w \<in> set ws" for w
    using that unfolding ws_def by (rule blob_components [OF assms])
  have ne: "ws \<noteq> []"
    by (simp add: ws_def)
  have "path_join (fe_root env) (join_with ''/'' ws) = fe_root env @ ws" "''..'' \<notin> set ws"
    by (rule path_join_components [OF ne c], assumption)+
  moreover have "blob_path env k checksum = fe_root env @ ws"
    by (simp add: ws_def blob_path_def)
  moreover have "fe_resolve env (fe_root env @ ws) = fe_root env @ ws"
    using assms(1) calculation(2) by (simp add: store_env_ok_def)
  moreover have "storage_key (fe_runtime env) k checksum (extension_of (ak_artifact_type k)) = join_with ''/'' ws"
    by (simp add: ws_def storage_key_def)
  ultimately show ?thesis
    by (simp add: path_for_def Let_def)
qed

lemma blob_path_eq:
  assumes "blob_path env k c = blob_path env k' c'" and "sha256_pattern c" and "sha256_pattern c'"
  shows "rt_sha256_hex (fe_runtime env) (identity_text k) = rt_sha256_hex (fe_runtime env) (identity_text k')" "c = c'"
  using assms by (auto simp: blob_path_def sha256_pattern_def append_eq_append_conv)

lemma blob_path_not_temp: "blob_path env k c \<noteq> temp_path env"
  by (simp add: blob_path_def temp_path_def)

subsection \<open>Upload lemmas\<close>

lemma staged_bytes_Inr: "staged_bytes m chunks w = Inr c \<Longrightarrow> c = w @ concat chunks"
  by (induction m chunks w rule: staged_bytes.induct) (auto split: if_splits)

lemma stage_cases:
  assumes "stage env chunks m n files = (files', r)"
  shows "(\<exists>e. r = Inl e \<and> files' \<in> {files, files(temp_path env := None)}) \<or>
         (concat chunks \<noteq> [] \<and> files' = files(temp_path env \<mapsto> concat chunks) \<and>
          r = Inr \<lparr>st_path = temp_path env, st_checksum_sha256 = rt_sha256_hex (fe_runtime env) (concat chunks),
                   st_size_bytes = int (length (concat chunks))\<rparr>)"
  using assms by (auto simp: stage_def split: if_splits sum.splits dest!: staged_bytes_Inr)

definition staged_upload :: "artifact_env \<Rightarrow> string \<Rightarrow> staged_artifact" where
  "staged_upload env content =
     \<lparr>st_path = temp_path env, st_checksum_sha256 = rt_sha256_hex (fe_runtime env) content,
      st_size_bytes = int (length content)\<rparr>"

lemma receive_cases:
  assumes "receive_artifact env kind rq expected (abi, build_id, ext, limits) files = (files', r)"
  shows "(\<exists>e. r = Inl e \<and> files' \<in> {files, files(temp_path env := None)}) \<or>
         (files' = files(temp_path env \<mapsto> concat (rq_chunks rq)) \<and> r = Inr (staged_upload env (concat (rq_chunks rq))) \<and>
          rt_sha256_hex (fe_runtime env) (concat (rq_chunks rq)) = expected \<and>
          validate_artifact env kind abi build_id (concat (rq_chunks rq)) = Inr ())"
proof -
  obtain m n where l: "limits = (m, n)" by (cases limits)
  obtain files1 r1 where st: "stage env (rq_chunks rq) m n files = (files1, r1)"
    by (cases "stage env (rq_chunks rq) m n files")
  from stage_cases [OF st] show ?thesis
    using assms
    by (auto simp: receive_artifact_def l st discard_def staged_upload_def text_or_empty_def
          split: if_splits sum.splits)
qed

text \<open>The identity under which a request uploads.\<close>

definition uploaded_identity ::
    "artifact_env \<Rightarrow> artifact_settings \<Rightarrow> artifact_kind \<Rightarrow> request \<Rightarrow> artifact_state \<Rightarrow> artifact_key option" where
  "uploaded_identity env settings kind rq s =
     (case upload_labels_of rq of
        Inl _ \<Rightarrow> None
      | Inr l \<Rightarrow>
          (case authenticate_ci_key (fe_auth env) (fe_ci_keys env) (fe_tenants env) (header_get rq ''authorization'')
                  CI_SCOPE_ARTIFACT_WRITE (ul_app_id l) (ax_auth s) of
             (_, Inl _) \<Rightarrow> None
           | (_, Inr p) \<Rightarrow>
               (case upload_format env settings kind rq of
                  Inl _ \<Rightarrow> None
                | Inr (abi, build_id, _) \<Rightarrow> Some (upload_identity kind (cp_tenant_id p) l abi build_id))))"

lemma upload_format_extension:
  "upload_format env settings kind rq = Inr (abi, build_id, ext, limits) \<Longrightarrow> ext = extension_of kind"
  by (auto simp: upload_format_def extension_of_def split: if_splits)

lemma keep_files [simp]: "s\<lparr>ax_auth := auth, ax_files := ax_files s\<rparr> = s\<lparr>ax_auth := auth\<rparr>"
  by (cases s) simp

lemma upload_cases:
  assumes "upload env settings kind rq s = (s', r)"
  obtains (refused) e auth files where "r = Inl e" "s' = s\<lparr>ax_auth := auth, ax_files := files\<rparr>"
      "files \<in> {ax_files s, (ax_files s)(temp_path env := None)}"
  | (recorded) l auth p abi build_id k where "upload_labels_of rq = Inr l"
      "authenticate_ci_key (fe_auth env) (fe_ci_keys env) (fe_tenants env) (header_get rq ''authorization'')
         CI_SCOPE_ARTIFACT_WRITE (ul_app_id l) (ax_auth s) = (auth, Inr p)"
      "k = upload_identity kind (cp_tenant_id p) l abi build_id" "uploaded_identity env settings kind rq s = Some k"
      "rt_sha256_hex (fe_runtime env) (concat (rq_chunks rq)) = ul_checksum l"
      "validate_artifact env kind abi build_id (concat (rq_chunks rq)) = Inr ()"
      "record_artifact env k (cp_key_id p) (rq_request_id rq)
         (storage_key (fe_runtime env) k (rt_sha256_hex (fe_runtime env) (concat (rq_chunks rq))) (extension_of kind))
         (staged_upload env (concat (rq_chunks rq)))
         (s\<lparr>ax_auth := auth, ax_files := (ax_files s)(temp_path env \<mapsto> concat (rq_chunks rq))\<rparr>) = (s', r)"
proof (cases "upload_labels_of rq")
  case (Inl e)
  then show ?thesis
    using assms refused [where e = e and auth = "ax_auth s" and files = "ax_files s"] by (simp add: upload_def)
next
  case labels: (Inr l)
  let ?auth = "authenticate_ci_key (fe_auth env) (fe_ci_keys env) (fe_tenants env) (header_get rq ''authorization'')
      CI_SCOPE_ARTIFACT_WRITE (ul_app_id l) (ax_auth s)"
  obtain auth ar where a: "?auth = (auth, ar)" by (cases ?auth)
  show ?thesis
  proof (cases "(ar, upload_format env settings kind rq)")
    case (Pair x y)
    then consider (e1) e where "ar = Inl e" | (e2) p e where "ar = Inr p" "upload_format env settings kind rq = Inl e"
      | (ok) p abi build_id ext limits where "ar = Inr p" "upload_format env settings kind rq = Inr (abi, build_id, ext, limits)"
      by (cases ar; cases "upload_format env settings kind rq") auto
    then show ?thesis
    proof cases
      case e1
      then show ?thesis using assms labels a refused [where e = e and auth = auth and files = "ax_files s"] by (auto simp: upload_def)
    next
      case e2
      then show ?thesis using assms labels a refused [where e = e and auth = auth and files = "ax_files s"] by (auto simp: upload_def)
    next
      case ok
      obtain files rr where rc: "receive_artifact env kind rq (ul_checksum l) (abi, build_id, ext, limits) (ax_files s) = (files, rr)"
        by (cases "receive_artifact env kind rq (ul_checksum l) (abi, build_id, ext, limits) (ax_files s)")
      from receive_cases [OF rc] show ?thesis
      proof (elim disjE exE conjE)
        fix e assume "rr = Inl e" "files \<in> {ax_files s, (ax_files s)(temp_path env := None)}"
        then show ?thesis
          using assms labels a ok rc refused [where e = e and auth = auth and files = files] by (simp add: upload_def)
      next
        assume "files = (ax_files s)(temp_path env \<mapsto> concat (rq_chunks rq))"
          "rr = Inr (staged_upload env (concat (rq_chunks rq)))"
          "rt_sha256_hex (fe_runtime env) (concat (rq_chunks rq)) = ul_checksum l"
          "validate_artifact env kind abi build_id (concat (rq_chunks rq)) = Inr ()"
        then show ?thesis
          using assms labels a ok rc upload_format_extension [OF ok(2)]
          by (intro recorded [OF labels a [unfolded ok(1)] refl])
            (simp_all add: upload_def uploaded_identity_def Let_def staged_upload_def)
      qed
    qed
  qed
qed

subsection \<open>Integrity of the store\<close>

text \<open>
  A registered artifact is intact when its storage key is the one of its identity and checksum and
  the file under that key has the registered digest and size.
\<close>

definition blob_ok :: "artifact_env \<Rightarrow> files \<Rightarrow> symbol_artifact \<Rightarrow> bool" where
  "blob_ok env files a \<longleftrightarrow>
     sha256_pattern (sa_checksum_sha256 a) \<and>
     sa_storage_key a = storage_key (fe_runtime env) (artifact_key_of a) (sa_checksum_sha256 a) (extension_of (sa_artifact_type a)) \<and>
     (case path_for env (sa_storage_key a) of
        Inl _ \<Rightarrow> False
      | Inr path \<Rightarrow>
          (case files path of
             None \<Rightarrow> False
           | Some content \<Rightarrow>
               rt_sha256_hex (fe_runtime env) content = sa_checksum_sha256 a \<and> int (length content) = sa_size_bytes a))"

definition store_intact :: "artifact_env \<Rightarrow> artifact_state \<Rightarrow> bool" where
  "store_intact env s \<longleftrightarrow>
     uq_symbol_artifact_identity (ax_artifacts s) \<and> list_all (blob_ok env (ax_files s)) (ax_artifacts s)"

text \<open>No digest of a stored identity or file collides with a digest of the upload.\<close>

definition collision_free :: "artifact_env \<Rightarrow> artifact_state \<Rightarrow> artifact_key \<Rightarrow> string \<Rightarrow> bool" where
  "collision_free env s k content \<longleftrightarrow>
     (\<forall>a\<in>set (ax_artifacts s).
        rt_sha256_hex (fe_runtime env) (identity_text (artifact_key_of a)) = rt_sha256_hex (fe_runtime env) (identity_text k) \<longrightarrow>
        artifact_key_of a = k) \<and>
     (\<forall>path c. ax_files s path = Some c \<and> rt_sha256_hex (fe_runtime env) c = rt_sha256_hex (fe_runtime env) content \<longrightarrow>
        c = content)"

lemma blob_ok_iff:
  assumes "store_env_ok env"
  shows "blob_ok env files a \<longleftrightarrow>
     sha256_pattern (sa_checksum_sha256 a) \<and>
     sa_storage_key a = storage_key (fe_runtime env) (artifact_key_of a) (sa_checksum_sha256 a) (extension_of (sa_artifact_type a)) \<and>
     (\<exists>c. files (blob_path env (artifact_key_of a) (sa_checksum_sha256 a)) = Some c \<and>
        rt_sha256_hex (fe_runtime env) c = sa_checksum_sha256 a \<and> int (length c) = sa_size_bytes a)"
  using path_for_storage_key [OF assms, of "sa_checksum_sha256 a" "artifact_key_of a"]
  by (auto simp: blob_ok_def artifact_key_of_def split: option.splits)

lemma blob_ok_temp: "store_env_ok env \<Longrightarrow> blob_ok env (files(temp_path env := v)) a \<longleftrightarrow> blob_ok env files a"
  by (simp add: blob_ok_iff blob_path_not_temp)

lemma sha_pattern: "store_env_ok env \<Longrightarrow> sha256_pattern (rt_sha256_hex (fe_runtime env) x)"
  by (simp add: store_env_ok_def)

lemma promote_upload:
  assumes "store_env_ok env"
  shows "promote env (staged_upload env c)
           (storage_key (fe_runtime env) k (rt_sha256_hex (fe_runtime env) c) (extension_of (ak_artifact_type k)))
           (files(temp_path env \<mapsto> c)) =
         Inr (files(blob_path env k (rt_sha256_hex (fe_runtime env) c) \<mapsto> c, temp_path env := None),
              blob_path env k (rt_sha256_hex (fe_runtime env) c))"
  using path_for_storage_key [OF assms sha_pattern [OF assms]] blob_path_not_temp [of env k "rt_sha256_hex (fe_runtime env) c"]
  by (simp add: promote_def staged_upload_def fun_upd_twist [of "temp_path env"] not_sym)

lemma same_path_same_blob:
  assumes env: "store_env_ok env" and intact: "store_intact env s" and free: "collision_free env s k content"
    and a: "a \<in> set (ax_artifacts s)"
    and path: "blob_path env (artifact_key_of a) (sa_checksum_sha256 a) = blob_path env k (rt_sha256_hex (fe_runtime env) content)"
  shows "artifact_key_of a = k" and "sa_checksum_sha256 a = rt_sha256_hex (fe_runtime env) content"
    and "sa_size_bytes a = int (length content)"
proof -
  have ok: "blob_ok env (ax_files s) a"
    using intact a by (simp add: store_intact_def list_all_iff)
  then have "sha256_pattern (sa_checksum_sha256 a)"
    by (simp add: blob_ok_iff [OF env])
  note eq = blob_path_eq [OF path this sha_pattern [OF env]]
  show "artifact_key_of a = k" and sum: "sa_checksum_sha256 a = rt_sha256_hex (fe_runtime env) content"
    using free a eq by (auto simp: collision_free_def)
  obtain path c where c: "ax_files s path = Some c" "rt_sha256_hex (fe_runtime env) c = sa_checksum_sha256 a"
    "int (length c) = sa_size_bytes a"
    using ok by (auto simp: blob_ok_iff [OF env])
  then have "c = content"
    using free sum unfolding collision_free_def by metis
  then show "sa_size_bytes a = int (length content)"
    using c by simp
qed

lemma promoted_keeps:
  assumes env: "store_env_ok env" and intact: "store_intact env s" and free: "collision_free env s k content"
    and a: "a \<in> set (ax_artifacts s)"
  shows "blob_ok env ((ax_files s)(blob_path env k (rt_sha256_hex (fe_runtime env) content) \<mapsto> content, temp_path env := None)) a"
proof -
  have ok: "blob_ok env (ax_files s) a"
    using intact a by (simp add: store_intact_def list_all_iff)
  show ?thesis
    using ok same_path_same_blob [OF env intact free a] by (auto simp: blob_ok_temp [OF env]) (auto simp: blob_ok_iff [OF env])
qed

lemma conflict_keeps:
  assumes env: "store_env_ok env" and intact: "store_intact env s" and free: "collision_free env s k content"
    and a: "a \<in> set (ax_artifacts s)" and b: "b \<in> set (ax_artifacts s)" "artifact_key_of b = k"
    and differ: "sa_checksum_sha256 b \<noteq> rt_sha256_hex (fe_runtime env) content \<or> sa_size_bytes b \<noteq> int (length content)"
  shows "blob_ok env ((ax_files s)(blob_path env k (rt_sha256_hex (fe_runtime env) content) := None, temp_path env := None)) a"
proof -
  have ok: "blob_ok env (ax_files s) a"
    using intact a by (simp add: store_intact_def list_all_iff)
  have "blob_path env (artifact_key_of a) (sa_checksum_sha256 a) \<noteq> blob_path env k (rt_sha256_hex (fe_runtime env) content)"
  proof
    assume eq: "blob_path env (artifact_key_of a) (sa_checksum_sha256 a) = blob_path env k (rt_sha256_hex (fe_runtime env) content)"
    have "inj_on artifact_identity (set (ax_artifacts s))"
      using intact by (simp add: store_intact_def uq_symbol_artifact_identity_def distinct_map)
    then have "a = b"
      using a b same_path_same_blob(1) [OF env intact free a eq] by (auto simp: inj_on_def artifact_identity_key)
    then show False
      using differ same_path_same_blob(2,3) [OF env intact free a eq] by blast
  qed
  then show ?thesis
    using ok by (simp add: blob_ok_temp [OF env]) (simp add: blob_ok_iff [OF env])
qed

lemma artifact_row_simps [simp]:
  "artifact_key_of (artifact_row env k staged key uploaded_by tbl) = k"
  "sa_checksum_sha256 (artifact_row env k staged key uploaded_by tbl) = st_checksum_sha256 staged"
  "sa_size_bytes (artifact_row env k staged key uploaded_by tbl) = st_size_bytes staged"
  "sa_storage_key (artifact_row env k staged key uploaded_by tbl) = key"
  "sa_artifact_type (artifact_row env k staged key uploaded_by tbl) = ak_artifact_type k"
  by (cases k; simp add: artifact_key_of_def artifact_row_def)+

lemma find_snoc: "(\<And>x. x \<in> set xs \<Longrightarrow> \<not> P x) \<Longrightarrow> P y \<Longrightarrow> find P (xs @ [y]) = Some y"
  by (induction xs) auto

lemma register_cases:
  assumes "register_artifact env k staged key uploaded_by tbl = Inr (tbl', reg)"
  shows "artifact_key_of (ag_artifact reg) = k \<and> ag_artifact reg \<in> set tbl' \<and>
         ag_conflict reg = (sa_checksum_sha256 (ag_artifact reg) \<noteq> st_checksum_sha256 staged \<or>
                            sa_size_bytes (ag_artifact reg) \<noteq> st_size_bytes staged) \<and>
         (if ag_inserted reg
          then tbl' = tbl @ [artifact_row env k staged key uploaded_by tbl] \<and> (\<forall>a\<in>set tbl. artifact_key_of a \<noteq> k) \<and>
               ag_artifact reg = artifact_row env k staged key uploaded_by tbl
          else tbl' = tbl)"
proof (cases "list_ex (artifact_matches k) tbl")
  case True
  then show ?thesis
    using assms
    by (auto simp: register_artifact_def Let_def find_Some_iff artifact_matches_key split: dialect.splits option.splits)
next
  case False
  have none: "\<forall>a\<in>set tbl. artifact_key_of a \<noteq> k"
    using False by (auto simp: list_ex_iff artifact_matches_key)
  then have "find (artifact_matches k) (tbl @ [artifact_row env k staged key uploaded_by tbl]) =
      Some (artifact_row env k staged key uploaded_by tbl)"
    by (intro find_snoc) (auto simp: artifact_matches_key)
  then show ?thesis
    using assms False none
    by (auto simp: register_artifact_def Let_def split: dialect.splits)
qed

lemma record_artifact_cases:
  assumes env: "store_env_ok env" and kind: "ak_artifact_type k = kind"
    and rec: "record_artifact env k key_id request_id
      (storage_key (fe_runtime env) k (rt_sha256_hex (fe_runtime env) content) (extension_of kind)) (staged_upload env content)
      (s\<lparr>ax_auth := auth, ax_files := (ax_files s)(temp_path env \<mapsto> content)\<rparr>) = (s', r)"
  obtains (failed) e where "r = Inl e" "ax_artifacts s' = ax_artifacts s"
      "ax_files s' = (ax_files s)(blob_path env k (rt_sha256_hex (fe_runtime env) content) \<mapsto> content, temp_path env := None)"
  | (conflict) e b where "r = Inl e" "ax_artifacts s' = ax_artifacts s" "b \<in> set (ax_artifacts s)" "artifact_key_of b = k"
      "sa_checksum_sha256 b \<noteq> rt_sha256_hex (fe_runtime env) content \<or> sa_size_bytes b \<noteq> int (length content)"
      "ax_files s' = (ax_files s)(blob_path env k (rt_sha256_hex (fe_runtime env) content) := None, temp_path env := None)"
  | (stored) reg where "ax_files s' = (ax_files s)(blob_path env k (rt_sha256_hex (fe_runtime env) content) \<mapsto> content, temp_path env := None)"
      "register_artifact env k (staged_upload env content)
         (storage_key (fe_runtime env) k (rt_sha256_hex (fe_runtime env) content) (extension_of kind)) key_id (ax_artifacts s) =
       Inr (ax_artifacts s', reg)" "\<not> ag_conflict reg"
      "ax_jobs s' = fst (requeue_matching_missing_jobs (fe_runtime env) k (fe_now env) (ax_inbox s) (ax_jobs s))"
      "ax_inbox s' = ax_inbox s"
      "ax_audit s' = ax_audit s @ [upload_audit env k key_id request_id (if ag_inserted reg then ''success'' else ''duplicate'')
         (staged_upload env content) (sa_id (ag_artifact reg))]"
      "r = Inr \<lparr>aa_artifact_id = sa_id (ag_artifact reg), aa_status = ''accepted'', aa_duplicate = \<not> ag_inserted reg,
                aa_checksum_sha256 = sa_checksum_sha256 (ag_artifact reg), aa_size_bytes = sa_size_bytes (ag_artifact reg)\<rparr>"
proof -
  let ?P = "blob_path env k (rt_sha256_hex (fe_runtime env) content)"
  let ?reg = "register_artifact env k (staged_upload env content)
      (storage_key (fe_runtime env) k (rt_sha256_hex (fe_runtime env) content) (extension_of kind)) key_id (ax_artifacts s)"
  note pr = promote_upload [OF env, of content k "ax_files s", unfolded kind]
  have P: "?P \<noteq> temp_path env" by (rule blob_path_not_temp)
  show ?thesis
  proof (cases ?reg)
    case (Inl e)
    then show ?thesis
      using rec pr failed [of e] by (auto simp: record_artifact_def)
  next
    case (Inr x)
    then obtain tbl reg where reg: "?reg = Inr (tbl, reg)" by (cases x) auto
    note rc = register_cases [OF reg]
    show ?thesis
    proof (cases "ag_conflict reg")
      case True
      have "\<not> ag_inserted reg"
      proof
        assume "ag_inserted reg"
        then have "ag_artifact reg = artifact_row env k (staged_upload env content)
            (storage_key (fe_runtime env) k (rt_sha256_hex (fe_runtime env) content) (extension_of kind)) key_id (ax_artifacts s)"
          using rc by simp
        then show False
          using True rc by simp
      qed
      then show ?thesis
        using rec pr reg True rc P conflict [of _ "ag_artifact reg"]
        by (auto simp: record_artifact_def discard_def staged_upload_def fun_upd_twist [of "temp_path env"])
    next
      case False
      then show ?thesis
        using rec pr reg stored [of reg] by (auto simp: record_artifact_def)
    qed
  qed
qed

lemma uploaded_identity_kind: "uploaded_identity env settings kind rq s = Some k \<Longrightarrow> ak_artifact_type k = kind"
  by (auto simp: uploaded_identity_def upload_identity_def split: sum.splits prod.splits)

lemma stored_blob_ok:
  assumes "store_env_ok env" and "files (blob_path env k (rt_sha256_hex (fe_runtime env) content)) = Some content"
  shows "blob_ok env files (artifact_row env k (staged_upload env content)
    (storage_key (fe_runtime env) k (rt_sha256_hex (fe_runtime env) content) (extension_of (ak_artifact_type k))) key_id tbl)"
  using assms sha_pattern [OF assms(1)] by (simp add: blob_ok_iff staged_upload_def)

lemma uq_snoc:
  assumes "uq_symbol_artifact_identity tbl" and "\<forall>a\<in>set tbl. artifact_key_of a \<noteq> artifact_key_of b"
  shows "uq_symbol_artifact_identity (tbl @ [b])"
  using assms by (auto simp: uq_symbol_artifact_identity_def artifact_identity_key)

lemma upload_store:
  assumes env: "store_env_ok env" and intact: "store_intact env s"
    and up: "upload env settings kind rq s = (s', r)"
    and free: "\<And>k. uploaded_identity env settings kind rq s = Some k \<Longrightarrow> collision_free env s k (concat (rq_chunks rq))"
  shows "store_intact env s'" and "\<exists>added. ax_artifacts s' = ax_artifacts s @ added \<and> length added \<le> 1"
proof -
  have "store_intact env s' \<and> (\<exists>added. ax_artifacts s' = ax_artifacts s @ added \<and> length added \<le> 1)"
    using up
  proof (cases rule: upload_cases)
    case (refused e auth files)
    then show ?thesis
      using intact by (auto simp: store_intact_def list_all_iff blob_ok_temp [OF env])
  next
    case (recorded l auth p abi build_id k)
    let ?c = "concat (rq_chunks rq)"
    note k = uploaded_identity_kind [OF recorded(4)]
    note fr = free [OF recorded(4)]
    have uq: "uq_symbol_artifact_identity (ax_artifacts s)"
      using intact by (simp add: store_intact_def)
    from env k recorded(7) show ?thesis
    proof (cases rule: record_artifact_cases)
      case failed
      then show ?thesis
        using uq promoted_keeps [OF env intact fr] by (simp add: store_intact_def list_all_iff)
    next
      case (conflict e b)
      then show ?thesis
        using uq conflict_keeps [OF env intact fr _ conflict(3,4,5)] by (simp add: store_intact_def list_all_iff)
    next
      case (stored reg)
      note rc = register_cases [OF stored(2)]
      have old: "blob_ok env (ax_files s') a" if "a \<in> set (ax_artifacts s)" for a
        unfolding stored(1) by (rule promoted_keeps [OF env intact fr that])
      show ?thesis
      proof (cases "ag_inserted reg")
        case True
        have "ax_files s' (blob_path env k (rt_sha256_hex (fe_runtime env) ?c)) = Some ?c"
          by (simp add: stored(1) blob_path_not_temp)
        from stored_blob_ok [where files = "ax_files s'" and k = k and content = ?c, OF env this] show ?thesis
          using True rc uq old k by (auto simp: store_intact_def list_all_iff intro!: uq_snoc)
      next
        case False
        then show ?thesis
          using rc uq old by (simp add: store_intact_def list_all_iff)
      qed
    qed
  qed
  then show "store_intact env s'" and "\<exists>added. ax_artifacts s' = ax_artifacts s @ added \<and> length added \<le> 1"
    by blast+
qed

lemma requeued_none_missing:
  assumes "j \<in> set (fst (requeue_matching_missing_jobs rt k now inbox jobs))"
    and "r \<in> set inbox" and "requeue_candidate k j r" and "job_matches_artifact rt k j r"
  shows False
proof -
  let ?wake = "\<lambda>j. sj_status j = SS_symbols_missing \<and>
      list_ex (\<lambda>r. requeue_candidate k j r \<and> job_matches_artifact rt k j r) inbox"
  have missing: "sj_status j = SS_symbols_missing"
    using assms(3) by (simp add: requeue_candidate_def)
  with assms(1) have "\<not> ?wake j"
    unfolding requeue_matching_missing_jobs_def Let_def fst_conv by (elim sql_updateE) auto
  then show False
    using missing assms(2-4) by (auto simp: list_ex_iff)
qed

subsection \<open>Properties\<close>

definition sample_sha :: "string \<Rightarrow> string" where
  "sample_sha s = replicate 64 (hex_digit (length s mod 16))"

definition sample_artifact_env :: artifact_env where
  "sample_artifact_env =
     \<lparr>fe_runtime = sample_runtime\<lparr>rt_sha256_hex := sample_sha\<rparr>, fe_auth = sample_auth_env, fe_ci_keys = [sample_ci_key],
      fe_tenants = [sample_tenant], fe_dialect = Sqlite, fe_now = 60, fe_root = [''srv''], fe_resolve = (\<lambda>p. p),
      fe_temp = ''upload-1.tmp'', fe_elf = (\<lambda>_. None), fe_nul_first = False\<rparr>"

definition sample_mapping :: string where
  "sample_mapping = ''a.B -> c.D:'' @ [char_of (10::nat)]"

definition sample_upload :: request where
  "sample_upload =
     \<lparr>rq_headers = [(''x-apm-app-id'', ''app''), (''x-apm-version-code'', ''7''), (''x-apm-app-build'', ''b7''),
                    (''x-apm-variant'', ''release''), (''x-apm-checksum-sha256'', sample_sha sample_mapping),
                    (''authorization'', ''Bearer apmci1_'' @ ck_key_id sample_ci_key @ ''_pw''), (''content-type'', ''text/plain'')],
      rq_chunks = [sample_mapping], rq_request_id = ''r''\<rparr>"

definition sample_artifact_state :: artifact_state where
  "sample_artifact_state =
     \<lparr>ax_auth = initial_auth_state 0, ax_files = (\<lambda>_. None), ax_artifacts = [], ax_inbox = [], ax_jobs = [], ax_audit = []\<rparr>"

lemma hex_digit_lower: "d < 16 \<Longrightarrow> is_lower_hex (hex_digit d)"
  by (auto simp: hex_digit_def is_lower_hex_def is_digit_def byte_def)

lemma sample_sha_pattern: "sha256_pattern (sample_sha s)"
  by (simp add: sha256_pattern_def sample_sha_def list_all_iff hex_digit_lower)

lemma sample_store_env_ok: "store_env_ok sample_artifact_env"
  by (simp add: store_env_ok_def sample_artifact_env_def sample_sha_pattern)

lemma sample_store_intact:
  "store_intact sample_artifact_env sample_artifact_state" "collision_free sample_artifact_env sample_artifact_state k c"
  by (simp_all add: store_intact_def collision_free_def sample_artifact_state_def uq_symbol_artifact_identity_def)

lemma sample_upload_accepted:
  "upload sample_artifact_env \<lparr>fs_max_java_mapping_bytes = 100, fs_max_native_elf_bytes = 100\<rparr> Java_mapping sample_upload
     sample_artifact_state =
   (fst (upload sample_artifact_env \<lparr>fs_max_java_mapping_bytes = 100, fs_max_native_elf_bytes = 100\<rparr> Java_mapping sample_upload
     sample_artifact_state),
    Inr \<lparr>aa_artifact_id = 1, aa_status = ''accepted'', aa_duplicate = False, aa_checksum_sha256 = sample_sha sample_mapping,
         aa_size_bytes = 12\<rparr>)"
proof -
  have "snd (upload sample_artifact_env \<lparr>fs_max_java_mapping_bytes = 100, fs_max_native_elf_bytes = 100\<rparr> Java_mapping
      sample_upload sample_artifact_state) =
    Inr \<lparr>aa_artifact_id = 1, aa_status = ''accepted'', aa_duplicate = False, aa_checksum_sha256 = sample_sha sample_mapping,
         aa_size_bytes = 12\<rparr>"
    by code_simp
  then show ?thesis
    by (simp add: prod_eq_iff)
qed

text \<open>
  C6. The artifact store stays intact. Whatever an upload request is and however it ends (refused,
  failed, conflicting, duplicate or accepted), every registered artifact keeps its row, the build
  identities stay unique, at most one row is added, and behind every row the file under its storage
  key exists, has the registered size and hashes to the registered digest. Assumed are the shape of
  SHA-256 digests, that no link lies below the private root, and that the digests of this upload
  collide with none of the store.
\<close>

theorem artifact_store_integrity:
  assumes "store_env_ok env" and "store_intact env s"
    and "\<And>k. uploaded_identity env settings kind rq s = Some k \<Longrightarrow> collision_free env s k (concat (rq_chunks rq))"
  shows "store_intact env (fst (upload env settings kind rq s)) \<and>
         (\<exists>added. ax_artifacts (fst (upload env settings kind rq s)) = ax_artifacts s @ added \<and> length added \<le> 1)"
proof (cases "upload env settings kind rq s")
  case (Pair s' r)
  then show ?thesis
    using upload_store [OF assms(1,2) Pair assms(3)] by simp
qed

theorem artifact_store_integrity_witness:
  "store_intact sample_artifact_env (fst (upload sample_artifact_env
     \<lparr>fs_max_java_mapping_bytes = 100, fs_max_native_elf_bytes = 100\<rparr> Java_mapping sample_upload sample_artifact_state))"
  using artifact_store_integrity [OF sample_store_env_ok sample_store_intact(1) sample_store_intact(2)] by blast

text \<open>
  C18. What an accepted upload means: the CI key was authenticated with the artifact scope for the
  app; the row carries exactly the declared build identity under the key's tenant, the declared
  checksum and the size of the body; the stored file is the body, which passed the format checks of
  its kind (for an ELF with the declared ABI and build id); an audit entry was added; and no
  symbolization job of that build that lacked this artifact is left waiting.
\<close>

theorem accepted_artifact_is_stored:
  assumes env: "store_env_ok env"
    and intact: "store_intact env s"
    and up: "upload env settings kind rq s = (s', Inr ack)"
    and free: "\<And>k. uploaded_identity env settings kind rq s = Some k \<Longrightarrow> collision_free env s k (concat (rq_chunks rq))"
  shows "\<exists>l auth p abi build_id a.
           upload_labels_of rq = Inr l \<and>
           authenticate_ci_key (fe_auth env) (fe_ci_keys env) (fe_tenants env) (header_get rq ''authorization'')
             CI_SCOPE_ARTIFACT_WRITE (ul_app_id l) (ax_auth s) = (auth, Inr p) \<and>
           a \<in> set (ax_artifacts s') \<and> sa_id a = aa_artifact_id ack \<and>
           artifact_key_of a = upload_identity kind (cp_tenant_id p) l abi build_id \<and>
           sa_checksum_sha256 a = ul_checksum l \<and> sa_size_bytes a = int (length (concat (rq_chunks rq))) \<and>
           validate_artifact env kind abi build_id (concat (rq_chunks rq)) = Inr () \<and>
           (\<exists>path. path_for env (sa_storage_key a) = Inr path \<and> ax_files s' path = Some (concat (rq_chunks rq))) \<and>
           length (ax_audit s') = length (ax_audit s) + 1 \<and>
           (\<forall>j\<in>set (ax_jobs s'). \<forall>r\<in>set (ax_inbox s').
              \<not> (requeue_candidate (artifact_key_of a) j r \<and> job_matches_artifact (fe_runtime env) (artifact_key_of a) j r))"
  using up
proof (cases rule: upload_cases)
  case (recorded l auth p abi build_id k)
  let ?c = "concat (rq_chunks rq)"
  note kk = uploaded_identity_kind [OF recorded(4)]
  from env kk recorded(7) show ?thesis
  proof (cases rule: record_artifact_cases)
    case (stored reg)
    let ?a = "ag_artifact reg"
    note rc = register_cases [OF stored(2)]
    have sum: "sa_checksum_sha256 ?a = rt_sha256_hex (fe_runtime env) ?c" "sa_size_bytes ?a = int (length ?c)"
      using rc stored(3) by (auto simp: staged_upload_def)
    have a: "?a \<in> set (ax_artifacts s')" "artifact_key_of ?a = k"
      using rc by auto
    then have "blob_ok env (ax_files s') ?a"
      using upload_store(1) [OF env intact up free] by (simp add: store_intact_def list_all_iff)
    then have key: "sa_storage_key ?a = storage_key (fe_runtime env) k (rt_sha256_hex (fe_runtime env) ?c) (extension_of (ak_artifact_type k))"
      using a(2) sum by (auto simp: blob_ok_iff [OF env] artifact_key_of_def)
    have "path_for env (sa_storage_key ?a) = Inr (blob_path env k (rt_sha256_hex (fe_runtime env) ?c))"
      unfolding key by (rule path_for_storage_key [OF env sha_pattern [OF env]])
    moreover have "ax_files s' (blob_path env k (rt_sha256_hex (fe_runtime env) ?c)) = Some ?c"
      by (simp add: stored(1) blob_path_not_temp)
    moreover have "\<not> (requeue_candidate k j r \<and> job_matches_artifact (fe_runtime env) k j r)"
      if "j \<in> set (ax_jobs s')" "r \<in> set (ax_inbox s')" for j r
      using requeued_none_missing that stored(4,5) by metis
    moreover have "sa_id ?a = aa_artifact_id ack" "length (ax_audit s') = length (ax_audit s) + 1"
      using stored(6,7) by simp_all
    ultimately show ?thesis
      using recorded(1,2,3,5,6) a sum
      by (intro exI [of _ l] exI [of _ auth] exI [of _ p] exI [of _ abi] exI [of _ build_id] exI [of _ ?a]) simp
  qed simp_all
qed simp

theorem accepted_artifact_is_stored_witness:
  "\<exists>a path. a \<in> set (ax_artifacts (fst (upload sample_artifact_env
       \<lparr>fs_max_java_mapping_bytes = 100, fs_max_native_elf_bytes = 100\<rparr> Java_mapping sample_upload sample_artifact_state))) \<and>
     sa_id a = 1 \<and> path_for sample_artifact_env (sa_storage_key a) = Inr path \<and>
     ax_files (fst (upload sample_artifact_env \<lparr>fs_max_java_mapping_bytes = 100, fs_max_native_elf_bytes = 100\<rparr> Java_mapping
       sample_upload sample_artifact_state)) path = Some sample_mapping"
proof -
  have "concat (rq_chunks sample_upload) = sample_mapping"
    by (simp add: sample_upload_def)
  then show ?thesis
    using accepted_artifact_is_stored [OF sample_store_env_ok sample_store_intact(1) sample_upload_accepted sample_store_intact(2)]
    by auto
qed

end
