(* ===== verification/Apm_Otlp.thy ===== *)
theory Apm_Otlp
  imports Apm_Grouping Apm_Symbol_Jobs
begin

section \<open>OTLP mapping and transport\<close>

text \<open>
  \<^verbatim>\<open>otlp/logs.py\<close> and \<^verbatim>\<open>otlp/client.py\<close>: the mapping of claimed inbox rows to one OTLP logs request
  and the classification of what the collector answers. The generated message classes are records;
  their range checks (\<open>fixed64\<close> for the two times, \<open>int64\<close> for an integer value) raise \<open>ValueError\<close>.
  \<open>otlp_env\<close> holds what is not decided here: \<open>str\<close> of a list or dictionary and the binary64 product
  that turns the reception time into nanoseconds. \<open>Inl\<close> is the name of the raised mapping error.
\<close>

record otlp_env =
  oe_runtime :: runtime
  oe_repr :: "json \<Rightarrow> string"
  oe_observed_nano :: "time \<Rightarrow> int"

subsection \<open>Messages\<close>

datatype any_value = AV_bool bool | AV_int int | AV_double pyfloat | AV_string string

type_synonym key_values = "(string \<times> any_value) list"

record log_record =
  lr_time_unix_nano :: int
  lr_observed_time_unix_nano :: int
  lr_severity_number :: int
  lr_severity_text :: string
  lr_body :: any_value
  lr_attributes :: key_values

record resource_logs =
  rl_resource :: key_values
  rl_scope :: "string \<times> string"
  rl_log_records :: "log_record list"
  rl_schema_url :: string

type_synonym export_logs_request = "resource_logs list"

definition SCOPE_NAME :: string where [consts_simps]: "SCOPE_NAME = ''androidapm-server''"
definition SCOPE_VERSION :: string where [consts_simps]: "SCOPE_VERSION = ''0.1.0''"

definition SEVERITY_NUMBERS :: "(string \<times> int) list" where
  "SEVERITY_NUMBERS = [(''DEBUG'', 5), (''INFO'', 9), (''WARN'', 13), (''ERROR'', 17), (''FATAL'', 21)]"

definition fixed64 :: "int \<Rightarrow> string + int" where
  "fixed64 i = (if 0 \<le> i \<and> i < 2 ^ 64 then Inr i else Inl ''ValueError'')"

definition int64 :: "int \<Rightarrow> string + int" where
  "int64 i = (if - (2 ^ 63) \<le> i \<and> i < 2 ^ 63 then Inr i else Inl ''ValueError'')"

subsection \<open>Values\<close>

fun py_str_json :: "otlp_env \<Rightarrow> json \<Rightarrow> string" where
  "py_str_json env (JScalar s) = py_str (oe_runtime env) s"
| "py_str_json env v = oe_repr env v"

fun any_value_of :: "otlp_env \<Rightarrow> json \<Rightarrow> string + any_value" where
  "any_value_of env (JScalar (SBool b)) = Inr (AV_bool b)"
| "any_value_of env (JScalar (SInt i)) = rbind (int64 i) (\<lambda>i. Inr (AV_int i))"
| "any_value_of env (JScalar (SFloat f)) = Inr (AV_double f)"
| "any_value_of env (JScalar SNone) = Inr (AV_string [])"
| "any_value_of env v = Inr (AV_string (py_str_json env v))"

definition key_values_of :: "otlp_env \<Rightarrow> dict \<Rightarrow> string + key_values" where
  "key_values_of env d = rmap (\<lambda>(k, v). rbind (any_value_of env v) (\<lambda>a. Inr (k, a))) (sort_key fst d)"

definition INTEGER_FIELD_NAMES :: "string list" where
  "INTEGER_FIELD_NAMES =
     [''statusCode'', ''requestSize'', ''responseSize'', ''totalRequests'', ''successCount'', ''errorCount'', ''emitCount'',
      ''dropCount'', ''queueSize'', ''internalErrorCount'', ''diagnosticDroppedCount'', ''diagnosticWriteFailureCount'',
      ''frameCount'', ''slowFrameCount'', ''droppedFrames'', ''jankCount'', ''frozenCount'', ''phaseContentProviderCount'',
      ''viewCount'', ''maxDepth'']"

definition FLOAT_FIELD_NAMES :: "string list" where
  "FLOAT_FIELD_NAMES =
     [''durationMs'', ''avgDurationMs'', ''maxDurationMs'', ''dnsMs'', ''tcpMs'', ''tlsMs'', ''requestHeaderMs'',
      ''responseHeaderMs'', ''responseBodyMs'', ''launchDurationMs'', ''backgroundDurationMs'', ''phaseAppCreateMs'',
      ''phaseContentProviderMs'', ''phaseActivityCreateMs'', ''phaseBeforeActivityMs'', ''phaseActivityLifecycleMs'',
      ''phaseFirstFrameMs'', ''bottleneckDurationMs'', ''bottleneckRatioPercent'', ''dropRate'', ''avgUploadLatencyMs'',
      ''maxUploadLatencyMs'', ''fps'', ''refreshRate'', ''averageFrameMs'', ''maxFrameMs'']"

definition BOOLEAN_FIELD_NAMES :: "string list" where
  "BOOLEAN_FIELD_NAMES = [''isSlow'', ''isColdStart'']"

text \<open>
  \<open>int(value)\<close> and \<open>float(value)\<close> of a JSON value: a \<open>TypeError\<close> or \<open>ValueError\<close> is \<open>Inr None\<close>, which
  keeps the value; the \<open>OverflowError\<close> of an infinite or huge number is not caught.
\<close>

fun coerced_int :: "runtime \<Rightarrow> json \<Rightarrow> string + int option" where
  "coerced_int rt (JScalar (SBool b)) = Inr (Some (if b then 1 else 0))"
| "coerced_int rt (JScalar (SInt i)) = Inr (Some i)"
| "coerced_int rt (JScalar (SFloat f)) =
     (case f of PosInf \<Rightarrow> Inl ''OverflowError'' | NegInf \<Rightarrow> Inl ''OverflowError'' | NaN \<Rightarrow> Inr None
      | _ \<Rightarrow> (case finite_value f of None \<Rightarrow> Inr None
              | Some q \<Rightarrow> Inr (Some (if q < 0 then - \<lfloor>- q\<rfloor> else \<lfloor>q\<rfloor>))))"
| "coerced_int rt (JScalar (SStr s)) = Inr (py_int rt s)"
| "coerced_int rt v = Inr None"

fun coerced_float :: "runtime \<Rightarrow> json \<Rightarrow> string + pyfloat option" where
  "coerced_float rt (JScalar (SBool b)) = Inr (Some (Fin (if b then 1 else 0)))"
| "coerced_float rt (JScalar (SInt i)) =
     (case rt_float_of_int rt i of None \<Rightarrow> Inl ''OverflowError'' | Some f \<Rightarrow> Inr (Some f))"
| "coerced_float rt (JScalar (SFloat f)) = Inr (Some f)"
| "coerced_float rt (JScalar (SStr s)) = Inr (rt_float_of_str rt s)"
| "coerced_float rt v = Inr None"

definition coerce_field :: "runtime \<Rightarrow> string \<Rightarrow> json \<Rightarrow> string + json" where
  "coerce_field rt key v =
     (if key \<in> set INTEGER_FIELD_NAMES
      then rbind (coerced_int rt v) (\<lambda>r. Inr (case r of None \<Rightarrow> v | Some i \<Rightarrow> jint i))
      else if key \<in> set FLOAT_FIELD_NAMES
      then rbind (coerced_float rt v) (\<lambda>r. Inr (case r of None \<Rightarrow> v | Some f \<Rightarrow> JScalar (SFloat f)))
      else if key \<in> set BOOLEAN_FIELD_NAMES
      then (case str_of v of
              None \<Rightarrow> Inr v
            | Some s \<Rightarrow> Inr (if py_lower s = ''true'' then jbool True
                             else if py_lower s = ''false'' then jbool False else v))
      else Inr v)"

fun merge_entries :: "runtime \<Rightarrow> string \<Rightarrow> bool \<Rightarrow> dict \<Rightarrow> dict \<Rightarrow> string + dict" where
  "merge_entries rt pre coerce [] target = Inr target"
| "merge_entries rt pre coerce ((k, v) # kvs) target =
     rbind (if coerce then coerce_field rt k v else Inr v) (\<lambda>v'.
       merge_entries rt pre coerce kvs (dict_put (pre @ k) v' target))"

definition merge_prefixed :: "runtime \<Rightarrow> dict \<Rightarrow> string \<Rightarrow> json option \<Rightarrow> bool \<Rightarrow> string + dict" where
  "merge_prefixed rt target pre source coerce =
     (case Option.bind source obj_of of
        None \<Rightarrow> Inr target
      | Some kvs \<Rightarrow> merge_entries rt pre coerce kvs target)"

subsection \<open>Log records\<close>

definition payload_text :: "otlp_env \<Rightarrow> dict \<Rightarrow> string \<Rightarrow> string + string" where
  "payload_text env payload key =
     (case map_of payload key of None \<Rightarrow> Inl ''KeyError'' | Some v \<Rightarrow> Inr (py_str_json env v))"

definition put_text :: "string \<Rightarrow> string option \<Rightarrow> dict \<Rightarrow> dict" where
  "put_text key v d = (case v of None \<Rightarrow> d | Some s \<Rightarrow> if s = [] then d else dict_put key (jstr s) d)"

definition put_payload :: "dict \<Rightarrow> string \<Rightarrow> dict \<Rightarrow> dict" where
  "put_payload payload key d =
     (case map_of payload key of
        None \<Rightarrow> d
      | Some v \<Rightarrow> if v = jnull then d else dict_put (''android.apm.'' @ key) v d)"

definition identity_attributes :: "otlp_env \<Rightarrow> inbox_event \<Rightarrow> string + dict" where
  "identity_attributes env r =
     rbind (payload_text env (ie_payload_json r) ''module'') (\<lambda>event_module.
     rbind (payload_text env (ie_payload_json r) ''name'') (\<lambda>name.
     rbind (payload_text env (ie_payload_json r) ''kind'') (\<lambda>kind.
     rbind (payload_text env (ie_payload_json r) ''priority'') (\<lambda>priority.
     rbind (payload_text env (ie_payload_json r) ''thread_name'') (\<lambda>thread_name.
       Inr [(''android.apm.event_id'', jstr (ie_event_id r)), (''android.apm.module'', jstr event_module),
            (''android.apm.name'', jstr name), (''android.apm.kind'', jstr kind), (''android.apm.priority'', jstr priority),
            (''android.apm.thread.name'', jstr thread_name), (''android.apm.protocol'', jstr (ie_protocol r)),
            (''android.apm.schema_version'', jstr (ie_schema_version r)),
            (''android.apm.scope_identity_quality'', jstr (quality_value (ie_scope_identity_quality r))),
            (''android.apm.release_identity_quality'', jstr (quality_value (ie_release_identity_quality r))),
            (''android.apm.installation_identity_quality'', jstr (quality_value (ie_installation_identity_quality r))),
            (''android.apm.timestamp_quality'', jstr (ie_timestamp_quality r)),
            (''android.apm.normalization_version'', jint (ie_normalization_version r))])))))"

definition symbolization_attributes :: "symbolization_job option \<Rightarrow> dict \<Rightarrow> dict" where
  "symbolization_attributes job d =
     (case job of
        None \<Rightarrow> d
      | Some j \<Rightarrow>
          put_text ''android.apm.symbolization.tool_version'' (sj_tool_version j)
            (put_text ''android.apm.symbolization.tool'' (sj_tool_name j)
              (put_text ''android.apm.crash.fingerprint'' (sj_fingerprint_sha256 j)
                (dict_put ''android.apm.symbolization.status'' (jstr (symbol_status_text (sj_status j))) d))))"

definition log_attributes :: "otlp_env \<Rightarrow> symbolization_job list \<Rightarrow> inbox_event \<Rightarrow> string + dict" where
  "log_attributes env jobs r =
     rbind (identity_attributes env r) (\<lambda>attributes.
     rbind (merge_prefixed (oe_runtime env)
              (put_payload (ie_payload_json r) ''foreground'' (put_payload (ie_payload_json r) ''scene'' attributes))
              ''android.apm.field.'' (obj_get ''indexed_attributes'' (ie_normalized_json r)) False) (\<lambda>attributes.
       Inr (symbolization_attributes (find (\<lambda>j. sj_inbox_event_id j = ie_id r) jobs)
              (put_text ''android.apm.incident.fingerprint'' (ie_incident_fingerprint r)
                (put_text ''android.apm.installation.hmac_key_version'' (ie_installation_hmac_key_version r)
                  (put_text ''android.apm.installation.hmac'' (ie_installation_hmac r) attributes))))))"

definition log_record_of :: "otlp_env \<Rightarrow> symbolization_job list \<Rightarrow> inbox_event \<Rightarrow> string + log_record" where
  "log_record_of env jobs r =
     rbind (payload_text env (ie_payload_json r) ''module'') (\<lambda>event_module.
     rbind (payload_text env (ie_payload_json r) ''name'') (\<lambda>name.
     rbind (payload_text env (ie_payload_json r) ''severity'') (\<lambda>severity.
     rbind (log_attributes env jobs r) (\<lambda>attributes.
     rbind (key_values_of env attributes) (\<lambda>kvs.
     rbind (fixed64 ((if ie_occurrence_timestamp_ms r \<noteq> 0 then ie_occurrence_timestamp_ms r
                      else ie_event_timestamp_ms r) * 1000000)) (\<lambda>time_nano.
     rbind (fixed64 (oe_observed_nano env (ie_received_at r))) (\<lambda>observed_nano.
       Inr \<lparr>lr_time_unix_nano = time_nano, lr_observed_time_unix_nano = observed_nano,
            lr_severity_number = (case map_of SEVERITY_NUMBERS severity of None \<Rightarrow> 0 | Some n \<Rightarrow> n),
            lr_severity_text = severity, lr_body = AV_string (event_module @ ''.'' @ name), lr_attributes = kvs\<rparr>)))))))"

subsection \<open>Resources\<close>

record resource_key =
  rk_tenant_id :: string
  rk_app_id :: string
  rk_environment :: string
  rk_app_version :: string
  rk_app_build :: string
  rk_sdk_version :: string
  rk_process_name :: string

definition event_resource_key :: "otlp_env \<Rightarrow> inbox_event \<Rightarrow> resource_key" where
  "event_resource_key env r =
     (let occurrence_release = (ie_release_identity_quality r = OCCURRENCE_BOUND)
      in \<lparr>rk_tenant_id = ie_tenant_id r, rk_app_id = ie_app_id r, rk_environment = ie_environment r,
          rk_app_version = (if occurrence_release then text_or_empty (ie_app_version r) else []),
          rk_app_build = (if occurrence_release then text_or_empty (ie_app_build r) else []),
          rk_sdk_version = ie_sdk_version r,
          rk_process_name = (case map_of (ie_payload_json r) ''process_name'' of
                               None \<Rightarrow> [] | Some v \<Rightarrow> py_str_json env v)\<rparr>)"

definition resource_attributes :: "resource_key \<Rightarrow> dict" where
  "resource_attributes k =
     put_text ''process.executable.name'' (Some (rk_process_name k))
       (put_text ''service.instance.build_id'' (Some (rk_app_build k))
         (put_text ''service.version'' (Some (rk_app_version k))
           [(''service.name'', jstr (rk_app_id k)), (''android.apm.app_id'', jstr (rk_app_id k)),
            (''android.apm.tenant_id'', jstr (rk_tenant_id k)),
            (''deployment.environment.name'', jstr (rk_environment k)), (''telemetry.sdk.name'', jstr ''androidapm''),
            (''telemetry.sdk.version'', jstr (rk_sdk_version k))]))"

definition resource_logs_of ::
    "otlp_env \<Rightarrow> symbolization_job list \<Rightarrow> resource_key \<times> inbox_event list \<Rightarrow> string + resource_logs" where
  "resource_logs_of env jobs g =
     rbind (rmap (log_record_of env jobs) (snd g)) (\<lambda>records.
     rbind (key_values_of env (resource_attributes (fst g))) (\<lambda>attributes.
       Inr \<lparr>rl_resource = attributes, rl_scope = (SCOPE_NAME, SCOPE_VERSION), rl_log_records = records,
            rl_schema_url = ''https://opentelemetry.io/schemas/1.37.0''\<rparr>))"

definition build_logs_request ::
    "otlp_env \<Rightarrow> symbolization_job list \<Rightarrow> inbox_event list \<Rightarrow> string + export_logs_request" where
  "build_logs_request env jobs events =
     rmap (resource_logs_of env jobs) (group_by (event_resource_key env) events)"

text \<open>What the worker passes to the transport: the serialized request, nothing on a mapping error.\<close>

definition encode_request ::
    "otlp_env \<Rightarrow> (export_logs_request \<Rightarrow> string) \<Rightarrow> symbolization_job list \<Rightarrow> inbox_event list \<Rightarrow> string option" where
  "encode_request env serialize jobs events =
     (case build_logs_request env jobs events of Inl _ \<Rightarrow> None | Inr request \<Rightarrow> Some (serialize request))"

subsection \<open>Transport\<close>

definition OTLP_CONTENT_TYPE :: string where [consts_simps]: "OTLP_CONTENT_TYPE = ''application/x-protobuf''"
definition RETRY_AFTER_MAX_SECONDS :: int where [consts_simps]: "RETRY_AFTER_MAX_SECONDS = 60"
definition RETRYABLE_STATUS_CODES :: "int list" where "RETRYABLE_STATUS_CODES = [408, 429, 502, 503, 504]"

definition client_headers :: "runtime \<Rightarrow> string \<Rightarrow> string + (string \<times> string) list" where
  "client_headers rt headers_json =
     (case rt_json_loads rt headers_json of
        None \<Rightarrow> Inl ''invalid JSON''
      | Some j \<Rightarrow>
          (case obj_of j of
             None \<Rightarrow> Inl ''OTLP headers JSON must be an object of string values''
           | Some kvs \<Rightarrow>
               if list_all (\<lambda>(k, v). is_str v) kvs
               then Inr (fold (\<lambda>(k, v) d. dict_put k (text_or_empty (str_of v)) d) kvs [(''Content-Type'', OTLP_CONTENT_TYPE)])
               else Inl ''OTLP headers JSON must be an object of string values''))"

text \<open>
  What the HTTP client does: a timeout or network error, another exception, or a response with its
  status, body and \<open>Retry-After\<close> header.
\<close>

datatype http_outcome =
  Transport_Error string
| Transport_Exception
| Response int string "string option"

record client_env =
  cl_runtime :: runtime
  cl_parse_response :: "string \<Rightarrow> string + int \<times> string"
  cl_parsedate :: "string \<Rightarrow> time option"
  cl_now :: time

definition parse_retry_after :: "client_env \<Rightarrow> string option \<Rightarrow> int option" where
  "parse_retry_after env v =
     (case v of
        None \<Rightarrow> None
      | Some s \<Rightarrow>
          if s = [] then None
          else
            let clamp = (\<lambda>i. max 0 (min i RETRY_AFTER_MAX_SECONDS))
            in (case py_int (cl_runtime env) s of
                  Some i \<Rightarrow> Some (clamp i)
                | None \<Rightarrow> map_option (\<lambda>t. clamp (max 0 ((t - cl_now env) div 1000000))) (cl_parsedate env s)))"

definition export_response :: "client_env \<Rightarrow> int \<Rightarrow> string \<Rightarrow> string option \<Rightarrow> export_result" where
  "export_response env status content retry_after =
     (let failed = (\<lambda>retry code msg after.
            \<lparr>er_success = False, er_retryable = retry, er_error_code = Some code, er_error_message = Some msg,
             er_retry_after_seconds = after\<rparr>);
          ok = \<lparr>er_success = True, er_retryable = False, er_error_code = None, er_error_message = None,
                er_retry_after_seconds = None\<rparr>
      in if 200 \<le> status \<and> status < 300
         then (if content = [] then ok
               else case cl_parse_response env content of
                 Inl e \<Rightarrow> failed True ''invalid_otlp_response'' (cp_take 512 e) None
               | Inr (rejected, msg) \<Rightarrow>
                   if rejected \<noteq> 0 then failed False ''otlp_partial_rejection'' (cp_take 512 msg) None else ok)
         else
           let retryable = (status \<in> set RETRYABLE_STATUS_CODES \<or> status \<ge> 500)
           in failed retryable (''http_'' @ int_str status) ''OTLP endpoint rejected the export''
                (if retryable then parse_retry_after env retry_after else None))"

fun export :: "client_env \<Rightarrow> (string \<Rightarrow> http_outcome) \<Rightarrow> string \<Rightarrow> export_result option" where
  "export env post payload =
     (case post payload of
        Transport_Error e \<Rightarrow>
          Some \<lparr>er_success = False, er_retryable = True, er_error_code = Some ''transport_error'',
                er_error_message = Some (cp_take 512 e), er_retry_after_seconds = None\<rparr>
      | Transport_Exception \<Rightarrow> None
      | Response status content retry_after \<Rightarrow> Some (export_response env status content retry_after))"

subsection \<open>Mapping lemmas\<close>

lemma rmap_cong_map: "map f xs = map g ys \<Longrightarrow> rmap f xs = rmap g ys"
  by (induction xs arbitrary: ys) (auto simp: Cons_eq_map_conv map_eq_Cons_conv)

lemma rmap_Inr_all: "(\<exists>ys. rmap f xs = Inr ys) \<longleftrightarrow> (\<forall>x\<in>set xs. \<exists>y. f x = Inr y)"
  by (induction xs) auto

lemma mset_group_put: "mset (concat (map snd (group_put k x g))) = add_mset x (mset (concat (map snd g)))"
  by (induction k x g rule: group_put.induct) auto

lemma mset_group_by: "mset (concat (map snd (group_by key xs))) = mset xs"
  by (induction xs rule: rev_induct) (simp_all add: group_by_snoc mset_group_put, simp add: group_by_def)

definition same_group :: "('a \<Rightarrow> 'b) \<Rightarrow> 'k \<times> 'a list \<Rightarrow> 'k \<times> 'a list \<Rightarrow> bool" where
  "same_group f g h \<longleftrightarrow> fst g = fst h \<and> map f (snd g) = map f (snd h)"

lemma group_put_same:
  assumes "list_all2 (same_group f) g h" and "f x = f y"
  shows "list_all2 (same_group f) (group_put k x g) (group_put k y h)"
  using assms
proof (induction g h rule: list_all2_induct)
  case Nil
  then show ?case by (simp add: same_group_def)
next
  case (Cons a g b h)
  then show ?case by (cases a; cases b) (auto simp: same_group_def [abs_def])
qed

lemma group_by_same:
  assumes "list_all2 (\<lambda>r s. key r = key s \<and> f r = f s) xs ys"
  shows "list_all2 (same_group f) (group_by key xs) (group_by key ys)"
proof -
  have "list_all2 (same_group f) (foldl (\<lambda>g x. group_put (key x) x g) g xs) (foldl (\<lambda>g x. group_put (key x) x g) h ys)"
    if "list_all2 (same_group f) g h" for g h
    using assms that
    by (induction xs ys arbitrary: g h rule: list_all2_induct) (auto intro: group_put_same)
  then show ?thesis
    by (simp add: group_by_def)
qed

lemma key_values_of_text:
  assumes "\<And>k v. (k, v) \<in> set d \<Longrightarrow> \<exists>t. v = jstr t"
  shows "\<exists>kvs. key_values_of env d = Inr kvs"
  unfolding key_values_of_def rmap_Inr_all using assms by fastforce

lemma put_text_jstr: "(k, v) \<in> set (put_text key x d) \<Longrightarrow> (\<exists>t. v = jstr t) \<or> (k, v) \<in> set d"
  using set_dict_put by (fastforce simp: put_text_def split: option.splits if_splits)

lemma resource_attributes_text: "(k, v) \<in> set (resource_attributes key) \<Longrightarrow> \<exists>t. v = jstr t"
  unfolding resource_attributes_def by (fastforce dest!: put_text_jstr)

definition mappable :: "otlp_env \<Rightarrow> symbolization_job list \<Rightarrow> inbox_event \<Rightarrow> bool" where
  "mappable env jobs r \<longleftrightarrow> (case log_record_of env jobs r of Inl _ \<Rightarrow> False | Inr _ \<Rightarrow> True)"

lemma mappable_iff: "mappable env jobs r \<longleftrightarrow> (\<exists>lr. log_record_of env jobs r = Inr lr)"
  by (auto simp: mappable_def split: sum.splits)

lemma resource_logs_of_Inr:
  "(\<exists>rl. resource_logs_of env jobs g = Inr rl) \<longleftrightarrow> (\<forall>r\<in>set (snd g). mappable env jobs r)"
proof -
  obtain kvs where "key_values_of env (resource_attributes (fst g)) = Inr kvs"
    using key_values_of_text [of "resource_attributes (fst g)" env] resource_attributes_text by blast
  then show ?thesis
    using rmap_Inr_all [of "log_record_of env jobs" "snd g"] by (simp add: resource_logs_of_def mappable_iff)
qed

lemma build_logs_request_Inr:
  "(\<exists>req. build_logs_request env jobs rows = Inr req) \<longleftrightarrow> list_all (mappable env jobs) rows"
proof -
  have "set rows = (\<Union>g\<in>set (group_by (event_resource_key env) rows). set (snd g))"
    using arg_cong [OF mset_group_by [of "event_resource_key env" rows], of set_mset] by simp
  then show ?thesis
    unfolding build_logs_request_def rmap_Inr_all resource_logs_of_Inr list_all_iff by blast
qed

lemma encode_request_None: "encode_request env serialize jobs rows = None \<longleftrightarrow> \<not> list_all (mappable env jobs) rows"
  using build_logs_request_Inr [of env jobs rows] by (auto simp: encode_request_def split: sum.splits)

lemma encode_request_Some:
  "list_all (mappable env jobs) rows \<Longrightarrow>
     \<exists>req. build_logs_request env jobs rows = Inr req \<and> encode_request env serialize jobs rows = Some (serialize req)"
  using build_logs_request_Inr [of env jobs rows] by (auto simp: encode_request_def)

lemma export_once_total:
  assumes "\<And>events. encode_isolated_batch encode events \<noteq> None"
  shows "\<exists>tbl' n. export_once st encode client worker token locked ct env1 env2 tbl = Inr (tbl', n)"
proof (cases "claim_batch locked (new_lease_owner worker token) (es_worker_batch_size st) (es_worker_lease_seconds st)
    (ct_claim ct) tbl")
  case (Pair tbl1 events)
  obtain payload exportable invalid where "encode_isolated_batch encode events = Some (payload, exportable, invalid)"
    using assms [of events] by auto
  then show ?thesis
    by (simp add: export_once_def Pair Let_def split: prod.split)
qed

subsection \<open>Rows that differ in raw evidence only\<close>

definition EXPORTED_PAYLOAD_KEYS :: "string list" where
  "EXPORTED_PAYLOAD_KEYS =
     [''module'', ''name'', ''severity'', ''kind'', ''priority'', ''thread_name'', ''scene'', ''foreground'', ''process_name'']"

definition same_export_view :: "inbox_event \<Rightarrow> inbox_event \<Rightarrow> bool" where
  "same_export_view r s \<longleftrightarrow>
     (\<exists>payload hash normalized frames raw_fingerprint.
        s = r\<lparr>ie_payload_json := payload, ie_payload_sha256 := hash, ie_normalized_json := normalized,
              ie_native_identity_json := frames, ie_raw_incident_fingerprint := raw_fingerprint\<rparr> \<and>
        list_all (\<lambda>k. map_of payload k = map_of (ie_payload_json r) k) EXPORTED_PAYLOAD_KEYS \<and>
        obj_get ''indexed_attributes'' normalized = obj_get ''indexed_attributes'' (ie_normalized_json r))"

lemma identity_attributes_view: "same_export_view r s \<Longrightarrow> identity_attributes env s = identity_attributes env r"
  by (auto simp: same_export_view_def EXPORTED_PAYLOAD_KEYS_def identity_attributes_def payload_text_def)

lemma log_attributes_view:
  assumes "same_export_view r s"
  shows "log_attributes env jobs s = log_attributes env jobs r"
proof -
  have "put_payload (ie_payload_json s) k = put_payload (ie_payload_json r) k" if "k \<in> set EXPORTED_PAYLOAD_KEYS" for k
    using assms that by (auto simp: same_export_view_def list_all_iff put_payload_def fun_eq_iff)
  then have "put_payload (ie_payload_json s) ''scene'' = put_payload (ie_payload_json r) ''scene''"
    "put_payload (ie_payload_json s) ''foreground'' = put_payload (ie_payload_json r) ''foreground''"
    by (simp_all add: EXPORTED_PAYLOAD_KEYS_def)
  moreover have "obj_get ''indexed_attributes'' (ie_normalized_json s) = obj_get ''indexed_attributes'' (ie_normalized_json r)"
    "ie_id s = ie_id r" "ie_incident_fingerprint s = ie_incident_fingerprint r" "ie_installation_hmac s = ie_installation_hmac r"
    "ie_installation_hmac_key_version s = ie_installation_hmac_key_version r"
    using assms by (auto simp: same_export_view_def)
  ultimately show ?thesis
    by (simp add: log_attributes_def identity_attributes_view [OF assms])
qed

lemma log_record_view:
  assumes "same_export_view r s"
  shows "log_record_of env jobs s = log_record_of env jobs r"
  using assms log_attributes_view [OF assms, of env jobs]
  by (auto simp: same_export_view_def EXPORTED_PAYLOAD_KEYS_def log_record_of_def payload_text_def)

lemma resource_key_view: "same_export_view r s \<Longrightarrow> event_resource_key env s = event_resource_key env r"
  by (auto simp: same_export_view_def EXPORTED_PAYLOAD_KEYS_def event_resource_key_def Let_def)

lemma resource_logs_same:
  assumes "same_group (log_record_of env jobs) g h"
  shows "resource_logs_of env jobs g = resource_logs_of env jobs h"
  using assms rmap_cong_map [of "log_record_of env jobs" "snd g" "log_record_of env jobs" "snd h"]
  by (simp add: same_group_def resource_logs_of_def)

subsection \<open>Properties\<close>

definition sample_otlp_env :: otlp_env where
  "sample_otlp_env = \<lparr>oe_runtime = sample_runtime, oe_repr = (\<lambda>_. ''x''), oe_observed_nano = (\<lambda>t. t * 1000)\<rparr>"

definition sample_export_row :: inbox_event where
  "sample_export_row =
     (sample_inbox_row 1)\<lparr>ie_payload_json :=
        [(''module'', jstr ''crash''), (''name'', jstr ''java_crash''), (''severity'', jstr ''FATAL''), (''kind'', jstr ''ALERT''),
         (''priority'', jstr ''HIGH''), (''thread_name'', jstr ''main''),
         (''fields'', JObj [(''stackTrace'', jstr ''at a.b'')])]\<rparr>"

text \<open>
  C8. Raw evidence never leaves the inbox. Two batches whose rows differ only in raw evidence (the
  payload apart from module, name, severity, kind, priority, thread, scene, foreground flag and
  process name, its hash, the native frames, the raw fingerprint, and all of the normalized document
  but its indexed attributes) produce the very same OTLP request, so the request holds nothing about
  stacks, messages, URLs, fields, context or extras of the events.
\<close>

theorem raw_evidence_never_exported:
  assumes "list_all2 same_export_view rows rows'"
  shows "build_logs_request env jobs rows' = build_logs_request env jobs rows"
proof -
  have "list_all2 (\<lambda>r s. event_resource_key env r = event_resource_key env s \<and>
      log_record_of env jobs r = log_record_of env jobs s) rows rows'"
    using assms by (rule list_all2_mono) (simp_all add: resource_key_view log_record_view)
  then have "list_all2 (same_group (log_record_of env jobs)) (group_by (event_resource_key env) rows)
      (group_by (event_resource_key env) rows')"
    by (rule group_by_same)
  then have "map (resource_logs_of env jobs) (group_by (event_resource_key env) rows) =
      map (resource_logs_of env jobs) (group_by (event_resource_key env) rows')"
    by (induction rule: list_all2_induct) (simp_all add: resource_logs_same)
  then show ?thesis
    unfolding build_logs_request_def by (rule rmap_cong_map [symmetric])
qed

theorem raw_evidence_never_exported_witness:
  "build_logs_request sample_otlp_env []
     [sample_export_row\<lparr>ie_payload_json := butlast (ie_payload_json sample_export_row)\<rparr>] =
   build_logs_request sample_otlp_env [] [sample_export_row]"
proof (rule raw_evidence_never_exported)
  let ?s = "sample_export_row\<lparr>ie_payload_json := butlast (ie_payload_json sample_export_row)\<rparr>"
  have "?s = sample_export_row\<lparr>ie_payload_json := butlast (ie_payload_json sample_export_row),
      ie_payload_sha256 := ie_payload_sha256 sample_export_row, ie_normalized_json := ie_normalized_json sample_export_row,
      ie_native_identity_json := ie_native_identity_json sample_export_row,
      ie_raw_incident_fingerprint := ie_raw_incident_fingerprint sample_export_row\<rparr>"
    by simp
  moreover have "list_all (\<lambda>k. map_of (butlast (ie_payload_json sample_export_row)) k =
      map_of (ie_payload_json sample_export_row) k) EXPORTED_PAYLOAD_KEYS"
    by code_simp
  ultimately have "same_export_view sample_export_row ?s"
    unfolding same_export_view_def by blast
  then show "list_all2 same_export_view [sample_export_row] [?s]"
    by simp
qed


text \<open>
  How a collector's answer is classified: an export succeeds exactly on a 2xx status with an empty
  body or a body that parses and rejects no record; it is retried exactly on an unparsable 2xx body,
  on 408, 429 and on every status from 500 on; a delay is kept only for a retry and lies between zero
  and sixty seconds.
\<close>

theorem export_classification:
  assumes "export env post payload = Some res" and "post payload = Response status content retry_after"
  shows "(er_success res \<longleftrightarrow>
            200 \<le> status \<and> status < 300 \<and> (content = [] \<or> (\<exists>msg. cl_parse_response env content = Inr (0, msg)))) \<and>
         (er_retryable res \<longleftrightarrow>
            (200 \<le> status \<and> status < 300 \<and> content \<noteq> [] \<and> (\<exists>e. cl_parse_response env content = Inl e)) \<or>
            status \<in> {408, 429} \<or> status \<ge> 500) \<and>
         (\<forall>n. er_retry_after_seconds res = Some n \<longrightarrow> er_retryable res \<and> 0 \<le> n \<and> n \<le> 60)"
proof -
  have res: "res = export_response env status content retry_after"
    using assms by simp
  have bound: "0 \<le> n \<and> n \<le> 60" if "parse_retry_after env v = Some n" for v n
    using that by (auto simp: parse_retry_after_def Let_def RETRY_AFTER_MAX_SECONDS_def split: option.splits if_splits)
  show ?thesis
  proof (cases "200 \<le> status \<and> status < 300")
    case True
    then show ?thesis
      by (auto simp: res export_response_def Let_def split: sum.splits prod.splits if_splits)
  next
    case False
    then show ?thesis
      using bound by (auto simp: res export_response_def Let_def RETRYABLE_STATUS_CODES_def split: if_splits)
  qed
qed

definition sample_client :: client_env where
  "sample_client =
     \<lparr>cl_runtime = sample_runtime, cl_parse_response = (\<lambda>_. Inr (0, [])), cl_parsedate = (\<lambda>_. None), cl_now = 0\<rparr>"

theorem export_classification_witness:
  "er_retryable (the (export sample_client (\<lambda>_. Response 503 [] (Some ''120'')) ''p'')) \<and>
   er_retry_after_seconds (the (export sample_client (\<lambda>_. Response 503 [] (Some ''120'')) ''p'')) = Some 60"
proof -
  have r: "export sample_client (\<lambda>_. Response 503 [] (Some ''120'')) ''p'' =
      Some (export_response sample_client 503 [] (Some ''120''))"
    by simp
  have "er_retry_after_seconds (export_response sample_client 503 [] (Some ''120'')) = Some 60"
    by code_simp
  then show ?thesis
    using export_classification [OF r refl] r by simp
qed

end
