(* ===== verification/Apm_Symbolization.thy ===== *)
theory Apm_Symbolization
  imports Apm_Artifacts Apm_Otlp
begin

section \<open>Symbolization tools\<close>

text \<open>
  \<^verbatim>\<open>symbolization.py\<close>: the stack of a job, the match of its raw native frames with the typed frames of
  the occurrence, the run of the configured tool and the reading of its output. \<open>symbolizer_env\<close> holds
  what the process does not decide: the child process, the monotonic clock, the file system, the
  table of decimal digits outside ASCII, the integer conversion of the model class and the lossy
  decoding of an error text. An exception is \<open>sym_exn\<close>; \<open>Timed_out\<close> is the \<open>TimeoutError\<close> of the
  worker's own deadline and \<open>Internal\<close> any other exception.
\<close>

record sym_failure =
  sf_code :: string
  sf_message :: string
  sf_retryable :: bool

datatype sym_exn = Failed sym_failure | Timed_out | Internal

type_synonym 'a sym_result = "sym_exn + 'a"

definition failure :: "string \<Rightarrow> string \<Rightarrow> bool \<Rightarrow> sym_exn" where
  "failure code msg retryable = Failed \<lparr>sf_code = code, sf_message = msg, sf_retryable = retryable\<rparr>"

record symbolization_result =
  sr_result_json :: dict
  sr_fingerprint_sha256 :: string
  sr_tool_name :: string
  sr_tool_version :: string
  sr_status :: symbol_status

datatype tool_outcome =
  Tool_not_found
| Tool_timeout
| Tool_raises
| Tool_exited int "string list" "string list"

record symbolizer_env =
  sz_runtime :: runtime
  sz_unicode_digit :: "string \<Rightarrow> nat"
  sz_pydantic_int :: "json \<Rightarrow> int option"
  sz_decode_replace :: "string \<Rightarrow> string"
  sz_is_file :: "string list \<Rightarrow> bool"
  sz_tool :: "string list \<Rightarrow> string \<Rightarrow> rat \<Rightarrow> tool_outcome"
  sz_clock :: "nat \<Rightarrow> rat"

definition MAX_NATIVE_FRAMES :: nat where [consts_simps]: "MAX_NATIVE_FRAMES = 256"
definition MAX_TOOL_OUTPUT_BYTES :: nat where [consts_simps]: "MAX_TOOL_OUTPUT_BYTES = 1048576"
definition MAX_FINGERPRINT_LINES :: nat where [consts_simps]: "MAX_FINGERPRINT_LINES = 32"

subsection \<open>Input\<close>

fun stack_of_fields :: "runtime \<Rightarrow> symbolization_job \<Rightarrow> dict \<Rightarrow> string list \<Rightarrow> string sym_result" where
  "stack_of_fields rt job d [] = Inl (failure ''missing_stack'' ''The crash stack is missing'' False)"
| "stack_of_fields rt job d (key # keys) =
     (case Option.bind (map_of d key) str_of of
        Some v \<Rightarrow>
          if v = [] then stack_of_fields rt job d keys
          else if rt_sha256_hex rt v \<noteq> sj_input_sha256 job
          then Inl (failure ''input_hash_mismatch'' ''The crash stack no longer matches its durable hash'' False)
          else Inr v
      | None \<Rightarrow> stack_of_fields rt job d keys)"

definition stack_from_payload :: "runtime \<Rightarrow> symbolization_job \<Rightarrow> inbox_event \<Rightarrow> string list \<Rightarrow> string sym_result" where
  "stack_from_payload rt job r keys =
     (case Option.bind (map_of (ie_payload_json r) ''fields'') obj_of of
        None \<Rightarrow> Inl (failure ''missing_stack'' ''The crash fields are missing'' False)
      | Some d \<Rightarrow> stack_of_fields rt job d keys)"

definition parse_command :: "runtime \<Rightarrow> string \<Rightarrow> string \<Rightarrow> string list sym_result" where
  "parse_command rt raw label =
     (case rt_json_loads rt raw of
        None \<Rightarrow> Inl (failure ''invalid_tool_config'' (''The '' @ label @ '' command JSON is invalid'') False)
      | Some (JList vs) \<Rightarrow>
          if vs = [] \<or> \<not> list_all (\<lambda>v. is_str v \<and> str_of v \<noteq> Some []) vs
          then Inl (failure ''invalid_tool_config'' (''The '' @ label @ '' command must be a non-empty argv array'') False)
          else Inr (map (\<lambda>v. text_or_empty (str_of v)) vs)
      | Some _ \<Rightarrow>
          Inl (failure ''invalid_tool_config'' (''The '' @ label @ '' command must be a non-empty argv array'') False))"

subsection \<open>Running a tool\<close>

fun read_tool_stream :: "string list \<Rightarrow> string \<Rightarrow> string sym_result" where
  "read_tool_stream [] output = Inr output"
| "read_tool_stream (chunk # chunks) output =
     (if chunk = [] then Inr output
      else if length output + length chunk > MAX_TOOL_OUTPUT_BYTES
      then Inl (failure ''tool_output_too_large'' ''The symbolization tool output exceeded its limit'' False)
      else read_tool_stream chunks (output @ chunk))"

definition run_tool :: "symbolizer_env \<Rightarrow> string list \<Rightarrow> string \<Rightarrow> rat \<Rightarrow> string sym_result" where
  "run_tool env args standard_input timeout =
     (case sz_tool env args standard_input timeout of
        Tool_not_found \<Rightarrow>
          Inl (failure ''tool_unavailable'' ''The configured symbolization executable was not found'' True)
      | Tool_timeout \<Rightarrow> Inl (failure ''tool_timeout'' ''The symbolization tool exceeded its time limit'' True)
      | Tool_raises \<Rightarrow> Inl Internal
      | Tool_exited code stdout_chunks stderr_chunks \<Rightarrow>
          rbind (read_tool_stream stdout_chunks []) (\<lambda>stdout.
          rbind (read_tool_stream stderr_chunks []) (\<lambda>stderr.
            if code \<noteq> 0
            then Inl (failure ''tool_rejected_input''
                        (or_default (Some (cp_take 512 (py_strip (sz_decode_replace env stderr))))
                           ''The symbolization tool rejected the input'') False)
            else if \<not> utf8_valid stdout
            then Inl (failure ''invalid_tool_output'' ''The symbolization tool output is not UTF-8'' False)
            else if py_strip stdout = []
            then Inl (failure ''empty_tool_output'' ''The symbolization tool returned no frames'' False)
            else Inr (py_strip stdout))))"

definition path_name :: "string \<Rightarrow> string" where
  "path_name p =
     (case rev (filter (\<lambda>c. c \<noteq> [] \<and> c \<noteq> ''.'') (split_on CHR ''/'' p)) of [] \<Rightarrow> [] | c # _ \<Rightarrow> c)"

definition result_of :: "runtime \<Rightarrow> string \<Rightarrow> string \<Rightarrow> string \<Rightarrow> symbolization_result" where
  "result_of rt output tool_name tool_version =
     (let newline = [char_of (10::nat)];
          normalized = join_with newline (filter (\<lambda>l. l \<noteq> []) (map py_strip (splitlines output)));
          fingerprint_input = join_with newline (take MAX_FINGERPRINT_LINES (splitlines normalized))
      in \<lparr>sr_result_json = [(''symbolizedStack'', jstr normalized)], sr_fingerprint_sha256 = rt_sha256_hex rt fingerprint_input,
          sr_tool_name = tool_name, sr_tool_version = tool_version, sr_status = SS_symbolized\<rparr>)"

subsection \<open>Raw native frames\<close>

text \<open>
  The frame pattern line by line: \<open>\s*#\d+\s+pc\s+(hex+)\s+(\S+)([^\n]*)$\<close>. Each class is disjoint from
  what follows it, so the leftmost match takes every run to its end and never backtracks.
\<close>

definition at_space :: "string \<Rightarrow> bool" where
  "at_space s \<longleftrightarrow> list_ex (\<lambda>w. starts_with w s) whitespace_codes"

fun nonspace_run :: "string \<Rightarrow> string" where
  "nonspace_run [] = []"
| "nonspace_run (c # s) = (if at_space (c # s) then [] else c # nonspace_run s)"

definition digit_len :: "symbolizer_env \<Rightarrow> string \<Rightarrow> nat" where
  "digit_len env s = (case s of [] \<Rightarrow> 0 | c # _ \<Rightarrow> if is_digit c then 1 else min (length s) (sz_unicode_digit env s))"

function skip_digits :: "symbolizer_env \<Rightarrow> string \<Rightarrow> string" where
  "skip_digits env s = (if digit_len env s = 0 then s else skip_digits env (drop (digit_len env s) s))"
  by auto
termination
  by (relation "measure (\<lambda>(env, s). length s)") (auto simp: digit_len_def split: list.splits if_splits)

declare skip_digits.simps [simp del]

definition some_space :: "string \<Rightarrow> string option" where
  "some_space s = (if length (py_lstrip s) < length s then Some (py_lstrip s) else None)"

definition drop_text :: "string \<Rightarrow> string \<Rightarrow> string option" where
  "drop_text p s = (if starts_with p s then Some (drop (length p) s) else None)"

record frame_match =
  fm_pc :: string
  fm_module :: string
  fm_suffix :: string

definition is_newline :: "char \<Rightarrow> bool" where
  "is_newline c \<longleftrightarrow> byte c = 10"

definition match_frame :: "symbolizer_env \<Rightarrow> string \<Rightarrow> (frame_match \<times> string) option" where
  "match_frame env s =
     Option.bind (drop_text ''#'' (py_lstrip s)) (\<lambda>s1.
     let s2 = skip_digits env s1
     in if length s2 = length s1 then None
        else
          Option.bind (some_space s2) (\<lambda>s3.
          Option.bind (drop_text ''pc'' s3) (\<lambda>s4.
          Option.bind (some_space s4) (\<lambda>s5.
          let pc = takeWhile is_hex s5
          in if pc = [] then None
             else
               Option.bind (some_space (drop (length pc) s5)) (\<lambda>s6.
               let name = nonspace_run s6; tail = drop (length name) s6; suffix = takeWhile (\<lambda>c. \<not> is_newline c) tail
               in if name = [] then None
                  else Some (\<lparr>fm_pc = pc, fm_module = name, fm_suffix = suffix\<rparr>, drop (length suffix) tail))))))"

text \<open>The rest of the text after its first newline, when there is one.\<close>

definition after_newline :: "string \<Rightarrow> string option" where
  "after_newline s = (case dropWhile (\<lambda>c. \<not> is_newline c) s of [] \<Rightarrow> None | _ # t \<Rightarrow> Some t)"

lemma strip_front_length: "length (strip_front ws s) \<le> length s"
proof (induction "length s" arbitrary: s rule: less_induct)
  case less
  have "length (strip_front ws (drop n cs)) \<le> length s" if "s = c # cs" for c cs n
  proof -
    have "length (drop n cs) < length s" using that by simp
    from less [OF this] show ?thesis by (simp add: that)
  qed
  then show ?case
    by (subst strip_front.simps) (auto split: option.split list.split)
qed

lemma scanner_lengths:
  "length (py_lstrip s) \<le> length s"
  "length (skip_digits env s) \<le> length s"
  "drop_text p s = Some t \<Longrightarrow> length t \<le> length s"
  "some_space s = Some t \<Longrightarrow> length t \<le> length s"
  "after_newline s = Some t \<Longrightarrow> length t < length s"
proof -
  show "length (py_lstrip s) \<le> length s"
    by (simp add: py_lstrip_def strip_front_length)
  show "length (skip_digits env s) \<le> length s"
    by (induction env s rule: skip_digits.induct) (subst skip_digits.simps, auto)
qed (use length_dropWhile_le [of "\<lambda>c. \<not> is_newline c" s] in
      \<open>auto simp: drop_text_def some_space_def after_newline_def split: if_splits list.splits\<close>)

lemma match_frame_length:
  assumes "match_frame env s = Some (fm, rest)"
  shows "length rest \<le> length s"
proof -
  obtain s1 s3 s4 s5 s6 where s: "drop_text ''#'' (py_lstrip s) = Some s1" "some_space (skip_digits env s1) = Some s3"
    "drop_text ''pc'' s3 = Some s4" "some_space s4 = Some s5"
    "some_space (drop (length (takeWhile is_hex s5)) s5) = Some s6" "length rest \<le> length s6"
    using assms by (auto simp: match_frame_def Let_def bind_eq_Some_conv split: if_splits)
  have "length s6 \<le> length (drop (length (takeWhile is_hex s5)) s5)" "length s5 \<le> length s4" "length s4 \<le> length s3"
    "length s3 \<le> length (skip_digits env s1)" "length (skip_digits env s1) \<le> length s1" "length s1 \<le> length (py_lstrip s)"
    "length (py_lstrip s) \<le> length s"
    using s scanner_lengths by blast+
  then show ?thesis
    using s(6) by simp
qed

text \<open>\<open>findall\<close>: every step drops at least the newline, so the scan ends.\<close>

function native_frame_matches :: "symbolizer_env \<Rightarrow> string \<Rightarrow> frame_match list" where
  "native_frame_matches env s =
     (case match_frame env s of
        Some (fm, rest) \<Rightarrow> fm # (case after_newline rest of None \<Rightarrow> [] | Some t \<Rightarrow> native_frame_matches env t)
      | None \<Rightarrow> (case after_newline s of None \<Rightarrow> [] | Some t \<Rightarrow> native_frame_matches env t))"
  by auto
termination
  by (relation "measure (\<lambda>(env, s). length s)")
    (auto dest!: match_frame_length scanner_lengths(5))

declare native_frame_matches.simps [simp del]

fun hex_nat :: "nat \<Rightarrow> string \<Rightarrow> nat" where
  "hex_nat acc [] = acc"
| "hex_nat acc (c # s) =
     hex_nat (16 * acc + (if is_digit c then byte c - 48 else byte (lower_char c) - 87)) s"

text \<open>The first \<open>(BuildId: hex)\<close> of the text behind the module.\<close>

definition build_id_at :: "string \<Rightarrow> string option" where
  "build_id_at s =
     Option.bind (drop_text ''(BuildId:'' s) (\<lambda>t.
       let h = takeWhile is_hex (py_lstrip t)
       in if h \<noteq> [] \<and> starts_with '')'' (drop (length h) (py_lstrip t)) then Some h else None)"

fun inline_build_id :: "string \<Rightarrow> string option" where
  "inline_build_id [] = None"
| "inline_build_id (c # s) = (case build_id_at (c # s) of Some h \<Rightarrow> Some h | None \<Rightarrow> inline_build_id s)"

definition FRAME_FIELDS :: "string list" where
  "FRAME_FIELDS = [''abi'', ''module_build_id'', ''module_name'', ''module_relative_pc'', ''load_bias'']"

definition validate_frame :: "symbolizer_env \<Rightarrow> json \<Rightarrow> native_frame_identity option" where
  "validate_frame env j =
     Option.bind (obj_of j) (\<lambda>d.
     if \<not> list_all (\<lambda>(k, v). k \<in> set FRAME_FIELDS) d then None
     else
       Option.bind (Option.bind (map_of d ''abi'') str_of) (\<lambda>abi.
       Option.bind (Option.bind (map_of d ''module_build_id'') str_of) (\<lambda>build_id.
       Option.bind (Option.bind (map_of d ''module_name'') str_of) (\<lambda>name.
       Option.bind (Option.bind (map_of d ''module_relative_pc'') (sz_pydantic_int env)) (\<lambda>pc.
       Option.bind (case map_of d ''load_bias'' of
                      None \<Rightarrow> Some None
                    | Some v \<Rightarrow> if v = jnull then Some None else map_option Some (sz_pydantic_int env v)) (\<lambda>bias.
       case mk_native_frame abi build_id name pc bias of Inl _ \<Rightarrow> None | Inr f \<Rightarrow> Some f))))))"

definition frame_agrees :: "native_frame_identity \<Rightarrow> frame_match \<Rightarrow> bool" where
  "frame_agrees f fm \<longleftrightarrow>
     nf_abi f \<in> snd ` set SUPPORTED_ABI_BY_MACHINE \<and> build_id_pattern (py_lower (nf_module_build_id f)) \<and>
     nf_module_relative_pc f \<le> 2 ^ 64 - 1 \<and> int (hex_nat 0 (fm_pc fm)) = nf_module_relative_pc f \<and>
     path_name (map (\<lambda>c. if byte c = 92 then CHR ''/'' else c) (fm_module fm)) = nf_module_name f \<and>
     (case inline_build_id (fm_suffix fm) of None \<Rightarrow> True | Some h \<Rightarrow> py_lower h = py_lower (nf_module_build_id f))"

definition native_frames_for_job ::
    "symbolizer_env \<Rightarrow> symbolization_job \<Rightarrow> inbox_event \<Rightarrow> native_frame_identity list sym_result" where
  "native_frames_for_job env job r =
     rbind (stack_from_payload (sz_runtime env) job r [''backtrace'']) (\<lambda>stack.
     let matches = native_frame_matches env stack; raw = ie_native_identity_json r
     in if matches = []
        then Inl (failure ''invalid_native_stack'' ''The Native backtrace contains no module-relative pc'' False)
        else if raw = [] \<or> length raw > MAX_NATIVE_FRAMES \<or> length raw \<noteq> length matches \<or>
                length matches \<noteq> length (filter (\<lambda>l. starts_with ''#'' (py_lstrip l)) (splitlines stack))
        then Inl (failure ''native_identity_mismatch'' ''Every Native frame requires matching occurrence identity'' False)
        else
          let frames = map (validate_frame env) raw
          in if list_ex (\<lambda>f. f = None) frames
             then Inl (failure ''invalid_native_identity'' ''The Native frame identity is invalid'' False)
             else if list_ex (\<lambda>(f, fm). \<not> frame_agrees f fm) (zip (map the frames) matches)
             then Inl (failure ''native_identity_mismatch''
                         ''Native module, build ID or pc does not match occurrence identity'' False)
             else Inr (map the frames))"

subsection \<open>Native output\<close>

record native_result =
  nr_index :: nat
  nr_module :: string
  nr_abi :: string
  nr_build_id :: string
  nr_pc :: int
  nr_artifact_id :: int
  nr_artifact_sha256 :: string
  nr_function :: string
  nr_location :: string
  nr_state :: string

definition native_result_json :: "native_result \<Rightarrow> json" where
  "native_result_json x =
     JObj [(''index'', jint (int (nr_index x))), (''module'', jstr (nr_module x)), (''abi'', jstr (nr_abi x)),
           (''buildId'', jstr (nr_build_id x)), (''pc'', jint (nr_pc x)), (''artifactId'', jint (nr_artifact_id x)),
           (''artifactSha256'', jstr (nr_artifact_sha256 x)), (''function'', jstr (nr_function x)),
           (''location'', jstr (nr_location x)), (''state'', jstr (nr_state x))]"

text \<open>
  \<open>re.split\<close> on \<open>\n\s*\n\<close>: a newline ends a block when the white space behind it holds another newline; the
  next block starts after the last newline of that white space.
\<close>

definition block_break :: "string \<Rightarrow> string option" where
  "block_break s =
     (let rest = py_lstrip s; spaces = take (length s - length rest) s
      in if list_ex is_newline spaces
         then Some (rev (takeWhile (\<lambda>c. \<not> is_newline c) (rev spaces)) @ rest) else None)"

lemma block_break_length: "block_break s = Some t \<Longrightarrow> length t \<le> length s"
  using scanner_lengths(1) [of s] length_takeWhile_le [of "\<lambda>c. \<not> is_newline c" "rev (take (length s - length (py_lstrip s)) s)"]
  by (auto simp: block_break_def Let_def split: if_splits)

function split_blocks :: "string \<Rightarrow> string \<Rightarrow> string list" where
  "split_blocks acc [] = [acc]"
| "split_blocks acc (c # s) =
     (if is_newline c
      then (case block_break s of
              Some rest \<Rightarrow> acc # split_blocks [] rest
            | None \<Rightarrow> split_blocks (acc @ [c]) s)
      else split_blocks (acc @ [c]) s)"
  by pat_completeness auto
termination
  by (relation "measure (\<lambda>(acc, s). length s)") (auto dest!: block_break_length)

declare split_blocks.simps [simp del]

text \<open>\<open>(.+):(\d+):(\d+)\<close>: the last two colons, with digits only behind them.\<close>

definition all_digits :: "symbolizer_env \<Rightarrow> string \<Rightarrow> bool" where
  "all_digits env s \<longleftrightarrow> s \<noteq> [] \<and> skip_digits env s = []"

definition source_location :: "symbolizer_env \<Rightarrow> string \<Rightarrow> (string \<times> string) option" where
  "source_location env location =
     (case rev (split_on CHR '':'' location) of
        column # line # f # fs \<Rightarrow>
          let path = join_with '':'' (rev (f # fs))
          in if path \<noteq> [] \<and> all_digits env line \<and> all_digits env column \<and> \<not> list_ex is_newline location
             then Some (path, line) else None
      | _ \<Rightarrow> None)"

definition frame_state :: "symbolizer_env \<Rightarrow> string \<Rightarrow> string \<Rightarrow> string sym_result" where
  "frame_state env func location =
     (if func = [] \<or> func = ''??'' then Inr ''UNRESOLVED''
      else case source_location env location of
        None \<Rightarrow> Inr ''FUNCTION_ONLY''
      | Some (path, line) \<Rightarrow>
          if path = ''??'' then Inr ''FUNCTION_ONLY''
          else (case py_int (sz_runtime env) line of
                  None \<Rightarrow> Inl Internal
                | Some n \<Rightarrow> Inr (if n = 0 then ''FUNCTION_ONLY'' else ''RESOLVED'')))"

definition block_result ::
    "symbolizer_env \<Rightarrow> symbol_artifact \<Rightarrow> (nat \<times> native_frame_identity) \<times> string \<Rightarrow> (nat \<times> native_result) sym_result" where
  "block_result env a x =
     (case x of ((index, f), block) \<Rightarrow>
       (case map py_strip (splitlines block) of
          [func, location] \<Rightarrow>
            rbind (frame_state env func location) (\<lambda>st.
              Inr (index, \<lparr>nr_index = index, nr_module = nf_module_name f, nr_abi = nf_abi f,
                           nr_build_id = py_lower (nf_module_build_id f), nr_pc = nf_module_relative_pc f,
                           nr_artifact_id = sa_id a, nr_artifact_sha256 = sa_checksum_sha256 a, nr_function = func,
                           nr_location = location, nr_state = st\<rparr>))
        | _ \<Rightarrow> Inl (failure ''invalid_tool_output'' ''Native output must contain one function and location per frame'' False)))"

type_synonym native_artifacts = "((string \<times> string) \<times> symbol_artifact \<times> string list) list"

definition native_scope_matches :: "inbox_event \<Rightarrow> string \<times> string \<Rightarrow> symbol_artifact \<Rightarrow> bool" where
  "native_scope_matches r identity a \<longleftrightarrow>
     sa_tenant_id a = ie_tenant_id r \<and> sa_app_id a = ie_app_id r \<and> Some (sa_version_code a) = ie_version_code r \<and>
     Some (sa_app_build a) = ie_app_build r \<and> Some (sa_variant a) = ie_variant r \<and>
     (sa_abi a, py_lower (sa_build_id a)) = identity"

fun nat_hex :: "nat \<Rightarrow> string" where
  "nat_hex n = (if n < 16 then [hex_digit n] else nat_hex (n div 16) @ [hex_digit (n mod 16)])"

declare nat_hex.simps [simp del]

definition path_text :: "string list \<Rightarrow> string" where
  "path_text p = ''/'' @ join_with ''/'' p"

definition native_group ::
    "symbolizer_env \<Rightarrow> string list \<Rightarrow> inbox_event \<Rightarrow> native_artifacts \<Rightarrow> rat \<Rightarrow> nat
       \<Rightarrow> (string \<times> string) \<times> (nat \<times> native_frame_identity) list \<Rightarrow> nat
       \<Rightarrow> (nat \<times> (nat \<times> native_result) list) sym_result" where
  "native_group env command r artifacts deadline n g output_bytes =
     (case map_of artifacts (fst g) of
        None \<Rightarrow> Inl (failure ''native_artifact_missing'' ''An exact Native module artifact is missing'' True)
      | Some (a, path) \<Rightarrow>
          if \<not> native_scope_matches r (fst g) a
          then Inl (failure ''native_artifact_mismatch'' ''The Native artifact does not match the occurrence scope and build'' False)
          else if \<not> sz_is_file env path
          then Inl (failure ''artifact_blob_missing'' ''A registered Native artifact file is missing'' True)
          else if deadline - sz_clock env (Suc n) \<le> 0
          then Inl (failure ''tool_timeout'' ''The symbolization tool exceeded its time limit'' True)
          else
            rbind (run_tool env
                     (command @ [''--obj='' @ path_text path, ''--functions=linkage'', ''--demangle'', ''--inlining=false'',
                                 ''--output-style=LLVM''])
                     (concat (map (\<lambda>(i, f). ''0x'' @ nat_hex (nat (nf_module_relative_pc f)) @ [char_of (10::nat)]) (snd g)))
                     (deadline - sz_clock env (Suc n))) (\<lambda>output.
            let bytes = output_bytes + length output;
                blocks = split_blocks [] (py_strip output)
            in if bytes > MAX_TOOL_OUTPUT_BYTES
               then Inl (failure ''tool_output_too_large'' ''Combined Native output exceeded its limit'' False)
               else if length blocks \<noteq> length (snd g)
               then Inl (failure ''invalid_tool_output'' ''Native output does not match the requested frame count'' False)
               else rbind (rmap (block_result env a) (zip (snd g) blocks)) (\<lambda>results. Inr (bytes, results))))"

fun native_groups ::
    "symbolizer_env \<Rightarrow> string list \<Rightarrow> inbox_event \<Rightarrow> native_artifacts \<Rightarrow> rat \<Rightarrow> nat
       \<Rightarrow> ((string \<times> string) \<times> (nat \<times> native_frame_identity) list) list \<Rightarrow> nat \<Rightarrow> (nat \<times> native_result) list sym_result" where
  "native_groups env command r artifacts deadline n [] output_bytes = Inr []"
| "native_groups env command r artifacts deadline n (g # gs) output_bytes =
     rbind (native_group env command r artifacts deadline n g output_bytes) (\<lambda>(bytes, results).
     rbind (native_groups env command r artifacts deadline (Suc n) gs bytes) (\<lambda>rest. Inr (results @ rest)))"

definition render_frame :: "native_result \<Rightarrow> string" where
  "render_frame x =
     (let newline = [char_of (10::nat)]; digits = nat_str (nr_index x)
      in ''#'' @ (if length digits < 2 then ''0'' else []) @ digits @ '' '' @ nr_module x @ newline @ nr_function x @
         newline @ nr_location x)"

definition frame_identity :: "nat \<times> native_frame_identity \<Rightarrow> string \<times> string" where
  "frame_identity x = (nf_abi (snd x), py_lower (nf_module_build_id (snd x)))"

definition native_summary ::
    "symbolizer_env \<Rightarrow> string list \<Rightarrow> string \<Rightarrow> native_result list \<Rightarrow> symbolization_result sym_result" where
  "native_summary env command version ordered =
     (let resolved = length (filter (\<lambda>x. nr_state x \<noteq> ''UNRESOLVED'') ordered);
          full = list_all (\<lambda>x. nr_state x = ''RESOLVED'') ordered;
          base = result_of (sz_runtime env) (join_with (replicate 2 (char_of (10::nat))) (map render_frame ordered))
                   (path_name (hd command)) version
      in if resolved = 0 then Inl (failure ''native_symbols_unresolved'' ''No Native frame could be resolved'' False)
         else Inr (base\<lparr>sr_result_json := sr_result_json base @
                          [(''nativeFrames'', JList (map native_result_json ordered)), (''resolvedFrames'', jint (int resolved)),
                           (''totalFrames'', jint (int (length ordered)))],
                        sr_status := (if full then SS_symbolized else SS_partially_symbolized)\<rparr>))"

definition symbolize_native ::
    "symbolizer_env \<Rightarrow> symbolization_job \<Rightarrow> inbox_event \<Rightarrow> native_artifacts \<Rightarrow> string \<Rightarrow> string \<Rightarrow> rat
       \<Rightarrow> symbolization_result sym_result" where
  "symbolize_native env job r artifacts command_json version timeout =
     rbind (native_frames_for_job env job r) (\<lambda>frames.
     rbind (parse_command (sz_runtime env) command_json ''llvm-symbolizer'') (\<lambda>command.
     rbind (native_groups env command r artifacts (sz_clock env 0 + timeout) 0
              (group_by frame_identity (enumerate 0 frames)) 0) (\<lambda>results.
     rbind (rmap (\<lambda>i. case map_of results i of None \<Rightarrow> Inl Internal | Some x \<Rightarrow> Inr x) [0..<length frames]) (\<lambda>ordered.
       native_summary env command version ordered))))"

subsection \<open>A job\<close>

record tool_settings =
  ts_retrace_command_json :: string
  ts_retrace_tool_version :: string
  ts_llvm_command_json :: string
  ts_llvm_tool_version :: string
  ts_timeout_seconds :: rat

definition symbolize_job ::
    "symbolizer_env \<Rightarrow> tool_settings \<Rightarrow> symbolization_job \<Rightarrow> inbox_event \<Rightarrow> symbol_artifact \<Rightarrow> string list
       \<Rightarrow> native_artifacts option \<Rightarrow> symbolization_result sym_result" where
  "symbolize_job env st job r artifact path native_artifacts =
     (if \<not> sz_is_file env path
      then Inl (failure ''artifact_blob_missing'' ''The registered symbol artifact file is missing'' True)
      else case sj_job_type job of
        Job_java \<Rightarrow>
          rbind (stack_from_payload (sz_runtime env) job r [''stackTrace'', ''stack_trace'']) (\<lambda>stack.
          rbind (parse_command (sz_runtime env) (ts_retrace_command_json st) ''retrace'') (\<lambda>command.
          rbind (run_tool env (command @ [path_text path]) stack (ts_timeout_seconds st)) (\<lambda>output.
            Inr (result_of (sz_runtime env) output (path_name (hd command)) (ts_retrace_tool_version st)))))
      | Job_native \<Rightarrow>
          symbolize_native env job r
            (case native_artifacts of Some m \<Rightarrow> m | None \<Rightarrow> [((sa_abi artifact, sa_build_id artifact), artifact, path)])
            (ts_llvm_command_json st) (ts_llvm_tool_version st) (ts_timeout_seconds st))"

subsection \<open>Lemmas on native results\<close>

definition frame_result_ok ::
    "inbox_event \<Rightarrow> native_artifacts \<Rightarrow> nat \<Rightarrow> native_frame_identity \<Rightarrow> native_result \<Rightarrow> bool" where
  "frame_result_ok r artifacts i f x \<longleftrightarrow>
     nr_index x = i \<and> nr_module x = nf_module_name f \<and> nr_abi x = nf_abi f \<and>
     nr_build_id x = py_lower (nf_module_build_id f) \<and> nr_pc x = nf_module_relative_pc f \<and>
     (case map_of artifacts (nr_abi x, nr_build_id x) of
        None \<Rightarrow> False
      | Some (a, path) \<Rightarrow>
          native_scope_matches r (nr_abi x, nr_build_id x) a \<and> nr_artifact_id x = sa_id a \<and>
          nr_artifact_sha256 x = sa_checksum_sha256 a)"

lemma native_groupD:
  assumes "native_group env command r artifacts deadline n g bytes = Inr (bytes', results)" and "(j, x) \<in> set results"
  shows "\<exists>f a path. (j, f) \<in> set (snd g) \<and> map_of artifacts (fst g) = Some (a, path) \<and> native_scope_matches r (fst g) a \<and>
           nr_index x = j \<and> nr_module x = nf_module_name f \<and> nr_abi x = nf_abi f \<and>
           nr_build_id x = py_lower (nf_module_build_id f) \<and> nr_pc x = nf_module_relative_pc f \<and>
           nr_artifact_id x = sa_id a \<and> nr_artifact_sha256 x = sa_checksum_sha256 a"
proof -
  obtain a path out where a: "map_of artifacts (fst g) = Some (a, path)" "native_scope_matches r (fst g) a"
    and rs: "rmap (block_result env a) (zip (snd g) (split_blocks [] (py_strip out))) = Inr results"
    using assms(1) by (auto simp: native_group_def Let_def split: option.splits if_splits)
  from rmap_set [OF rs assms(2)] obtain y where y: "y \<in> set (zip (snd g) (split_blocks [] (py_strip out)))"
    "block_result env a y = Inr (j, x)"
    by blast
  obtain i f b where yy: "y = ((i, f), b)" by (cases y) auto
  have f: "(i, f) \<in> set (snd g)" using y(1) yy by (auto dest: set_zip_leftD)
  show ?thesis
    using y(2) f a by (fastforce simp: yy block_result_def split: list.splits)
qed

lemma native_groupsD:
  assumes "native_groups env command r artifacts deadline n gs bytes = Inr results" and "(j, x) \<in> set results"
    and "\<And>g y. g \<in> set gs \<Longrightarrow> y \<in> set (snd g) \<Longrightarrow> frame_identity y = fst g \<and> y \<in> set (enumerate 0 frames)"
  shows "j < length frames \<and> frame_result_ok r artifacts j (frames ! j) x"
  using assms
proof (induction gs arbitrary: n bytes results)
  case (Cons g gs)
  obtain bytes1 rs1 rs2 where g: "native_group env command r artifacts deadline n g bytes = Inr (bytes1, rs1)"
    and gs: "native_groups env command r artifacts deadline (Suc n) gs bytes1 = Inr rs2" and rs: "results = rs1 @ rs2"
    using Cons.prems(1) by auto
  consider "(j, x) \<in> set rs1" | "(j, x) \<in> set rs2"
    using Cons.prems(2) rs by auto
  then show ?case
  proof cases
    case 1
    from native_groupD [OF g 1] obtain f a path where f: "(j, f) \<in> set (snd g)"
      and x: "map_of artifacts (fst g) = Some (a, path)" "native_scope_matches r (fst g) a"
        "nr_index x = j" "nr_module x = nf_module_name f" "nr_abi x = nf_abi f"
        "nr_build_id x = py_lower (nf_module_build_id f)" "nr_pc x = nf_module_relative_pc f"
        "nr_artifact_id x = sa_id a" "nr_artifact_sha256 x = sa_checksum_sha256 a"
      by blast
    have "frame_identity (j, f) = fst g" "(j, f) \<in> set (enumerate 0 frames)"
      using Cons.prems(3) [of g "(j, f)"] f by auto
    then show ?thesis
      using x by (auto simp: frame_result_ok_def frame_identity_def in_set_enumerate_eq)
  next
    case 2
    then show ?thesis
      by (rule Cons.IH [OF gs]) (rule Cons.prems(3), simp_all)
  qed
qed simp

lemma native_frames_for_jobD:
  assumes "native_frames_for_job env job r = Inr frames"
  shows "\<exists>stack. stack_from_payload (sz_runtime env) job r [''backtrace''] = Inr stack \<and>
           list_all2 frame_agrees frames (native_frame_matches env stack) \<and>
           length frames \<le> MAX_NATIVE_FRAMES \<and> frames \<noteq> [] \<and>
           map (validate_frame env) (ie_native_identity_json r) = map Some frames"
proof -
  obtain stack where s: "stack_from_payload (sz_runtime env) job r [''backtrace''] = Inr stack"
    and len: "length (ie_native_identity_json r) = length (native_frame_matches env stack)"
      "length (ie_native_identity_json r) \<le> MAX_NATIVE_FRAMES" "ie_native_identity_json r \<noteq> []"
    and val: "\<not> list_ex (\<lambda>f. f = None) (map (validate_frame env) (ie_native_identity_json r))"
    and agr: "\<not> list_ex (\<lambda>(f, fm). \<not> frame_agrees f fm)
        (zip (map the (map (validate_frame env) (ie_native_identity_json r))) (native_frame_matches env stack))"
    and fr: "frames = map the (map (validate_frame env) (ie_native_identity_json r))"
    using assms by (auto simp: native_frames_for_job_def Let_def split: if_splits)
  have "map Some frames = map (validate_frame env) (ie_native_identity_json r)"
    using val by (auto simp: fr list_ex_iff) (metis image_eqI option.collapse)
  moreover have "list_all2 frame_agrees frames (native_frame_matches env stack)"
    using agr len(1) by (auto simp: fr list_all2_iff list_ex_iff)
  moreover have "length frames \<le> MAX_NATIVE_FRAMES" "frames \<noteq> []"
    using len(2,3) by (simp_all add: fr)
  ultimately show ?thesis
    using s by auto
qed

lemma stack_of_fields_hash: "stack_of_fields rt job d keys = Inr v \<Longrightarrow> rt_sha256_hex rt v = sj_input_sha256 job \<and> v \<noteq> []"
  by (induction keys) (auto split: option.splits if_splits)

lemma stack_from_payload_hash:
  "stack_from_payload rt job r keys = Inr v \<Longrightarrow> rt_sha256_hex rt v = sj_input_sha256 job \<and> v \<noteq> []"
  by (auto simp: stack_from_payload_def dest: stack_of_fields_hash split: option.splits)

lemma native_summaryD:
  assumes "native_summary env command version ordered = Inr res"
  shows "map_of (sr_result_json res) ''nativeFrames'' = Some (JList (map native_result_json ordered)) \<and>
         (\<exists>x\<in>set ordered. nr_state x \<noteq> ''UNRESOLVED'') \<and>
         sr_status res = (if \<forall>x\<in>set ordered. nr_state x = ''RESOLVED'' then SS_symbolized else SS_partially_symbolized)"
  using assms
  by (auto simp: native_summary_def Let_def result_of_def list_all_iff filter_empty_conv split: if_splits)

subsection \<open>Properties\<close>

text \<open>
  C17. A native symbolization is exact. When it yields a result, the raw backtrace still hashes to
  the digest taken at ingestion; the result lists one frame per raw frame, in the order of the
  backtrace, with the module, ABI, build id and relative pc of that frame, which the typed
  occurrence identity confirms; each frame was resolved with an artifact of exactly the event's
  tenant, app, version, build and variant and of the frame's ABI and build id, whose id and digest
  it names; at least one frame is resolved, and the status is full exactly when all are.
\<close>

theorem native_result_exact:
  assumes "symbolize_native env job r artifacts command_json version timeout = Inr res"
  shows "\<exists>stack frames ordered.
           stack_from_payload (sz_runtime env) job r [''backtrace''] = Inr stack \<and>
           rt_sha256_hex (sz_runtime env) stack = sj_input_sha256 job \<and>
           list_all2 frame_agrees frames (native_frame_matches env stack) \<and>
           map (validate_frame env) (ie_native_identity_json r) = map Some frames \<and>
           map_of (sr_result_json res) ''nativeFrames'' = Some (JList (map native_result_json ordered)) \<and>
           length ordered = length frames \<and>
           (\<forall>i<length frames. frame_result_ok r artifacts i (frames ! i) (ordered ! i)) \<and>
           (\<exists>x\<in>set ordered. nr_state x \<noteq> ''UNRESOLVED'') \<and>
           sr_status res = (if \<forall>x\<in>set ordered. nr_state x = ''RESOLVED'' then SS_symbolized else SS_partially_symbolized)"
proof -
  obtain frames command results ordered where
    fr: "native_frames_for_job env job r = Inr frames" and
    gs: "native_groups env command r artifacts (sz_clock env 0 + timeout) 0 (group_by frame_identity (enumerate 0 frames)) 0 = Inr results" and
    ord: "rmap (\<lambda>i. case map_of results i of None \<Rightarrow> Inl Internal | Some x \<Rightarrow> Inr x) [0..<length frames] = Inr ordered" and
    summ: "native_summary env command version ordered = Inr res"
    using assms by (auto simp: symbolize_native_def)
  have len: "length ordered = length frames"
    using rmap_length [OF ord] by simp
  have members: "frame_identity y = fst g \<and> y \<in> set (enumerate 0 frames)"
    if "g \<in> set (group_by frame_identity (enumerate 0 frames))" "y \<in> set (snd g)" for g y
    using group_by_members [of "fst g" "snd g" frame_identity "enumerate 0 frames" y] that by simp
  have "frame_result_ok r artifacts i (frames ! i) (ordered ! i)" if "i < length frames" for i
  proof -
    have "map_of results i = Some (ordered ! i)"
      using rmap_nth [OF ord, of i] that by (auto split: option.splits)
    from native_groupsD [OF gs map_of_SomeD [OF this] members] show ?thesis
      by blast
  qed
  moreover obtain stack where st: "stack_from_payload (sz_runtime env) job r [''backtrace''] = Inr stack"
    and agr: "list_all2 frame_agrees frames (native_frame_matches env stack)"
      "map (validate_frame env) (ie_native_identity_json r) = map Some frames"
    using native_frames_for_jobD [OF fr] by blast
  moreover have "rt_sha256_hex (sz_runtime env) stack = sj_input_sha256 job"
    using stack_from_payload_hash [OF st] by blast
  ultimately show ?thesis
    using native_summaryD [OF summ] len
    by (intro exI [of _ stack] exI [of _ frames] exI [of _ ordered]) blast
qed

definition sample_symbolizer :: symbolizer_env where
  "sample_symbolizer =
     \<lparr>sz_runtime = sample_runtime\<lparr>rt_json_loads := (\<lambda>_. Some (JList [jstr ''t'']))\<rparr>, sz_unicode_digit = (\<lambda>_. 0),
      sz_pydantic_int = (\<lambda>j. case j of JScalar (SInt i) \<Rightarrow> Some i | _ \<Rightarrow> None), sz_decode_replace = (\<lambda>s. s),
      sz_is_file = (\<lambda>_. True),
      sz_tool = (\<lambda>_ _ _. Tool_exited 0 [''m'' @ [char_of (10::nat)] @ ''a:3:1''] []), sz_clock = (\<lambda>_. 0)\<rparr>"

definition sample_native_row :: inbox_event where
  "sample_native_row =
     (sample_inbox_row 1)\<lparr>ie_payload_json := [(''fields'', JObj [(''backtrace'', jstr ''#0 pc 1 x'')])],
       ie_version_code := Some ''7'', ie_app_build := Some ''b7'', ie_variant := Some ''release'',
       ie_native_identity_json :=
         [JObj [(''abi'', jstr ''x86''), (''module_build_id'', jstr ''AABBCCDD''), (''module_name'', jstr ''x''),
                (''module_relative_pc'', jint 1)]]\<rparr>"

definition sample_native_artifact :: symbol_artifact where
  "sample_native_artifact =
     sample_artifact\<lparr>sa_tenant_id := ie_tenant_id sample_native_row, sa_app_id := ie_app_id sample_native_row,
       sa_version_code := ''7'', sa_app_build := ''b7'', sa_variant := ''release'', sa_abi := ''x86'', sa_build_id := ''aabbccdd''\<rparr>"

definition sample_native_job :: symbolization_job where
  "sample_native_job = sample_job\<lparr>sj_job_type := Job_native, sj_input_sha256 := ''sha:#0 pc 1 x''\<rparr>"

definition sample_native_result :: "symbolization_result sym_result" where
  "sample_native_result =
     symbolize_native sample_symbolizer sample_native_job sample_native_row
       [((''x86'', ''aabbccdd''), sample_native_artifact, [''srv'', ''x''])] ''c'' ''v1'' 10"

theorem native_result_exact_witness:
  "\<exists>res ordered. sample_native_result = Inr res \<and>
     map_of (sr_result_json res) ''nativeFrames'' = Some (JList (map native_result_json ordered)) \<and> length ordered = 1"
proof -
  have "case sample_native_result of Inl _ \<Rightarrow> False | Inr _ \<Rightarrow> True"
    by code_simp
  then obtain res where res: "sample_native_result = Inr res"
    by (auto split: sum.splits)
  from native_result_exact [OF res [unfolded sample_native_result_def]] obtain stack frames ordered where
    o: "map (validate_frame sample_symbolizer) (ie_native_identity_json sample_native_row) = map Some frames"
      "map_of (sr_result_json res) ''nativeFrames'' = Some (JList (map native_result_json ordered))"
      "length ordered = length frames"
    by blast
  have "length frames = length (ie_native_identity_json sample_native_row)"
    using arg_cong [OF o(1), of length] by simp
  then show ?thesis
    using res o(2,3) by (auto simp: sample_native_row_def)
qed

end
