(* ===== verification/Apm_Symbolizer_Worker.thy ===== *)
theory Apm_Symbolizer_Worker
  imports Apm_Symbolization
begin

section \<open>The symbolizer worker\<close>

text \<open>
  \<^verbatim>\<open>symbolizer_worker.py\<close>: a cycle claims one job at a time, resolves its artifacts, spends an attempt,
  runs the tool and records the outcome, each step in a transaction of its own. \<open>claim_run\<close> holds what
  a run of the loop body meets: the clock readings of its statements, the point at which the lease
  deadline or another exception cuts it short, and what other transactions commit in between.
\<close>

record symbol_tables =
  yt_inbox :: "inbox_event list"
  yt_jobs :: "symbolization_job list"
  yt_artifacts :: "symbol_artifact list"

record worker_settings =
  ws_symbolization_enabled :: bool
  ws_symbolizer_batch_size :: nat
  ws_symbolizer_lease_seconds :: int
  ws_symbolizer_max_attempts :: int
  ws_tools :: tool_settings

text \<open>The points between the transactions: at \<open>At_done\<close> the last commit is through but its result is lost.\<close>

datatype claim_point = At_resolve | At_missing | At_start | At_tool | At_finish | At_done | At_failure

record claim_run =
  cr_token :: string
  cr_locked :: "int \<Rightarrow> bool"
  cr_clock :: "claim_point \<Rightarrow> time"
  cr_timeout :: "claim_point \<Rightarrow> bool"
  cr_others :: "claim_point \<Rightarrow> symbol_tables \<Rightarrow> symbol_tables"
  cr_env :: symbolizer_env

definition sym_path :: "artifact_env \<Rightarrow> symbol_artifact \<Rightarrow> string list sym_result" where
  "sym_path store a = (case path_for store (sa_storage_key a) of Inl _ \<Rightarrow> Inl Internal | Inr p \<Rightarrow> Inr p)"

definition resolve_symbols ::
    "symbolizer_env \<Rightarrow> artifact_env \<Rightarrow> symbol_artifact list \<Rightarrow> symbolization_job \<Rightarrow> inbox_event
       \<Rightarrow> (symbol_artifact option \<times> native_artifacts option) sym_result" where
  "resolve_symbols env store artifacts job r =
     (case sj_job_type job of
        Job_native \<Rightarrow>
          rbind (native_frames_for_job env job r) (\<lambda>frames.
          let modules = resolve_native_artifacts artifacts frames job r
          in rbind (rmap (\<lambda>a. rbind (sym_path store a) (\<lambda>p. Inr ((sa_abi a, sa_build_id a), a, p))) modules) (\<lambda>entries.
               Inr (case modules of [] \<Rightarrow> None | a # _ \<Rightarrow> Some a, Some (dict_of entries))))
      | Job_java \<Rightarrow>
          (case resolve_artifact artifacts job r of Inl _ \<Rightarrow> Inl Internal | Inr a \<Rightarrow> Inr (a, None)))"

definition attempts_exhausted :: sym_exn where
  "attempts_exhausted =
     failure ''symbolizer_attempts_exhausted'' ''The symbolization tool retry budget is exhausted'' False"

definition finish_claim ::
    "claim_run \<Rightarrow> string \<Rightarrow> symbolization_job \<Rightarrow> symbol_artifact \<Rightarrow> symbolization_result \<Rightarrow> symbol_tables
       \<Rightarrow> symbol_tables \<times> string option sym_result" where
  "finish_claim run owner job a res tb =
     (if cr_timeout run At_finish then (tb, Inl Timed_out)
      else
        let tb = cr_others run At_finish tb
        in (case mark_symbolized owner job (sa_id a) (JObj (sr_result_json res)) (sr_fingerprint_sha256 res) (sr_tool_name res)
                   (sr_tool_version res) (sr_status res) (cr_clock run At_finish) (yt_inbox tb) (yt_jobs tb) of
              Inl _ \<Rightarrow> (tb, Inl Internal)
            | Inr (inbox, jobs, changed) \<Rightarrow>
                (tb\<lparr>yt_inbox := inbox, yt_jobs := jobs\<rparr>,
                 if cr_timeout run At_done then Inl Timed_out
                 else Inr (if changed then Some (symbol_status_text (sr_status res)) else None))))"

definition attempt_claim ::
    "worker_settings \<Rightarrow> artifact_env \<Rightarrow> claim_run \<Rightarrow> string \<Rightarrow> symbolization_job \<Rightarrow> inbox_event \<Rightarrow> symbol_artifact
       \<Rightarrow> native_artifacts option \<Rightarrow> symbol_tables \<Rightarrow> symbol_tables \<times> symbolization_job \<times> string option sym_result" where
  "attempt_claim st store run owner job r a native_artifacts tb =
     (if sj_attempt_count job \<ge> ws_symbolizer_max_attempts st then (tb, job, Inl attempts_exhausted)
      else if cr_timeout run At_start then (tb, job, Inl Timed_out)
      else
        let tb = cr_others run At_start tb
        in (case start_symbolization_attempt owner job (ws_symbolizer_max_attempts st) (cr_clock run At_start) (yt_jobs tb) of
              (jobs, None) \<Rightarrow> (tb\<lparr>yt_jobs := jobs\<rparr>, job, Inr None)
            | (jobs, Some job') \<Rightarrow>
                let tb = tb\<lparr>yt_jobs := jobs\<rparr>
                in (case (if cr_timeout run At_tool then Inl Timed_out
                          else rbind (sym_path store a) (\<lambda>path.
                                 symbolize_job (cr_env run) (ws_tools st) job' r a path native_artifacts)) of
                      Inl e \<Rightarrow> (tb, job', Inl e)
                    | Inr res \<Rightarrow> (case finish_claim run owner job' a res tb of (tb', out) \<Rightarrow> (tb', job', out)))))"

definition process_claim ::
    "worker_settings \<Rightarrow> artifact_env \<Rightarrow> claim_run \<Rightarrow> string \<Rightarrow> symbolization_job \<Rightarrow> inbox_event option \<Rightarrow> symbol_tables
       \<Rightarrow> symbol_tables \<times> symbolization_job \<times> string option sym_result" where
  "process_claim st store run owner job row tb =
     (case row of
        None \<Rightarrow> (tb, job, Inl Internal)
      | Some r \<Rightarrow>
          (case (if cr_timeout run At_resolve then Inl Timed_out
                 else resolve_symbols (cr_env run) store (yt_artifacts tb) job r) of
             Inl e \<Rightarrow> (tb, job, Inl e)
           | Inr (None, _) \<Rightarrow>
               if cr_timeout run At_missing then (tb, job, Inl Timed_out)
               else
                 let tb = cr_others run At_missing tb
                 in (case mark_symbols_missing owner (sj_id job) ''No exact symbol artifact is registered''
                            (cr_clock run At_missing) (yt_jobs tb) of
                       (jobs, changed) \<Rightarrow>
                         (tb\<lparr>yt_jobs := jobs\<rparr>, job,
                          if cr_timeout run At_done then Inl Timed_out
                          else Inr (if changed then Some ''symbols_missing'' else None)))
           | Inr (Some a, native_artifacts) \<Rightarrow> attempt_claim st store run owner job r a native_artifacts tb))"

fun handled_failure :: "sym_exn \<Rightarrow> sym_failure" where
  "handled_failure Timed_out =
     \<lparr>sf_code = ''symbolizer_lease_budget_exhausted'',
      sf_message = ''The symbolization job exceeded its lease execution budget'', sf_retryable = True\<rparr>"
| "handled_failure (Failed f) = f"
| "handled_failure Internal =
     \<lparr>sf_code = ''symbolizer_internal_error'', sf_message = ''The symbolization job failed internally'', sf_retryable = True\<rparr>"

definition record_failure ::
    "worker_settings \<Rightarrow> claim_run \<Rightarrow> string \<Rightarrow> symbolization_job \<Rightarrow> sym_failure \<Rightarrow> symbol_tables
       \<Rightarrow> symbol_tables \<times> string option" where
  "record_failure st run owner job f tb =
     (let tb = cr_others run At_failure tb
      in (case mark_symbolization_failed owner job (sf_retryable f) (ws_symbolizer_max_attempts st) (sf_code f) (sf_message f)
                 (cr_clock run At_failure) (yt_inbox tb) (yt_jobs tb) of
            (inbox, jobs, changed) \<Rightarrow>
              (tb\<lparr>yt_inbox := inbox, yt_jobs := jobs\<rparr>,
               if \<not> changed then None
               else Some (if sf_retryable f \<and> sj_attempt_count job < ws_symbolizer_max_attempts st then ''retry'' else ''failed''))))"

definition settle_claim ::
    "worker_settings \<Rightarrow> artifact_env \<Rightarrow> claim_run \<Rightarrow> string \<Rightarrow> symbolization_job \<Rightarrow> symbol_tables
       \<Rightarrow> symbol_tables \<times> string option" where
  "settle_claim st store run owner job tb =
     (case process_claim st store run owner job (find (\<lambda>r. ie_id r = sj_inbox_event_id job) (yt_inbox tb)) tb of
        (tb', job', Inr label) \<Rightarrow> (tb', label)
      | (tb', job', Inl e) \<Rightarrow> record_failure st run owner job' (handled_failure e) tb')"

fun symbolize_runs ::
    "worker_settings \<Rightarrow> artifact_env \<Rightarrow> string \<Rightarrow> (time \<times> claim_run) list \<Rightarrow> symbol_tables \<Rightarrow> nat
       \<Rightarrow> symbol_tables \<times> nat" where
  "symbolize_runs st store worker [] tb changed = (tb, changed)"
| "symbolize_runs st store worker ((claimed_at, run) # runs) tb changed =
     (let owner = new_lease_owner worker (cr_token run)
      in (case claim_symbolization_batch (cr_locked run) owner 1 (ws_symbolizer_lease_seconds st) claimed_at (yt_jobs tb) of
            (jobs, []) \<Rightarrow> (tb\<lparr>yt_jobs := jobs\<rparr>, changed)
          | (jobs, job # _) \<Rightarrow>
              (case settle_claim st store run owner job (tb\<lparr>yt_jobs := jobs\<rparr>) of
                 (tb', label) \<Rightarrow> symbolize_runs st store worker runs tb' (if label = None then changed else changed + 1))))"

definition symbolize_once ::
    "worker_settings \<Rightarrow> artifact_env \<Rightarrow> string \<Rightarrow> (time \<times> claim_run) list \<Rightarrow> symbol_tables \<Rightarrow> symbol_tables \<times> nat" where
  "symbolize_once st store worker runs tb =
     (if \<not> ws_symbolization_enabled st then (tb, 0)
      else symbolize_runs st store worker (take (ws_symbolizer_batch_size st) runs) tb 0)"

subsection \<open>A claimed job\<close>

definition own :: "int \<Rightarrow> symbolization_job list \<Rightarrow> symbolization_job list" where
  "own i jobs = filter (\<lambda>j. sj_id j = i) jobs"

text \<open>The only row of the job carries the claim of \<open>owner\<close>, with \<open>n\<close> attempts spent.\<close>

definition holds :: "int \<Rightarrow> string \<Rightarrow> time \<Rightarrow> int \<Rightarrow> symbolization_job list \<Rightarrow> bool" where
  "holds i owner expiry n jobs \<longleftrightarrow>
     (\<exists>j. own i jobs = [j] \<and> sj_status j = SS_processing \<and> sj_lease_owner j = Some owner \<and>
          sj_lease_expires_at j = Some expiry \<and> sj_attempt_count j = n)"

definition settled :: "int \<Rightarrow> int \<Rightarrow> symbolization_job list \<Rightarrow> bool" where
  "settled i n jobs \<longleftrightarrow>
     (\<exists>j. own i jobs = [j] \<and> sj_status j \<noteq> SS_processing \<and> sj_lease_owner j = None \<and> sj_lease_expires_at j = None \<and>
          sj_attempt_count j \<le> n)"

lemma own_sql_update:
  assumes "\<And>j. sj_id (f j) = sj_id j"
  shows "own i (sql_update p f jobs) = sql_update p f (own i jobs)"
  using assms by (induction jobs) (auto simp: own_def sql_update_def)

lemma sql_update_single: "sql_update p f [x] = [if p x then f x else x]"
  by (simp add: sql_update_def)

lemma own_single: "own i jobs = [j] \<Longrightarrow> r \<in> set jobs \<and> sj_id r = i \<longleftrightarrow> r = j"
  by (metis (mono_tags, lifting) own_def empty_iff list.set(1) mem_Collect_eq set_ConsD set_filter list.set_intros(1))

lemma held_rows:
  assumes "holds i owner expiry n jobs" and "t < expiry"
  obtains j where "own i jobs = [j]" "job_held i owner t j" "sj_attempt_count j = n"
proof -
  obtain j where j: "own i jobs = [j]" "sj_status j = SS_processing" "sj_lease_owner j = Some owner"
    "sj_lease_expires_at j = Some expiry" "sj_attempt_count j = n"
    using assms(1) by (auto simp: holds_def)
  have "sj_id j = i"
    using own_single [OF j(1)] by blast
  then have "job_held i owner t j"
    using j assms(2) by (simp add: job_held_def lease_held_def job_lease_def)
  then show ?thesis
    using that j by blast
qed

lemma rowcount_held:
  assumes "holds i owner expiry n jobs" and "t < expiry"
  shows "rowcount (job_held i owner t) jobs \<noteq> 0"
proof -
  from held_rows [OF assms] obtain j where "own i jobs = [j]" "job_held i owner t j" .
  then have "j \<in> set jobs"
    using own_single by blast
  then show ?thesis
    using \<open>job_held i owner t j\<close> by auto
qed

lemma update_held_settles:
  assumes "holds i owner expiry n jobs" and "t < expiry" and "\<And>j. sj_id (f j) = sj_id j"
    and "\<And>j. sj_status (f j) \<noteq> SS_processing \<and> sj_lease_owner (f j) = None \<and> sj_lease_expires_at (f j) = None \<and>
             sj_attempt_count (f j) = sj_attempt_count j"
  shows "settled i n (sql_update (job_held i owner t) f jobs)"
proof -
  from held_rows [OF assms(1,2)] obtain j where j: "own i jobs = [j]" "job_held i owner t j" "sj_attempt_count j = n" .
  then show ?thesis
    using assms(4) [of j] by (auto simp: settled_def own_sql_update [OF assms(3)] sql_update_single)
qed

lemma holds_cong: "own i jobs = own i jobs' \<Longrightarrow> holds i owner expiry n jobs = holds i owner expiry n jobs'"
  by (simp add: holds_def)

lemma settled_cong: "own i jobs = own i jobs' \<Longrightarrow> settled i n jobs = settled i n jobs'"
  by (simp add: settled_def)

lemma settled_mono: "settled i n jobs \<Longrightarrow> n \<le> m \<Longrightarrow> settled i m jobs"
  by (auto simp: settled_def)

lemma settled_not_held:
  assumes "settled i n jobs"
  shows "rowcount (job_held i owner t) jobs = 0"
proof -
  obtain j where "own i jobs = [j]" "sj_status j \<noteq> SS_processing"
    using assms by (auto simp: settled_def)
  then have "\<not> job_held i owner t r" if "r \<in> set jobs" for r
    using that own_single [of i jobs j r] by (auto simp: job_held_def lease_held_def job_lease_def)
  then show ?thesis
    by simp
qed

text \<open>Between the claim and the last statement the lease is live, and other transactions leave the claimed row alone.\<close>

definition undisturbed :: "int \<Rightarrow> time \<Rightarrow> claim_run \<Rightarrow> bool" where
  "undisturbed i expiry run \<longleftrightarrow>
     (\<forall>pt. cr_clock run pt < expiry) \<and> (\<forall>pt tb. own i (yt_jobs (cr_others run pt tb)) = own i (yt_jobs tb))"

lemma undisturbedD:
  assumes "undisturbed i expiry run"
  shows "cr_clock run pt < expiry" "holds i owner e n (yt_jobs (cr_others run pt tb)) = holds i owner e n (yt_jobs tb)"
    "settled i n (yt_jobs (cr_others run pt tb)) = settled i n (yt_jobs tb)"
  using assms holds_cong settled_cong unfolding undisturbed_def by blast+

lemma finish_claim_outcome:
  assumes "undisturbed i expiry run" and "holds i owner expiry n (yt_jobs tb)" and "sj_id job = i"
    and "finish_claim run owner job a res tb = (tb', out)"
  shows "(holds i owner expiry n (yt_jobs tb') \<and> (\<exists>e. out = Inl e)) \<or> settled i n (yt_jobs tb')"
proof (cases "cr_timeout run At_finish")
  case True
  then show ?thesis using assms by (auto simp: finish_claim_def)
next
  case False
  let ?tb = "cr_others run At_finish tb"
  have h: "holds i owner expiry n (yt_jobs ?tb)"
    using assms(1,2) undisturbedD(2) by blast
  note t = undisturbedD(1) [OF assms(1), of At_finish]
  have "settled i n (sql_update (job_held i owner (cr_clock run At_finish))
      (complete_job (sr_status res) (sa_id a) (JObj (sr_result_json res)) (sr_fingerprint_sha256 res) (sr_tool_name res)
        (sr_tool_version res) (cr_clock run At_finish)) (yt_jobs ?tb))"
    if "sr_status res \<noteq> SS_processing"
    by (rule update_held_settles [OF h t]) (simp_all add: complete_job_def that)
  then show ?thesis
    using assms(3,4) False h rowcount_held [OF h t]
    by (auto simp: finish_claim_def mark_symbolized_def Let_def split: if_splits)
qed

lemma start_attempt_outcome:
  assumes "holds (sj_id job) owner expiry (sj_attempt_count job) jobs" and "t < expiry" and "sj_attempt_count job < m"
  shows "\<exists>jobs'. start_symbolization_attempt owner job m t jobs =
           (jobs', Some (job\<lparr>sj_attempt_count := sj_attempt_count job + 1\<rparr>)) \<and>
           holds (sj_id job) owner expiry (sj_attempt_count job + 1) jobs'"
proof -
  let ?p = "\<lambda>j. job_held (sj_id job) owner t j \<and> sj_attempt_count j = sj_attempt_count job \<and> sj_attempt_count j < m"
  from held_rows [OF assms(1,2)] obtain j where j: "own (sj_id job) jobs = [j]" "job_held (sj_id job) owner t j"
    "sj_attempt_count j = sj_attempt_count job" .
  have count: "rowcount ?p jobs \<noteq> 0"
    using j assms(3) own_single [OF j(1)] by auto
  have "own (sj_id job) (sql_update ?p (\<lambda>j. j\<lparr>sj_attempt_count := sj_attempt_count j + 1, sj_updated_at := t\<rparr>) jobs) =
      [j\<lparr>sj_attempt_count := sj_attempt_count j + 1, sj_updated_at := t\<rparr>]"
    using j assms(3) by (simp add: own_sql_update sql_update_single)
  then show ?thesis
    using count j assms(1) by (auto simp: start_symbolization_attempt_def Let_def holds_def)
qed

lemma attempt_claim_outcome:
  assumes u: "undisturbed (sj_id job) expiry run"
    and h: "holds (sj_id job) owner expiry (sj_attempt_count job) (yt_jobs tb)"
    and a: "attempt_claim st store run owner job r art native tb = (tb', job', out)"
  shows "sj_id job' = sj_id job \<and>
         ((\<exists>n\<le>sj_attempt_count job + 1. holds (sj_id job) owner expiry n (yt_jobs tb')) \<and> (\<exists>e. out = Inl e) \<or>
          settled (sj_id job) (sj_attempt_count job + 1) (yt_jobs tb'))"
proof (cases "sj_attempt_count job \<ge> ws_symbolizer_max_attempts st \<or> cr_timeout run At_start")
  case True
  then have "tb' = tb \<and> job' = job \<and> (\<exists>e. out = Inl e)"
    using a by (auto simp: attempt_claim_def split: if_splits)
  then show ?thesis
    using h by (auto intro: exI [of _ "sj_attempt_count job"])
next
  case False
  have "holds (sj_id job) owner expiry (sj_attempt_count job) (yt_jobs (cr_others run At_start tb))"
    using h undisturbedD(2) [OF u] by blast
  from start_attempt_outcome [OF this undisturbedD(1) [OF u]] False obtain jobs' where
    s: "start_symbolization_attempt owner job (ws_symbolizer_max_attempts st) (cr_clock run At_start)
          (yt_jobs (cr_others run At_start tb)) = (jobs', Some (job\<lparr>sj_attempt_count := sj_attempt_count job + 1\<rparr>))" and
    h': "holds (sj_id job) owner expiry (sj_attempt_count job + 1) jobs'"
    by (auto simp: not_le)
  let ?tb = "cr_others run At_start tb\<lparr>yt_jobs := jobs'\<rparr>" and ?job = "job\<lparr>sj_attempt_count := sj_attempt_count job + 1\<rparr>"
  show ?thesis
  proof (cases "if cr_timeout run At_tool then Inl Timed_out else rbind (sym_path store art) (\<lambda>path.
      symbolize_job (cr_env run) (ws_tools st) ?job r art path native)")
    case (Inl e)
    then have "tb' = ?tb \<and> job' = ?job \<and> out = Inl e"
      using a s False by (auto simp: attempt_claim_def Let_def)
    then show ?thesis
      using h' by auto
  next
    case (Inr res)
    obtain tb2 out2 where f: "finish_claim run owner ?job art res ?tb = (tb2, out2)"
      by (cases "finish_claim run owner ?job art res ?tb")
    then have "tb' = tb2 \<and> job' = ?job \<and> out = out2"
      using a s False Inr by (auto simp: attempt_claim_def Let_def)
    moreover have "(holds (sj_id job) owner expiry (sj_attempt_count job + 1) (yt_jobs tb2) \<and> (\<exists>e. out2 = Inl e)) \<or>
        settled (sj_id job) (sj_attempt_count job + 1) (yt_jobs tb2)"
      by (rule finish_claim_outcome [OF u _ _ f]) (simp_all add: h')
    ultimately show ?thesis
      by auto
  qed
qed

lemma process_claim_outcome:
  assumes u: "undisturbed (sj_id job) expiry run"
    and h: "holds (sj_id job) owner expiry (sj_attempt_count job) (yt_jobs tb)"
    and p: "process_claim st store run owner job row tb = (tb', job', out)"
  shows "sj_id job' = sj_id job \<and>
         ((\<exists>n\<le>sj_attempt_count job + 1. holds (sj_id job) owner expiry n (yt_jobs tb')) \<and> (\<exists>e. out = Inl e) \<or>
          settled (sj_id job) (sj_attempt_count job + 1) (yt_jobs tb'))"
proof -
  have keep: ?thesis if "tb' = tb" "job' = job" "out = Inl e" for e
    using that h by (auto intro: exI [of _ "sj_attempt_count job"])
  consider (early) e where "tb' = tb" "job' = job" "out = Inl e"
    | (missing) "job' = job" "yt_jobs tb' = fst (mark_symbols_missing owner (sj_id job) ''No exact symbol artifact is registered''
        (cr_clock run At_missing) (yt_jobs (cr_others run At_missing tb)))"
    | (attempt) r art native where "attempt_claim st store run owner job r art native tb = (tb', job', out)"
    using p by (auto simp: process_claim_def Let_def split: option.splits sum.splits prod.splits if_splits)
  then show ?thesis
  proof cases
    case early
    then show ?thesis by (rule keep)
  next
    case missing
    have "holds (sj_id job) owner expiry (sj_attempt_count job) (yt_jobs (cr_others run At_missing tb))"
      using h undisturbedD(2) [OF u] by blast
    then have "settled (sj_id job) (sj_attempt_count job) (yt_jobs tb')"
      unfolding missing(2) mark_symbols_missing_def fst_conv
      by (rule update_held_settles [OF _ undisturbedD(1) [OF u]]) simp_all
    then show ?thesis
      using missing(1) settled_mono by force
  next
    case attempt
    then show ?thesis by (rule attempt_claim_outcome [OF u h])
  qed
qed

lemma record_failure_settles:
  assumes u: "undisturbed (sj_id job) expiry run"
    and h: "(\<exists>m\<le>n. holds (sj_id job) owner expiry m (yt_jobs tb)) \<or> settled (sj_id job) n (yt_jobs tb)"
    and r: "record_failure st run owner job f tb = (tb', label)"
  shows "settled (sj_id job) n (yt_jobs tb')"
proof -
  let ?tb = "cr_others run At_failure tb"
  have out: "yt_jobs tb' = fst (snd (mark_symbolization_failed owner job (sf_retryable f) (ws_symbolizer_max_attempts st)
      (sf_code f) (sf_message f) (cr_clock run At_failure) (yt_inbox ?tb) (yt_jobs ?tb)))"
    using r by (auto simp: record_failure_def Let_def split: prod.splits)
  from h show ?thesis
  proof (elim disjE exE conjE)
    fix m assume m: "m \<le> n" "holds (sj_id job) owner expiry m (yt_jobs tb)"
    then have hm: "holds (sj_id job) owner expiry m (yt_jobs ?tb)"
      using undisturbedD(2) [OF u] by blast
    note t = undisturbedD(1) [OF u, of At_failure]
    have "settled (sj_id job) m (sql_update (job_held (sj_id job) owner (cr_clock run At_failure))
        (fail_job retry delay (sf_code f) (sf_message f) (cr_clock run At_failure)) (yt_jobs ?tb))" for retry delay
      by (rule update_held_settles [OF hm t]) (simp_all add: fail_job_def)
    then show ?thesis
      using rowcount_held [OF hm t] m(1) by (auto simp: out mark_symbolization_failed_def Let_def intro: settled_mono)
  next
    assume "settled (sj_id job) n (yt_jobs tb)"
    then have s: "settled (sj_id job) n (yt_jobs ?tb)"
      using undisturbedD(3) [OF u] by blast
    then show ?thesis
      using settled_not_held [OF s] by (simp add: out mark_symbolization_failed_def Let_def)
  qed
qed

lemma settle_claim_settles:
  assumes u: "undisturbed (sj_id job) expiry run"
    and h: "holds (sj_id job) owner expiry (sj_attempt_count job) (yt_jobs tb)"
  shows "settled (sj_id job) (sj_attempt_count job + 1) (yt_jobs (fst (settle_claim st store run owner job tb)))"
proof -
  let ?row = "find (\<lambda>r. ie_id r = sj_inbox_event_id job) (yt_inbox tb)"
  obtain tb' job' out where p: "process_claim st store run owner job ?row tb = (tb', job', out)"
    by (cases "process_claim st store run owner job ?row tb") auto
  note o = process_claim_outcome [OF u h p]
  show ?thesis
  proof (cases out)
    case (Inl e)
    obtain tb2 label where f: "record_failure st run owner job' (handled_failure e) tb' = (tb2, label)"
      by (cases "record_failure st run owner job' (handled_failure e) tb'")
    have "settled (sj_id job') (sj_attempt_count job + 1) (yt_jobs tb2)"
      by (rule record_failure_settles [OF _ _ f]) (use o u in auto)
    then show ?thesis
      using o by (simp add: settle_claim_def p Inl f)
  next
    case (Inr label)
    then show ?thesis
      using o by (auto simp: settle_claim_def p)
  qed
qed

lemma distinct_own:
  assumes "distinct (map sj_id jobs)" and "j \<in> set jobs"
  shows "own (sj_id j) jobs = [j]"
  using assms by (induction jobs) (auto simp: own_def filter_empty_conv rev_image_eqI)

lemma claimed_holds:
  assumes "distinct (map sj_id jobs)"
    and "claim_symbolization_batch locked owner 1 lease t jobs = (jobs', job # rest)"
  shows "holds (sj_id job) owner (t + seconds lease) (sj_attempt_count job) jobs'"
proof -
  let ?rows = "order_limit sj_id 1 (filter (\<lambda>j. job_claimable t j \<and> \<not> locked (sj_id j)) jobs)"
  let ?c = "claim_job t owner (t + seconds lease)"
  obtain j where j: "job = ?c j" "j \<in> set ?rows"
    using assms(2) by (cases ?rows) (auto simp: claim_symbolization_batch_def Let_def)
  have "j \<in> set jobs"
    using j(2) set_order_limit by fastforce
  then have "own (sj_id j) jobs = [j]"
    by (rule distinct_own [OF assms(1)])
  moreover have "jobs' = sql_update (\<lambda>j. sj_id j \<in> sj_id ` set ?rows) ?c jobs"
    using assms(2) by (simp add: claim_symbolization_batch_def Let_def)
  moreover have "sj_id (?c k) = sj_id k" for k
    by (simp add: claim_job_def)
  ultimately show ?thesis
    using j by (auto simp: holds_def own_sql_update sql_update_single claim_job_def)
qed

subsection \<open>Properties\<close>

text \<open>
  C16. Every claim is settled. Once the worker has claimed a job, whatever the artifacts, the tool and
  its output are and wherever the deadline or another exception cuts the work short, the job leaves
  the processing state and gives up its lease before the loop body ends, with at most one more
  attempt spent, provided that the statements run within the lease and other transactions leave the
  claimed row alone.
\<close>

theorem claimed_job_is_settled:
  assumes "distinct (map sj_id (yt_jobs tb))"
    and "claim_symbolization_batch locked owner 1 (ws_symbolizer_lease_seconds st) claimed_at (yt_jobs tb) = (jobs, job # rest)"
    and "undisturbed (sj_id job) (claimed_at + seconds (ws_symbolizer_lease_seconds st)) run"
  shows "\<exists>j. filter (\<lambda>j. sj_id j = sj_id job)
               (yt_jobs (fst (settle_claim st store run owner job (tb\<lparr>yt_jobs := jobs\<rparr>)))) = [j] \<and>
             sj_status j \<noteq> SS_processing \<and> sj_lease_owner j = None \<and> sj_lease_expires_at j = None \<and>
             sj_attempt_count j \<le> sj_attempt_count job + 1"
proof -
  have "holds (sj_id job) owner (claimed_at + seconds (ws_symbolizer_lease_seconds st)) (sj_attempt_count job)
      (yt_jobs (tb\<lparr>yt_jobs := jobs\<rparr>))"
    using claimed_holds [OF assms(1,2)] by simp
  from settle_claim_settles [OF assms(3) this] show ?thesis
    by (simp add: settled_def own_def)
qed

definition sample_tools :: tool_settings where
  "sample_tools =
     \<lparr>ts_retrace_command_json = ''c'', ts_retrace_tool_version = ''v'', ts_llvm_command_json = ''c'', ts_llvm_tool_version = ''v'',
      ts_timeout_seconds = 10\<rparr>"

definition sample_worker_settings :: worker_settings where
  "sample_worker_settings =
     \<lparr>ws_symbolization_enabled = True, ws_symbolizer_batch_size = 1, ws_symbolizer_lease_seconds = 30,
      ws_symbolizer_max_attempts = 3, ws_tools = sample_tools\<rparr>"

definition sample_run :: claim_run where
  "sample_run =
     \<lparr>cr_token = ''tok'', cr_locked = (\<lambda>_. False), cr_clock = (\<lambda>_. 10), cr_timeout = (\<lambda>pt. pt = At_tool),
      cr_others = (\<lambda>_ tb. tb), cr_env = sample_symbolizer\<rparr>"

definition sample_symbol_tables :: symbol_tables where
  "sample_symbol_tables =
     \<lparr>yt_inbox = [sample_native_row],
      yt_jobs = [sample_native_job\<lparr>sj_status := SS_pending, sj_next_attempt_at := 0, sj_lease_owner := None,
                   sj_lease_expires_at := None, sj_attempt_count := 0\<rparr>],
      yt_artifacts = [sample_native_artifact]\<rparr>"

theorem claimed_job_is_settled_witness:
  "\<exists>job j. snd (claim_symbolization_batch (\<lambda>_. False) ''w'' 1 30 5 (yt_jobs sample_symbol_tables)) = [job] \<and>
     filter (\<lambda>j. sj_id j = sj_id job)
       (yt_jobs (fst (settle_claim sample_worker_settings sample_artifact_env sample_run ''w'' job
          (sample_symbol_tables\<lparr>yt_jobs := fst (claim_symbolization_batch (\<lambda>_. False) ''w'' 1 30 5 (yt_jobs sample_symbol_tables))\<rparr>)))) = [j] \<and>
     sj_status j \<noteq> SS_processing"
proof -
  let ?claim = "claim_symbolization_batch (\<lambda>_. False) ''w'' 1 30 5 (yt_jobs sample_symbol_tables)"
  have "length (snd ?claim) = 1" "distinct (map sj_id (yt_jobs sample_symbol_tables))"
    by code_simp+
  then obtain job where job: "snd ?claim = [job]"
    by (cases "snd ?claim") auto
  have st: "ws_symbolizer_lease_seconds sample_worker_settings = 30"
    by (simp add: sample_worker_settings_def)
  have "undisturbed (sj_id job) (5 + seconds 30) sample_run"
    by (simp add: undisturbed_def sample_run_def seconds_def)
  moreover have "?claim = (fst ?claim, job # [])"
    using job by (simp add: prod_eq_iff)
  ultimately show ?thesis
    using claimed_job_is_settled [of sample_symbol_tables "\<lambda>_. False" "''w''" sample_worker_settings 5 "fst ?claim" job "[]"
        sample_run sample_artifact_env] \<open>distinct (map sj_id (yt_jobs sample_symbol_tables))\<close> job
    unfolding st by blast
qed

end
