(* ===== verification/Apm_Loops.thy ===== *)
theory Apm_Loops
  imports Apm_System Apm_Symbolizer_Worker
begin

section \<open>The two worker processes\<close>

text \<open>
  The model of \<open>worker_loop\<close> (\<open>worker.py\<close>) and \<open>symbolizer_loop\<close> (\<open>symbolizer_worker.py\<close>). A run takes a
  list of rounds, each with what the round meets: the readings of the monotonic clock, the exceptions
  that hit the retention pass, the export or the pause, the clocks and locks of its transactions, and
  what other processes commit meanwhile. The loop itself never ends; a run over \<open>n\<close> rounds is its
  first \<open>n\<close> iterations, cut short only by a cancellation. The lemmas show that an export process is a
  run of the step relation of the store, so that what holds of every interleaving holds of it.
\<close>

datatype loop_exn = Loop_cancelled | Loop_error

record loop_settings =
  lp_maintenance :: maintenance_settings
  lp_export :: export_settings
  lp_retention_interval_seconds :: rat

record worker_round =
  wr_before :: "store \<Rightarrow> store"
  wr_monotonic :: "nat \<Rightarrow> rat"
  wr_prune_fault :: "loop_exn option"
  wr_prune_locked :: "int \<Rightarrow> bool"
  wr_observed :: time
  wr_written :: time
  wr_between :: "store \<Rightarrow> store"
  wr_export_fault :: "loop_exn option"
  wr_token :: string
  wr_locked :: "int \<Rightarrow> bool"
  wr_times :: cycle_times
  wr_during :: "inbox_event list \<Rightarrow> inbox_event list"
  wr_exchange :: "inbox_event list \<Rightarrow> inbox_event list"
  wr_client :: "string \<Rightarrow> export_result option"
  wr_sleep_cancelled :: bool

record round_log =
  rl_retention :: "(rat \<times> rat) option"
  rl_changed :: "nat option"
  rl_slept :: bool

record worker_env =
  we_dialect :: dialect
  we_otlp :: otlp_env
  we_serialize :: "export_logs_request \<Rightarrow> string"
  we_owner :: string

subsection \<open>One round\<close>

text \<open>
  The retention pass of a round: the instant of the next pass, the store, the two clock readings
  when the pass was due, and the exception that escaped it.
\<close>

definition retention_round ::
    "loop_settings \<Rightarrow> worker_env \<Rightarrow> worker_round \<Rightarrow> rat \<Rightarrow> store \<Rightarrow> rat \<times> store \<times> (rat \<times> rat) option \<times> loop_exn option" where
  "retention_round st env w next_maintenance db =
     (if wr_monotonic w 0 < next_maintenance then (next_maintenance, db, None, None)
      else
        let next' = wr_monotonic w 1 + lp_retention_interval_seconds st;
            pass = Some (wr_monotonic w 0, wr_monotonic w 1)
        in (case wr_prune_fault w of
              Some e \<Rightarrow> (next', db, pass, Some e)
            | None \<Rightarrow>
                (case maintain_once (lp_maintenance st) (we_dialect env) (wr_prune_locked w) (wr_observed w) (wr_written w) db of
                   Inl _ \<Rightarrow> (next', db, pass, Some Loop_error)
                 | Inr (db', _, _) \<Rightarrow> (next', db', pass, None))))"

definition export_round :: "loop_settings \<Rightarrow> worker_env \<Rightarrow> worker_round \<Rightarrow> store \<Rightarrow> loop_exn + store \<times> nat" where
  "export_round st env w db =
     (case wr_export_fault w of
        Some e \<Rightarrow> Inl e
      | None \<Rightarrow>
          (case export_once (lp_export st) (encode_request (we_otlp env) (we_serialize env) (mt_jobs db)) (wr_client w)
                  (we_owner env) (wr_token w) (wr_locked w) (wr_times w) (wr_during w) (wr_exchange w) (mt_inbox db) of
             Inl _ \<Rightarrow> Inl Loop_error
           | Inr (inbox, n) \<Rightarrow> Inr (db\<lparr>mt_inbox := inbox\<rparr>, n)))"

text \<open>
  The result of a run: the store, the log of the finished rounds and whether a cancellation ended
  it. A round pauses when it failed or changed nothing.
\<close>

fun worker_loop ::
    "loop_settings \<Rightarrow> worker_env \<Rightarrow> worker_round list \<Rightarrow> rat \<Rightarrow> store \<Rightarrow> store \<times> round_log list \<times> bool" where
  "worker_loop st env [] next_maintenance db = (db, [], False)"
| "worker_loop st env (w # ws) next_maintenance db =
     (case retention_round st env w next_maintenance (wr_before w db) of
        (next', db1, pass, escaped) \<Rightarrow>
          if escaped = Some Loop_cancelled then (db1, [], True)
          else
            let db2 = wr_between w db1; attempt = export_round st env w db2
            in if attempt = Inl Loop_cancelled then (db2, [], True)
               else
                 let db3 = (case attempt of Inl _ \<Rightarrow> db2 | Inr (db', _) \<Rightarrow> db');
                     changed = (case attempt of Inl _ \<Rightarrow> None | Inr (_, n) \<Rightarrow> Some n);
                     pause = (changed = None \<or> changed = Some 0);
                     entry = \<lparr>rl_retention = pass, rl_changed = changed, rl_slept = pause\<rparr>
                 in if pause \<and> wr_sleep_cancelled w then (db3, [entry], True)
                    else (case worker_loop st env ws next' db3 of (db', entries, cancelled) \<Rightarrow> (db', entry # entries, cancelled)))"

subsection \<open>The symbolizer process\<close>

record symbolizer_round =
  yr_before :: "symbol_tables \<Rightarrow> symbol_tables"
  yr_fault :: "loop_exn option"
  yr_runs :: "(time \<times> claim_run) list"
  yr_sleep_cancelled :: bool

fun symbolizer_loop ::
    "worker_settings \<Rightarrow> artifact_env \<Rightarrow> string \<Rightarrow> symbolizer_round list \<Rightarrow> symbol_tables
       \<Rightarrow> symbol_tables \<times> (nat option \<times> bool) list \<times> bool" where
  "symbolizer_loop st store owner [] tb = (tb, [], False)"
| "symbolizer_loop st store owner (y # ys) tb =
     (let tb1 = yr_before y tb
      in if yr_fault y = Some Loop_cancelled then (tb1, [], True)
         else
           let (tb2, changed) = (if yr_fault y = None
                                 then map_prod id Some (symbolize_once st store owner (yr_runs y) tb1) else (tb1, None));
               pause = (changed = None \<or> changed = Some 0)
           in if pause \<and> yr_sleep_cancelled y then (tb2, [(changed, pause)], True)
              else (case symbolizer_loop st store owner ys tb2 of
                      (tb', entries, cancelled) \<Rightarrow> (tb', (changed, pause) # entries, cancelled)))"

subsection \<open>An export process is a run of the store\<close>

definition lawful_round :: "int \<Rightarrow> worker_round \<Rightarrow> bool" where
  "lawful_round M w \<longleftrightarrow>
     (\<forall>db. (store_step M)\<^sup>*\<^sup>* db (wr_before w db)) \<and> (\<forall>db. (store_step M)\<^sup>*\<^sup>* db (wr_between w db)) \<and>
     (\<forall>db. (store_step M)\<^sup>*\<^sup>* db (db\<lparr>mt_inbox := wr_during w (mt_inbox db)\<rparr>)) \<and>
     (\<forall>db. (store_step M)\<^sup>*\<^sup>* db (db\<lparr>mt_inbox := wr_exchange w (mt_inbox db)\<rparr>))"

lemma inbox_steps:
  assumes "\<And>db. (store_step M)\<^sup>*\<^sup>* db (db\<lparr>mt_inbox := f (mt_inbox db)\<rparr>)"
  shows "(store_step M)\<^sup>*\<^sup>* (db\<lparr>mt_inbox := t\<rparr>) (db\<lparr>mt_inbox := f t\<rparr>)"
  using assms [of "db\<lparr>mt_inbox := t\<rparr>"] by simp

lemma fail_steps: "(store_step M)\<^sup>*\<^sup>* (db\<lparr>mt_inbox := t\<rparr>)
    (db\<lparr>mt_inbox := fst (mark_failed owner es retryable max_attempts code msg retry_after clock t)\<rparr>)"
  by (rule inbox_steps [of M "\<lambda>t. fst (mark_failed owner es retryable max_attempts code msg retry_after clock t)"])
    (rule r_into_rtranclp [of "store_step M", OF store_step.fail])

lemma finish_steps: "(store_step M)\<^sup>*\<^sup>* (db\<lparr>mt_inbox := t\<rparr>) (db\<lparr>mt_inbox := fst (finish_export st owner es result clock t)\<rparr>)"
proof (cases "er_success result")
  case True
  then show ?thesis
    using r_into_rtranclp [of "store_step M", OF store_step.deliver [of M "db\<lparr>mt_inbox := t\<rparr>" owner "map ie_id es" "clock 0"]]
    by (simp add: finish_export_def)
qed (use fail_steps in \<open>simp add: finish_export_def\<close>)

lemma export_once_steps:
  assumes "export_once st encode client worker token locked ct env1 env2 (mt_inbox db) = Inr (inbox, n)"
    and env1: "\<And>db. (store_step M)\<^sup>*\<^sup>* db (db\<lparr>mt_inbox := env1 (mt_inbox db)\<rparr>)"
    and env2: "\<And>db. (store_step M)\<^sup>*\<^sup>* db (db\<lparr>mt_inbox := env2 (mt_inbox db)\<rparr>)"
  shows "(store_step M)\<^sup>*\<^sup>* db (db\<lparr>mt_inbox := inbox\<rparr>)"
proof (cases "es_export_enabled st")
  case True
  let ?owner = "new_lease_owner worker token"
  obtain tbl1 events where c: "claim_batch locked ?owner (es_worker_batch_size st) (es_worker_lease_seconds st) (ct_claim ct)
      (mt_inbox db) = (tbl1, events)" by force
  have s1: "(store_step M)\<^sup>*\<^sup>* db (db\<lparr>mt_inbox := tbl1\<rparr>)"
    using store_step.claim [of M db locked ?owner "es_worker_batch_size st" "es_worker_lease_seconds st" "ct_claim ct"]
    unfolding c by (simp add: r_into_rtranclp)
  show ?thesis
  proof (cases "events = []")
    case True
    then show ?thesis using assms(1) s1 \<open>es_export_enabled st\<close> by (simp add: export_once_def Let_def c)
  next
    case False
    then obtain payload exportable invalid where e: "encode_isolated_batch encode events = Some (payload, exportable, invalid)"
      using assms(1) \<open>es_export_enabled st\<close> by (cases "encode_isolated_batch encode events") (auto simp: export_once_def Let_def c)
    define second where "second = (if invalid = [] then (env1 tbl1, 0)
      else mark_failed ?owner invalid False (es_worker_max_attempts st) ''otlp_mapping_failed''
        ''The persisted event cannot be mapped to OTLP'' None (ct_invalid ct) (env1 tbl1))"
    have s2: "(store_step M)\<^sup>*\<^sup>* (db\<lparr>mt_inbox := tbl1\<rparr>) (db\<lparr>mt_inbox := fst second\<rparr>)"
    proof (cases "invalid = []")
      case False
      then show ?thesis
        using rtranclp_trans [OF inbox_steps [OF env1] fail_steps] unfolding second_def by simp
    qed (use inbox_steps [OF env1] in \<open>simp add: second_def\<close>)
    have "inbox = fst second \<or> (\<exists>result. inbox = fst (finish_export st ?owner exportable result (ct_finish ct) (env2 (fst second))))"
      using assms(1) True False
      by (auto simp: export_once_def Let_def c e second_def [symmetric] split: prod.splits if_splits) (metis fst_conv)
    moreover have "(store_step M)\<^sup>*\<^sup>* (db\<lparr>mt_inbox := fst second\<rparr>)
        (db\<lparr>mt_inbox := fst (finish_export st ?owner exportable result (ct_finish ct) (env2 (fst second)))\<rparr>)" for result
      using inbox_steps [OF env2] finish_steps by (rule rtranclp_trans)
    ultimately show ?thesis
      using s1 s2 by (auto intro: rtranclp_trans)
  qed
qed (use assms(1) in \<open>auto simp: export_once_def\<close>)

lemma retention_steps:
  assumes "retention_round st env w next_maintenance db = (next', db', pass, escaped)"
  shows "(store_step M)\<^sup>*\<^sup>* db db'"
  using assms store_step.prune
  by (auto simp: retention_round_def Let_def split: if_splits option.splits sum.splits prod.splits)

lemma export_round_steps:
  assumes "lawful_round M w" and "export_round st env w db = Inr (db', n)"
  shows "(store_step M)\<^sup>*\<^sup>* db db'"
proof -
  obtain inbox where "export_once (lp_export st) (encode_request (we_otlp env) (we_serialize env) (mt_jobs db)) (wr_client w)
      (we_owner env) (wr_token w) (wr_locked w) (wr_times w) (wr_during w) (wr_exchange w) (mt_inbox db) = Inr (inbox, n)"
    and "db' = db\<lparr>mt_inbox := inbox\<rparr>"
    using assms(2) by (auto simp: export_round_def split: option.splits sum.splits)
  with export_once_steps [OF this(1)] assms(1) show ?thesis
    by (simp add: lawful_round_def)
qed

lemma worker_loop_steps: "\<forall>w \<in> set ws. lawful_round M w \<Longrightarrow> (store_step M)\<^sup>*\<^sup>* db (fst (worker_loop st env ws next_maintenance db))"
proof (induction ws arbitrary: next_maintenance db)
  case (Cons w ws)
  obtain next' db1 pass escaped where r: "retention_round st env w next_maintenance (wr_before w db) = (next', db1, pass, escaped)"
    by (cases "retention_round st env w next_maintenance (wr_before w db)") auto
  have law: "lawful_round M w" using Cons.prems by simp
  define db2 where "db2 = wr_between w db1"
  define db3 where "db3 = (case export_round st env w db2 of Inl _ \<Rightarrow> db2 | Inr (db', _) \<Rightarrow> db')"
  have s1: "(store_step M)\<^sup>*\<^sup>* db db1"
    using law retention_steps [OF r] unfolding lawful_round_def by (blast intro: rtranclp_trans)
  have s2: "(store_step M)\<^sup>*\<^sup>* db db2"
    using law s1 unfolding lawful_round_def db2_def by (blast intro: rtranclp_trans)
  have "(store_step M)\<^sup>*\<^sup>* db2 db3"
    using export_round_steps [OF law] unfolding db3_def by (auto split: sum.splits)
  then have s3: "(store_step M)\<^sup>*\<^sup>* db db3"
    using s2 by (rule rtranclp_trans [rotated])
  have s4: "(store_step M)\<^sup>*\<^sup>* db (fst (worker_loop st env ws next' db3))"
    using s3 Cons.IH Cons.prems by (auto intro: rtranclp_trans)
  show ?case
    unfolding worker_loop.simps r prod.case Let_def db2_def [symmetric] db3_def [symmetric]
    using s1 s2 s3 s4 by (auto simp: case_prod_beta)
qed simp

subsection \<open>Failures are isolated\<close>

definition uncancelled :: "worker_round \<Rightarrow> bool" where
  "uncancelled w \<longleftrightarrow>
     wr_prune_fault w \<noteq> Some Loop_cancelled \<and> wr_export_fault w \<noteq> Some Loop_cancelled \<and> \<not> wr_sleep_cancelled w"

definition round_entry_ok :: "worker_round \<Rightarrow> round_log \<Rightarrow> bool" where
  "round_entry_ok w e \<longleftrightarrow>
     (rl_changed e = None \<longleftrightarrow> wr_export_fault w \<noteq> None) \<and> (rl_slept e \<longleftrightarrow> rl_changed e = None \<or> rl_changed e = Some 0)"

definition retention_starts :: "round_log list \<Rightarrow> (rat \<times> rat) list" where
  "retention_starts entries = List.map_filter rl_retention entries"

lemma retention_starts_simps [simp]:
  "retention_starts [] = []"
  "retention_starts (e # entries) = (case rl_retention e of None \<Rightarrow> retention_starts entries | Some p \<Rightarrow> p # retention_starts entries)"
  by (simp_all add: retention_starts_def map_filter_simps split: option.split)

lemma isolating_encoder_total: "encode_isolated_batch (encode_request env serialize jobs) events \<noteq> None"
proof -
  have single: "encode_request env serialize jobs [e] \<noteq> None \<longleftrightarrow> mappable env jobs e" for e
    using encode_request_None [of env serialize jobs "[e]"] by simp
  have "encode_request env serialize jobs (filter (mappable env jobs) events) \<noteq> None"
    using encode_request_None [of env serialize jobs "filter (mappable env jobs) events"] by (auto simp: list_all_iff)
  then show ?thesis
    unfolding encode_isolated_batch_def Let_def single by (auto split: option.splits)
qed

lemma export_round_fault: "wr_export_fault w = Some e \<Longrightarrow> export_round st env w db = Inl e"
  by (simp add: export_round_def)

lemma export_round_total:
  assumes "wr_export_fault w = None"
  shows "\<exists>db' n. export_round st env w db = Inr (db', n)"
proof -
  obtain t n where "export_once (lp_export st) (encode_request (we_otlp env) (we_serialize env) (mt_jobs db)) (wr_client w)
      (we_owner env) (wr_token w) (wr_locked w) (wr_times w) (wr_during w) (wr_exchange w) (mt_inbox db) = Inr (t, n)"
    using export_once_total [OF isolating_encoder_total] by blast
  then show ?thesis using assms by (simp add: export_round_def)
qed

lemma worker_loop_uncancelled:
  assumes "uncancelled w"
  shows "\<exists>next' db' e. worker_loop st env (w # ws) next_maintenance db =
           (case worker_loop st env ws next' db' of (db'', entries, cancelled) \<Rightarrow> (db'', e # entries, cancelled)) \<and> round_entry_ok w e"
proof -
  obtain next' db1 pass escaped where r: "retention_round st env w next_maintenance (wr_before w db) = (next', db1, pass, escaped)"
    by (cases "retention_round st env w next_maintenance (wr_before w db)") auto
  have esc: "escaped \<noteq> Some Loop_cancelled"
    using r assms by (auto simp: retention_round_def uncancelled_def Let_def split: if_splits option.splits sum.splits)
  let ?db2 = "wr_between w db1"
  consider (fault) "wr_export_fault w = Some Loop_error" | (none) "wr_export_fault w = None"
    using assms by (cases "wr_export_fault w"; cases "the (wr_export_fault w)") (auto simp: uncancelled_def)
  then show ?thesis
  proof cases
    case fault
    then show ?thesis
      using assms esc export_round_fault [OF fault, of st env ?db2]
      by (intro exI [of _ next'] exI [of _ ?db2] exI [of _ "\<lparr>rl_retention = pass, rl_changed = None, rl_slept = True\<rparr>"])
        (simp add: r Let_def uncancelled_def round_entry_ok_def)
  next
    case none
    obtain db3 n where x: "export_round st env w ?db2 = Inr (db3, n)"
      using export_round_total [OF none] by blast
    show ?thesis
      using assms esc none
      by (intro exI [of _ next'] exI [of _ db3] exI [of _ "\<lparr>rl_retention = pass, rl_changed = Some n, rl_slept = (n = 0)\<rparr>"])
        (simp add: r x Let_def uncancelled_def round_entry_ok_def)
  qed
qed

lemma worker_loop_log:
  assumes "\<forall>w \<in> set ws. uncancelled w"
  shows "list_all2 round_entry_ok ws (fst (snd (worker_loop st env ws next_maintenance db))) \<and>
         \<not> snd (snd (worker_loop st env ws next_maintenance db))"
  using assms
proof (induction ws arbitrary: next_maintenance db)
  case (Cons w ws)
  have "uncancelled w" using Cons.prems by simp
  then obtain next' db' e where "worker_loop st env (w # ws) next_maintenance db =
      (case worker_loop st env ws next' db' of (db'', entries, cancelled) \<Rightarrow> (db'', e # entries, cancelled))" "round_entry_ok w e"
    using worker_loop_uncancelled by blast
  then show ?case
    using Cons.IH [of next' db'] Cons.prems by (simp add: case_prod_beta)
qed simp

lemma retention_round_start:
  assumes "retention_round st env w next_maintenance db = (next', db', pass, escaped)"
  shows "(pass = None \<and> next' = next_maintenance) \<or>
         (\<exists>a b. pass = Some (a, b) \<and> next_maintenance \<le> a \<and> next' = b + lp_retention_interval_seconds st)"
  using assms by (auto simp: retention_round_def Let_def split: if_splits option.splits sum.splits)

lemma worker_loop_pacing:
  "successively (\<lambda>p q. snd p + lp_retention_interval_seconds st \<le> fst q)
     (retention_starts (fst (snd (worker_loop st env ws next_maintenance db)))) \<and>
   (retention_starts (fst (snd (worker_loop st env ws next_maintenance db))) \<noteq> [] \<longrightarrow>
      next_maintenance \<le> fst (hd (retention_starts (fst (snd (worker_loop st env ws next_maintenance db))))))"
proof (induction ws arbitrary: next_maintenance db)
  case (Cons w ws)
  obtain next' db1 pass escaped where r: "retention_round st env w next_maintenance (wr_before w db) = (next', db1, pass, escaped)"
    by (cases "retention_round st env w next_maintenance (wr_before w db)") auto
  define out where "out = fst (snd (worker_loop st env (w # ws) next_maintenance db))"
  consider (none) "out = []" | (last) e where "out = [e]" "rl_retention e = pass"
    | (more) e db3 where "out = e # fst (snd (worker_loop st env ws next' db3))" "rl_retention e = pass"
    unfolding out_def worker_loop.simps r prod.case Let_def by (fastforce simp: case_prod_beta split: if_splits)
  then have "successively (\<lambda>p q. snd p + lp_retention_interval_seconds st \<le> fst q) (retention_starts out) \<and>
      (retention_starts out \<noteq> [] \<longrightarrow> next_maintenance \<le> fst (hd (retention_starts out)))"
  proof cases
    case (more e db3)
    then show ?thesis
      using Cons.IH [of next' db3] retention_round_start [OF r] by (auto simp: successively_Cons split: option.splits)
  qed (use retention_round_start [OF r] in \<open>auto split: option.splits\<close>)
  then show ?case unfolding out_def .
qed simp

subsection \<open>Properties\<close>


definition sample_round :: worker_round where
  "sample_round =
     \<lparr>wr_before = (\<lambda>db. db), wr_monotonic = (\<lambda>_. 5), wr_prune_fault = Some Loop_error, wr_prune_locked = (\<lambda>_. False),
      wr_observed = 100, wr_written = 100, wr_between = (\<lambda>db. db), wr_export_fault = None, wr_token = ''tok'',
      wr_locked = (\<lambda>_. False), wr_times = \<lparr>ct_claim = 100, ct_invalid = (\<lambda>_. 100), ct_finish = (\<lambda>_. 100)\<rparr>,
      wr_during = (\<lambda>t. t), wr_exchange = (\<lambda>t. t), wr_client = (\<lambda>_. None), wr_sleep_cancelled = False\<rparr>"

definition sample_loop_settings :: loop_settings where
  "sample_loop_settings =
     \<lparr>lp_maintenance = sample_maintenance, lp_export = sample_settings, lp_retention_interval_seconds = 60\<rparr>"

definition sample_worker_env :: worker_env where
  "sample_worker_env =
     \<lparr>we_dialect = Postgresql, we_otlp = sample_otlp_env, we_serialize = (\<lambda>_. ''p''), we_owner = ''w''\<rparr>"

lemma sample_round_ok: "lawful_round M sample_round" "uncancelled sample_round"
  by (simp_all add: lawful_round_def uncancelled_def sample_round_def)

lemma sample_store_reachable: "reachable 3 sample_store"
  unfolding reachable_def using sample_step by (rule r_into_rtranclp)


text \<open>
  C20. Failures are isolated and retention is paced. As long as nothing cancels the process, every
  round of the worker loop attempts its export, whatever happened to the retention pass before it; an
  export fails exactly when the database or the network raised, never because of the stored rows; the
  loop pauses exactly after a failed or an idle round and goes on; and two retention passes, failed
  ones included, are at least the configured interval apart.
\<close>

theorem worker_loop_isolates_failures:
  assumes "\<forall>w \<in> set ws. uncancelled w"
  shows "case worker_loop st env ws next_maintenance db of (db', entries, cancelled) \<Rightarrow>
           \<not> cancelled \<and> length entries = length ws \<and>
           (\<forall>i < length ws. (rl_changed (entries ! i) = None \<longleftrightarrow> wr_export_fault (ws ! i) \<noteq> None) \<and>
                            (rl_slept (entries ! i) \<longleftrightarrow> rl_changed (entries ! i) = None \<or> rl_changed (entries ! i) = Some 0)) \<and>
           successively (\<lambda>p q. snd p + lp_retention_interval_seconds st \<le> fst q) (retention_starts entries)"
  using worker_loop_log [OF assms, of st env next_maintenance db] worker_loop_pacing [of st env ws next_maintenance db]
  by (auto simp: list_all2_conv_all_nth round_entry_ok_def)

theorem worker_loop_isolates_failures_witness:
  "\<not> snd (snd (worker_loop sample_loop_settings sample_worker_env [sample_round, sample_round] 0 sample_store)) \<and>
   length (fst (snd (worker_loop sample_loop_settings sample_worker_env [sample_round, sample_round] 0 sample_store))) = 2"
proof -
  have "\<forall>w \<in> set [sample_round, sample_round]. uncancelled w"
    using sample_round_ok(2) by simp
  from worker_loop_isolates_failures [OF this, of sample_loop_settings sample_worker_env 0 sample_store] show ?thesis
    by (simp only: case_prod_beta list.size) simp
qed

end
