(* ===== verification/Apm_Observability.thy ===== *)
theory Apm_Observability
  imports Apm_Export Apm_Grouping
begin

section \<open>Backlog snapshots and health\<close>

text \<open>
  The model of \<open>observability.py\<close> and \<open>api/health.py\<close>: the grouped statement over the inbox, the gauges
  it fills, what a failed observation shows, and the three operational endpoints. A gauge is the last
  value set; the state of the process is the record \<open>inbox_gauges\<close>. The database read is an
  argument, \<open>None\<close> when the statement fails or exceeds \<open>SNAPSHOT_TIMEOUT_SECONDS\<close>.
\<close>

subsection \<open>The snapshot\<close>

definition INBOX_STATES :: "string list" where
  "INBOX_STATES = [''pending'', ''processing'', ''awaiting_symbols'', ''delivered'', ''dead_letter'']"

record inbox_gauges =
  ig_rows :: "string \<Rightarrow> pyfloat"
  ig_pending :: pyfloat
  ig_oldest_seconds :: pyfloat
  ig_snapshot_timestamp :: pyfloat
  ig_snapshot_available :: pyfloat
  ig_process_role :: "string \<Rightarrow> pyfloat"

record snapshot_row =
  sn_status :: inbox_status
  sn_count :: nat
  sn_eligible :: nat
  sn_oldest :: "time option"

definition snapshot_eligible :: "time \<Rightarrow> inbox_event \<Rightarrow> bool" where
  "snapshot_eligible observed r \<longleftrightarrow>
     (ie_status r = IS_pending \<and> ie_next_attempt_at r \<le> observed) \<or>
     (ie_status r = IS_processing \<and> (case ie_lease_expires_at r of None \<Rightarrow> False | Some e \<Rightarrow> e \<le> observed))"

definition sql_min :: "time list \<Rightarrow> time option" where
  "sql_min ts = (if ts = [] then None else Some (Min (set ts)))"

definition snapshot_query :: "time \<Rightarrow> inbox_event list \<Rightarrow> snapshot_row list" where
  "snapshot_query observed tbl =
     map (\<lambda>(status, rs).
            \<lparr>sn_status = status, sn_count = length rs, sn_eligible = (\<Sum>r \<leftarrow> rs. if snapshot_eligible observed r then 1 else 0),
             sn_oldest = sql_min (map ie_received_at (filter (snapshot_eligible observed) rs))\<rparr>)
         (group_by ie_status tbl)"

definition set_labels :: "string list \<Rightarrow> (string \<Rightarrow> pyfloat) \<Rightarrow> (string \<Rightarrow> pyfloat) \<Rightarrow> string \<Rightarrow> pyfloat" where
  "set_labels labels v old = (\<lambda>l. if l \<in> set labels then v l else old l)"

definition as_seconds :: "time \<Rightarrow> rat" where
  "as_seconds t = of_int t / 1000000"

definition counts_get :: "snapshot_row list \<Rightarrow> string \<Rightarrow> nat" where
  "counts_get rows status =
     (case map_of (map (\<lambda>x. (inbox_status_text (sn_status x), sn_count x)) rows) status of None \<Rightarrow> 0 | Some n \<Rightarrow> n)"

definition refresh_inbox_metrics :: "time \<Rightarrow> inbox_event list option \<Rightarrow> inbox_gauges \<Rightarrow> inbox_gauges \<times> bool" where
  "refresh_inbox_metrics observed read g =
     (case read of
        None \<Rightarrow>
          (g\<lparr>ig_snapshot_available := Fin 0, ig_pending := NaN, ig_oldest_seconds := NaN,
             ig_rows := set_labels INBOX_STATES (\<lambda>_. NaN) (ig_rows g)\<rparr>, False)
      | Some tbl \<Rightarrow>
          let rows = snapshot_query observed tbl;
              oldest = sql_min (List.map_filter sn_oldest rows)
          in (g\<lparr>ig_rows := set_labels INBOX_STATES (\<lambda>s. Fin (of_nat (counts_get rows s))) (ig_rows g),
                ig_pending := Fin (of_nat (\<Sum>x \<leftarrow> rows. sn_eligible x)),
                ig_oldest_seconds := Fin (case oldest of None \<Rightarrow> 0 | Some t \<Rightarrow> max 0 (as_seconds (observed - t))),
                ig_snapshot_timestamp := Fin (as_seconds observed), ig_snapshot_available := Fin 1\<rparr>, True))"

text \<open>
  The refresh loop of a worker, one entry per round with the instant of the observation and the
  outcome of the read; cancellation ends the list.
\<close>

fun snapshot_loop :: "(time \<times> inbox_event list option) list \<Rightarrow> inbox_gauges \<Rightarrow> inbox_gauges" where
  "snapshot_loop [] g = g"
| "snapshot_loop ((observed, read) # rounds) g = snapshot_loop rounds (fst (refresh_inbox_metrics observed read g))"

record observability_settings =
  os_worker_metrics_port :: nat
  os_symbolizer_metrics_port :: nat

definition metrics_port :: "observability_settings \<Rightarrow> string \<Rightarrow> nat option" where
  "metrics_port st role =
     (let port = (if role = ''export'' then os_worker_metrics_port st else os_symbolizer_metrics_port st)
      in if port = 0 then None else Some port)"

definition worker_observability ::
    "observability_settings \<Rightarrow> string \<Rightarrow> (time \<times> inbox_event list option) list \<Rightarrow> inbox_gauges \<Rightarrow> nat option \<times> inbox_gauges" where
  "worker_observability st role rounds g =
     (metrics_port st role,
      snapshot_loop rounds (g\<lparr>ig_process_role := (ig_process_role g)(role := Fin 1)\<rparr>))"

subsection \<open>Operational endpoints\<close>

definition live :: "string \<Rightarrow> dict" where
  "live version = [(''status'', jstr ''ok''), (''version'', jstr version)]"

definition ready :: "bool \<Rightarrow> dict result" where
  "ready reachable_db =
     (if reachable_db then Inr [(''status'', jstr ''ready'')] else Inl (Uncaught ''database''))"

definition metrics ::
    "(inbox_gauges \<Rightarrow> string) \<Rightarrow> time \<Rightarrow> inbox_event list option \<Rightarrow> inbox_gauges \<Rightarrow> inbox_gauges \<times> string" where
  "metrics generate_latest observed read g =
     (let g' = fst (refresh_inbox_metrics observed read (g\<lparr>ig_process_role := (ig_process_role g)(''gateway'' := Fin 1)\<rparr>))
      in (g', generate_latest g'))"

subsection \<open>Lemmas on the grouped statement\<close>

lemma status_text_inj: "inbox_status_text s = inbox_status_text s' \<longleftrightarrow> s = s'"
  by (cases s; cases s') simp_all

lemma status_text_state: "inbox_status_text s \<in> set INBOX_STATES"
  by (cases s) (simp_all add: INBOX_STATES_def)

lemma map_of_text:
  "map_of (map (\<lambda>(s, rs). (inbox_status_text s, f rs)) gs) (inbox_status_text s) = map_option f (map_of gs s)"
  by (induction gs) (auto simp: status_text_inj)

lemma counts_exact: "counts_get (snapshot_query observed tbl) (inbox_status_text s) = length (filter (\<lambda>r. ie_status r = s) tbl)"
proof -
  have "map (\<lambda>x. (inbox_status_text (sn_status x), sn_count x)) (snapshot_query observed tbl) =
      map (\<lambda>(s, rs). (inbox_status_text s, length rs)) (group_by ie_status tbl)"
    by (simp add: snapshot_query_def case_prod_beta comp_def)
  then show ?thesis
    unfolding counts_get_def by (auto simp: map_of_text map_of_group_by filter_empty_conv)
qed

lemma eligible_sum: "(\<Sum>x \<leftarrow> snapshot_query observed tbl. sn_eligible x) = length (filter (snapshot_eligible observed) tbl)"
proof -
  let ?f = "\<lambda>r. if snapshot_eligible observed r then 1 else (0::nat)"
  have "(\<Sum>x \<leftarrow> snapshot_query observed tbl. sn_eligible x) = (\<Sum>(k, g) \<leftarrow> group_by ie_status tbl. \<Sum>y \<leftarrow> g. ?f y)"
    by (simp add: snapshot_query_def split_def comp_def)
  also have "\<dots> = (\<Sum>x \<leftarrow> tbl. ?f x)"
    by (rule sum_group_by)
  also have "\<dots> = length (filter (snapshot_eligible observed) tbl)"
    by (induction tbl) simp_all
  finally show ?thesis .
qed

lemma sql_min_cong:
  assumes "set xs \<subseteq> set ys" and "\<And>y. y \<in> set ys \<Longrightarrow> \<exists>x \<in> set xs. x \<le> y"
  shows "sql_min xs = sql_min ys"
proof (cases "ys = []")
  case False
  then have ne: "xs \<noteq> []" using assms(2) by fastforce
  have "Min (set xs) = Min (set ys)"
  proof (rule antisym)
    show "Min (set ys) \<le> Min (set xs)"
      using assms(1) ne by (intro Min_antimono) simp_all
    obtain x where "x \<in> set xs" "x \<le> Min (set ys)"
      using assms(2) [of "Min (set ys)"] False by auto
    then show "Min (set xs) \<le> Min (set ys)"
      by (meson List.finite_set Min_le order_trans)
  qed
  with ne False show ?thesis by (simp add: sql_min_def)
qed (use assms(1) in \<open>simp add: sql_min_def\<close>)

lemma set_map_filter: "set (List.map_filter f xs) = {y. \<exists>x \<in> set xs. f x = Some y}"
  by (auto simp: List.map_filter_def image_iff) force

lemma sql_min_ex: "t \<in> set ts \<Longrightarrow> \<exists>m. sql_min ts = Some m"
  by (auto simp: sql_min_def)

lemma sql_min_SomeD: "sql_min ts = Some t \<Longrightarrow> t \<in> set ts \<and> (\<forall>u \<in> set ts. t \<le> u)"
  by (auto simp: sql_min_def split: if_splits)

lemma oldest_exact:
  "sql_min (List.map_filter sn_oldest (snapshot_query observed tbl)) =
     sql_min (map ie_received_at (filter (snapshot_eligible observed) tbl))"
proof (rule sql_min_cong)
  let ?m = "\<lambda>rs. sql_min (map ie_received_at (filter (snapshot_eligible observed) rs))"
  have mem: "t \<in> set (List.map_filter sn_oldest (snapshot_query observed tbl)) \<longleftrightarrow>
      (\<exists>(s, rs) \<in> set (group_by ie_status tbl). ?m rs = Some t)" for t
    by (force simp: snapshot_query_def set_map_filter split_def)
  show "set (List.map_filter sn_oldest (snapshot_query observed tbl))
      \<subseteq> set (map ie_received_at (filter (snapshot_eligible observed) tbl))"
  proof
    fix t assume "t \<in> set (List.map_filter sn_oldest (snapshot_query observed tbl))"
    then obtain s rs where g: "(s, rs) \<in> set (group_by ie_status tbl)" and m: "?m rs = Some t"
      unfolding mem by blast
    show "t \<in> set (map ie_received_at (filter (snapshot_eligible observed) tbl))"
      using sql_min_SomeD [OF m] in_group_by(1) [OF g] by auto
  qed
  fix y assume "y \<in> set (map ie_received_at (filter (snapshot_eligible observed) tbl))"
  then obtain r where r: "r \<in> set tbl" "snapshot_eligible observed r" "y = ie_received_at r" by auto
  let ?rs = "filter (\<lambda>q. ie_status q = ie_status r) tbl"
  have g: "(ie_status r, ?rs) \<in> set (group_by ie_status tbl)"
    using group_by_mem [OF r(1), of ie_status] .
  have y: "y \<in> set (map ie_received_at (filter (snapshot_eligible observed) ?rs))"
    using r by auto
  then obtain t where t: "?m ?rs = Some t"
    using sql_min_ex by blast
  have "t \<le> y"
    using sql_min_SomeD [OF t] y by blast
  moreover have "t \<in> set (List.map_filter sn_oldest (snapshot_query observed tbl))"
    unfolding mem using g t by blast
  ultimately show "\<exists>x \<in> set (List.map_filter sn_oldest (snapshot_query observed tbl)). x \<le> y"
    by blast
qed

lemma eligible_claimable: "inbox_row_ok r \<Longrightarrow> snapshot_eligible observed r \<longleftrightarrow> inbox_claimable observed r"
  by (auto simp: snapshot_eligible_def inbox_claimable_def inbox_row_ok_def finalized_def)

lemma claim_all_length:
  "length (snd (claim_batch (\<lambda>_. False) owner (length tbl) lease observed tbl)) = length (filter (inbox_claimable observed) tbl)"
  by (simp add: claim_batch_def Let_def order_limit_def)

subsection \<open>Properties\<close>

text \<open>
  C26. The snapshot is exact. A successful observation of a consistent inbox sets each row gauge to the
  number of rows in that state, the backlog gauge to the number of rows the export worker could
  claim at that instant and the age gauge to the age of the oldest of them (zero when there is none),
  while a failed observation turns all of them into NaN and reports itself unavailable, so that it
  cannot be read as an empty inbox.
\<close>

theorem backlog_snapshot_exact:
  assumes "list_all inbox_row_ok tbl"
  shows "let seen = fst (refresh_inbox_metrics observed (Some tbl) g);
             blind = fst (refresh_inbox_metrics observed None g);
             backlog = filter (inbox_claimable observed) tbl
         in (\<forall>s. ig_rows seen (inbox_status_text s) = Fin (of_nat (length (filter (\<lambda>r. ie_status r = s) tbl)))) \<and>
            ig_pending seen = Fin (of_nat (length (snd (claim_batch (\<lambda>_. False) owner (length tbl) lease observed tbl)))) \<and>
            ig_oldest_seconds seen =
              Fin (if backlog = [] then 0 else max 0 (as_seconds (observed - Min (ie_received_at ` set backlog)))) \<and>
            ig_snapshot_available seen = Fin 1 \<and> ig_snapshot_timestamp seen = Fin (as_seconds observed) \<and>
            ig_snapshot_available blind = Fin 0 \<and> ig_pending blind = NaN \<and> ig_oldest_seconds blind = NaN \<and>
            (\<forall>s. ig_rows blind (inbox_status_text s) = NaN) \<and> ig_snapshot_timestamp blind = ig_snapshot_timestamp g"
proof -
  let ?backlog = "filter (inbox_claimable observed) tbl"
  have same: "filter (snapshot_eligible observed) tbl = ?backlog"
    using assms eligible_claimable by (intro filter_cong) (auto simp: list_all_iff)
  have oldest: "(case sql_min (map ie_received_at ?backlog) of None \<Rightarrow> 0 | Some t \<Rightarrow> max 0 (as_seconds (observed - t))) =
      (if ?backlog = [] then 0 else max 0 (as_seconds (observed - Min (ie_received_at ` set ?backlog))))"
    by (simp only: sql_min_def map_is_Nil_conv set_map split: if_split) simp
  have pending: "(\<Sum>x \<leftarrow> snapshot_query observed tbl. sn_eligible x) =
      length (snd (claim_batch (\<lambda>_. False) owner (length tbl) lease observed tbl))"
    unfolding eligible_sum same claim_all_length ..
  show ?thesis
    unfolding Let_def refresh_inbox_metrics_def option.case fst_conv oldest_exact same oldest pending
    by (simp add: counts_exact set_labels_def status_text_state)
qed

definition sample_gauges :: inbox_gauges where
  "sample_gauges =
     \<lparr>ig_rows = (\<lambda>_. Fin 0), ig_pending = Fin 0, ig_oldest_seconds = Fin 0, ig_snapshot_timestamp = Fin 0,
      ig_snapshot_available = Fin 0, ig_process_role = (\<lambda>_. Fin 0)\<rparr>"

theorem backlog_snapshot_exact_witness:
  "list_all inbox_row_ok [sample_inbox_row 1, sample_inbox_row 2] \<and>
   ig_pending (fst (refresh_inbox_metrics 5000000 (Some [sample_inbox_row 1, sample_inbox_row 2]) sample_gauges)) = Fin 2"
proof -
  have ok: "list_all inbox_row_ok [sample_inbox_row 1, sample_inbox_row 2]" by code_simp
  have n: "length (snd (claim_batch (\<lambda>_. False) [] (length [sample_inbox_row 1, sample_inbox_row 2]) 30 5000000
      [sample_inbox_row 1, sample_inbox_row 2])) = 2"
    by code_simp
  show ?thesis
    using backlog_snapshot_exact [OF ok, of 5000000 sample_gauges "[]" 30] ok unfolding n Let_def by simp
qed

end
