(* ===== verification/Apm_Gateway.thy ===== *)
theory Apm_Gateway
  imports Apm_Prelude
begin

section \<open>Public errors, request correlation and safe logging\<close>

text \<open>
  The model of \<open>errors.py\<close>, \<open>api/middleware.py\<close> and of the parts of \<open>logging.py\<close> and \<open>main.py\<close> that
  decide what leaves the process when a request fails: the two exception handlers, the middleware
  that issues the request id, and the log processors that replace an exception by its type and code
  locations. An endpoint is a function from the request id to its outcome. \<open>serve\<close> composes the
  handlers the way \<open>create_app\<close> registers them: the handler of \<open>ApiError\<close> runs inside the middleware,
  the handler of \<open>Exception\<close> around it.
\<close>

subsection \<open>Exceptions and log records\<close>

definition MAX_EXCEPTION_FRAMES :: nat where [consts_simps]: "MAX_EXCEPTION_FRAMES = 32"
definition HEADER_REQUEST_ID :: string where [consts_simps]: "HEADER_REQUEST_ID = ''X-Request-Id''"

record py_exception =
  px_type :: string
  px_message :: string
  px_frames :: "(string \<times> int) list"

datatype log_value = LJson json | LException py_exception | LTuple "log_value list"

type_synonym event_dict = "(string \<times> log_value) list"

definition exception_details :: "py_exception \<Rightarrow> json" where
  "exception_details x =
     JObj [(''type'', jstr (px_type x)),
           (''frames'', JList (map (\<lambda>(name, line). JObj [(''function'', jstr name), (''line'', jint line)])
                                 (take MAX_EXCEPTION_FRAMES (px_frames x))))]"

text \<open>\<open>sys.exc_info()\<close> for the exception being handled, if any; its first and last item are opaque.\<close>

definition sys_exc_info :: "py_exception option \<Rightarrow> log_value" where
  "sys_exc_info current =
     LTuple [LJson jnull, (case current of None \<Rightarrow> LJson jnull | Some x \<Rightarrow> LException x), LJson jnull]"

definition safe_exception :: "py_exception option \<Rightarrow> event_dict \<Rightarrow> event_dict" where
  "safe_exception current event =
     (let info = (case map_of event ''exc_info'' of None \<Rightarrow> LJson jnull | Some v \<Rightarrow> v);
          info' = (if info = LJson (jbool True) then sys_exc_info current else info);
          error = (case info' of LTuple [_, v, _] \<Rightarrow> v | v \<Rightarrow> v);
          rest = filter (\<lambda>kv. fst kv \<noteq> ''exc_info'') event
      in (case error of
            LException x \<Rightarrow> dict_put ''exception'' (LJson (exception_details x)) rest
          | _ \<Rightarrow> rest))"

record logging_record =
  lr_message :: string
  lr_exc_info :: "py_exception option"
  lr_exc_text :: "string option"
  lr_stack_info :: string

definition format_exception :: "(json \<Rightarrow> string) \<Rightarrow> py_exception \<Rightarrow> string" where
  "format_exception py_repr x = py_repr (exception_details x)"

definition new_line :: string where
  "new_line = [char_of (10::nat)]"

definition append_block :: "string \<Rightarrow> string \<Rightarrow> string" where
  "append_block s b = (if b = [] then s else s @ (if s \<noteq> [] \<and> [last s] = new_line then [] else new_line) @ b)"

text \<open>The formatter of the standard library, with the exception formatter passed in.\<close>

definition formatter_format :: "(py_exception \<Rightarrow> string) \<Rightarrow> logging_record \<Rightarrow> string" where
  "formatter_format format_exc r =
     (let cached = (case lr_exc_text r of None \<Rightarrow> [] | Some t \<Rightarrow> t);
          exc_text = (case lr_exc_info r of None \<Rightarrow> cached | Some x \<Rightarrow> if cached = [] then format_exc x else cached)
      in append_block (append_block (lr_message r) exc_text) (lr_stack_info r))"

definition safe_format :: "(json \<Rightarrow> string) \<Rightarrow> logging_record \<Rightarrow> string" where
  "safe_format py_repr r = formatter_format (format_exception py_repr) (r\<lparr>lr_exc_text := None\<rparr>)"

subsection \<open>Responses\<close>

text \<open>The headers of a response are the raw list of the framework, with names in lower case.\<close>

record response =
  rs_status :: int
  rs_headers :: "(string \<times> string) list"
  rs_content :: json

definition raw_headers :: "(string \<times> string) list \<Rightarrow> (string \<times> string) list" where
  "raw_headers hs = map (\<lambda>(k, v). (py_lower k, v)) hs"

text \<open>Assigning to \<open>response.headers[name]\<close> replaces the first occurrence and deletes the others.\<close>

fun set_header :: "string \<Rightarrow> string \<Rightarrow> (string \<times> string) list \<Rightarrow> (string \<times> string) list" where
  "set_header k v [] = [(k, v)]"
| "set_header k v ((k', v') # hs) =
     (if k' = k then (k, v) # filter (\<lambda>h. fst h \<noteq> k) hs else (k', v') # set_header k v hs)"

definition header_values :: "string \<Rightarrow> response \<Rightarrow> string list" where
  "header_values name r = map snd (filter (\<lambda>h. fst h = py_lower name) (rs_headers r))"

definition error_body :: "string \<Rightarrow> string \<Rightarrow> string \<Rightarrow> bool \<Rightarrow> nat option \<Rightarrow> json" where
  "error_body request_id code msg retryable index =
     JObj [(''requestId'', jstr request_id), (''code'', jstr code), (''message'', jstr msg), (''retryable'', jbool retryable),
           (''eventIndex'', case index of None \<Rightarrow> jnull | Some i \<Rightarrow> jint (int i))]"

definition state_request_id :: "string option \<Rightarrow> string" where
  "state_request_id state = (case state of None \<Rightarrow> ''unknown'' | Some i \<Rightarrow> i)"

definition api_error_handler :: "string option \<Rightarrow> api_error \<Rightarrow> response" where
  "api_error_handler state e =
     (let request_id = state_request_id state
      in \<lparr>rs_status = status_code e,
          rs_headers = raw_headers (fold (\<lambda>(k, v). dict_put k v) (err_headers e) [(HEADER_REQUEST_ID, request_id)]),
          rs_content = error_body request_id (err_code e) (err_message e) (err_retryable e) (event_index e)\<rparr>)"

definition internal_error :: "string \<Rightarrow> response" where
  "internal_error request_id =
     \<lparr>rs_status = 500, rs_headers = raw_headers [(HEADER_REQUEST_ID, request_id)],
      rs_content = error_body request_id ''internal_error'' ''An internal error occurred'' True None\<rparr>"

definition unhandled_error_handler :: "string option \<Rightarrow> py_exception \<Rightarrow> response \<times> event_dict" where
  "unhandled_error_handler state x =
     (let request_id = state_request_id state
      in (internal_error request_id,
          safe_exception (Some x)
            [(''event'', LJson (jstr ''unhandled_request_error'')), (''request_id'', LJson (jstr request_id)), (''exc_info'', LException x)]))"

subsection \<open>A request\<close>

record http_request =
  hq_method :: string
  hq_path :: string
  hq_duration_ms :: pyfloat

definition access_entry :: "http_request \<Rightarrow> string \<Rightarrow> response \<Rightarrow> event_dict" where
  "access_entry q request_id r =
     safe_exception None
       [(''event'', LJson (jstr ''http_request'')), (''request_id'', LJson (jstr request_id)), (''method'', LJson (jstr (hq_method q))),
        (''path'', LJson (jstr (hq_path q))), (''status_code'', LJson (jint (rs_status r))),
        (''duration_ms'', LJson (JScalar (SFloat (hq_duration_ms q))))]"

definition request_context_middleware ::
    "http_request \<Rightarrow> string \<Rightarrow> (string \<Rightarrow> py_exception + response) \<Rightarrow> py_exception + response \<times> event_dict" where
  "request_context_middleware q request_id call_next =
     rbind (call_next request_id) (\<lambda>r.
       let r' = r\<lparr>rs_headers := set_header (py_lower HEADER_REQUEST_ID) request_id (rs_headers r)\<rparr>
       in Inr (r', access_entry q request_id r'))"

datatype outcome = Responded response | Api_error api_error | Raised py_exception

definition handle_expected :: "(string \<Rightarrow> outcome) \<Rightarrow> string \<Rightarrow> py_exception + response" where
  "handle_expected endpoint request_id =
     (case endpoint request_id of
        Responded r \<Rightarrow> Inr r
      | Api_error e \<Rightarrow> Inr (api_error_handler (Some request_id) e)
      | Raised x \<Rightarrow> Inl x)"

definition serve :: "http_request \<Rightarrow> string \<Rightarrow> (string \<Rightarrow> outcome) \<Rightarrow> response \<times> event_dict" where
  "serve q request_id endpoint =
     (case request_context_middleware q request_id (handle_expected endpoint) of
        Inr (r, entry) \<Rightarrow> (r, entry)
      | Inl x \<Rightarrow> unhandled_error_handler (Some request_id) x)"

subsection \<open>Lemmas\<close>

lemma set_header_once: "map snd (filter (\<lambda>h. fst h = k) (set_header k v hs)) = [v]"
  by (induction k v hs rule: set_header.induct) (auto simp: filter_empty_conv)

lemma set_header_others: "filter (\<lambda>h. fst h \<noteq> k) (set_header k v hs) = filter (\<lambda>h. fst h \<noteq> k) hs"
  by (induction k v hs rule: set_header.induct) auto

lemma serve_correlated: "header_values HEADER_REQUEST_ID (fst (serve q request_id endpoint)) = [request_id]"
proof (cases "endpoint request_id")
  case (Raised x)
  then show ?thesis
    by (simp add: serve_def request_context_middleware_def handle_expected_def unhandled_error_handler_def Let_def
        internal_error_def header_values_def raw_headers_def state_request_id_def)
qed (simp_all add: serve_def request_context_middleware_def handle_expected_def header_values_def Let_def set_header_once)

lemma exception_details_cong:
  assumes "px_type x = px_type y" and "take MAX_EXCEPTION_FRAMES (px_frames x) = take MAX_EXCEPTION_FRAMES (px_frames y)"
  shows "exception_details x = exception_details y"
  using assms by (simp add: exception_details_def)

subsection \<open>Properties\<close>

text \<open>
  Every answer is correlated and no answer leaks. Whatever the endpoint does, the answer carries
  exactly one request id header, with the id the server issued, even when the endpoint or an error
  set a header of that name in any case; the status, the body and the other headers of a normal answer
  are those of the endpoint; an \<open>ApiError\<close> is answered with its own status, code, message, retry hint and
  event index; and any other exception gives one fixed body with status 500.
\<close>

theorem every_answer_is_correlated:
  "case serve q request_id endpoint of (r, entry) \<Rightarrow>
     header_values HEADER_REQUEST_ID r = [request_id] \<and>
     (case endpoint request_id of
        Responded r0 \<Rightarrow>
          rs_status r = rs_status r0 \<and> rs_content r = rs_content r0 \<and>
          filter (\<lambda>h. fst h \<noteq> py_lower HEADER_REQUEST_ID) (rs_headers r) =
            filter (\<lambda>h. fst h \<noteq> py_lower HEADER_REQUEST_ID) (rs_headers r0)
      | Api_error e \<Rightarrow>
          rs_status r = status_code e \<and>
          rs_content r = error_body request_id (err_code e) (err_message e) (err_retryable e) (event_index e)
      | Raised x \<Rightarrow> r = internal_error request_id)"
proof -
  have "header_values HEADER_REQUEST_ID (fst (serve q request_id endpoint)) = [request_id]"
    by (rule serve_correlated)
  then show ?thesis
    by (cases "endpoint request_id")
      (simp_all add: serve_def request_context_middleware_def handle_expected_def Let_def api_error_handler_def
        unhandled_error_handler_def state_request_id_def set_header_others)
qed

text \<open>
  C28. Exceptions reveal their type and code locations only. Two unexpected exceptions of the same type
  that were raised along the same first 32 code locations produce the same answer and the same log
  entry, and the same text from the formatter of the server log, whatever their messages are and
  whatever text another handler has cached on the record.
\<close>

theorem exceptions_reveal_locations_only:
  assumes "px_type x = px_type y" and "take MAX_EXCEPTION_FRAMES (px_frames x) = take MAX_EXCEPTION_FRAMES (px_frames y)"
  shows "serve q request_id (\<lambda>_. Raised x) = serve q request_id (\<lambda>_. Raised y) \<and>
         safe_exception (Some x) event = safe_exception (Some y) event \<and>
         safe_format py_repr (rec\<lparr>lr_exc_info := Some x, lr_exc_text := cached\<rparr>) =
           safe_format py_repr (rec\<lparr>lr_exc_info := Some y, lr_exc_text := cached'\<rparr>)"
proof -
  note same = exception_details_cong [OF assms]
  have "safe_exception (Some x) event = safe_exception (Some y) event"
    by (simp add: safe_exception_def Let_def sys_exc_info_def same)
  moreover have "serve q request_id (\<lambda>_. Raised x) = serve q request_id (\<lambda>_. Raised y)"
    by (simp add: serve_def request_context_middleware_def handle_expected_def unhandled_error_handler_def
        safe_exception_def Let_def same)
  ultimately show ?thesis
    by (simp add: safe_format_def formatter_format_def format_exception_def same)
qed

definition sample_exception :: "string \<Rightarrow> py_exception" where
  "sample_exception msg = \<lparr>px_type = ''ValueError'', px_message = msg, px_frames = [(''f'', 3), (''g'', 9)]\<rparr>"

definition sample_http_request :: http_request where
  "sample_http_request = \<lparr>hq_method = ''GET'', hq_path = ''/x'', hq_duration_ms = Fin 1\<rparr>"

theorem exceptions_reveal_locations_only_witness:
  "sample_exception ''password=1'' \<noteq> sample_exception ''other'' \<and>
   serve sample_http_request ''r1'' (\<lambda>_. Raised (sample_exception ''password=1'')) =
     serve sample_http_request ''r1'' (\<lambda>_. Raised (sample_exception ''other''))"
proof -
  have "px_type (sample_exception ''password=1'') = px_type (sample_exception ''other'')"
    "px_frames (sample_exception ''password=1'') = px_frames (sample_exception ''other'')"
    by (simp_all add: sample_exception_def)
  with exceptions_reveal_locations_only [of "sample_exception ''password=1''" "sample_exception ''other''"] show ?thesis
    by (simp add: sample_exception_def)
qed

end
