(* ===== verification/Apm_Assets.thy ===== *)
theory Apm_Assets
  imports Apm_Prelude
begin

section \<open>Dashboard and alert synchronization\<close>

text \<open>
  The model of \<open>signoz/assets.py\<close> and \<open>scripts/sync_signoz_assets.py\<close>: the search for an existing object
  in a response of any shape, and the upsert of the checked-in dashboards and rules by name. The
  SigNoz server is a parameter, a function from a request and the state of the server to the next
  state and the decoded answer, \<open>None\<close> when the client raises. What the synchronization relies on, that
  a created object is listed under its name from then on, is a hypothesis of the theorem.
\<close>

datatype asset_request = Get string | Put string json | Post string json

type_synonym 's server = "asset_request \<Rightarrow> 's \<Rightarrow> 's \<times> json option"

fun find_named_id :: "string \<Rightarrow> string \<Rightarrow> json \<Rightarrow> string option"
  and find_in_values :: "string \<Rightarrow> string \<Rightarrow> (string \<times> json) list \<Rightarrow> string option"
  and find_in_items :: "string \<Rightarrow> string \<Rightarrow> json list \<Rightarrow> string option" where
  "find_named_id name_field expected (JObj kvs) =
     (case map_of kvs ''id'' of
        Some (JScalar (SStr item_id)) \<Rightarrow>
          if map_of kvs name_field = Some (jstr expected) then Some item_id else find_in_values name_field expected kvs
      | _ \<Rightarrow> find_in_values name_field expected kvs)"
| "find_named_id name_field expected (JList xs) = find_in_items name_field expected xs"
| "find_named_id name_field expected (JScalar _) = None"
| "find_in_values name_field expected [] = None"
| "find_in_values name_field expected ((_, x) # kvs) =
     (case find_named_id name_field expected x of
        Some i \<Rightarrow> if i = [] then find_in_values name_field expected kvs else Some i
      | None \<Rightarrow> find_in_values name_field expected kvs)"
| "find_in_items name_field expected [] = None"
| "find_in_items name_field expected (x # xs) =
     (case find_named_id name_field expected x of
        Some i \<Rightarrow> if i = [] then find_in_items name_field expected xs else Some i
      | None \<Rightarrow> find_in_items name_field expected xs)"

text \<open>An id counts only when it is not empty: the callers test it for truth.\<close>

definition existing_id :: "string \<Rightarrow> string \<Rightarrow> json \<Rightarrow> string option" where
  "existing_id name_field expected listing =
     (case find_named_id name_field expected listing of Some i \<Rightarrow> if i = [] then None else Some i | None \<Rightarrow> None)"

record asset_kind =
  ak_label :: string
  ak_path :: string
  ak_listing :: string
  ak_name_field :: string

definition DASHBOARDS :: asset_kind where
  "DASHBOARDS =
     \<lparr>ak_label = ''dashboard'', ak_path = ''/api/v2/dashboards'', ak_listing = ''/api/v2/dashboards?limit=1000'', ak_name_field = ''name''\<rparr>"

definition RULES :: asset_kind where
  "RULES = \<lparr>ak_label = ''alert'', ak_path = ''/api/v2/rules'', ak_listing = ''/api/v2/rules'', ak_name_field = ''alert''\<rparr>"

definition asset_name :: "(json \<Rightarrow> string) \<Rightarrow> asset_kind \<Rightarrow> json \<Rightarrow> string option" where
  "asset_name to_text k a =
     (case obj_get (ak_name_field k) a of None \<Rightarrow> None | Some (JScalar (SStr n)) \<Rightarrow> Some n | Some j \<Rightarrow> Some (to_text j))"

definition upsert_request :: "asset_kind \<Rightarrow> string option \<Rightarrow> json \<Rightarrow> asset_request" where
  "upsert_request k existing a =
     (case existing of Some i \<Rightarrow> Put (ak_path k @ ''/'' @ i) a | None \<Rightarrow> Post (ak_path k) a)"

definition action_text :: "asset_kind \<Rightarrow> string \<Rightarrow> string option \<Rightarrow> string" where
  "action_text k name existing =
     ak_label k @ '':'' @ name @ '':'' @ (if existing = None then ''create'' else ''update'')"

definition prepend :: "string list \<Rightarrow> 's \<times> string list option \<Rightarrow> 's \<times> string list option" where
  "prepend actions r = (fst r, map_option ((@) actions) (snd r))"

text \<open>The loop over one kind of assets; \<open>None\<close> is an exception that leaves the requests sent so far.\<close>

fun sync_each ::
    "(json \<Rightarrow> string) \<Rightarrow> 's server \<Rightarrow> asset_kind \<Rightarrow> json \<Rightarrow> bool \<Rightarrow> json list \<Rightarrow> 's \<Rightarrow> 's \<times> string list option" where
  "sync_each to_text send k listing dry_run [] s = (s, Some [])"
| "sync_each to_text send k listing dry_run (a # assets) s =
     (case asset_name to_text k a of
        None \<Rightarrow> (s, None)
      | Some name \<Rightarrow>
          let existing = existing_id (ak_name_field k) name listing;
              (s', answer) = (if dry_run then (s, Some jnull) else send (upsert_request k existing a) s)
          in (case answer of
                None \<Rightarrow> (s', None)
              | Some _ \<Rightarrow> prepend [action_text k name existing] (sync_each to_text send k listing dry_run assets s')))"

definition sync_kind ::
    "(json \<Rightarrow> string) \<Rightarrow> 's server \<Rightarrow> asset_kind \<Rightarrow> bool \<Rightarrow> json list \<Rightarrow> 's \<Rightarrow> 's \<times> string list option" where
  "sync_kind to_text send k dry_run assets s =
     (case send (Get (ak_listing k)) s of
        (s', None) \<Rightarrow> (s', None)
      | (s', Some listing) \<Rightarrow> sync_each to_text send k listing dry_run assets s')"

definition sync_assets ::
    "(json \<Rightarrow> string) \<Rightarrow> 's server \<Rightarrow> json list \<Rightarrow> json list \<Rightarrow> bool \<Rightarrow> 's \<Rightarrow> 's \<times> string list option" where
  "sync_assets to_text send dashboards alerts dry_run s =
     (case sync_kind to_text send DASHBOARDS dry_run dashboards s of
        (s1, None) \<Rightarrow> (s1, None)
      | (s1, Some actions) \<Rightarrow>
          if alerts = [] then (s1, Some actions)
          else prepend actions (sync_kind to_text send RULES dry_run alerts s1))"

record sync_arguments =
  ya_base_url :: "string option"
  ya_api_key :: "string option"
  ya_include_alerts :: bool
  ya_dry_run :: bool

definition given :: "string option \<Rightarrow> bool" where
  "given v \<longleftrightarrow> v \<noteq> None \<and> v \<noteq> Some []"

text \<open>The command: \<open>Inl\<close> is the message of \<open>SystemExit\<close>.\<close>

definition sync_main ::
    "(json \<Rightarrow> string) \<Rightarrow> 's server \<Rightarrow> sync_arguments \<Rightarrow> json list \<Rightarrow> json list \<Rightarrow> 's
       \<Rightarrow> string + 's \<times> string list option" where
  "sync_main to_text send args dashboards alerts s =
     (if \<not> given (ya_base_url args) \<or> \<not> given (ya_api_key args)
      then Inl ''SIGNOZ_BASE_URL and SIGNOZ_API_KEY (or flags) are required''
      else Inr (sync_assets to_text send dashboards (if ya_include_alerts args then alerts else []) (ya_dry_run args) s))"

subsection \<open>The search\<close>

text \<open>The objects of a value, at every depth.\<close>

fun objects :: "json \<Rightarrow> dict list" and value_objects :: "(string \<times> json) list \<Rightarrow> dict list"
  and item_objects :: "json list \<Rightarrow> dict list" where
  "objects (JObj kvs) = kvs # value_objects kvs"
| "objects (JList xs) = item_objects xs"
| "objects (JScalar _) = []"
| "value_objects [] = []"
| "value_objects ((_, x) # kvs) = objects x @ value_objects kvs"
| "item_objects [] = []"
| "item_objects (x # xs) = objects x @ item_objects xs"

definition object_named :: "string \<Rightarrow> string \<Rightarrow> string \<Rightarrow> dict \<Rightarrow> bool" where
  "object_named name_field expected i d \<longleftrightarrow> map_of d name_field = Some (jstr expected) \<and> map_of d ''id'' = Some (jstr i)"

lemma find_sound:
  "find_named_id nf e x = Some i \<Longrightarrow> \<exists>d \<in> set (objects x). object_named nf e i d"
  "find_in_values nf e kvs = Some i \<Longrightarrow> \<exists>d \<in> set (value_objects kvs). object_named nf e i d"
  "find_in_items nf e xs = Some i \<Longrightarrow> \<exists>d \<in> set (item_objects xs). object_named nf e i d"
  by (induction nf e x and nf e kvs and nf e xs rule: find_named_id_find_in_values_find_in_items.induct)
    (auto simp: object_named_def split: option.splits json.splits scalar.splits if_splits)

subsection \<open>What the synchronization relies on\<close>

definition known :: "'s server \<Rightarrow> asset_kind \<Rightarrow> string \<Rightarrow> 's \<Rightarrow> bool" where
  "known send k name s \<longleftrightarrow>
     (\<exists>listing. snd (send (Get (ak_listing k)) s) = Some listing \<and> existing_id (ak_name_field k) name listing \<noteq> None)"

definition upserts_listed :: "(json \<Rightarrow> string) \<Rightarrow> 's server \<Rightarrow> bool" where
  "upserts_listed to_text send \<longleftrightarrow>
     (\<forall>p s. fst (send (Get p) s) = s) \<and>
     (\<forall>k \<in> {DASHBOARDS, RULES}. \<forall>a s name. snd (send (Post (ak_path k) a) s) \<noteq> None \<longrightarrow>
        asset_name to_text k a = Some name \<longrightarrow> known send k name (fst (send (Post (ak_path k) a) s))) \<and>
     (\<forall>k \<in> {DASHBOARDS, RULES}. \<forall>q s name. known send k name s \<longrightarrow> known send k name (fst (send q s)))"

lemma upserts_listedD:
  assumes "upserts_listed to_text send"
  shows "fst (send (Get p) s) = s"
    and "k \<in> {DASHBOARDS, RULES} \<Longrightarrow> snd (send (Post (ak_path k) a) s) \<noteq> None \<Longrightarrow> asset_name to_text k a = Some name \<Longrightarrow>
           known send k name (fst (send (Post (ak_path k) a) s))"
    and "k \<in> {DASHBOARDS, RULES} \<Longrightarrow> known send k name s \<Longrightarrow> known send k name (fst (send q s))"
  using assms unfolding upserts_listed_def by blast+

definition update_actions :: "(json \<Rightarrow> string) \<Rightarrow> asset_kind \<Rightarrow> json list \<Rightarrow> string list" where
  "update_actions to_text k assets = map (\<lambda>a. ak_label k @ '':'' @ the (asset_name to_text k a) @ '':update'') assets"

definition all_known :: "(json \<Rightarrow> string) \<Rightarrow> 's server \<Rightarrow> asset_kind \<Rightarrow> json list \<Rightarrow> 's \<Rightarrow> bool" where
  "all_known to_text send k assets s \<longleftrightarrow> (\<forall>a \<in> set assets. \<exists>name. asset_name to_text k a = Some name \<and> known send k name s)"

lemma prepend_Some: "prepend xs r = (s, Some ys) \<longleftrightarrow> (\<exists>zs. r = (s, Some zs) \<and> ys = xs @ zs)"
  by (cases r; cases "snd r") (auto simp: prepend_def)

lemma fst_prepend [simp]: "fst (prepend xs r) = fst r"
  by (simp add: prepend_def)

lemma sync_each_Cons:
  assumes "sync_each to_text send k listing dry_run (a # assets) s = (s', Some actions)"
  obtains name rest where "asset_name to_text k a = Some name"
    and "actions = action_text k name (existing_id (ak_name_field k) name listing) # rest"
    and "sync_each to_text send k listing dry_run assets
           (if dry_run then s else fst (send (upsert_request k (existing_id (ak_name_field k) name listing) a) s)) = (s', Some rest)"
    and "dry_run \<or> snd (send (upsert_request k (existing_id (ak_name_field k) name listing) a) s) \<noteq> None"
  using assms by (cases dry_run) (auto simp: Let_def prepend_Some split: option.splits prod.splits)

lemma sync_each_keeps:
  assumes "upserts_listed to_text send" and "k' \<in> {DASHBOARDS, RULES}"
  shows "known send k' name s \<Longrightarrow> sync_each to_text send k listing dry_run assets s = (s', Some actions) \<Longrightarrow> known send k' name s'"
proof (induction assets arbitrary: s actions)
  case (Cons a assets)
  from Cons.prems(2) obtain n rest where
    r: "sync_each to_text send k listing dry_run assets
           (if dry_run then s else fst (send (upsert_request k (existing_id (ak_name_field k) n listing) a) s)) = (s', Some rest)"
    by (rule sync_each_Cons)
  show ?case
    by (rule Cons.IH [OF _ r]) (use Cons.prems(1) upserts_listedD(3) [OF assms] in simp)
qed simp

lemma sync_each_known:
  assumes laws: "upserts_listed to_text send" and k: "k \<in> {DASHBOARDS, RULES}"
  shows "\<forall>name. existing_id (ak_name_field k) name listing \<noteq> None \<longrightarrow> known send k name s \<Longrightarrow>
         sync_each to_text send k listing False assets s = (s', Some actions) \<Longrightarrow> all_known to_text send k assets s'"
proof (induction assets arbitrary: s actions)
  case (Cons a assets)
  from Cons.prems(2) obtain n rest where n: "asset_name to_text k a = Some n"
    and r: "sync_each to_text send k listing False assets
           (if False then s else fst (send (upsert_request k (existing_id (ak_name_field k) n listing) a) s)) = (s', Some rest)"
    and sent: "False \<or> snd (send (upsert_request k (existing_id (ak_name_field k) n listing) a) s) \<noteq> None"
    by (rule sync_each_Cons)
  let ?s1 = "fst (send (upsert_request k (existing_id (ak_name_field k) n listing) a) s)"
  have "known send k n ?s1"
  proof (cases "existing_id (ak_name_field k) n listing")
    case None
    then show ?thesis
      using upserts_listedD(2) [OF laws k _ n] sent by (simp add: upsert_request_def)
  next
    case (Some i)
    then show ?thesis using Cons.prems(1) upserts_listedD(3) [OF laws k] by simp
  qed
  then have "known send k n s'"
    using sync_each_keeps [OF laws k] r by simp
  moreover have "\<forall>name. existing_id (ak_name_field k) name listing \<noteq> None \<longrightarrow> known send k name ?s1"
    using Cons.prems(1) upserts_listedD(3) [OF laws k] by blast
  then have "all_known to_text send k assets s'"
    using Cons.IH r by simp
  ultimately show ?case using n by (simp add: all_known_def)
qed (simp add: all_known_def)

lemma sync_each_updates:
  assumes "\<forall>a \<in> set assets. \<exists>name. asset_name to_text k a = Some name \<and> existing_id (ak_name_field k) name listing \<noteq> None"
    and "sync_each to_text send k listing dry_run assets s = (s', Some actions)"
  shows "actions = update_actions to_text k assets"
  using assms
proof (induction assets arbitrary: s actions)
  case (Cons a assets)
  from Cons.prems(2) obtain n rest where n: "asset_name to_text k a = Some n"
    and act: "actions = action_text k n (existing_id (ak_name_field k) n listing) # rest"
    and r: "sync_each to_text send k listing dry_run assets
           (if dry_run then s else fst (send (upsert_request k (existing_id (ak_name_field k) n listing) a) s)) = (s', Some rest)"
    by (rule sync_each_Cons)
  have "rest = update_actions to_text k assets"
    by (rule Cons.IH [OF _ r]) (use Cons.prems(1) in simp)
  moreover have "existing_id (ak_name_field k) n listing \<noteq> None"
    using Cons.prems(1) n by auto
  ultimately show ?case
    using n act by (simp add: update_actions_def action_text_def)
qed (simp add: update_actions_def)

lemma sync_each_dry: "fst (sync_each to_text send k listing True assets s) = s"
  by (induction assets) (auto simp: Let_def split: option.splits)

lemma sync_kindD:
  assumes "upserts_listed to_text send" and "sync_kind to_text send k dry_run assets s = (s', Some actions)"
  obtains listing where "snd (send (Get (ak_listing k)) s) = Some listing"
    and "sync_each to_text send k listing dry_run assets s = (s', Some actions)"
  using assms(2) upserts_listedD(1) [OF assms(1), of "ak_listing k" s]
  by (auto simp: sync_kind_def split: prod.splits option.splits)

lemma sync_kind_known:
  assumes "upserts_listed to_text send" and "k \<in> {DASHBOARDS, RULES}"
    and "sync_kind to_text send k False assets s = (s', Some actions)"
  shows "all_known to_text send k assets s'"
proof -
  obtain listing where l: "snd (send (Get (ak_listing k)) s) = Some listing"
    and e: "sync_each to_text send k listing False assets s = (s', Some actions)"
    using sync_kindD [OF assms(1,3)] .
  show ?thesis
    by (rule sync_each_known [OF assms(1,2) _ e]) (simp add: known_def l)
qed

lemma sync_kind_keeps:
  assumes "upserts_listed to_text send" and "k' \<in> {DASHBOARDS, RULES}" and "all_known to_text send k' others s"
    and "sync_kind to_text send k dry_run assets s = (s', Some actions)"
  shows "all_known to_text send k' others s'"
proof -
  obtain listing where e: "sync_each to_text send k listing dry_run assets s = (s', Some actions)"
    using sync_kindD [OF assms(1,4)] .
  show ?thesis
    using assms(3) sync_each_keeps [OF assms(1,2) _ e] unfolding all_known_def by blast
qed

lemma sync_kind_updates:
  assumes "upserts_listed to_text send" and "all_known to_text send k assets s"
    and "sync_kind to_text send k dry_run assets s = (s', Some actions)"
  shows "actions = update_actions to_text k assets"
proof -
  obtain listing where l: "snd (send (Get (ak_listing k)) s) = Some listing"
    and e: "sync_each to_text send k listing dry_run assets s = (s', Some actions)"
    using sync_kindD [OF assms(1,3)] .
  show ?thesis
    by (rule sync_each_updates [OF _ e]) (use assms(2) l in \<open>auto simp: all_known_def known_def\<close>)
qed

lemma sync_assetsD:
  assumes "sync_assets to_text send dashboards alerts dry_run s = (s', Some actions)"
  obtains s1 acts rules where "sync_kind to_text send DASHBOARDS dry_run dashboards s = (s1, Some acts)"
    and "actions = acts @ rules" and "alerts = [] \<Longrightarrow> s' = s1 \<and> rules = []"
    and "alerts \<noteq> [] \<Longrightarrow> sync_kind to_text send RULES dry_run alerts s1 = (s', Some rules)"
  using assms by (cases "alerts = []") (auto simp: sync_assets_def prepend_Some split: prod.splits option.splits)

lemma sync_assets_known:
  assumes laws: "upserts_listed to_text send" and "sync_assets to_text send dashboards alerts False s = (s', Some actions)"
  shows "all_known to_text send DASHBOARDS dashboards s' \<and> all_known to_text send RULES alerts s'"
proof -
  obtain s1 acts rules where d: "sync_kind to_text send DASHBOARDS False dashboards s = (s1, Some acts)"
    and e: "alerts = [] \<Longrightarrow> s' = s1 \<and> rules = []"
    and r: "alerts \<noteq> [] \<Longrightarrow> sync_kind to_text send RULES False alerts s1 = (s', Some rules)"
    by (rule sync_assetsD [OF assms(2)]) blast
  have k: "all_known to_text send DASHBOARDS dashboards s1"
    by (rule sync_kind_known [OF laws _ d]) simp
  show ?thesis
  proof (cases "alerts = []")
    case False
    then show ?thesis
      using sync_kind_known [OF laws _ r] sync_kind_keeps [OF laws _ k r] by simp
  qed (use k e in \<open>simp add: all_known_def\<close>)
qed

lemma sync_kind_dry: "upserts_listed to_text send \<Longrightarrow> fst (sync_kind to_text send k True assets s) = s"
  using upserts_listedD(1) [of to_text send "ak_listing k" s]
  by (auto simp: sync_kind_def sync_each_dry split: prod.splits option.splits)

lemma sync_assets_dry: "upserts_listed to_text send \<Longrightarrow> fst (sync_assets to_text send dashboards alerts True s) = s"
  using sync_kind_dry [of to_text send DASHBOARDS dashboards s] sync_kind_dry [of to_text send RULES alerts]
  by (auto simp: sync_assets_def split: prod.splits option.splits)

subsection \<open>Properties\<close>

text \<open>
  Synchronization is idempotent and a dry run is harmless. On a server that lists an object under
  its name once it has been created, a synchronization that succeeds makes every later one, dry or
  not, an update of exactly the same assets in the same order, with nothing created twice; and a dry
  run, successful or not, leaves the server as it was.
\<close>

theorem asset_sync_idempotent:
  assumes "upserts_listed to_text send" and "sync_assets to_text send dashboards alerts False s = (s1, Some actions)"
    and "sync_assets to_text send dashboards alerts dry_run s1 = (s2, Some again)"
  shows "again = update_actions to_text DASHBOARDS dashboards @ update_actions to_text RULES alerts \<and>
         fst (sync_assets to_text send dashboards alerts True s1) = s1"
proof -
  note known = sync_assets_known [OF assms(1,2)]
  obtain t acts rules where d: "sync_kind to_text send DASHBOARDS dry_run dashboards s1 = (t, Some acts)"
    and a: "again = acts @ rules" and e: "alerts = [] \<Longrightarrow> s2 = t \<and> rules = []"
    and r: "alerts \<noteq> [] \<Longrightarrow> sync_kind to_text send RULES dry_run alerts t = (s2, Some rules)"
    by (rule sync_assetsD [OF assms(3)]) blast
  have "acts = update_actions to_text DASHBOARDS dashboards"
    by (rule sync_kind_updates [OF assms(1) _ d]) (use known in simp)
  moreover have "all_known to_text send RULES alerts t"
    by (rule sync_kind_keeps [OF assms(1) _ _ d]) (use known in simp_all)
  then have "rules = update_actions to_text RULES alerts"
    using sync_kind_updates [OF assms(1) _ r] e by (cases "alerts = []") (simp_all add: update_actions_def)
  ultimately show ?thesis using a sync_assets_dry [OF assms(1)] by simp
qed

text \<open>A server that keeps the list of its objects and gives every new one the same id.\<close>

definition listed_object :: "json \<Rightarrow> json" where
  "listed_object a =
     JObj ((''id'', jstr ''i'') #
       map (\<lambda>k. (ak_name_field k, jopt (asset_name (\<lambda>_. ''x'') k a))) [DASHBOARDS, RULES])"

fun sample_send :: "json list server" where
  "sample_send (Get p) s = (s, Some (JList s))"
| "sample_send (Put p a) s = (s, Some jnull)"
| "sample_send (Post p a) s = (listed_object a # s, Some jnull)"

lemma find_in_items_nonempty: "find_in_items nf e xs \<noteq> Some []"
  by (induction xs) (auto split: option.splits)

lemma known_sample: "known sample_send k name s \<longleftrightarrow> find_in_items (ak_name_field k) name s \<noteq> None"
  using find_in_items_nonempty [of "ak_name_field k" name s]
  by (auto simp: known_def existing_id_def split: option.splits)

lemma sample_server_lists: "upserts_listed (\<lambda>_. ''x'') sample_send"
proof -
  have "known sample_send k name (fst (sample_send q s))" if "known sample_send k name s" for k name q s
    using that by (cases q) (auto simp: known_sample split: option.splits)
  moreover have "known sample_send k name (fst (sample_send (Post (ak_path k) a) s))"
    if "k \<in> {DASHBOARDS, RULES}" "asset_name (\<lambda>_. ''x'') k a = Some name" for k a name s
    using that by (auto simp: known_sample listed_object_def DASHBOARDS_def RULES_def)
  ultimately show ?thesis
    by (simp add: upserts_listed_def)
qed

theorem asset_sync_idempotent_witness:
  "\<exists>s1 actions s2 again.
     sync_assets (\<lambda>_. ''x'') sample_send [JObj [(''name'', jstr ''d'')]] [] False [] = (s1, Some actions) \<and>
     sync_assets (\<lambda>_. ''x'') sample_send [JObj [(''name'', jstr ''d'')]] [] False s1 = (s2, Some again) \<and>
     actions = [''dashboard:d:create''] \<and> again = [''dashboard:d:update'']"
proof -
  let ?sync = "sync_assets (\<lambda>_. ''x'') sample_send [JObj [(''name'', jstr ''d'')]] [] False"
  obtain s1 actions s2 again where r: "?sync [] = (s1, Some actions)" "?sync s1 = (s2, Some again)"
    "actions = [''dashboard:d:create'']"
    by (simp add: sync_assets_def sync_kind_def prepend_def existing_id_def listed_object_def DASHBOARDS_def RULES_def
        asset_name_def upsert_request_def action_text_def)
  show ?thesis
    using r asset_sync_idempotent [OF sample_server_lists r(1,2)]
    by (simp add: update_actions_def asset_name_def DASHBOARDS_def)
qed

end
