(* ===== verification/Apm_Migration.thy ===== *)
theory Apm_Migration
  imports Apm_Symbol_Jobs
begin

section \<open>The migration of issue fingerprints\<close>

text \<open>
  The model of the data migration \<open>20260912_0007_issue_fingerprints.py\<close>, the one revision that rewrites
  identities of stored events: it keeps the raw fingerprint of every event in a new column and then
  applies the fingerprints of the completed Java jobs. The column that does not exist before the
  revision is \<open>None\<close> there. The statements are total except the scalar subquery, which fails on a
  second row (\<open>None\<close>). The other revisions only change the schema or
  fill a new column; their statements are in \<open>Apm_Schema\<close>.
\<close>

definition job_canonical :: "symbolization_job list \<Rightarrow> inbox_event \<Rightarrow> symbolization_job list" where
  "job_canonical jobs r =
     filter (\<lambda>j. sj_inbox_event_id j = ie_id r \<and> sj_job_type j = Job_java \<and> sj_status j = SS_symbolized \<and>
                 sj_fingerprint_sha256 j \<noteq> None) jobs"

definition keep_raw :: "inbox_event \<Rightarrow> inbox_event" where
  "keep_raw r = r\<lparr>ie_raw_incident_fingerprint := ie_incident_fingerprint r\<rparr>"

definition apply_canonical :: "symbolization_job list \<Rightarrow> inbox_event \<Rightarrow> inbox_event option" where
  "apply_canonical jobs r =
     (if ie_incident_fingerprint r = None then Some r
      else case job_canonical jobs r of
             [] \<Rightarrow> Some r
           | [j] \<Rightarrow> Some (r\<lparr>ie_incident_fingerprint := sj_fingerprint_sha256 j\<rparr>)
           | _ \<Rightarrow> None)"

definition upgrade_fingerprints :: "symbolization_job list \<Rightarrow> inbox_event list \<Rightarrow> inbox_event list option" where
  "upgrade_fingerprints jobs tbl = those (map (\<lambda>r. apply_canonical jobs (keep_raw r)) tbl)"

definition downgrade_fingerprints :: "inbox_event list \<Rightarrow> inbox_event list" where
  "downgrade_fingerprints tbl =
     map (\<lambda>r. r\<lparr>ie_incident_fingerprint := ie_raw_incident_fingerprint r, ie_raw_incident_fingerprint := None\<rparr>) tbl"

text \<open>What the current worker would have done to the inbox when it completed these jobs.\<close>

definition publish_completed :: "symbolization_job list \<Rightarrow> inbox_event list \<Rightarrow> inbox_event list" where
  "publish_completed jobs tbl =
     fold (\<lambda>j. case sj_fingerprint_sha256 j of
                 None \<Rightarrow> id
               | Some f \<Rightarrow> if sj_job_type j = Job_java \<and> sj_status j = SS_symbolized
                           then publish_fingerprint (sj_inbox_event_id j) f else id) jobs tbl"

subsection \<open>Row by row\<close>

definition applies :: "inbox_event \<Rightarrow> symbolization_job \<Rightarrow> bool" where
  "applies r j \<longleftrightarrow>
     sj_inbox_event_id j = ie_id r \<and> sj_job_type j = Job_java \<and> sj_status j = SS_symbolized \<and> sj_fingerprint_sha256 j \<noteq> None"

definition publish_row :: "symbolization_job \<Rightarrow> inbox_event \<Rightarrow> inbox_event" where
  "publish_row j r =
     (if applies r j \<and> ie_incident_fingerprint r \<noteq> None then r\<lparr>ie_incident_fingerprint := sj_fingerprint_sha256 j\<rparr> else r)"

lemma publish_completed_rows: "publish_completed jobs tbl = map (fold publish_row jobs) tbl"
proof (induction jobs arbitrary: tbl)
  case (Cons j jobs)
  have "(case sj_fingerprint_sha256 j of None \<Rightarrow> id
      | Some f \<Rightarrow> if sj_job_type j = Job_java \<and> sj_status j = SS_symbolized then publish_fingerprint (sj_inbox_event_id j) f else id) tbl =
      map (publish_row j) tbl"
    by (auto simp: publish_row_def applies_def publish_fingerprint_def sql_update_def map_idI split: option.splits)
  then show ?case
    using Cons.IH [of "map (publish_row j) tbl"] by (simp add: publish_completed_def comp_def)
qed (simp add: publish_completed_def)

lemma publish_row_other: "sj_inbox_event_id j \<noteq> ie_id r \<Longrightarrow> publish_row j r = r"
  by (simp add: publish_row_def applies_def)

lemma fold_publish_other: "\<forall>j \<in> set jobs. sj_inbox_event_id j \<noteq> ie_id r \<Longrightarrow> fold publish_row jobs r = r"
  by (induction jobs) (simp_all add: publish_row_other)

lemma job_canonical_Cons: "job_canonical (j # jobs) r = (if applies r j then [j] else []) @ job_canonical jobs r"
  by (simp add: job_canonical_def applies_def)

lemma apply_canonical_publishes:
  assumes "uq_job_inbox_event jobs"
  shows "apply_canonical jobs r = Some (fold publish_row jobs r)"
  using assms
proof (induction jobs)
  case (Cons j jobs)
  show ?case
  proof (cases "sj_inbox_event_id j = ie_id r")
    case True
    then have other: "\<forall>i \<in> set jobs. sj_inbox_event_id i \<noteq> ie_id r"
      using Cons.prems by (auto simp: uq_job_inbox_event_def image_iff)
    then have canonical: "job_canonical jobs r = []"
      by (simp add: job_canonical_def filter_empty_conv)
    have "fold publish_row jobs (publish_row j r) = publish_row j r"
      by (rule fold_publish_other) (use other in \<open>simp add: publish_row_def\<close>)
    then have e: "fold publish_row (j # jobs) r = publish_row j r" by simp
    show ?thesis
      unfolding e using canonical by (simp add: apply_canonical_def job_canonical_Cons publish_row_def)
  next
    case False
    then have "apply_canonical (j # jobs) r = apply_canonical jobs r"
      by (simp add: apply_canonical_def job_canonical_Cons applies_def)
    then show ?thesis
      using Cons False by (simp add: publish_row_other uq_job_inbox_event_def)
  qed
qed (simp add: apply_canonical_def job_canonical_def)

lemma those_map_Some: "(\<And>x. x \<in> set xs \<Longrightarrow> f x = Some (g x)) \<Longrightarrow> those (map f xs) = Some (map g xs)"
  by (induction xs) auto

lemma fold_publish_fields: "\<exists>x. fold publish_row jobs r = r\<lparr>ie_incident_fingerprint := x\<rparr>"
proof (induction jobs arbitrary: r)
  case Nil
  show ?case by (rule exI [of _ "ie_incident_fingerprint r"]) simp
next
  case (Cons j jobs)
  have "publish_row j r = r\<lparr>ie_incident_fingerprint := ie_incident_fingerprint (publish_row j r)\<rparr>"
    by (simp add: publish_row_def)
  then show ?case
    using Cons.IH [of "publish_row j r"] by (auto simp: publish_row_def split: if_splits)
qed

subsection \<open>Properties\<close>

text \<open>
  C31. The fingerprint migration is exact and reversible. With one job per event, which is a constraint
  of the table, the upgrade succeeds and gives every event the fingerprint that the current worker
  would have published when it completed the same jobs, while the raw fingerprint stays available
  under its own column; and the downgrade restores every row as it was before.
\<close>

theorem fingerprint_migration_round_trip:
  assumes "uq_job_inbox_event jobs"
  shows "\<exists>tbl'. upgrade_fingerprints jobs tbl = Some tbl' \<and>
           tbl' = publish_completed jobs (map keep_raw tbl) \<and>
           map ie_raw_incident_fingerprint tbl' = map ie_incident_fingerprint tbl \<and>
           downgrade_fingerprints tbl' = map (\<lambda>r. r\<lparr>ie_raw_incident_fingerprint := None\<rparr>) tbl"
proof (intro exI conjI)
  let ?f = "\<lambda>r. fold publish_row jobs (keep_raw r)"
  show "upgrade_fingerprints jobs tbl = Some (map ?f tbl)"
    unfolding upgrade_fingerprints_def by (rule those_map_Some) (rule apply_canonical_publishes [OF assms])
  show "map ?f tbl = publish_completed jobs (map keep_raw tbl)"
    by (simp add: publish_completed_rows comp_def)
  have row: "ie_raw_incident_fingerprint (?f r) = ie_incident_fingerprint r \<and>
      (?f r)\<lparr>ie_incident_fingerprint := ie_incident_fingerprint r, ie_raw_incident_fingerprint := None\<rparr> =
      r\<lparr>ie_raw_incident_fingerprint := None\<rparr>" for r
    using fold_publish_fields [of jobs "keep_raw r"] by (auto simp: keep_raw_def)
  then show "map ie_raw_incident_fingerprint (map ?f tbl) = map ie_incident_fingerprint tbl"
    by simp
  show "downgrade_fingerprints (map ?f tbl) = map (\<lambda>r. r\<lparr>ie_raw_incident_fingerprint := None\<rparr>) tbl"
    using row by (simp add: downgrade_fingerprints_def)
qed

theorem fingerprint_migration_round_trip_witness:
  "\<exists>tbl'. upgrade_fingerprints [sample_job\<lparr>sj_job_type := Job_java, sj_status := SS_symbolized,
       sj_fingerprint_sha256 := Some ''s''\<rparr>]
       [(sample_inbox_row (sj_inbox_event_id sample_job))\<lparr>ie_incident_fingerprint := Some ''r''\<rparr>] = Some tbl' \<and>
     map ie_raw_incident_fingerprint tbl' = [Some ''r'']"
  using fingerprint_migration_round_trip [of "[sample_job\<lparr>sj_job_type := Job_java, sj_status := SS_symbolized,
       sj_fingerprint_sha256 := Some ''s''\<rparr>]"
      "[(sample_inbox_row (sj_inbox_event_id sample_job))\<lparr>ie_incident_fingerprint := Some ''r''\<rparr>]"]
  by (auto simp: uq_job_inbox_event_def)

end
