(* ===== verification/Apm_Schema.thy ===== *)
theory Apm_Schema
  imports Apm_Prelude
begin

section \<open>The database schema and its migrations\<close>

text \<open>
  The model of the schema side of \<open>alembic/versions\<close>, \<open>db/models.py\<close> and \<open>db/base.py\<close>. A migration is the
  list of its statements in order; a statement is run against the tables and fails where a database
  with rows in them refuses it: a table or column that is missing or already there, a required column
  without a server default, \<open>NOT NULL\<close> on a column that may hold nulls, the removal of something
  still in use. Statements that fill a column say so, so that the order of a backfill and of the
  constraint that relies on it matters. The metadata of the model classes is the schema the queries of
  the server are written for. What the backfills write is in the theory \<open>Apm_Migration\<close>.
\<close>

subsection \<open>Schemas\<close>

datatype sql_type = Varchar nat | Text_type | Boolean | Timestamp_tz | Int4 | Int8 | Bigint_variant | Json

datatype column = Column (co_name: string) (co_type: sql_type) (co_nullable: bool) (co_default: "string option")

datatype key_constraint =
    Primary_key string "string list"
  | Unique_key string "string list"
  | Foreign_key string string string string string

record table =
  tb_name :: string
  tb_columns :: "column list"
  tb_constraints :: "key_constraint list"
  tb_indexes :: "(string \<times> string list) list"

type_synonym schema = "table list"

definition new_table :: "string \<Rightarrow> column list \<Rightarrow> key_constraint list \<Rightarrow> table" where
  "new_table name columns constraints =
     \<lparr>tb_name = name, tb_columns = columns, tb_constraints = constraints, tb_indexes = []\<rparr>"

text \<open>The naming convention of \<open>db/base.py\<close>.\<close>

definition pk_name :: "string \<Rightarrow> string" where "pk_name t = ''pk_'' @ t"
definition ix_name :: "string \<Rightarrow> string \<Rightarrow> string" where "ix_name t c = ''ix_'' @ t @ ''_'' @ c"
definition uq_name :: "string \<Rightarrow> string \<Rightarrow> string" where "uq_name t c = ''uq_'' @ t @ ''_'' @ c"
definition fk_name :: "string \<Rightarrow> string \<Rightarrow> string \<Rightarrow> string" where "fk_name t c r = ''fk_'' @ t @ ''_'' @ c @ ''_'' @ r"

subsection \<open>Statements\<close>

datatype ddl =
    Create_table table
  | Drop_table string
  | Add_column string column
  | Drop_column string string
  | Alter_column string string "sql_type option" "bool option"
  | Create_index string string "string list"
  | Drop_index string string
  | Fill_column string string string
  | Rewrite_column string string
  | Require_width string string nat

text \<open>
  The state of a migration run: the tables, and the nullable columns known to hold no null. The length
  of the longest value a column holds is a parameter, which only a guard reads.
\<close>

type_synonym stored_lengths = "string \<Rightarrow> string \<Rightarrow> nat"

type_synonym db_state = "schema \<times> (string \<times> string) list"

fun constraint_columns :: "key_constraint \<Rightarrow> string list" where
  "constraint_columns (Primary_key _ cs) = cs"
| "constraint_columns (Unique_key _ cs) = cs"
| "constraint_columns (Foreign_key _ c _ _ _) = [c]"

fun constraint_target :: "key_constraint \<Rightarrow> string option" where
  "constraint_target (Foreign_key _ _ t _ _) = Some t"
| "constraint_target _ = None"

definition column_names :: "table \<Rightarrow> string list" where
  "column_names t = map co_name (tb_columns t)"

definition uses_column :: "string \<Rightarrow> table \<Rightarrow> bool" where
  "uses_column c t \<longleftrightarrow>
     list_ex (\<lambda>k. c \<in> set (constraint_columns k)) (tb_constraints t) \<or> list_ex (\<lambda>i. c \<in> set (snd i)) (tb_indexes t)"

definition references :: "string \<Rightarrow> table \<Rightarrow> bool" where
  "references name t \<longleftrightarrow> list_ex (\<lambda>k. constraint_target k = Some name) (tb_constraints t)"

definition find_table :: "string \<Rightarrow> schema \<Rightarrow> table option" where
  "find_table name s = find (\<lambda>t. tb_name t = name) s"

definition change_table :: "string \<Rightarrow> (table \<Rightarrow> table) \<Rightarrow> schema \<Rightarrow> schema" where
  "change_table name f s = map (\<lambda>t. if tb_name t = name then f t else t) s"

definition find_column :: "string \<Rightarrow> table \<Rightarrow> column option" where
  "find_column name t = find (\<lambda>c. co_name c = name) (tb_columns t)"

definition change_column :: "string \<Rightarrow> (column \<Rightarrow> column) \<Rightarrow> table \<Rightarrow> table" where
  "change_column name f t = t\<lparr>tb_columns := map (\<lambda>c. if co_name c = name then f c else c) (tb_columns t)\<rparr>"

definition altered :: "sql_type option \<Rightarrow> bool option \<Rightarrow> column \<Rightarrow> column" where
  "altered ty nullable c =
     Column (co_name c) (case ty of None \<Rightarrow> co_type c | Some y \<Rightarrow> y) (case nullable of None \<Rightarrow> co_nullable c | Some b \<Rightarrow> b)
       (co_default c)"

fun run_ddl :: "stored_lengths \<Rightarrow> ddl \<Rightarrow> db_state \<Rightarrow> db_state option" where
  "run_ddl longest (Create_table t) (s, filled) =
     (if find_table (tb_name t) s = None \<and> distinct (column_names t) \<and> tb_indexes t = [] \<and>
         list_all (\<lambda>k. list_all (\<lambda>c. c \<in> set (column_names t)) (constraint_columns k) \<and>
                       (case constraint_target k of None \<Rightarrow> True | Some r \<Rightarrow> find_table r s \<noteq> None)) (tb_constraints t)
      then Some (s @ [t], filled) else None)"
| "run_ddl longest (Drop_table name) (s, filled) =
     (if find_table name s \<noteq> None \<and> \<not> list_ex (\<lambda>t. tb_name t \<noteq> name \<and> references name t) s
      then Some (filter (\<lambda>t. tb_name t \<noteq> name) s, filled) else None)"
| "run_ddl longest (Add_column name c) (s, filled) =
     (case find_table name s of
        None \<Rightarrow> None
      | Some t \<Rightarrow>
          if find_column (co_name c) t = None \<and> (co_nullable c \<or> co_default c \<noteq> None)
          then Some (change_table name (\<lambda>t. t\<lparr>tb_columns := tb_columns t @ [c]\<rparr>) s,
                     filter (\<lambda>f. f \<noteq> (name, co_name c)) filled)
          else None)"
| "run_ddl longest (Drop_column name c) (s, filled) =
     (case find_table name s of
        None \<Rightarrow> None
      | Some t \<Rightarrow>
          if find_column c t \<noteq> None \<and> \<not> uses_column c t
          then Some (change_table name (\<lambda>t. t\<lparr>tb_columns := filter (\<lambda>d. co_name d \<noteq> c) (tb_columns t)\<rparr>) s, filled)
          else None)"
| "run_ddl longest (Alter_column name c ty nullable) (s, filled) =
     (case Option.bind (find_table name s) (find_column c) of
        None \<Rightarrow> None
      | Some d \<Rightarrow>
          if nullable = Some False \<and> co_nullable d \<and> (name, c) \<notin> set filled then None
          else Some (change_table name (change_column c (altered ty nullable)) s, filled))"
| "run_ddl longest (Create_index i name cs) (s, filled) =
     (case find_table name s of
        None \<Rightarrow> None
      | Some t \<Rightarrow>
          if list_all (\<lambda>c. c \<in> set (column_names t)) cs \<and> \<not> list_ex (\<lambda>t. i \<in> set (map fst (tb_indexes t))) s
          then Some (change_table name (\<lambda>t. t\<lparr>tb_indexes := tb_indexes t @ [(i, cs)]\<rparr>) s, filled)
          else None)"
| "run_ddl longest (Drop_index i name) (s, filled) =
     (case find_table name s of
        None \<Rightarrow> None
      | Some t \<Rightarrow>
          if i \<in> set (map fst (tb_indexes t))
          then Some (change_table name (\<lambda>t. t\<lparr>tb_indexes := filter (\<lambda>x. fst x \<noteq> i) (tb_indexes t)\<rparr>) s, filled)
          else None)"
| "run_ddl longest (Fill_column name c source) (s, filled) =
     (case (Option.bind (find_table name s) (find_column c), Option.bind (find_table name s) (find_column source)) of
        (Some _, Some d) \<Rightarrow> Some (s, if co_nullable d then filled else (name, c) # filled)
      | _ \<Rightarrow> None)"
| "run_ddl longest (Rewrite_column name c) (s, filled) =
     (if Option.bind (find_table name s) (find_column c) = None then None else Some (s, filled))"
| "run_ddl longest (Require_width name c n) (s, filled) =
     (if Option.bind (find_table name s) (find_column c) = None \<or> n < longest name c then None else Some (s, filled))"

fun run_script :: "stored_lengths \<Rightarrow> ddl list \<Rightarrow> db_state \<Rightarrow> db_state option" where
  "run_script longest [] st = Some st"
| "run_script longest (d # ds) st = Option.bind (run_ddl longest d st) (run_script longest ds)"

record migration =
  mi_revision :: string
  mi_down_revision :: "string option"
  mi_upgrade :: "ddl list"
  mi_downgrade :: "ddl list"

subsection \<open>The migrations\<close>

definition upgrade_0001 :: "ddl list" where
  "upgrade_0001 =
    [Create_table (new_table ''tenants''
       [Column ''id'' (Varchar 64) False None, Column ''name'' (Varchar 256) False None,
        Column ''active'' Boolean False None, Column ''created_at'' Timestamp_tz False None,
        Column ''config_rollout_salt'' (Varchar 64) False None]
       [Primary_key ''pk_tenants'' [''id'']]),
     Create_table (new_table ''ingest_keys''
       [Column ''key_id'' (Varchar 32) False None, Column ''tenant_id'' (Varchar 64) False None,
        Column ''key_hash'' (Varchar 512) False None, Column ''app_id'' (Varchar 256) False None,
        Column ''environment'' (Varchar 128) False None, Column ''active'' Boolean False None,
        Column ''expires_at'' Timestamp_tz True None, Column ''created_at'' Timestamp_tz False None,
        Column ''revoked_at'' Timestamp_tz True None, Column ''description'' (Varchar 512) True None,
        Column ''requests_per_minute'' Int4 False None, Column ''events_per_minute'' Int4 False None]
       [Foreign_key ''fk_ingest_keys_tenant_id_tenants'' ''tenant_id'' ''tenants'' ''id'' ''CASCADE'',
        Primary_key ''pk_ingest_keys'' [''key_id'']]),
     Create_index ''ix_ingest_keys_tenant_id'' ''ingest_keys'' [''tenant_id''],
     Create_table (new_table ''ingest_rate_windows''
       [Column ''key_id'' (Varchar 32) False None, Column ''window_started_at'' Timestamp_tz False None,
        Column ''request_count'' Int4 False None, Column ''event_count'' Int4 False None]
       [Foreign_key ''fk_ingest_rate_windows_key_id_ingest_keys'' ''key_id'' ''ingest_keys'' ''key_id'' ''CASCADE'',
        Primary_key ''pk_ingest_rate_windows'' [''key_id'', ''window_started_at'']]),
     Create_table (new_table ''inbox_events''
       [Column ''id'' Bigint_variant False None, Column ''tenant_id'' (Varchar 64) False None,
        Column ''event_id'' (Varchar 128) False None, Column ''app_id'' (Varchar 256) False None,
        Column ''environment'' (Varchar 128) False None, Column ''schema_version'' (Varchar 32) False None,
        Column ''sdk_version'' (Varchar 64) False None, Column ''app_version'' (Varchar 128) True None,
        Column ''app_build'' (Varchar 128) True None, Column ''protocol'' (Varchar 64) False None,
        Column ''event_timestamp_ms'' Int8 False None, Column ''payload_json'' Json False None,
        Column ''payload_sha256'' (Varchar 64) False None, Column ''request_id'' (Varchar 64) False None,
        Column ''received_at'' Timestamp_tz False None, Column ''status'' (Varchar 32) False None,
        Column ''attempt_count'' Int4 False None, Column ''next_attempt_at'' Timestamp_tz False None,
        Column ''lease_owner'' (Varchar 128) True None, Column ''lease_expires_at'' Timestamp_tz True None,
        Column ''delivered_at'' Timestamp_tz True None, Column ''last_error_code'' (Varchar 128) True None,
        Column ''last_error_message'' Text_type True None]
       [Primary_key ''pk_inbox_events'' [''id''], Unique_key ''uq_inbox_tenant_event'' [''tenant_id'', ''event_id'']]),
     Create_index ''ix_inbox_claim'' ''inbox_events'' [''status'', ''next_attempt_at'', ''lease_expires_at''],
     Create_index ''ix_inbox_tenant_received'' ''inbox_events'' [''tenant_id'', ''received_at''],
     Create_table (new_table ''remote_config_versions''
       [Column ''id'' Bigint_variant False None, Column ''tenant_id'' (Varchar 64) False None,
        Column ''app_id'' (Varchar 256) False None, Column ''environment'' (Varchar 128) False None,
        Column ''revision'' Int4 False None, Column ''payload_json'' Json False None,
        Column ''issued_at'' Timestamp_tz False None, Column ''expires_at'' Timestamp_tz False None,
        Column ''rollout_basis_points'' Int4 False None, Column ''key_id'' (Varchar 128) False None,
        Column ''signature_b64'' (Varchar 256) False None, Column ''active'' Boolean False None,
        Column ''created_by'' (Varchar 256) False None, Column ''created_at'' Timestamp_tz False None]
       [Foreign_key ''fk_remote_config_versions_tenant_id_tenants'' ''tenant_id'' ''tenants'' ''id'' ''CASCADE'',
        Primary_key ''pk_remote_config_versions'' [''id''],
        Unique_key ''uq_remote_config_scope_revision'' [''tenant_id'', ''app_id'', ''environment'', ''revision'']]),
     Create_index ''ix_remote_config_active'' ''remote_config_versions''
      [''tenant_id'', ''app_id'', ''environment'', ''active'', ''revision''],
     Create_table (new_table ''audit_logs''
       [Column ''id'' Bigint_variant False None, Column ''tenant_id'' (Varchar 64) True None,
        Column ''actor'' (Varchar 256) False None, Column ''action'' (Varchar 128) False None,
        Column ''object_type'' (Varchar 128) False None, Column ''object_id'' (Varchar 256) True None,
        Column ''result'' (Varchar 32) False None, Column ''request_id'' (Varchar 64) True None,
        Column ''details_json'' Json False None, Column ''created_at'' Timestamp_tz False None]
       [Primary_key ''pk_audit_logs'' [''id'']]),
     Create_index ''ix_audit_tenant_created'' ''audit_logs'' [''tenant_id'', ''created_at'']]"

definition downgrade_0001 :: "ddl list" where
  "downgrade_0001 =
    [Drop_index ''ix_audit_tenant_created'' ''audit_logs'',
     Drop_table ''audit_logs'',
     Drop_index ''ix_remote_config_active'' ''remote_config_versions'',
     Drop_table ''remote_config_versions'',
     Drop_index ''ix_inbox_tenant_received'' ''inbox_events'',
     Drop_index ''ix_inbox_claim'' ''inbox_events'',
     Drop_table ''inbox_events'',
     Drop_table ''ingest_rate_windows'',
     Drop_index ''ix_ingest_keys_tenant_id'' ''ingest_keys'',
     Drop_table ''ingest_keys'',
     Drop_table ''tenants'']"

definition upgrade_0002 :: "ddl list" where
  "upgrade_0002 =
    [Add_column ''inbox_events'' (Column ''version_code'' (Varchar 64) True None),
     Add_column ''inbox_events'' (Column ''variant'' (Varchar 128) True None),
     Create_table (new_table ''ci_keys''
       [Column ''key_id'' (Varchar 32) False None, Column ''tenant_id'' (Varchar 64) False None,
        Column ''key_hash'' (Varchar 512) False None, Column ''app_id'' (Varchar 256) True None,
        Column ''scopes_json'' Json False None, Column ''active'' Boolean False None,
        Column ''expires_at'' Timestamp_tz True None, Column ''created_at'' Timestamp_tz False None,
        Column ''revoked_at'' Timestamp_tz True None, Column ''description'' (Varchar 512) True None]
       [Foreign_key ''fk_ci_keys_tenant_id_tenants'' ''tenant_id'' ''tenants'' ''id'' ''CASCADE'',
        Primary_key ''pk_ci_keys'' [''key_id'']]),
     Create_index ''ix_ci_keys_tenant_id'' ''ci_keys'' [''tenant_id''],
     Create_table (new_table ''symbol_artifacts''
       [Column ''id'' Bigint_variant False None, Column ''tenant_id'' (Varchar 64) False None,
        Column ''artifact_type'' (Varchar 32) False None, Column ''app_id'' (Varchar 256) False None,
        Column ''version_code'' (Varchar 64) False None, Column ''app_build'' (Varchar 128) False None,
        Column ''variant'' (Varchar 128) False None, Column ''abi'' (Varchar 32) False None,
        Column ''build_id'' (Varchar 128) False None, Column ''checksum_sha256'' (Varchar 64) False None,
        Column ''size_bytes'' Int8 False None, Column ''storage_key'' (Varchar 512) False None,
        Column ''status'' (Varchar 32) False None, Column ''uploaded_by'' (Varchar 64) False None,
        Column ''created_at'' Timestamp_tz False None]
       [Foreign_key ''fk_symbol_artifacts_tenant_id_tenants'' ''tenant_id'' ''tenants'' ''id'' ''CASCADE'',
        Primary_key ''pk_symbol_artifacts'' [''id''],
        Unique_key ''uq_symbol_artifacts_storage_key'' [''storage_key''],
        Unique_key ''uq_symbol_artifact_identity'' [''tenant_id'', ''artifact_type'', ''app_id'', ''version_code'', ''app_build'', ''variant'', ''abi'', ''build_id'']]),
     Create_index ''ix_symbol_artifact_lookup'' ''symbol_artifacts'' [''tenant_id'', ''artifact_type'', ''app_id''],
     Create_table (new_table ''symbolization_jobs''
       [Column ''id'' Bigint_variant False None, Column ''inbox_event_id'' Int8 False None,
        Column ''tenant_id'' (Varchar 64) False None, Column ''event_id'' (Varchar 128) False None,
        Column ''job_type'' (Varchar 32) False None, Column ''status'' (Varchar 32) False None,
        Column ''artifact_id'' Int8 True None, Column ''input_sha256'' (Varchar 64) False None,
        Column ''result_json'' Json True None, Column ''fingerprint_sha256'' (Varchar 64) True None,
        Column ''tool_name'' (Varchar 128) True None, Column ''tool_version'' (Varchar 128) True None,
        Column ''attempt_count'' Int4 False None, Column ''next_attempt_at'' Timestamp_tz False None,
        Column ''lease_owner'' (Varchar 128) True None, Column ''lease_expires_at'' Timestamp_tz True None,
        Column ''last_error_code'' (Varchar 128) True None, Column ''last_error_message'' Text_type True None,
        Column ''created_at'' Timestamp_tz False None, Column ''updated_at'' Timestamp_tz False None]
       [Foreign_key ''fk_symbolization_jobs_artifact_id_symbol_artifacts'' ''artifact_id'' ''symbol_artifacts'' ''id'' ''SET NULL'',
        Foreign_key ''fk_symbolization_jobs_inbox_event_id_inbox_events'' ''inbox_event_id'' ''inbox_events'' ''id'' ''CASCADE'',
        Primary_key ''pk_symbolization_jobs'' [''id''],
        Unique_key ''uq_symbolization_jobs_inbox_event_id'' [''inbox_event_id'']]),
     Create_index ''ix_symbol_job_claim'' ''symbolization_jobs'' [''status'', ''next_attempt_at'', ''lease_expires_at''],
     Create_index ''ix_symbol_job_tenant_event'' ''symbolization_jobs'' [''tenant_id'', ''event_id'']]"

definition downgrade_0002 :: "ddl list" where
  "downgrade_0002 =
    [Drop_index ''ix_symbol_job_tenant_event'' ''symbolization_jobs'',
     Drop_index ''ix_symbol_job_claim'' ''symbolization_jobs'',
     Drop_table ''symbolization_jobs'',
     Drop_index ''ix_symbol_artifact_lookup'' ''symbol_artifacts'',
     Drop_table ''symbol_artifacts'',
     Drop_index ''ix_ci_keys_tenant_id'' ''ci_keys'',
     Drop_table ''ci_keys'',
     Drop_column ''inbox_events'' ''variant'',
     Drop_column ''inbox_events'' ''version_code'']"

definition upgrade_0003 :: "ddl list" where
  "upgrade_0003 =
    [Add_column ''inbox_events'' (Column ''scope_identity_quality'' (Varchar 32) False (Some ''AUTHENTICATED'')),
     Add_column ''inbox_events'' (Column ''release_identity_quality'' (Varchar 32) False (Some ''ABSENT'')),
     Add_column ''inbox_events'' (Column ''installation_identity_quality'' (Varchar 32) False (Some ''ABSENT'')),
     Add_column ''inbox_events'' (Column ''installation_hmac'' (Varchar 64) True None),
     Add_column ''inbox_events'' (Column ''installation_hmac_key_version'' (Varchar 32) True None),
     Add_column ''inbox_events'' (Column ''occurrence_timestamp_ms'' Bigint_variant True None),
     Fill_column ''inbox_events'' ''occurrence_timestamp_ms'' ''event_timestamp_ms'',
     Alter_column ''inbox_events'' ''occurrence_timestamp_ms'' None (Some False),
     Add_column ''inbox_events'' (Column ''collection_timestamp_ms'' Bigint_variant True None),
     Add_column ''inbox_events'' (Column ''timestamp_quality'' (Varchar 32) False (Some ''EVENT_DECLARED'')),
     Add_column ''inbox_events'' (Column ''normalization_version'' Int4 False (Some ''1'')),
     Add_column ''inbox_events'' (Column ''normalized_json'' Json False (Some ([CHR 0x27] @ ''{}'' @ [CHR 0x27]))),
     Add_column ''inbox_events'' (Column ''incident_fingerprint'' (Varchar 64) True None),
     Add_column ''inbox_events'' (Column ''native_identity_json'' Json False (Some ([CHR 0x27] @ ''[]'' @ [CHR 0x27]))),
     Create_index ''ix_inbox_query_scope_time'' ''inbox_events''
      [''tenant_id'', ''app_id'', ''environment'', ''occurrence_timestamp_ms''],
     Create_index ''ix_inbox_query_release'' ''inbox_events''
      [''tenant_id'', ''app_id'', ''environment'', ''app_version'', ''release_identity_quality''],
     Create_index ''ix_inbox_incident_fingerprint'' ''inbox_events'' [''tenant_id'', ''incident_fingerprint''],
     Create_table (new_table ''query_keys''
       [Column ''key_id'' (Varchar 32) False None, Column ''tenant_id'' (Varchar 64) False None,
        Column ''key_hash'' (Varchar 512) False None, Column ''app_id'' (Varchar 256) False None,
        Column ''environment'' (Varchar 128) False None, Column ''role'' (Varchar 32) False None,
        Column ''active'' Boolean False None, Column ''expires_at'' Timestamp_tz True None,
        Column ''created_at'' Timestamp_tz False None, Column ''revoked_at'' Timestamp_tz True None,
        Column ''description'' (Varchar 512) True None]
       [Foreign_key ''fk_query_keys_tenant_id_tenants'' ''tenant_id'' ''tenants'' ''id'' ''CASCADE'',
        Primary_key ''pk_query_keys'' [''key_id'']]),
     Create_index ''ix_query_keys_tenant_id'' ''query_keys'' [''tenant_id''],
     Create_table (new_table ''release_decisions''
       [Column ''id'' Bigint_variant False None, Column ''tenant_id'' (Varchar 64) False None,
        Column ''app_id'' (Varchar 256) False None, Column ''environment'' (Varchar 128) False None,
        Column ''release_version'' (Varchar 128) False None, Column ''decision'' (Varchar 32) False None,
        Column ''actor'' (Varchar 256) False None, Column ''evidence_from_ms'' Bigint_variant False None,
        Column ''evidence_to_ms'' Bigint_variant False None, Column ''reason'' Text_type False None,
        Column ''evidence_json'' Json False None, Column ''created_at'' Timestamp_tz False None]
       [Primary_key ''pk_release_decisions'' [''id'']]),
     Create_index ''ix_release_decision_scope_created'' ''release_decisions''
      [''tenant_id'', ''app_id'', ''environment'', ''created_at'']]"

definition downgrade_0003 :: "ddl list" where
  "downgrade_0003 =
    [Drop_index ''ix_release_decision_scope_created'' ''release_decisions'',
     Drop_table ''release_decisions'',
     Drop_index ''ix_query_keys_tenant_id'' ''query_keys'',
     Drop_table ''query_keys'',
     Drop_index ''ix_inbox_incident_fingerprint'' ''inbox_events'',
     Drop_index ''ix_inbox_query_release'' ''inbox_events'',
     Drop_index ''ix_inbox_query_scope_time'' ''inbox_events'',
     Drop_column ''inbox_events'' ''native_identity_json'',
     Drop_column ''inbox_events'' ''incident_fingerprint'',
     Drop_column ''inbox_events'' ''normalized_json'',
     Drop_column ''inbox_events'' ''normalization_version'',
     Drop_column ''inbox_events'' ''timestamp_quality'',
     Drop_column ''inbox_events'' ''collection_timestamp_ms'',
     Drop_column ''inbox_events'' ''occurrence_timestamp_ms'',
     Drop_column ''inbox_events'' ''installation_hmac_key_version'',
     Drop_column ''inbox_events'' ''installation_hmac'',
     Drop_column ''inbox_events'' ''installation_identity_quality'',
     Drop_column ''inbox_events'' ''release_identity_quality'',
     Drop_column ''inbox_events'' ''scope_identity_quality'']"

definition upgrade_0004 :: "ddl list" where
  "upgrade_0004 =
    [Create_index ''ix_inbox_release_time'' ''inbox_events''
      [''tenant_id'', ''app_id'', ''environment'', ''app_version'', ''occurrence_timestamp_ms'', ''id''],
     Create_index ''ix_inbox_fingerprint_time'' ''inbox_events''
      [''tenant_id'', ''app_id'', ''environment'', ''incident_fingerprint'', ''occurrence_timestamp_ms'', ''id'']]"

definition downgrade_0004 :: "ddl list" where
  "downgrade_0004 =
    [Drop_index ''ix_inbox_fingerprint_time'' ''inbox_events'',
     Drop_index ''ix_inbox_release_time'' ''inbox_events'']"

definition upgrade_0005 :: "ddl list" where
  "upgrade_0005 =
    [Add_column ''inbox_events'' (Column ''payload_size_bytes'' Int8 False (Some ''0'')),
     Add_column ''inbox_events'' (Column ''raw_pruned_at'' Timestamp_tz True None),
     Add_column ''inbox_events'' (Column ''finalized_at'' Timestamp_tz True None),
     Rewrite_column ''inbox_events'' ''payload_size_bytes'',
     Create_index ''ix_inbox_retention'' ''inbox_events'' [''status'', ''raw_pruned_at'', ''finalized_at''],
     Create_index ''ix_ingest_rate_expiry'' ''ingest_rate_windows'' [''window_started_at'']]"

definition downgrade_0005 :: "ddl list" where
  "downgrade_0005 =
    [Drop_index ''ix_ingest_rate_expiry'' ''ingest_rate_windows'',
     Drop_index ''ix_inbox_retention'' ''inbox_events'',
     Drop_column ''inbox_events'' ''finalized_at'',
     Drop_column ''inbox_events'' ''raw_pruned_at'',
     Drop_column ''inbox_events'' ''payload_size_bytes'']"

definition IDENTITY_COLUMNS :: "(string \<times> string) list" where
  "IDENTITY_COLUMNS =
     [(''inbox_events'', ''app_version''), (''inbox_events'', ''app_build''), (''inbox_events'', ''variant''),
      (''symbol_artifacts'', ''app_build''), (''symbol_artifacts'', ''variant''),
      (''release_decisions'', ''release_version'')]"

definition upgrade_0006 :: "ddl list" where
  "upgrade_0006 =
    map (\<lambda>(t, c). Alter_column t c (Some (Varchar 256)) None) IDENTITY_COLUMNS"

definition downgrade_0006 :: "ddl list" where
  "downgrade_0006 =
    map (\<lambda>(t, c). Require_width t c 128) IDENTITY_COLUMNS @
    map (\<lambda>(t, c). Alter_column t c (Some (Varchar 128)) None) IDENTITY_COLUMNS"

definition upgrade_0007 :: "ddl list" where
  "upgrade_0007 =
    [Add_column ''inbox_events'' (Column ''raw_incident_fingerprint'' (Varchar 64) True None),
     Rewrite_column ''inbox_events'' ''raw_incident_fingerprint'',
     Rewrite_column ''inbox_events'' ''incident_fingerprint'',
     Create_index ''ix_inbox_raw_fingerprint_time'' ''inbox_events''
      [''tenant_id'', ''app_id'', ''environment'', ''raw_incident_fingerprint'', ''occurrence_timestamp_ms'']]"

definition downgrade_0007 :: "ddl list" where
  "downgrade_0007 =
    [Rewrite_column ''inbox_events'' ''incident_fingerprint'',
     Drop_index ''ix_inbox_raw_fingerprint_time'' ''inbox_events'',
     Drop_column ''inbox_events'' ''raw_incident_fingerprint'']"

definition MIGRATIONS :: "migration list" where
  "MIGRATIONS =
    [\<lparr>mi_revision = ''20260716_0001'', mi_down_revision = None,
       mi_upgrade = upgrade_0001, mi_downgrade = downgrade_0001\<rparr>,
     \<lparr>mi_revision = ''20260716_0002'', mi_down_revision = Some ''20260716_0001'',
       mi_upgrade = upgrade_0002, mi_downgrade = downgrade_0002\<rparr>,
     \<lparr>mi_revision = ''20260828_0003'', mi_down_revision = Some ''20260716_0002'',
       mi_upgrade = upgrade_0003, mi_downgrade = downgrade_0003\<rparr>,
     \<lparr>mi_revision = ''20260907_0004'', mi_down_revision = Some ''20260828_0003'',
       mi_upgrade = upgrade_0004, mi_downgrade = downgrade_0004\<rparr>,
     \<lparr>mi_revision = ''20260907_0005'', mi_down_revision = Some ''20260907_0004'',
       mi_upgrade = upgrade_0005, mi_downgrade = downgrade_0005\<rparr>,
     \<lparr>mi_revision = ''20260912_0006'', mi_down_revision = Some ''20260907_0005'',
       mi_upgrade = upgrade_0006, mi_downgrade = downgrade_0006\<rparr>,
     \<lparr>mi_revision = ''20260912_0007'', mi_down_revision = Some ''20260912_0006'',
       mi_upgrade = upgrade_0007, mi_downgrade = downgrade_0007\<rparr>]"


text \<open>The state after the first \<open>n\<close> migrations of an empty database.\<close>

definition schema_after :: "stored_lengths \<Rightarrow> nat \<Rightarrow> db_state option" where
  "schema_after longest n = run_script longest (concat (map mi_upgrade (take n MIGRATIONS))) ([], [])"

subsection \<open>The metadata of the model classes\<close>

definition tenant_table :: table where
  "tenant_table =
     \<lparr>tb_name = ''tenants'',
      tb_columns =
       [Column ''id'' (Varchar 64) False None, Column ''name'' (Varchar 256) False None,
        Column ''active'' Boolean False None, Column ''created_at'' Timestamp_tz False None,
        Column ''config_rollout_salt'' (Varchar 64) False None],
      tb_constraints =
       [Primary_key (pk_name ''tenants'') [''id'']],
      tb_indexes =
       []\<rparr>"

definition ingest_key_table :: table where
  "ingest_key_table =
     \<lparr>tb_name = ''ingest_keys'',
      tb_columns =
       [Column ''key_id'' (Varchar 32) False None, Column ''tenant_id'' (Varchar 64) False None,
        Column ''key_hash'' (Varchar 512) False None, Column ''app_id'' (Varchar 256) False None,
        Column ''environment'' (Varchar 128) False None, Column ''active'' Boolean False None,
        Column ''expires_at'' Timestamp_tz True None, Column ''created_at'' Timestamp_tz False None,
        Column ''revoked_at'' Timestamp_tz True None, Column ''description'' (Varchar 512) True None,
        Column ''requests_per_minute'' Int4 False None, Column ''events_per_minute'' Int4 False None],
      tb_constraints =
       [Primary_key (pk_name ''ingest_keys'') [''key_id''],
        Foreign_key (fk_name ''ingest_keys'' ''tenant_id'' ''tenants'') ''tenant_id'' ''tenants'' ''id'' ''CASCADE''],
      tb_indexes =
       [(ix_name ''ingest_keys'' ''tenant_id'', [''tenant_id''])]\<rparr>"

definition ci_key_table :: table where
  "ci_key_table =
     \<lparr>tb_name = ''ci_keys'',
      tb_columns =
       [Column ''key_id'' (Varchar 32) False None, Column ''tenant_id'' (Varchar 64) False None,
        Column ''key_hash'' (Varchar 512) False None, Column ''app_id'' (Varchar 256) True None,
        Column ''scopes_json'' Json False None, Column ''active'' Boolean False None,
        Column ''expires_at'' Timestamp_tz True None, Column ''created_at'' Timestamp_tz False None,
        Column ''revoked_at'' Timestamp_tz True None, Column ''description'' (Varchar 512) True None],
      tb_constraints =
       [Primary_key (pk_name ''ci_keys'') [''key_id''],
        Foreign_key (fk_name ''ci_keys'' ''tenant_id'' ''tenants'') ''tenant_id'' ''tenants'' ''id'' ''CASCADE''],
      tb_indexes =
       [(ix_name ''ci_keys'' ''tenant_id'', [''tenant_id''])]\<rparr>"

definition query_key_table :: table where
  "query_key_table =
     \<lparr>tb_name = ''query_keys'',
      tb_columns =
       [Column ''key_id'' (Varchar 32) False None, Column ''tenant_id'' (Varchar 64) False None,
        Column ''key_hash'' (Varchar 512) False None, Column ''app_id'' (Varchar 256) False None,
        Column ''environment'' (Varchar 128) False None, Column ''role'' (Varchar 32) False None,
        Column ''active'' Boolean False None, Column ''expires_at'' Timestamp_tz True None,
        Column ''created_at'' Timestamp_tz False None, Column ''revoked_at'' Timestamp_tz True None,
        Column ''description'' (Varchar 512) True None],
      tb_constraints =
       [Primary_key (pk_name ''query_keys'') [''key_id''],
        Foreign_key (fk_name ''query_keys'' ''tenant_id'' ''tenants'') ''tenant_id'' ''tenants'' ''id'' ''CASCADE''],
      tb_indexes =
       [(ix_name ''query_keys'' ''tenant_id'', [''tenant_id''])]\<rparr>"

definition inbox_event_table :: table where
  "inbox_event_table =
     \<lparr>tb_name = ''inbox_events'',
      tb_columns =
       [Column ''id'' Bigint_variant False None, Column ''tenant_id'' (Varchar 64) False None,
        Column ''event_id'' (Varchar 128) False None, Column ''app_id'' (Varchar 256) False None,
        Column ''environment'' (Varchar 128) False None, Column ''schema_version'' (Varchar 32) False None,
        Column ''sdk_version'' (Varchar 64) False None, Column ''app_version'' (Varchar 256) True None,
        Column ''app_build'' (Varchar 256) True None, Column ''version_code'' (Varchar 64) True None,
        Column ''variant'' (Varchar 256) True None, Column ''protocol'' (Varchar 64) False None,
        Column ''scope_identity_quality'' (Varchar 32) False None,
        Column ''release_identity_quality'' (Varchar 32) False None,
        Column ''installation_identity_quality'' (Varchar 32) False None,
        Column ''installation_hmac'' (Varchar 64) True None,
        Column ''installation_hmac_key_version'' (Varchar 32) True None,
        Column ''event_timestamp_ms'' Int8 False None,
        Column ''occurrence_timestamp_ms'' Bigint_variant False None,
        Column ''collection_timestamp_ms'' Bigint_variant True None,
        Column ''timestamp_quality'' (Varchar 32) False None, Column ''payload_json'' Json False None,
        Column ''payload_sha256'' (Varchar 64) False None, Column ''payload_size_bytes'' Int8 False None,
        Column ''raw_pruned_at'' Timestamp_tz True None, Column ''finalized_at'' Timestamp_tz True None,
        Column ''normalization_version'' Int4 False None, Column ''normalized_json'' Json False None,
        Column ''incident_fingerprint'' (Varchar 64) True None,
        Column ''raw_incident_fingerprint'' (Varchar 64) True None, Column ''native_identity_json'' Json False None,
        Column ''request_id'' (Varchar 64) False None, Column ''received_at'' Timestamp_tz False None,
        Column ''status'' (Varchar 32) False None, Column ''attempt_count'' Int4 False None,
        Column ''next_attempt_at'' Timestamp_tz False None, Column ''lease_owner'' (Varchar 128) True None,
        Column ''lease_expires_at'' Timestamp_tz True None, Column ''delivered_at'' Timestamp_tz True None,
        Column ''last_error_code'' (Varchar 128) True None, Column ''last_error_message'' Text_type True None],
      tb_constraints =
       [Primary_key (pk_name ''inbox_events'') [''id''],
        Unique_key ''uq_inbox_tenant_event'' [''tenant_id'', ''event_id'']],
      tb_indexes =
       [(''ix_inbox_claim'', [''status'', ''next_attempt_at'', ''lease_expires_at'']),
        (''ix_inbox_retention'', [''status'', ''raw_pruned_at'', ''finalized_at'']),
        (''ix_inbox_tenant_received'', [''tenant_id'', ''received_at'']),
        (''ix_inbox_query_scope_time'', [''tenant_id'', ''app_id'', ''environment'', ''occurrence_timestamp_ms'']),
        (''ix_inbox_query_release'', [''tenant_id'', ''app_id'', ''environment'', ''app_version'', ''release_identity_quality'']),
        (''ix_inbox_incident_fingerprint'', [''tenant_id'', ''incident_fingerprint'']),
        (''ix_inbox_raw_fingerprint_time'', [''tenant_id'', ''app_id'', ''environment'', ''raw_incident_fingerprint'', ''occurrence_timestamp_ms'']),
        (''ix_inbox_release_time'', [''tenant_id'', ''app_id'', ''environment'', ''app_version'', ''occurrence_timestamp_ms'', ''id'']),
        (''ix_inbox_fingerprint_time'', [''tenant_id'', ''app_id'', ''environment'', ''incident_fingerprint'', ''occurrence_timestamp_ms'', ''id''])]\<rparr>"

definition symbol_artifact_table :: table where
  "symbol_artifact_table =
     \<lparr>tb_name = ''symbol_artifacts'',
      tb_columns =
       [Column ''id'' Bigint_variant False None, Column ''tenant_id'' (Varchar 64) False None,
        Column ''artifact_type'' (Varchar 32) False None, Column ''app_id'' (Varchar 256) False None,
        Column ''version_code'' (Varchar 64) False None, Column ''app_build'' (Varchar 256) False None,
        Column ''variant'' (Varchar 256) False None, Column ''abi'' (Varchar 32) False None,
        Column ''build_id'' (Varchar 128) False None, Column ''checksum_sha256'' (Varchar 64) False None,
        Column ''size_bytes'' Int8 False None, Column ''storage_key'' (Varchar 512) False None,
        Column ''status'' (Varchar 32) False None, Column ''uploaded_by'' (Varchar 64) False None,
        Column ''created_at'' Timestamp_tz False None],
      tb_constraints =
       [Primary_key (pk_name ''symbol_artifacts'') [''id''],
        Foreign_key (fk_name ''symbol_artifacts'' ''tenant_id'' ''tenants'') ''tenant_id'' ''tenants'' ''id'' ''CASCADE'',
        Unique_key (uq_name ''symbol_artifacts'' ''storage_key'') [''storage_key''],
        Unique_key ''uq_symbol_artifact_identity'' [''tenant_id'', ''artifact_type'', ''app_id'', ''version_code'', ''app_build'', ''variant'', ''abi'', ''build_id'']],
      tb_indexes =
       [(''ix_symbol_artifact_lookup'', [''tenant_id'', ''artifact_type'', ''app_id''])]\<rparr>"

definition symbolization_job_table :: table where
  "symbolization_job_table =
     \<lparr>tb_name = ''symbolization_jobs'',
      tb_columns =
       [Column ''id'' Bigint_variant False None, Column ''inbox_event_id'' Int8 False None,
        Column ''tenant_id'' (Varchar 64) False None, Column ''event_id'' (Varchar 128) False None,
        Column ''job_type'' (Varchar 32) False None, Column ''status'' (Varchar 32) False None,
        Column ''artifact_id'' Int8 True None, Column ''input_sha256'' (Varchar 64) False None,
        Column ''result_json'' Json True None, Column ''fingerprint_sha256'' (Varchar 64) True None,
        Column ''tool_name'' (Varchar 128) True None, Column ''tool_version'' (Varchar 128) True None,
        Column ''attempt_count'' Int4 False None, Column ''next_attempt_at'' Timestamp_tz False None,
        Column ''lease_owner'' (Varchar 128) True None, Column ''lease_expires_at'' Timestamp_tz True None,
        Column ''last_error_code'' (Varchar 128) True None, Column ''last_error_message'' Text_type True None,
        Column ''created_at'' Timestamp_tz False None, Column ''updated_at'' Timestamp_tz False None],
      tb_constraints =
       [Primary_key (pk_name ''symbolization_jobs'') [''id''],
        Foreign_key (fk_name ''symbolization_jobs'' ''inbox_event_id'' ''inbox_events'') ''inbox_event_id'' ''inbox_events'' ''id'' ''CASCADE'',
        Foreign_key (fk_name ''symbolization_jobs'' ''artifact_id'' ''symbol_artifacts'') ''artifact_id'' ''symbol_artifacts'' ''id'' ''SET NULL'',
        Unique_key (uq_name ''symbolization_jobs'' ''inbox_event_id'') [''inbox_event_id'']],
      tb_indexes =
       [(''ix_symbol_job_claim'', [''status'', ''next_attempt_at'', ''lease_expires_at'']),
        (''ix_symbol_job_tenant_event'', [''tenant_id'', ''event_id''])]\<rparr>"

definition ingest_rate_window_table :: table where
  "ingest_rate_window_table =
     \<lparr>tb_name = ''ingest_rate_windows'',
      tb_columns =
       [Column ''key_id'' (Varchar 32) False None, Column ''window_started_at'' Timestamp_tz False None,
        Column ''request_count'' Int4 False None, Column ''event_count'' Int4 False None],
      tb_constraints =
       [Primary_key (pk_name ''ingest_rate_windows'') [''key_id'', ''window_started_at''],
        Foreign_key (fk_name ''ingest_rate_windows'' ''key_id'' ''ingest_keys'') ''key_id'' ''ingest_keys'' ''key_id'' ''CASCADE''],
      tb_indexes =
       [(''ix_ingest_rate_expiry'', [''window_started_at''])]\<rparr>"

definition remote_config_version_table :: table where
  "remote_config_version_table =
     \<lparr>tb_name = ''remote_config_versions'',
      tb_columns =
       [Column ''id'' Bigint_variant False None, Column ''tenant_id'' (Varchar 64) False None,
        Column ''app_id'' (Varchar 256) False None, Column ''environment'' (Varchar 128) False None,
        Column ''revision'' Int4 False None, Column ''payload_json'' Json False None,
        Column ''issued_at'' Timestamp_tz False None, Column ''expires_at'' Timestamp_tz False None,
        Column ''rollout_basis_points'' Int4 False None, Column ''key_id'' (Varchar 128) False None,
        Column ''signature_b64'' (Varchar 256) False None, Column ''active'' Boolean False None,
        Column ''created_by'' (Varchar 256) False None, Column ''created_at'' Timestamp_tz False None],
      tb_constraints =
       [Primary_key (pk_name ''remote_config_versions'') [''id''],
        Foreign_key (fk_name ''remote_config_versions'' ''tenant_id'' ''tenants'') ''tenant_id'' ''tenants'' ''id'' ''CASCADE'',
        Unique_key ''uq_remote_config_scope_revision'' [''tenant_id'', ''app_id'', ''environment'', ''revision'']],
      tb_indexes =
       [(''ix_remote_config_active'', [''tenant_id'', ''app_id'', ''environment'', ''active'', ''revision''])]\<rparr>"

definition audit_log_table :: table where
  "audit_log_table =
     \<lparr>tb_name = ''audit_logs'',
      tb_columns =
       [Column ''id'' Bigint_variant False None, Column ''tenant_id'' (Varchar 64) True None,
        Column ''actor'' (Varchar 256) False None, Column ''action'' (Varchar 128) False None,
        Column ''object_type'' (Varchar 128) False None, Column ''object_id'' (Varchar 256) True None,
        Column ''result'' (Varchar 32) False None, Column ''request_id'' (Varchar 64) True None,
        Column ''details_json'' Json False None, Column ''created_at'' Timestamp_tz False None],
      tb_constraints =
       [Primary_key (pk_name ''audit_logs'') [''id'']],
      tb_indexes =
       [(''ix_audit_tenant_created'', [''tenant_id'', ''created_at''])]\<rparr>"

definition release_decision_table :: table where
  "release_decision_table =
     \<lparr>tb_name = ''release_decisions'',
      tb_columns =
       [Column ''id'' Bigint_variant False None, Column ''tenant_id'' (Varchar 64) False None,
        Column ''app_id'' (Varchar 256) False None, Column ''environment'' (Varchar 128) False None,
        Column ''release_version'' (Varchar 256) False None, Column ''decision'' (Varchar 32) False None,
        Column ''actor'' (Varchar 256) False None, Column ''evidence_from_ms'' Bigint_variant False None,
        Column ''evidence_to_ms'' Bigint_variant False None, Column ''reason'' Text_type False None,
        Column ''evidence_json'' Json False None, Column ''created_at'' Timestamp_tz False None],
      tb_constraints =
       [Primary_key (pk_name ''release_decisions'') [''id'']],
      tb_indexes =
       [(''ix_release_decision_scope_created'', [''tenant_id'', ''app_id'', ''environment'', ''created_at''])]\<rparr>"

definition METADATA :: schema where
  "METADATA =
     [tenant_table, ingest_key_table, ci_key_table, query_key_table, inbox_event_table, symbol_artifact_table,
      symbolization_job_table, ingest_rate_window_table, remote_config_version_table, audit_log_table,
      release_decision_table]"

subsection \<open>Properties\<close>

text \<open>What \<open>alembic\<close> compares: everything but the order of columns and tables and the server defaults.\<close>

definition column_view :: "column \<Rightarrow> string \<times> sql_type \<times> bool" where
  "column_view c = (co_name c, co_type c, co_nullable c)"

definition table_view ::
    "table \<Rightarrow> string \<times> (string \<times> sql_type \<times> bool) set \<times> key_constraint set \<times> (string \<times> string list) set" where
  "table_view t = (tb_name t, set (map column_view (tb_columns t)), set (tb_constraints t), set (tb_indexes t))"

end
