(* ===== verification/Apm_Schema_History.thy ===== *)
theory Apm_Schema_History
  imports Apm_Schema
begin

section \<open>The history of the schema\<close>

text \<open>
  What the migrations of \<open>Apm_Schema\<close> guarantee. A schema is well formed when its names are unique and
  no key or index mentions a column or table that is not there; every statement keeps that. A script
  reverts another when it takes every well-formed schema the other produced back to where it came
  from; the scripts of the revisions are matched statement by statement against what undoes them, and
  the revision that widens the release identities by the types and the stored lengths of its columns.
\<close>

subsection \<open>Well-formed schemas\<close>

definition wf_table :: "string set \<Rightarrow> table \<Rightarrow> bool" where
  "wf_table names t \<longleftrightarrow>
     distinct (column_names t) \<and>
     (\<forall>k\<in>set (tb_constraints t). set (constraint_columns k) \<subseteq> set (column_names t) \<and> set_option (constraint_target k) \<subseteq> names) \<and>
     (\<forall>i\<in>set (tb_indexes t). set (snd i) \<subseteq> set (column_names t))"

definition index_names :: "table \<Rightarrow> string set" where
  "index_names t = fst ` set (tb_indexes t)"

definition wf_schema :: "schema \<Rightarrow> bool" where
  "wf_schema s \<longleftrightarrow>
     distinct (map tb_name s) \<and> (\<forall>t\<in>set s. wf_table (tb_name ` set s) t) \<and>
     (\<forall>t\<in>set s. \<forall>u\<in>set s. disjnt (index_names t) (index_names u) \<or> tb_name t = tb_name u)"

lemma find_table_None: "find_table n s = None \<longleftrightarrow> n \<notin> tb_name ` set s"
  by (auto simp: find_table_def find_None_iff)

lemma find_table_SomeD: "find_table n s = Some t \<Longrightarrow> t \<in> set s \<and> tb_name t = n"
  by (auto simp: find_table_def find_Some_iff)

lemma find_column_None: "find_column c t = None \<longleftrightarrow> c \<notin> set (column_names t)"
  by (auto simp: find_column_def find_None_iff column_names_def)

lemma find_table_only: "\<lbrakk>find_table n s = Some t; wf_schema s; u \<in> set s; tb_name u = n\<rbrakk> \<Longrightarrow> u = t"
  by (auto dest!: find_table_SomeD simp: wf_schema_def distinct_map inj_on_def)

text \<open>A change of one table that keeps its name and adds no index name that is in use.\<close>

lemma wf_change_table:
  assumes wf: "wf_schema s" and t: "find_table n s = Some t"
    and name: "\<And>t. tb_name (f t) = tb_name t"
    and tables: "wf_table (tb_name ` set s) t \<Longrightarrow> wf_table (tb_name ` set s) (f t)"
    and indexes: "index_names (f t) \<subseteq> index_names t \<union> {i. \<forall>u\<in>set s. i \<notin> index_names u}"
  shows "wf_schema (change_table n f s)"
proof -
  let ?g = "\<lambda>t. if tb_name t = n then f t else t"
  have names: "tb_name (?g t) = tb_name t" for t by (simp add: name)
  have all: "tb_name ` ?g ` set s = tb_name ` set s" "map (tb_name \<circ> ?g) s = map tb_name s"
    unfolding image_image comp_def names by simp_all
  have ts: "t \<in> set s" "tb_name t = n" using find_table_SomeD[OF t] by auto
  have other: "disjnt (index_names (f t)) (index_names u)" if "u \<in> set s" "tb_name u \<noteq> n" for u
    using wf ts that indexes unfolding wf_schema_def disjnt_def by blast
  have "disjnt (index_names (?g u)) (index_names (?g v)) \<or> tb_name (?g u) = tb_name (?g v)"
    if "u \<in> set s" "v \<in> set s" for u v
    using that wf other find_table_only[OF t wf] unfolding names
    by (cases "tb_name u = n"; cases "tb_name v = n") (simp_all add: wf_schema_def disjnt_sym)
  moreover have "wf_table (tb_name ` set s) (?g u)" if "u \<in> set s" for u
    using wf tables find_table_only[OF t wf that] that unfolding wf_schema_def by (cases "tb_name u = n") simp_all
  ultimately show ?thesis
    using wf unfolding wf_schema_def change_table_def set_map all map_map by blast
qed

lemma wf_create_table:
  assumes "run_ddl longest (Create_table t) (s, filled) = Some (s', filled')" "wf_schema s"
  shows "wf_schema s'"
proof -
  have t: "s' = s @ [t]" "find_table (tb_name t) s = None" "distinct (column_names t)" "tb_indexes t = []"
    and k: "\<And>k. k \<in> set (tb_constraints t) \<Longrightarrow>
      set (constraint_columns k) \<subseteq> set (column_names t) \<and> set_option (constraint_target k) \<subseteq> tb_name ` set s"
    using assms(1) by (auto simp: list_all_iff find_table_None split: if_splits option.splits)
  have "wf_table (insert (tb_name t) N) u" if "wf_table N u" for u N
    using that unfolding wf_table_def by blast
  moreover have "wf_table (tb_name ` set s) t"
    using t(3,4) k by (simp add: wf_table_def)
  ultimately show ?thesis
    using assms(2) t(1,2,4) by (simp add: wf_schema_def find_table_None index_names_def)
qed

lemma wf_drop_table:
  assumes "run_ddl longest (Drop_table n) (s, filled) = Some (s', filled')" "wf_schema s"
  shows "wf_schema s'"
proof -
  have s': "s' = filter (\<lambda>t. tb_name t \<noteq> n) s"
    and r: "\<And>t. t \<in> set s \<Longrightarrow> tb_name t \<noteq> n \<Longrightarrow> \<not> references n t"
    using assms(1) by (auto simp: list_ex_iff split: if_splits)
  have "wf_table (tb_name ` set s - {n}) t" if "t \<in> set s" "tb_name t \<noteq> n" for t
  proof -
    have "n \<notin> set_option (constraint_target k)" if "k \<in> set (tb_constraints t)" for k
      using r[OF \<open>t \<in> set s\<close> \<open>tb_name t \<noteq> n\<close>] that by (auto simp: references_def list_ex_iff)
    then show ?thesis
      using assms(2) that(1) unfolding wf_schema_def wf_table_def by blast
  qed
  moreover have "tb_name ` {t \<in> set s. tb_name t \<noteq> n} = tb_name ` set s - {n}"
    by auto
  ultimately show ?thesis
    using assms(2) unfolding s' by (simp add: wf_schema_def distinct_map_filter)
qed

lemma wf_add_column:
  assumes "run_ddl longest (Add_column n c) (s, filled) = Some (s', filled')" "wf_schema s"
  shows "wf_schema s'"
proof -
  let ?f = "\<lambda>t. t\<lparr>tb_columns := tb_columns t @ [c]\<rparr>"
  obtain t where t: "find_table n s = Some t" "find_column (co_name c) t = None"
      "s' = change_table n ?f s"
    using assms(1) by (auto split: option.splits if_splits)
  show ?thesis
    unfolding t(3)
  proof (rule wf_change_table[OF assms(2) t(1)])
    show "wf_table N t \<Longrightarrow> wf_table N (?f t)" for N
      using t(2) by (auto simp: wf_table_def column_names_def find_column_None)
    show "index_names (?f t) \<subseteq> index_names t \<union> {j. \<forall>u\<in>set s. j \<notin> index_names u}"
      by (auto simp: index_names_def change_column_def)
  qed simp
qed

lemma wf_drop_column:
  assumes "run_ddl longest (Drop_column n c) (s, filled) = Some (s', filled')" "wf_schema s"
  shows "wf_schema s'"
proof -
  let ?f = "\<lambda>t. t\<lparr>tb_columns := filter (\<lambda>d. co_name d \<noteq> c) (tb_columns t)\<rparr>"
  obtain t where t: "find_table n s = Some t" "\<not> uses_column c t" "s' = change_table n ?f s"
    using assms(1) by (auto split: option.splits if_splits)
  have names: "set (column_names (?f t)) = set (column_names t) - {c}"
    by (auto simp: column_names_def)
  show ?thesis
    unfolding t(3)
  proof (rule wf_change_table[OF assms(2) t(1)])
    show "wf_table N t \<Longrightarrow> wf_table N (?f t)" for N
      using t(2) unfolding wf_table_def names
      by (auto simp: uses_column_def list_ex_iff column_names_def distinct_map_filter)
    show "index_names (?f t) \<subseteq> index_names t \<union> {j. \<forall>u\<in>set s. j \<notin> index_names u}"
      by (auto simp: index_names_def change_column_def)
  qed simp
qed

lemma wf_alter_column:
  assumes "run_ddl longest (Alter_column n c ty nullable) (s, filled) = Some (s', filled')" "wf_schema s"
  shows "wf_schema s'"
proof -
  let ?f = "change_column c (altered ty nullable)"
  obtain t where t: "find_table n s = Some t" "s' = change_table n ?f s"
    using assms(1) by (auto split: option.splits if_splits bind_splits)
  show ?thesis
    unfolding t(2)
  proof (rule wf_change_table[OF assms(2) t(1)])
    show "wf_table N t \<Longrightarrow> wf_table N (?f t)" for N
      by (simp add: wf_table_def column_names_def change_column_def altered_def comp_def if_distrib cong: if_cong)
    show "index_names (?f t) \<subseteq> index_names t \<union> {j. \<forall>u\<in>set s. j \<notin> index_names u}"
      by (auto simp: index_names_def change_column_def)
  qed (simp add: change_column_def)
qed

lemma wf_create_index:
  assumes "run_ddl longest (Create_index i n cs) (s, filled) = Some (s', filled')" "wf_schema s"
  shows "wf_schema s'"
proof -
  let ?f = "\<lambda>t. t\<lparr>tb_indexes := tb_indexes t @ [(i, cs)]\<rparr>"
  obtain t where t: "find_table n s = Some t" "set cs \<subseteq> set (column_names t)"
      "\<And>u. u \<in> set s \<Longrightarrow> i \<notin> index_names u" "s' = change_table n ?f s"
    using assms(1) by (auto simp: list_all_iff list_ex_iff index_names_def split: option.splits if_splits)
  show ?thesis
    unfolding t(4)
  proof (rule wf_change_table[OF assms(2) t(1)])
    show "wf_table N t \<Longrightarrow> wf_table N (?f t)" for N
      using t(2) by (auto simp: wf_table_def column_names_def)
    show "index_names (?f t) \<subseteq> index_names t \<union> {j. \<forall>u\<in>set s. j \<notin> index_names u}"
      using t(3) by (auto simp: index_names_def change_column_def)
  qed simp
qed

lemma wf_drop_index:
  assumes "run_ddl longest (Drop_index i n) (s, filled) = Some (s', filled')" "wf_schema s"
  shows "wf_schema s'"
proof -
  let ?f = "\<lambda>t. t\<lparr>tb_indexes := filter (\<lambda>x. fst x \<noteq> i) (tb_indexes t)\<rparr>"
  obtain t where t: "find_table n s = Some t" "s' = change_table n ?f s"
    using assms(1) by (auto split: option.splits if_splits)
  show ?thesis
    unfolding t(2)
  proof (rule wf_change_table[OF assms(2) t(1)])
    show "wf_table N t \<Longrightarrow> wf_table N (?f t)" for N
      by (auto simp: wf_table_def column_names_def)
    show "index_names (?f t) \<subseteq> index_names t \<union> {j. \<forall>u\<in>set s. j \<notin> index_names u}"
      by (auto simp: index_names_def change_column_def)
  qed simp
qed

lemmas wf_statements = wf_create_table wf_drop_table wf_add_column wf_drop_column wf_alter_column wf_create_index wf_drop_index

lemma run_ddl_keeps_wf: "\<lbrakk>run_ddl longest d (s, filled) = Some (s', filled'); wf_schema s\<rbrakk> \<Longrightarrow> wf_schema s'"
  by (cases d; (hypsubst, erule wf_statements, assumption | force split: option.splits if_splits))

lemma run_script_keeps_wf: "run_script longest ds st = Some st' \<Longrightarrow> wf_schema (fst st) \<Longrightarrow> wf_schema (fst st')"
proof (induction ds arbitrary: st)
  case (Cons d ds)
  then show ?case
    by (cases st) (fastforce split: bind_splits dest: run_ddl_keeps_wf)
qed simp


subsection \<open>Scripts that revert scripts\<close>

lemma run_script_append:
  "run_script longest (ds @ es) st = Option.bind (run_script longest ds st) (run_script longest es)"
  by (induction ds arbitrary: st) (simp_all add: bind_assoc cong: Option.bind_cong)

lemma find_change_table:
  "(\<And>t. tb_name (f t) = tb_name t) \<Longrightarrow> find_table n (change_table n f s) = map_option f (find_table n s)"
  by (induction s) (auto simp: find_table_def change_table_def)

lemma change_table_undo:
  assumes "wf_schema s" "find_table n s = Some t" "\<And>t. tb_name (f t) = tb_name t" "g (f t) = t"
  shows "change_table n g (change_table n f s) = s"
  using assms find_table_only[OF assms(2,1)] by (auto simp: change_table_def comp_def intro!: map_idI)

definition reverts :: "stored_lengths \<Rightarrow> ddl list \<Rightarrow> ddl list \<Rightarrow> bool" where
  "reverts longest us ds \<longleftrightarrow>
     (\<forall>s filled s' filled' g. wf_schema s \<longrightarrow> run_script longest us (s, filled) = Some (s', filled') \<longrightarrow>
        (\<exists>g'. run_script longest ds (s', g) = Some (s, g')))"

lemma reverts_Nil: "reverts longest [] []"
  by (simp add: reverts_def)

lemma reverts_append:
  assumes "reverts longest us ds" "reverts longest vs es"
  shows "reverts longest (us @ vs) (es @ ds)"
  unfolding reverts_def
proof (intro allI impI)
  fix s filled s' filled' g
  assume wf: "wf_schema s" and run: "run_script longest (us @ vs) (s, filled) = Some (s', filled')"
  obtain t f where t: "run_script longest us (s, filled) = Some (t, f)" "run_script longest vs (t, f) = Some (s', filled')"
    using run by (auto simp: run_script_append split: bind_splits)
  have "wf_schema t" using run_script_keeps_wf[OF t(1)] wf by simp
  then obtain h where "run_script longest es (s', g) = Some (t, h)"
    using assms(2) t(2) unfolding reverts_def by blast
  moreover obtain h' where "run_script longest ds (t, h) = Some (s, h')"
    using assms(1) t(1) wf unfolding reverts_def by blast
  ultimately show "\<exists>g'. run_script longest (es @ ds) (s', g) = Some (s, g')"
    by (simp add: run_script_append)
qed

lemma reverts_create_table: "reverts longest [Create_table t] [Drop_table (tb_name t)]"
proof -
  have "find_table (tb_name t) (s @ [t]) \<noteq> None" for s by (simp add: find_table_None)
  moreover have "filter (\<lambda>u. tb_name u \<noteq> tb_name t) s = s" if "find_table (tb_name t) s = None" for s
    using that by (auto simp: find_table_None filter_id_conv image_iff)
  moreover have "\<not> list_ex (\<lambda>u. tb_name u \<noteq> tb_name t \<and> references (tb_name t) u) (s @ [t])"
    if "wf_schema s" "find_table (tb_name t) s = None" for s
    using that by (fastforce simp: wf_schema_def wf_table_def references_def list_ex_iff find_table_None)
  ultimately show ?thesis
    unfolding reverts_def by (auto split: if_splits)
qed

lemma drop_added_column:
  assumes wf: "wf_schema s" and t: "find_table n s = Some t" "find_column (co_name c) t = None"
    and f: "\<And>t. tb_name (f t) = tb_name t" "f t = t\<lparr>tb_columns := tb_columns t @ [c]\<rparr>"
  shows "run_script longest [Drop_column n (co_name c)] (change_table n f s, g) = Some (s, g)"
proof -
  let ?g = "\<lambda>t. t\<lparr>tb_columns := filter (\<lambda>d. co_name d \<noteq> co_name c) (tb_columns t)\<rparr>"
  have "find_table n (change_table n f s) = Some (f t)" using t(1) f(1) by (subst find_change_table) simp_all
  moreover have "find_column (co_name c) (f t) \<noteq> None" by (simp add: f(2) find_column_None column_names_def)
  moreover have "\<not> uses_column (co_name c) (f t)"
    using wf t(2) find_table_SomeD[OF t(1)] unfolding f(2)
    by (fastforce simp: wf_schema_def wf_table_def uses_column_def list_ex_iff find_column_None)
  moreover have "?g (f t) = t"
    using t(2) unfolding f(2) by (cases t) (auto simp: find_column_None column_names_def filter_id_conv image_iff)
  then have "change_table n ?g (change_table n f s) = s"
    using f(1) by (intro change_table_undo[OF wf t(1)]) simp_all
  ultimately show ?thesis by simp
qed

lemma reverts_add_column: "reverts longest [Add_column n c] [Drop_column n (co_name c)]"
  unfolding reverts_def
proof (intro allI impI)
  fix s filled s' filled' g
  assume wf: "wf_schema s" and run: "run_script longest [Add_column n c] (s, filled) = Some (s', filled')"
  obtain t where t: "find_table n s = Some t" "find_column (co_name c) t = None"
      "s' = change_table n (\<lambda>t. t\<lparr>tb_columns := tb_columns t @ [c]\<rparr>) s"
    using run by (auto split: option.splits if_splits)
  show "\<exists>g'. run_script longest [Drop_column n (co_name c)] (s', g) = Some (s, g')"
    unfolding t(3) by (rule exI, rule drop_added_column[OF wf t(1,2)]) simp_all
qed

lemma reverts_create_index: "reverts longest [Create_index i n cs] [Drop_index i n]"
  unfolding reverts_def
proof (intro allI impI)
  fix s filled s' filled' g
  assume wf: "wf_schema s" and run: "run_script longest [Create_index i n cs] (s, filled) = Some (s', filled')"
  let ?f = "\<lambda>t. t\<lparr>tb_indexes := tb_indexes t @ [(i, cs)]\<rparr>"
  let ?g = "\<lambda>t. t\<lparr>tb_indexes := filter (\<lambda>x. fst x \<noteq> i) (tb_indexes t)\<rparr>"
  obtain t where t: "find_table n s = Some t" "i \<notin> fst ` set (tb_indexes t)" "s' = change_table n ?f s"
    using run by (auto simp: list_ex_iff dest: find_table_SomeD split: option.splits if_splits)
  have "find_table n s' = Some (?f t)" unfolding t(3) using t(1) by (subst find_change_table) simp_all
  moreover have "?g (?f t) = t"
    using t(2) by (cases t) (auto simp: filter_id_conv image_iff)
  then have "change_table n ?g s' = s"
    unfolding t(3) by (intro change_table_undo[OF wf t(1)]) simp_all
  ultimately show "\<exists>g'. run_script longest [Drop_index i n] (s', g) = Some (s, g')"
    by simp
qed

lemma reverts_rewrite: "reverts longest [Rewrite_column n c] []"
  by (auto simp: reverts_def split: if_splits)

text \<open>A rewrite that the downgrade repeats before it drops the index created after it.\<close>

lemma reverts_rewrite_index:
  "reverts longest [Rewrite_column m c, Create_index i n cs] [Rewrite_column m c, Drop_index i n]"
  unfolding reverts_def
proof (intro allI impI)
  fix s filled s' filled' g
  let ?f = "\<lambda>t. t\<lparr>tb_indexes := tb_indexes t @ [(i, cs)]\<rparr>"
  assume wf: "wf_schema s"
    and run: "run_script longest [Rewrite_column m c, Create_index i n cs] (s, filled) = Some (s', filled')"
  then have c: "Option.bind (find_table m s) (find_column c) \<noteq> None" "s' = change_table n ?f s"
    and one: "run_script longest [Create_index i n cs] (s, filled) = Some (s', filled')"
    by (auto split: if_splits option.splits)
  have "find_table m s' = map_option (\<lambda>t. if m = n then ?f t else t) (find_table m s)"
    unfolding c(2) by (induction s) (auto simp: find_table_def change_table_def)
  then have "Option.bind (find_table m s') (find_column c) \<noteq> None"
    using c(1) by (auto simp: find_column_def split: bind_splits)
  moreover obtain g' where "run_script longest [Drop_index i n] (s', g) = Some (s, g')"
    using reverts_create_index wf one unfolding reverts_def by blast
  ultimately show "\<exists>g'. run_script longest [Rewrite_column m c, Drop_index i n] (s', g) = Some (s, g')"
    by simp
qed

text \<open>A column that is added, filled and then made mandatory is undone by dropping it.\<close>

lemma reverts_filled_column:
  "reverts longest [Add_column n c, Fill_column n (co_name c) d, Alter_column n (co_name c) None (Some b)]
     [Drop_column n (co_name c)]"
  unfolding reverts_def
proof (intro allI impI)
  fix s filled s' filled' g
  let ?us = "[Add_column n c, Fill_column n (co_name c) d, Alter_column n (co_name c) None (Some b)]"
  let ?f = "\<lambda>t. t\<lparr>tb_columns := tb_columns t @ [c]\<rparr>"
  let ?h = "change_column (co_name c) (altered None (Some b))"
  let ?c = "altered None (Some b) c"
  assume wf: "wf_schema s" and run: "run_script longest ?us (s, filled) = Some (s', filled')"
  obtain t where t: "find_table n s = Some t" "find_column (co_name c) t = None"
      "s' = change_table n ?h (change_table n ?f s)"
    using run by (auto split: option.splits if_splits bind_splits)
  have both: "s' = change_table n (\<lambda>t. ?h (?f t)) s"
    unfolding t(3) by (auto simp: change_table_def)
  have "map (\<lambda>d. if co_name d = co_name c then altered None (Some b) d else d) (tb_columns t) = tb_columns t"
    using t(2) by (intro map_idI) (auto simp: find_column_None column_names_def image_iff)
  then have "?h (?f t) = t\<lparr>tb_columns := tb_columns t @ [?c]\<rparr>"
    by (simp add: change_column_def)
  then have "run_script longest [Drop_column n (co_name ?c)] (s', g) = Some (s, g)"
    using t(2) unfolding both
    by (intro drop_added_column[OF wf t(1)]) (simp_all add: change_column_def altered_def)
  then show "\<exists>g'. run_script longest [Drop_column n (co_name c)] (s', g) = Some (s, g')"
    by (simp add: altered_def)
qed

text \<open>The statement that undoes a statement of an upgrade, and scripts made of such statements.\<close>

fun undo :: "ddl \<Rightarrow> ddl list option" where
  "undo (Create_table t) = Some [Drop_table (tb_name t)]"
| "undo (Add_column n c) = Some [Drop_column n (co_name c)]"
| "undo (Create_index i n cs) = Some [Drop_index i n]"
| "undo (Rewrite_column n c) = Some []"
| "undo _ = None"

lemma undo_reverts: "undo u = Some ds \<Longrightarrow> reverts longest [u] ds"
  by (cases u) (auto intro: reverts_create_table reverts_add_column reverts_create_index reverts_rewrite)

fun undo_script :: "ddl list \<Rightarrow> ddl list option" where
  "undo_script [] = Some []"
| "undo_script (u # us) =
     Option.bind (undo_script us) (\<lambda>es. map_option (\<lambda>ds. es @ ds) (undo u))"

lemma undo_script_reverts: "undo_script us = Some ds \<Longrightarrow> reverts longest us ds"
proof (induction us arbitrary: ds)
  case (Cons u us)
  then obtain es fs where "undo_script us = Some es" "undo u = Some fs" "ds = es @ fs"
    by (auto split: bind_splits)
  then show ?case
    using reverts_append[of longest "[u]" fs us es] undo_reverts Cons.IH by simp
qed (simp add: reverts_Nil)

lemma scripts_undone:
  "undo_script upgrade_0001 = Some downgrade_0001"
  "undo_script upgrade_0002 = Some downgrade_0002"
  "undo_script upgrade_0004 = Some downgrade_0004"
  "undo_script upgrade_0005 = Some downgrade_0005"
  by (simp_all add: upgrade_0001_def downgrade_0001_def upgrade_0002_def downgrade_0002_def
      upgrade_0004_def downgrade_0004_def upgrade_0005_def downgrade_0005_def new_table_def)

lemma reverts_0003: "reverts longest upgrade_0003 downgrade_0003"
proof -
  let ?seg = "take 3 (drop 5 upgrade_0003)"
  have u: "upgrade_0003 = (take 5 upgrade_0003 @ ?seg) @ drop 8 upgrade_0003"
    by (simp add: upgrade_0003_def)
  have d: "downgrade_0003 = take 13 downgrade_0003 @ [downgrade_0003 ! 13] @ drop 14 downgrade_0003"
    by (simp add: downgrade_0003_def)
  have "reverts longest (take 5 upgrade_0003) (drop 14 downgrade_0003)"
    by (rule undo_script_reverts) (simp add: upgrade_0003_def downgrade_0003_def)
  moreover have "reverts longest ?seg [downgrade_0003 ! 13]"
    using reverts_filled_column[of longest "''inbox_events''" "Column ''occurrence_timestamp_ms'' Bigint_variant True None"]
    by (simp add: upgrade_0003_def downgrade_0003_def)
  moreover have "reverts longest (drop 8 upgrade_0003) (take 13 downgrade_0003)"
    by (rule undo_script_reverts) (simp add: upgrade_0003_def downgrade_0003_def new_table_def)
  ultimately show ?thesis
    by (subst u, subst d) (intro reverts_append)
qed

lemma reverts_0007: "reverts longest upgrade_0007 downgrade_0007"
proof -
  have "reverts longest (take 2 upgrade_0007) (drop 2 downgrade_0007)"
    by (rule undo_script_reverts) (simp add: upgrade_0007_def downgrade_0007_def)
  moreover have "reverts longest (drop 2 upgrade_0007) (take 2 downgrade_0007)"
    unfolding upgrade_0007_def downgrade_0007_def by (simp add: reverts_rewrite_index)
  ultimately show ?thesis
    using reverts_append by (metis append_take_drop_id)
qed


subsection \<open>The width of the release identities\<close>

definition set_type :: "sql_type \<Rightarrow> (string \<times> string) set \<Rightarrow> table \<Rightarrow> table" where
  "set_type ty cols t =
     t\<lparr>tb_columns := map (\<lambda>c. if (tb_name t, co_name c) \<in> cols then altered (Some ty) None c else c) (tb_columns t)\<rparr>"

definition has_column :: "schema \<Rightarrow> string \<times> string \<Rightarrow> bool" where
  "has_column s p \<longleftrightarrow> (\<exists>t\<in>set s. tb_name t = fst p \<and> snd p \<in> set (column_names t))"

lemma set_type_simps [simp]: "tb_name (set_type ty cols t) = tb_name t" "column_names (set_type ty cols t) = column_names t"
  by (auto simp: set_type_def column_names_def altered_def)

lemma has_column_set_type [simp]: "has_column (map (set_type ty cols) s) p = has_column s p"
  by (simp add: has_column_def)

lemma set_type_insert: "set_type ty (insert p cols) t = set_type ty cols (set_type ty {p} t)"
  by (cases p) (auto simp: set_type_def altered_def)

lemma change_column_set_type:
  "change_table n (change_column c (altered (Some ty) None)) s = map (set_type ty {(n, c)}) s"
  by (auto simp: change_table_def change_column_def set_type_def)

lemma find_iff_has_column:
  "wf_schema s \<Longrightarrow> Option.bind (find_table n s) (find_column c) = None \<longleftrightarrow> \<not> has_column s (n, c)"
  by (auto simp: has_column_def find_table_None find_column_None dest: find_table_SomeD find_table_only split: bind_splits)

lemma wf_map_set_type: "wf_schema s \<Longrightarrow> wf_schema (map (set_type ty cols) s)"
proof -
  have t: "wf_table N (set_type ty cols t) = wf_table N t" "index_names (set_type ty cols t) = index_names t" for N t
    unfolding wf_table_def index_names_def set_type_simps by (simp_all add: set_type_def)
  have n: "tb_name \<circ> set_type ty cols = tb_name" by auto
  show "wf_schema s \<Longrightarrow> wf_schema (map (set_type ty cols) s)"
    by (simp add: wf_schema_def t n image_image)
qed

lemma run_set_types:
  assumes "wf_schema s"
  shows "run_script longest (map (\<lambda>(n, c). Alter_column n c (Some ty) None) cols) (s, filled) =
    (if list_all (has_column s) cols then Some (map (set_type ty (set cols)) s, filled) else None)"
  using assms
proof (induction cols arbitrary: s)
  case Nil
  have "map (set_type ty {}) s = s" by (rule map_idI) (simp add: set_type_def)
  then show ?case by simp
next
  case (Cons p cols)
  obtain n c where p: "p = (n, c)" by fastforce
  have "run_ddl longest (Alter_column n c (Some ty) None) (s, filled) =
    (if has_column s p then Some (map (set_type ty {p}) s, filled) else None)"
    using find_iff_has_column[OF Cons.prems, of n c]
    by (auto simp: p change_column_set_type split: option.splits)
  then show ?case
    using Cons.IH[OF wf_map_set_type[OF Cons.prems]] by (simp add: p set_type_insert[of ty _ "set cols"] comp_def)
qed

lemma run_guards:
  assumes "wf_schema s"
  shows "run_script longest (map (\<lambda>(n, c). Require_width n c w) cols) (s, filled) =
    (if list_all (\<lambda>(n, c). has_column s (n, c) \<and> longest n c \<le> w) cols then Some (s, filled) else None)"
  by (induction cols) (simp_all add: find_iff_has_column[OF assms] case_prod_beta)

definition narrow_table :: "table \<Rightarrow> bool" where
  "narrow_table t \<longleftrightarrow>
     list_all (\<lambda>c. (tb_name t, co_name c) \<in> set IDENTITY_COLUMNS \<longrightarrow> co_type c = Varchar 128) (tb_columns t)"

lemma narrow_after_widen:
  assumes "list_all narrow_table s"
  shows "map (set_type (Varchar 128) (set IDENTITY_COLUMNS)) (map (set_type (Varchar 256) (set IDENTITY_COLUMNS)) s) = s"
proof -
  have "set_type (Varchar 128) (set IDENTITY_COLUMNS) (set_type (Varchar 256) (set IDENTITY_COLUMNS) t) = t"
    if "t \<in> set s" for t
  proof -
    have "altered (Some (Varchar 128)) None (altered (Some (Varchar 256)) None c) = c"
      if "c \<in> set (tb_columns t)" "(tb_name t, co_name c) \<in> set IDENTITY_COLUMNS" for c
    proof -
      have "co_type c = Varchar 128"
        using assms that \<open>t \<in> set s\<close> unfolding narrow_table_def list_all_iff by blast
      then show ?thesis by (cases c) (simp add: altered_def)
    qed
    then have "tb_columns (set_type (Varchar 128) (set IDENTITY_COLUMNS) (set_type (Varchar 256) (set IDENTITY_COLUMNS) t)) = tb_columns t"
      by (auto simp: set_type_def altered_def intro!: map_idI)
    then show ?thesis by (simp add: set_type_def)
  qed
  then show ?thesis by (simp add: comp_def map_idI)
qed

lemma downgrade_0006_spec:
  assumes "wf_schema s" "list_all narrow_table s" "run_script longest upgrade_0006 (s, filled) = Some (s', filled')"
  shows "run_script longest downgrade_0006 (s', filled') =
    (if list_all (\<lambda>(n, c). longest n c \<le> 128) IDENTITY_COLUMNS then Some (s, filled) else None)"
proof -
  have s': "s' = map (set_type (Varchar 256) (set IDENTITY_COLUMNS)) s" "filled' = filled"
    and has: "list_all (has_column s) IDENTITY_COLUMNS"
    using assms(3) unfolding upgrade_0006_def run_set_types[OF assms(1)] by (auto split: if_splits)
  have wf: "wf_schema s'" unfolding s' by (rule wf_map_set_type[OF assms(1)])
  have has': "list_all (has_column s') IDENTITY_COLUMNS" using has by (simp add: s' list_all_iff)
  have "list_all (\<lambda>(n, c). has_column s' (n, c) \<and> longest n c \<le> 128) IDENTITY_COLUMNS =
      list_all (\<lambda>(n, c). longest n c \<le> 128) IDENTITY_COLUMNS"
    using has' by (auto simp: list_all_iff)
  then show ?thesis
    unfolding downgrade_0006_def run_script_append run_guards[OF wf]
    using has' narrow_after_widen[OF assms(2)] run_set_types[OF wf, of longest "Varchar 128" IDENTITY_COLUMNS filled]
    unfolding s' by simp
qed


fun keeps_narrow :: "ddl \<Rightarrow> bool" where
  "keeps_narrow (Create_table t) = narrow_table t"
| "keeps_narrow (Add_column n c) = ((n, co_name c) \<in> set IDENTITY_COLUMNS \<longrightarrow> co_type c = Varchar 128)"
| "keeps_narrow (Alter_column n c ty nullable) = (ty = None)"
| "keeps_narrow _ = True"

lemma narrow_change_table:
  "\<lbrakk>list_all narrow_table s; \<And>t. tb_name t = n \<Longrightarrow> narrow_table t \<Longrightarrow> narrow_table (f t)\<rbrakk> \<Longrightarrow> list_all narrow_table (change_table n f s)"
  by (auto simp: change_table_def list_all_iff)

lemma run_ddl_narrow:
  assumes "run_ddl longest d (s, filled) = Some (s', filled')" "keeps_narrow d" "list_all narrow_table s"
  shows "list_all narrow_table s'"
proof (cases d)
  case (Alter_column n c ty nullable)
  have "narrow_table t \<Longrightarrow> narrow_table (change_column c (altered None nullable) t)" for t
    by (auto simp: narrow_table_def change_column_def altered_def list_all_iff)
  then show ?thesis
    using assms Alter_column by (auto intro!: narrow_change_table split: option.splits if_splits)
qed (use assms in \<open>auto simp: narrow_table_def list_all_iff change_table_def split: option.splits if_splits\<close>)

lemma run_script_narrow:
  "\<lbrakk>run_script longest ds st = Some st'; list_all keeps_narrow ds; list_all narrow_table (fst st)\<rbrakk> \<Longrightarrow> list_all narrow_table (fst st')"
proof (induction ds arbitrary: st)
  case (Cons d ds)
  then show ?case
    by (cases st) (fastforce split: bind_splits dest: run_ddl_narrow)
qed simp

lemma earlier_scripts_narrow: "list_all keeps_narrow (concat (map mi_upgrade (take 5 MIGRATIONS)))"
  by code_simp

subsection \<open>The whole history\<close>

lemma schema_after_Suc:
  "n < length MIGRATIONS \<Longrightarrow>
   schema_after longest (Suc n) = Option.bind (schema_after longest n) (run_script longest (mi_upgrade (MIGRATIONS ! n)))"
  by (simp add: schema_after_def take_Suc_conv_app_nth run_script_append)

lemma schema_after_wf: "schema_after longest n = Some (s, filled) \<Longrightarrow> wf_schema s"
  using run_script_keeps_wf[of longest _ "([], [])" "(s, filled)"] by (simp add: schema_after_def wf_schema_def)

lemma history_reaches_models:
  "case schema_after longest (length MIGRATIONS) of
     None \<Rightarrow> False | Some st \<Rightarrow> set (map table_view (fst st)) = set (map table_view METADATA)"
  by code_simp

lemma schema_after_defined: "n \<le> length MIGRATIONS \<Longrightarrow> \<exists>s filled. schema_after longest n = Some (s, filled)"
proof (induction rule: inc_induct)
  case base
  then show ?case using history_reaches_models[of longest] by (auto split: option.splits)
next
  case (step n)
  then show ?case using schema_after_Suc[of n longest] by (cases "schema_after longest n") auto
qed

lemma reverts_others:
  assumes "m \<in> set MIGRATIONS" "mi_revision m \<noteq> ''20260912_0006''"
  shows "reverts longest (mi_upgrade m) (mi_downgrade m)"
  using assms scripts_undone[THEN undo_script_reverts, of longest] reverts_0003 reverts_0007
  by (auto simp: MIGRATIONS_def)

text \<open>
  C29. On an empty database the seven revisions run in the order of their links without a failure,
  whatever the tables hold in between, and build exactly the tables of the model classes: the same
  columns with their types and nullability, the same keys and the same indexes, in a consistent schema.
\<close>

theorem migrations_build_the_models:
  "\<exists>s filled. schema_after longest (length MIGRATIONS) = Some (s, filled) \<and> wf_schema s \<and>
     set (map table_view s) = set (map table_view METADATA) \<and>
     map mi_down_revision MIGRATIONS = None # map Some (butlast (map mi_revision MIGRATIONS))"
proof -
  obtain s filled where s: "schema_after longest (length MIGRATIONS) = Some (s, filled)"
    using schema_after_defined by blast
  moreover have "map mi_down_revision MIGRATIONS = None # map Some (butlast (map mi_revision MIGRATIONS))"
    by (simp add: MIGRATIONS_def)
  ultimately show ?thesis
    using history_reaches_models[of longest] schema_after_wf[OF s] by auto
qed

text \<open>
  C30. Every revision can be taken back: its downgrade restores the schema the database had before its
  upgrade. The one exception is deliberate: where a stored release identity is longer than the narrow
  columns, the downgrade of revision 0006 fails and changes nothing.
\<close>

theorem migrations_are_reversible:
  assumes n: "n < length MIGRATIONS"
  shows "\<exists>st. schema_after longest (Suc n) = Some st \<and>
    map_option fst (run_script longest (mi_downgrade (MIGRATIONS ! n)) st) =
      (if mi_revision (MIGRATIONS ! n) = ''20260912_0006'' \<and> \<not> list_all (\<lambda>(t, c). longest t c \<le> 128) IDENTITY_COLUMNS
       then None else map_option fst (schema_after longest n))"
proof -
  let ?m = "MIGRATIONS ! n"
  obtain s filled s' filled' where
    at: "schema_after longest n = Some (s, filled)" "schema_after longest (Suc n) = Some (s', filled')"
    using schema_after_defined n by (metis Suc_leI less_imp_le)
  then have run: "run_script longest (mi_upgrade ?m) (s, filled) = Some (s', filled')"
    using schema_after_Suc[OF n, of longest] by simp
  note wf = schema_after_wf[OF at(1)]
  show ?thesis
  proof (cases "mi_revision ?m = ''20260912_0006''")
    case True
    then have five: "n = 5" using n by (auto simp: MIGRATIONS_def nth_Cons' split: if_splits)
    then have m: "mi_upgrade ?m = upgrade_0006" "mi_downgrade ?m = downgrade_0006"
      by (simp_all add: MIGRATIONS_def)
    have "list_all narrow_table s"
      using run_script_narrow[OF _ earlier_scripts_narrow, of longest "([], [])" "(s, filled)"] at(1)
      by (simp add: schema_after_def five)
    then show ?thesis
      using downgrade_0006_spec[OF wf _ run[unfolded m]] at True by (simp add: m)
  next
    case False
    then show ?thesis
      using reverts_others[of ?m longest] n run wf at unfolding reverts_def by fastforce
  qed
qed

theorem migrations_are_reversible_witness:
  "\<exists>st. schema_after (\<lambda>_ _. 200) 6 = Some st \<and> run_script (\<lambda>_ _. 200) downgrade_0006 st = None"
  using migrations_are_reversible[of 5 "\<lambda>_ _. 200"] by (simp add: MIGRATIONS_def IDENTITY_COLUMNS_def)

end
