(* ===== verification/Apm_Schema_Rows.thy ===== *)
theory Apm_Schema_Rows
  imports Apm_Schema Apm_Ingest_Api
begin

section \<open>Accepted rows and the width of their columns\<close>

text \<open>
  PostgreSQL refuses a row with a text longer than its column or a number outside its range, and the
  server has no handler for that. This theory connects the limits the gateway enforces on headers,
  envelopes, events and key versions with the columns of the table the migrations build: a row that
  the handler inserts always fits. A width counts code points; the limits of the gateway count bytes.
\<close>

definition varchar_width :: "table \<Rightarrow> string \<Rightarrow> nat option" where
  "varchar_width t c =
     (case find_column c t of
        None \<Rightarrow> None
      | Some d \<Rightarrow> (case co_type d of Varchar w \<Rightarrow> Some w | _ \<Rightarrow> None))"

definition fits :: "table \<Rightarrow> string \<times> string option \<Rightarrow> bool" where
  "fits t cell \<longleftrightarrow>
     (case (varchar_width t (fst cell), snd cell) of (Some w, Some v) \<Rightarrow> cp_len v \<le> w | _ \<Rightarrow> True)"

text \<open>The texts an inbox row holds, by column.\<close>

definition inbox_texts :: "inbox_event \<Rightarrow> (string \<times> string option) list" where
  "inbox_texts r =
     [(''tenant_id'', Some (ie_tenant_id r)), (''event_id'', Some (ie_event_id r)), (''app_id'', Some (ie_app_id r)),
      (''environment'', Some (ie_environment r)), (''schema_version'', Some (ie_schema_version r)),
      (''sdk_version'', Some (ie_sdk_version r)), (''app_version'', ie_app_version r), (''app_build'', ie_app_build r),
      (''version_code'', ie_version_code r), (''variant'', ie_variant r), (''protocol'', Some (ie_protocol r)),
      (''scope_identity_quality'', Some (quality_value (ie_scope_identity_quality r))),
      (''release_identity_quality'', Some (quality_value (ie_release_identity_quality r))),
      (''installation_identity_quality'', Some (quality_value (ie_installation_identity_quality r))),
      (''installation_hmac'', ie_installation_hmac r),
      (''installation_hmac_key_version'', ie_installation_hmac_key_version r),
      (''timestamp_quality'', Some (ie_timestamp_quality r)), (''payload_sha256'', Some (ie_payload_sha256 r)),
      (''incident_fingerprint'', ie_incident_fingerprint r), (''raw_incident_fingerprint'', ie_raw_incident_fingerprint r),
      (''request_id'', Some (ie_request_id r)), (''status'', Some (inbox_status_text (ie_status r))),
      (''lease_owner'', ie_lease_owner r), (''last_error_code'', ie_last_error_code r)]"

definition int8_range :: "int set" where
  "int8_range = {- (2 ^ 63) .. 2 ^ 63 - 1}"

definition inbox_row_fits :: "inbox_event \<Rightarrow> bool" where
  "inbox_row_fits r \<longleftrightarrow>
     list_all (fits inbox_event_table) (inbox_texts r) \<and>
     ie_event_timestamp_ms r \<in> int8_range \<and> ie_occurrence_timestamp_ms r \<in> int8_range \<and>
     set_option (ie_collection_timestamp_ms r) \<subseteq> int8_range"

text \<open>No bounded text column is left out.\<close>

lemma inbox_texts_complete:
  "map fst (inbox_texts r) = map co_name (filter (\<lambda>c. varchar_width inbox_event_table (co_name c) \<noteq> None) (tb_columns inbox_event_table))"
proof -
  have "map co_name (filter (\<lambda>c. varchar_width inbox_event_table (co_name c) \<noteq> None) (tb_columns inbox_event_table)) =
    [''tenant_id'', ''event_id'', ''app_id'', ''environment'', ''schema_version'', ''sdk_version'', ''app_version'',
     ''app_build'', ''version_code'', ''variant'', ''protocol'', ''scope_identity_quality'', ''release_identity_quality'',
     ''installation_identity_quality'', ''installation_hmac'', ''installation_hmac_key_version'', ''timestamp_quality'',
     ''payload_sha256'', ''incident_fingerprint'', ''raw_incident_fingerprint'', ''request_id'', ''status'',
     ''lease_owner'', ''last_error_code'']"
    by code_simp
  then show ?thesis by (simp add: inbox_texts_def)
qed

lemma inbox_widths:
  "map (varchar_width inbox_event_table)
     [''tenant_id'', ''event_id'', ''app_id'', ''environment'', ''schema_version'', ''sdk_version'', ''app_version'',
      ''app_build'', ''version_code'', ''variant'', ''protocol'', ''scope_identity_quality'', ''release_identity_quality'',
      ''installation_identity_quality'', ''installation_hmac'', ''installation_hmac_key_version'', ''timestamp_quality'',
      ''payload_sha256'', ''incident_fingerprint'', ''raw_incident_fingerprint'', ''request_id'', ''status'',
      ''lease_owner'', ''last_error_code''] =
   map Some [64, 128, 256, 128, 32, 64, 256, 256, 64, 256, 64, 32, 32, 32, 64, 32, 32, 64, 64, 64, 64, 32, 128, 128]"
  by code_simp

lemma quality_value_short: "cp_len (quality_value q) \<le> 32"
  by (rule order_trans[OF cp_len_le]) (cases q; simp)

lemma fixed_texts_short: "cp_len (inbox_status_text s) \<le> 32" "cp_len ''EVENT_DECLARED'' \<le> 32"
  by (rule order_trans[OF cp_len_le], cases s; simp) (rule order_trans[OF cp_len_le], simp)

subsection \<open>What the gateway bounds\<close>

lemma required_header_length: "required_header rq h m = Inr v \<Longrightarrow> length v \<le> m"
  by (auto simp: required_header_def validate_header_value_def split: option.splits if_splits)

lemma optional_header_length: "optional_header rq h m = Inr (Some v) \<Longrightarrow> length v \<le> m"
  by (auto simp: optional_header_def validate_header_value_def split: option.splits if_splits)

lemma negotiated_lengths:
  assumes "negotiate_request st rq = Inr n"
  shows "length (ng_app_id n) \<le> 256" "length (ng_environment n) \<le> 128" "length (ng_schema_version n) \<le> 32"
    "length (ng_sdk_version n) \<le> 64" "length (protocol_label n) \<le> 64"
proof -
  show "length (ng_app_id n) \<le> 256" "length (ng_environment n) \<le> 128" "length (ng_schema_version n) \<le> 32"
    "length (ng_sdk_version n) \<le> 64"
    using assms by (auto simp: negotiate_request_def Let_def dest!: required_header_length)
  show "length (protocol_label n) \<le> 64"
    using negotiate_requestD(2)[OF assms] by (auto simp: protocol_label_def consts_simps)
qed

lemma line_occurrence: "decode_line rt now line idx = Inr e \<Longrightarrow> ev_occurrence e = None"
  by (auto simp: decode_line_def Let_def dest!: mk_event_fields(10) split: if_splits option.splits)

lemma lines_occurrence: "\<lbrakk>decode_lines rt now ls idx = Inr es; e \<in> set es\<rbrakk> \<Longrightarrow> ev_occurrence e = None"
  by (induction rt now ls idx arbitrary: es rule: decode_lines.induct) (auto dest: line_occurrence split: if_splits)

lemma frame_occurrence: "frame_event rt now parse B body e \<Longrightarrow> ev_occurrence e = None"
  by (auto simp: frame_event_def protobuf_to_event_def message_args_def dest!: mk_event_fields(10) split: option.splits)

lemma batch_occurrence:
  assumes "decode_batch rt now parse payload ct max_events B = Inr events" "e \<in> set events"
  shows "ev_occurrence e = None"
proof -
  consider (line) "decode_lines rt now (splitlines payload) 0 = Inr events"
    | (frames) "decode_frames rt now parse max_events B payload [] = Inr events"
    using assms(1) by (auto simp: decode_batch_def decode_line_batch_def decode_protobuf_batch_def Let_def split: if_splits)
  then show ?thesis
  proof cases
    case line
    then show ?thesis using lines_occurrence assms(2) by blast
  next
    case frames
    from decode_frames_sound [OF frames] assms(2) show ?thesis
      by (auto simp: list_all2_conv_all_nth in_set_conv_nth dest: frame_occurrence)
  qed
qed

definition bounded_event :: "runtime \<Rightarrow> time \<Rightarrow> apm_event \<Rightarrow> bool" where
  "bounded_event rt now e \<longleftrightarrow>
     valid_event rt now e \<and> (\<forall>c. ev_occurrence e = Some c \<longrightarrow> valid_occurrence c)"

lemma decoded_request_bounds:
  assumes "decode_request env st rq n payload = Inr dr"
  shows "list_all (bounded_event (ge_runtime env) (ge_now env)) (dr_events dr)"
    and "\<And>v. dr_app_version dr = Some v \<Longrightarrow> length v \<le> 256"
proof -
  let ?rt = "ge_runtime env" and ?now = "ge_now env"
  consider (v2) d where "decode_envelope_v2 ?rt ?now (ge_parse_v2 env) payload (gs_max_batch_events st) = Inr d"
      "dr_events dr = de2_events d" "dr_app_version dr = Some (de2_service_version d)"
    | (v3) d where "decode_envelope_v3 ?rt ?now (ge_parse_v3 env) payload (gs_max_batch_events st) = Inr d"
      "dr_events dr = de3_events d" "optional_header rq HEADER_APP_VERSION MAX_IDENTIFIER_BYTES = Inr (dr_app_version dr)"
    | (v1) "decode_batch ?rt ?now (ge_parse_event env) payload (ng_content_type n) (gs_max_batch_events st) MAX_EVENT_JSON_BYTES = Inr (dr_events dr)"
      "optional_header rq HEADER_APP_VERSION MAX_IDENTIFIER_BYTES = Inr (dr_app_version dr)"
    using assms
    by (auto simp: decode_request_def decode_v1_request_def decode_v2_request_def decode_v3_request_def split: if_splits)
  then have "list_all (bounded_event ?rt ?now) (dr_events dr) \<and> (\<forall>v. dr_app_version dr = Some v \<longrightarrow> length v \<le> 256)"
  proof cases
    case (v2 d)
    have "length (de2_service_version d) \<le> 256"
      using v2(1) by (auto simp: decode_envelope_v2_def Let_def require_bounded_def consts_simps split: option.splits)
    moreover obtain rv ms where "list_all2 (\<lambda>m e. \<exists>i. v2_to_event ?rt ?now rv m i = Inr e) ms (de2_events d)"
      by (rule decode_envelope_v2D[OF v2(1)])
    then have "list_all (bounded_event ?rt ?now) (de2_events d)"
      by (induction rule: list_all2_induct) (auto simp: bounded_event_def dest: v2_to_eventD)
    ultimately show ?thesis using v2(2,3) by simp
  next
    case (v3 d)
    obtain rv ms where "list_all2 (\<lambda>m e. \<exists>i. v3_to_event ?rt ?now rv m i = Inr e) ms (de3_events d)"
      by (rule decode_envelope_v3D[OF v3(1)])
    then have "list_all (bounded_event ?rt ?now) (de3_events d)"
      by (induction rule: list_all2_induct) (auto simp: bounded_event_def dest: v3_to_eventD)
    then show ?thesis using v3(2,3) by (auto simp: consts_simps dest!: optional_header_length)
  next
    case v1
    have "list_all (bounded_event ?rt ?now) (dr_events dr)"
      using decode_batch_ok[OF v1(1)] batch_occurrence[OF v1(1)] by (simp add: list_all_iff bounded_event_def)
    then show ?thesis using v1(2) by (auto simp: consts_simps dest!: optional_header_length)
  qed
  then show "list_all (bounded_event ?rt ?now) (dr_events dr)" "\<And>v. dr_app_version dr = Some v \<Longrightarrow> length v \<le> 256"
    by blast+
qed

subsection \<open>Prepared rows\<close>

definition shorter :: "nat \<Rightarrow> string option \<Rightarrow> bool" where
  "shorter w v \<longleftrightarrow> (case v of None \<Rightarrow> True | Some s \<Rightarrow> cp_len s \<le> w)"

lemma shorter_simps [simp]: "shorter w None" "shorter w (Some s) \<longleftrightarrow> cp_len s \<le> w"
  by (simp_all add: shorter_def)

lemma shorterI: "(\<And>s. v = Some s \<Longrightarrow> length s \<le> w) \<Longrightarrow> shorter w v"
  by (cases v) (auto intro: order_trans[OF cp_len_le])

definition metadata_fits :: "ingest_metadata \<Rightarrow> bool" where
  "metadata_fits md \<longleftrightarrow>
     cp_len (md_tenant_id md) \<le> 64 \<and> cp_len (md_app_id md) \<le> 256 \<and> cp_len (md_environment md) \<le> 128 \<and>
     cp_len (md_schema_version md) \<le> 32 \<and> cp_len (md_sdk_version md) \<le> 64 \<and> cp_len (md_protocol md) \<le> 64 \<and>
     cp_len (md_request_id md) \<le> 64 \<and> shorter 256 (md_app_version md) \<and> shorter 256 (md_app_build md) \<and>
     shorter 64 (md_version_code md) \<and> shorter 256 (md_variant md)"

text \<open>The lengths of the hexadecimal digests.\<close>

definition hex_digests :: "runtime \<Rightarrow> bool" where
  "hex_digests rt \<longleftrightarrow>
     (\<forall>x. length (rt_sha256_hex rt x) = 64) \<and> (\<forall>k x. length (rt_hmac_sha256_hex rt k x) = 64)"

lemma release_fits:
  assumes "metadata_fits md" "bounded_event rt now e" "[a, b, c, d] = event_release md e"
  shows "shorter 256 a" "shorter 256 b" "shorter 64 c" "shorter 256 d"
proof -
  have "shorter 256 a \<and> shorter 256 b \<and> shorter 64 c \<and> shorter 256 d"
  proof (cases "ev_occurrence e")
    case None
    then show ?thesis using assms(1,3) by (simp add: event_release_def metadata_fits_def)
  next
    case (Some x)
    then have "valid_occurrence x" using assms(2) by (simp add: bounded_event_def)
    then show ?thesis using assms(3) Some
      by (auto simp: event_release_def valid_occurrence_def trimmed_bounded_def canonical_version_code_def consts_simps
          intro: order_trans[OF cp_len_le])
  qed
  then show "shorter 256 a" "shorter 256 b" "shorter 64 c" "shorter 256 d" by simp_all
qed

lemma digest_fits:
  assumes "installation_digest rt keys t plaintext = Inr (h, v)" "wf_keys keys" "hex_digests rt"
  shows "shorter 64 h" "shorter 32 v"
proof -
  have "shorter 64 h \<and> shorter 32 v"
  proof (cases "plaintext = None")
    case False
    then obtain ring d where r: "keys = Some ring" "digest rt ring t (the plaintext) None = Inr d"
        "h = Some d" "v = Some (kr_active_version ring)"
      using assms(1) by (auto simp: installation_digest_def split: option.splits sum.splits)
    have "valid_ring ring" using assms(2) r(1) by (simp add: wf_keys_def)
    then have "cp_len (kr_active_version ring) \<le> 32"
      by (auto simp: valid_ring_def list_all_iff dest!: map_of_SomeD)
    moreover have "length d = 64"
      using r(2) assms(3) by (auto simp: digest_def Let_def hex_digests_def split: option.splits)
    ultimately show ?thesis using r(3,4) cp_len_le[of d] by simp
  qed (use assms(1) in \<open>simp add: installation_digest_def\<close>)
  then show "shorter 64 h" "shorter 32 v" by simp_all
qed

lemma fingerprint_fits: "hex_digests rt \<Longrightarrow> shorter 64 (incident_fingerprint rt e)"
  by (rule shorterI) (auto simp: incident_fingerprint_def Let_def hex_digests_def split: if_splits)

lemma timestamps_fit:
  assumes "valid_event rt now e" "ev_timestamp e' = ev_timestamp e"
  shows "ev_timestamp e \<in> int8_range" "nr_occurrence_timestamp_ms (normalize_event rt e') \<in> int8_range"
    "nr_collection_timestamp_ms (normalize_event rt e') \<in> int8_range"
proof -
  have t: "0 < ev_timestamp e" "ev_timestamp e div 1000 \<le> 253402300799"
    using assms(1) by (simp_all add: valid_event_def consts_simps)
  then have small: "ev_timestamp e < 253402300800000" by linarith
  then show "ev_timestamp e \<in> int8_range" using t by (simp add: int8_range_def)
  then show "nr_collection_timestamp_ms (normalize_event rt e') \<in> int8_range"
    using assms(2) by (simp add: normalize_event_def Let_def)
  show "nr_occurrence_timestamp_ms (normalize_event rt e') \<in> int8_range"
    using occurrence_time_bounds[OF refl, of e' rt] t small assms(2)
    by (simp add: normalize_event_def Let_def int8_range_def consts_simps)
qed

lemma fits_inbox:
  "list_all (fits inbox_event_table) (inbox_texts r) \<longleftrightarrow>
     list_all (\<lambda>(w, v). shorter w v)
       (zip [64, 128, 256, 128, 32, 64, 256, 256, 64, 256, 64, 32, 32, 32, 64, 32, 32, 64, 64, 64, 64, 32, 128, 128]
            (map snd (inbox_texts r)))"
proof -
  have f: "fits inbox_event_table (c, v) \<longleftrightarrow> shorter w v" if "varchar_width inbox_event_table c = Some w" for c v w
    using that by (simp add: fits_def shorter_def split: option.splits)
  show ?thesis
    using inbox_widths unfolding list.map list.inject
    by (simp add: inbox_texts_def f)
qed

lemma prepared_row_fits:
  assumes "hashed_event rt md keys e i = Inr p" "bounded_event rt now e" "metadata_fits md" "wf_keys keys" "hex_digests rt"
  shows "inbox_row_fits (to_row rt md now p)"
proof -
  obtain q where q: "prepare_event rt md keys e = Inr q"
    and p: "p = q\<lparr>pe_payload_hash := rt_sha256_hex rt (canonical_json rt (JObj (pe_payload q)))\<rparr>"
    by (rule hashed_eventD[OF assms(1)])
  note D = prepare_eventD[OF q]
  have ts: "ev_timestamp (pe_event q) = ev_timestamp e" "ev_event_id (pe_event q) = ev_event_id e"
    by (simp_all add: D(2) safe_event_of_def)
  have valid: "valid_event rt now e" using assms(2) by (simp add: bounded_event_def)
  note release = release_fits[OF assms(3,2) D(6)]
  note digest = digest_fits[OF D(9) assms(4,5)]
  have id: "cp_len (ev_event_id e) \<le> 128"
    using valid cp_len_le[of "ev_event_id e"] by (simp add: valid_event_def consts_simps)
  have hash: "cp_len (rt_sha256_hex rt x) \<le> 64" for x
    using cp_len_le[of "rt_sha256_hex rt x"] assms(5) by (simp add: hex_digests_def)
  have print: "shorter 64 (nr_incident_fingerprint (pe_normalization q))"
    using fingerprint_fits[OF assms(5)] by (simp add: D(3) normalize_event_def Let_def)
  have texts: "list_all (fits inbox_event_table) (inbox_texts (to_row rt md now p))"
    using assms(3) unfolding fits_inbox metadata_fits_def
    by (simp add: inbox_texts_def to_row_def p ts release digest id hash print quality_value_short fixed_texts_short
        del: inbox_status_text.simps quality_value.simps)
  show ?thesis
    unfolding inbox_row_fits_def
    using texts timestamps_fit[OF valid, of "safe_event_of e (sanitized_payload md e) (payload_frames (occurrence_payload (sanitized_payload md e)))"]
    by (simp add: to_row_def p D(2,3) safe_event_of_def)
qed

subsection \<open>The handler\<close>

lemma status_fits: "inbox_row_fits r \<Longrightarrow> inbox_row_fits (r\<lparr>ie_status := x\<rparr>)"
  unfolding inbox_row_fits_def fits_inbox
  by (simp add: inbox_texts_def fixed_texts_short del: inbox_status_text.simps)

lemma enqueue_fits:
  assumes "enqueue_symbolization_jobs rt d enabled now md events inbox jobs = Inr (inbox', jobs', n)"
    and "list_all inbox_row_fits inbox"
  shows "list_all inbox_row_fits inbox'"
proof -
  have "inbox' = inbox \<or> (\<exists>ids. inbox' = await_symbols ids inbox)"
    using assms(1) by (auto simp: enqueue_symbolization_jobs_def Let_def split: if_splits dialect.splits prod.splits)
  then show ?thesis
    using assms(2) status_fits by (auto simp: await_symbols_def sql_update_def list_all_iff)
qed

lemma insert_batch_fits:
  assumes "insert_batch rt d now md events keys seen tbl = Inr (tbl', res)"
    and "list_all inbox_row_fits tbl" "list_all (bounded_event rt now) events" "metadata_fits md" "wf_keys keys" "hex_digests rt"
  shows "list_all inbox_row_fits tbl'"
proof -
  obtain prepared new where ok: "prepared_ok rt md keys events prepared" and t: "tbl' = tbl @ new"
    and new: "\<And>n. n \<in> set new \<Longrightarrow> \<exists>i p k. (i, p) \<in> set prepared \<and> n = (to_row rt md now p)\<lparr>ie_id := k\<rparr>"
    by (rule insert_batchD[OF assms(1)]) blast
  have "inbox_row_fits n" if n: "n \<in> set new" for n
  proof -
    obtain i p k where p: "(i, p) \<in> set prepared" "n = (to_row rt md now p)\<lparr>ie_id := k\<rparr>" using new[OF n] by blast
    obtain e where e: "e \<in> set events" "hashed_event rt md keys e 0 = Inr p" by (rule prepared_entry[OF ok p(1)])
    have "inbox_row_fits (to_row rt md now p)"
      using prepared_row_fits[OF e(2) _ assms(4,5,6)] assms(3) e(1) by (simp add: list_all_iff)
    then show ?thesis by (simp add: p(2) inbox_row_fits_def inbox_texts_def)
  qed
  then show ?thesis using assms(2) t by (auto simp: list_all_iff)
qed

lemma request_metadata_fits:
  assumes "request_metadata rq p app_id environment schema_version sdk_version protocol dr = Inr md"
    and "length app_id \<le> 256" "length environment \<le> 128" "length schema_version \<le> 32" "length sdk_version \<le> 64"
    and "length protocol \<le> 64" "\<And>v. dr_app_version dr = Some v \<Longrightarrow> length v \<le> 256"
    and "cp_len (pr_tenant_id p) \<le> 64" "cp_len (rq_request_id rq) \<le> 64"
  shows "metadata_fits md"
proof -
  obtain app_build version_code variant where
    h: "optional_header rq HEADER_APP_BUILD MAX_IDENTIFIER_BYTES = Inr app_build"
      "optional_header rq HEADER_VERSION_CODE 64 = Inr version_code"
      "optional_header rq HEADER_VARIANT MAX_IDENTIFIER_BYTES = Inr variant"
    and md: "md_request_id md = rq_request_id rq" "md_tenant_id md = pr_tenant_id p" "md_app_id md = app_id"
      "md_environment md = environment" "md_schema_version md = schema_version" "md_sdk_version md = sdk_version"
      "md_app_version md = dr_app_version dr" "md_app_build md = app_build" "md_version_code md = version_code"
      "md_variant md = variant" "md_protocol md = protocol"
    using assms(1) by (auto simp: request_metadata_def)
  have "shorter 256 (dr_app_version dr)" "shorter 256 app_build" "shorter 64 version_code" "shorter 256 variant"
    using assms(7) h by (auto simp: consts_simps intro!: shorterI dest!: optional_header_length)
  then show ?thesis
    unfolding metadata_fits_def md using assms(2-6,8,9) by (auto intro: order_trans[OF cp_len_le])
qed

text \<open>
  C13. The database never refuses an accepted row for its size. When the tables hold rows that fit their
  columns and the digests have the length of their hash functions, every row that the handler inserts
  fits too: each of its texts has at most as many characters as the column the migrations declare for
  it, whatever the headers, the envelope and the events contained, and its timestamps are in range.
\<close>

theorem accepted_rows_fit_the_schema:
  assumes "ingest_events env st rq seen g = (g', Inr response)"
    and "list_all inbox_row_fits (mt_inbox (gw_tables g))"
    and "\<forall>t \<in> set (ge_tenants env). fits tenant_table (''id'', Some (tn_id t))"
    and "fits inbox_event_table (''request_id'', Some (rq_request_id rq))" and "hex_digests (ge_runtime env)"
  shows "list_all inbox_row_fits (mt_inbox (gw_tables g'))"
proof -
  have width: "varchar_width tenant_table ''id'' = Some 64" by code_simp
  obtain n p a where n: "negotiate_request st rq = Inr n"
    and au: "authenticate_ingest_key (ge_auth env) (ge_keys env) (ge_tenants env) (header_get rq ''authorization'')
       (ng_app_id n) (ng_environment n) (gw_auth g) = (a, Inr p)"
    and pb: "process_batch env st rq n p seen (gw_tables g) = Inr (gw_tables g', response)"
    by (rule ingest_eventsD[OF assms(1)])
  obtain dr md keys res payload where dec: "decode_request env st rq n payload = Inr dr"
    and md: "request_metadata rq p (ng_app_id n) (ng_environment n) (ng_schema_version n) (ng_sdk_version n)
       (protocol_label n) dr = Inr md"
    and keys: "wf_keys keys"
    and tr: "ingest_transaction env st p md (dr_events dr) keys seen (gw_tables g) = Inr (gw_tables g', res)"
    by (rule process_batchD[OF pb]) blast
  obtain inbox k where ins: "insert_batch (ge_runtime env) (ge_dialect env) (ge_now env) md (dr_events dr) keys seen
      (mt_inbox (gw_tables g)) = Inr (inbox, res)"
    and enq: "enqueue_symbolization_jobs (ge_runtime env) (ge_dialect env) (gs_symbolization_enabled st) (ge_now env) md
       (dr_events dr) inbox (mt_jobs (gw_tables g)) = Inr (mt_inbox (gw_tables g'), mt_jobs (gw_tables g'), k)"
    by (rule ingest_transactionD[OF tr]) blast
  have "cp_len (pr_tenant_id p) \<le> 64"
    using ingest_backed[OF au] assms(3) width by (auto simp: ingest_backing_def fits_def)
  moreover have "cp_len (rq_request_id rq) \<le> 64"
    using assms(4) inbox_widths by (simp add: fits_def)
  ultimately have "metadata_fits md"
    using request_metadata_fits[OF md negotiated_lengths[OF n]] decoded_request_bounds(2)[OF dec] by blast
  then have "list_all inbox_row_fits inbox"
    by (rule insert_batch_fits[OF ins assms(2) decoded_request_bounds(1)[OF dec] _ keys assms(5)])
  then show ?thesis by (rule enqueue_fits[OF enq])
qed

definition sample_width_env :: "unit gateway_env" where
  "sample_width_env =
     sample_gateway_env\<lparr>ge_runtime := sample_runtime\<lparr>rt_sha256_hex := (\<lambda>_. replicate 64 (CHR ''0'')),
       rt_hmac_sha256_hex := (\<lambda>_ _. replicate 64 (CHR ''0''))\<rparr>\<rparr>"

theorem accepted_rows_fit_the_schema_witness:
  "\<exists>g' response. ingest_events sample_width_env sample_ingest_settings sample_request [] sample_gateway = (g', Inr response) \<and>
     list_all inbox_row_fits (mt_inbox (gw_tables g'))"
proof -
  define out where "out = ingest_events sample_width_env sample_ingest_settings sample_request [] sample_gateway"
  have "case snd out of Inr _ \<Rightarrow> True | Inl _ \<Rightarrow> False"
    unfolding out_def by code_simp
  then obtain g' response where o: "ingest_events sample_width_env sample_ingest_settings sample_request [] sample_gateway = (g', Inr response)"
    by (cases out) (auto simp: out_def split: sum.splits)
  have "list_all inbox_row_fits (mt_inbox (gw_tables sample_gateway))"
    by (simp add: sample_gateway_def)
  moreover have "\<forall>t \<in> set (ge_tenants sample_width_env). fits tenant_table (''id'', Some (tn_id t))"
    by code_simp
  moreover have "fits inbox_event_table (''request_id'', Some (rq_request_id sample_request))"
    by code_simp
  moreover have "hex_digests (ge_runtime sample_width_env)"
    by (simp add: hex_digests_def sample_width_env_def)
  ultimately show ?thesis
    using accepted_rows_fit_the_schema[OF o] o by blast
qed

end
