(* ===== verification/Apm_Preview.thy ===== *)
theory Apm_Preview
  imports Apm_Admin Apm_Inbox
begin

section \<open>The local preview\<close>

text \<open>
  The model of \<^verbatim>\<open>scripts/seed_local_preview.py\<close>, which prepares a local database with credentials and a
  synthetic release: the guard on the database, the fixture events, the credentials with their audit
  rows and the two batches, in one session that is committed at the end. The parsed database address
  and the resolution of paths are parameters, and so is the rendering of the hour. \<open>Inl\<close> is the
  exception that ends the script, after which the session is rolled back.
\<close>

definition TENANT_ID :: string where "TENANT_ID = ''local-preview''"
definition TENANT_NAME :: string where "TENANT_NAME = ''Local Preview''"
definition APP_ID :: string where "APP_ID = ''com.example.androidapm''"
definition ENVIRONMENT :: string where "ENVIRONMENT = ''production''"

record preview_env =
  pv_config :: config_env
  pv_environment :: string
  pv_backend :: string
  pv_database :: "string option"
  pv_resolve :: "string \<Rightarrow> string list"
  pv_local_root :: "string list"
  pv_keys_json :: string
  pv_active_version :: string
  pv_hour :: "int \<Rightarrow> string"
  pv_query_random :: randomness
  pv_ingest_random :: randomness

record preview_tables = admin_tables +
  pt_inbox :: "inbox_event list"

text \<open>A path is relative to the root when it starts with the parts of the root.\<close>

definition assert_local_database :: "preview_env \<Rightarrow> unit result" where
  "assert_local_database env =
     (case pv_database env of
        None \<Rightarrow> Inl (Uncaught ''RuntimeError'')
      | Some database \<Rightarrow>
          if py_lower (pv_environment env) \<noteq> ''local'' \<or> pv_backend env \<noteq> ''sqlite'' \<or> database = []
          then Inl (Uncaught ''RuntimeError'')
          else if take (length (pv_local_root env)) (pv_resolve env database) = pv_local_root env then Inr ()
          else Inl (Uncaught ''RuntimeError''))"

subsection \<open>Fixture\<close>

text \<open>The construction of a model class; a failed validation is not caught by the script.\<close>

definition built :: "'a validated \<Rightarrow> 'a result" where
  "built v = (case v of Inl (Invalid_field _ _) \<Rightarrow> Inl (Uncaught ''ValidationError'')
                      | Inl Escaped \<Rightarrow> Inl (Uncaught ''OverflowError'') | Inr x \<Rightarrow> Inr x)"

definition preview_event ::
    "config_env \<Rightarrow> string \<Rightarrow> string \<Rightarrow> string \<Rightarrow> (string \<times> scalar) list \<Rightarrow> string \<Rightarrow> string \<Rightarrow> int \<Rightarrow> apm_event result" where
  "preview_event env event_id module_name name fs release installation_id timestamp_ms =
     (let incident = (module_name, name) \<in> {(''crash'', ''java_crash''), (''anr'', ''anr_detected'')}
      in rbind (built (mk_occurrence release (filter (\<lambda>c. c \<noteq> CHR ''.'') release) (''preview-build-'' @ release) ''debug''
                         installation_id [])) (\<lambda>occurrence.
         built (mk_event (ce_runtime env) (ce_now env)
           \<lparr>arg_timestamp = timestamp_ms, arg_event_id = event_id, arg_module = module_name, arg_name = name,
            arg_kind = (if incident then ''ALERT'' else ''METRIC''),
            arg_severity = (if module_name \<in> {''crash'', ''anr''} then ''ERROR'' else ''INFO''),
            arg_priority = (if incident then ''CRITICAL'' else ''NORMAL''),
            arg_process_name = APP_ID, arg_thread_name = ''main'', arg_scene = Some ''CheckoutActivity'',
            arg_foreground = Some True, arg_fields = fs, arg_field_types = [], arg_global_context = [],
            arg_extras = [], arg_unknown = [], arg_occurrence = Some occurrence\<rparr>)))"

definition health_fields :: "int \<Rightarrow> int \<Rightarrow> rat \<Rightarrow> (string \<times> scalar) list" where
  "health_fields emitted dropped rate =
     [(''emitCount'', SInt emitted), (''dropCount'', SInt dropped), (''dropRate'', SFloat (Fin rate))]"

definition fixture_specs :: "int \<Rightarrow> (string \<times> string \<times> string \<times> (string \<times> scalar) list \<times> string \<times> string) list" where
  "fixture_specs timestamp_ms =
     [(''baseline-health-a'', ''core'', ''sdk_health'', health_fields 100 0 0, ''1.0.0'', ''baseline-a''),
      (''baseline-health-b'', ''core'', ''sdk_health'', health_fields 80 0 0, ''1.0.0'', ''baseline-b''),
      (''baseline-crash'', ''crash'', ''java_crash'',
       [(''stackTrace'', SStr ''at com.example.checkout.Payment.run(Payment.kt:41)'')], ''1.0.0'', ''baseline-a''),
      (''new-health-a'', ''core'', ''sdk_health'',
       health_fields 120 1 (4784624244118415 / 576460752303423488), ''2.0.0'', ''new-a''),
      (''new-health-b'', ''core'', ''sdk_health'', health_fields 95 0 0, ''2.0.0'', ''new-b''),
      (''new-network'', ''network'', ''network_request'', [(''durationMs'', SFloat (Fin 428))], ''2.0.0'', ''new-b''),
      (''new-crash-a'', ''crash'', ''java_crash'',
       [(''stackTrace'', SStr ''at com.example.checkout.Payment.run(Payment.kt:88)'')], ''2.0.0'', ''new-a''),
      (''new-crash-b'', ''crash'', ''java_crash'',
       [(''stackTrace'', SStr ''at com.example.checkout.Payment.run(Payment.kt:93)'')], ''2.0.0'', ''new-b''),
      (''new-anr'', ''anr'', ''anr_detected'',
       [(''mainThreadStack'', SStr ''at com.example.checkout.Cart.block(Cart.kt:120)'')], ''2.0.0'', ''new-b''),
      (''new-normal-exit'', ''crash'', ''app_exit'',
       [(''reasonName'', SStr ''EXIT_SELF''), (''exitTimestamp'', SInt (timestamp_ms - 60000))], ''2.0.0'', ''new-a''),
      (''new-crash-exit'', ''crash'', ''app_exit'',
       [(''reasonName'', SStr ''CRASH''), (''exitTimestamp'', SInt (timestamp_ms - 120000))], ''2.0.0'', ''new-b'')]"

definition fixture_events :: "config_env \<Rightarrow> string \<Rightarrow> int \<Rightarrow> apm_event list result" where
  "fixture_events env bucket_id timestamp_ms =
     rmap (\<lambda>(suffix, module_name, name, fs, release, installation).
             preview_event env (''preview-'' @ bucket_id @ ''-'' @ suffix) module_name name fs release
               (''preview-'' @ installation) timestamp_ms)
       (fixture_specs timestamp_ms)"

definition batch_declared_event :: "config_env \<Rightarrow> string \<Rightarrow> int \<Rightarrow> apm_event result" where
  "batch_declared_event env bucket_id timestamp_ms =
     built (mk_event (ce_runtime env) (ce_now env)
       \<lparr>arg_timestamp = timestamp_ms, arg_event_id = ''preview-'' @ bucket_id @ ''-v2-compatibility'',
        arg_module = ''crash'', arg_name = ''java_crash'', arg_kind = ''ALERT'', arg_severity = ''ERROR'',
        arg_priority = ''CRITICAL'', arg_process_name = APP_ID, arg_thread_name = ''main'',
        arg_scene = Some ''LegacyUpload'', arg_foreground = Some True,
        arg_fields = [(''stackTrace'', SStr ''at com.example.legacy.Upload.run(Upload.kt:1)'')],
        arg_field_types = [], arg_global_context = [], arg_extras = [], arg_unknown = [], arg_occurrence = None\<rparr>)"

definition preview_metadata ::
    "string \<Rightarrow> string \<Rightarrow> string \<Rightarrow> string option \<Rightarrow> string option \<Rightarrow> identity_quality \<Rightarrow> identity_quality \<Rightarrow> ingest_metadata" where
  "preview_metadata request_id schema_version protocol app_version installation_id release_quality installation_quality =
     \<lparr>md_request_id = request_id, md_tenant_id = TENANT_ID, md_app_id = APP_ID, md_environment = ENVIRONMENT,
      md_schema_version = schema_version, md_sdk_version = ''local-preview'', md_app_version = app_version,
      md_app_build = None, md_version_code = None, md_variant = None, md_protocol = protocol,
      md_release_identity_quality = release_quality, md_installation_identity_quality = installation_quality,
      md_installation_id = installation_id\<rparr>"

text \<open>The metadata of the two batches, with the defaults of the keyword arguments filled in.\<close>

definition fixture_metadata :: "string \<Rightarrow> ingest_metadata" where
  "fixture_metadata bucket_id =
     preview_metadata (''local-preview-'' @ bucket_id) ''3'' ''protobuf-envelope-v3'' None None ABSENT ABSENT"

definition compatibility_metadata :: "string \<Rightarrow> ingest_metadata" where
  "compatibility_metadata bucket_id =
     preview_metadata (''local-preview-v2-'' @ bucket_id) ''2'' ''protobuf-envelope-v2'' (Some ''2.0.0'')
       (Some (''preview-v2-'' @ bucket_id)) BATCH_DECLARED BATCH_DECLARED"

subsection \<open>Seeding\<close>

definition key_audit :: "config_env \<Rightarrow> string \<Rightarrow> string \<Rightarrow> string \<Rightarrow> time \<Rightarrow> audit_log" where
  "key_audit env key_id action object_type expires_at =
     admin_audit env TENANT_ID ''local-preview-script'' action object_type key_id
       [(''app_id'', jstr APP_ID), (''environment'', jstr ENVIRONMENT),
        (''expires_at'', jstr (ce_isoformat env expires_at)), (''synthetic_preview'', jbool True)]"

definition preview_tenant :: "config_env \<Rightarrow> string \<Rightarrow> tenant list \<Rightarrow> tenant list result" where
  "preview_tenant env salt tenants =
     (case find_tenant TENANT_ID tenants of
        None \<Rightarrow>
          Inr (tenants @ [\<lparr>tn_id = TENANT_ID, tn_name = TENANT_NAME, tn_active = True,
                           tn_created_at = ce_now env, tn_config_rollout_salt = salt\<rparr>])
      | Some t \<Rightarrow> if tn_name t \<noteq> TENANT_NAME \<or> \<not> tn_active t then Inl (Uncaught ''RuntimeError'') else Inr tenants)"

text \<open>An error of the helpers shared with the administration command is not caught either.\<close>

definition uncaught :: "string \<Rightarrow> string + 'a \<Rightarrow> 'a result" where
  "uncaught name r = (case r of Inl _ \<Rightarrow> Inl (Uncaught name) | Inr x \<Rightarrow> Inr x)"

definition preview_query_key :: "config_env \<Rightarrow> string \<Rightarrow> string \<Rightarrow> time \<Rightarrow> query_key" where
  "preview_query_key env key_id key_hash expires_at =
     \<lparr>qk_key_id = key_id, qk_tenant_id = TENANT_ID, qk_key_hash = key_hash, qk_app_id = APP_ID,
      qk_environment = ENVIRONMENT, qk_role = ''investigator'', qk_active = True, qk_expires_at = Some expires_at,
      qk_created_at = ce_now env, qk_revoked_at = None,
      qk_description = Some ''Local Web preview; expires after one day''\<rparr>"

definition preview_ingest_key :: "config_env \<Rightarrow> string \<Rightarrow> string \<Rightarrow> time \<Rightarrow> ingest_key" where
  "preview_ingest_key env key_id key_hash expires_at =
     \<lparr>ik_key_id = key_id, ik_tenant_id = TENANT_ID, ik_key_hash = key_hash, ik_app_id = APP_ID,
      ik_environment = ENVIRONMENT, ik_active = True, ik_expires_at = Some expires_at, ik_created_at = ce_now env,
      ik_revoked_at = None, ik_description = Some ''Local Android uploader; expires after one day'',
      ik_requests_per_minute = 600, ik_events_per_minute = 30000\<rparr>"

text \<open>The start of the six-hour bucket of a time, in seconds; \<open>int\<close> cuts towards zero.\<close>

definition bucket_start :: "time \<Rightarrow> int" where
  "bucket_start now =
     (let seconds = (if 0 \<le> now then now div MICROSECONDS else - (- now div MICROSECONDS));
          bucket_seconds = 6 * 60 * 60
      in seconds div bucket_seconds * bucket_seconds)"

definition seed_batches ::
    "preview_env \<Rightarrow> installation_hmac_key_ring \<Rightarrow> inbox_event list \<Rightarrow> (inbox_event list \<times> int \<times> int) result" where
  "seed_batches env key_ring inbox =
     (let c = pv_config env;
          bucket_epoch = bucket_start (ce_now c);
          occurrence_ms = (bucket_epoch - 5 * 60) * 1000;
          bucket_id = pv_hour env bucket_epoch
      in rbind (fixture_events c bucket_id occurrence_ms) (\<lambda>events.
         rbind (insert_batch (ce_runtime c) Sqlite (ce_now c) (fixture_metadata bucket_id) events (Some key_ring)
                  inbox inbox) (\<lambda>(inbox1, res).
         rbind (batch_declared_event c bucket_id occurrence_ms) (\<lambda>event.
         rbind (insert_batch (ce_runtime c) Sqlite (ce_now c) (compatibility_metadata bucket_id) [event] (Some key_ring)
                  inbox1 inbox1) (\<lambda>(inbox2, compatibility).
           Inr (inbox2, ir_inserted res, ir_inserted compatibility))))))"

definition seed_local_preview ::
    "preview_env \<Rightarrow> preview_tables \<Rightarrow> (preview_tables \<times> string \<times> string \<times> int \<times> int) result" where
  "seed_local_preview env db =
     (let c = pv_config env; q = pv_query_random env; i = pv_ingest_random env
      in rbind (assert_local_database env) (\<lambda>_.
         rbind (uncaught ''ValueError'' (parse_key_ring (ce_runtime c) (pv_keys_json env) (pv_active_version env))) (\<lambda>key_ring.
         rbind (uncaught ''OverflowError'' (time_after (ce_now c) (86400 * MICROSECONDS))) (\<lambda>expires_at.
         let (query_id, query_plaintext, query_hash) = generate_query_key (rn_hash q) (rn_id_bytes q) (rn_secret q);
             (ingest_id, ingest_plaintext, ingest_hash) = generate_ingest_key (rn_hash i) (rn_id_bytes i) (rn_secret i)
         in
         rbind (preview_tenant c (rn_salt q) (at_tenants db)) (\<lambda>tenants.
         rbind (uncaught ''IntegrityError'' (insert_key qk_key_id (preview_query_key c query_id query_hash expires_at)
                  (at_query_keys db))) (\<lambda>query_keys.
         rbind (uncaught ''IntegrityError'' (insert_key ik_key_id (preview_ingest_key c ingest_id ingest_hash expires_at)
                  (at_ingest_keys db))) (\<lambda>ingest_keys.
         rbind (seed_batches env key_ring (pt_inbox db)) (\<lambda>(inbox, inserted, compatibility).
           Inr (db\<lparr>at_tenants := tenants, at_query_keys := query_keys, at_ingest_keys := ingest_keys,
                   at_audit := at_audit db @ [key_audit c query_id ''query_key.create'' ''query_key'' expires_at,
                                              key_audit c ingest_id ''ingest_key.create'' ''ingest_key'' expires_at],
                   pt_inbox := inbox\<rparr>,
                query_plaintext, ingest_plaintext, inserted, compatibility)))))))))"

subsection \<open>Properties\<close>

lemma compatibility_event_shape:
  "batch_declared_event env bucket_id timestamp_ms = Inr e \<Longrightarrow> ev_occurrence e = None"
  by (auto simp: batch_declared_event_def built_def mk_event_def split: sum.splits validation_error.splits)

lemma compatibility_request_embeds_installation:
  "sublist (''preview-v2-'' @ bucket_id) (''local-preview-v2-'' @ bucket_id)"
  using sublist_appendI[of "''preview-v2-'' @ bucket_id" "''local-''" "[]"] by simp

lemma compatibility_event_refused:
  assumes "ev_occurrence e = None" "installation_digest rt keys TENANT_ID (Some (''preview-v2-'' @ bucket_id)) = Inr d"
  shows "prepare_event rt (compatibility_metadata bucket_id) keys e =
    Inl (mk_error 422 ''privacy_identity_conflict'' ''Required identity contains installation data'' False None)"
  using assms compatibility_request_embeds_installation[of bucket_id]
  by (cases d) (simp add: prepare_event_def event_installation_def compatibility_metadata_def preview_metadata_def
      privacy_fields_def Let_def)

text \<open>
  The second batch of the script names its request after the installation it declares, which the
  inbox refuses whatever it already holds.
\<close>

lemma compatibility_batch_refused:
  assumes "ev_occurrence e = None" "installation_digest rt keys TENANT_ID (Some (''preview-v2-'' @ bucket_id)) = Inr d"
  shows "insert_batch rt dialect now (compatibility_metadata bucket_id) [e] keys seen tbl =
    Inl (mk_error 422 ''privacy_identity_conflict'' ''Required identity contains installation data'' False None)"
  by (simp add: insert_batch_def prepare_unique_events_def hashed_event_def compatibility_event_refused[OF assms])

lemma compatibility_batch_fails:
  assumes "ev_occurrence e = None"
  shows "\<exists>err. insert_batch rt dialect now (compatibility_metadata bucket_id) [e] keys seen tbl = Inl err"
proof (cases "installation_digest rt keys TENANT_ID (Some (''preview-v2-'' @ bucket_id))")
  case (Inl err)
  then have "prepare_event rt (compatibility_metadata bucket_id) keys e = Inl err"
    using assms by (simp add: prepare_event_def event_installation_def compatibility_metadata_def preview_metadata_def Let_def)
  then show ?thesis
    by (simp add: insert_batch_def prepare_unique_events_def hashed_event_def)
qed (use compatibility_batch_refused[OF assms] in blast)

text \<open>
  C40. The preview is never prepared. Whatever the settings, the clock, the generated keys and the database,
  the script ends with an exception, so nothing of what it added is committed: when everything before it
  succeeds, the compatibility batch is refused because its request id embeds its installation id.
\<close>

theorem preview_is_never_prepared: "\<exists>err. seed_local_preview env db = Inl err"
proof (cases "seed_local_preview env db")
  case (Inr out)
  then obtain key_ring where "\<exists>x. seed_batches env key_ring (pt_inbox db) = Inr x"
    by (auto simp: seed_local_preview_def Let_def case_prod_beta)
  then obtain e rt dialect now bucket_id keys tbl x timestamp_ms c where
    b: "batch_declared_event c bucket_id timestamp_ms = Inr e"
    "insert_batch rt dialect now (compatibility_metadata bucket_id) [e] keys tbl tbl = Inr x"
    by (auto simp: seed_batches_def Let_def split: prod.splits)
  show ?thesis
    using compatibility_batch_fails[OF compatibility_event_shape[OF b(1)], of rt dialect now bucket_id keys tbl tbl] b(2)
    by auto
qed blast

end
