(* ===== verification/Spec2Isabelle.thy ===== *)
theory Spec2Isabelle
  imports Apm_System Apm_Query_Quality Apm_Query_Access Apm_Admin Apm_Config Apm_Gateway Apm_Assets Apm_Migration
    Apm_Schema_History Apm_Schema_Rows Apm_Preview
begin

section \<open>The AndroidAPM server\<close>

text \<open>
  A verification development for the AndroidAPM server, the Python service that receives telemetry
  batches from Android installations, keeps them durably, exports them to an OTLP backend, symbolizes
  crashes and answers scoped queries. All paths below are relative to \<open>src/src/androidapm_server\<close>.

  \<^bold>\<open>The program.\<close> A gateway process authenticates a batch, decodes it, charges its quota and inserts it
  with a row per event into the inbox before it acknowledges it. An export worker claims rows under a
  lease, maps them to OTLP, sends them and settles them; it also runs the retention pass. A
  symbolization worker claims jobs the gateway created, resolves uploaded artifacts of exactly the
  same build, runs an external tool and publishes the result. The query plane answers from the same
  tables under the scope of a credential or of a browser session. All processes meet only in the
  database, so the tables are the shared state and a transaction is the unit of interleaving.

  \<^bold>\<open>The theories and the code they model.\<close>
  \<^item> \<open>Apm_Prelude\<close>: types, Python text and JSON, results, the SQL forms on lists, generic lemmas.
    \<open>Apm_Grouping\<close>: \<open>GROUP BY\<close> and counters.
  \<^item> \<open>Apm_Domain\<close> (\<open>domain.py\<close>, \<open>constants.py\<close>): events with every validator. \<open>Apm_Identity\<close>
    (\<open>identity.py\<close>): the installation key ring. \<open>Apm_Normalization\<close> (\<open>normalization.py\<close>): the field
    registry, coercion and fingerprints.
  \<^item> \<open>Apm_Protocol\<close> (\<open>protocol/compression.py\<close>, \<open>line.py\<close>, \<open>protobuf.py\<close>, \<open>decoder.py\<close>) and
    \<open>Apm_Envelope\<close> (\<open>protocol/envelope_v2.py\<close>, \<open>envelope_v3.py\<close>): all decoders with their located errors.
  \<^item> \<open>Apm_Models\<close> (\<open>db/models.py\<close>): one record per table, constraints as predicates. \<open>Apm_Inbox\<close>
    (\<open>db/inbox.py\<close>): preparation, conflict detection and the insert with a concurrent writer.
    \<open>Apm_Leases\<close> (\<open>db/leases.py\<close>): the locale \<open>leased_table\<close>, the contract of every leased table,
    interpreted for the inbox in \<open>Apm_Export\<close> and for the jobs in \<open>Apm_Symbol_Jobs\<close>.
  \<^item> \<open>Apm_Export\<close> (\<open>db/worker.py\<close>, \<open>worker.py\<close>): claim, fenced completion and the export cycle.
    \<open>Apm_Otlp\<close> (\<open>otlp/logs.py\<close>, \<open>otlp/client.py\<close>): the mapping and the classification of answers.
    \<open>Apm_Maintenance\<close> (\<open>db/maintenance.py\<close>): capacity and retention. \<open>Apm_Loops\<close>: the two processes
    (\<open>worker_loop\<close>, \<open>symbolizer_loop\<close>). \<open>Apm_Observability\<close> (\<open>observability.py\<close>, \<open>api/health.py\<close>).
  \<^item> \<open>Apm_Symbol_Jobs\<close> (\<open>db/symbolization.py\<close>), \<open>Apm_Artifacts\<close> (\<open>artifacts.py\<close>, \<open>db/artifacts.py\<close>,
    \<open>api/artifacts.py\<close>), \<open>Apm_Symbolization\<close> (\<open>symbolization.py\<close>) and \<open>Apm_Symbolizer_Worker\<close>
    (\<open>symbolizer_worker.py\<close>): jobs, uploads, tools and the claim cycle. \<open>Apm_Migration\<close>: the data
    migration \<open>20260912_0007\<close> of the fingerprints these jobs publish.
  \<^item> \<open>Apm_Auth\<close> (\<open>auth.py\<close>, \<open>ci_auth.py\<close>, \<open>query_auth.py\<close>, \<open>auth_budget.py\<close>): credentials and the attempt
    budget; the locale of the three key tables is interpreted on each. \<open>Apm_Quota\<close> (\<open>db/quota.py\<close>).
    \<open>Apm_Ingest_Api\<close> (\<open>api/ingest.py\<close>): the whole ingestion handler.
  \<^item> \<open>Apm_Tokens\<close>, \<open>Apm_Query_Store\<close> (\<open>db/query.py\<close>), \<open>Apm_Query\<close>, \<open>Apm_Query_Quality\<close> (\<open>query.py\<close>),
    \<open>Apm_Query_Api\<close>, \<open>Apm_Query_Access\<close> (\<open>api/query.py\<close>), \<open>Apm_Web\<close> (\<open>web_auth.py\<close>, \<open>api/web.py\<close>): cursors,
    statements, response builders, endpoints and browser sessions.
  \<^item> \<open>Apm_Remote_Config\<close> (\<open>remote_config.py\<close>, \<open>api/remote_config.py\<close>) and \<open>Apm_Admin\<close> (\<open>admin.py\<close>).
  \<^item> \<open>Apm_Gateway\<close> (\<open>errors.py\<close>, \<open>api/middleware.py\<close>, \<open>logging.py\<close>, \<open>main.py\<close>), \<open>Apm_Config\<close>
    (\<open>config.py\<close>) and \<open>Apm_Assets\<close> (\<open>signoz/assets.py\<close>, \<open>scripts/sync_signoz_assets.py\<close>).
  \<^item> \<open>Apm_Schema\<close> (\<open>alembic/versions\<close>, the table declarations of \<open>db/models.py\<close>, \<open>db/base.py\<close>): every
    statement of the seven revisions and the tables of the model classes. \<open>Apm_Schema_History\<close>: what
    running the revisions forwards and backwards does. \<open>Apm_Schema_Rows\<close>: the limits of the gateway
    against the widths of the columns.
  \<^item> \<open>Apm_Preview\<close> (\<open>scripts/seed_local_preview.py\<close>): the preparation of a local preview.
  \<^item> \<open>Apm_System\<close>: all transactions on the inbox and the jobs as one step relation, and the ledger of
    acknowledged events that it refines. The locales \<open>simulation\<close> and \<open>monotone_simulation\<close> carry the
    argument from one step to any run; they are interpreted on the store. The phases of an event are
    ordered, so that progress is stated as \<open>\<le>\<close>.
\<close>

text \<open>
  \<^bold>\<open>What the theorems show.\<close> Durability: every reachable store satisfies the table invariants, an
  acknowledged event is never lost or reopened under any interleaving of the processes, an accepted
  request is stored before the answer, a replay is a duplicate, and any run of the export process, with
  its failures and cancellations, is such an interleaving. Delivery: claims are exclusive, completions
  are fenced by the lease, a healthy cycle delivers, unmappable rows are isolated, the loop survives
  every failure, and the backlog gauge counts exactly the rows the exporter could claim.
  Symbolization: only exact artifacts, one result per frame, every claimed job is settled, uploads keep
  the store intact, the fingerprint migration is reversible. Schema: the revisions build exactly the
  tables the model classes declare, and each can be taken back except where identities would be cut;
  every row of an accepted request fits its columns. Scope and privacy: a principal is backed
  by an active key, reads depend on rows of their own scope only, raw evidence is released with an
  audit row and never exported, exceptions reveal no message. Trustworthy answers: pagination
  enumerates every event once, counts equal the rows they describe, ratios are shown exactly when they
  are trustworthy. Bounds: quotas, batches, the settings and the tool timeout within its lease.

  \<^bold>\<open>How the code is represented.\<close> A table is a list of rows in primary key order of insertion; a
  statement is a function on it; a transaction returns the new tables or an error and no change. What
  other processes commit between two statements is an argument of the operation that can observe it
  (the rows another writer inserted, the changes during an exchange with the backend); rows another
  transaction has locked are a predicate. Clock readings, random tokens and network answers are
  arguments. Text is its UTF-8 bytes; code points are counted where the source counts them. A time is
  a number of microseconds since the epoch. Floats are the rationals they denote or the special
  values, so ratios are exact. Hash functions, HMAC, Argon2, Base64 and JSON parsing, signatures, ELF
  and Protobuf parsing, the external tools, the SigNoz server and HTTP are parameters; a theorem that
  needs a law of one of them has it as a hypothesis, with a witness.

  \<^bold>\<open>Loops and fuel.\<close> Every definition is total. Loops over data are structural or have a measure. The two
  endless process loops take the list of their rounds, so a statement about all lists is a statement
  about every finite prefix of the run; nothing is assumed to end. Pagination is bounded by the number
  of rows and the theorem proves that it ends.

  \<^bold>\<open>Not modelled.\<close> What PostgreSQL does with a row that does not fit its columns (for ingestion
  it is proved not to happen); the values revisions 0003 and 0005 fill into new columns
  beyond their presence; engine and session construction (\<open>db/session.py\<close>, \<open>alembic/env.py\<close>),
  installation of the log processors and routing, counters and histograms of \<open>metrics.py\<close>, generated
  Protobuf classes and their compiler call, the documentation check, and failing file system calls. These
  are configuration of libraries, generated code or tools without state of the service.

  \<^bold>\<open>Findings.\<close> The line decoder lets an overflowing timestamp escape as an uncaught error; fields of the
  fixed schema are re-added after minimization against the comment; a CSRF header outside ASCII is an
  uncaught error; the documentation address is disabled only for the exact spelling of production; and the
  script that seeds the local preview fails on every run, because its own request id embeds the
  installation id it declares.
\<close>

end
